(* ===== verification/Prelude.thy ===== *)
theory Prelude
  imports Complex_Main "HOL-Library.Multiset" "HOL-Library.List_Lexorder" "HOL-Library.Char_ord"
begin

text \<open>
  Shared vocabulary of the development: identifiers, instants, the exceptions the NestJS
  services raise, the monad their methods run in, the relational operations their Prisma
  queries denote, and the proof rules the component theories use.

  A service method is a value of type \<open>('s, 'a) exec\<close>: it takes the database and
  returns either the exception it throws (\<open>Inl\<close>) or its result (\<open>Inr\<close>), together with
  the database it leaves behind. Writes made before an exception stay, as they do in the
  source outside a transaction; \<open>transact\<close> is \<open>prisma.$transaction\<close>, which undoes
  them. The text of error messages and notes is the source's with diacritics and
  typographic symbols reduced to ASCII.
\<close>

section \<open>Basic types\<close>

type_synonym id = string

text \<open>Milliseconds since the epoch, as \<open>Date.now()\<close>.\<close>

type_synonym time = int

datatype error =
    BadRequest string
  | NotFound string
  | Forbidden string
  | Unauthorized string
  | Conflict string
  | Failure string

type_synonym ('s, 'a) exec = "'s \<Rightarrow> (error + 'a) \<times> 's"

named_theorems exec_simps "evaluation of the service monad"
named_theorems step_rules "compositional rules for two-state properties"

section \<open>The service monad\<close>

definition ret :: "'a \<Rightarrow> ('s, 'a) exec" where
  "ret x = (\<lambda>s. (Inr x, s))"

definition throw :: "error \<Rightarrow> ('s, 'a) exec" where
  "throw e = (\<lambda>s. (Inl e, s))"

definition bindE :: "('s, 'a) exec \<Rightarrow> ('a \<Rightarrow> ('s, 'b) exec) \<Rightarrow> ('s, 'b) exec" where
  "bindE m f = (\<lambda>s. case m s of (Inl e, s') \<Rightarrow> (Inl e, s') | (Inr x, s') \<Rightarrow> f x s')"

definition thenE :: "('s, 'a) exec \<Rightarrow> ('s, 'b) exec \<Rightarrow> ('s, 'b) exec" where
  "thenE m k = bindE m (\<lambda>_. k)"

definition asks :: "('s \<Rightarrow> 'a) \<Rightarrow> ('s, 'a) exec" where
  "asks f = (\<lambda>s. (Inr (f s), s))"

definition modify :: "('s \<Rightarrow> 's) \<Rightarrow> ('s, unit) exec" where
  "modify f = (\<lambda>s. (Inr (), f s))"

text \<open>\<open>require b e\<close> is the guard \<open>if (!b) throw e\<close>; \<open>whenE b m\<close> is \<open>if (b) m\<close>.\<close>

definition require :: "bool \<Rightarrow> error \<Rightarrow> ('s, unit) exec" where
  "require b e = (if b then ret () else throw e)"

definition whenE :: "bool \<Rightarrow> ('s, unit) exec \<Rightarrow> ('s, unit) exec" where
  "whenE b m = (if b then m else ret ())"

text \<open>\<open>try { ... } catch { ... }\<close>: the handler runs on the state the body left.\<close>

definition catchE :: "('s, 'a) exec \<Rightarrow> (error \<Rightarrow> ('s, 'a) exec) \<Rightarrow> ('s, 'a) exec" where
  "catchE m h = (\<lambda>s. case m s of (Inl e, s') \<Rightarrow> h e s' | (Inr x, s') \<Rightarrow> (Inr x, s'))"

text \<open>A call whose failure is swallowed (\<open>try { await f() } catch { log }\<close>).\<close>

definition bestEffort :: "('s, 'a) exec \<Rightarrow> ('s, unit) exec" where
  "bestEffort m = catchE (thenE m (ret ())) (\<lambda>_. ret ())"

definition transact :: "('s, 'a) exec \<Rightarrow> ('s, 'a) exec" where
  "transact m = (\<lambda>s. case m s of (Inl e, s') \<Rightarrow> (Inl e, s) | (Inr x, s') \<Rightarrow> (Inr x, s'))"

primrec forEach :: "'a list \<Rightarrow> ('a \<Rightarrow> ('s, unit) exec) \<Rightarrow> ('s, unit) exec" where
  "forEach [] f = ret ()"
| "forEach (x # xs) f = thenE (f x) (forEach xs f)"

primrec foldE :: "('b \<Rightarrow> 'a \<Rightarrow> ('s, 'b) exec) \<Rightarrow> 'b \<Rightarrow> 'a list \<Rightarrow> ('s, 'b) exec" where
  "foldE f acc [] = ret acc"
| "foldE f acc (x # xs) = bindE (f acc x) (\<lambda>acc'. foldE f acc' xs)"

lemma ret_run [exec_simps]: "ret x s = (Inr x, s)"
  by (simp add: ret_def)

lemma throw_run [exec_simps]: "throw e s = (Inl e, s)"
  by (simp add: throw_def)

lemma bindE_run [exec_simps]:
  "bindE m f s = (case m s of (Inl e, s') \<Rightarrow> (Inl e, s') | (Inr x, s') \<Rightarrow> f x s')"
  by (simp add: bindE_def)

lemma thenE_run [exec_simps]:
  "thenE m k s = (case m s of (Inl e, s') \<Rightarrow> (Inl e, s') | (Inr _, s') \<Rightarrow> k s')"
  by (simp add: thenE_def bindE_def)

lemma asks_run [exec_simps]: "asks f s = (Inr (f s), s)"
  by (simp add: asks_def)

lemma modify_run [exec_simps]: "modify f s = (Inr (), f s)"
  by (simp add: modify_def)

lemma require_run [exec_simps]: "require b e s = (if b then (Inr (), s) else (Inl e, s))"
  by (simp add: require_def exec_simps)

lemma whenE_run [exec_simps]: "whenE b m s = (if b then m s else (Inr (), s))"
  by (simp add: whenE_def exec_simps)

lemma catchE_run [exec_simps]:
  "catchE m h s = (case m s of (Inl e, s') \<Rightarrow> h e s' | (Inr x, s') \<Rightarrow> (Inr x, s'))"
  by (simp add: catchE_def)

lemma transact_run [exec_simps]:
  "transact m s = (case m s of (Inl e, s') \<Rightarrow> (Inl e, s) | (Inr x, s') \<Rightarrow> (Inr x, s'))"
  by (simp add: transact_def)

lemma bestEffort_run [exec_simps]: "bestEffort m s = (Inr (), snd (m s))"
  by (simp add: bestEffort_def exec_simps split: prod.splits sum.splits)

lemma snd_then_ret: "snd (thenE m (ret ()) s) = snd (m s)"
  by (simp add: exec_simps split: prod.split sum.split)

text \<open>The monad laws, for reordering the steps of a method.\<close>

lemma bindE_ret [simp]: "bindE (ret x) f = f x"
  by (simp add: fun_eq_iff exec_simps)

lemma bindE_throw [simp]: "bindE (throw e) f = throw e"
  by (simp add: fun_eq_iff exec_simps)

lemma bindE_ret_right [simp]: "bindE m ret = m"
  by (simp add: fun_eq_iff exec_simps split: prod.splits sum.splits)

lemma bindE_assoc: "bindE (bindE m f) g = bindE m (\<lambda>x. bindE (f x) g)"
  by (simp add: fun_eq_iff exec_simps split: prod.splits sum.splits)

lemma transact_throws: "fst (transact m s) = Inl e \<Longrightarrow> snd (transact m s) = s"
  by (simp add: exec_simps split: prod.splits sum.splits)

section \<open>JavaScript helpers\<close>

text \<open>
  \<open>Promise.all\<close> over calls started one after the other: every call runs, and the first
  rejection, if any, is the result.
\<close>

primrec promiseAll :: "('s, 'a) exec list \<Rightarrow> ('s, 'a list) exec" where
  "promiseAll [] = ret []"
| "promiseAll (m # ms) =
     (\<lambda>s. case m s of (r, s') \<Rightarrow>
        (case promiseAll ms s' of (rs, s'') \<Rightarrow>
           (case r of Inl e \<Rightarrow> Inl e
            | Inr x \<Rightarrow> (case rs of Inl e \<Rightarrow> Inl e | Inr xs \<Rightarrow> Inr (x # xs)), s'')))"

text \<open>\<open>[...new Set(xs)]\<close>: duplicates removed, first occurrences kept.\<close>

fun uniq :: "'a list \<Rightarrow> 'a list" where
  "uniq [] = []"
| "uniq (x # xs) = x # uniq (filter (\<lambda>y. y \<noteq> x) xs)"

lemma set_uniq [simp]: "set (uniq xs) = set xs"
  by (induction xs rule: uniq.induct) auto

lemma distinct_uniq [simp]: "distinct (uniq xs)"
  by (induction xs rule: uniq.induct) auto

text \<open>A slice by pages of \<open>n\<close>, as in the loops \<open>for (i = 0; i < xs.length; i += n)\<close>.\<close>

function chunks :: "nat \<Rightarrow> 'a list \<Rightarrow> 'a list list" where
  "chunks n xs = (if n = 0 \<or> xs = [] then [] else take n xs # chunks n (drop n xs))"
  by pat_completeness auto
termination
  by (relation "measure (\<lambda>(n, xs). length xs)") auto

declare chunks.simps [simp del]

lemma concat_chunks: "0 < n \<Longrightarrow> concat (chunks n xs) = xs"
proof (induction n xs rule: chunks.induct)
  case (1 n xs)
  then show ?case by (cases "xs = []") (simp_all add: chunks.simps [of n xs] chunks.simps [of n "[]"])
qed

end
