(* ===== verification/Queries.thy ===== *)
theory Queries
  imports Prelude
begin

text \<open>
  The relational operations that the services' Prisma calls denote, over a table kept as the
  list of its rows. A table of the database is a pair of a selector \<open>rows\<close> and the
  record update \<open>upd\<close> of the same field; the laws that make such a pair a table are the
  locale \<open>prisma_table\<close>, interpreted in theory Schema on every table of the model.

  \<^item> \<open>findFirst\<close>, \<open>findMany\<close>, \<open>countRows\<close> read; without an \<open>orderBy\<close> the rows come
    in the order of the list, and since nothing constrains that order a theorem about an
    arbitrary database covers every scan order;
  \<^item> \<open>insertRow\<close> is \<open>create\<close>: it throws Prisma's P2002 when a row with the same unique
    key (relation \<open>K\<close>) is there;
  \<^item> \<open>updateMany\<close> returns the number of rows it changed, \<open>updateOne\<close> (\<open>update\<close>)
    throws P2025 when there is no such row, \<open>deleteMany\<close> removes rows;
  \<^item> \<open>upsertRow\<close> updates the rows with the key or inserts one.
\<close>

section \<open>Operations on lists of rows\<close>

definition update_rows :: "('r \<Rightarrow> bool) \<Rightarrow> ('r \<Rightarrow> 'r) \<Rightarrow> 'r list \<Rightarrow> 'r list" where
  "update_rows P f xs = map (\<lambda>r. if P r then f r else r) xs"

definition count_rows :: "('r \<Rightarrow> bool) \<Rightarrow> 'r list \<Rightarrow> nat" where
  "count_rows P xs = length (filter P xs)"

lemma update_rows_simps [simp]:
  "update_rows P f [] = []"
  "update_rows P f (x # xs) = (if P x then f x else x) # update_rows P f xs"
  "update_rows P f (xs @ ys) = update_rows P f xs @ update_rows P f ys"
  by (simp_all add: update_rows_def)

lemma length_update_rows [simp]: "length (update_rows P f xs) = length xs"
  by (simp add: update_rows_def)

lemma set_update_rows: "set (update_rows P f xs) = (\<lambda>r. if P r then f r else r) ` set xs"
  by (simp add: update_rows_def)

lemma in_update_rowsE:
  assumes "r \<in> set (update_rows P f xs)"
  obtains r0 where "r0 \<in> set xs" "r = (if P r0 then f r0 else r0)"
  using assms by (auto simp: set_update_rows)

lemma in_update_rowsI:
  "r0 \<in> set xs \<Longrightarrow> r = (if P r0 then f r0 else r0) \<Longrightarrow> r \<in> set (update_rows P f xs)"
  by (auto simp: set_update_rows)

lemma map_update_rows [simp]:
  "(\<And>r. P r \<Longrightarrow> k (f r) = k r) \<Longrightarrow> map k (update_rows P f xs) = map k xs"
  by (simp add: update_rows_def comp_def)

lemma update_rows_id: "(\<And>r. r \<in> set xs \<Longrightarrow> \<not> P r) \<Longrightarrow> update_rows P f xs = xs"
  by (simp add: update_rows_def map_idI)

lemma update_rows_update_rows:
  "(\<And>r. P r \<Longrightarrow> Q (f r) = Q r) \<Longrightarrow>
   update_rows Q g (update_rows P f xs) =
   map (\<lambda>r. let r' = (if P r then f r else r) in if Q r then g r' else r') xs"
  by (auto simp: update_rows_def Let_def)

lemma count_rows_simps [simp]:
  "count_rows P [] = 0"
  "count_rows P (x # xs) = (if P x then 1 else 0) + count_rows P xs"
  "count_rows P (xs @ ys) = count_rows P xs + count_rows P ys"
  by (simp_all add: count_rows_def)

lemma count_rows_0: "count_rows P xs = 0 \<longleftrightarrow> (\<forall>x \<in> set xs. \<not> P x)"
  by (induction xs) auto

lemma count_rows_pos: "0 < count_rows P xs \<longleftrightarrow> (\<exists>x \<in> set xs. P x)"
  by (induction xs) auto

lemma count_rows_cong:
  "(\<And>x. x \<in> set xs \<Longrightarrow> P x = Q x) \<Longrightarrow> count_rows P xs = count_rows Q xs"
  by (induction xs) auto

lemma count_rows_mono:
  "(\<And>x. x \<in> set xs \<Longrightarrow> P x \<Longrightarrow> Q x) \<Longrightarrow> count_rows P xs \<le> count_rows Q xs"
  by (induction xs) fastforce+

text \<open>Updating the rows with a unique key changes at most one row's contribution.\<close>

lemma count_rows_update_key:
  assumes "distinct (map k xs)" "r \<in> set xs" "k r = i"
  shows "count_rows Q (update_rows (\<lambda>x. k x = i) f xs) + (if Q r then 1 else 0) =
         count_rows Q xs + (if Q (f r) then 1 else 0)"
  using assms
proof (induction xs)
  case Nil
  then show ?case by simp
next
  case (Cons x xs)
  show ?case
  proof (cases "k x = i")
    case True
    with Cons.prems have "x = r" by (auto simp: image_iff)
    moreover have "update_rows (\<lambda>x. k x = i) f xs = xs"
      using Cons.prems True by (intro update_rows_id) (auto simp: image_iff)
    ultimately show ?thesis using True by simp
  next
    case False
    with Cons.prems have "r \<in> set xs" by auto
    with Cons False show ?thesis by simp
  qed
qed

text \<open>Lookup by a unique key.\<close>

lemma find_key:
  assumes "distinct (map k xs)" "r \<in> set xs"
  shows "find (\<lambda>x. k x = k r) xs = Some r"
  using assms by (induction xs) (auto simp: image_iff)

lemma find_Some_in: "find P xs = Some r \<Longrightarrow> r \<in> set xs \<and> P r"
  by (induction xs) (auto split: if_splits)

lemma find_None: "find P xs = None \<longleftrightarrow> (\<forall>x \<in> set xs. \<not> P x)"
  by (induction xs) auto

lemma find_update_rows:
  "(\<And>r. P r \<Longrightarrow> Q (f r) = Q r) \<Longrightarrow>
   find Q (update_rows P f xs) = map_option (\<lambda>r. if P r then f r else r) (find Q xs)"
  by (induction xs) auto

lemma find_append: "find P (xs @ ys) = (case find P xs of None \<Rightarrow> find P ys | Some r \<Rightarrow> Some r)"
  by (induction xs) auto

lemma distinct_key_eq: "distinct (map k xs) \<Longrightarrow> x \<in> set xs \<Longrightarrow> y \<in> set xs \<Longrightarrow> k x = k y \<Longrightarrow> x = y"
  by (auto simp: distinct_map inj_on_def)

text \<open>\<open>groupBy\<close> with \<open>_count\<close>: one entry per value of the key, in the order of first appearance.\<close>

definition groupCount :: "('r \<Rightarrow> 'k) \<Rightarrow> 'r list \<Rightarrow> ('k \<times> nat) list" where
  "groupCount k xs = map (\<lambda>v. (v, count_rows (\<lambda>r. k r = v) xs)) (uniq (map k xs))"

lemma sum_groupCount: "sum_list (map snd (groupCount k xs)) = length xs"
proof -
  have "sum_list (map snd (groupCount k xs)) = (\<Sum>v \<in> set (map k xs). count_rows (\<lambda>r. k r = v) xs)"
    unfolding groupCount_def by (simp add: comp_def sum_list_distinct_conv_sum_set)
  also have "\<dots> = length xs"
  proof (induction xs)
    case (Cons x xs)
    let ?A = "insert (k x) (k ` set xs)"
    have "(\<Sum>v \<in> ?A. count_rows (\<lambda>r. k r = v) (x # xs)) =
        (\<Sum>v \<in> ?A. (if k x = v then 1 else 0)) + (\<Sum>v \<in> ?A. count_rows (\<lambda>r. k r = v) xs)"
      by (simp only: count_rows_simps sum.distrib)
    also have "(\<Sum>v \<in> ?A. (if k x = v then 1 else 0 :: nat)) = 1" by simp
    also have "(\<Sum>v \<in> insert (k x) (k ` set xs). count_rows (\<lambda>r. k r = v) xs) =
        (\<Sum>v \<in> k ` set xs. count_rows (\<lambda>r. k r = v) xs)"
      by (rule sum.mono_neutral_right) (auto simp: count_rows_0)
    finally show ?case using Cons by simp
  qed simp
  finally show ?thesis .
qed

lemma groupCount_key: "(v, n) \<in> set (groupCount k xs) \<Longrightarrow> n = count_rows (\<lambda>r. k r = v) xs"
  by (auto simp: groupCount_def)

lemma distinct_groupCount: "distinct (map fst (groupCount k xs))"
  by (simp add: groupCount_def comp_def)

section \<open>Queries in the service monad\<close>

definition findFirst :: "('s \<Rightarrow> 'r list) \<Rightarrow> ('r \<Rightarrow> bool) \<Rightarrow> ('s, 'r option) exec" where
  "findFirst rows P = asks (\<lambda>s. find P (rows s))"

definition findOr :: "('s \<Rightarrow> 'r list) \<Rightarrow> ('r \<Rightarrow> bool) \<Rightarrow> error \<Rightarrow> ('s, 'r) exec" where
  "findOr rows P e = (\<lambda>s. case find P (rows s) of None \<Rightarrow> (Inl e, s) | Some r \<Rightarrow> (Inr r, s))"

definition findMany :: "('s \<Rightarrow> 'r list) \<Rightarrow> ('r \<Rightarrow> bool) \<Rightarrow> ('s, 'r list) exec" where
  "findMany rows P = asks (\<lambda>s. filter P (rows s))"

definition countRows :: "('s \<Rightarrow> 'r list) \<Rightarrow> ('r \<Rightarrow> bool) \<Rightarrow> ('s, nat) exec" where
  "countRows rows P = asks (\<lambda>s. count_rows P (rows s))"

definition insertRow ::
  "('s \<Rightarrow> 'r list) \<Rightarrow> (('r list \<Rightarrow> 'r list) \<Rightarrow> 's \<Rightarrow> 's) \<Rightarrow> ('r \<Rightarrow> 'r \<Rightarrow> bool) \<Rightarrow> 'r
    \<Rightarrow> ('s, 'r) exec" where
  "insertRow rows upd K r =
     (\<lambda>s. if \<exists>x \<in> set (rows s). K x r then (Inl (Failure ''P2002''), s)
          else (Inr r, upd (\<lambda>_. rows s @ [r]) s))"

definition updateMany ::
  "('s \<Rightarrow> 'r list) \<Rightarrow> (('r list \<Rightarrow> 'r list) \<Rightarrow> 's \<Rightarrow> 's) \<Rightarrow> ('r \<Rightarrow> bool) \<Rightarrow> ('r \<Rightarrow> 'r)
    \<Rightarrow> ('s, nat) exec" where
  "updateMany rows upd P f =
     (\<lambda>s. (Inr (count_rows P (rows s)), upd (\<lambda>_. update_rows P f (rows s)) s))"

definition updateOne ::
  "('s \<Rightarrow> 'r list) \<Rightarrow> (('r list \<Rightarrow> 'r list) \<Rightarrow> 's \<Rightarrow> 's) \<Rightarrow> ('r \<Rightarrow> bool) \<Rightarrow> ('r \<Rightarrow> 'r)
    \<Rightarrow> ('s, 'r) exec" where
  "updateOne rows upd P f =
     (\<lambda>s. case find P (rows s) of None \<Rightarrow> (Inl (Failure ''P2025''), s)
          | Some r \<Rightarrow> (Inr (f r), upd (\<lambda>_. update_rows P f (rows s)) s))"

definition deleteMany ::
  "('s \<Rightarrow> 'r list) \<Rightarrow> (('r list \<Rightarrow> 'r list) \<Rightarrow> 's \<Rightarrow> 's) \<Rightarrow> ('r \<Rightarrow> bool) \<Rightarrow> ('s, unit) exec" where
  "deleteMany rows upd P = modify (\<lambda>s. upd (\<lambda>_. filter (\<lambda>r. \<not> P r) (rows s)) s)"

definition upsertRow ::
  "('s \<Rightarrow> 'r list) \<Rightarrow> (('r list \<Rightarrow> 'r list) \<Rightarrow> 's \<Rightarrow> 's) \<Rightarrow> ('r \<Rightarrow> bool) \<Rightarrow> ('r \<Rightarrow> 'r) \<Rightarrow> 'r
    \<Rightarrow> ('s, unit) exec" where
  "upsertRow rows upd P f r =
     (\<lambda>s. if \<exists>x \<in> set (rows s). P x then (Inr (), upd (\<lambda>_. update_rows P f (rows s)) s)
          else (Inr (), upd (\<lambda>_. rows s @ [r]) s))"

lemma findFirst_run [exec_simps]: "findFirst rows P s = (Inr (find P (rows s)), s)"
  by (simp add: findFirst_def exec_simps)

lemma findOr_run [exec_simps]:
  "findOr rows P e s = (case find P (rows s) of None \<Rightarrow> (Inl e, s) | Some r \<Rightarrow> (Inr r, s))"
  by (simp add: findOr_def)

lemma findMany_run [exec_simps]: "findMany rows P s = (Inr (filter P (rows s)), s)"
  by (simp add: findMany_def exec_simps)

lemma countRows_run [exec_simps]: "countRows rows P s = (Inr (count_rows P (rows s)), s)"
  by (simp add: countRows_def exec_simps)

lemma insertRow_run [exec_simps]:
  "insertRow rows upd K r s =
     (if \<exists>x \<in> set (rows s). K x r then (Inl (Failure ''P2002''), s)
      else (Inr r, upd (\<lambda>_. rows s @ [r]) s))"
  by (simp add: insertRow_def)

lemma updateMany_run [exec_simps]:
  "updateMany rows upd P f s = (Inr (count_rows P (rows s)), upd (\<lambda>_. update_rows P f (rows s)) s)"
  by (simp add: updateMany_def)

lemma updateOne_run [exec_simps]:
  "updateOne rows upd P f s =
     (case find P (rows s) of None \<Rightarrow> (Inl (Failure ''P2025''), s)
      | Some r \<Rightarrow> (Inr (f r), upd (\<lambda>_. update_rows P f (rows s)) s))"
  by (simp add: updateOne_def)

lemma deleteMany_run [exec_simps]:
  "deleteMany rows upd P s = (Inr (), upd (\<lambda>_. filter (\<lambda>r. \<not> P r) (rows s)) s)"
  by (simp add: deleteMany_def exec_simps)

lemma upsertRow_run [exec_simps]:
  "upsertRow rows upd P f r s =
     (if \<exists>x \<in> set (rows s). P x then (Inr (), upd (\<lambda>_. update_rows P f (rows s)) s)
      else (Inr (), upd (\<lambda>_. rows s @ [r]) s))"
  by (simp add: upsertRow_def)

section \<open>What a table promises\<close>

locale prisma_table =
  fixes rows :: "'s \<Rightarrow> 'r list"
    and upd :: "('r list \<Rightarrow> 'r list) \<Rightarrow> 's \<Rightarrow> 's"
  assumes rows_upd: "rows (upd f s) = f (rows s)"
    and upd_same [simp]: "upd (\<lambda>_. rows s) s = s"
begin

text \<open>Operations that find nothing to do leave the database as it is.\<close>

lemma updateMany_none:
  "(\<And>r. r \<in> set (rows s) \<Longrightarrow> \<not> P r) \<Longrightarrow> updateMany rows upd P f s = (Inr 0, s)"
  by (simp add: exec_simps update_rows_id upd_same count_rows_0)

lemma deleteMany_none:
  "(\<And>r. r \<in> set (rows s) \<Longrightarrow> \<not> P r) \<Longrightarrow> deleteMany rows upd P s = (Inr (), s)"
  by (simp add: exec_simps filter_True upd_same)

text \<open>A lookup after an insertion finds the new row, unless an older row matched already.\<close>

lemma find_after_insert:
  assumes "insertRow rows upd K r s = (Inr x, t)"
  shows "x = r \<and> find P (rows t) =
           (case find P (rows s) of None \<Rightarrow> if P r then Some r else None | Some y \<Rightarrow> Some y)"
  using assms by (auto simp: exec_simps rows_upd find_append split: if_splits option.splits)

text \<open>Insertion keeps a unique key unique: the database checks it.\<close>

lemma insert_keeps_key:
  assumes "insertRow rows upd (\<lambda>x y. k x = k y) r s = (res, t)" "distinct (map k (rows s))"
  shows "distinct (map k (rows t))"
  using assms by (force simp: exec_simps rows_upd split: if_splits)

lemma updateMany_keeps_key:
  assumes "updateMany rows upd P f s = (res, t)" "\<And>r. P r \<Longrightarrow> k (f r) = k r"
  shows "map k (rows t) = map k (rows s)"
  using assms by (auto simp: exec_simps rows_upd)

lemma updateOne_keeps_key:
  assumes "updateOne rows upd P f s = (res, t)" "\<And>r. P r \<Longrightarrow> k (f r) = k r"
  shows "map k (rows t) = map k (rows s)"
  using assms by (auto simp: exec_simps rows_upd split: option.splits)

text \<open>
  A conditional \<open>updateMany\<close> whose update falsifies its own condition claims the row once:
  the second call changes nothing. The services use it as their compare-and-set.
\<close>

lemma claim_once:
  assumes "\<And>r. P r \<Longrightarrow> \<not> P (f r)" "updateMany rows upd P f s = (res, t)"
  shows "fst (updateMany rows upd P f t) = Inr 0"
  using assms by (auto simp: exec_simps rows_upd count_rows_0 set_update_rows)

end

end
