(* ===== verification/Two_State.thy ===== *)
theory Two_State
  imports Queries
begin

text \<open>
  Two-state reasoning about service methods. \<open>steps R m s\<close> says that running \<open>m\<close> from
  \<open>s\<close>, whatever it returns or throws, leaves a database related to \<open>s\<close> by \<open>R\<close>. For
  a preorder \<open>R\<close> (the locale \<open>two_state\<close>) the property composes along the combinators
  of the monad, so that a property of a whole handler is checked at its writes only. An
  invariant \<open>I\<close> is the preorder "if \<open>I\<close> held before, it holds after"; a frame condition
  is "the field is equal"; a discipline on state changes is a preorder of its own.
\<close>

definition steps :: "('s \<Rightarrow> 's \<Rightarrow> bool) \<Rightarrow> ('s, 'a) exec \<Rightarrow> 's \<Rightarrow> bool" where
  "steps R m s \<longleftrightarrow> R s (snd (m s))"

definition keeps :: "('s \<Rightarrow> bool) \<Rightarrow> 's \<Rightarrow> 's \<Rightarrow> bool" where
  "keeps I s t \<longleftrightarrow> (I s \<longrightarrow> I t)"

definition frames :: "('s \<Rightarrow> 'b) \<Rightarrow> 's \<Rightarrow> 's \<Rightarrow> bool" where
  "frames f s t \<longleftrightarrow> f t = f s"

lemma steps_keepsD: "steps (keeps I) m s \<Longrightarrow> I s \<Longrightarrow> m s = (r, t) \<Longrightarrow> I t"
  by (simp add: steps_def keeps_def)

lemma steps_framesD: "steps (frames f) m s \<Longrightarrow> m s = (r, t) \<Longrightarrow> f t = f s"
  by (simp add: steps_def frames_def)

lemma stepsD: "steps R m s \<Longrightarrow> m s = (r, t) \<Longrightarrow> R s t"
  by (simp add: steps_def)

lemma stepsI: "(\<And>r t. m s = (r, t) \<Longrightarrow> R s t) \<Longrightarrow> steps R m s"
  by (cases "m s") (simp add: steps_def)

locale two_state =
  fixes R :: "'s \<Rightarrow> 's \<Rightarrow> bool"
  assumes reflR: "R s s"
    and transR: "R s t \<Longrightarrow> R t u \<Longrightarrow> R s u"
begin

lemma steps_ret [step_rules]: "steps R (ret x) s"
  by (simp add: steps_def exec_simps reflR)

lemma steps_throw [step_rules]: "steps R (throw e) s"
  by (simp add: steps_def exec_simps reflR)

lemma steps_asks [step_rules]: "steps R (asks f) s"
  by (simp add: steps_def exec_simps reflR)

lemma steps_modify: "R s (f s) \<Longrightarrow> steps R (modify f) s"
  by (simp add: steps_def exec_simps)

lemma steps_require [step_rules]: "steps R (require b e) s"
  by (simp add: steps_def exec_simps reflR)

lemma steps_findFirst [step_rules]: "steps R (findFirst rows P) s"
  by (simp add: steps_def exec_simps reflR)

lemma steps_findMany [step_rules]: "steps R (findMany rows P) s"
  by (simp add: steps_def exec_simps reflR)

lemma steps_findOr [step_rules]: "steps R (findOr rows P e) s"
  by (simp add: steps_def exec_simps reflR split: option.split)

lemma steps_countRows [step_rules]: "steps R (countRows rows P) s"
  by (simp add: steps_def exec_simps reflR)

lemma steps_bindE [step_rules]:
  assumes "steps R m s" "\<And>x t. m s = (Inr x, t) \<Longrightarrow> steps R (f x) t"
  shows "steps R (bindE m f) s"
  using assms by (auto simp: steps_def exec_simps split: prod.splits sum.splits intro: transR)

lemma steps_thenE [step_rules]:
  assumes "steps R m s" "\<And>x t. m s = (Inr x, t) \<Longrightarrow> steps R k t"
  shows "steps R (thenE m k) s"
  using assms by (auto simp: steps_def exec_simps split: prod.splits sum.splits intro: transR)

lemma steps_whenE [step_rules]: "(b \<Longrightarrow> steps R m s) \<Longrightarrow> steps R (whenE b m) s"
  by (simp add: steps_def exec_simps reflR)

lemma steps_if [step_rules]:
  "(b \<Longrightarrow> steps R m s) \<Longrightarrow> (\<not> b \<Longrightarrow> steps R k s) \<Longrightarrow> steps R (if b then m else k) s"
  by simp

lemma steps_case_option [step_rules]:
  "(x = None \<Longrightarrow> steps R m s) \<Longrightarrow> (\<And>y. x = Some y \<Longrightarrow> steps R (k y) s) \<Longrightarrow>
   steps R (case x of None \<Rightarrow> m | Some y \<Rightarrow> k y) s"
  by (cases x) auto

lemma steps_let [step_rules]: "steps R (m x) s \<Longrightarrow> steps R (let y = x in m y) s"
  by simp

lemma steps_catchE [step_rules]:
  assumes "steps R m s" "\<And>e t. m s = (Inl e, t) \<Longrightarrow> steps R (h e) t"
  shows "steps R (catchE m h) s"
  using assms by (auto simp: steps_def exec_simps split: prod.splits sum.splits intro: transR)

lemma steps_bestEffort [step_rules]: "steps R m s \<Longrightarrow> steps R (bestEffort m) s"
  by (simp add: steps_def exec_simps)

lemma steps_transact [step_rules]:
  assumes "steps R m s"
  shows "steps R (transact m) s"
  using assms by (auto simp: steps_def exec_simps reflR split: prod.splits sum.splits)

lemma steps_forEach [step_rules]:
  "(\<And>x t. x \<in> set xs \<Longrightarrow> steps R (f x) t) \<Longrightarrow> steps R (forEach xs f) s"
  by (induction xs arbitrary: s) (auto intro!: steps_ret steps_thenE)

lemma steps_promiseAll [step_rules]:
  "(\<And>m t. m \<in> set ms \<Longrightarrow> steps R m t) \<Longrightarrow> steps R (promiseAll ms) s"
proof (induction ms arbitrary: s)
  case Nil
  then show ?case by (simp add: steps_ret)
next
  case (Cons m ms s)
  obtain r t where m: "m s = (r, t)" by (cases "m s")
  obtain rs u where ms: "promiseAll ms t = (rs, u)" by (cases "promiseAll ms t")
  have "R s t" using Cons.prems [of m s] m by (simp add: steps_def)
  moreover have "R t u" using Cons.IH [of t] Cons.prems ms by (simp add: steps_def)
  ultimately have "R s u" by (rule transR)
  then show ?case by (simp add: steps_def m ms)
qed

lemma steps_foldE [step_rules]:
  "(\<And>acc x t. x \<in> set xs \<Longrightarrow> steps R (f acc x) t) \<Longrightarrow> steps R (foldE f acc xs) s"
  by (induction xs arbitrary: s acc) (auto intro!: steps_ret steps_bindE)

end

text \<open>Invariants and frame conditions are such preorders, whatever the invariant or the field.\<close>

interpretation inv: two_state "keeps I" for I
  by unfold_locales (auto simp: keeps_def)

interpretation frm: two_state "frames f" for f
  by unfold_locales (auto simp: frames_def)

text \<open>A call that only reads: equality is the preorder.\<close>

interpretation same: two_state "(=)"
  by unfold_locales auto

lemma readonly_bind: "steps (=) m s \<Longrightarrow> bindE m f s = (case fst (m s) of Inl e \<Rightarrow> (Inl e, s) | Inr x \<Rightarrow> f x s)"
  by (auto simp: steps_def bindE_run split: prod.split sum.split)

lemma readonly_then: "steps (=) m s \<Longrightarrow> thenE m k s = (case fst (m s) of Inl e \<Rightarrow> (Inl e, s) | Inr x \<Rightarrow> k s)"
  by (auto simp: steps_def thenE_run split: prod.split sum.split)

text \<open>A failed transaction is invisible.\<close>

lemma transact_rollback:
  assumes "transact m s = (Inl e, t)"
  shows "t = s"
  using assms by (auto simp: exec_simps split: prod.splits sum.splits)

end
