(* ===== verification/Schema.thy ===== *)
theory Schema
  imports Two_State
begin

text \<open>
  The rows and tables of \<open>backend/prisma/schema.prisma\<close> that the modelled services use, one
  record per Prisma model with the columns the services read or write, and the database as one
  record of tables. Left out of a row: columns no modelled service touches (audit columns such
  as \<open>updatedAt\<close>, presentation columns such as \<open>avatarUrl\<close>). A status column is the
  datatype of the names the source uses for it. A \<open>Float\<close> is a rational number: the sums
  involved are amounts in ariary and marks, compared and copied, and the model does not speak
  of the rounding of doubles. The relation \<open>User.role\<close> is folded into the user as the
  role's name, \<open>None\<close> when \<open>roleId\<close> is null. \<open>mails\<close> is not a table: it records the
  messages that left the process through the mail provider or the local mail sink.
\<close>

section \<open>Status columns\<close>

datatype app_status =
    PENDING | UNDER_REVIEW | PRESELECTED | TEST_SCHEDULED | TEST_COMPLETED
  | INTERVIEW_SCHEDULED | INTERVIEW_COMPLETED | ACCEPTED | REJECTED | WAITLISTED
  | ENROLLED | CANCELLED

datatype pay_status = PayPENDING | PayPROCESSING | PayCOMPLETED | PayFAILED | PayEXPIRED

datatype refund_status = RefundPENDING | RefundCOMPLETED | RefundFAILED

datatype enrollment_status = ACTIVE | WITHDRAWN | GRADUATED

text \<open>The JSON columns (\<open>testResults\<close>): objects keep their keys in order.\<close>

datatype json =
    JNull | JBool bool | JNum rat | JStr string | JArr "json list" | JObj "(string \<times> json) list"

section \<open>Rows\<close>

record user_row =
  u_id :: id
  u_email :: string
  u_password :: string
  u_role :: "string option"
  u_isActive :: bool
  u_lastLogin :: "time option"
  u_mfaSecret :: "string option"
  u_mfaEnabled :: bool
  u_failedLoginAttempts :: nat
  u_lastFailedLoginAt :: "time option"
  u_sessionVersion :: nat
  u_resetTokenHash :: "string option"
  u_resetTokenExpiresAt :: "time option"
  u_acceptedTermsVersion :: "string option"
  u_theme :: string
  u_deletedAt :: "time option"

record pending_row =
  pd_id :: id
  pd_email :: string
  pd_passwordHash :: string
  pd_firstName :: string
  pd_lastName :: string
  pd_phone :: string
  pd_codeHash :: string
  pd_codeAttempts :: nat
  pd_expiresAt :: time
  pd_acceptedTermsVersion :: string

record refresh_session_row =
  rs_userId :: id
  rs_currentJti :: string
  rs_revokedAt :: "time option"
  rs_lastUsedAt :: time

record student_row =
  st_id :: id
  st_userId :: id
  st_firstName :: string
  st_lastName :: string
  st_phone :: "string option"
  st_deletedAt :: "time option"
  st_birthDate :: "time option"
  st_cin :: "string option"
  st_bacYear :: "int option"
  st_bacType :: "string option"
  st_address :: "string option"
  st_city :: "string option"
  st_region :: "string option"
  st_bio :: "string option"
  st_interests :: "string list"
  st_skills :: "string list"
  st_aspirations :: "string list"
  st_profileCompleted :: bool
  st_avatarUrl :: "string option"

record school_admin_row =
  sa_userId :: id
  sa_schoolId :: id

record offer_row =
  o_id :: id
  o_schoolId :: id
  o_programId :: "id option"
  o_tuitionFees :: rat
  o_capacity :: "int option"
  o_applicationDeadline :: "time option"
  o_isOpen :: bool
  o_deletedAt :: "time option"
  o_title :: string
  o_slug :: string
  o_diploma :: string
  o_description :: "string option"
  o_duration :: int
  o_prerequisites :: "string list"
  o_academicYear :: string
  o_createdAt :: time

record application_row =
  a_id :: id
  a_studentId :: id
  a_offerId :: id
  a_status :: app_status
  a_score :: "rat option"
  a_testResults :: "json option"
  a_interviewDate :: "time option"
  a_interviewLink :: "string option"
  a_decisionDate :: "time option"
  a_decisionReason :: "string option"
  a_submittedAt :: time
  a_deletedAt :: "time option"

record timeline_row =
  t_applicationId :: id
  t_status :: app_status
  t_note :: string
  t_createdBy :: "id option"
  t_createdAt :: time

record payment_row =
  p_id :: id
  p_applicationId :: "id option"
  p_studentId :: id
  p_amount :: rat
  p_currency :: string
  p_method :: string
  p_status :: pay_status
  p_reference :: string
  p_providerRef :: "string option"
  p_commission :: rat
  p_paidAt :: "time option"
  p_expiresAt :: "time option"
  p_createdAt :: time

record transaction_row =
  x_paymentId :: id
  x_amount :: rat
  x_provider :: string
  x_providerTransactionId :: "string option"
  x_completedAt :: time

record refund_row =
  r_paymentId :: id
  r_amount :: rat
  r_reason :: string
  r_status :: refund_status
  r_processedAt :: "time option"

record program_row =
  pr_id :: id
  pr_schoolId :: id
  pr_name :: string
  pr_durationYears :: int
  pr_isActive :: bool
  pr_diploma :: string

record school_year_row =
  y_id :: id
  y_schoolId :: id
  y_label :: string
  y_isCurrent :: bool
  y_enrollmentOpensAt :: time
  y_enrollmentClosesAt :: time

record enrollment_row =
  e_studentId :: id
  e_schoolId :: id
  e_programId :: id
  e_programLevel :: int
  e_academicYearId :: id
  e_enrolledYear :: string
  e_status :: enrollment_status

record course_row =
  c_id :: id
  c_schoolId :: id
  c_teacherId :: id
  c_code :: string
  c_title :: string
  c_level :: string
  c_subjectId :: "id option"
  c_programId :: "id option"
  c_programLevel :: "int option"
  c_group :: "string option"
  c_credits :: int
  c_isPublished :: bool
  c_subjectRequirementId :: "id option"
  c_welcomeMessage :: "string option"
  c_allowGroupMessages :: bool
  c_notifyOnPublish :: bool

record course_enrollment_row =
  ce_courseId :: id
  ce_studentId :: id

record course_slot_row =
  s_id :: id
  s_courseId :: id
  s_teacherId :: id
  s_dayOfWeek :: int
  s_startTime :: string
  s_endTime :: string
  s_room :: string

record teacher_row =
  th_id :: id
  th_userId :: id
  th_firstName :: "string option"
  th_lastName :: "string option"
  th_createdAt :: time
  th_phone :: "string option"
  th_avatarUrl :: "string option"

record teacher_school_row =
  ts_id :: id
  ts_teacherId :: id
  ts_schoolId :: id
  ts_isActive :: bool
  ts_department :: "string option"
  ts_specialty :: "string option"
  ts_createdAt :: time

record teacher_subject_row =
  tss_teacherSchoolId :: id
  tss_subjectId :: id

record subject_row =
  sj_id :: id
  sj_schoolId :: id
  sj_name :: string
  sj_isActive :: bool

record availability_row =
  av_id :: id
  av_teacherId :: id
  av_dayOfWeek :: "int option"
  av_date :: "time option"
  av_startTime :: string
  av_endTime :: string

record travel_buffer_row =
  tb_id :: id
  tb_teacherId :: id
  tb_schoolAId :: id
  tb_schoolBId :: id
  tb_minutesBuffer :: int

record room_row =
  rm_id :: id
  rm_schoolId :: id
  rm_name :: string
  rm_capacity :: "int option"
  rm_type :: string
  rm_isActive :: bool

record time_slot_row =
  sl_id :: id
  sl_schoolId :: id
  sl_dayOfWeek :: int
  sl_startTime :: string
  sl_endTime :: string
  sl_label :: "string option"
  sl_isActive :: bool

record class_row =
  cl_id :: id
  cl_schoolId :: id
  cl_academicYearId :: id
  cl_programId :: "id option"
  cl_name :: string
  cl_level :: "int option"
  cl_studentCount :: "int option"
  cl_isActive :: bool

record requirement_row =
  rq_id :: id
  rq_schoolId :: id
  rq_academicYearId :: id
  rq_classId :: id
  rq_subjectId :: id
  rq_hoursPerWeek :: int

record assignment_row =
  as_requirementId :: id
  as_teacherId :: id

record notification_row =
  n_id :: id
  n_userId :: id
  n_type :: string
  n_title :: string
  n_body :: string
  n_isRead :: bool
  n_sentAt :: "time option"
  n_status :: string
  n_failureReason :: "string option"
  n_createdAt :: time

record preference_row =
  np_userId :: id
  np_emailEnabled :: bool
  np_smsEnabled :: bool
  np_pushEnabled :: bool
  np_inAppEnabled :: bool

record audit_row =
  au_id :: id
  au_userId :: "id option"
  au_action :: string
  au_resource :: string
  au_resourceId :: "id option"
  au_before :: "json option"
  au_after :: "json option"
  au_status :: string
  au_errorMessage :: "string option"
  au_createdAt :: time

record school_row =
  sc_id :: id
  sc_name :: string
  sc_slug :: string
  sc_type :: string
  sc_description :: "string option"
  sc_city :: string
  sc_region :: "string option"
  sc_contactEmail :: "string option"
  sc_contactPhone :: "string option"
  sc_website :: "string option"
  sc_logo :: "string option"
  sc_isActive :: bool
  sc_deletedAt :: "time option"

record school_event_row =
  ev_id :: id
  ev_schoolId :: id
  ev_title :: string
  ev_description :: "string option"
  ev_location :: "string option"
  ev_startAt :: time
  ev_createdBy :: id

record document_row =
  d_id :: id
  d_studentId :: id
  d_type :: string
  d_name :: string
  d_fileUrl :: string
  d_fileSize :: int
  d_mimeType :: string
  d_uploadedAt :: time
  d_deletedAt :: "time option"

record announcement_row =
  an_id :: id
  an_schoolId :: id
  an_authorId :: id
  an_title :: string
  an_body :: string
  an_targetType :: string
  an_imageUrl :: "string option"
  an_courseId :: "id option"
  an_targetClasses :: "string list"
  an_createdAt :: time

record announcement_recipient_row =
  ar_announcementId :: id
  ar_userId :: id
  ar_notificationId :: id

record chapter_row =
  ch_id :: id
  ch_courseId :: id
  ch_title :: string
  ch_description :: "string option"
  ch_position :: nat
  ch_isPublished :: bool
  ch_publishedAt :: "time option"

record resource_row =
  re_id :: id
  re_chapterId :: id
  re_title :: string
  re_url :: string
  re_type :: string
  re_createdAt :: time

record evaluation_row =
  el_id :: id
  el_courseId :: id
  el_title :: string
  el_type :: string
  el_scheduledAt :: "time option"
  el_coefficient :: rat

record grade_row =
  g_evaluationId :: id
  g_studentId :: id
  g_value :: rat
  g_comment :: "string option"

record homework_row =
  h_id :: id
  h_courseId :: id
  h_title :: string
  h_instructions :: "string option"
  h_dueAt :: "time option"
  h_publishedAt :: "time option"
  h_createdAt :: time

record submission_row =
  su_id :: id
  su_assignmentId :: id
  su_studentId :: id
  su_contentUrl :: "string option"
  su_submittedAt :: time
  su_grade :: "rat option"
  su_feedback :: "string option"

record attendance_row =
  at_courseId :: id
  at_studentId :: id
  at_date :: time
  at_status :: string
  at_markedBy :: id

record conversation_row =
  cv_id :: id
  cv_directKey :: string
  cv_lastMessageAt :: time
  cv_createdAt :: time

record participant_row =
  cq_conversationId :: id
  cq_userId :: id
  cq_lastReadAt :: "time option"

record message_row =
  m_id :: id
  m_conversationId :: id
  m_senderId :: id
  m_recipientId :: id
  m_subject :: "string option"
  m_body :: string
  m_isRead :: bool
  m_readAt :: "time option"
  m_createdAt :: time

record attachment_row =
  mt_id :: id
  mt_messageId :: id
  mt_url :: string
  mt_fileName :: string
  mt_mimeType :: string
  mt_size :: int
  mt_kind :: string
  mt_createdAt :: time

record academic_year_row =
  ay_id :: id
  ay_label :: string
  ay_startDate :: time
  ay_endDate :: time
  ay_isCurrent :: bool

record fee_bracket_row =
  fb_id :: id
  fb_label :: string
  fb_minFees :: rat
  fb_maxFees :: "rat option"
  fb_sortOrder :: int
  fb_isActive :: bool

record platform_city_row =
  pc_id :: id
  pc_name :: string
  pc_isActive :: bool

record school_requirement_row =
  sr_id :: id
  sr_schoolId :: id
  sr_name :: string
  sr_description :: "string option"
  sr_type :: string
  sr_diploma :: "string option"
  sr_isRequired :: bool
  sr_isActive :: bool

record offer_requirement_row =
  or_offerId :: id
  or_requirementId :: id

record image_row =
  im_id :: id
  im_url :: string
  im_type :: string
  im_entityType :: string
  im_entityId :: "id option"
  im_mimeType :: string
  im_size :: int
  im_createdAt :: time

record partner_row =
  fp_id :: id
  fp_name :: string
  fp_description :: "string option"
  fp_type :: string
  fp_contactEmail :: "string option"
  fp_contactPhone :: "string option"
  fp_website :: "string option"
  fp_logo :: "string option"
  fp_isActive :: bool
  fp_createdAt :: time
  fp_deletedAt :: "time option"

record competition_row =
  cp_id :: id
  cp_schoolId :: id
  cp_programId :: "id option"
  cp_name :: string
  cp_description :: "string option"
  cp_examDate :: "time option"
  cp_registrationDeadline :: "time option"
  cp_capacity :: "int option"
  cp_status :: string
  cp_isActive :: bool
  cp_createdAt :: time
  cp_deletedAt :: "time option"

record config_row =
  cf_key :: string
  cf_value :: "string \<Rightarrow> string option"

text \<open>
  An object of the S3 store, which is not a table: a bucket and a key lead to a content type and
  the bytes.
\<close>

record object_row =
  ob_bucket :: string
  ob_key :: string
  ob_contentType :: string
  ob_body :: string

record mail =
  ml_to :: string
  ml_subject :: string
  ml_text :: string

section \<open>The database\<close>

record db =
  users :: "user_row list"
  pendings :: "pending_row list"
  refreshSessions :: "refresh_session_row list"
  students :: "student_row list"
  schoolAdmins :: "school_admin_row list"
  offers :: "offer_row list"
  applications :: "application_row list"
  timelines :: "timeline_row list"
  payments :: "payment_row list"
  transactions :: "transaction_row list"
  refunds :: "refund_row list"
  programs :: "program_row list"
  schoolYears :: "school_year_row list"
  enrollments :: "enrollment_row list"
  courses :: "course_row list"
  courseEnrollments :: "course_enrollment_row list"
  courseSlots :: "course_slot_row list"
  teachers :: "teacher_row list"
  teacherSchools :: "teacher_school_row list"
  teacherSubjects :: "teacher_subject_row list"
  subjects :: "subject_row list"
  availabilities :: "availability_row list"
  travelBuffers :: "travel_buffer_row list"
  rooms :: "room_row list"
  timeSlots :: "time_slot_row list"
  classes :: "class_row list"
  academicYears :: "academic_year_row list"
  requirements :: "requirement_row list"
  teacherAssignments :: "assignment_row list"
  notifications :: "notification_row list"
  preferences :: "preference_row list"
  auditLogs :: "audit_row list"
  schools :: "school_row list"
  schoolEvents :: "school_event_row list"
  documents :: "document_row list"
  announcements :: "announcement_row list"
  announcementRecipients :: "announcement_recipient_row list"
  chapters :: "chapter_row list"
  resources :: "resource_row list"
  evaluations :: "evaluation_row list"
  grades :: "grade_row list"
  homeworks :: "homework_row list"
  submissions :: "submission_row list"
  attendances :: "attendance_row list"
  conversations :: "conversation_row list"
  participants :: "participant_row list"
  messages :: "message_row list"
  attachments :: "attachment_row list"
  feeBrackets :: "fee_bracket_row list"
  platformCities :: "platform_city_row list"
  schoolRequirements :: "school_requirement_row list"
  offerRequirements :: "offer_requirement_row list"
  images :: "image_row list"
  financialPartners :: "partner_row list"
  competitions :: "competition_row list"
  systemConfigs :: "config_row list"
  objects :: "object_row list"
  mails :: "mail list"
  seqNo :: nat

section \<open>The tables obey the query laws\<close>

text \<open>
  Each field of the database with its record update is a table in the sense of theory
  Queries, so the facts proved once in \<open>prisma_table\<close> hold of every table.
\<close>

interpretation tbUsers: prisma_table users users_update
  by unfold_locales (simp, rule db.equality, simp_all)

interpretation tbPendings: prisma_table pendings pendings_update
  by unfold_locales (simp, rule db.equality, simp_all)

interpretation tbRefreshSessions: prisma_table refreshSessions refreshSessions_update
  by unfold_locales (simp, rule db.equality, simp_all)

interpretation tbStudents: prisma_table students students_update
  by unfold_locales (simp, rule db.equality, simp_all)

interpretation tbSchoolAdmins: prisma_table schoolAdmins schoolAdmins_update
  by unfold_locales (simp, rule db.equality, simp_all)

interpretation tbOffers: prisma_table offers offers_update
  by unfold_locales (simp, rule db.equality, simp_all)

interpretation tbApplications: prisma_table applications applications_update
  by unfold_locales (simp, rule db.equality, simp_all)

interpretation tbTimelines: prisma_table timelines timelines_update
  by unfold_locales (simp, rule db.equality, simp_all)

interpretation tbPayments: prisma_table payments payments_update
  by unfold_locales (simp, rule db.equality, simp_all)

interpretation tbTransactions: prisma_table transactions transactions_update
  by unfold_locales (simp, rule db.equality, simp_all)

interpretation tbRefunds: prisma_table refunds refunds_update
  by unfold_locales (simp, rule db.equality, simp_all)

interpretation tbPrograms: prisma_table programs programs_update
  by unfold_locales (simp, rule db.equality, simp_all)

interpretation tbSchoolYears: prisma_table schoolYears schoolYears_update
  by unfold_locales (simp, rule db.equality, simp_all)

interpretation tbEnrollments: prisma_table enrollments enrollments_update
  by unfold_locales (simp, rule db.equality, simp_all)

interpretation tbCourses: prisma_table courses courses_update
  by unfold_locales (simp, rule db.equality, simp_all)

interpretation tbCourseEnrollments: prisma_table courseEnrollments courseEnrollments_update
  by unfold_locales (simp, rule db.equality, simp_all)

interpretation tbCourseSlots: prisma_table courseSlots courseSlots_update
  by unfold_locales (simp, rule db.equality, simp_all)

interpretation tbTeachers: prisma_table teachers teachers_update
  by unfold_locales (simp, rule db.equality, simp_all)

interpretation tbTeacherSchools: prisma_table teacherSchools teacherSchools_update
  by unfold_locales (simp, rule db.equality, simp_all)

interpretation tbTeacherSubjects: prisma_table teacherSubjects teacherSubjects_update
  by unfold_locales (simp, rule db.equality, simp_all)

interpretation tbSubjects: prisma_table subjects subjects_update
  by unfold_locales (simp, rule db.equality, simp_all)

interpretation tbAvailabilities: prisma_table availabilities availabilities_update
  by unfold_locales (simp, rule db.equality, simp_all)

interpretation tbTravelBuffers: prisma_table travelBuffers travelBuffers_update
  by unfold_locales (simp, rule db.equality, simp_all)

interpretation tbRooms: prisma_table rooms rooms_update
  by unfold_locales (simp, rule db.equality, simp_all)

interpretation tbTimeSlots: prisma_table timeSlots timeSlots_update
  by unfold_locales (simp, rule db.equality, simp_all)

interpretation tbClasses: prisma_table classes classes_update
  by unfold_locales (simp, rule db.equality, simp_all)

interpretation tbRequirements: prisma_table requirements requirements_update
  by unfold_locales (simp, rule db.equality, simp_all)

interpretation tbTeacherAssignments: prisma_table teacherAssignments teacherAssignments_update
  by unfold_locales (simp, rule db.equality, simp_all)

interpretation tbNotifications: prisma_table notifications notifications_update
  by unfold_locales (simp, rule db.equality, simp_all)

interpretation tbPreferences: prisma_table preferences preferences_update
  by unfold_locales (simp, rule db.equality, simp_all)

interpretation tbAuditLogs: prisma_table auditLogs auditLogs_update
  by unfold_locales (simp, rule db.equality, simp_all)

interpretation tbSchools: prisma_table schools schools_update
  by unfold_locales (simp, rule db.equality, simp_all)

interpretation tbSchoolEvents: prisma_table schoolEvents schoolEvents_update
  by unfold_locales (simp, rule db.equality, simp_all)

interpretation tbDocuments: prisma_table documents documents_update
  by unfold_locales (simp, rule db.equality, simp_all)

interpretation tbAnnouncements: prisma_table announcements announcements_update
  by unfold_locales (simp, rule db.equality, simp_all)

interpretation tbAnnouncementRecipients: prisma_table announcementRecipients announcementRecipients_update
  by unfold_locales (simp, rule db.equality, simp_all)

interpretation tbChapters: prisma_table chapters chapters_update
  by unfold_locales (simp, rule db.equality, simp_all)

interpretation tbResources: prisma_table resources resources_update
  by unfold_locales (simp, rule db.equality, simp_all)

interpretation tbEvaluations: prisma_table evaluations evaluations_update
  by unfold_locales (simp, rule db.equality, simp_all)

interpretation tbGrades: prisma_table grades grades_update
  by unfold_locales (simp, rule db.equality, simp_all)

interpretation tbHomeworks: prisma_table homeworks homeworks_update
  by unfold_locales (simp, rule db.equality, simp_all)

interpretation tbSubmissions: prisma_table submissions submissions_update
  by unfold_locales (simp, rule db.equality, simp_all)

interpretation tbAttendances: prisma_table attendances attendances_update
  by unfold_locales (simp, rule db.equality, simp_all)

interpretation tbConversations: prisma_table conversations conversations_update
  by unfold_locales (simp, rule db.equality, simp_all)

interpretation tbParticipants: prisma_table participants participants_update
  by unfold_locales (simp, rule db.equality, simp_all)

interpretation tbMessages: prisma_table messages messages_update
  by unfold_locales (simp, rule db.equality, simp_all)

interpretation tbAttachments: prisma_table attachments attachments_update
  by unfold_locales (simp, rule db.equality, simp_all)

interpretation tbAcademicYears: prisma_table academicYears academicYears_update
  by unfold_locales (simp, rule db.equality, simp_all)

interpretation tbImages: prisma_table images images_update
  by unfold_locales (simp, rule db.equality, simp_all)

interpretation tbFinancialPartners: prisma_table financialPartners financialPartners_update
  by unfold_locales (simp, rule db.equality, simp_all)

interpretation tbCompetitions: prisma_table competitions competitions_update
  by unfold_locales (simp, rule db.equality, simp_all)

interpretation tbSystemConfigs: prisma_table systemConfigs systemConfigs_update
  by unfold_locales (simp, rule db.equality, simp_all)

interpretation tbObjects: prisma_table objects objects_update
  by unfold_locales (simp, rule db.equality, simp_all)

interpretation tbFeeBrackets: prisma_table feeBrackets feeBrackets_update
  by unfold_locales (simp, rule db.equality, simp_all)

interpretation tbPlatformCities: prisma_table platformCities platformCities_update
  by unfold_locales (simp, rule db.equality, simp_all)

interpretation tbSchoolRequirements: prisma_table schoolRequirements schoolRequirements_update
  by unfold_locales (simp, rule db.equality, simp_all)

interpretation tbOfferRequirements: prisma_table offerRequirements offerRequirements_update
  by unfold_locales (simp, rule db.equality, simp_all)

section \<open>Generated identifiers\<close>

text \<open>
  The identifiers the database generates for new rows (\<open>@default(uuid())\<close>) come from a
  parameter, a function of the number of identifiers drawn so far; where a property needs them
  to be new, that is a hypothesis of it.
\<close>

definition newId :: "(nat \<Rightarrow> id) \<Rightarrow> (db, id) exec" where
  "newId uuid = (\<lambda>s. (Inr (uuid (seqNo s)), s\<lparr>seqNo := Suc (seqNo s)\<rparr>))"

lemma newId_run [exec_simps]:
  "newId uuid s = (Inr (uuid (seqNo s)), s\<lparr>seqNo := Suc (seqNo s)\<rparr>)"
  by (simp add: newId_def)

text \<open>A table without a unique key that the model checks is written with \<open>addRow\<close>.\<close>

definition addRow ::
  "(db \<Rightarrow> 'r list) \<Rightarrow> (('r list \<Rightarrow> 'r list) \<Rightarrow> db \<Rightarrow> db) \<Rightarrow> 'r \<Rightarrow> (db, unit) exec" where
  "addRow rows upd r = modify (\<lambda>s. upd (\<lambda>_. rows s @ [r]) s)"

lemma addRow_run [exec_simps]: "addRow rows upd r s = (Inr (), upd (\<lambda>_. rows s @ [r]) s)"
  by (simp add: addRow_def exec_simps)

text \<open>An update of a table with a unique key is refused when two rows would clash.\<close>

definition updateUnique ::
  "(db \<Rightarrow> 'r list) \<Rightarrow> (('r list \<Rightarrow> 'r list) \<Rightarrow> db \<Rightarrow> db) \<Rightarrow> ('r \<Rightarrow> 'r \<Rightarrow> bool) \<Rightarrow> ('r \<Rightarrow> bool)
    \<Rightarrow> ('r \<Rightarrow> 'r) \<Rightarrow> (db, unit) exec" where
  "updateUnique rows upd K P f =
     (\<lambda>s. if sorted_wrt (\<lambda>a b. \<not> K a b) (update_rows P f (rows s))
          then (Inr (), upd (\<lambda>_. update_rows P f (rows s)) s)
          else (Inl (Failure ''P2002''), s))"

lemma updateUnique_run [exec_simps]:
  "updateUnique rows upd K P f s =
     (if sorted_wrt (\<lambda>a b. \<not> K a b) (update_rows P f (rows s))
      then (Inr (), upd (\<lambda>_. update_rows P f (rows s)) s)
      else (Inl (Failure ''P2002''), s))"
  by (simp add: updateUnique_def)

text \<open>\<open>createMany\<close>: all rows or none, refused when one clashes with another or with a stored row.\<close>

definition insertMany ::
  "(db \<Rightarrow> 'r list) \<Rightarrow> (('r list \<Rightarrow> 'r list) \<Rightarrow> db \<Rightarrow> db) \<Rightarrow> ('r \<Rightarrow> 'r \<Rightarrow> bool) \<Rightarrow> 'r list
    \<Rightarrow> (db, unit) exec" where
  "insertMany rows upd K rs =
     (\<lambda>s. if (\<exists>r \<in> set rs. \<exists>x \<in> set (rows s). K x r) \<or> \<not> sorted_wrt (\<lambda>a b. \<not> K a b) rs
          then (Inl (Failure ''P2002''), s)
          else (Inr (), upd (\<lambda>_. rows s @ rs) s))"

lemma insertMany_run [exec_simps]:
  "insertMany rows upd K rs s =
     (if (\<exists>r \<in> set rs. \<exists>x \<in> set (rows s). K x r) \<or> \<not> sorted_wrt (\<lambda>a b. \<not> K a b) rs
      then (Inl (Failure ''P2002''), s)
      else (Inr (), upd (\<lambda>_. rows s @ rs) s))"
  by (simp add: insertMany_def)

section \<open>Sample rows\<close>

text \<open>The database without rows and a user, from which the examples are built.\<close>

definition empty_db :: db where
  "empty_db =
     \<lparr>users = [], pendings = [], refreshSessions = [], students = [], schoolAdmins = [],
      offers = [], applications = [], timelines = [], payments = [], transactions = [],
      refunds = [], programs = [], schoolYears = [], enrollments = [], courses = [],
      courseEnrollments = [], courseSlots = [], teachers = [], teacherSchools = [],
      teacherSubjects = [], subjects = [], availabilities = [], travelBuffers = [], rooms = [],
      timeSlots = [], classes = [], academicYears = [], requirements = [],
      teacherAssignments = [], notifications = [], preferences = [], auditLogs = [],
      schools = [], schoolEvents = [], documents = [], announcements = [], announcementRecipients = [], chapters = [], resources = [], evaluations = [], grades = [], homeworks = [], submissions = [], attendances = [], conversations = [], participants = [], messages = [], attachments = [], feeBrackets = [], platformCities = [], schoolRequirements = [], offerRequirements = [],
      images = [], financialPartners = [], competitions = [], systemConfigs = [], objects = [],
      mails = [],
      seqNo = 0\<rparr>"

definition sample_user :: "id \<Rightarrow> string \<Rightarrow> user_row" where
  "sample_user i role =
     \<lparr>u_id = i, u_email = i @ ''@get.mg'', u_password = ''hash'', u_role = Some role,
      u_isActive = True, u_lastLogin = None, u_mfaSecret = None, u_mfaEnabled = False,
      u_failedLoginAttempts = 0, u_lastFailedLoginAt = None, u_sessionVersion = 0,
      u_resetTokenHash = None, u_resetTokenExpiresAt = None, u_acceptedTermsVersion = None,
      u_theme = ''system'', u_deletedAt = None\<rparr>"

definition sample_uuid :: "nat \<Rightarrow> id" where
  "sample_uuid n = ''id-'' @ replicate n CHR ''x''"

end
