(* ===== verification/Application_Status.thy ===== *)
theory Application_Status
  imports Schema
begin

text \<open>
  The state machine of an application, \<open>ApplicationStatus\<close> and
  \<open>APPLICATION_STATUS_TRANSITIONS\<close> of
  \<open>application/dto/update-application-status.dto.ts\<close>, and the guard
  \<open>assertValidTransition\<close> of \<open>application.service.ts\<close>. The transition graph is shown to
  be acyclic, which orders the statuses (instance \<open>linorder\<close>), bounds the number of changes
  an application can go through, and makes REJECTED and CANCELLED final.
\<close>

section \<open>Names and transitions\<close>

fun status_name :: "app_status \<Rightarrow> string" where
  "status_name PENDING = ''PENDING''"
| "status_name UNDER_REVIEW = ''UNDER_REVIEW''"
| "status_name PRESELECTED = ''PRESELECTED''"
| "status_name TEST_SCHEDULED = ''TEST_SCHEDULED''"
| "status_name TEST_COMPLETED = ''TEST_COMPLETED''"
| "status_name INTERVIEW_SCHEDULED = ''INTERVIEW_SCHEDULED''"
| "status_name INTERVIEW_COMPLETED = ''INTERVIEW_COMPLETED''"
| "status_name ACCEPTED = ''ACCEPTED''"
| "status_name REJECTED = ''REJECTED''"
| "status_name WAITLISTED = ''WAITLISTED''"
| "status_name ENROLLED = ''ENROLLED''"
| "status_name CANCELLED = ''CANCELLED''"

fun application_status_transitions :: "app_status \<Rightarrow> app_status list" where
  "application_status_transitions PENDING =
     [UNDER_REVIEW, PRESELECTED, TEST_SCHEDULED, INTERVIEW_SCHEDULED, ACCEPTED, REJECTED,
      WAITLISTED, CANCELLED]"
| "application_status_transitions UNDER_REVIEW =
     [PRESELECTED, TEST_SCHEDULED, INTERVIEW_SCHEDULED, ACCEPTED, REJECTED, WAITLISTED, CANCELLED]"
| "application_status_transitions PRESELECTED =
     [TEST_SCHEDULED, INTERVIEW_SCHEDULED, ACCEPTED, REJECTED, WAITLISTED, CANCELLED]"
| "application_status_transitions TEST_SCHEDULED = [TEST_COMPLETED, CANCELLED]"
| "application_status_transitions TEST_COMPLETED =
     [INTERVIEW_SCHEDULED, ACCEPTED, REJECTED, WAITLISTED, CANCELLED]"
| "application_status_transitions INTERVIEW_SCHEDULED = [INTERVIEW_COMPLETED, CANCELLED]"
| "application_status_transitions INTERVIEW_COMPLETED =
     [ACCEPTED, REJECTED, WAITLISTED, CANCELLED]"
| "application_status_transitions WAITLISTED = [ACCEPTED, REJECTED, CANCELLED]"
| "application_status_transitions ACCEPTED = [ENROLLED, CANCELLED]"
| "application_status_transitions ENROLLED = [CANCELLED]"
| "application_status_transitions REJECTED = []"
| "application_status_transitions CANCELLED = []"

definition validTransition :: "app_status \<Rightarrow> app_status \<Rightarrow> bool" where
  "validTransition previousStatus nextStatus \<longleftrightarrow>
     previousStatus = nextStatus \<or>
     nextStatus \<in> set (application_status_transitions previousStatus)"

definition assertValidTransition :: "app_status \<Rightarrow> app_status \<Rightarrow> ('s, unit) exec" where
  "assertValidTransition previousStatus nextStatus =
     require (validTransition previousStatus nextStatus)
       (BadRequest (''Transition de statut invalide : '' @ status_name previousStatus @
                    '' -> '' @ status_name nextStatus))"

lemma assertValidTransition_run [exec_simps]:
  "assertValidTransition p n s =
     (if validTransition p n then (Inr (), s)
      else (Inl (BadRequest (''Transition de statut invalide : '' @ status_name p @
                    '' -> '' @ status_name n)), s))"
  by (simp add: assertValidTransition_def exec_simps)

section \<open>The workflow order\<close>

text \<open>
  A numbering that every transition increases. CANCELLED comes after REJECTED although neither
  leads to the other.
\<close>

fun status_index :: "app_status \<Rightarrow> nat" where
  "status_index PENDING = 0"
| "status_index UNDER_REVIEW = 1"
| "status_index PRESELECTED = 2"
| "status_index TEST_SCHEDULED = 3"
| "status_index TEST_COMPLETED = 4"
| "status_index INTERVIEW_SCHEDULED = 5"
| "status_index INTERVIEW_COMPLETED = 6"
| "status_index WAITLISTED = 7"
| "status_index ACCEPTED = 8"
| "status_index ENROLLED = 9"
| "status_index REJECTED = 10"
| "status_index CANCELLED = 11"

lemma status_index_inj: "status_index s = status_index t \<longleftrightarrow> s = t"
  by (cases s; cases t) simp_all

lemma status_index_bound: "status_index s \<le> 11"
  by (cases s) simp_all

lemma status_name_inj: "status_name s = status_name t \<longleftrightarrow> s = t"
  by (cases s; cases t) simp_all

instantiation app_status :: linorder
begin

definition less_eq_app_status :: "app_status \<Rightarrow> app_status \<Rightarrow> bool" where
  "less_eq_app_status s t \<longleftrightarrow> status_index s \<le> status_index t"

definition less_app_status :: "app_status \<Rightarrow> app_status \<Rightarrow> bool" where
  "less_app_status s t \<longleftrightarrow> status_index s < status_index t"

instance
  by standard (auto simp: less_eq_app_status_def less_app_status_def status_index_inj)

end

lemma transition_increases: "t \<in> set (application_status_transitions s) \<Longrightarrow> s < t"
  by (cases s) (auto simp: less_app_status_def)

text \<open>A status history: each status is an allowed change of the one before it.\<close>

inductive status_history :: "app_status list \<Rightarrow> bool" where
  one: "status_history [s]"
| step: "status_history (t # ts) \<Longrightarrow> t \<in> set (application_status_transitions s) \<Longrightarrow>
     status_history (s # t # ts)"

inductive_cases status_history_ConsE: "status_history (s # ts)"

text \<open>Reachability in the graph, staying put included.\<close>

definition status_reaches :: "app_status \<Rightarrow> app_status \<Rightarrow> bool" where
  "status_reaches = (\<lambda>s t. t \<in> set (application_status_transitions s))\<^sup>*\<^sup>*"

lemma status_reaches_refl [simp]: "status_reaches s s"
  by (simp add: status_reaches_def)

lemma status_reaches_trans: "status_reaches s t \<Longrightarrow> status_reaches t u \<Longrightarrow> status_reaches s u"
  by (simp add: status_reaches_def)

lemma validTransition_reaches: "validTransition s t \<Longrightarrow> status_reaches s t"
  by (auto simp: validTransition_def status_reaches_def)

lemma status_reaches_le: "status_reaches s t \<Longrightarrow> s \<le> t"
  unfolding status_reaches_def
  by (induction rule: rtranclp_induct) (auto dest: transition_increases)

lemma status_reaches_final:
  "status_reaches s t \<Longrightarrow> application_status_transitions s = [] \<Longrightarrow> t = s"
  unfolding status_reaches_def by (erule converse_rtranclpE) auto

text \<open>The statuses that hold a seat of the offer: they are left for one another or CANCELLED.\<close>

definition seated :: "app_status \<Rightarrow> bool" where
  "seated s \<longleftrightarrow> s = ACCEPTED \<or> s = ENROLLED"

lemma seated_next: "seated s \<Longrightarrow> validTransition s t \<Longrightarrow> seated t \<or> t = CANCELLED"
  by (cases s; cases t) (auto simp: seated_def validTransition_def)

lemma enters_seat: "validTransition s t \<Longrightarrow> \<not> seated s \<Longrightarrow> seated t \<Longrightarrow> t = ACCEPTED"
  by (cases s; cases t) (auto simp: seated_def validTransition_def)

section \<open>Properties\<close>

lemma history_from_bound: "status_history (s # ts) \<Longrightarrow> length ts + min 10 (status_index s) \<le> 10"
proof (induction ts arbitrary: s)
  case Nil
  then show ?case by simp
next
  case (Cons t ts)
  from Cons.prems have t: "t \<in> set (application_status_transitions s)" and h: "status_history (t # ts)"
    by (auto elim: status_history_ConsE)
  from Cons.IH[OF h] t show ?case
    by (cases s) auto
qed

text \<open>
  The workflow terminates: whatever decisions are taken, an application goes through at most
  ten status changes, because every transition of the table moves it strictly up the workflow
  order. The bound is attained.
\<close>

theorem status_history_bound: "status_history ss \<Longrightarrow> length ss \<le> 11"
  by (cases ss) (auto dest: history_from_bound)

theorem status_history_bound_witness:
  "status_history [PENDING, UNDER_REVIEW, PRESELECTED, TEST_SCHEDULED, TEST_COMPLETED,
     INTERVIEW_SCHEDULED, INTERVIEW_COMPLETED, WAITLISTED, ACCEPTED, ENROLLED, CANCELLED] \<and>
   length [PENDING, UNDER_REVIEW, PRESELECTED, TEST_SCHEDULED, TEST_COMPLETED,
     INTERVIEW_SCHEDULED, INTERVIEW_COMPLETED, WAITLISTED, ACCEPTED, ENROLLED, CANCELLED] \<le> 11"
proof -
  have h: "status_history [PENDING, UNDER_REVIEW, PRESELECTED, TEST_SCHEDULED, TEST_COMPLETED,
     INTERVIEW_SCHEDULED, INTERVIEW_COMPLETED, WAITLISTED, ACCEPTED, ENROLLED, CANCELLED]"
    by (intro status_history.intros) simp_all
  show ?thesis using h status_history_bound[OF h] by simp
qed

end
