(* ===== verification/Pagination.thy ===== *)
theory Pagination
  imports Schema
begin

text \<open>
  The paginated lists of the services: the defaulting of the query parameters
  (\<open>Number(x) || d\<close>), the clamped limits, the \<open>skip\<close>/\<open>take\<close> window of a sorted
  \<open>findMany\<close>, and the metadata. Query parameters are integers here; one that is not a number
  behaves as an absent one, as \<open>NaN || d\<close> does.
\<close>

definition numberOr :: "int \<Rightarrow> int option \<Rightarrow> int" where
  "numberOr d x = (case x of None \<Rightarrow> d | Some n \<Rightarrow> if n = 0 then d else n)"

text \<open>\<open>Math.min(Math.max(Number(limit) || d, 1), 100)\<close>\<close>

definition clampLimit :: "int \<Rightarrow> int option \<Rightarrow> int" where
  "clampLimit d x = min (max (numberOr d x) 1) 100"

text \<open>\<open>Math.max(Number(page) || 1, 1)\<close>\<close>

definition clampPage :: "int option \<Rightarrow> int" where
  "clampPage x = max (numberOr 1 x) 1"

text \<open>
  \<open>findMany\<close> with \<open>skip\<close> and \<open>take\<close>: Prisma rejects a negative \<open>skip\<close>, and a negative
  \<open>take\<close> reads backwards from the end of the list.
\<close>

definition pageWindow :: "int \<Rightarrow> int \<Rightarrow> 'a list \<Rightarrow> ('s, 'a list) exec" where
  "pageWindow skip tk xs =
     (if skip < 0 then throw (Failure ''skip'')
      else ret (if 0 \<le> tk then take (nat tk) (drop (nat skip) xs)
                else rev (take (nat (- tk)) (drop (nat skip) (rev xs)))))"

text \<open>\<open>Math.ceil(total / limit)\<close>, for a limit that is not zero.\<close>

definition totalPages :: "nat \<Rightarrow> int \<Rightarrow> int" where
  "totalPages n limit = - ((- int n) div limit)"

record 'a page =
  pg_items :: "'a list"
  pg_page :: int
  pg_limit :: int
  pg_total :: nat
  pg_totalPages :: int

definition paginate :: "int \<Rightarrow> int \<Rightarrow> 'a list \<Rightarrow> ('s, 'a page) exec" where
  "paginate page limit xs =
     bindE (pageWindow ((page - 1) * limit) limit xs) (\<lambda>items.
     ret \<lparr>pg_items = items, pg_page = page, pg_limit = limit, pg_total = length xs,
          pg_totalPages = totalPages (length xs) limit\<rparr>)"

text \<open>\<open>orderBy: { field: 'desc' }\<close>; rows with equal keys keep the order of the table.\<close>

definition orderDesc :: "('a \<Rightarrow> int) \<Rightarrow> 'a list \<Rightarrow> 'a list" where
  "orderDesc k xs = sort_key (\<lambda>x. - k x) xs"

lemma set_orderDesc [simp]: "set (orderDesc k xs) = set xs"
  by (simp add: orderDesc_def)

lemma length_orderDesc [simp]: "length (orderDesc k xs) = length xs"
  by (simp add: orderDesc_def)

lemma mset_orderDesc [simp]: "mset (orderDesc k xs) = mset xs"
  by (simp add: orderDesc_def)

lemma clampLimit_range: "1 \<le> clampLimit d x \<and> clampLimit d x \<le> 100"
  by (auto simp: clampLimit_def)

lemma clampPage_pos: "1 \<le> clampPage x"
  by (simp add: clampPage_def)

text \<open>The items of a page, for a positive limit and a page from 1.\<close>

definition pageItems :: "nat \<Rightarrow> nat \<Rightarrow> 'a list \<Rightarrow> 'a list" where
  "pageItems limit page xs = take limit (drop ((page - 1) * limit) xs)"

lemma paginate_run:
  assumes "1 \<le> page" "1 \<le> limit"
  shows "paginate page limit xs s =
    (Inr \<lparr>pg_items = pageItems (nat limit) (nat page) xs, pg_page = page, pg_limit = limit,
          pg_total = length xs, pg_totalPages = totalPages (length xs) limit\<rparr>, s)"
proof -
  have "nat ((page - 1) * limit) = (nat page - 1) * nat limit"
    using assms by (simp add: nat_mult_distrib nat_diff_distrib')
  moreover have "0 \<le> (page - 1) * limit" using assms by simp
  ultimately show ?thesis
    using assms by (simp add: paginate_def pageWindow_def exec_simps pageItems_def not_less)
qed

lemma ceil_div:
  assumes "0 < (l :: int)"
  shows "- ((- n) div l) = (n + l - 1) div l"
proof -
  define q r where "q = (n + l - 1) div l" and "r = (n + l - 1) mod l"
  have "n + l - 1 = l * q + r" by (simp add: q_def r_def)
  moreover have "0 \<le> r" "r < l" using assms by (simp_all add: r_def)
  ultimately have "(- n) div l = - q"
    by (intro int_div_pos_eq [where r = "l - 1 - r"]) (auto simp: algebra_simps)
  then show ?thesis by (simp add: q_def)
qed

lemma totalPages_bound:
  assumes "0 < limit"
  shows "n \<le> nat (totalPages n limit) * nat limit"
proof -
  have "int n \<le> totalPages n limit * limit"
  proof -
    have "int n + limit - 1 = limit * totalPages n limit + (int n + limit - 1) mod limit"
      using ceil_div [OF assms, of "int n"] by (simp add: totalPages_def)
    moreover have "(int n + limit - 1) mod limit < limit" using assms by simp
    ultimately show ?thesis by (simp add: mult.commute)
  qed
  moreover have "0 \<le> totalPages n limit"
    using assms ceil_div [OF assms, of "int n"] by (simp add: totalPages_def pos_imp_zdiv_nonneg_iff)
  ultimately show ?thesis using assms by (simp add: nat_mult_distrib [symmetric] nat_le_iff)
qed

lemma concat_pages: "concat (map (\<lambda>p. pageItems l p xs) [1..<Suc k]) = take (k * l) xs"
proof (induction k)
  case 0
  then show ?case by simp
next
  case (Suc k)
  have "concat (map (\<lambda>p. pageItems l p xs) [1..<Suc (Suc k)]) =
      take (k * l) xs @ take l (drop (k * l) xs)"
    using Suc by (simp add: pageItems_def)
  also have "\<dots> = take (k * l + l) xs" by (simp add: take_add)
  finally show ?case by (simp add: add.commute)
qed

text \<open>
  Walking the pages of a list from the first to \<open>totalPages\<close> shows every row exactly
  once, in order: the page windows tile the result set and \<open>meta.totalPages\<close> is large enough.
\<close>

theorem pages_cover:
  assumes "0 < limit"
  shows "concat (map (\<lambda>p. pageItems (nat limit) p xs)
           [1..<Suc (nat (totalPages (length xs) limit))]) = xs"
  unfolding concat_pages using totalPages_bound [OF assms, of "length xs"] by simp

theorem pages_cover_witness:
  "concat (map (\<lambda>p. pageItems (nat 2) p [10, 20, 30 :: int])
     [1..<Suc (nat (totalPages (length [10, 20, 30 :: int]) 2))]) = [10, 20, 30]"
  using pages_cover [of 2 "[10, 20, 30 :: int]"] by simp

end
