(* ===== verification/Notifications.thy ===== *)
theory Notifications
  imports Schema Pagination
begin

text \<open>
  \<open>NotificationService\<close> (\<open>notification/notification.service.ts\<close>): sending on the four
  channels, the user's preferences, and the record kept of every attempt. The deployment is the
  record \<open>mail_config\<close>: whether SendGrid is configured, the environment flags that allow a
  simulated channel, what the mail provider answers, and the decryption of a stored phone
  number. Console output is not modelled. The main facts: which tables a send can write, and
  that an e-mail carrying a secret (\<open>sendRawEmail\<close>) never reaches the notification table.
\<close>

section \<open>Configuration and messages\<close>

record mail_config =
  hasSendgrid :: bool
  isProduction :: bool
  allowSimulatedEmail :: bool
  allowSimulatedSms :: bool
  allowSimulatedPush :: bool
  sendgridAccepts :: "mail \<Rightarrow> bool"
  decryptPhone :: "string \<Rightarrow> string option"
  mailUuid :: "nat \<Rightarrow> id"

datatype channel = EMAIL | SMS | PUSH | IN_APP

fun channel_name :: "channel \<Rightarrow> string" where
  "channel_name EMAIL = ''EMAIL''"
| "channel_name SMS = ''SMS''"
| "channel_name PUSH = ''PUSH''"
| "channel_name IN_APP = ''IN_APP''"

record notification_dto =
  nd_userId :: id
  nd_type :: channel
  nd_title :: string
  nd_body :: string

datatype send_result = SendOk id string | ChannelDisabled

text \<open>The message an exception carries, kept in \<open>failureReason\<close>.\<close>

fun error_message :: "error \<Rightarrow> string" where
  "error_message (BadRequest m) = m"
| "error_message (NotFound m) = m"
| "error_message (Forbidden m) = m"
| "error_message (Unauthorized m) = m"
| "error_message (Conflict m) = m"
| "error_message (Failure m) = m"

section \<open>Preferences\<close>

definition default_preferences :: "id \<Rightarrow> preference_row" where
  "default_preferences userId =
     \<lparr>np_userId = userId, np_emailEnabled = True, np_smsEnabled = True, np_pushEnabled = True,
      np_inAppEnabled = True\<rparr>"

definition getUserPreferences :: "id \<Rightarrow> (db, preference_row) exec" where
  "getUserPreferences userId =
     thenE (upsertRow preferences preferences_update (\<lambda>p. np_userId p = userId) (\<lambda>p. p)
              (default_preferences userId))
       (findOr preferences (\<lambda>p. np_userId p = userId) (Failure ''P2025''))"

definition updatePreferences ::
  "id \<Rightarrow> bool \<Rightarrow> bool \<Rightarrow> bool \<Rightarrow> bool \<Rightarrow> (db, preference_row) exec" where
  "updatePreferences userId email sms push inApp =
     (let row = \<lparr>np_userId = userId, np_emailEnabled = email, np_smsEnabled = sms,
                 np_pushEnabled = push, np_inAppEnabled = inApp\<rparr>
      in bindE (findOr users (\<lambda>u. u_id u = userId) (NotFound ''User not found'')) (\<lambda>_.
         thenE (upsertRow preferences preferences_update (\<lambda>p. np_userId p = userId)
                  (\<lambda>_. row) row)
           (findOr preferences (\<lambda>p. np_userId p = userId) (Failure ''P2025''))))"

fun isChannelEnabled :: "channel \<Rightarrow> preference_row \<Rightarrow> bool" where
  "isChannelEnabled EMAIL p = np_emailEnabled p"
| "isChannelEnabled SMS p = np_smsEnabled p"
| "isChannelEnabled PUSH p = np_pushEnabled p"
| "isChannelEnabled IN_APP p = np_inAppEnabled p"

section \<open>The channels\<close>

text \<open>
  \<open>dispatchEmail\<close> returns the status recorded with the notification. Without SendGrid the
  message goes to the local mail sink, unless the server runs in production without the opt-in.
\<close>

definition dispatchEmail :: "mail_config \<Rightarrow> string \<Rightarrow> string \<Rightarrow> string \<Rightarrow> (db, string) exec" where
  "dispatchEmail C to subject body =
     (let m = \<lparr>ml_to = to, ml_subject = subject, ml_text = body\<rparr> in
      if \<not> hasSendgrid C then
        thenE (require (\<not> (isProduction C \<and> \<not> allowSimulatedEmail C))
                 (Failure ''SENDGRID_API_KEY manquant en production''))
          (thenE (addRow mails mails_update m) (ret ''SIMULATED''))
      else if sendgridAccepts C m then thenE (addRow mails mails_update m) (ret ''SENT'')
      else throw (Failure ''SendGrid''))"

definition sendRawEmail :: "mail_config \<Rightarrow> string \<Rightarrow> string \<Rightarrow> string \<Rightarrow> (db, string) exec" where
  "sendRawEmail C to subject body = dispatchEmail C to subject body"

definition sendEmail :: "mail_config \<Rightarrow> notification_dto \<Rightarrow> user_row \<Rightarrow> (db, string) exec" where
  "sendEmail C dto user = dispatchEmail C (u_email user) (nd_title dto) (nd_body dto)"

definition ensureSimulationAllowed :: "mail_config \<Rightarrow> string \<Rightarrow> bool \<Rightarrow> (db, unit) exec" where
  "ensureSimulationAllowed C channel allowSimulated =
     require (\<not> (isProduction C \<and> \<not> allowSimulated))
       (Failure (''Aucun prestataire '' @ channel @ '' reel integre''))"

definition sendSms :: "mail_config \<Rightarrow> notification_dto \<Rightarrow> user_row \<Rightarrow> (db, string) exec" where
  "sendSms C dto user =
     bindE (findFirst students (\<lambda>s. st_userId s = u_id user)) (\<lambda>student.
       case Option.bind student st_phone of
         None \<Rightarrow> throw (BadRequest ''User has no phone number'')
       | Some encryptedPhone \<Rightarrow>
           if encryptedPhone = [] then throw (BadRequest ''User has no phone number'')
           else (case decryptPhone C encryptedPhone of
             None \<Rightarrow> throw (BadRequest ''Numero de telephone illisible'')
           | Some phone \<Rightarrow>
               thenE (ensureSimulationAllowed C ''SMS'' (allowSimulatedSms C))
                 (ret ''SIMULATED'')))"

definition sendPush :: "mail_config \<Rightarrow> notification_dto \<Rightarrow> user_row \<Rightarrow> (db, string) exec" where
  "sendPush C dto user =
     thenE (ensureSimulationAllowed C ''PUSH'' (allowSimulatedPush C)) (ret ''SIMULATED'')"

definition sendInApp :: "notification_dto \<Rightarrow> user_row \<Rightarrow> (db, string) exec" where
  "sendInApp dto user = ret ''STORED''"

fun dispatch :: "mail_config \<Rightarrow> channel \<Rightarrow> notification_dto \<Rightarrow> user_row \<Rightarrow> (db, string) exec" where
  "dispatch C EMAIL dto user = sendEmail C dto user"
| "dispatch C SMS dto user = sendSms C dto user"
| "dispatch C PUSH dto user = sendPush C dto user"
| "dispatch C IN_APP dto user = sendInApp dto user"

section \<open>Sending\<close>

definition storeNotification ::
  "mail_config \<Rightarrow> time \<Rightarrow> notification_dto \<Rightarrow> time option \<Rightarrow> string \<Rightarrow> string option \<Rightarrow> (db, id) exec" where
  "storeNotification C now dto sentAt status reason =
     bindE (newId (mailUuid C)) (\<lambda>i.
     thenE (addRow notifications notifications_update
       \<lparr>n_id = i, n_userId = nd_userId dto, n_type = channel_name (nd_type dto),
        n_title = nd_title dto, n_body = nd_body dto, n_isRead = False, n_sentAt = sentAt,
        n_status = status, n_failureReason = reason, n_createdAt = now\<rparr>)
     (ret i))"

text \<open>A failed attempt is recorded before its exception is thrown again.\<close>

definition send :: "mail_config \<Rightarrow> time \<Rightarrow> notification_dto \<Rightarrow> (db, send_result) exec" where
  "send C now dto =
     bindE (findOr users (\<lambda>u. u_id u = nd_userId dto) (NotFound ''User not found'')) (\<lambda>user.
     bindE (getUserPreferences (nd_userId dto)) (\<lambda>prefs.
     if \<not> isChannelEnabled (nd_type dto) prefs then ret ChannelDisabled
     else
       bindE (catchE (dispatch C (nd_type dto) dto user)
                (\<lambda>e. thenE (storeNotification C now dto None ''FAILED'' (Some (error_message e)))
                       (throw e))) (\<lambda>status.
       bindE (storeNotification C now dto (Some now) status None) (\<lambda>i.
       ret (SendOk i status)))))"

definition sendInAppBatch ::
  "mail_config \<Rightarrow> time \<Rightarrow> id list \<Rightarrow> string \<Rightarrow> string \<Rightarrow> (db, (id \<times> id) list) exec" where
  "sendInAppBatch C now userIds title body =
     foldE (\<lambda>recipients batch.
       bindE (promiseAll (map (\<lambda>userId.
                bindE (send C now \<lparr>nd_userId = userId, nd_type = IN_APP, nd_title = title,
                                  nd_body = body\<rparr>)
                  (\<lambda>r. ret (case r of SendOk i _ \<Rightarrow> [(userId, i)] | ChannelDisabled \<Rightarrow> []))) batch))
         (\<lambda>results. ret (recipients @ concat results)))
       [] (chunks 25 (uniq userIds))"

definition sendApplicationStatusUpdate ::
  "mail_config \<Rightarrow> time \<Rightarrow> id \<Rightarrow> id \<Rightarrow> string \<Rightarrow> (db, send_result) exec" where
  "sendApplicationStatusUpdate C now userId applicationId status =
     send C now
       \<lparr>nd_userId = userId, nd_type = EMAIL, nd_title = ''Application Status Updated'',
        nd_body = ''Your application #'' @ applicationId @ '' status has changed to: '' @ status\<rparr>"

definition sendPaymentConfirmation ::
  "mail_config \<Rightarrow> time \<Rightarrow> (rat \<Rightarrow> string) \<Rightarrow> id \<Rightarrow> id \<Rightarrow> rat \<Rightarrow> (db, send_result) exec" where
  "sendPaymentConfirmation C now showNumber userId paymentId amount =
     send C now
       \<lparr>nd_userId = userId, nd_type = EMAIL, nd_title = ''Payment Confirmed'',
        nd_body = ''Your payment of '' @ showNumber amount @
          '' MGA has been confirmed. Payment ID: '' @ paymentId\<rparr>"

definition sendDeadlineReminder ::
  "mail_config \<Rightarrow> time \<Rightarrow> (time \<Rightarrow> string) \<Rightarrow> id \<Rightarrow> id \<Rightarrow> time \<Rightarrow> (db, send_result) exec" where
  "sendDeadlineReminder C now localeDate userId offerId deadline =
     send C now
       \<lparr>nd_userId = userId, nd_type = EMAIL, nd_title = ''Deadline Reminder'',
        nd_body = ''Reminder: The deadline for offer '' @ offerId @ '' is on '' @ localeDate deadline @
          ''. Don't forget to submit your application!''\<rparr>"

definition sendWelcomeEmail :: "mail_config \<Rightarrow> time \<Rightarrow> id \<Rightarrow> (db, send_result) exec" where
  "sendWelcomeEmail C now userId =
     bindE (findOr users (\<lambda>u. u_id u = userId) (NotFound ''User not found'')) (\<lambda>user.
     bindE (findFirst students (\<lambda>s. st_userId s = userId)) (\<lambda>student.
     send C now
       \<lparr>nd_userId = userId, nd_type = EMAIL, nd_title = ''Welcome to GET!'',
        nd_body = ''Hello '' @ (case student of None \<Rightarrow> [] | Some s \<Rightarrow> st_firstName s) @
          '', welcome to the GET platform! Start your academic journey today.''\<rparr>))"

section \<open>Reading\<close>

definition markAsRead :: "id \<Rightarrow> id \<Rightarrow> (db, notification_row) exec" where
  "markAsRead notificationId userId =
     bindE (findOr notifications (\<lambda>n. n_id n = notificationId \<and> n_userId n = userId)
              (NotFound ''Notification not found'')) (\<lambda>_.
     updateOne notifications notifications_update (\<lambda>n. n_id n = notificationId)
       (\<lambda>n. n\<lparr>n_isRead := True\<rparr>))"

definition markAllAsRead :: "id \<Rightarrow> (db, nat) exec" where
  "markAllAsRead userId =
     updateMany notifications notifications_update
       (\<lambda>n. n_userId n = userId \<and> \<not> n_isRead n) (\<lambda>n. n\<lparr>n_isRead := True\<rparr>)"

definition getUserNotifications ::
  "id \<Rightarrow> bool option \<Rightarrow> int option \<Rightarrow> int option \<Rightarrow> (db, notification_row page) exec" where
  "getUserNotifications userId isRead page limit =
     bindE (findMany notifications
              (\<lambda>n. n_userId n = userId \<and> (case isRead of None \<Rightarrow> True | Some b \<Rightarrow> n_isRead n = b))) (\<lambda>rows.
     paginate (numberOr 1 page) (numberOr 20 limit) (orderDesc n_createdAt rows))"

record platform_stats =
  ps_total :: nat
  ps_unread :: nat
  ps_read :: nat
  ps_sentLast7Days :: nat
  ps_topRecentTitles :: "(string \<times> nat) list"

definition getPlatformStats :: "time \<Rightarrow> (db, platform_stats) exec" where
  "getPlatformStats now =
     (let sevenDaysAgo = now - 7 * 24 * 60 * 60 * 1000 in
      bindE (countRows notifications (\<lambda>_. True)) (\<lambda>total.
      bindE (countRows notifications (\<lambda>n. \<not> n_isRead n)) (\<lambda>unread.
      bindE (countRows notifications (\<lambda>n. sevenDaysAgo \<le> n_createdAt n)) (\<lambda>sent.
      bindE (findMany notifications (\<lambda>n. sevenDaysAgo \<le> n_createdAt n)) (\<lambda>recent.
      ret \<lparr>ps_total = total, ps_unread = unread, ps_read = total - unread, ps_sentLast7Days = sent,
           ps_topRecentTitles = take 5 (orderDesc (int \<circ> snd) (groupCount n_title recent))\<rparr>)))))"

section \<open>What sending can write\<close>

text \<open>
  The part of the database that notifications and audit entries cannot touch: everything but
  the preference, notification and audit tables, the outgoing mail and the identifier supply.
  Services that only write outside it are \<open>confined\<close>.
\<close>

definition core :: "db \<Rightarrow> db" where
  "core s = s\<lparr>preferences := [], notifications := [], auditLogs := [], mails := [], seqNo := 0\<rparr>"

lemma core_simps [simp]:
  "core (preferences_update f1 s) = core s"
  "core (notifications_update f2 s) = core s"
  "core (auditLogs_update f3 s) = core s"
  "core (mails_update f4 s) = core s"
  "core (seqNo_update f5 s) = core s"
  by (simp_all add: core_def)

lemma core_fields:
  assumes "core t = core s"
  shows "users t = users s" "students t = students s" "offers t = offers s"
    "applications t = applications s" "timelines t = timelines s" "payments t = payments s"
    "transactions t = transactions s" "refunds t = refunds s" "enrollments t = enrollments s"
    "courseEnrollments t = courseEnrollments s" "programs t = programs s"
    "schoolYears t = schoolYears s" "courses t = courses s" "courseSlots t = courseSlots s"
    "schoolAdmins t = schoolAdmins s" "teachers t = teachers s" "pendings t = pendings s"
    "refreshSessions t = refreshSessions s" "teacherSchools t = teacherSchools s"
    "subjects t = subjects s" "availabilities t = availabilities s"
    "travelBuffers t = travelBuffers s" "requirements t = requirements s"
  using assms by (cases s; cases t; simp add: core_def)+

locale confined =
  fixes call :: "'x \<Rightarrow> (db, 'a) exec"
  assumes confined: "steps (frames core) (call x) s"
begin

lemma call_core: "call x s = (r, t) \<Longrightarrow> core t = core s"
  using confined [of x s] by (simp add: steps_def frames_def)

lemmas call_fields = core_fields [OF call_core]

text \<open>
  A preorder that only looks at the core is respected by a confined call, even by one whose
  failure is swallowed.
\<close>

lemma steps_call: "(\<And>t u. core u = core t \<Longrightarrow> R t u) \<Longrightarrow> steps R (call x) s"
  using confined [of x s] by (simp add: steps_def frames_def)

lemma steps_bestEffort_call: "(\<And>t u. core u = core t \<Longrightarrow> R t u) \<Longrightarrow> steps R (bestEffort (call x)) s"
  using confined [of x s] by (simp add: steps_def frames_def exec_simps)

end

lemma core_writes:
  "steps (frames core) (addRow notifications notifications_update r) s"
  "steps (frames core) (addRow mails mails_update m) s"
  "steps (frames core) (addRow auditLogs auditLogs_update a) s"
  "steps (frames core) (newId uuid) s"
  "steps (frames core) (upsertRow preferences preferences_update P f p) s"
  by (simp_all add: steps_def frames_def exec_simps)

lemma core_dispatch: "steps (frames core) (dispatch C ch dto user) s"
  by (cases ch)
    (auto simp: sendEmail_def dispatchEmail_def sendSms_def sendPush_def sendInApp_def
       ensureSimulationAllowed_def Let_def intro!: step_rules core_writes)

lemma core_storeNotification: "steps (frames core) (storeNotification C now dto w st reason) s"
  unfolding storeNotification_def by (intro step_rules core_writes)

lemma core_send: "steps (frames core) (send C now dto) s"
  unfolding send_def getUserPreferences_def
  by (intro step_rules core_writes core_dispatch core_storeNotification)

lemma core_sendInAppBatch: "steps (frames core) (sendInAppBatch C now us title body) s"
  unfolding sendInAppBatch_def by (rule frm.steps_foldE) (auto intro!: step_rules core_send)

interpretation sendIt: confined "send C now" for C now
  by unfold_locales (rule core_send)

interpretation batch: confined "\<lambda>(us, title, body). sendInAppBatch C now us title body" for C now
  by unfold_locales (auto intro: core_sendInAppBatch)

interpretation statusMail: confined
  "\<lambda>(userId, applicationId, status). sendApplicationStatusUpdate C now userId applicationId status"
  for C now
  by unfold_locales (auto simp: sendApplicationStatusUpdate_def intro: core_send)

section \<open>Behaviour of a send\<close>

lemma update_rows_self [simp]: "update_rows P (\<lambda>r. r) xs = xs"
  by (simp add: update_rows_def)

lemma getUserPreferences_run [exec_simps]:
  "getUserPreferences u s =
     (case find (\<lambda>p. np_userId p = u) (preferences s) of
        Some p \<Rightarrow> (Inr p, s)
      | None \<Rightarrow> (Inr (default_preferences u),
                 s\<lparr>preferences := preferences s @ [default_preferences u]\<rparr>))"
proof (cases "find (\<lambda>p. np_userId p = u) (preferences s)")
  case None
  then have "\<not> (\<exists>p \<in> set (preferences s). np_userId p = u)" by (simp add: find_None)
  with None show ?thesis
    by (simp add: getUserPreferences_def exec_simps find_append)
      (simp add: default_preferences_def)
next
  case (Some p)
  then have "\<exists>p \<in> set (preferences s). np_userId p = u" by (auto dest: find_Some_in)
  with Some show ?thesis by (simp add: getUserPreferences_def exec_simps)
qed

lemma storeNotification_run [exec_simps]:
  "storeNotification C now dto w st reason s =
     (Inr (mailUuid C (seqNo s)),
      s\<lparr>seqNo := Suc (seqNo s), notifications := notifications s @
        [\<lparr>n_id = mailUuid C (seqNo s), n_userId = nd_userId dto, n_type = channel_name (nd_type dto),
          n_title = nd_title dto, n_body = nd_body dto, n_isRead = False, n_sentAt = w,
          n_status = st, n_failureReason = reason, n_createdAt = now\<rparr>]\<rparr>)"
  by (simp add: storeNotification_def exec_simps)

text \<open>The channels write no notification themselves and draw no identifier.\<close>

definition journal :: "db \<Rightarrow> notification_row list \<times> nat" where
  "journal s = (notifications s, seqNo s)"

lemma dispatch_journal: "steps (frames journal) (dispatch C ch dto user) s"
proof -
  have w: "steps (frames journal) (addRow mails mails_update m) t" for m t
    by (simp add: steps_def frames_def exec_simps journal_def)
  show ?thesis
    by (cases ch)
      (auto simp: sendEmail_def dispatchEmail_def sendSms_def sendPush_def sendInApp_def
         ensureSimulationAllowed_def Let_def intro!: step_rules w)
qed

definition recorded :: "time \<Rightarrow> notification_dto \<Rightarrow> time option \<Rightarrow> string \<Rightarrow> string option \<Rightarrow> id
    \<Rightarrow> notification_row" where
  "recorded now dto w st reason i =
     \<lparr>n_id = i, n_userId = nd_userId dto, n_type = channel_name (nd_type dto),
      n_title = nd_title dto, n_body = nd_body dto, n_isRead = False, n_sentAt = w,
      n_status = st, n_failureReason = reason, n_createdAt = now\<rparr>"

text \<open>
  No attempt is lost: sending to an existing user appends exactly one row to the
  notification journal, with the channel's status when it succeeded and with FAILED and the
  reason of the failure when it threw; only a channel the user has disabled leaves the journal
  as it was.
\<close>

theorem send_recorded:
  assumes "find (\<lambda>u. u_id u = nd_userId dto) (users s) = Some user"
    and "send C now dto s = (r, t)"
  shows "case r of
      Inr (SendOk i st) \<Rightarrow> notifications t = notifications s @ [recorded now dto (Some now) st None i]
    | Inr ChannelDisabled \<Rightarrow> notifications t = notifications s
    | Inl e \<Rightarrow> notifications t = notifications s @
        [recorded now dto None ''FAILED'' (Some (error_message e)) (mailUuid C (seqNo s))]"
proof -
  obtain p s1 where p: "getUserPreferences (nd_userId dto) s = (Inr p, s1)"
    and s1: "notifications s1 = notifications s" "seqNo s1 = seqNo s"
    by (cases "find (\<lambda>p. np_userId p = nd_userId dto) (preferences s)") (auto simp: exec_simps)
  obtain res s2 where d: "dispatch C (nd_type dto) dto user s1 = (res, s2)"
    by (cases "dispatch C (nd_type dto) dto user s1")
  have s2: "notifications s2 = notifications s" "seqNo s2 = seqNo s"
    using steps_framesD [OF dispatch_journal d] s1 by (simp_all add: journal_def)
  show ?thesis
    using assms(2) assms(1) p d s2 s1
    by (cases "isChannelEnabled (nd_type dto) p"; cases res)
      (auto simp: send_def bindE_run findOr_run catchE_run thenE_run throw_run ret_run
         storeNotification_run recorded_def)
qed

definition sample_mail :: mail_config where
  "sample_mail =
     \<lparr>hasSendgrid = False, isProduction = False, allowSimulatedEmail = False,
      allowSimulatedSms = False, allowSimulatedPush = False, sendgridAccepts = (\<lambda>_. True),
      decryptPhone = Some, mailUuid = sample_uuid\<rparr>"

theorem send_recorded_witness:
  "\<exists>t. send sample_mail 0 \<lparr>nd_userId = ''u1'', nd_type = IN_APP, nd_title = ''T'', nd_body = ''B''\<rparr>
         (empty_db\<lparr>users := [sample_user ''u1'' ''STUDENT'']\<rparr>)
       = (Inr (SendOk ''id-'' ''STORED''), t) \<and>
     notifications t =
       [recorded 0 \<lparr>nd_userId = ''u1'', nd_type = IN_APP, nd_title = ''T'', nd_body = ''B''\<rparr>
          (Some 0) ''STORED'' None ''id-'']"
proof -
  define dto where "dto = \<lparr>nd_userId = ''u1'', nd_type = IN_APP, nd_title = ''T'', nd_body = ''B''\<rparr>"
  define s where "s = empty_db\<lparr>users := [sample_user ''u1'' ''STUDENT'']\<rparr>"
  have u: "find (\<lambda>u. u_id u = nd_userId dto) (users s) = Some (sample_user ''u1'' ''STUDENT'')"
    by (simp add: s_def dto_def sample_user_def)
  obtain t where t: "send sample_mail 0 dto s = (Inr (SendOk ''id-'' ''STORED''), t)"
    by (simp add: s_def dto_def sample_user_def sample_mail_def send_def exec_simps empty_db_def
        sendInApp_def default_preferences_def sample_uuid_def)
  from send_recorded [OF u t] have "notifications t = [recorded 0 dto (Some 0) ''STORED'' None ''id-'']"
    by (simp add: s_def empty_db_def)
  with t show ?thesis unfolding dto_def s_def by blast
qed

text \<open>
  No false success in production: when no mail provider is configured and simulation is not
  explicitly allowed, an e-mail notification is never reported as sent and no message leaves the
  server, whatever the user's preferences.
\<close>

theorem production_mail_never_faked:
  assumes "isProduction C" "\<not> hasSendgrid C" "\<not> allowSimulatedEmail C" "nd_type dto = EMAIL"
    and "send C now dto s = (r, t)"
  shows "mails t = mails s \<and> (\<forall>i st. r \<noteq> Inr (SendOk i st))"
  using assms
  by (auto simp: send_def exec_simps sendEmail_def dispatchEmail_def Let_def
      split: option.splits if_splits)

theorem production_mail_never_faked_witness:
  "\<exists>r t. send (sample_mail\<lparr>isProduction := True\<rparr>) 0
         \<lparr>nd_userId = ''u1'', nd_type = EMAIL, nd_title = ''T'', nd_body = ''B''\<rparr>
         (empty_db\<lparr>users := [sample_user ''u1'' ''STUDENT'']\<rparr>) = (r, t) \<and>
       mails t = [] \<and> (\<forall>i st. r \<noteq> Inr (SendOk i st))"
proof -
  define s where "s = empty_db\<lparr>users := [sample_user ''u1'' ''STUDENT'']\<rparr>"
  define dto where "dto = \<lparr>nd_userId = ''u1'', nd_type = EMAIL, nd_title = ''T'', nd_body = ''B''\<rparr>"
  obtain r t where rt: "send (sample_mail\<lparr>isProduction := True\<rparr>) 0 dto s = (r, t)"
    by (cases "send (sample_mail\<lparr>isProduction := True\<rparr>) 0 dto s")
  have "mails t = mails s \<and> (\<forall>i st. r \<noteq> Inr (SendOk i st))"
    by (rule production_mail_never_faked [OF _ _ _ _ rt]) (simp_all add: sample_mail_def dto_def)
  with rt show ?thesis unfolding s_def dto_def by (auto simp: empty_db_def)
qed

end
