(* ===== verification/Enrollment.thy ===== *)
theory Enrollment
  imports Notifications
begin

text \<open>
  Registration of a student in a school, as the acceptance of an application and the
  confirmation of a payment perform it: \<open>SchoolService.syncCourseEnrollments\<close>
  (\<open>school/school.service.ts\<close>) and the block, repeated in \<open>application.service.ts\<close> and
  \<open>payment.service.ts\<close>, that looks up the offer's programme and the current academic year,
  upserts the \<open>StudentEnrollment\<close> and synchronises the courses. The main fact is that the
  synchronisation makes the student's courses in the school exactly the published courses of
  the programme and level, and touches nobody else's.
\<close>

section \<open>Course synchronisation\<close>

definition matchingCourse :: "id \<Rightarrow> id \<Rightarrow> int \<Rightarrow> course_row \<Rightarrow> bool" where
  "matchingCourse schoolId programId programLevel c \<longleftrightarrow>
     c_schoolId c = schoolId \<and> c_programId c = Some programId \<and>
     c_programLevel c = Some programLevel \<and> c_isPublished c"

definition courseInSchool :: "db \<Rightarrow> id \<Rightarrow> id \<Rightarrow> bool" where
  "courseInSchool s schoolId courseId \<longleftrightarrow>
     (\<exists>c \<in> set (courses s). c_id c = courseId \<and> c_schoolId c = schoolId)"

definition upsertCourseEnrollment :: "id \<Rightarrow> id \<Rightarrow> (db, unit) exec" where
  "upsertCourseEnrollment studentId courseId =
     upsertRow courseEnrollments courseEnrollments_update
       (\<lambda>e. ce_courseId e = courseId \<and> ce_studentId e = studentId) (\<lambda>e. e)
       \<lparr>ce_courseId = courseId, ce_studentId = studentId\<rparr>"

definition syncCourseEnrollments :: "id \<Rightarrow> id \<Rightarrow> id \<Rightarrow> int \<Rightarrow> bool \<Rightarrow> (db, unit) exec" where
  "syncCourseEnrollments studentId schoolId programId programLevel tx =
     bindE (findMany courses (matchingCourse schoolId programId programLevel)) (\<lambda>cs.
     bindE (asks (\<lambda>s. courseInSchool s schoolId)) (\<lambda>inSchool.
     let operations =
       thenE (deleteMany courseEnrollments courseEnrollments_update
                (\<lambda>e. ce_studentId e = studentId \<and> ce_courseId e \<notin> set (map c_id cs) \<and>
                     inSchool (ce_courseId e)))
         (forEach (map c_id cs) (upsertCourseEnrollment studentId))
     in if tx then operations else transact operations))"

text \<open>The effect of the upserts on the table.\<close>

fun add_missing :: "id \<Rightarrow> id list \<Rightarrow> course_enrollment_row list \<Rightarrow> course_enrollment_row list" where
  "add_missing studentId [] es = es"
| "add_missing studentId (c # cs) es =
     add_missing studentId cs
       (if \<exists>e \<in> set es. ce_courseId e = c \<and> ce_studentId e = studentId then es
        else es @ [\<lparr>ce_courseId = c, ce_studentId = studentId\<rparr>])"

lemma course_enrollment_row_eq [simp]:
  "\<lparr>ce_courseId = ce_courseId e, ce_studentId = ce_studentId e\<rparr> = e"
  by (cases e) simp

lemma upsertCourseEnrollment_run:
  "upsertCourseEnrollment sid c s =
     (Inr (), s\<lparr>courseEnrollments := add_missing sid [c] (courseEnrollments s)\<rparr>)"
  by (simp add: upsertCourseEnrollment_def upsertRow_run)

lemma forEach_upsert_run:
  "forEach cs (upsertCourseEnrollment sid) s =
   (Inr (), s\<lparr>courseEnrollments := add_missing sid cs (courseEnrollments s)\<rparr>)"
  by (induction cs arbitrary: s) (simp_all add: ret_run thenE_run upsertCourseEnrollment_run)

lemma set_add_missing:
  "set (add_missing sid cs es) = set es \<union> (\<lambda>c. \<lparr>ce_courseId = c, ce_studentId = sid\<rparr>) ` set cs"
proof (induction sid cs es rule: add_missing.induct)
  case (1 sid es)
  then show ?case by simp
next
  case (2 sid c cs es)
  show ?case
  proof (cases "\<exists>e \<in> set es. ce_courseId e = c \<and> ce_studentId e = sid")
    case True
    then obtain e where "e \<in> set es" "ce_courseId e = c" "ce_studentId e = sid" by blast
    then have "\<lparr>ce_courseId = c, ce_studentId = sid\<rparr> \<in> set es" by auto
    with 2 True show ?thesis by auto
  next
    case False
    with 2 show ?thesis by auto
  qed
qed

definition synced :: "db \<Rightarrow> id \<Rightarrow> id \<Rightarrow> id \<Rightarrow> int \<Rightarrow> course_enrollment_row list" where
  "synced s studentId schoolId programId programLevel =
     (let ids = map c_id (filter (matchingCourse schoolId programId programLevel) (courses s)) in
      add_missing studentId ids
        (filter (\<lambda>e. \<not> (ce_studentId e = studentId \<and> ce_courseId e \<notin> set ids \<and>
                          courseInSchool s schoolId (ce_courseId e))) (courseEnrollments s)))"

lemma syncCourseEnrollments_run [exec_simps]:
  "syncCourseEnrollments sid school prog lvl tx s =
     (Inr (), s\<lparr>courseEnrollments := synced s sid school prog lvl\<rparr>)"
  by (cases s)
    (simp add: syncCourseEnrollments_def bindE_run findMany_run asks_run Let_def transact_run
      thenE_run deleteMany_run forEach_upsert_run synced_def courseInSchool_def)

lemma in_synced:
  "e \<in> set (synced s sid school prog lvl) \<longleftrightarrow>
     (ce_studentId e = sid \<and>
        (\<exists>c \<in> set (courses s). matchingCourse school prog lvl c \<and> ce_courseId e = c_id c)) \<or>
     (e \<in> set (courseEnrollments s) \<and>
        (ce_studentId e \<noteq> sid \<or> \<not> courseInSchool s school (ce_courseId e)))"
proof -
  have new: "e = \<lparr>ce_courseId = i, ce_studentId = sid\<rparr> \<longleftrightarrow> ce_courseId e = i \<and> ce_studentId e = sid"
    for i by (cases e) auto
  show ?thesis by (auto simp: synced_def Let_def set_add_missing new image_iff)
qed

lemma matching_in_school:
  "c \<in> set (courses s) \<Longrightarrow> matchingCourse school prog lvl c \<Longrightarrow> courseInSchool s school (c_id c)"
  by (auto simp: courseInSchool_def matchingCourse_def)

text \<open>
  C11. After a synchronisation the student attends, among the courses of the school, exactly the
  published courses of the programme at the level: stale registrations are gone and none is
  missing.
\<close>

theorem sync_exact:
  "{i. (\<exists>e \<in> set (courseEnrollments (snd (syncCourseEnrollments sid school prog lvl tx s))).
          ce_studentId e = sid \<and> ce_courseId e = i) \<and> courseInSchool s school i} =
   {c_id c |c. c \<in> set (courses s) \<and> matchingCourse school prog lvl c}"
proof (intro set_eqI iffI)
  fix i
  assume "i \<in> {c_id c |c. c \<in> set (courses s) \<and> matchingCourse school prog lvl c}"
  then obtain c where c: "c \<in> set (courses s)" "matchingCourse school prog lvl c" "i = c_id c"
    by blast
  then have "\<lparr>ce_courseId = i, ce_studentId = sid\<rparr> \<in> set (synced s sid school prog lvl)"
    by (auto simp: in_synced)
  with c show "i \<in> {i. (\<exists>e \<in> set (courseEnrollments (snd (syncCourseEnrollments sid school prog lvl tx s))).
          ce_studentId e = sid \<and> ce_courseId e = i) \<and> courseInSchool s school i}"
    by (auto simp: exec_simps dest: matching_in_school intro!: bexI)
qed (auto simp: exec_simps in_synced)

text \<open>
  The synchronisation is confined to the student and the school: every other registration,
  of another student or in a course of another school, is there after it exactly when it was
  there before.
\<close>

theorem sync_frame:
  assumes "ce_studentId e \<noteq> sid \<or> \<not> courseInSchool s school (ce_courseId e)"
  shows "e \<in> set (courseEnrollments (snd (syncCourseEnrollments sid school prog lvl tx s))) \<longleftrightarrow>
         e \<in> set (courseEnrollments s)"
  using assms by (auto simp: exec_simps in_synced dest: matching_in_school)

definition sample_course :: "id \<Rightarrow> id \<Rightarrow> bool \<Rightarrow> course_row" where
  "sample_course i school published =
     \<lparr>c_id = i, c_schoolId = school, c_teacherId = ''t1'', c_code = i, c_title = i, c_level = [],
      c_subjectId = None, c_programId = Some ''p1'', c_programLevel = Some 1, c_group = None,
      c_credits = 0, c_isPublished = published, c_subjectRequirementId = None, c_welcomeMessage = None,
      c_allowGroupMessages = True, c_notifyOnPublish = True\<rparr>"

theorem sync_frame_witness:
  "\<lparr>ce_courseId = ''c9'', ce_studentId = ''st1''\<rparr> \<in>
   set (courseEnrollments (snd (syncCourseEnrollments ''st1'' ''sc1'' ''p1'' 1 True
     (empty_db\<lparr>courses := [sample_course ''c1'' ''sc1'' True, sample_course ''c9'' ''sc2'' True],
               courseEnrollments := [\<lparr>ce_courseId = ''c9'', ce_studentId = ''st1''\<rparr>]\<rparr>))))"
proof -
  define s where
    "s = empty_db\<lparr>courses := [sample_course ''c1'' ''sc1'' True, sample_course ''c9'' ''sc2'' True],
               courseEnrollments := [\<lparr>ce_courseId = ''c9'', ce_studentId = ''st1''\<rparr>]\<rparr>"
  define e where "e = \<lparr>ce_courseId = ''c9'', ce_studentId = ''st1''\<rparr>"
  have "ce_studentId e \<noteq> ''st1'' \<or> \<not> courseInSchool s ''sc1'' (ce_courseId e)"
    by (simp add: courseInSchool_def s_def e_def sample_course_def)
  from sync_frame [OF this, of "''p1''" 1 True]
  show ?thesis unfolding s_def [symmetric] e_def [symmetric] by (simp add: s_def e_def)
qed

section \<open>Automatic registration\<close>

text \<open>
  The lookups shared by the acceptance and the payment: the offer's programme, when it is
  active in the offer's school, and the school's current academic year.
\<close>

definition findProgramAndYear ::
  "offer_row \<Rightarrow> (db, (program_row \<times> school_year_row) option) exec" where
  "findProgramAndYear offer =
     (case o_programId offer of
        None \<Rightarrow> ret None
      | Some programId \<Rightarrow>
          bindE (findFirst programs (\<lambda>p. pr_id p = programId \<and> pr_schoolId p = o_schoolId offer \<and>
                                      pr_isActive p)) (\<lambda>program.
          bindE (findFirst schoolYears (\<lambda>y. y_schoolId y = o_schoolId offer \<and> y_isCurrent y))
            (\<lambda>academicYear.
          ret (case (program, academicYear) of
                 (Some p, Some y) \<Rightarrow> Some (p, y)
               | _ \<Rightarrow> None))))"

definition enrolledYear :: "program_row \<Rightarrow> school_year_row \<Rightarrow> string" where
  "enrolledYear program academicYear =
     ''Annee 1 - '' @ pr_name program @ '' - '' @ y_label academicYear"

definition upsertEnrollment ::
  "id \<Rightarrow> id \<Rightarrow> program_row \<Rightarrow> school_year_row \<Rightarrow> (db, unit) exec" where
  "upsertEnrollment studentId schoolId program academicYear =
     upsertRow enrollments enrollments_update
       (\<lambda>e. e_studentId e = studentId \<and> e_schoolId e = schoolId)
       (\<lambda>e. e\<lparr>e_programId := pr_id program, e_programLevel := 1,
             e_academicYearId := y_id academicYear,
             e_enrolledYear := enrolledYear program academicYear, e_status := ACTIVE\<rparr>)
       \<lparr>e_studentId = studentId, e_schoolId = schoolId, e_programId = pr_id program,
        e_programLevel = 1, e_academicYearId = y_id academicYear,
        e_enrolledYear = enrolledYear program academicYear, e_status = ACTIVE\<rparr>"

definition registerStudent ::
  "id \<Rightarrow> id \<Rightarrow> program_row \<Rightarrow> school_year_row \<Rightarrow> (db, unit) exec" where
  "registerStudent studentId schoolId program academicYear =
     thenE (upsertEnrollment studentId schoolId program academicYear)
       (syncCourseEnrollments studentId schoolId (pr_id program) 1 True)"

text \<open>Why the automatic registration was impossible.\<close>

definition enrollmentFailure :: "offer_row \<Rightarrow> string" where
  "enrollmentFailure offer =
     (if o_programId offer = None then ''l'offre n'est liee a aucun programme''
      else ''aucun programme actif ou annee academique en cours pour cette ecole'')"

text \<open>The pure value of the lookups.\<close>

definition programAndYear :: "db \<Rightarrow> offer_row \<Rightarrow> (program_row \<times> school_year_row) option" where
  "programAndYear s offer =
     (case o_programId offer of None \<Rightarrow> None
      | Some i \<Rightarrow>
        (case find (\<lambda>p. pr_id p = i \<and> pr_schoolId p = o_schoolId offer \<and> pr_isActive p) (programs s) of
           None \<Rightarrow> None
         | Some p \<Rightarrow>
           (case find (\<lambda>y. y_schoolId y = o_schoolId offer \<and> y_isCurrent y) (schoolYears s) of
              None \<Rightarrow> None
            | Some y \<Rightarrow> Some (p, y))))"

lemma findProgramAndYear_run [exec_simps]:
  "findProgramAndYear offer s = (Inr (programAndYear s offer), s)"
  by (auto simp: findProgramAndYear_def programAndYear_def exec_simps split: option.splits)

definition enrolledIn :: "db \<Rightarrow> id \<Rightarrow> id \<Rightarrow> program_row \<Rightarrow> school_year_row \<Rightarrow> bool" where
  "enrolledIn s studentId schoolId program academicYear \<longleftrightarrow>
     (\<exists>e \<in> set (enrollments s). e_studentId e = studentId \<and> e_schoolId e = schoolId \<and>
        e_programId e = pr_id program \<and> e_academicYearId e = y_id academicYear \<and>
        e_programLevel e = 1 \<and> e_status e = ACTIVE)"

lemma upsertEnrollment_ok:
  "\<exists>es. upsertEnrollment sid school p y s = (Inr (), s\<lparr>enrollments := es\<rparr>) \<and>
     enrolledIn (s\<lparr>enrollments := es\<rparr>) sid school p y"
proof (cases "\<exists>e \<in> set (enrollments s). e_studentId e = sid \<and> e_schoolId e = school")
  case True
  then obtain e where e: "e \<in> set (enrollments s)" "e_studentId e = sid" "e_schoolId e = school"
    by blast
  define f :: "enrollment_row \<Rightarrow> enrollment_row" where "f = (\<lambda>e. e\<lparr>e_programId := pr_id p, e_programLevel := 1,
    e_academicYearId := y_id y, e_enrolledYear := enrolledYear p y, e_status := ACTIVE\<rparr>)"
  let ?es = "update_rows (\<lambda>e. e_studentId e = sid \<and> e_schoolId e = school) f (enrollments s)"
  have "f e \<in> set ?es" by (rule in_update_rowsI [OF e(1)]) (simp add: e)
  then have "enrolledIn (s\<lparr>enrollments := ?es\<rparr>) sid school p y"
    unfolding enrolledIn_def using e by (intro bexI [of _ "f e"]) (simp_all add: f_def)
  moreover have "upsertEnrollment sid school p y s = (Inr (), s\<lparr>enrollments := ?es\<rparr>)"
    using True unfolding upsertEnrollment_def upsertRow_run f_def by (simp only: if_True)
  ultimately show ?thesis by blast
next
  case False
  define r where "r = \<lparr>e_studentId = sid, e_schoolId = school, e_programId = pr_id p,
    e_programLevel = 1, e_academicYearId = y_id y, e_enrolledYear = enrolledYear p y,
    e_status = ACTIVE\<rparr>"
  from False have "upsertEnrollment sid school p y s =
      (Inr (), s\<lparr>enrollments := enrollments s @ [r]\<rparr>)"
    unfolding upsertEnrollment_def upsertRow_run r_def by (simp only: if_False)
  moreover have "enrolledIn (s\<lparr>enrollments := enrollments s @ [r]\<rparr>) sid school p y"
    by (simp add: enrolledIn_def r_def)
  ultimately show ?thesis by blast
qed

text \<open>A registration writes the enrolment and the student's courses, nothing else.\<close>

lemma registerStudent_ok:
  "\<exists>es. registerStudent sid school p y s =
      (Inr (), s\<lparr>enrollments := es, courseEnrollments := synced s sid school (pr_id p) 1\<rparr>) \<and>
      enrolledIn (s\<lparr>enrollments := es\<rparr>) sid school p y"
proof -
  obtain es where "upsertEnrollment sid school p y s = (Inr (), s\<lparr>enrollments := es\<rparr>)"
    "enrolledIn (s\<lparr>enrollments := es\<rparr>) sid school p y"
    using upsertEnrollment_ok by blast
  then show ?thesis
    by (auto simp: registerStudent_def exec_simps synced_def courseInSchool_def)
qed

text \<open>One enrolment per student and school, the key of the upsert.\<close>

definition enrollment_key :: "enrollment_row \<Rightarrow> id \<times> id" where
  "enrollment_key e = (e_studentId e, e_schoolId e)"

definition uniqueEnrollments :: "db \<Rightarrow> bool" where
  "uniqueEnrollments s \<longleftrightarrow> distinct (map enrollment_key (enrollments s))"

lemma registerStudent_unique: "steps (keeps uniqueEnrollments) (registerStudent sid school p y) s"
  unfolding registerStudent_def
proof (rule inv.steps_thenE)
  show "steps (keeps uniqueEnrollments) (upsertEnrollment sid school p y) s"
    by (auto simp: steps_def keeps_def upsertEnrollment_def exec_simps uniqueEnrollments_def
        enrollment_key_def)
  show "steps (keeps uniqueEnrollments) (syncCourseEnrollments sid school (pr_id p) 1 True) t" for t
    by (simp add: steps_def keeps_def exec_simps uniqueEnrollments_def)
qed

text \<open>The lookups depend on the tables they read only.\<close>

lemma programAndYear_same:
  "programs t = programs s \<Longrightarrow> schoolYears t = schoolYears s \<Longrightarrow>
   programAndYear t offer = programAndYear s offer"
  by (simp only: programAndYear_def)

lemma synced_same:
  "courses t = courses s \<Longrightarrow> courseEnrollments t = courseEnrollments s \<Longrightarrow>
   synced t sid school prog lvl = synced s sid school prog lvl"
  by (simp add: synced_def courseInSchool_def)

lemma attends_synced:
  assumes "courseInSchool s school i"
  shows "(\<exists>e \<in> set (synced s sid school prog lvl). ce_studentId e = sid \<and> ce_courseId e = i) \<longleftrightarrow>
         (\<exists>c \<in> set (courses s). c_id c = i \<and> matchingCourse school prog lvl c)"
proof
  assume "\<exists>c \<in> set (courses s). c_id c = i \<and> matchingCourse school prog lvl c"
  then have "\<lparr>ce_courseId = i, ce_studentId = sid\<rparr> \<in> set (synced s sid school prog lvl)"
    by (auto simp: in_synced)
  then show "\<exists>e \<in> set (synced s sid school prog lvl). ce_studentId e = sid \<and> ce_courseId e = i"
    by (intro bexI) auto
next
  assume "\<exists>e \<in> set (synced s sid school prog lvl). ce_studentId e = sid \<and> ce_courseId e = i"
  then obtain e where e: "e \<in> set (synced s sid school prog lvl)" "ce_studentId e = sid" "ce_courseId e = i"
    by blast
  from e(1) obtain c where "c \<in> set (courses s)" "matchingCourse school prog lvl c" "ce_courseId e = c_id c"
    using assms e(2,3) unfolding in_synced by blast
  with e(3) show "\<exists>c \<in> set (courses s). c_id c = i \<and> matchingCourse school prog lvl c"
    by auto
qed

end
