(* ===== verification/Audit_Log.thy ===== *)
theory Audit_Log
  imports Pagination Notifications
begin

text \<open>
  \<open>AuditService\<close> (\<open>audit/audit.service.ts\<close>): the append-only journal that the other
  services write to, its paginated consultation and its statistics. The client address and the
  user agent of an entry are not modelled, no modelled service passes them.
\<close>

section \<open>Writing\<close>

record audit_data =
  ad_userId :: "id option"
  ad_action :: string
  ad_resource :: string
  ad_resourceId :: "id option"
  ad_before :: "json option"
  ad_after :: "json option"
  ad_status :: "string option"
  ad_errorMessage :: "string option"

text \<open>\<open>data.status || 'SUCCESS'\<close>\<close>

definition orDefault :: "string \<Rightarrow> string option \<Rightarrow> string" where
  "orDefault d x = (case x of None \<Rightarrow> d | Some v \<Rightarrow> if v = [] then d else v)"

definition auditLog :: "mail_config \<Rightarrow> time \<Rightarrow> audit_data \<Rightarrow> (db, unit) exec" where
  "auditLog C now d =
     bindE (newId (mailUuid C)) (\<lambda>i.
     addRow auditLogs auditLogs_update
       \<lparr>au_id = i, au_userId = ad_userId d, au_action = ad_action d, au_resource = ad_resource d,
        au_resourceId = ad_resourceId d, au_before = ad_before d, au_after = ad_after d,
        au_status = orDefault ''SUCCESS'' (ad_status d), au_errorMessage = ad_errorMessage d,
        au_createdAt = now\<rparr>)"

section \<open>Reading\<close>

record audit_query =
  aq_action :: "string option"
  aq_resource :: "string option"
  aq_userId :: "id option"
  aq_status :: "string option"
  aq_from :: "time option"
  aq_to :: "time option"
  aq_page :: "int option"
  aq_limit :: "int option"

definition matches_filter :: "'a option \<Rightarrow> 'a \<Rightarrow> bool" where
  "matches_filter f x = (case f of None \<Rightarrow> True | Some y \<Rightarrow> x = y)"

definition audit_where :: "audit_query \<Rightarrow> audit_row \<Rightarrow> bool" where
  "audit_where q r \<longleftrightarrow>
     matches_filter (aq_action q) (au_action r) \<and> matches_filter (aq_resource q) (au_resource r) \<and>
     (case aq_userId q of None \<Rightarrow> True | Some u \<Rightarrow> au_userId r = Some u) \<and>
     matches_filter (aq_status q) (au_status r) \<and>
     (case aq_from q of None \<Rightarrow> True | Some d \<Rightarrow> d \<le> au_createdAt r) \<and>
     (case aq_to q of None \<Rightarrow> True | Some d \<Rightarrow> au_createdAt r \<le> d)"

definition getLogs :: "audit_query \<Rightarrow> (db, audit_row page) exec" where
  "getLogs q =
     bindE (findMany auditLogs (audit_where q)) (\<lambda>rows.
     paginate (clampPage (aq_page q)) (clampLimit 20 (aq_limit q)) (orderDesc au_createdAt rows))"

definition getLogsForResource :: "string \<Rightarrow> id \<Rightarrow> (db, audit_row list) exec" where
  "getLogsForResource resource resourceId =
     bindE (findMany auditLogs (\<lambda>r. au_resource r = resource \<and> au_resourceId r = Some resourceId))
       (\<lambda>rows. ret (orderDesc au_createdAt rows))"

definition getLogsForUser :: "id \<Rightarrow> int option \<Rightarrow> int option \<Rightarrow> (db, audit_row page) exec" where
  "getLogsForUser userId rawPage rawLimit =
     bindE (findMany auditLogs (\<lambda>r. au_userId r = Some userId)) (\<lambda>rows.
     paginate (clampPage rawPage) (clampLimit 20 rawLimit) (orderDesc au_createdAt rows))"

text \<open>\<open>groupBy\<close> with \<open>_count\<close>, the groups in the order of their first row.\<close>

definition group_count :: "('r \<Rightarrow> 'k) \<Rightarrow> 'r list \<Rightarrow> ('k \<times> nat) list" where
  "group_count k rows = map (\<lambda>x. (x, count_rows (\<lambda>r. k r = x) rows)) (uniq (map k rows))"

record audit_stats =
  as_total :: nat
  as_byAction :: "(string \<times> nat) list"
  as_byResource :: "(string \<times> nat) list"

definition audit_getStats :: "(db, audit_stats) exec" where
  "audit_getStats =
     bindE (findMany auditLogs (\<lambda>_. True)) (\<lambda>rows.
     ret \<lparr>as_total = length rows, as_byAction = group_count au_action rows,
          as_byResource = group_count au_resource rows\<rparr>)"

section \<open>Facts\<close>

lemma auditLog_run [exec_simps]:
  "auditLog C now d s =
     (Inr (), s\<lparr>seqNo := Suc (seqNo s), auditLogs := auditLogs s @
        [\<lparr>au_id = mailUuid C (seqNo s), au_userId = ad_userId d, au_action = ad_action d,
          au_resource = ad_resource d, au_resourceId = ad_resourceId d, au_before = ad_before d,
          au_after = ad_after d, au_status = orDefault ''SUCCESS'' (ad_status d),
          au_errorMessage = ad_errorMessage d, au_createdAt = now\<rparr>]\<rparr>)"
  by (simp add: auditLog_def exec_simps)

lemma core_auditLog: "steps (frames core) (auditLog C now d) s"
  unfolding auditLog_def by (intro step_rules core_writes)

interpretation auditing: confined "auditLog C now" for C now
  by unfold_locales (rule core_auditLog)

text \<open>The groups of a \<open>groupBy\<close> partition the rows.\<close>

lemma sum_list_count_keys:
  "distinct ks \<Longrightarrow> set (map k rows) \<subseteq> set ks \<Longrightarrow>
   sum_list (map (\<lambda>x. count_rows (\<lambda>r. k r = x) rows) ks) = length rows"
proof (induction rows)
  case Nil
  then show ?case by (induction ks) auto
next
  case (Cons r rows)
  have "sum_list (map (\<lambda>x. count_rows (\<lambda>r. k r = x) (r # rows)) ks) =
      sum_list (map (\<lambda>x. if k r = x then 1 else 0) ks) +
      sum_list (map (\<lambda>x. count_rows (\<lambda>r. k r = x) rows) ks)"
    by (simp add: sum_list_addf)
  moreover have "sum_list (map (\<lambda>x. if k r = x then 1 else 0) ks) = (1 :: nat)"
    using Cons.prems by (simp add: sum_list_distinct_conv_sum_set)
  ultimately show ?case using Cons by simp
qed

lemma group_count_total: "sum_list (map snd (group_count k rows)) = length rows"
  using sum_list_count_keys [of "uniq (map k rows)" k rows]
  by (simp add: group_count_def comp_def)

text \<open>
  The audit trail is complete and append-only: an action that is logged shows, with its
  actor, resource and time, on some page of the consultation with no filter, and the entries
  logged before it are all still there.
\<close>

theorem logged_is_visible:
  assumes "auditLog C now d s = (r, t)"
  shows "\<exists>e \<in> set (auditLogs t). au_userId e = ad_userId d \<and> au_action e = ad_action d \<and>
           au_resource e = ad_resource d \<and> au_createdAt e = now \<and>
           auditLogs t = auditLogs s @ [e] \<and>
           (\<exists>n p. getLogs (q\<lparr>aq_action := None, aq_resource := None, aq_userId := None,
                     aq_status := None, aq_from := None, aq_to := None, aq_page := Some n\<rparr>) t
                   = (Inr p, t) \<and> e \<in> set (pg_items p))"
proof -
  define e where "e = \<lparr>au_id = mailUuid C (seqNo s), au_userId = ad_userId d,
    au_action = ad_action d, au_resource = ad_resource d, au_resourceId = ad_resourceId d,
    au_before = ad_before d, au_after = ad_after d,
    au_status = orDefault ''SUCCESS'' (ad_status d), au_errorMessage = ad_errorMessage d,
    au_createdAt = now\<rparr>"
  define l where "l = clampLimit 20 (aq_limit q)"
  have l: "1 \<le> l" unfolding l_def using clampLimit_range by blast
  have t: "auditLogs t = auditLogs s @ [e]" using assms by (auto simp: exec_simps e_def)
  let ?rows = "orderDesc au_createdAt (auditLogs t)"
  have "e \<in> set (concat (map (\<lambda>p. pageItems (nat l) p ?rows)
      [1..<Suc (nat (totalPages (length ?rows) l))]))"
    using totalPages_bound [of l "length ?rows"] l unfolding concat_pages by (simp add: t)
  then obtain n where n: "1 \<le> n" "e \<in> set (pageItems (nat l) n ?rows)" by auto
  have "clampPage (Some (int n)) = int n" using n by (simp add: clampPage_def numberOr_def)
  with n l have "\<exists>p. getLogs (q\<lparr>aq_action := None, aq_resource := None, aq_userId := None,
      aq_status := None, aq_from := None, aq_to := None, aq_page := Some (int n)\<rparr>) t = (Inr p, t) \<and>
      e \<in> set (pg_items p)"
    by (simp add: getLogs_def exec_simps audit_where_def matches_filter_def paginate_run
        l_def [symmetric])
  with t show ?thesis by (intro bexI [of _ e]) (auto simp: e_def)
qed

definition sample_audit :: audit_data where
  "sample_audit =
     \<lparr>ad_userId = Some ''u1'', ad_action = ''UPDATE'', ad_resource = ''APPLICATION'',
      ad_resourceId = Some ''a1'', ad_before = None, ad_after = None, ad_status = None,
      ad_errorMessage = None\<rparr>"

theorem logged_is_visible_witness:
  "\<exists>t. auditLog sample_mail 5 sample_audit empty_db = (Inr (), t) \<and>
     (\<exists>e \<in> set (auditLogs t). au_userId e = Some ''u1'' \<and> au_action e = ''UPDATE'' \<and>
        au_createdAt e = 5)"
proof -
  obtain t where t: "auditLog sample_mail 5 sample_audit empty_db = (Inr (), t)"
    by (simp add: exec_simps)
  from logged_is_visible [OF t] show ?thesis
    using t by (fastforce simp: sample_audit_def)
qed

end
