(* ===== verification/Applications.thy ===== *)
theory Applications
  imports Application_Status Enrollment Audit_Log Text
begin

text \<open>
  \<open>ApplicationService\<close> (\<open>application/application.service.ts\<close>): submission by the
  students, consultation, and the status workflow with its effects (registration of an accepted
  student, promotion from the waiting list, notifications, audit). One clock reading \<open>now\<close>
  per request stands for every \<open>new Date()\<close> of it. A \<open>Serializable\<close> transaction can be
  refused by Postgres (P2034); the parameter \<open>conflict\<close> says whether it is. Offer titles,
  school names and the other display columns of the joined rows are not kept.
\<close>

section \<open>Requests\<close>

text \<open>
  The parsing of dates, their ISO form in JSON, and the printing of numbers in notes are
  parameters: the properties do not depend on them.
\<close>

record app_env =
  ae_mail :: mail_config
  ae_parseDate :: "string \<Rightarrow> time option"
  ae_isoDate :: "time \<Rightarrow> string"
  ae_showNumber :: "rat \<Rightarrow> string"

record update_status_dto =
  ud_status :: app_status
  ud_reason :: "string option"
  ud_score :: "rat option"

record schedule_test_dto =
  td_date :: string
  td_type :: string
  td_details :: "string option"
  td_location :: "string option"
  td_requiredDocuments :: "string list option"

record schedule_interview_dto =
  id_date :: string
  id_link :: "string option"

record submit_results =
  sr_submitted :: "id list"
  sr_failed :: "id list"
  sr_alreadyApplied :: "id list"

section \<open>Access control\<close>

definition ensureCanManageApplication :: "offer_row \<Rightarrow> id \<Rightarrow> (db, unit) exec" where
  "ensureCanManageApplication offer userId =
     bindE (findFirst users (\<lambda>u. u_id u = userId)) (\<lambda>user.
     bindE (findFirst schoolAdmins (\<lambda>a. sa_userId a = userId)) (\<lambda>admin.
     let role = Option.bind user u_role in
     require (role = Some ''ADMIN_GET'' \<or>
              role = Some ''SCHOOL_ADMIN'' \<and>
              map_option sa_schoolId admin = Some (o_schoolId offer))
       (Forbidden ''Vous n'etes pas autorise a modifier ce dossier'')))"

definition ensureCanAccessApplication ::
  "student_row \<Rightarrow> offer_row \<Rightarrow> id \<Rightarrow> string \<Rightarrow> (db, unit) exec" where
  "ensureCanAccessApplication student offer userId role =
     (if role = ''ADMIN_GET'' then ret ()
      else if role = ''STUDENT'' \<and> st_userId student = userId then ret ()
      else
        bindE (findFirst schoolAdmins (\<lambda>a. sa_userId a = userId)) (\<lambda>admin.
        require (role = ''SCHOOL_ADMIN'' \<and>
                 map_option sa_schoolId admin = Some (o_schoolId offer))
          (Forbidden ''Vous n'etes pas autorise a consulter ce dossier'')))"

text \<open>The application with its offer and student; foreign keys are not nullable.\<close>

definition fetchApplication ::
  "id \<Rightarrow> (db, application_row \<times> offer_row \<times> student_row) exec" where
  "fetchApplication applicationId =
     bindE (findOr applications (\<lambda>a. a_id a = applicationId)
              (NotFound ''Application not found'')) (\<lambda>application.
     bindE (findOr offers (\<lambda>x. o_id x = a_offerId application) (Failure ''P2003'')) (\<lambda>offer.
     bindE (findOr students (\<lambda>x. st_id x = a_studentId application) (Failure ''P2003''))
       (\<lambda>student. ret (application, offer, student))))"

section \<open>Submission\<close>

definition notifyStatusChange ::
  "app_env \<Rightarrow> time \<Rightarrow> id \<Rightarrow> id \<Rightarrow> app_status \<Rightarrow> (db, unit) exec" where
  "notifyStatusChange E now userId applicationId st =
     bestEffort (sendApplicationStatusUpdate (ae_mail E) now userId applicationId (status_name st))"

definition notifyStudent ::
  "app_env \<Rightarrow> time \<Rightarrow> id \<Rightarrow> id \<Rightarrow> app_status \<Rightarrow> (db, unit) exec" where
  "notifyStudent E now userId applicationId st =
     whenE (userId \<noteq> []) (notifyStatusChange E now userId applicationId st)"

definition addTimeline ::
  "time \<Rightarrow> id \<Rightarrow> app_status \<Rightarrow> string \<Rightarrow> id option \<Rightarrow> (db, unit) exec" where
  "addTimeline now applicationId st note createdBy =
     addRow timelines timelines_update
       \<lparr>t_applicationId = applicationId, t_status = st, t_note = note, t_createdBy = createdBy,
        t_createdAt = now\<rparr>"

text \<open>The unique keys of the table: the identifier, and the pair of student and offer.\<close>

definition application_clash :: "application_row \<Rightarrow> application_row \<Rightarrow> bool" where
  "application_clash a b \<longleftrightarrow>
     a_id a = a_id b \<or> (a_studentId a = a_studentId b \<and> a_offerId a = a_offerId b)"

definition createApplication :: "app_env \<Rightarrow> time \<Rightarrow> id \<Rightarrow> id \<Rightarrow> (db, id) exec" where
  "createApplication E now studentId offerId =
     bindE (newId (mailUuid (ae_mail E))) (\<lambda>i.
     thenE (insertRow applications applications_update application_clash
              \<lparr>a_id = i, a_studentId = studentId, a_offerId = offerId, a_status = PENDING,
               a_score = None, a_testResults = None, a_interviewDate = None,
               a_interviewLink = None, a_decisionDate = None, a_decisionReason = None,
               a_submittedAt = now, a_deletedAt = None\<rparr>)
     (thenE (addTimeline now i PENDING ''Application submitted'' None)
     (ret i)))"

definition submitOne ::
  "app_env \<Rightarrow> time \<Rightarrow> student_row \<Rightarrow> submit_results \<Rightarrow> id \<Rightarrow> (db, submit_results) exec" where
  "submitOne E now student results offerId =
     bindE (findFirst offers (\<lambda>x. o_id x = offerId \<and> o_isOpen x \<and> o_deletedAt x = None)) (\<lambda>offer.
     case offer of
       None \<Rightarrow> ret (results\<lparr>sr_failed := sr_failed results @ [offerId]\<rparr>)
     | Some x \<Rightarrow>
         if (case o_applicationDeadline x of None \<Rightarrow> False | Some d \<Rightarrow> d < now)
         then ret (results\<lparr>sr_failed := sr_failed results @ [offerId]\<rparr>)
         else
           bindE (findFirst applications
                    (\<lambda>a. a_studentId a = st_id student \<and> a_offerId a = offerId)) (\<lambda>existing.
           if existing \<noteq> None
           then ret (results\<lparr>sr_alreadyApplied := sr_alreadyApplied results @ [offerId]\<rparr>)
           else
             bindE (transact (createApplication E now (st_id student) offerId)) (\<lambda>created.
             thenE (notifyStudent E now (st_userId student) created PENDING)
             (ret (results\<lparr>sr_submitted := sr_submitted results @ [offerId]\<rparr>)))))"

definition submitApplications :: "app_env \<Rightarrow> time \<Rightarrow> id \<Rightarrow> id list \<Rightarrow> (db, submit_results) exec" where
  "submitApplications E now studentId offerIds =
     bindE (findOr students (\<lambda>x. st_id x = studentId) (NotFound ''Student not found'')) (\<lambda>student.
     foldE (submitOne E now student)
       \<lparr>sr_submitted = [], sr_failed = [], sr_alreadyApplied = []\<rparr> offerIds)"

section \<open>Consultation\<close>

definition application_timeline :: "db \<Rightarrow> id \<Rightarrow> timeline_row list" where
  "application_timeline s i =
     take 10 (orderDesc t_createdAt (filter (\<lambda>t. t_applicationId t = i) (timelines s)))"

definition getStudentApplications ::
  "id \<Rightarrow> app_status option \<Rightarrow> int option \<Rightarrow> int option
    \<Rightarrow> (db, (application_row \<times> timeline_row list) page) exec" where
  "getStudentApplications studentId st page limit =
     bindE (findMany applications
              (\<lambda>a. a_studentId a = studentId \<and> matches_filter st (a_status a))) (\<lambda>rows.
     bindE (asks application_timeline) (\<lambda>timeline.
     paginate (numberOr 1 page) (numberOr 20 limit)
       (map (\<lambda>a. (a, timeline (a_id a))) (orderDesc a_submittedAt rows))))"

definition offerInSchool :: "db \<Rightarrow> id \<Rightarrow> id \<Rightarrow> bool" where
  "offerInSchool s schoolId offerId \<longleftrightarrow>
     (\<exists>x \<in> set (offers s). o_id x = offerId \<and> o_schoolId x = schoolId)"

definition getSchoolApplications ::
  "id \<Rightarrow> app_status option \<Rightarrow> id option \<Rightarrow> int option \<Rightarrow> int option
    \<Rightarrow> (db, (application_row \<times> timeline_row list) page) exec" where
  "getSchoolApplications schoolAdminId st offerId page limit =
     bindE (findOr schoolAdmins (\<lambda>a. sa_userId a = schoolAdminId)
              (Forbidden ''You are not a school admin'')) (\<lambda>admin.
     bindE (asks (\<lambda>s. offerInSchool s (sa_schoolId admin))) (\<lambda>inSchool.
     bindE (findMany applications
              (\<lambda>a. inSchool (a_offerId a) \<and> matches_filter st (a_status a) \<and>
                   (truthy offerId \<longrightarrow> offerId = Some (a_offerId a)))) (\<lambda>rows.
     bindE (asks application_timeline) (\<lambda>timeline.
     paginate (numberOr 1 page) (numberOr 20 limit)
       (map (\<lambda>a. (a, timeline (a_id a))) (orderDesc a_submittedAt rows))))))"

definition searchMatches :: "db \<Rightarrow> string \<Rightarrow> application_row \<Rightarrow> bool" where
  "searchMatches s search a \<longleftrightarrow>
     (\<exists>x \<in> set (students s). st_id x = a_studentId a \<and>
        (containsInsensitive (st_firstName x) search \<or> containsInsensitive (st_lastName x) search \<or>
         (\<exists>u \<in> set (users s). u_id u = st_userId x \<and> containsInsensitive (u_email u) search)))"

text \<open>\<open>[first, last].filter(Boolean).join(' ') || email\<close>\<close>

definition displayName :: "db \<Rightarrow> id \<Rightarrow> string" where
  "displayName s studentId =
     (case find (\<lambda>x. st_id x = studentId) (students s) of
        None \<Rightarrow> []
      | Some x \<Rightarrow>
          let full = st_firstName x @
                (if st_firstName x \<noteq> [] \<and> st_lastName x \<noteq> [] then '' '' else []) @ st_lastName x
          in if full \<noteq> [] then full
             else (case find (\<lambda>u. u_id u = st_userId x) (users s) of
                     None \<Rightarrow> [] | Some u \<Rightarrow> u_email u))"

record application_item =
  ai_id :: id
  ai_status :: app_status
  ai_submittedAt :: time
  ai_studentName :: string

definition getAllApplications ::
  "app_status option \<Rightarrow> id option \<Rightarrow> string option \<Rightarrow> int option \<Rightarrow> int option
    \<Rightarrow> (db, application_item page) exec" where
  "getAllApplications st schoolId search page limit =
     bindE (asks (\<lambda>s. (\<lambda>a.
              matches_filter st (a_status a) \<and>
              (truthy schoolId \<longrightarrow> offerInSchool s (the schoolId) (a_offerId a)) \<and>
              (truthy search \<longrightarrow> searchMatches s (the search) a)))) (\<lambda>where.
     bindE (findMany applications where) (\<lambda>rows.
     bindE (asks displayName) (\<lambda>name.
     paginate (numberOr 1 page) (clampLimit 20 limit)
       (map (\<lambda>a. \<lparr>ai_id = a_id a, ai_status = a_status a, ai_submittedAt = a_submittedAt a,
                   ai_studentName = name (a_studentId a)\<rparr>) (orderDesc a_submittedAt rows)))))"

definition getApplicationById ::
  "id \<Rightarrow> id \<Rightarrow> string
    \<Rightarrow> (db, application_row \<times> offer_row \<times> student_row \<times> timeline_row list) exec" where
  "getApplicationById applicationId userId role =
     bindE (fetchApplication applicationId) (\<lambda>(application, offer, student).
     thenE (ensureCanAccessApplication student offer userId role)
     (bindE (asks (\<lambda>s. application_timeline s applicationId)) (\<lambda>timeline.
     ret (application, offer, student, timeline))))"

section \<open>The status workflow\<close>

text \<open>
  \<open>prisma.$transaction\<close> under an isolation level: a \<open>Serializable\<close> transaction in conflict
  with a concurrent one has no effect and fails with P2034.
\<close>

definition runTransaction :: "bool \<Rightarrow> bool \<Rightarrow> ('s, 'a) exec \<Rightarrow> ('s, 'a) exec" where
  "runTransaction serializable conflict m =
     (if serializable \<and> conflict then throw (Failure ''P2034'') else transact m)"

definition statusNote :: "update_status_dto \<Rightarrow> string" where
  "statusNote dto = orDefault (''Status changed to '' @ status_name (ud_status dto)) (ud_reason dto)"

definition autoRegister ::
  "time \<Rightarrow> id \<Rightarrow> application_row \<Rightarrow> offer_row \<Rightarrow> app_status \<Rightarrow> id \<Rightarrow> (db, unit) exec" where
  "autoRegister now applicationId application offer st userId =
     bindE (findProgramAndYear offer) (\<lambda>found.
     case found of
       Some (program, academicYear) \<Rightarrow>
         thenE (registerStudent (a_studentId application) (o_schoolId offer) program academicYear)
           (addTimeline now applicationId st
             (''Etudiant inscrit automatiquement : '' @ enrolledYear program academicYear)
             (Some userId))
     | None \<Rightarrow>
         addTimeline now applicationId st
           (''Statut mis a jour mais inscription automatique impossible ('' @
            enrollmentFailure offer @ '') - intervention manuelle requise.'')
           (Some userId))"

text \<open>The oldest waiting application of the offer (\<open>orderBy: { submittedAt: 'asc' }\<close>).\<close>

definition nextWaitlisted :: "db \<Rightarrow> id \<Rightarrow> application_row option" where
  "nextWaitlisted s offerId =
     (case sort_key a_submittedAt
             (filter (\<lambda>a. a_offerId a = offerId \<and> a_status a = WAITLISTED) (applications s)) of
        [] \<Rightarrow> None | a # _ \<Rightarrow> Some a)"

definition promote :: "time \<Rightarrow> application_row \<Rightarrow> application_row" where
  "promote now x = x\<lparr>a_status := ACCEPTED, a_decisionDate := Some now, a_decisionReason :=
     Some ''Promotion automatique depuis la liste d'attente (place liberee)''\<rparr>"

definition promoteNext :: "time \<Rightarrow> id \<Rightarrow> id \<Rightarrow> (db, (id \<times> id) option) exec" where
  "promoteNext now offerId userId =
     bindE (asks (\<lambda>s. nextWaitlisted s offerId)) (\<lambda>next.
     case next of
       None \<Rightarrow> ret None
     | Some a \<Rightarrow>
         bindE (findOr students (\<lambda>x. st_id x = a_studentId a) (Failure ''P2003'')) (\<lambda>student.
         thenE (updateOne applications applications_update (\<lambda>x. a_id x = a_id a)
                  (promote now))
         (thenE (addTimeline now (a_id a) ACCEPTED
                  ''Promu automatiquement depuis la liste d'attente suite a une place liberee.''
                  (Some userId))
         (ret (Some (a_id a, st_userId student))))))"

definition writeStatus :: "time \<Rightarrow> update_status_dto \<Rightarrow> application_row \<Rightarrow> application_row" where
  "writeStatus now dto a =
     a\<lparr>a_status := ud_status dto,
       a_score := (case ud_score dto of None \<Rightarrow> a_score a | Some v \<Rightarrow> Some v),
       a_decisionReason := (case ud_reason dto of None \<Rightarrow> a_decisionReason a | Some v \<Rightarrow> Some v),
       a_decisionDate := Some now\<rparr>"

definition applyStatusTransaction ::
  "time \<Rightarrow> id \<Rightarrow> application_row \<Rightarrow> offer_row \<Rightarrow> update_status_dto \<Rightarrow> id \<Rightarrow> bool
    \<Rightarrow> (db, application_row \<times> (id \<times> id) option) exec" where
  "applyStatusTransaction now applicationId application offer dto userId freesASeat =
     bindE (updateOne applications applications_update (\<lambda>a. a_id a = applicationId)
              (writeStatus now dto)) (\<lambda>updated.
     thenE (addTimeline now applicationId (ud_status dto) (statusNote dto) (Some userId))
     (thenE (whenE (seated (ud_status dto))
              (autoRegister now applicationId application offer (ud_status dto) userId))
     (bindE (if freesASeat then promoteNext now (a_offerId application) userId else ret None)
       (\<lambda>promoted. ret (updated, promoted)))))"

text \<open>\<open>!!offer.capacity\<close>: a capacity of zero is no limit.\<close>

definition limited :: "offer_row \<Rightarrow> bool" where
  "limited offer \<longleftrightarrow> o_capacity offer \<noteq> None \<and> o_capacity offer \<noteq> Some 0"

definition freesSeat :: "app_status \<Rightarrow> app_status \<Rightarrow> bool" where
  "freesSeat previousStatus nextStatus \<longleftrightarrow>
     seated previousStatus \<and> (nextStatus = CANCELLED \<or> nextStatus = REJECTED)"

definition seats :: "db \<Rightarrow> id \<Rightarrow> nat" where
  "seats s offerId =
     count_rows (\<lambda>a. a_offerId a = offerId \<and> seated (a_status a)) (applications s)"

definition checkCapacity :: "app_status \<Rightarrow> update_status_dto \<Rightarrow> offer_row \<Rightarrow> id \<Rightarrow> (db, unit) exec" where
  "checkCapacity previousStatus dto offer offerId =
     whenE (ud_status dto = ACCEPTED \<and> previousStatus \<noteq> ACCEPTED \<and> limited offer)
       (bindE (countRows applications (\<lambda>a. a_offerId a = offerId \<and> seated (a_status a)))
          (\<lambda>acceptedCount.
          require (\<not> (case o_capacity offer of None \<Rightarrow> False | Some c \<Rightarrow> c \<le> int acceptedCount))
            (BadRequest ''La capacite maximale de cette offre est deja atteinte'')))"

text \<open>
  The transaction of \<open>updateStatus\<close>. Its inputs were read before it started: another request
  may have changed the application in between.
\<close>

definition statusTransaction ::
  "time \<Rightarrow> bool \<Rightarrow> id \<Rightarrow> application_row \<Rightarrow> offer_row \<Rightarrow> update_status_dto \<Rightarrow> id
    \<Rightarrow> (db, application_row \<times> (id \<times> id) option) exec" where
  "statusTransaction now conflict applicationId application offer dto userId =
     (let previousStatus = a_status application;
          frees = freesSeat previousStatus (ud_status dto)
      in catchE
          (runTransaction (limited offer \<and> (ud_status dto = ACCEPTED \<or> frees)) conflict
            (thenE (checkCapacity previousStatus dto offer (a_offerId application))
              (applyStatusTransaction now applicationId application offer dto userId frees)))
          (\<lambda>err. throw (if err = Failure ''P2034'' then
                 BadRequest ''Cette offre a ete modifiee simultanement par une autre decision, veuillez reessayer.''
               else err)))"

text \<open>Everything \<open>updateStatus\<close> checks before its transaction.\<close>

definition prepareUpdate ::
  "id \<Rightarrow> update_status_dto \<Rightarrow> id \<Rightarrow> (db, application_row \<times> offer_row \<times> student_row) exec" where
  "prepareUpdate applicationId dto userId =
     bindE (fetchApplication applicationId) (\<lambda>(application, offer, student).
     thenE (ensureCanManageApplication offer userId)
     (thenE (assertValidTransition (a_status application) (ud_status dto))
     (ret (application, offer, student))))"

definition json_opt :: "('a \<Rightarrow> json) \<Rightarrow> 'a option \<Rightarrow> json" where
  "json_opt f x = (case x of None \<Rightarrow> JNull | Some v \<Rightarrow> f v)"

text \<open>What follows the commit: the notifications and the audit entry.\<close>

definition announceDecision ::
  "app_env \<Rightarrow> time \<Rightarrow> application_row \<Rightarrow> student_row \<Rightarrow> (id \<times> id) option \<Rightarrow> id
    \<Rightarrow> update_status_dto \<Rightarrow> id \<Rightarrow> (db, unit) exec" where
  "announceDecision E now application student promoted applicationId dto userId =
     thenE (notifyStudent E now (st_userId student) applicationId (ud_status dto))
     (thenE (case promoted of
               None \<Rightarrow> ret ()
             | Some (i, studentUserId) \<Rightarrow> notifyStatusChange E now studentUserId i ACCEPTED)
     (auditLog (ae_mail E) now
        \<lparr>ad_userId = Some userId, ad_action = ''UPDATE'', ad_resource = ''APPLICATION'',
         ad_resourceId = Some applicationId,
         ad_before = Some (JObj [(''status'', JStr (status_name (a_status application)))]),
         ad_after = Some (JObj [(''status'', JStr (status_name (ud_status dto))),
                      (''reason'', json_opt JStr (ud_reason dto)),
                      (''score'', json_opt JNum (ud_score dto))]),
         ad_status = Some ''SUCCESS'', ad_errorMessage = None\<rparr>))"

definition updateStatus ::
  "app_env \<Rightarrow> time \<Rightarrow> bool \<Rightarrow> id \<Rightarrow> update_status_dto \<Rightarrow> id \<Rightarrow> (db, application_row) exec" where
  "updateStatus E now conflict applicationId dto userId =
     bindE (prepareUpdate applicationId dto userId) (\<lambda>(application, offer, student).
     bindE (statusTransaction now conflict applicationId application offer dto userId)
       (\<lambda>(updated, promoted).
     thenE (announceDecision E now application student promoted applicationId dto userId)
     (ret updated)))"

section \<open>Tests, interviews and scores\<close>

text \<open>
  What the three routes do after their guards: write the columns and the status, log the change
  in the timeline, notify the student. The write and the timeline are not in one transaction.
\<close>

definition writeApplication ::
  "app_env \<Rightarrow> time \<Rightarrow> id \<Rightarrow> id \<Rightarrow> student_row \<Rightarrow> app_status
    \<Rightarrow> (application_row \<Rightarrow> application_row) \<Rightarrow> string \<Rightarrow> (db, application_row) exec" where
  "writeApplication E now applicationId userId student st f note =
     bindE (updateOne applications applications_update (\<lambda>a. a_id a = applicationId)
              (\<lambda>a. (f a)\<lparr>a_status := st\<rparr>)) (\<lambda>updated.
     thenE (addTimeline now applicationId st note (Some userId))
     (thenE (notifyStudent E now (st_userId student) applicationId st)
     (ret updated)))"

text \<open>The guards the three routes share.\<close>

definition prepareChange ::
  "id \<Rightarrow> id \<Rightarrow> app_status \<Rightarrow> (db, application_row \<times> student_row) exec" where
  "prepareChange applicationId userId st =
     bindE (fetchApplication applicationId) (\<lambda>(application, offer, student).
     thenE (ensureCanManageApplication offer userId)
     (thenE (assertValidTransition (a_status application) st)
     (ret (application, student))))"

definition scheduleTest ::
  "app_env \<Rightarrow> time \<Rightarrow> id \<Rightarrow> schedule_test_dto \<Rightarrow> id \<Rightarrow> (db, application_row) exec" where
  "scheduleTest E now applicationId dto userId =
     bindE (prepareChange applicationId userId TEST_SCHEDULED) (\<lambda>(application, student).
     case ae_parseDate E (td_date dto) of
       None \<Rightarrow> throw (Failure ''Invalid Date'')
     | Some date \<Rightarrow>
         writeApplication E now applicationId userId student TEST_SCHEDULED
           (\<lambda>a. a\<lparr>a_testResults := Some (JObj (
              [(''type'', JStr (td_type dto))] @
              (case td_details dto of None \<Rightarrow> [] | Some d \<Rightarrow> [(''details'', JStr d)]) @
              (case td_location dto of None \<Rightarrow> [] | Some l \<Rightarrow> [(''location'', JStr l)]) @
              [(''requiredDocuments'',
                  JArr (map JStr (case td_requiredDocuments dto of None \<Rightarrow> [] | Some ds \<Rightarrow> ds))),
               (''scheduledAt'', JStr (ae_isoDate E date))]))\<rparr>)
           (''Test scheduled: '' @ td_type dto @ '' on '' @ td_date dto @
            (if truthy (td_location dto) then '' (lieu : '' @ the (td_location dto) @ '')'' else [])))"

definition scheduleInterview ::
  "app_env \<Rightarrow> time \<Rightarrow> id \<Rightarrow> schedule_interview_dto \<Rightarrow> id \<Rightarrow> (db, application_row) exec" where
  "scheduleInterview E now applicationId dto userId =
     bindE (prepareChange applicationId userId INTERVIEW_SCHEDULED) (\<lambda>(application, student).
     case ae_parseDate E (id_date dto) of
       None \<Rightarrow> throw (Failure ''Invalid Date'')
     | Some date \<Rightarrow>
         writeApplication E now applicationId userId student INTERVIEW_SCHEDULED
           (\<lambda>a. a\<lparr>a_interviewDate := Some date,
                 a_interviewLink := (case id_link dto of None \<Rightarrow> a_interviewLink a | l \<Rightarrow> l)\<rparr>)
           (''Interview scheduled on '' @ id_date dto @
            (if truthy (id_link dto) then '' (link: '' @ the (id_link dto) @ '')'' else [])))"

text \<open>\<open>{ ...previous, comments: value }\<close>; an undefined value leaves no key in the JSON.\<close>

definition previousTestResults :: "json option \<Rightarrow> (string \<times> json) list" where
  "previousTestResults j = (case j of Some (JObj kvs) \<Rightarrow> kvs | _ \<Rightarrow> [])"

fun json_put :: "string \<Rightarrow> json \<Rightarrow> (string \<times> json) list \<Rightarrow> (string \<times> json) list" where
  "json_put k v [] = [(k, v)]"
| "json_put k v ((k', v') # kvs) = (if k = k' then (k, v) # kvs else (k', v') # json_put k v kvs)"

definition mergeComments :: "string option \<Rightarrow> (string \<times> json) list \<Rightarrow> (string \<times> json) list" where
  "mergeComments comments kvs =
     (case comments of None \<Rightarrow> filter (\<lambda>kv. fst kv \<noteq> ''comments'') kvs
      | Some c \<Rightarrow> json_put ''comments'' (JStr c) kvs)"

definition recordScore ::
  "app_env \<Rightarrow> time \<Rightarrow> id \<Rightarrow> rat \<Rightarrow> string option \<Rightarrow> id \<Rightarrow> (db, application_row) exec" where
  "recordScore E now applicationId score comments userId =
     bindE (prepareChange applicationId userId TEST_COMPLETED) (\<lambda>(application, student).
     writeApplication E now applicationId userId student TEST_COMPLETED
       (\<lambda>a. a\<lparr>a_score := Some score,
             a_testResults := Some (JObj (mergeComments comments
                                (previousTestResults (a_testResults application))))\<rparr>)
       (''Score recorded: '' @ ae_showNumber E score @
        (if truthy comments then '' ('' @ the comments @ '')'' else [])))"

section \<open>Statistics\<close>

definition application_getStats ::
  "time option \<Rightarrow> time option \<Rightarrow> id option \<Rightarrow> (db, nat \<times> (app_status \<times> nat) list) exec" where
  "application_getStats from to schoolId =
     bindE (asks (\<lambda>s. (\<lambda>a.
              (case from of None \<Rightarrow> True | Some d \<Rightarrow> d \<le> a_submittedAt a) \<and>
              (case to of None \<Rightarrow> True | Some d \<Rightarrow> a_submittedAt a \<le> d) \<and>
              (truthy schoolId \<longrightarrow> offerInSchool s (the schoolId) (a_offerId a))))) (\<lambda>where.
     bindE (countRows applications where) (\<lambda>n.
     bindE (findMany applications where) (\<lambda>rows.
     ret (n, group_count a_status rows))))"

section \<open>Serving requests\<close>

datatype application_request =
    Submit id "id list"
  | UpdateStatus bool id update_status_dto id
  | ScheduleTest id schedule_test_dto id
  | ScheduleInterview id schedule_interview_dto id
  | RecordScore id rat "string option" id

fun serve :: "app_env \<Rightarrow> time \<Rightarrow> application_request \<Rightarrow> (db, unit) exec" where
  "serve E now (Submit studentId offerIds) = thenE (submitApplications E now studentId offerIds) (ret ())"
| "serve E now (UpdateStatus conflict i dto u) = thenE (updateStatus E now conflict i dto u) (ret ())"
| "serve E now (ScheduleTest i dto u) = thenE (scheduleTest E now i dto u) (ret ())"
| "serve E now (ScheduleInterview i dto u) = thenE (scheduleInterview E now i dto u) (ret ())"
| "serve E now (RecordScore i score comments u) = thenE (recordScore E now i score comments u) (ret ())"

text \<open>A run of the service: any requests at any times, each one answered or rejected.\<close>

primrec serveAll :: "app_env \<Rightarrow> (time \<times> application_request) list \<Rightarrow> db \<Rightarrow> db" where
  "serveAll E [] s = s"
| "serveAll E (q # qs) s = serveAll E qs (snd (serve E (fst q) (snd q) s))"

section \<open>The guards\<close>

definition canManage :: "db \<Rightarrow> offer_row \<Rightarrow> id \<Rightarrow> bool" where
  "canManage s offer userId \<longleftrightarrow>
     (\<exists>u. find (\<lambda>u. u_id u = userId) (users s) = Some u \<and>
        (u_role u = Some ''ADMIN_GET'' \<or>
         u_role u = Some ''SCHOOL_ADMIN'' \<and>
         (\<exists>a. find (\<lambda>a. sa_userId a = userId) (schoolAdmins s) = Some a \<and>
            sa_schoolId a = o_schoolId offer)))"

lemma ensureCanManageApplication_run [exec_simps]:
  "ensureCanManageApplication offer userId s =
     (if canManage s offer userId then (Inr (), s)
      else (Inl (Forbidden ''Vous n'etes pas autorise a modifier ce dossier''), s))"
  by (cases "find (\<lambda>u. u_id u = userId) (users s)";
      cases "find (\<lambda>a. sa_userId a = userId) (schoolAdmins s)")
    (simp_all add: ensureCanManageApplication_def exec_simps canManage_def Let_def)

lemma fetchApplication_ok:
  assumes "fetchApplication i s = (Inr (a, x, st), t)"
  shows "t = s \<and> find (\<lambda>a. a_id a = i) (applications s) = Some a \<and>
         find (\<lambda>x. o_id x = a_offerId a) (offers s) = Some x \<and>
         find (\<lambda>x. st_id x = a_studentId a) (students s) = Some st"
  using assms by (auto simp: fetchApplication_def exec_simps split: option.splits)

lemma fetchApplication_state: "fetchApplication i s = (r, t) \<Longrightarrow> t = s"
  by (auto simp: fetchApplication_def exec_simps split: option.splits)

lemma prepareChange_ok:
  assumes "prepareChange i u st s = (Inr (a, x), t)"
  shows "t = s \<and> find (\<lambda>a. a_id a = i) (applications s) = Some a \<and>
         validTransition (a_status a) st \<and>
         (\<exists>offer. find (\<lambda>x. o_id x = a_offerId a) (offers s) = Some offer \<and> canManage s offer u)"
  using assms
  by (auto simp: prepareChange_def exec_simps split: prod.splits sum.splits if_splits
      dest!: fetchApplication_ok)

lemma prepareChange_state: "prepareChange i u st s = (r, t) \<Longrightarrow> t = s"
  by (auto simp: prepareChange_def exec_simps split: prod.splits sum.splits if_splits
      dest!: fetchApplication_state)

lemma prepareUpdate_ok:
  assumes "prepareUpdate i dto u s = (Inr (a, x, st), t)"
  shows "t = s \<and> find (\<lambda>a. a_id a = i) (applications s) = Some a \<and>
         validTransition (a_status a) (ud_status dto) \<and>
         find (\<lambda>x. o_id x = a_offerId a) (offers s) = Some x \<and> canManage s x u"
  using assms
  by (auto simp: prepareUpdate_def exec_simps split: prod.splits sum.splits if_splits
      dest!: fetchApplication_ok)

lemma prepareUpdate_state: "prepareUpdate i dto u s = (r, t) \<Longrightarrow> t = s"
  by (auto simp: prepareUpdate_def exec_simps split: prod.splits sum.splits if_splits
      dest!: fetchApplication_state)

section \<open>The workflow discipline\<close>

definition statusOf :: "db \<Rightarrow> id \<Rightarrow> app_status option" where
  "statusOf s i = map_option a_status (find (\<lambda>a. a_id a = i) (applications s))"

definition applicationKeys :: "db \<Rightarrow> bool" where
  "applicationKeys s \<longleftrightarrow>
     distinct (map a_id (applications s)) \<and>
     distinct (map (\<lambda>a. (a_studentId a, a_offerId a)) (applications s))"

text \<open>
  What a request may do to the applications: none disappears, each moves along the transition
  table, and the unique keys stay unique.
\<close>

definition workflow :: "db \<Rightarrow> db \<Rightarrow> bool" where
  "workflow s t \<longleftrightarrow>
     (applicationKeys s \<longrightarrow> applicationKeys t \<and>
        (\<forall>i st. statusOf s i = Some st \<longrightarrow>
           (\<exists>st'. statusOf t i = Some st' \<and> status_reaches st st')))"

interpretation wf: two_state workflow
proof unfold_locales
  show "workflow s s" for s by (simp add: workflow_def)
  show "workflow s u" if "workflow s t" "workflow t u" for s t u
    using that unfolding workflow_def by (meson status_reaches_trans)
qed

lemma workflow_same: "applications t = applications s \<Longrightarrow> workflow s t"
  by (auto simp: workflow_def applicationKeys_def statusOf_def intro: status_reaches_refl)

text \<open>What the capacity of the offers depends on.\<close>

definition book :: "db \<Rightarrow> offer_row list \<times> application_row list" where
  "book s = (offers s, applications s)"

lemma workflow_frame: "steps (frames book) m s \<Longrightarrow> steps workflow m s"
  by (simp add: steps_def frames_def book_def workflow_same)

definition keepsKeys :: "(application_row \<Rightarrow> application_row) \<Rightarrow> bool" where
  "keepsKeys f \<longleftrightarrow> (\<forall>a. a_id (f a) = a_id a \<and> a_studentId (f a) = a_studentId a \<and>
                        a_offerId (f a) = a_offerId a)"

lemma update_keeps_keys:
  "keepsKeys f \<Longrightarrow> applicationKeys s \<Longrightarrow>
   applicationKeys (s\<lparr>applications := update_rows P f (applications s)\<rparr>)"
  by (simp add: applicationKeys_def keepsKeys_def)

lemma statusOf_update:
  assumes "keepsKeys f"
  shows "statusOf (s\<lparr>applications := update_rows (\<lambda>a. a_id a = i) f (applications s)\<rparr>) j =
     (if j = i then map_option (\<lambda>a. a_status (f a)) (find (\<lambda>a. a_id a = i) (applications s))
      else statusOf s j)"
proof -
  have "find (\<lambda>a. a_id a = j) (update_rows (\<lambda>a. a_id a = i) f (applications s)) =
      map_option (\<lambda>r. if a_id r = i then f r else r) (find (\<lambda>a. a_id a = j) (applications s))"
    using assms by (intro find_update_rows) (simp add: keepsKeys_def)
  then show ?thesis
    by (cases "find (\<lambda>a. a_id a = j) (applications s)")
      (auto simp: statusOf_def dest: find_Some_in)
qed

lemma workflow_update:
  assumes "keepsKeys f"
    and "\<And>a. find (\<lambda>a. a_id a = i) (applications s) = Some a \<Longrightarrow>
           status_reaches (a_status a) (a_status (f a))"
  shows "workflow s (s\<lparr>applications := update_rows (\<lambda>a. a_id a = i) f (applications s)\<rparr>)"
proof -
  let ?t = "s\<lparr>applications := update_rows (\<lambda>a. a_id a = i) f (applications s)\<rparr>"
  have "\<exists>st'. statusOf ?t j = Some st' \<and> status_reaches st st'" if j: "statusOf s j = Some st" for j st
  proof (cases "j = i")
    case True
    with j obtain a where "find (\<lambda>a. a_id a = i) (applications s) = Some a" "a_status a = st"
      by (auto simp: statusOf_def)
    with True assms show ?thesis by (auto simp: statusOf_update)
  qed (use assms j in \<open>simp add: statusOf_update\<close>)
  then show ?thesis by (simp add: workflow_def update_keeps_keys [OF assms(1)])
qed

lemma workflow_updateOne:
  assumes "keepsKeys f"
    and "\<And>a. find (\<lambda>a. a_id a = i) (applications s) = Some a \<Longrightarrow>
           status_reaches (a_status a) (a_status (f a))"
  shows "steps workflow (updateOne applications applications_update (\<lambda>a. a_id a = i) f) s"
  using workflow_update [OF assms]
  by (auto simp: steps_def exec_simps wf.reflR split: option.split)

text \<open>The writes of other tables.\<close>

lemma frame_addTimeline: "steps (frames book) (addTimeline now i st note by) s"
  by (simp add: addTimeline_def steps_def frames_def exec_simps book_def)

lemma frame_notify: "steps (frames book) (notifyStatusChange E now u i st) s"
proof -
  have "steps (frames book)
      (sendApplicationStatusUpdate (ae_mail E) now u i (status_name st)) s"
    using statusMail.confined [of "ae_mail E" now "(u, i, status_name st)" s]
    by (auto simp: steps_def frames_def book_def intro: core_fields)
  then show ?thesis unfolding notifyStatusChange_def by (rule frm.steps_bestEffort)
qed

lemma frame_notifyStudent: "steps (frames book) (notifyStudent E now u i st) s"
  unfolding notifyStudent_def by (intro step_rules frame_notify)

lemma frame_auditLog: "steps (frames book) (auditLog C now d) s"
  by (simp add: steps_def frames_def exec_simps book_def)

lemma frame_register: "steps (frames book) (registerStudent sid school p y) s"
  using registerStudent_ok [of sid school p y s] by (auto simp: steps_def frames_def book_def)

lemma frame_autoRegister: "steps (frames book) (autoRegister now i a x st u) s"
  unfolding autoRegister_def
  by (auto simp: frm.reflR findProgramAndYear_run steps_def [of _ "findProgramAndYear x"]
      intro!: frm.steps_bindE frm.steps_thenE frame_register frame_addTimeline
      split: option.split)

lemma frame_announce: "steps (frames book) (announceDecision E now a st p i dto u) s"
  unfolding announceDecision_def
  by (intro frm.steps_thenE frame_notifyStudent frame_auditLog)
    (simp split: option.split prod.split add: frm.steps_ret frame_notify)

lemmas app_frames = frame_addTimeline frame_notify frame_notifyStudent frame_auditLog
  frame_register frame_autoRegister frame_announce

text \<open>Announcing a decision never fails: the notifications are best effort.\<close>

lemma announceDecision_ok: "\<exists>t. announceDecision E now a st p i dto u s = (Inr (), t)"
  by (cases p) (auto simp: announceDecision_def thenE_run ret_run auditLog_run notifyStudent_def
      notifyStatusChange_def bestEffort_run whenE_run)

lemmas app_steps = app_frames [THEN workflow_frame]

lemma workflow_create: "steps workflow (createApplication E now sid oid) s"
proof -
  have new: "steps workflow (insertRow applications applications_update application_clash r) t"
    for r t
    by (auto simp: steps_def exec_simps workflow_def applicationKeys_def application_clash_def
        statusOf_def find_append split: option.splits)
  have nid: "steps workflow (newId uuid) t" for uuid t
    by (simp add: steps_def exec_simps workflow_same)
  show ?thesis unfolding createApplication_def by (intro step_rules new nid app_steps)
qed

lemma workflow_submit: "steps workflow (submitApplications E now sid oids) s"
  unfolding submitApplications_def submitOne_def
  by (intro step_rules) (auto intro!: step_rules workflow_create app_steps)

lemma workflow_writeApplication:
  assumes "\<And>a. find (\<lambda>a. a_id a = i) (applications s) = Some a \<Longrightarrow> validTransition (a_status a) st"
    and "keepsKeys f"
  shows "steps workflow (writeApplication E now i u student st f note) s"
proof -
  have "keepsKeys (\<lambda>a. (f a)\<lparr>a_status := st\<rparr>)" using assms(2) by (simp add: keepsKeys_def)
  then show ?thesis unfolding writeApplication_def
    by (auto intro!: step_rules app_steps workflow_updateOne validTransition_reaches assms(1))
qed

lemma workflow_prepareChange: "steps workflow (prepareChange i u st) s"
  by (rule workflow_frame) (auto simp: steps_def frames_def split: prod.splits
      dest: prepareChange_state intro!: arg_cong [of _ _ book] prepareChange_state surjective_pairing)

lemma workflow_prepareUpdate: "steps workflow (prepareUpdate i dto u) s"
  by (rule workflow_frame) (auto simp: steps_def frames_def
      intro!: arg_cong [of _ _ book] prepareUpdate_state surjective_pairing)

text \<open>A handler that goes through \<open>prepareChange\<close> may assume the guards.\<close>

lemma workflow_change:
  assumes "\<And>a student. find (\<lambda>a. a_id a = i) (applications s) = Some a \<Longrightarrow>
      validTransition (a_status a) st \<Longrightarrow> steps workflow (k a student) s"
  shows "steps workflow (bindE (prepareChange i u st) (\<lambda>(a, student). k a student)) s"
  by (rule wf.steps_bindE [OF workflow_prepareChange])
    (auto split: prod.splits dest!: prepareChange_ok intro!: assms)

lemma workflow_scheduleTest: "steps workflow (scheduleTest E now i dto u) s"
  unfolding scheduleTest_def
  by (rule workflow_change)
    (auto intro!: step_rules workflow_writeApplication simp: keepsKeys_def split: option.split)

lemma workflow_scheduleInterview: "steps workflow (scheduleInterview E now i dto u) s"
  unfolding scheduleInterview_def
  by (rule workflow_change)
    (auto intro!: step_rules workflow_writeApplication simp: keepsKeys_def split: option.split)

lemma workflow_recordScore: "steps workflow (recordScore E now i score comments u) s"
  unfolding recordScore_def
  by (rule workflow_change) (auto intro!: workflow_writeApplication simp: keepsKeys_def)

lemma nextWaitlisted_Some:
  assumes "nextWaitlisted s offerId = Some a"
  shows "a \<in> set (applications s) \<and> a_offerId a = offerId \<and> a_status a = WAITLISTED \<and>
         (\<forall>b \<in> set (applications s). a_offerId b = offerId \<and> a_status b = WAITLISTED \<longrightarrow>
            a_submittedAt a \<le> a_submittedAt b)"
proof -
  let ?ws = "filter (\<lambda>a. a_offerId a = offerId \<and> a_status a = WAITLISTED) (applications s)"
  obtain rest where ws: "sort_key a_submittedAt ?ws = a # rest"
    using assms by (auto simp: nextWaitlisted_def split: list.splits)
  then have set: "set ?ws = insert a (set rest)" by (metis list.simps(15) set_sort)
  have "sorted (map a_submittedAt (a # rest))" using ws by (metis sorted_sort_key)
  then have "\<forall>b \<in> set ?ws. a_submittedAt a \<le> a_submittedAt b" unfolding set by auto
  moreover have "a \<in> set ?ws" unfolding set by simp
  ultimately show ?thesis by auto
qed

lemma promote_simps [simp]:
  "a_id (promote now x) = a_id x" "a_studentId (promote now x) = a_studentId x"
  "a_offerId (promote now x) = a_offerId x" "a_status (promote now x) = ACCEPTED"
  "a_submittedAt (promote now x) = a_submittedAt x"
  by (simp_all add: promote_def)

lemma writeStatus_simps [simp]:
  "a_id (writeStatus now dto x) = a_id x" "a_studentId (writeStatus now dto x) = a_studentId x"
  "a_offerId (writeStatus now dto x) = a_offerId x"
  "a_status (writeStatus now dto x) = ud_status dto"
  by (simp_all add: writeStatus_def)

lemma keepsKeys_writes [simp]: "keepsKeys (promote now)" "keepsKeys (writeStatus now dto)"
  by (simp_all add: keepsKeys_def)

lemma waitlisted_to_accepted: "status_reaches WAITLISTED ACCEPTED"
  by (rule validTransition_reaches) (simp add: validTransition_def)

lemma find_own:
  "applicationKeys s \<Longrightarrow> a \<in> set (applications s) \<Longrightarrow>
   find (\<lambda>x. a_id x = a_id a) (applications s) = Some a"
  unfolding applicationKeys_def by (rule find_key) blast

lemma workflow_promote:
  "steps workflow (promoteNext now offerId userId) s"
proof (cases "applicationKeys s")
  case True
  have "steps workflow (updateOne applications applications_update (\<lambda>x. a_id x = a_id a) (promote now)) s"
    if "nextWaitlisted s offerId = Some a" for a
    using nextWaitlisted_Some [OF that] find_own [OF True]
    by (intro workflow_updateOne) (auto simp: waitlisted_to_accepted)
  then show ?thesis unfolding promoteNext_def
    by (auto intro!: step_rules app_steps simp: exec_simps split: option.splits)
next
  case False
  then show ?thesis by (simp add: steps_def workflow_def)
qed

lemma workflow_statusTransaction:
  assumes "find (\<lambda>a. a_id a = i) (applications s) = Some a" "validTransition (a_status a) (ud_status dto)"
  shows "steps workflow (statusTransaction now conflict i a x dto u) s"
proof -
  have cap: "steps workflow (checkCapacity p d y j) t" for p d y j t
    unfolding checkCapacity_def by (intro step_rules)
  have capS: "checkCapacity p d y j t = (r, t') \<Longrightarrow> t' = t" for p d y j t t' r
    by (auto simp: checkCapacity_def exec_simps split: if_splits)
  have body: "steps workflow (applyStatusTransaction now i a x dto u fr) s" for fr
    unfolding applyStatusTransaction_def
    by (auto intro!: step_rules app_steps workflow_promote workflow_updateOne
        validTransition_reaches simp: assms)
  show ?thesis unfolding statusTransaction_def Let_def runTransaction_def
    by (intro step_rules cap) (auto dest!: capS intro: body)
qed

text \<open>A preorder that the transaction and the announcement respect is respected by the handler.\<close>

lemma updateStatus_steps:
  assumes "two_state R" "\<And>(m :: (db, unit) exec) s. steps (frames book) m s \<Longrightarrow> steps R m s"
    and "\<And>a x. find (\<lambda>a. a_id a = i) (applications s) = Some a \<Longrightarrow>
           find (\<lambda>x. o_id x = a_offerId a) (offers s) = Some x \<Longrightarrow>
           validTransition (a_status a) (ud_status dto) \<Longrightarrow>
           steps R (statusTransaction now conflict i a x dto u) s"
  shows "steps R (updateStatus E now conflict i dto u) s"
proof (cases "fst (prepareUpdate i dto u s)")
  case (Inl e)
  then have "prepareUpdate i dto u s = (Inl e, s)"
    by (metis prepareUpdate_state prod.collapse)
  then show ?thesis
    by (simp add: updateStatus_def steps_def bindE_run two_state.reflR [OF assms(1)])
next
  case (Inr v)
  obtain a x st where v: "v = (a, x, st)" by (cases v)
  with Inr have p: "prepareUpdate i dto u s = (Inr (a, x, st), s)"
    by (metis prepareUpdate_state prod.collapse)
  have "steps R (bindE (statusTransaction now conflict i a x dto u) (\<lambda>(updated, promoted).
      thenE (announceDecision E now a st promoted i dto u) (ret updated))) s"
    using assms(3) prepareUpdate_ok [OF p] assms(2) [OF frame_announce]
    by (auto intro!: two_state.steps_bindE [OF assms(1)] two_state.steps_thenE [OF assms(1)]
        two_state.steps_ret [OF assms(1)] split: prod.split)
  then show ?thesis by (simp add: updateStatus_def steps_def bindE_run p)
qed

lemma workflow_updateStatus: "steps workflow (updateStatus E now conflict i dto u) s"
  by (rule updateStatus_steps [OF wf.two_state_axioms workflow_frame workflow_statusTransaction])

lemma workflow_serve: "steps workflow (serve E now req) s"
  by (cases req)
    (simp_all add: wf.steps_thenE wf.steps_ret workflow_submit workflow_updateStatus
      workflow_scheduleTest workflow_scheduleInterview workflow_recordScore)

lemma workflow_serveAll: "workflow s (serveAll E qs s)"
proof (induction qs arbitrary: s)
  case Nil
  then show ?case by (simp add: wf.reflR)
next
  case (Cons q qs s)
  have "workflow s (snd (serve E (fst q) (snd q) s))" using workflow_serve by (simp add: steps_def)
  then show ?case using Cons.IH wf.transR by (auto simp only: serveAll.simps)
qed

section \<open>Capacity\<close>

definition capacityRespected :: "db \<Rightarrow> bool" where
  "capacityRespected s \<longleftrightarrow>
     (\<forall>i x c. find (\<lambda>x. o_id x = i) (offers s) = Some x \<and> o_capacity x = Some c \<and> c \<noteq> 0 \<longrightarrow>
        int (seats s i) \<le> max c 0)"

definition capacityInv :: "db \<Rightarrow> bool" where
  "capacityInv s \<longleftrightarrow> applicationKeys s \<and> capacityRespected s"

lemma seats_update:
  assumes "applicationKeys s" "find (\<lambda>a. a_id a = i) (applications s) = Some a" "keepsKeys f"
  shows "seats (s\<lparr>applications := update_rows (\<lambda>a. a_id a = i) f (applications s)\<rparr>) j +
           (if a_offerId a = j \<and> seated (a_status a) then 1 else 0) =
         seats s j + (if a_offerId a = j \<and> seated (a_status (f a)) then 1 else 0)"
  using count_rows_update_key [of a_id "applications s" a i
      "\<lambda>a. a_offerId a = j \<and> seated (a_status a)" f] assms find_Some_in [OF assms(2)]
  by (simp add: seats_def applicationKeys_def keepsKeys_def)

text \<open>Requests that never add a seat.\<close>

definition seatSafe :: "db \<Rightarrow> db \<Rightarrow> bool" where
  "seatSafe s t \<longleftrightarrow>
     (applicationKeys s \<longrightarrow> applicationKeys t \<and> offers t = offers s \<and> (\<forall>j. seats t j \<le> seats s j))"

interpretation ss: two_state seatSafe
proof unfold_locales
  show "seatSafe s s" for s by (simp add: seatSafe_def)
  show "seatSafe s u" if "seatSafe s t" "seatSafe t u" for s t u
    using that unfolding seatSafe_def by (metis le_trans)
qed

lemma seatSafe_frame: "steps (frames book) m s \<Longrightarrow> steps seatSafe m s"
  by (simp add: steps_def frames_def book_def seatSafe_def applicationKeys_def seats_def)

lemmas seat_steps = app_frames [THEN seatSafe_frame]

lemma seatSafe_keeps: "steps seatSafe m s \<Longrightarrow> steps (keeps capacityInv) m s"
  unfolding steps_def keeps_def seatSafe_def capacityInv_def capacityRespected_def
  by (smt (verit) of_nat_le_iff)

lemma seatSafe_updateOne:
  assumes "keepsKeys f" "\<And>a. \<not> seated (a_status (f a))"
  shows "steps seatSafe (updateOne applications applications_update (\<lambda>a. a_id a = i) f) s"
proof (cases "find (\<lambda>a. a_id a = i) (applications s)")
  case None
  then show ?thesis by (simp add: steps_def exec_simps ss.reflR)
next
  case (Some a)
  let ?t = "s\<lparr>applications := update_rows (\<lambda>a. a_id a = i) f (applications s)\<rparr>"
  have "seats ?t j \<le> seats s j" if "applicationKeys s" for j
    using seats_update [OF that Some assms(1), of j] assms(2) by simp
  with Some show ?thesis
    by (simp add: steps_def exec_simps seatSafe_def update_keeps_keys [OF assms(1)])
qed

lemma seatSafe_writeApplication:
  "keepsKeys f \<Longrightarrow> \<not> seated st \<Longrightarrow> steps seatSafe (writeApplication E now i u student st f note) s"
  unfolding writeApplication_def
  by (auto intro!: step_rules seat_steps seatSafe_updateOne simp: keepsKeys_def)

lemma seatSafe_prepare:
  "steps seatSafe (prepareChange i u st) s" "steps seatSafe (prepareUpdate i dto u) s"
  by (auto simp: steps_def intro!: ss.reflR
      dest: prepareChange_state prepareUpdate_state)
    (metis prepareChange_state prod.collapse ss.reflR, metis prepareUpdate_state prod.collapse ss.reflR)

lemma seatSafe_routes:
  "steps seatSafe (scheduleTest E now i td u) s"
  "steps seatSafe (scheduleInterview E now i ind u) s"
  "steps seatSafe (recordScore E now i score comments u) s"
  unfolding scheduleTest_def scheduleInterview_def recordScore_def
  by (auto intro!: step_rules seatSafe_prepare seatSafe_writeApplication
      simp: keepsKeys_def seated_def split: option.split)

lemma seatSafe_submit: "steps seatSafe (submitApplications E now sid oids) s"
proof -
  have new: "steps seatSafe (createApplication E now sid' oid) t" for sid' oid t
  proof -
    have ins: "steps seatSafe (insertRow applications applications_update application_clash r) t"
      if "a_status r = PENDING" for r t
      using that
      by (auto simp: steps_def exec_simps seatSafe_def applicationKeys_def application_clash_def
          seats_def seated_def)
    have nid: "steps seatSafe (newId uuid) t" for uuid t
      by (simp add: steps_def exec_simps seatSafe_def applicationKeys_def seats_def)
    show ?thesis unfolding createApplication_def by (auto intro!: step_rules ins nid seat_steps)
  qed
  show ?thesis unfolding submitApplications_def submitOne_def
    by (intro step_rules) (auto intro!: step_rules new seat_steps)
qed

lemma frames_bookD:
  assumes "steps (frames book) m s" "m s = (r, t)"
  shows "offers t = offers s" "applications t = applications s"
  using assms by (simp_all add: steps_def frames_def book_def)

lemma same_applications:
  assumes "applications t = applications s"
  shows "seats t j = seats s j" "applicationKeys t = applicationKeys s"
  using assms by (simp_all add: seats_def applicationKeys_def)

text \<open>A promotion adds at most one seat, to its own offer, and only to a waiting application.\<close>

lemma promoteNext_effect:
  assumes "applicationKeys s" "promoteNext now offerId userId s = (r, t)"
  shows "applicationKeys t \<and> offers t = offers s \<and>
         (\<forall>j. seats t j \<le> seats s j + (if j = offerId then 1 else 0))"
proof (cases "nextWaitlisted s offerId")
  case None
  with assms show ?thesis by (auto simp: promoteNext_def exec_simps)
next
  case (Some a)
  note w = nextWaitlisted_Some [OF Some]
  note f = find_own [OF assms(1), of a]
  let ?t = "s\<lparr>applications := update_rows (\<lambda>x. a_id x = a_id a) (promote now) (applications s)\<rparr>"
  have "seats ?t j \<le> seats s j + (if j = offerId then 1 else 0)" for j
    using seats_update [OF assms(1) f, of "promote now" j] w by (auto split: if_splits)
  moreover have "applicationKeys ?t" by (rule update_keeps_keys [OF _ assms(1)]) simp
  moreover have "offers t = offers s \<and> (t = s \<or> applications t = applications ?t)"
    using assms(2) Some f w
    by (auto simp: promoteNext_def exec_simps addTimeline_def split: option.splits)
  ultimately show ?thesis
    using assms(1) same_applications [of t ?t] by (metis le_add1)
qed

text \<open>
  The effect of the status transaction on the seats: nothing is added, except the one seat of an
  acceptance.
\<close>

lemma applyStatus_effect:
  assumes "applicationKeys s" "find (\<lambda>a. a_id a = i) (applications s) = Some a"
    and "applyStatusTransaction now i a x dto u fr s = (r, t)"
    and "fr \<longleftrightarrow> freesSeat (a_status a) (ud_status dto)"
  shows "offers t = offers s \<and> applicationKeys t \<and>
         (\<forall>j. seats t j \<le> seats s j +
            (if j = a_offerId a \<and> seated (ud_status dto) \<and> \<not> seated (a_status a) then 1 else 0))"
proof -
  let ?s1 = "s\<lparr>applications := update_rows (\<lambda>a. a_id a = i) (writeStatus now dto) (applications s)\<rparr>"
  define m where "m = thenE (addTimeline now i (ud_status dto) (statusNote dto) (Some u))
     (whenE (seated (ud_status dto)) (autoRegister now i a x (ud_status dto) u))"
  obtain r2 s2 where m: "m ?s1 = (r2, s2)" by (cases "m ?s1")
  have mf: "steps (frames book) m ?s1" unfolding m_def by (intro step_rules app_frames)
  note s2 = frames_bookD [OF mf m]
  have k1: "applicationKeys ?s1" by (rule update_keeps_keys [OF _ assms(1)]) simp
  have k2: "applicationKeys s2" using k1 same_applications [OF s2(2)] by simp
  have seats2: "seats s2 j + (if a_offerId a = j \<and> seated (a_status a) then 1 else 0) =
      seats s j + (if a_offerId a = j \<and> seated (ud_status dto) then 1 else 0)" for j
    using seats_update [OF assms(1,2), of "writeStatus now dto" j] same_applications [OF s2(2)] by simp
  have run: "applyStatusTransaction now i a x dto u fr s =
      (case m ?s1 of (Inl e, s') \<Rightarrow> (Inl e, s')
       | (Inr _, s') \<Rightarrow> bindE (if fr then promoteNext now (a_offerId a) u else ret None)
           (\<lambda>promoted. ret (writeStatus now dto a, promoted)) s')"
    using assms(2)
    by (auto simp: applyStatusTransaction_def m_def bindE_run thenE_run updateOne_run
        split: prod.splits sum.splits)
  have le2: "seats s2 j \<le> seats s j +
      (if j = a_offerId a \<and> seated (ud_status dto) \<and> \<not> seated (a_status a) then 1 else 0)" for j
    using seats2 [of j] by (auto split: if_splits)
  have fin: ?thesis if "t = s2" using that s2 k2 le2 by simp
  show ?thesis
  proof (cases r2)
    case (Inl e)
    with run m assms(3) show ?thesis by (intro fin) simp
  next
    case (Inr v)
    show ?thesis
    proof (cases fr)
      case False
      with run m Inr assms(3) show ?thesis by (intro fin) (simp add: exec_simps)
    next
      case True
      obtain r3 t3 where p: "promoteNext now (a_offerId a) u s2 = (r3, t3)"
        by (cases "promoteNext now (a_offerId a) u s2")
      with True run m Inr assms(3) have t: "t = t3"
        by (auto simp: exec_simps split: sum.splits)
      from True assms(4) have st: "seated (a_status a)" "\<not> seated (ud_status dto)"
        by (auto simp: freesSeat_def seated_def)
      note p' = promoteNext_effect [OF k2 p]
      have "seats t j \<le> seats s j" for j
        using p' seats2 [of j] st unfolding t by (auto split: if_splits dest!: spec [of _ j])
      with p' s2 st show ?thesis unfolding t by simp
    qed
  qed
qed

lemma checkCapacity_ok:
  assumes "checkCapacity p dto x oid s = (Inr v, t)"
  shows "t = s \<and> (ud_status dto = ACCEPTED \<and> p \<noteq> ACCEPTED \<longrightarrow>
           (\<forall>c. o_capacity x = Some c \<and> c \<noteq> 0 \<longrightarrow> int (seats s oid) < c))"
  using assms
  by (auto simp: checkCapacity_def exec_simps limited_def seats_def split: if_splits)

lemma checkCapacity_state: "checkCapacity p dto x oid s = (r, t) \<Longrightarrow> t = s"
  by (auto simp: checkCapacity_def exec_simps split: if_splits)

lemma statusTransaction_cases:
  assumes "statusTransaction now conflict i a x dto u s = (r, t)"
  shows "t = s \<or>
         (\<exists>v. checkCapacity (a_status a) dto x (a_offerId a) s = (Inr v, s) \<and>
            applyStatusTransaction now i a x dto u (freesSeat (a_status a) (ud_status dto)) s = (r, t))"
  using assms
  by (auto simp: statusTransaction_def Let_def runTransaction_def exec_simps
      split: if_splits prod.splits sum.splits dest: checkCapacity_state)

lemma capacity_statusTransaction:
  assumes "find (\<lambda>a. a_id a = i) (applications s) = Some a"
    and "find (\<lambda>x. o_id x = a_offerId a) (offers s) = Some x"
    and "validTransition (a_status a) (ud_status dto)"
  shows "steps (keeps capacityInv) (statusTransaction now conflict i a x dto u) s"
proof (rule stepsI)
  fix r t
  assume run: "statusTransaction now conflict i a x dto u s = (r, t)"
  show "keeps capacityInv s t"
  proof (cases "t = s")
    case False
    then obtain v where c: "checkCapacity (a_status a) dto x (a_offerId a) s = (Inr v, s)"
      and ap: "applyStatusTransaction now i a x dto u (freesSeat (a_status a) (ud_status dto)) s = (r, t)"
      using statusTransaction_cases [OF run] by blast
    show ?thesis
      unfolding keeps_def
    proof
      assume inv: "capacityInv s"
      then have keys: "applicationKeys s" by (simp add: capacityInv_def)
      note eff = applyStatus_effect [OF keys assms(1) ap refl]
      have "int (seats t j) \<le> max c 0"
        if o: "find (\<lambda>x. o_id x = j) (offers s) = Some y" "o_capacity y = Some c" "c \<noteq> 0" for j y c
      proof (cases "j = a_offerId a \<and> seated (ud_status dto) \<and> \<not> seated (a_status a)")
        case True
        with enters_seat [OF assms(3)] have "ud_status dto = ACCEPTED" "a_status a \<noteq> ACCEPTED"
          by (auto simp: seated_def)
        with checkCapacity_ok [OF c] True o assms(2) have "int (seats s j) < c" by auto
        moreover have "seats t j \<le> seats s j + 1" using eff [THEN conjunct2, THEN conjunct2, rule_format, of j] True by simp
        ultimately show ?thesis by linarith
      next
        case False
        then have "seats t j \<le> seats s j" using eff [THEN conjunct2, THEN conjunct2, rule_format, of j] unfolding if_not_P [OF False] by simp
        moreover have "int (seats s j) \<le> max c 0"
          using inv o by (auto simp: capacityInv_def capacityRespected_def)
        ultimately show ?thesis by linarith
      qed
      with eff show "capacityInv t" by (auto simp: capacityInv_def capacityRespected_def)
    qed
  qed (simp add: keeps_def)
qed

lemma capacity_updateStatus: "steps (keeps capacityInv) (updateStatus E now conflict i dto u) s"
  by (rule updateStatus_steps [OF inv.two_state_axioms seatSafe_keeps [OF seatSafe_frame]
      capacity_statusTransaction])

lemma capacity_serve: "steps (keeps capacityInv) (serve E now req) s"
  by (cases req)
    (simp_all add: inv.steps_thenE inv.steps_ret capacity_updateStatus
      seatSafe_submit [THEN seatSafe_keeps] seatSafe_routes [THEN seatSafe_keeps])

section \<open>Properties\<close>

text \<open>
  C1. Whatever requests the service receives, in any order and from any callers, every
  application stays in the table and its status only moves along the transition table; in
  particular a REJECTED or CANCELLED application is never reopened, by any of the routes.
\<close>

theorem workflow_always:
  assumes "applicationKeys s" "statusOf s i = Some st"
  shows "\<exists>st'. statusOf (serveAll E qs s) i = Some st' \<and> status_reaches st st' \<and>
           (st = REJECTED \<or> st = CANCELLED \<longrightarrow> st' = st)"
proof -
  obtain st' where st': "statusOf (serveAll E qs s) i = Some st'" "status_reaches st st'"
    using workflow_serveAll [of s E qs] assms unfolding workflow_def by blast
  moreover have "st = REJECTED \<or> st = CANCELLED \<longrightarrow> st' = st"
    using status_reaches_final [OF st'(2)] by auto
  ultimately show ?thesis by blast
qed

text \<open>
  C2. The capacity of an offer is never exceeded by requests served one after the other: if no
  offer has more accepted and enrolled applications than its capacity, the same holds after any
  sequence of submissions, decisions, tests, interviews and scores, promotions from the waiting
  list included.
\<close>

theorem capacity_always:
  assumes "capacityInv s"
  shows "capacityInv (serveAll E qs s)"
  using assms
proof (induction qs arbitrary: s)
  case Nil
  then show ?case by simp
next
  case (Cons q qs s)
  have "capacityInv (snd (serve E (fst q) (snd q) s))"
    using capacity_serve [of E "fst q" "snd q" s] Cons.prems by (simp add: steps_def keeps_def)
  then show ?case using Cons.IH by simp
qed

text \<open>
  C6. A rejected decision has no effect at all: when \<open>updateStatus\<close> answers with an error
  (unknown application, caller without rights, transition not in the table, capacity reached,
  conflicting transaction), the database is exactly what it was.
\<close>

theorem updateStatus_atomic:
  assumes "updateStatus E now conflict i dto u s = (Inl e, t)"
  shows "t = s"
proof -
  obtain r s1 where p: "prepareUpdate i dto u s = (r, s1)" by (cases "prepareUpdate i dto u s")
  then have s1: "s1 = s" by (rule prepareUpdate_state)
  show ?thesis
  proof (cases r)
    case (Inl e')
    with assms p s1 show ?thesis by (simp add: updateStatus_def bindE_run)
  next
    case (Inr v)
    obtain a x st where v: "v = (a, x, st)" by (cases v)
    obtain r2 s2 where q: "statusTransaction now conflict i a x dto u s = (r2, s2)"
      by (cases "statusTransaction now conflict i a x dto u s")
    show ?thesis
    proof (cases r2)
      case (Inl e')
      then have "s2 = s"
        using q by (auto simp: statusTransaction_def Let_def runTransaction_def exec_simps
            split: if_splits prod.splits sum.splits)
      with assms p s1 Inr v q Inl show ?thesis by (simp add: updateStatus_def bindE_run)
    next
      case (Inr w)
      obtain upd pr where w: "w = (upd, pr)" by (cases w)
      obtain t' where "announceDecision E now a st pr i dto u s2 = (Inr (), t')"
        using announceDecision_ok by blast
      with assms p s1 \<open>r = Inr v\<close> v q Inr w show ?thesis
        by (simp add: updateStatus_def bindE_run thenE_run ret_run)
    qed
  qed
qed

section \<open>A successful decision\<close>

lemma core_announce: "steps (frames core) (announceDecision E now a st p i dto u) s"
proof -
  have n: "steps (frames core) (notifyStatusChange E now v j z) t" for v j z t
    unfolding notifyStatusChange_def
    using statusMail.confined [of "ae_mail E" now "(v, j, status_name z)" t]
    by (auto intro: frm.steps_bestEffort)
  show ?thesis
    unfolding announceDecision_def notifyStudent_def
    by (intro frm.steps_thenE frm.steps_whenE n auditing.confined)
      (simp split: option.split prod.split add: frm.steps_ret n)
qed

lemma updateStatus_ok:
  assumes "updateStatus E now conflict i dto u s = (Inr upd, t)"
  obtains a x st pr s2 where "prepareUpdate i dto u s = (Inr (a, x, st), s)"
    "applyStatusTransaction now i a x dto u (freesSeat (a_status a) (ud_status dto)) s =
       (Inr (upd, pr), s2)"
    "core t = core s2"
proof -
  obtain r s1 where p: "prepareUpdate i dto u s = (r, s1)" by (cases "prepareUpdate i dto u s")
  then have s1: "s1 = s" by (rule prepareUpdate_state)
  from assms p obtain v where "r = Inr v" by (cases r) (auto simp: updateStatus_def bindE_run)
  moreover obtain a x st where v: "v = (a, x, st)" by (cases v)
  ultimately have p: "prepareUpdate i dto u s = (Inr (a, x, st), s)" using p s1 by simp
  obtain r2 s2 where q: "statusTransaction now conflict i a x dto u s = (r2, s2)"
    by (cases "statusTransaction now conflict i a x dto u s")
  from assms p q obtain w where r2: "r2 = Inr w" by (cases r2) (auto simp: updateStatus_def bindE_run)
  moreover obtain upd' pr where w: "w = (upd', pr)" by (cases w)
  ultimately have q: "statusTransaction now conflict i a x dto u s = (Inr (upd', pr), s2)"
    using q by simp
  then have "applyStatusTransaction now i a x dto u (freesSeat (a_status a) (ud_status dto)) s =
      (Inr (upd', pr), s2)"
    by (auto simp: statusTransaction_def Let_def runTransaction_def exec_simps
        split: if_splits prod.splits sum.splits dest: checkCapacity_state)
  moreover obtain t' where t': "announceDecision E now a st pr i dto u s2 = (Inr (), t')"
    using announceDecision_ok by blast
  then have "core t' = core s2" by (rule steps_framesD [OF core_announce])
  moreover have "upd' = upd" "t' = t"
    using assms p q t' by (simp_all add: updateStatus_def bindE_run thenE_run ret_run)
  ultimately show thesis using that p by blast
qed

lemma filter_update_rows:
  "(\<And>r. r \<in> set xs \<Longrightarrow> Q r \<Longrightarrow> \<not> P r \<and> \<not> P (f r)) \<Longrightarrow>
   filter P (update_rows Q f xs) = filter P xs"
  by (induction xs) auto

lemma nextWaitlisted_update:
  assumes "applicationKeys s" "find (\<lambda>a. a_id a = i) (applications s) = Some a"
    and "a_status a \<noteq> WAITLISTED" "\<And>b. a_status (f b) \<noteq> WAITLISTED"
  shows "nextWaitlisted (s\<lparr>applications := update_rows (\<lambda>a. a_id a = i) f (applications s),
                          timelines := ts\<rparr>) j = nextWaitlisted s j"
proof -
  have "r = a" if "r \<in> set (applications s)" "a_id r = i" for r
    using assms(1) that find_Some_in [OF assms(2)]
    by (auto simp: applicationKeys_def intro: distinct_key_eq)
  then have "filter (\<lambda>a. a_offerId a = j \<and> a_status a = WAITLISTED)
      (update_rows (\<lambda>a. a_id a = i) f (applications s)) =
      filter (\<lambda>a. a_offerId a = j \<and> a_status a = WAITLISTED) (applications s)"
    using assms(3,4) by (intro filter_update_rows) auto
  then show ?thesis by (simp add: nextWaitlisted_def)
qed

lemma nextWaitlisted_exists:
  assumes "b \<in> set (applications s)" "a_offerId b = j" "a_status b = WAITLISTED"
  shows "\<exists>w. nextWaitlisted s j = Some w"
proof -
  let ?ws = "sort_key a_submittedAt
      (filter (\<lambda>a. a_offerId a = j \<and> a_status a = WAITLISTED) (applications s))"
  have "b \<in> set ?ws" using assms by simp
  then obtain w ws where "?ws = w # ws" by (cases ?ws) (auto simp del: set_sort)
  then show ?thesis by (simp add: nextWaitlisted_def)
qed

text \<open>
  C3. A freed seat goes to the oldest waiting candidate: when a cancellation of a seated
  application succeeds and candidates wait for the same offer, the one of them who applied
  first becomes ACCEPTED, and no other application changes status.
\<close>

theorem promotion_fifo:
  assumes "updateStatus E now conflict i dto u s = (Inr upd, t)" "applicationKeys s"
    and "statusOf s i = Some previous" "freesSeat previous (ud_status dto)"
    and "find (\<lambda>a. a_id a = i) (applications s) = Some a"
    and "b \<in> set (applications s)" "a_offerId b = a_offerId a" "a_status b = WAITLISTED"
  shows "\<exists>w \<in> set (applications s). a_offerId w = a_offerId a \<and> a_status w = WAITLISTED \<and>
           a_submittedAt w \<le> a_submittedAt b \<and> statusOf t (a_id w) = Some ACCEPTED \<and>
           statusOf t i = Some (ud_status dto) \<and>
           (\<forall>j. j \<noteq> i \<and> j \<noteq> a_id w \<longrightarrow> statusOf t j = statusOf s j)"
proof -
  obtain a' x st pr s2 where p: "prepareUpdate i dto u s = (Inr (a', x, st), s)"
    and ap: "applyStatusTransaction now i a' x dto u (freesSeat (a_status a') (ud_status dto)) s =
      (Inr (upd, pr), s2)" and t: "core t = core s2"
    using updateStatus_ok [OF assms(1)] by metis
  have a': "a' = a" using prepareUpdate_ok [OF p] assms(5) by simp
  have prev: "a_status a = previous" using assms(3,5) by (simp add: statusOf_def)
  obtain w where w: "nextWaitlisted s (a_offerId a) = Some w"
    using nextWaitlisted_exists assms(6-8) by blast
  note w' = nextWaitlisted_Some [OF w]
  let ?s1 = "s\<lparr>applications := update_rows (\<lambda>a. a_id a = i) (writeStatus now dto) (applications s)\<rparr>"
  let ?s2 = "?s1\<lparr>applications := update_rows (\<lambda>x. a_id x = a_id w) (promote now) (applications ?s1)\<rparr>"
  have uns: "\<not> seated (ud_status dto)" "ud_status dto \<noteq> WAITLISTED" "previous \<noteq> WAITLISTED"
    using assms(4) by (auto simp: freesSeat_def seated_def)
  have ne: "a_id w \<noteq> i" using w' find_own [OF assms(2), of w] assms(5) prev uns by auto
  have next1: "nextWaitlisted (?s1\<lparr>timelines := ts\<rparr>) (a_offerId a) = Some w" for ts
    using nextWaitlisted_update [OF assms(2,5), of "writeStatus now dto" ts] prev uns w by simp
  have apps: "applications s2 = applications ?s2"
    using ap [unfolded a'] assms(4,5) prev uns next1
    by (auto simp: applyStatusTransaction_def exec_simps addTimeline_def promoteNext_def
        split: option.splits)
  have "statusOf t j = statusOf s2 j" for j using core_fields(4) [OF t] by (simp add: statusOf_def)
  moreover have "statusOf s2 j = statusOf ?s2 j" for j using apps by (simp add: statusOf_def)
  moreover have "statusOf ?s2 j = (if j = a_id w then
      map_option (\<lambda>_. ACCEPTED) (find (\<lambda>x. a_id x = a_id w) (applications ?s1)) else statusOf ?s1 j)" for j
    using statusOf_update [of "promote now" "a_id w" ?s1 j] by simp
  moreover have "find (\<lambda>x. a_id x = a_id w) (applications ?s1) \<noteq> None"
    using w' ne by (auto simp: find_None set_update_rows)
  moreover have "statusOf ?s1 j = (if j = i then Some (ud_status dto) else statusOf s j)" for j
    using statusOf_update [of "writeStatus now dto" i s j] assms(5) by simp
  ultimately show ?thesis using w' assms(6-8) ne by (intro bexI [of _ w]) auto
qed

text \<open>
  C5. Only a manager decides: a caller who is neither ADMIN_GET nor an administrator of the
  offer's own school is refused by every route that changes an application, and nothing is
  written.
\<close>

theorem manager_required:
  assumes "find (\<lambda>a. a_id a = i) (applications s) = Some a"
    and "find (\<lambda>x. o_id x = a_offerId a) (offers s) = Some x"
    and "find (\<lambda>x. st_id x = a_studentId a) (students s) = Some st"
    and "\<not> canManage s x u"
  shows "\<forall>req \<in> {UpdateStatus conflict i dto u, ScheduleTest i td u, ScheduleInterview i ind u,
                  RecordScore i score comments u}.
           serve E now req s = (Inl (Forbidden ''Vous n'etes pas autorise a modifier ce dossier''), s)"
  using assms
  by (simp add: updateStatus_def prepareUpdate_def scheduleTest_def scheduleInterview_def
      recordScore_def prepareChange_def fetchApplication_def bindE_run findOr_run ret_run thenE_run
      ensureCanManageApplication_run)

text \<open>What a successful acceptance did inside its transaction, before the notifications.\<close>

lemma acceptance_run:
  assumes "updateStatus E now conflict i dto u s = (Inr upd, t)" "seated (ud_status dto)"
    and "find (\<lambda>a. a_id a = i) (applications s) = Some a"
    and "find (\<lambda>x. o_id x = a_offerId a) (offers s) = Some x"
  obtains s1 s2 where "s1 = s\<lparr>applications := update_rows (\<lambda>a. a_id a = i) (writeStatus now dto) (applications s),
      timelines := timelines s @ [\<lparr>t_applicationId = i, t_status = ud_status dto,
        t_note = statusNote dto, t_createdBy = Some u, t_createdAt = now\<rparr>]\<rparr>"
    "autoRegister now i a x (ud_status dto) u s1 = (Inr (), s2)" "core t = core s2"
proof -
  obtain a' x' st pr s2 where pu: "prepareUpdate i dto u s = (Inr (a', x', st), s)"
    and ap: "applyStatusTransaction now i a' x' dto u (freesSeat (a_status a') (ud_status dto)) s =
      (Inr (upd, pr), s2)" and t: "core t = core s2"
    using updateStatus_ok [OF assms(1)] by metis
  have eq: "a' = a" "x' = x" using prepareUpdate_ok [OF pu] assms(3,4) by simp_all
  have "\<not> freesSeat (a_status a) (ud_status dto)"
    using assms(2) by (auto simp: freesSeat_def seated_def)
  then have "autoRegister now i a x (ud_status dto) u
      (s\<lparr>applications := update_rows (\<lambda>a. a_id a = i) (writeStatus now dto) (applications s),
         timelines := timelines s @ [\<lparr>t_applicationId = i, t_status = ud_status dto,
           t_note = statusNote dto, t_createdBy = Some u, t_createdAt = now\<rparr>]\<rparr>) = (Inr (), s2)"
    using ap [unfolded eq] assms(2,3)
    by (auto simp: applyStatusTransaction_def bindE_run thenE_run whenE_run ret_run
        updateOne_run addTimeline_def addRow_run split: prod.splits sum.splits)
  with that [OF refl _ t] show thesis by blast
qed

text \<open>
  C4. Accepting registers, or says that it could not. When an application is accepted or enrolled
  and the offer has an active programme and its school a current academic year, the student is an
  ACTIVE student of that programme in that year afterwards, and attends exactly the published
  courses of its first level among the courses of the school. When one of the two is missing, the
  decision stands, nobody is registered, and the history of the application gets, after the
  decision, a line signed by the caller which says that the registration was impossible, for which
  reason, and that it has to be done by hand.
\<close>

theorem acceptance_registers:
  assumes "updateStatus E now conflict i dto u s = (Inr upd, t)" "seated (ud_status dto)"
    and "find (\<lambda>a. a_id a = i) (applications s) = Some a"
    and "find (\<lambda>x. o_id x = a_offerId a) (offers s) = Some x"
  shows "statusOf t i = Some (ud_status dto) \<and>
         (case programAndYear s x of
            Some (p, y) \<Rightarrow>
              enrolledIn t (a_studentId a) (o_schoolId x) p y \<and>
              (\<forall>c \<in> set (courses s). c_schoolId c = o_schoolId x \<longrightarrow>
                 ((\<exists>e \<in> set (courseEnrollments t). ce_studentId e = a_studentId a \<and> ce_courseId e = c_id c)
                  \<longleftrightarrow> (\<exists>c' \<in> set (courses s). c_id c' = c_id c \<and> matchingCourse (o_schoolId x) (pr_id p) 1 c')))
          | None \<Rightarrow>
              enrollments t = enrollments s \<and> courseEnrollments t = courseEnrollments s \<and>
              timelines t = timelines s @
                [\<lparr>t_applicationId = i, t_status = ud_status dto, t_note = statusNote dto,
                  t_createdBy = Some u, t_createdAt = now\<rparr>,
                 \<lparr>t_applicationId = i, t_status = ud_status dto,
                  t_note = ''Statut mis a jour mais inscription automatique impossible ('' @
                    enrollmentFailure x @ '') - intervention manuelle requise.'',
                  t_createdBy = Some u, t_createdAt = now\<rparr>])"
proof -
  obtain s1 s2 where s1: "s1 = s\<lparr>applications := update_rows (\<lambda>a. a_id a = i) (writeStatus now dto) (applications s),
      timelines := timelines s @ [\<lparr>t_applicationId = i, t_status = ud_status dto,
        t_note = statusNote dto, t_createdBy = Some u, t_createdAt = now\<rparr>]\<rparr>"
    and reg: "autoRegister now i a x (ud_status dto) u s1 = (Inr (), s2)" and t: "core t = core s2"
    using acceptance_run [OF assms] by metis
  have py1: "programAndYear s1 x = programAndYear s x"
    unfolding s1 by (rule programAndYear_same) simp_all
  have "applications s2 = applications s1"
    using frames_bookD(2) [OF frame_autoRegister reg] .
  then have st: "statusOf t i = Some (ud_status dto)"
    using statusOf_update [of "writeStatus now dto" i s i] assms(3) core_fields(4) [OF t] s1
    by (simp add: statusOf_def)
  show ?thesis
  proof (cases "programAndYear s x")
    case None
    then show ?thesis
      using reg py1 st core_fields(5,9,10) [OF t]
      by (auto simp: autoRegister_def bindE_run findProgramAndYear_run addTimeline_def addRow_run s1)
  next
    case (Some py)
    obtain p y where py: "py = (p, y)" by (cases py)
    obtain es where es: "registerStudent (a_studentId a) (o_schoolId x) p y s1 =
        (Inr (), s1\<lparr>enrollments := es,
          courseEnrollments := synced s1 (a_studentId a) (o_schoolId x) (pr_id p) 1\<rparr>)"
      "enrolledIn (s1\<lparr>enrollments := es\<rparr>) (a_studentId a) (o_schoolId x) p y"
      using registerStudent_ok by blast
    have s2: "enrollments s2 = es"
      "courseEnrollments s2 = synced s1 (a_studentId a) (o_schoolId x) (pr_id p) 1"
      using reg es(1) Some py py1
      by (auto simp: autoRegister_def bindE_run thenE_run findProgramAndYear_run addTimeline_def addRow_run)
    have "enrolledIn t (a_studentId a) (o_schoolId x) p y"
      using es(2) s2(1) core_fields(9) [OF t] by (simp add: enrolledIn_def)
    moreover have "synced s1 (a_studentId a) (o_schoolId x) (pr_id p) 1 =
        synced s (a_studentId a) (o_schoolId x) (pr_id p) 1"
      unfolding s1 by (rule synced_same) simp_all
    then have "courseEnrollments t = synced s (a_studentId a) (o_schoolId x) (pr_id p) 1"
      using s2(2) core_fields(10) [OF t] by simp
    ultimately show ?thesis
      using st Some py
      by (auto simp only: courseInSchool_def option.case prod.case intro!: attends_synced bexI)
  qed
qed

lemma createApplication_ok:
  assumes "createApplication E now sid oid s = (Inr i, t)"
  shows "\<exists>a. applications t = applications s @ [a] \<and> a_studentId a = sid \<and> a_offerId a = oid \<and>
             a_status a = PENDING"
  using assms
  by (auto simp: createApplication_def exec_simps addTimeline_def split: if_splits)

definition hasApplied :: "db \<Rightarrow> id \<Rightarrow> id \<Rightarrow> bool" where
  "hasApplied s sid oid \<longleftrightarrow> (\<exists>a \<in> set (applications s). a_studentId a = sid \<and> a_offerId a = oid)"

definition answered :: "submit_results \<Rightarrow> id multiset" where
  "answered r = mset (sr_submitted r) + mset (sr_failed r) + mset (sr_alreadyApplied r)"

lemma submitOne_ok:
  assumes "submitOne E now student r oid s = (Inr r', t)"
  shows "answered r' = add_mset oid (answered r) \<and>
         set (applications s) \<subseteq> set (applications t) \<and>
         (\<forall>i. i \<in> set (sr_submitted r') \<union> set (sr_alreadyApplied r') \<longrightarrow>
            i \<in> set (sr_submitted r) \<union> set (sr_alreadyApplied r) \<or> hasApplied t (st_id student) i)"
proof -
  have n: "applications t' = applications s'" if "notifyStudent E now u i st s' = (r'', t')" for u i st s' t' r''
    using frames_bookD [OF frame_notifyStudent that] by simp
  show ?thesis
    using assms
    by (auto simp: submitOne_def bindE_run thenE_run ret_run findFirst_run transact_run answered_def
        hasApplied_def split: option.splits if_splits prod.splits sum.splits
        dest!: createApplication_ok n find_Some_in)
qed

lemma submitAll_ok:
  assumes "foldE (submitOne E now student) r oids s = (Inr r', t)"
  shows "answered r' = answered r + mset oids \<and> set (applications s) \<subseteq> set (applications t) \<and>
         (\<forall>i. i \<in> set (sr_submitted r') \<union> set (sr_alreadyApplied r') \<longrightarrow>
            i \<in> set (sr_submitted r) \<union> set (sr_alreadyApplied r) \<or> hasApplied t (st_id student) i)"
  using assms
proof (induction oids arbitrary: r s)
  case Nil
  then show ?case by (simp add: ret_run)
next
  case (Cons oid oids r s)
  then obtain r1 s1 where one: "submitOne E now student r oid s = (Inr r1, s1)"
    and rest: "foldE (submitOne E now student) r1 oids s1 = (Inr r', t)"
    by (auto simp: bindE_run split: prod.splits sum.splits)
  have mono: "hasApplied s1 (st_id student) i \<Longrightarrow> hasApplied t (st_id student) i" for i
    using Cons.IH [OF rest] by (auto simp: hasApplied_def)
  show ?case using submitOne_ok [OF one] Cons.IH [OF rest] mono by (simp add: subset_iff) metis
qed

text \<open>
  A submission answers for every offer: when it succeeds, each requested offer is in exactly
  one of the three lists, as often as it was requested, and the student has an application for
  every offer reported as submitted or already applied for.
\<close>

theorem submission_answers:
  assumes "submitApplications E now sid oids s = (Inr r, t)"
  shows "mset (sr_submitted r) + mset (sr_failed r) + mset (sr_alreadyApplied r) = mset oids \<and>
         (\<forall>i \<in> set (sr_submitted r) \<union> set (sr_alreadyApplied r). hasApplied t sid i)"
proof -
  obtain student where "find (\<lambda>x. st_id x = sid) (students s) = Some student"
    and f: "foldE (submitOne E now student)
      \<lparr>sr_submitted = [], sr_failed = [], sr_alreadyApplied = []\<rparr> oids s = (Inr r, t)"
    using assms by (auto simp: submitApplications_def exec_simps split: option.splits)
  with submitAll_ok [OF f] find_Some_in [of _ "students s" student] show ?thesis
    by (auto simp: answered_def)
qed

lemma json_put_other: "k' \<noteq> k \<Longrightarrow> map_of (json_put k v kvs) k' = map_of kvs k'"
  by (induction k v kvs rule: json_put.induct) auto

lemma map_of_filter_other: "k' \<noteq> k \<Longrightarrow> map_of (filter (\<lambda>kv. fst kv \<noteq> k) kvs) k' = map_of kvs k'"
  by (induction kvs) auto

lemma mergeComments_other: "k \<noteq> ''comments'' \<Longrightarrow> map_of (mergeComments c kvs) k = map_of kvs k"
  by (cases c) (simp_all add: mergeComments_def json_put_other map_of_filter_other)

text \<open>
  Recording a score keeps the test that was scheduled: when it succeeds on an application
  whose \<open>testResults\<close> is a JSON object, every key of it other than \<open>comments\<close> still has its
  value, and the score and the TEST_COMPLETED status are written.
\<close>

theorem score_keeps_test:
  assumes "recordScore E now i score comments u s = (Inr upd, t)"
    and "find (\<lambda>a. a_id a = i) (applications s) = Some a"
    and "a_testResults a = Some (JObj kvs)" "k \<noteq> ''comments''"
  shows "\<exists>b kvs'. find (\<lambda>a. a_id a = i) (applications t) = Some b \<and>
           a_testResults b = Some (JObj kvs') \<and> map_of kvs' k = map_of kvs k \<and>
           a_score b = Some score \<and> a_status b = TEST_COMPLETED"
proof -
  obtain r s1 where p: "prepareChange i u TEST_COMPLETED s = (r, s1)"
    by (cases "prepareChange i u TEST_COMPLETED s")
  obtain v where "r = Inr v" using assms(1) p by (cases r) (auto simp: recordScore_def bindE_run)
  moreover obtain a' st where "v = (a', st)" by (cases v)
  ultimately have p: "prepareChange i u TEST_COMPLETED s = (Inr (a, st), s)"
    using prepareChange_ok [of i u TEST_COMPLETED s a' st s1] p assms(2) by simp
  define f :: "application_row \<Rightarrow> application_row" where "f = (\<lambda>b. b\<lparr>a_score := Some score, a_testResults := Some (JObj (mergeComments comments
    (previousTestResults (a_testResults a)))), a_status := TEST_COMPLETED\<rparr>)"
  obtain s2 where upd: "updateOne applications applications_update (\<lambda>a. a_id a = i) f s = (Inr (f a), s2)"
    and s2: "applications s2 = update_rows (\<lambda>a. a_id a = i) f (applications s)"
    using assms(2) by (simp add: updateOne_run)
  define rest where "rest = (\<lambda>nt. thenE (addTimeline now i TEST_COMPLETED nt (Some u))
     (thenE (notifyStudent E now (st_userId st) i TEST_COMPLETED) (ret (f a))))"
  have "steps (frames book) (rest nt) s2" for nt
    unfolding rest_def by (intro frm.steps_thenE frm.steps_ret app_frames)
  moreover have "\<exists>nt. rest nt s2 = (Inr upd, t)"
    using assms(1) p upd
    by (auto simp: recordScore_def writeApplication_def bindE_run rest_def f_def)
  ultimately have t: "applications t = applications s2" using frames_bookD(2) by blast
  have "find (\<lambda>a. a_id a = i) (applications t) = Some (f a)"
    using find_update_rows [of "\<lambda>a. a_id a = i" "\<lambda>a. a_id a = i" f "applications s"] assms(2)
      find_Some_in [OF assms(2)]
    by (simp add: t s2 f_def)
  then show ?thesis
    using mergeComments_other [OF assms(4)] by (auto simp: f_def assms(3) previousTestResults_def)
qed

section \<open>Examples\<close>

definition sample_student :: "id \<Rightarrow> id \<Rightarrow> student_row" where
  "sample_student i u =
     \<lparr>st_id = i, st_userId = u, st_firstName = ''Soa'', st_lastName = ''Rabe'', st_phone = None,
      st_deletedAt = None, st_birthDate = None, st_cin = None, st_bacYear = None,
      st_bacType = None, st_address = None, st_city = None, st_region = None, st_bio = None,
      st_interests = [], st_skills = [], st_aspirations = [], st_profileCompleted = False,
      st_avatarUrl = None\<rparr>"

definition sample_offer :: "id \<Rightarrow> int \<Rightarrow> offer_row" where
  "sample_offer i cap =
     \<lparr>o_id = i, o_schoolId = ''sc1'', o_programId = Some ''p1'', o_tuitionFees = 1000,
      o_capacity = Some cap, o_applicationDeadline = None, o_isOpen = True, o_deletedAt = None,
      o_title = ''Licence'', o_slug = i,
      o_diploma = ''Licence'', o_description = None, o_duration = 3, o_prerequisites = [],
      o_academicYear = ''2026'', o_createdAt = 0\<rparr>"

definition sample_application :: "id \<Rightarrow> id \<Rightarrow> app_status \<Rightarrow> time \<Rightarrow> application_row" where
  "sample_application i sid st d =
     \<lparr>a_id = i, a_studentId = sid, a_offerId = ''o1'', a_status = st, a_score = None,
      a_testResults = Some (JObj [(''type'', JStr ''QCM'')]), a_interviewDate = None,
      a_interviewLink = None, a_decisionDate = None, a_decisionReason = None, a_submittedAt = d,
      a_deletedAt = None\<rparr>"

definition sample_program :: program_row where
  "sample_program =
     \<lparr>pr_id = ''p1'', pr_schoolId = ''sc1'', pr_name = ''Info'', pr_durationYears = 3,
      pr_isActive = True, pr_diploma = ''Licence''\<rparr>"

definition sample_year :: school_year_row where
  "sample_year = \<lparr>y_id = ''y1'', y_schoolId = ''sc1'', y_label = ''2026'', y_isCurrent = True,
      y_enrollmentOpensAt = 0, y_enrollmentClosesAt = 10 ^ 13\<rparr>"

text \<open>A school with one offer of one seat, its administrator, a platform administrator and three students.\<close>

definition sample_school_db :: "application_row list \<Rightarrow> db" where
  "sample_school_db apps =
     empty_db\<lparr>users := [sample_user ''ad'' ''ADMIN_GET'', sample_user ''u1'' ''STUDENT'',
                        sample_user ''u2'' ''STUDENT'', sample_user ''u3'' ''STUDENT''],
              students := [sample_student ''st1'' ''u1'', sample_student ''st2'' ''u2'',
                           sample_student ''st3'' ''u3''],
              offers := [sample_offer ''o1'' 1], applications := apps,
              programs := [sample_program], schoolYears := [sample_year],
              courses := [sample_course ''c1'' ''sc1'' True, sample_course ''c2'' ''sc1'' False]\<rparr>"

definition sample_queue :: "app_status \<Rightarrow> application_row list" where
  "sample_queue st =
     [sample_application ''a1'' ''st1'' st 10, sample_application ''a2'' ''st2'' WAITLISTED 30,
      sample_application ''a3'' ''st3'' WAITLISTED 20]"

definition sample_env :: app_env where
  "sample_env =
     \<lparr>ae_mail = sample_mail, ae_parseDate = (\<lambda>_. Some 0), ae_isoDate = (\<lambda>_. ''1970''),
      ae_showNumber = (\<lambda>_. ''n'')\<rparr>"

definition decide :: "app_status \<Rightarrow> update_status_dto" where
  "decide st = \<lparr>ud_status = st, ud_reason = None, ud_score = None\<rparr>"

lemmas sample_defs = sample_student_def sample_offer_def sample_application_def sample_program_def
  sample_year_def sample_queue_def sample_user_def sample_course_def decide_def

lemma sample_tables [simp]:
  "users (sample_school_db apps) = [sample_user ''ad'' ''ADMIN_GET'', sample_user ''u1'' ''STUDENT'',
     sample_user ''u2'' ''STUDENT'', sample_user ''u3'' ''STUDENT'']"
  "students (sample_school_db apps) = [sample_student ''st1'' ''u1'', sample_student ''st2'' ''u2'',
     sample_student ''st3'' ''u3'']"
  "offers (sample_school_db apps) = [sample_offer ''o1'' 1]"
  "applications (sample_school_db apps) = apps"
  "programs (sample_school_db apps) = [sample_program]"
  "schoolYears (sample_school_db apps) = [sample_year]"
  "schoolAdmins (sample_school_db apps) = []"
  "courses (sample_school_db apps) = [sample_course ''c1'' ''sc1'' True, sample_course ''c2'' ''sc1'' False]"
  by (simp_all add: sample_school_db_def empty_db_def)

lemma sample_keys: "applicationKeys (sample_school_db (sample_queue st))"
  by (simp add: applicationKeys_def sample_defs)

lemma sample_capacity: "capacityInv (sample_school_db (sample_queue st))"
  using sample_keys
  by (auto simp: capacityInv_def capacityRespected_def seats_def sample_defs seated_def)

lemma sample_manager: "canManage (sample_school_db apps) x ''ad''"
  by (simp add: canManage_def sample_user_def)

lemma sample_prepare:
  assumes "validTransition st st'"
  shows "prepareUpdate ''a1'' (decide st') ''ad'' (sample_school_db (sample_queue st)) =
     (Inr (sample_application ''a1'' ''st1'' st 10, sample_offer ''o1'' 1, sample_student ''st1'' ''u1''),
      sample_school_db (sample_queue st))"
  using assms
  by (simp add: prepareUpdate_def fetchApplication_def exec_simps sample_manager sample_defs)

theorem workflow_always_witness:
  "\<exists>st'. statusOf (serveAll sample_env [(0, UpdateStatus False ''a1'' (decide ACCEPTED) ''ad'')]
           (sample_school_db (sample_queue REJECTED))) ''a1'' = Some st' \<and>
         status_reaches REJECTED st' \<and> (REJECTED = REJECTED \<or> REJECTED = CANCELLED \<longrightarrow> st' = REJECTED)"
  by (rule workflow_always [OF sample_keys]) (simp add: statusOf_def sample_defs)

theorem capacity_always_witness:
  "capacityInv (serveAll sample_env
     [(0, UpdateStatus False ''a1'' (decide ACCEPTED) ''ad''),
      (1, UpdateStatus False ''a2'' (decide ACCEPTED) ''ad'')]
     (sample_school_db (sample_queue PENDING)))"
  by (rule capacity_always [OF sample_capacity])

theorem updateStatus_atomic_witness:
  "\<exists>e t. updateStatus sample_env 0 False ''a1'' (decide ACCEPTED) ''ad''
           (sample_school_db (sample_queue REJECTED)) = (Inl e, t) \<and>
         t = sample_school_db (sample_queue REJECTED)"
proof -
  have "\<exists>e t. updateStatus sample_env 0 False ''a1'' (decide ACCEPTED) ''ad''
           (sample_school_db (sample_queue REJECTED)) = (Inl e, t)"
    by (simp add: updateStatus_def prepareUpdate_def fetchApplication_def exec_simps sample_manager
        sample_defs validTransition_def)
  then show ?thesis using updateStatus_atomic by blast
qed

text \<open>A run of a decision on the sample, up to the notifications.\<close>

lemma sample_run:
  assumes "validTransition st st'"
    and "statusTransaction now False ''a1'' (sample_application ''a1'' ''st1'' st 10)
           (sample_offer ''o1'' 1) (decide st') ''ad'' (sample_school_db (sample_queue st)) =
         (Inr (upd, pr), s2)"
  obtains t where "updateStatus sample_env now False ''a1'' (decide st') ''ad''
      (sample_school_db (sample_queue st)) = (Inr upd, t)"
proof -
  obtain t where "announceDecision sample_env now (sample_application ''a1'' ''st1'' st 10)
      (sample_student ''st1'' ''u1'') pr ''a1'' (decide st') ''ad'' s2 = (Inr (), t)"
    using announceDecision_ok by blast
  with sample_prepare [OF assms(1)] assms(2) show thesis
    by (intro that) (simp add: updateStatus_def bindE_run thenE_run ret_run)
qed

lemmas transaction_defs = statusTransaction_def runTransaction_def checkCapacity_def limited_def
  applyStatusTransaction_def freesSeat_def promoteNext_def nextWaitlisted_def addTimeline_def
  seated_def

theorem promotion_fifo_witness:
  "\<exists>upd t. updateStatus sample_env 50 False ''a1'' (decide CANCELLED) ''ad''
       (sample_school_db (sample_queue ACCEPTED)) = (Inr upd, t) \<and>
     statusOf t ''a3'' = Some ACCEPTED \<and> statusOf t ''a2'' = Some WAITLISTED"
proof -
  let ?s = "sample_school_db (sample_queue ACCEPTED)"
  let ?a = "sample_application ''a1'' ''st1'' ACCEPTED 10"
  have v: "validTransition ACCEPTED CANCELLED" by (simp add: validTransition_def)
  have "\<exists>upd pr s2. statusTransaction 50 False ''a1'' ?a (sample_offer ''o1'' 1) (decide CANCELLED) ''ad'' ?s =
      (Inr (upd, pr), s2)"
    by (simp add: transaction_defs exec_simps sample_defs)
  then obtain upd t where run: "updateStatus sample_env 50 False ''a1'' (decide CANCELLED) ''ad'' ?s = (Inr upd, t)"
    using sample_run [OF v] by blast
  have "\<exists>w \<in> set (applications ?s). a_offerId w = a_offerId ?a \<and> a_status w = WAITLISTED \<and>
      a_submittedAt w \<le> a_submittedAt (sample_application ''a3'' ''st3'' WAITLISTED 20) \<and>
      statusOf t (a_id w) = Some ACCEPTED \<and> statusOf t ''a1'' = Some (ud_status (decide CANCELLED)) \<and>
      (\<forall>j. j \<noteq> ''a1'' \<and> j \<noteq> a_id w \<longrightarrow> statusOf t j = statusOf ?s j)"
    by (rule promotion_fifo [OF run sample_keys, of ACCEPTED])
      (simp_all add: statusOf_def sample_defs freesSeat_def seated_def)
  then have "statusOf t ''a3'' = Some ACCEPTED \<and> statusOf t ''a2'' = statusOf ?s ''a2''"
    by (auto simp: sample_defs)
  with run show ?thesis by (auto simp: statusOf_def sample_defs)
qed

theorem manager_required_witness:
  "serve sample_env 0 (UpdateStatus False ''a1'' (decide ACCEPTED) ''u1'')
     (sample_school_db (sample_queue PENDING)) =
   (Inl (Forbidden ''Vous n'etes pas autorise a modifier ce dossier''),
    sample_school_db (sample_queue PENDING))"
  by (rule manager_required [of "''a1''" "sample_school_db (sample_queue PENDING)"
        "sample_application ''a1'' ''st1'' PENDING 10" "sample_offer ''o1'' 1"
        "sample_student ''st1'' ''u1''" "''u1''", THEN bspec, OF _ _ _ _ insertI1])
    (simp_all add: canManage_def sample_defs)

lemma sample_programAndYear:
  "programAndYear (sample_school_db apps) (sample_offer ''o1'' 1) = Some (sample_program, sample_year)"
  by (simp add: programAndYear_def sample_defs)

lemma autoRegister_ok: "\<exists>t. autoRegister now i a x st u s = (Inr (), t)"
proof (cases "programAndYear s x")
  case None
  then show ?thesis by (simp add: autoRegister_def exec_simps addTimeline_def)
next
  case (Some py)
  moreover obtain p y where "py = (p, y)" by (cases py)
  moreover obtain t where "registerStudent (a_studentId a) (o_schoolId x) p y s = (Inr (), t)"
    using registerStudent_ok by blast
  ultimately show ?thesis by (simp add: autoRegister_def exec_simps addTimeline_def)
qed

lemma statusTransaction_succeeds:
  assumes "find (\<lambda>a. a_id a = i) (applications s) = Some a"
    and "checkCapacity (a_status a) dto x (a_offerId a) s = (Inr (), s)"
    and "\<not> freesSeat (a_status a) (ud_status dto)"
  shows "\<exists>upd pr s2. statusTransaction now False i a x dto u s = (Inr (upd, pr), s2)"
proof -
  obtain s1 where s1: "thenE (updateOne applications applications_update (\<lambda>a. a_id a = i) (writeStatus now dto))
      (addTimeline now i (ud_status dto) (statusNote dto) (Some u)) s = (Inr (), s1)"
    using assms(1) by (simp add: exec_simps addTimeline_def)
  obtain t where t: "whenE (seated (ud_status dto)) (autoRegister now i a x (ud_status dto) u) s1 = (Inr (), t)"
    using autoRegister_ok [of now i a x "ud_status dto" u s1]
    by (cases "seated (ud_status dto)") (auto simp: whenE_run)
  have "applyStatusTransaction now i a x dto u False s = (Inr (writeStatus now dto a, None), t)"
    using s1 t assms(1)
    by (simp add: applyStatusTransaction_def bindE_run thenE_run updateOne_run ret_run
        split: prod.splits sum.splits)
  then show ?thesis
    using assms(2,3)
    by (simp add: statusTransaction_def Let_def runTransaction_def catchE_run transact_run thenE_run)
qed

theorem acceptance_registers_witness:
  "\<exists>upd t. updateStatus sample_env 50 False ''a1'' (decide ACCEPTED) ''ad''
       (sample_school_db (sample_queue PENDING)) = (Inr upd, t) \<and>
     enrolledIn t ''st1'' ''sc1'' sample_program sample_year"
proof -
  let ?s = "sample_school_db (sample_queue PENDING)"
  let ?a = "sample_application ''a1'' ''st1'' PENDING 10"
  have v: "validTransition PENDING ACCEPTED" by (simp add: validTransition_def)
  have "\<exists>upd pr s2. statusTransaction 50 False ''a1'' ?a (sample_offer ''o1'' 1) (decide ACCEPTED) ''ad'' ?s =
      (Inr (upd, pr), s2)"
    by (rule statusTransaction_succeeds)
      (simp_all add: checkCapacity_def exec_simps sample_defs limited_def freesSeat_def seated_def)
  then obtain upd t where run: "updateStatus sample_env 50 False ''a1'' (decide ACCEPTED) ''ad'' ?s = (Inr upd, t)"
    using sample_run [OF v] by blast
  have "enrolledIn t (a_studentId ?a) (o_schoolId (sample_offer ''o1'' 1)) sample_program sample_year"
    using acceptance_registers [OF run, of ?a "sample_offer ''o1'' 1"]
    by (simp add: sample_programAndYear sample_queue_def decide_def seated_def)
      (simp add: sample_defs)
  with run show ?thesis by (auto simp: sample_defs)
qed

theorem submission_answers_witness:
  "\<exists>r t. submitApplications sample_env 5 ''st1'' [''o2'', ''o1''] (sample_school_db []) = (Inr r, t) \<and>
     mset (sr_submitted r) + mset (sr_failed r) + mset (sr_alreadyApplied r) =
       {#''o2'', ''o1''#} \<and>
     (\<forall>i \<in> set (sr_submitted r) \<union> set (sr_alreadyApplied r). hasApplied t ''st1'' i)"
proof -
  have "\<exists>r t. submitApplications sample_env 5 ''st1'' [''o2'', ''o1''] (sample_school_db []) = (Inr r, t)"
    by (simp add: submitApplications_def submitOne_def createApplication_def addTimeline_def
        notifyStudent_def notifyStatusChange_def exec_simps sample_defs)
  then obtain r t where run: "submitApplications sample_env 5 ''st1'' [''o2'', ''o1''] (sample_school_db []) = (Inr r, t)"
    by blast
  from submission_answers [OF run] run show ?thesis by (intro exI conjI) auto
qed

theorem score_keeps_test_witness:
  "\<exists>upd t b kvs'. recordScore sample_env 5 ''a1'' 15 None ''ad''
       (sample_school_db (sample_queue TEST_SCHEDULED)) = (Inr upd, t) \<and>
     find (\<lambda>a. a_id a = ''a1'') (applications t) = Some b \<and> a_testResults b = Some (JObj kvs') \<and>
     map_of kvs' ''type'' = Some (JStr ''QCM'')"
proof -
  let ?s = "sample_school_db (sample_queue TEST_SCHEDULED)"
  let ?a = "sample_application ''a1'' ''st1'' TEST_SCHEDULED 10"
  have "\<exists>upd t. recordScore sample_env 5 ''a1'' 15 None ''ad'' ?s = (Inr upd, t)"
    by (simp add: recordScore_def prepareChange_def fetchApplication_def writeApplication_def
        notifyStudent_def notifyStatusChange_def addTimeline_def exec_simps sample_manager
        sample_defs validTransition_def)
  then obtain upd t where run: "recordScore sample_env 5 ''a1'' 15 None ''ad'' ?s = (Inr upd, t)"
    by blast
  have "\<exists>b kvs'. find (\<lambda>a. a_id a = ''a1'') (applications t) = Some b \<and>
      a_testResults b = Some (JObj kvs') \<and> map_of kvs' ''type'' = map_of [(''type'', JStr ''QCM'')] ''type'' \<and>
      a_score b = Some 15 \<and> a_status b = TEST_COMPLETED"
    by (rule score_keeps_test [OF run, of ?a]) (simp_all add: sample_defs)
  with run show ?thesis by auto
qed

section \<open>A stale decision\<close>

text \<open>
  The seat arithmetic rests on the status that was read before the transaction: two
  cancellations of the same accepted application that were both prepared before either
  transaction ran each promote a waiting candidate, and the one seat of the offer is given
  twice. Neither transaction conflicts with the other when they run one after the other.
\<close>

theorem concurrent_cancellations_overbook:
  "\<exists>a x st r1 s1 r2 s2.
     prepareUpdate ''a1'' (decide CANCELLED) ''ad'' (sample_school_db (sample_queue ACCEPTED)) =
       (Inr (a, x, st), sample_school_db (sample_queue ACCEPTED)) \<and>
     statusTransaction 50 False ''a1'' a x (decide CANCELLED) ''ad''
       (sample_school_db (sample_queue ACCEPTED)) = (Inr r1, s1) \<and>
     statusTransaction 51 False ''a1'' a x (decide CANCELLED) ''ad'' s1 = (Inr r2, s2) \<and>
     o_capacity x = Some 1 \<and> seats s2 ''o1'' = 2"
proof -
  have v: "validTransition ACCEPTED CANCELLED" by (simp add: validTransition_def)
  show ?thesis
    unfolding sample_prepare [OF v]
    by (simp add: transaction_defs exec_simps sample_defs writeStatus_def promote_def seats_def)
qed

end
