(* ===== verification/Payments.thy ===== *)
theory Payments
  imports Applications
begin

text \<open>
  \<open>PaymentService\<close> (\<open>payment/payment.service.ts\<close>): initiation, the two signed webhooks,
  reconciliation with the provider (completion, enrolment, refund of a payment whose application
  was cancelled), consultation and statistics. The provider, the webhook signatures and the
  clock are the record \<open>pay_env\<close>; the HMAC itself is a parameter, the comparison of the
  decoded signature is the code's. The webhook deliveries are also given as a step relation in
  which the check before the transaction and the transaction interleave freely.
\<close>

section \<open>The environment\<close>

datatype confirm_status = ConfirmPENDING | ConfirmCOMPLETED | ConfirmFAILED

record confirmation =
  cf_status :: confirm_status
  cf_transactionId :: "string option"

record webhook_dto =
  wh_providerReference :: string
  wh_amount :: "rat option"

record pay_env =
  py_mail :: mail_config
  py_initiate :: "string \<Rightarrow> rat \<Rightarrow> (string \<times> string option) option"
  py_confirm :: "time \<Rightarrow> string \<Rightarrow> confirmation option"
  py_refund :: "string \<Rightarrow> bool option"
  py_secret :: "string option"
  py_hmac :: "string \<Rightarrow> string \<Rightarrow> string"
  py_stringify :: "webhook_dto \<Rightarrow> string"
  py_stripe :: "(string \<Rightarrow> string option \<Rightarrow> string \<Rightarrow> (string \<times> string) option) option"
  py_stripeSecret :: "string option"

text \<open>
  \<open>None\<close> as an answer of the provider is a rejected promise; \<open>py_stripe\<close> is \<open>None\<close> when the
  active provider is not Stripe.
\<close>

definition providerCall :: "'a option \<Rightarrow> ('s, 'a) exec" where
  "providerCall r = (case r of None \<Rightarrow> throw (Failure ''provider'') | Some x \<Rightarrow> ret x)"

lemma providerCall_run [exec_simps]:
  "providerCall r s = (case r of None \<Rightarrow> (Inl (Failure ''provider''), s) | Some x \<Rightarrow> (Inr x, s))"
  by (simp add: providerCall_def exec_simps split: option.split)

lemma steps_providerCall: "(\<And>s. R s s) \<Longrightarrow> steps R (providerCall r) s"
  by (simp add: steps_def exec_simps split: option.split)

section \<open>Initiation\<close>

record initiated =
  in_paymentId :: id
  in_reference :: string
  in_redirectUrl :: "string option"
  in_amount :: rat
  in_status :: pay_status

definition inProgressMessage :: "pay_status \<Rightarrow> string" where
  "inProgressMessage st =
     (if st = PayCOMPLETED then ''Cette candidature a deja ete payee''
      else ''Un paiement est deja en cours pour cette candidature'')"

definition openStatus :: "pay_status \<Rightarrow> bool" where
  "openStatus st \<longleftrightarrow> st = PayPENDING \<or> st = PayPROCESSING"

text \<open>The unique columns: identifier, reference, and the provider's reference when it is set.\<close>

definition payment_clash :: "payment_row \<Rightarrow> payment_row \<Rightarrow> bool" where
  "payment_clash p q \<longleftrightarrow>
     p_id p = p_id q \<or> p_reference p = p_reference q \<or>
     (p_providerRef p \<noteq> None \<and> p_providerRef p = p_providerRef q)"

definition expireOverdue :: "time \<Rightarrow> id \<Rightarrow> (db, nat) exec" where
  "expireOverdue now applicationId =
     updateMany payments payments_update
       (\<lambda>p. p_applicationId p = Some applicationId \<and> openStatus (p_status p) \<and>
            (case p_expiresAt p of None \<Rightarrow> False | Some d \<Rightarrow> d < now))
       (\<lambda>p. p\<lparr>p_status := PayEXPIRED\<rparr>)"

definition newPayment ::
  "time \<Rightarrow> id \<Rightarrow> id \<Rightarrow> id \<Rightarrow> rat \<Rightarrow> string \<Rightarrow> string \<Rightarrow> payment_row" where
  "newPayment now i studentId applicationId amount method reference =
     \<lparr>p_id = i, p_applicationId = Some applicationId, p_studentId = studentId,
      p_amount = amount, p_currency = ''MGA'', p_method = method, p_status = PayPENDING,
      p_reference = reference, p_providerRef = None, p_commission = amount * (5 / 100),
      p_paidAt = None, p_expiresAt = Some (now + 15 * 60 * 1000), p_createdAt = now\<rparr>"

definition createPayment ::
  "pay_env \<Rightarrow> time \<Rightarrow> id \<Rightarrow> id \<Rightarrow> rat \<Rightarrow> string \<Rightarrow> string \<Rightarrow> (db, payment_row) exec" where
  "createPayment E now studentId applicationId amount method reference =
     thenE (expireOverdue now applicationId)
     (bindE (findFirst payments (\<lambda>p. p_applicationId p = Some applicationId \<and>
               (openStatus (p_status p) \<or> p_status p = PayCOMPLETED))) (\<lambda>existing.
     case existing of
       Some p \<Rightarrow> throw (BadRequest (inProgressMessage (p_status p)))
     | None \<Rightarrow>
         bindE (newId (mailUuid (py_mail E))) (\<lambda>i.
         insertRow payments payments_update payment_clash
           (newPayment now i studentId applicationId amount method reference))))"

text \<open>
  Checking and creating under \<open>Serializable\<close>: of two concurrent initiations Postgres fails
  one, which is answered like a payment in progress.
\<close>

definition reservePayment ::
  "pay_env \<Rightarrow> time \<Rightarrow> bool \<Rightarrow> id \<Rightarrow> id \<Rightarrow> rat \<Rightarrow> string \<Rightarrow> string \<Rightarrow> (db, payment_row) exec" where
  "reservePayment E now conflict studentId applicationId amount method reference =
     catchE
       (runTransaction True conflict
         (createPayment E now studentId applicationId amount method reference))
       (\<lambda>err. throw (if err = Failure ''P2034''
                      then BadRequest (inProgressMessage PayPENDING) else err))"

text \<open>The update of a payment with the provider's reference, whose column is unique.\<close>

definition attachProvider :: "id \<Rightarrow> string \<Rightarrow> (db, payment_row) exec" where
  "attachProvider paymentId ref =
     bindE (asks (\<lambda>s. \<exists>q \<in> set (payments s). p_id q \<noteq> paymentId \<and> p_providerRef q = Some ref))
       (\<lambda>taken.
     thenE (require (\<not> taken) (Failure ''P2002''))
       (updateOne payments payments_update (\<lambda>p. p_id p = paymentId)
          (\<lambda>p. p\<lparr>p_providerRef := Some ref, p_status := PayPROCESSING\<rparr>)))"

definition payment_reference :: "time \<Rightarrow> id \<Rightarrow> string" where
  "payment_reference now uuid = ''PAY-'' @ show_int now @ ''-'' @ take 6 uuid"

text \<open>A payment the provider did not accept must not stay open.\<close>

definition failPayment :: "id \<Rightarrow> (db, payment_row) exec" where
  "failPayment paymentId =
     updateOne payments payments_update (\<lambda>p. p_id p = paymentId) (\<lambda>p. p\<lparr>p_status := PayFAILED\<rparr>)"

definition callProvider :: "pay_env \<Rightarrow> payment_row \<Rightarrow> string \<Rightarrow> rat \<Rightarrow> (db, initiated) exec" where
  "callProvider E payment reference amount =
     catchE
       (bindE (providerCall (py_initiate E reference amount)) (\<lambda>provider.
        thenE (attachProvider (p_id payment) (fst provider))
          (ret \<lparr>in_paymentId = p_id payment, in_reference = reference,
                in_redirectUrl = snd provider, in_amount = amount,
                in_status = PayPROCESSING\<rparr>)))
       (\<lambda>err. thenE (bestEffort (failPayment (p_id payment))) (throw err))"

definition initiatePayment ::
  "pay_env \<Rightarrow> time \<Rightarrow> bool \<Rightarrow> id \<Rightarrow> id \<Rightarrow> string \<Rightarrow> (db, initiated) exec" where
  "initiatePayment E now conflict studentId applicationId method =
     bindE (findOr students (\<lambda>x. st_id x = studentId) (NotFound ''Student not found'')) (\<lambda>_.
     bindE (findOr applications (\<lambda>a. a_id a = applicationId) (NotFound ''Application not found''))
       (\<lambda>application.
     bindE (findOr offers (\<lambda>x. o_id x = a_offerId application) (Failure ''P2003'')) (\<lambda>offer.
     thenE (require (a_studentId application = studentId)
              (Forbidden ''Cette candidature ne vous appartient pas''))
     (thenE (require (a_status application = ACCEPTED)
              (BadRequest ''Cette candidature n'est pas encore acceptee''))
     (thenE (require (0 < o_tuitionFees offer) (BadRequest ''Montant de paiement invalide''))
     (bindE (newId (mailUuid (py_mail E))) (\<lambda>u.
     bindE (reservePayment E now conflict studentId applicationId (o_tuitionFees offer) method
              (payment_reference now u)) (\<lambda>payment.
     callProvider E payment (payment_reference now u) (o_tuitionFees offer)))))))))"

section \<open>Reconciliation\<close>

definition lateNote :: "payment_row \<Rightarrow> string" where
  "lateNote payment =
     ''Webhook tardif : paiement '' @ p_reference payment @
     '' confirme alors qu'un autre paiement est deja complete pour cette candidature - verification manuelle requise (remboursement ?).''"

text \<open>An application that was cancelled in the meantime: the money goes back.\<close>

definition requestRefund ::
  "time \<Rightarrow> payment_row \<Rightarrow> application_row \<Rightarrow> string \<Rightarrow> (db, (id \<times> string) option) exec" where
  "requestRefund now payment application providerReference =
     thenE (insertRow refunds refunds_update (\<lambda>x y. r_paymentId x = r_paymentId y)
              \<lparr>r_paymentId = p_id payment, r_amount = p_amount payment,
               r_reason = ''Webhook de paiement confirme apres passage de la candidature a '' @
                 status_name (a_status application) @ '' - remboursement automatique requis'',
               r_status = RefundPENDING, r_processedAt = None\<rparr>)
     (thenE (addTimeline now (a_id application) (a_status application)
               (''Paiement '' @ p_reference payment @
                '' confirme apres annulation de la candidature - mis en reconciliation, remboursement en cours.'')
               None)
     (ret (Some (p_id payment, providerReference))))"

definition enrollPaidIn ::
  "time \<Rightarrow> application_row \<Rightarrow> offer_row \<Rightarrow> program_row \<Rightarrow> school_year_row \<Rightarrow> (db, unit) exec" where
  "enrollPaidIn now application offer program academicYear =
     thenE (updateOne applications applications_update (\<lambda>a. a_id a = a_id application)
              (\<lambda>a. a\<lparr>a_status := ENROLLED\<rparr>))
     (thenE (registerStudent (a_studentId application) (o_schoolId offer) program academicYear)
     (addTimeline now (a_id application) ENROLLED
        (''Etudiant inscrit automatiquement : '' @ enrolledYear program academicYear) None))"

definition unenrolledNote :: "offer_row \<Rightarrow> string" where
  "unenrolledNote offer =
     ''Paiement confirme mais inscription automatique impossible ('' @ enrollmentFailure offer @
     '') - intervention manuelle requise.''"

definition enrollPaid :: "time \<Rightarrow> application_row \<Rightarrow> (db, unit) exec" where
  "enrollPaid now application =
     bindE (findOr offers (\<lambda>x. o_id x = a_offerId application) (Failure ''P2003'')) (\<lambda>offer.
     bindE (findProgramAndYear offer) (\<lambda>found.
     case found of
       Some (program, academicYear) \<Rightarrow> enrollPaidIn now application offer program academicYear
     | None \<Rightarrow>
         addTimeline now (a_id application) (a_status application) (unenrolledNote offer) None))"

definition settleApplication ::
  "time \<Rightarrow> payment_row \<Rightarrow> id \<Rightarrow> string \<Rightarrow> (db, (id \<times> string) option) exec" where
  "settleApplication now payment applicationId providerReference =
     bindE (findFirst payments (\<lambda>p. p_applicationId p = Some applicationId \<and>
              p_status p = PayCOMPLETED \<and> p_id p \<noteq> p_id payment)) (\<lambda>otherCompleted.
     if otherCompleted \<noteq> None then
       thenE (addTimeline now applicationId ENROLLED (lateNote payment) None) (ret None)
     else
       bindE (findFirst applications (\<lambda>a. a_id a = applicationId)) (\<lambda>found.
       case found of
         None \<Rightarrow> ret None
       | Some application \<Rightarrow>
           if \<not> seated (a_status application)
           then requestRefund now payment application providerReference
           else thenE (enrollPaid now application) (ret None)))"

definition claimPayment :: "time \<Rightarrow> pay_status \<Rightarrow> string \<Rightarrow> payment_row \<Rightarrow> payment_row" where
  "claimPayment now st providerReference p =
     p\<lparr>p_status := st, p_paidAt := (if st = PayCOMPLETED then Some now else p_paidAt p),
       p_providerRef := Some providerReference\<rparr>"

text \<open>
  The transaction of \<open>reconcilePayment\<close>; \<open>payment\<close> is the row as it was read before it. The
  conditional update lets one delivery of a webhook claim the payment.
\<close>

definition settlePayment ::
  "time \<Rightarrow> payment_row \<Rightarrow> pay_status \<Rightarrow> string option \<Rightarrow> string
    \<Rightarrow> (db, payment_row \<times> (id \<times> string) option) exec" where
  "settlePayment now payment st transactionId providerReference =
     bindE (updateMany payments payments_update
              (\<lambda>p. p_id p = p_id payment \<and> p_status p \<noteq> PayCOMPLETED)
              (claimPayment now st providerReference)) (\<lambda>claimed.
     if claimed = 0 then
       bindE (findOr payments (\<lambda>p. p_id p = p_id payment) (Failure ''P2025'')) (\<lambda>p. ret (p, None))
     else
       bindE (findOr payments (\<lambda>p. p_id p = p_id payment) (Failure ''P2025'')) (\<lambda>updated.
       bindE (case (if st = PayCOMPLETED then p_applicationId payment else None) of
                None \<Rightarrow> ret None
              | Some applicationId \<Rightarrow>
                  settleApplication now payment applicationId providerReference) (\<lambda>refund.
       thenE (whenE (st = PayCOMPLETED)
               (thenE (insertRow transactions transactions_update
                         (\<lambda>x y. x_paymentId x = x_paymentId y)
                         \<lparr>x_paymentId = p_id payment, x_amount = p_amount payment,
                          x_provider = p_method payment, x_providerTransactionId = transactionId,
                          x_completedAt = now\<rparr>) (ret ())))
       (ret (updated, refund)))))"

definition processRefund :: "pay_env \<Rightarrow> time \<Rightarrow> id \<Rightarrow> string \<Rightarrow> (db, unit) exec" where
  "processRefund E now paymentId providerReference =
     bestEffort
       (bindE (providerCall (py_refund E providerReference)) (\<lambda>success.
        updateOne refunds refunds_update (\<lambda>r. r_paymentId r = paymentId)
          (\<lambda>r. r\<lparr>r_status := (if success then RefundCOMPLETED else RefundFAILED),
                r_processedAt := (if success then Some now else r_processedAt r)\<rparr>)))"

text \<open>What happens before the transaction: the payment, unless there is nothing to settle.\<close>

definition receiveWebhook ::
  "pay_env \<Rightarrow> time \<Rightarrow> string \<Rightarrow> rat option
    \<Rightarrow> (db, payment_row \<times> (pay_status \<times> string option) option) exec" where
  "receiveWebhook E now providerReference expectedAmount =
     bindE (findOr payments (\<lambda>p. p_providerRef p = Some providerReference)
              (NotFound ''Payment not found for this provider reference'')) (\<lambda>payment.
     if p_status payment = PayCOMPLETED then ret (payment, None)
     else
       thenE (require (case expectedAmount of None \<Rightarrow> True | Some a \<Rightarrow> a = p_amount payment)
                (BadRequest ''Montant de webhook incoherent''))
       (bindE (providerCall (py_confirm E now providerReference)) (\<lambda>c.
        ret (payment,
             case cf_status c of
               ConfirmPENDING \<Rightarrow> None
             | ConfirmCOMPLETED \<Rightarrow> Some (PayCOMPLETED, cf_transactionId c)
             | ConfirmFAILED \<Rightarrow> Some (PayFAILED, cf_transactionId c)))))"

definition reconcilePayment ::
  "pay_env \<Rightarrow> time \<Rightarrow> string \<Rightarrow> rat option \<Rightarrow> (db, payment_row) exec" where
  "reconcilePayment E now providerReference expectedAmount =
     bindE (receiveWebhook E now providerReference expectedAmount) (\<lambda>(payment, outcome).
     case outcome of
       None \<Rightarrow> ret payment
     | Some (st, transactionId) \<Rightarrow>
         bindE (transact (settlePayment now payment st transactionId providerReference))
           (\<lambda>(updated, refund).
         thenE (case refund of None \<Rightarrow> ret () | Some (i, ref) \<Rightarrow> processRefund E now i ref)
         (ret updated)))"

section \<open>Webhooks\<close>

definition assertValidWebhookSignature ::
  "pay_env \<Rightarrow> webhook_dto \<Rightarrow> string option \<Rightarrow> string option \<Rightarrow> (db, unit) exec" where
  "assertValidWebhookSignature E dto rawBody signature =
     (if \<not> truthy (py_secret E) \<or> \<not> truthy signature
      then throw (Forbidden ''Signature webhook manquante'')
      else
        let payload = (case rawBody of None \<Rightarrow> py_stringify E dto | Some b \<Rightarrow> b);
            expected = toHex (py_hmac E (the (py_secret E)) payload);
            received = fromHex (the signature);
            expectedBuffer = fromHex expected
        in require (length received = length expectedBuffer \<and> received = expectedBuffer)
             (Forbidden ''Signature webhook invalide''))"

definition handleWebhook ::
  "pay_env \<Rightarrow> time \<Rightarrow> webhook_dto \<Rightarrow> string option \<Rightarrow> string option \<Rightarrow> (db, payment_row) exec" where
  "handleWebhook E now dto rawBody signature =
     thenE (assertValidWebhookSignature E dto rawBody signature)
       (reconcilePayment E now (wh_providerReference dto) (wh_amount dto))"

datatype stripe_answer = Ignored string | Reconciled payment_row

definition relevantEventTypes :: "string list" where
  "relevantEventTypes =
     [''checkout.session.completed'', ''checkout.session.async_payment_succeeded'',
      ''checkout.session.async_payment_failed'', ''checkout.session.expired'']"

definition constructWebhookEvent ::
  "(string \<Rightarrow> string option \<Rightarrow> string \<Rightarrow> (string \<times> string) option) \<Rightarrow> string \<Rightarrow> string option \<Rightarrow> string
    \<Rightarrow> (db, string \<times> string) exec" where
  "constructWebhookEvent verify rawBody signature webhookSecret =
     (if \<not> truthy signature then throw (BadRequest ''Signature webhook Stripe manquante'')
      else (case verify rawBody signature webhookSecret of
              None \<Rightarrow> throw (BadRequest ''Signature webhook Stripe invalide'')
            | Some event \<Rightarrow> ret event))"

definition handleStripeWebhook ::
  "pay_env \<Rightarrow> time \<Rightarrow> string option \<Rightarrow> string option \<Rightarrow> (db, stripe_answer) exec" where
  "handleStripeWebhook E now rawBody signature =
     (case py_stripe E of
        None \<Rightarrow> throw (Forbidden ''Stripe n'est pas le fournisseur de paiement actif'')
      | Some verify \<Rightarrow>
          if \<not> truthy (py_stripeSecret E)
          then throw (Forbidden ''STRIPE_WEBHOOK_SECRET non configure cote serveur'')
          else (case rawBody of
            None \<Rightarrow> throw (BadRequest ''Corps de requete brut manquant'')
          | Some body \<Rightarrow>
              bindE (constructWebhookEvent verify body signature (the (py_stripeSecret E)))
                (\<lambda>(eventType, sessionId).
              if eventType \<notin> set relevantEventTypes then ret (Ignored eventType)
              else bindE (reconcilePayment E now sessionId None) (\<lambda>p. ret (Reconciled p)))))"

section \<open>Consultation\<close>

record payment_details =
  pt_payment :: payment_row
  pt_student :: student_row
  pt_transaction :: "transaction_row option"
  pt_refund :: "refund_row option"

definition getPayment :: "id \<Rightarrow> id \<Rightarrow> string \<Rightarrow> (db, payment_details) exec" where
  "getPayment paymentId userId role =
     bindE (findOr payments (\<lambda>p. p_id p = paymentId) (NotFound ''Payment not found'')) (\<lambda>payment.
     bindE (findOr students (\<lambda>x. st_id x = p_studentId payment) (Failure ''P2003'')) (\<lambda>student.
     bindE (findFirst transactions (\<lambda>x. x_paymentId x = paymentId)) (\<lambda>transaction.
     bindE (findFirst refunds (\<lambda>r. r_paymentId r = paymentId)) (\<lambda>refund.
     thenE (require (\<not> (st_userId student \<noteq> userId \<and> role \<noteq> ''ADMIN_GET''))
              (Forbidden ''Vous n'etes pas autorise a consulter ce paiement''))
     (ret \<lparr>pt_payment = payment, pt_student = student, pt_transaction = transaction,
           pt_refund = refund\<rparr>)))))"

definition getHistory ::
  "id \<Rightarrow> int \<Rightarrow> int \<Rightarrow> (db, (payment_row \<times> transaction_row option) page) exec" where
  "getHistory studentId page limit =
     bindE (findMany payments (\<lambda>p. p_studentId p = studentId)) (\<lambda>rows.
     bindE (asks (\<lambda>s p. find (\<lambda>x. x_paymentId x = p_id p) (transactions s))) (\<lambda>transaction.
     paginate page limit (map (\<lambda>p. (p, transaction p)) (orderDesc p_createdAt rows))))"

definition payment_period :: "time option \<Rightarrow> time option \<Rightarrow> payment_row \<Rightarrow> bool" where
  "payment_period from to p \<longleftrightarrow>
     (case from of None \<Rightarrow> True | Some d \<Rightarrow> d \<le> p_createdAt p) \<and>
     (case to of None \<Rightarrow> True | Some d \<Rightarrow> p_createdAt p \<le> d)"

definition findAllAdmin ::
  "int option \<Rightarrow> int option \<Rightarrow> pay_status option \<Rightarrow> time option \<Rightarrow> time option
    \<Rightarrow> (db, (payment_row \<times> string) page) exec" where
  "findAllAdmin page limit st from to =
     bindE (findMany payments (\<lambda>p. matches_filter st (p_status p) \<and> payment_period from to p))
       (\<lambda>rows.
     bindE (asks displayName) (\<lambda>name.
     paginate (clampPage page) (clampLimit 20 limit)
       (map (\<lambda>p. (p, name (p_studentId p))) (orderDesc p_createdAt rows))))"

record payment_stats =
  ps_totalTransactions :: nat
  ps_totalAmount :: rat
  ps_byStatus :: "(pay_status \<times> nat) list"
  ps_byMethod :: "(string \<times> nat) list"

definition payment_getStats :: "time option \<Rightarrow> time option \<Rightarrow> (db, payment_stats) exec" where
  "payment_getStats from to =
     bindE (findMany payments (payment_period from to)) (\<lambda>rows.
     let completed = filter (\<lambda>p. p_status p = PayCOMPLETED) rows in
     ret \<lparr>ps_totalTransactions = length rows,
          ps_totalAmount = sum_list (map p_amount completed),
          ps_byStatus = group_count p_status rows,
          ps_byMethod = group_count p_method completed\<rparr>)"

section \<open>The payment ledger\<close>

text \<open>
  A COMPLETED payment has its transaction, of its amount, and every transaction belongs to a
  COMPLETED payment; an application has at most one payment in progress.
\<close>

definition paymentKeys :: "db \<Rightarrow> bool" where
  "paymentKeys s \<longleftrightarrow> distinct (map p_id (payments s)) \<and> distinct (map x_paymentId (transactions s))"

definition booked :: "db \<Rightarrow> bool" where
  "booked s \<longleftrightarrow>
     (\<forall>x \<in> set (transactions s). \<exists>p \<in> set (payments s).
        p_id p = x_paymentId x \<and> p_status p = PayCOMPLETED \<and> p_amount p = x_amount x) \<and>
     (\<forall>p \<in> set (payments s). p_status p = PayCOMPLETED \<longrightarrow>
        (\<exists>x \<in> set (transactions s). x_paymentId x = p_id p))"

definition openPayments :: "db \<Rightarrow> id \<Rightarrow> nat" where
  "openPayments s applicationId =
     count_rows (\<lambda>p. p_applicationId p = Some applicationId \<and> openStatus (p_status p)) (payments s)"

definition paymentInv :: "db \<Rightarrow> bool" where
  "paymentInv s \<longleftrightarrow> paymentKeys s \<and> booked s \<and> (\<forall>a. openPayments s a \<le> 1)"

text \<open>What of the database the ledger is.\<close>

definition ledger :: "db \<Rightarrow> payment_row list \<times> transaction_row list" where
  "ledger s = (payments s, transactions s)"

lemma paymentInv_ledger: "ledger t = ledger s \<Longrightarrow> paymentInv t = paymentInv s"
  by (simp add: ledger_def paymentInv_def paymentKeys_def booked_def openPayments_def)

lemma paymentInv_frame: "steps (frames ledger) m s \<Longrightarrow> steps (keeps paymentInv) m s"
  by (auto simp: steps_def frames_def keeps_def dest: paymentInv_ledger)

lemma count_rows_update_le:
  "(\<And>r. r \<in> set xs \<Longrightarrow> P r \<Longrightarrow> Q (f r) \<Longrightarrow> Q r) \<Longrightarrow> count_rows Q (update_rows P f xs) \<le> count_rows Q xs"
  by (induction xs) fastforce+

text \<open>An update of payments that neither completes one nor opens one.\<close>

definition sameMoney :: "(payment_row \<Rightarrow> payment_row) \<Rightarrow> bool" where
  "sameMoney f \<longleftrightarrow>
     (\<forall>p. p_id (f p) = p_id p \<and> p_amount (f p) = p_amount p \<and> p_applicationId (f p) = p_applicationId p)"

lemma sameMoney_claim [simp]: "sameMoney (claimPayment now st ref)"
  by (simp add: sameMoney_def claimPayment_def)

lemma booked_update:
  assumes "booked s" "sameMoney f"
    and "\<And>p. p \<in> set (payments s) \<Longrightarrow> P p \<Longrightarrow> p_status p \<noteq> PayCOMPLETED \<and> p_status (f p) \<noteq> PayCOMPLETED"
  shows "booked (s\<lparr>payments := update_rows P f (payments s)\<rparr>)"
proof -
  have kept: "p \<in> set (update_rows P f (payments s))"
    if "p \<in> set (payments s)" "p_status p = PayCOMPLETED" for p
    using that assms(3) [of p] by (intro in_update_rowsI [of p]) auto
  have old: "p \<in> set (payments s)"
    if p: "p \<in> set (update_rows P f (payments s))" "p_status p = PayCOMPLETED" for p
  proof -
    from p(1) obtain r0 where r0: "r0 \<in> set (payments s)" "p = (if P r0 then f r0 else r0)"
      by (rule in_update_rowsE)
    with p(2) assms(3) [OF r0(1)] show ?thesis by (cases "P r0") auto
  qed
  show ?thesis
    unfolding booked_def
  proof (intro conjI ballI impI)
    fix x
    assume "x \<in> set (transactions (s\<lparr>payments := update_rows P f (payments s)\<rparr>))"
    with assms(1) obtain p where "p \<in> set (payments s)" "p_id p = x_paymentId x"
      "p_status p = PayCOMPLETED" "p_amount p = x_amount x"
      unfolding booked_def by auto
    with kept show "\<exists>p \<in> set (payments (s\<lparr>payments := update_rows P f (payments s)\<rparr>)).
        p_id p = x_paymentId x \<and> p_status p = PayCOMPLETED \<and> p_amount p = x_amount x"
      by (intro bexI [of _ p]) simp_all
  next
    fix p
    assume "p \<in> set (payments (s\<lparr>payments := update_rows P f (payments s)\<rparr>))" "p_status p = PayCOMPLETED"
    with old have "p \<in> set (payments s)" by simp
    with assms(1) \<open>p_status p = PayCOMPLETED\<close>
    show "\<exists>x \<in> set (transactions (s\<lparr>payments := update_rows P f (payments s)\<rparr>)). x_paymentId x = p_id p"
      unfolding booked_def by simp
  qed
qed

lemma paymentInv_update:
  assumes "paymentInv s" "sameMoney f"
    and "\<And>p. p \<in> set (payments s) \<Longrightarrow> P p \<Longrightarrow> p_status p \<noteq> PayCOMPLETED \<and> p_status (f p) \<noteq> PayCOMPLETED \<and>
           (openStatus (p_status (f p)) \<longrightarrow> openStatus (p_status p))"
  shows "paymentInv (s\<lparr>payments := update_rows P f (payments s)\<rparr>)"
proof -
  let ?t = "s\<lparr>payments := update_rows P f (payments s)\<rparr>"
  have "openPayments ?t a \<le> 1" for a
  proof -
    have "openPayments ?t a \<le> openPayments s a"
      using assms(2,3) unfolding openPayments_def
      by (auto simp: sameMoney_def intro!: count_rows_update_le)
    also have "\<dots> \<le> 1" using assms(1) by (simp add: paymentInv_def)
    finally show ?thesis .
  qed
  moreover have "booked ?t"
    using assms by (intro booked_update) (auto simp: paymentInv_def)
  moreover have "paymentKeys ?t"
    using assms(1,2) by (simp add: paymentInv_def paymentKeys_def sameMoney_def)
  ultimately show ?thesis by (simp add: paymentInv_def)
qed

lemma paymentInv_insert:
  assumes "paymentInv s" "p_status p = PayPENDING" "p_applicationId p = Some a" "openPayments s a = 0"
    and "p_id p \<notin> p_id ` set (payments s)"
  shows "paymentInv (s\<lparr>payments := payments s @ [p]\<rparr>)"
  using assms by (auto simp: paymentInv_def paymentKeys_def booked_def openPayments_def)

section \<open>Initiation keeps the ledger\<close>

lemma newPayment_simps [simp]:
  "p_id (newPayment now i sid aid am m ref) = i"
  "p_status (newPayment now i sid aid am m ref) = PayPENDING"
  "p_amount (newPayment now i sid aid am m ref) = am"
  "p_applicationId (newPayment now i sid aid am m ref) = Some aid"
  "p_studentId (newPayment now i sid aid am m ref) = sid"
  "p_commission (newPayment now i sid aid am m ref) = am * (5 / 100)"
  "p_reference (newPayment now i sid aid am m ref) = ref"
  "p_providerRef (newPayment now i sid aid am m ref) = None"
  "p_expiresAt (newPayment now i sid aid am m ref) = Some (now + 15 * 60 * 1000)"
  by (simp_all add: newPayment_def)

lemma inserted_payment:
  assumes "insertRow payments payments_update payment_clash (newPayment now i sid aid am m ref) s = (Inr p, t)"
  shows "find (\<lambda>q. p_id q = p_id p) (payments t) = Some p \<and>
         (\<exists>i. p = newPayment now i sid aid am m ref)"
proof -
  have "p = newPayment now i sid aid am m ref" "payments t = payments s @ [p]"
    "\<not> (\<exists>q \<in> set (payments s). payment_clash q p)"
    using assms by (auto simp: insertRow_run split: if_splits)
  moreover from this(3) have "find (\<lambda>q. p_id q = p_id p) (payments s) = None"
    by (auto simp: find_None payment_clash_def)
  ultimately show ?thesis by (auto simp: find_append)
qed

lemma createPayment_ok:
  assumes "createPayment E now sid aid amount method ref s = (Inr p, t)"
  shows "find (\<lambda>q. p_id q = p_id p) (payments t) = Some p \<and>
         (\<exists>i. p = newPayment now i sid aid amount method ref)"
proof -
  obtain i u where "insertRow payments payments_update payment_clash
      (newPayment now i sid aid amount method ref) u = (Inr p, t)"
    using assms
    by (auto simp: createPayment_def bindE_run thenE_run throw_run newId_run
        split: prod.splits sum.splits option.splits)
  then show ?thesis by (rule inserted_payment)
qed

lemma reservePayment_ok:
  assumes "reservePayment E now conflict sid aid amount method ref s = (Inr p, t)"
  shows "find (\<lambda>q. p_id q = p_id p) (payments t) = Some p \<and>
         (\<exists>i. p = newPayment now i sid aid amount method ref)"
  using assms
  by (auto simp: reservePayment_def runTransaction_def catchE_run throw_run transact_run
      split: if_splits prod.splits sum.splits dest: createPayment_ok)

lemma paymentInv_newId: "steps (keeps paymentInv) (newId uuid) s"
  by (rule paymentInv_frame) (simp add: steps_def frames_def exec_simps ledger_def)

lemma paymentInv_insertPayment:
  assumes "openPayments s aid = 0"
  shows "steps (keeps paymentInv) (insertRow payments payments_update payment_clash
           (newPayment now i sid aid amount method ref)) s"
  using assms
  by (auto simp: steps_def keeps_def exec_simps payment_clash_def intro!: paymentInv_insert)

lemma paymentInv_create: "steps (keeps paymentInv) (createPayment E now sid aid amount method ref) s"
  unfolding createPayment_def
proof (intro inv.steps_thenE inv.steps_bindE)
  show "steps (keeps paymentInv) (expireOverdue now aid) s"
    by (auto simp: steps_def keeps_def expireOverdue_def exec_simps sameMoney_def openStatus_def
        intro!: paymentInv_update)
next
  fix t x and u :: db
  assume f: "findFirst payments (\<lambda>p. p_applicationId p = Some aid \<and>
      (openStatus (p_status p) \<or> p_status p = PayCOMPLETED)) t = (Inr x, u)"
  have "openPayments (u\<lparr>seqNo := n\<rparr>) aid = 0" if "x = None" for n
    using f that by (auto simp: exec_simps find_None openPayments_def count_rows_0)
  then show "steps (keeps paymentInv) (case x of None \<Rightarrow>
         bindE (newId (mailUuid (py_mail E))) (\<lambda>i. insertRow payments payments_update payment_clash
           (newPayment now i sid aid amount method ref))
       | Some p \<Rightarrow> throw (BadRequest (inProgressMessage (p_status p)))) u"
    by (auto simp: newId_run split: option.split intro!: inv.steps_throw inv.steps_bindE
        paymentInv_newId paymentInv_insertPayment)
qed (rule inv.steps_findFirst)

lemma paymentInv_close:
  assumes "find (\<lambda>q. p_id q = i) (payments s) = Some p" "openStatus (p_status p)"
    and "sameMoney f" "\<And>p. p_status (f p) \<noteq> PayCOMPLETED"
  shows "steps (keeps paymentInv) (updateOne payments payments_update (\<lambda>q. p_id q = i) f) s"
proof -
  have "q = p" if "paymentInv s" "q \<in> set (payments s)" "p_id q = i" for q
    using that find_Some_in [OF assms(1)]
    by (auto simp: paymentInv_def paymentKeys_def intro: distinct_key_eq)
  then show ?thesis
    using assms by (auto simp: steps_def keeps_def exec_simps openStatus_def intro!: paymentInv_update)
qed

text \<open>
  The initiation respects a preorder that its three kinds of writes respect: the reservation,
  the closing or progress of an open payment, and anything outside the ledger.
\<close>

lemma callProvider_respects:
  assumes T: "two_state R"
    and close: "\<And>f. sameMoney f \<Longrightarrow> (\<And>p. p_status (f p) \<noteq> PayCOMPLETED) \<Longrightarrow>
      steps R (updateOne payments payments_update (\<lambda>q. p_id q = p_id p) f) s"
  shows "steps R (callProvider E p ref amount) s"
proof -
  have attach: "steps R (attachProvider (p_id p) ref') s" for ref'
    unfolding attachProvider_def
    by (auto intro!: two_state.steps_bindE [OF T] two_state.steps_thenE [OF T]
        two_state.steps_asks [OF T] two_state.steps_require [OF T] close
        simp: exec_simps sameMoney_def split: if_splits)
  have fail: "steps R (failPayment (p_id p)) s"
    unfolding failPayment_def by (intro close) (auto simp: sameMoney_def)
  show ?thesis
    unfolding callProvider_def
  proof (rule two_state.steps_catchE [OF T])
    show "steps R (bindE (providerCall (py_initiate E ref amount)) (\<lambda>provider.
        thenE (attachProvider (p_id p) (fst provider))
          (ret \<lparr>in_paymentId = p_id p, in_reference = ref, in_redirectUrl = snd provider,
                in_amount = amount, in_status = PayPROCESSING\<rparr>))) s"
      by (rule two_state.steps_bindE [OF T steps_providerCall [OF two_state.reflR [OF T]]])
        (auto simp: exec_simps intro!: two_state.steps_thenE [OF T] two_state.steps_ret [OF T] attach
          split: option.splits)
    fix e u
    assume "bindE (providerCall (py_initiate E ref amount)) (\<lambda>provider.
        thenE (attachProvider (p_id p) (fst provider))
          (ret \<lparr>in_paymentId = p_id p, in_reference = ref, in_redirectUrl = snd provider,
                in_amount = amount, in_status = PayPROCESSING\<rparr>)) s = (Inl e, u)"
    then have "u = s"
      by (auto simp: providerCall_def attachProvider_def exec_simps split: option.splits if_splits)
    with fail show "steps R (thenE (bestEffort (failPayment (p_id p))) (throw e)) u"
      by (auto intro!: two_state.steps_thenE [OF T] two_state.steps_throw [OF T]
          two_state.steps_bestEffort [OF T])
  qed
qed

lemma initiate_respects:
  assumes T: "two_state R"
    and create: "\<And>am ref s. steps R (createPayment E now sid aid am method ref) s"
    and close: "\<And>p s f. find (\<lambda>q. p_id q = p_id p) (payments s) = Some p \<Longrightarrow>
      p_status p = PayPENDING \<Longrightarrow> sameMoney f \<Longrightarrow> (\<And>p. p_status (f p) \<noteq> PayCOMPLETED) \<Longrightarrow>
      steps R (updateOne payments payments_update (\<lambda>q. p_id q = p_id p) f) s"
    and seq: "\<And>uuid s. steps R (newId uuid) s"
  shows "steps R (initiatePayment E now conflict sid aid method) s"
proof -
  have reserve: "steps R (reservePayment E now conflict sid aid am method ref) t" for am ref t
    unfolding reservePayment_def runTransaction_def
    by (intro two_state.steps_catchE [OF T] two_state.steps_if [OF T] two_state.steps_transact [OF T]
        two_state.steps_throw [OF T] create)
  show ?thesis
    unfolding initiatePayment_def
    by (intro two_state.steps_bindE [OF T] two_state.steps_thenE [OF T] two_state.steps_findOr [OF T]
        two_state.steps_require [OF T] seq reserve)
      (auto dest!: reservePayment_ok intro!: callProvider_respects [OF T] close)
qed

lemma paymentInv_initiate: "steps (keeps paymentInv) (initiatePayment E now conflict sid aid method) s"
  by (rule initiate_respects [OF inv.two_state_axioms paymentInv_create _ paymentInv_newId])
    (auto intro!: paymentInv_close simp: openStatus_def)

section \<open>Settlement\<close>

lemma ledger_writes:
  "steps (frames ledger) (addTimeline now i st n by) s"
  "steps (frames ledger) (registerStudent sid school p y) s"
  "steps (frames ledger) (updateOne applications applications_update P f) s"
  "steps (frames ledger) (insertRow refunds refunds_update K r) s"
  "steps (frames ledger) (updateOne refunds refunds_update Q g) s"
  "steps (frames ledger) (findProgramAndYear x) s"
proof -
  show "steps (frames ledger) (registerStudent sid school p y) s"
    using registerStudent_ok [of sid school p y s] by (auto simp: steps_def frames_def ledger_def)
qed (auto simp: steps_def frames_def ledger_def addTimeline_def exec_simps split: option.split)

lemma ledger_settleApplication: "steps (frames ledger) (settleApplication now p aid ref) s"
  unfolding settleApplication_def requestRefund_def enrollPaid_def enrollPaidIn_def
  by (auto intro!: frm.steps_bindE frm.steps_thenE frm.steps_if frm.steps_ret frm.steps_findFirst
      frm.steps_findOr ledger_writes split: option.split)

lemma ledger_processRefund: "steps (frames ledger) (processRefund E now i ref) s"
  unfolding processRefund_def
  by (intro frm.steps_bestEffort frm.steps_bindE steps_providerCall frm.reflR ledger_writes)

definition claimable :: "payment_row \<Rightarrow> payment_row \<Rightarrow> bool" where
  "claimable payment p \<longleftrightarrow> p_id p = p_id payment \<and> p_status p \<noteq> PayCOMPLETED"

definition paid :: "time \<Rightarrow> payment_row \<Rightarrow> string option \<Rightarrow> transaction_row" where
  "paid now payment transactionId =
     \<lparr>x_paymentId = p_id payment, x_amount = p_amount payment, x_provider = p_method payment,
      x_providerTransactionId = transactionId, x_completedAt = now\<rparr>"

definition claimed_db :: "time \<Rightarrow> payment_row \<Rightarrow> pay_status \<Rightarrow> string \<Rightarrow> db \<Rightarrow> db" where
  "claimed_db now payment st ref s =
     s\<lparr>payments := update_rows (claimable payment) (claimPayment now st ref) (payments s)\<rparr>"

text \<open>The stages of a settlement: the claim, the application, the transaction row.\<close>

lemma settlePayment_run:
  "settlePayment now p st tx ref s =
     (if count_rows (claimable p) (payments s) = 0
      then bindE (findOr payments (\<lambda>q. p_id q = p_id p) (Failure ''P2025'')) (\<lambda>q. ret (q, None)) s
      else
        bindE (findOr payments (\<lambda>q. p_id q = p_id p) (Failure ''P2025'')) (\<lambda>updated.
        bindE (case (if st = PayCOMPLETED then p_applicationId p else None) of
                 None \<Rightarrow> ret None
               | Some aid \<Rightarrow> settleApplication now p aid ref) (\<lambda>refund.
        thenE (whenE (st = PayCOMPLETED)
                (thenE (insertRow transactions transactions_update
                          (\<lambda>x y. x_paymentId x = x_paymentId y) (paid now p tx)) (ret ())))
        (ret (updated, refund)))) (claimed_db now p st ref s))"
proof -
  have "update_rows (claimable p) (claimPayment now st ref) (payments s) = payments s"
    if "count_rows (claimable p) (payments s) = 0"
    using that by (intro update_rows_id) (simp add: count_rows_0)
  then show ?thesis
    unfolding settlePayment_def claimable_def [symmetric] paid_def [symmetric] claimed_db_def
    by (simp add: bindE_run [of "updateMany _ _ _ _"] updateMany_run)
qed

lemma settlePayment_ledger:
  assumes "settlePayment now p st tx ref s = (Inr v, t)"
  shows "(count_rows (claimable p) (payments s) = 0 \<and> t = s) \<or>
         (0 < count_rows (claimable p) (payments s) \<and>
          payments t = payments (claimed_db now p st ref s) \<and>
          transactions t = transactions s @ (if st = PayCOMPLETED then [paid now p tx] else []) \<and>
          (st = PayCOMPLETED \<longrightarrow> p_id p \<notin> x_paymentId ` set (transactions s)))"
proof (cases "count_rows (claimable p) (payments s) = 0")
  case True
  with assms show ?thesis
    by (auto simp: settlePayment_run exec_simps split: option.splits)
next
  case False
  define m where "m = (case (if st = PayCOMPLETED then p_applicationId p else None) of
      None \<Rightarrow> ret None | Some aid \<Rightarrow> settleApplication now p aid ref)"
  obtain r1 t1 where m: "m (claimed_db now p st ref s) = (r1, t1)"
    by (cases "m (claimed_db now p st ref s)")
  have "steps (frames ledger) m (claimed_db now p st ref s)"
    unfolding m_def by (auto intro!: frm.steps_ret ledger_settleApplication split: option.split)
  from steps_framesD [OF this m]
  have t1: "payments t1 = payments (claimed_db now p st ref s)" "transactions t1 = transactions s"
    by (simp_all add: ledger_def claimed_db_def)
  show ?thesis
  proof (cases r1)
    case (Inl e)
    with assms False m show ?thesis
      by (auto simp: settlePayment_run bindE_run findOr_run m_def [symmetric] split: option.splits)
  next
    case (Inr w)
    with assms False m t1 show ?thesis
      by (auto simp: settlePayment_run bindE_run findOr_run thenE_run whenE_run insertRow_run ret_run
          m_def [symmetric] paid_def split: option.splits if_splits)
  qed
qed

lemma claimable_unique:
  assumes "paymentKeys s" "q \<in> set (payments s)" "p_id q = p_id p"
    and "r \<in> set (payments s)" "claimable p r"
  shows "r = q"
  using assms by (auto simp: paymentKeys_def claimable_def intro: distinct_key_eq)

lemma paymentInv_complete:
  assumes "paymentInv s" "\<exists>q \<in> set (payments s). p_id q = p_id p \<and> p_amount q = p_amount p"
    and "payments t = payments (claimed_db now p PayCOMPLETED ref s)"
    and "transactions t = transactions s @ [paid now p tx]"
    and "p_id p \<notin> x_paymentId ` set (transactions s)"
    and "0 < count_rows (claimable p) (payments s)"
  shows "paymentInv t"
proof -
  let ?f = "claimPayment now PayCOMPLETED ref"
  obtain q where q: "q \<in> set (payments s)" "p_id q = p_id p" "p_amount q = p_amount p"
    using assms(2) by blast
  obtain r where r: "r \<in> set (payments s)" "claimable p r"
    using assms(6) by (auto simp: count_rows_pos)
  have keys: "paymentKeys s" and books: "booked s" using assms(1) by (simp_all add: paymentInv_def)
  have pt: "payments t = update_rows (claimable p) ?f (payments s)"
    using assms(3) by (simp add: claimed_db_def)
  have fields: "p_id (?f z) = p_id z" "p_amount (?f z) = p_amount z" "p_status (?f z) = PayCOMPLETED"
    "p_applicationId (?f z) = p_applicationId z" for z by (simp_all add: claimPayment_def)
  have rq: "r = q" using claimable_unique [OF keys q(1,2) r] .
  have new: "?f q \<in> set (payments t)"
    unfolding pt using q r rq by (intro in_update_rowsI [of q]) auto
  have "paymentKeys t"
    using keys assms(4,5) pt fields by (simp add: paymentKeys_def paid_def)
  moreover have "openPayments t a \<le> 1" for a
  proof -
    have "openPayments t a \<le> openPayments s a"
      unfolding openPayments_def pt
      by (intro count_rows_update_le) (simp add: fields openStatus_def)
    then show ?thesis using assms(1) by (auto simp: paymentInv_def intro: le_trans)
  qed
  moreover have "booked t"
    unfolding booked_def
  proof (intro conjI ballI impI)
    fix x
    assume "x \<in> set (transactions t)"
    then consider "x \<in> set (transactions s)" | "x = paid now p tx" using assms(4) by auto
    then show "\<exists>z \<in> set (payments t). p_id z = x_paymentId x \<and> p_status z = PayCOMPLETED \<and>
        p_amount z = x_amount x"
    proof cases
      case 1
      with books obtain z where z: "z \<in> set (payments s)" "p_id z = x_paymentId x"
        "p_status z = PayCOMPLETED" "p_amount z = x_amount x" unfolding booked_def by blast
      then have "z \<in> set (payments t)"
        unfolding pt by (intro in_update_rowsI [of z]) (auto simp: claimable_def)
      with z show ?thesis by blast
    next
      case 2
      with new q fields show ?thesis by (intro bexI [of _ "?f q"]) (simp_all add: paid_def)
    qed
  next
    fix z
    assume z: "z \<in> set (payments t)" "p_status z = PayCOMPLETED"
    from z(1) [unfolded pt] obtain z0 where z0: "z0 \<in> set (payments s)"
      "z = (if claimable p z0 then ?f z0 else z0)" by (rule in_update_rowsE)
    show "\<exists>x \<in> set (transactions t). x_paymentId x = p_id z"
    proof (cases "claimable p z0")
      case True
      with z0 fields have "p_id z = p_id p" by (simp add: claimable_def)
      then show ?thesis using assms(4) by (auto simp: paid_def)
    next
      case False
      with z0 z(2) books show ?thesis unfolding booked_def using assms(4) by auto
    qed
  qed
  ultimately show ?thesis by (simp add: paymentInv_def)
qed

text \<open>A settlement keeps the books, provided the row it read still has its amount.\<close>

lemma paymentInv_settle:
  assumes "st = PayCOMPLETED \<or> st = PayFAILED"
    and "\<exists>q \<in> set (payments s). p_id q = p_id p \<and> p_amount q = p_amount p"
  shows "steps (keeps paymentInv) (transact (settlePayment now p st tx ref)) s"
proof (rule stepsI)
  fix r t
  assume run: "transact (settlePayment now p st tx ref) s = (r, t)"
  show "keeps paymentInv s t"
    unfolding keeps_def
  proof
    assume inv: "paymentInv s"
    show "paymentInv t"
    proof (cases "t = s")
      case False
      then obtain v where ok: "settlePayment now p st tx ref s = (Inr v, t)"
        using run by (auto simp: transact_run split: prod.splits sum.splits)
      with settlePayment_ledger [OF ok] False
      have led: "payments t = payments (claimed_db now p st ref s)"
        "transactions t = transactions s @ (if st = PayCOMPLETED then [paid now p tx] else [])"
        "st = PayCOMPLETED \<longrightarrow> p_id p \<notin> x_paymentId ` set (transactions s)"
        "0 < count_rows (claimable p) (payments s)"
        by auto
      show ?thesis
      proof (cases "st = PayCOMPLETED")
        case False
        then have f: "st = PayFAILED" using assms(1) by simp
        have "paymentInv (claimed_db now p st ref s)"
          unfolding claimed_db_def using f
          by (intro paymentInv_update [OF inv]) (auto simp: claimable_def claimPayment_def openStatus_def)
        moreover have "ledger t = ledger (claimed_db now p st ref s)"
          using led False by (simp add: ledger_def claimed_db_def)
        ultimately show ?thesis using paymentInv_ledger by metis
      next
        case True
        show ?thesis by (rule paymentInv_complete [OF inv assms(2)]) (use led True in simp_all)
      qed
    qed (use inv in simp)
  qed
qed

section \<open>Settlement and the applications\<close>

text \<open>
  A settlement changes an application only from ACCEPTED to ENROLLED, so it respects the
  workflow and the capacity.
\<close>

lemma book_writes:
  "steps (frames book) (updateMany payments payments_update P f) s"
  "steps (frames book) (updateOne payments payments_update P f) s"
  "steps (frames book) (insertRow payments payments_update K p) s"
  "steps (frames book) (insertRow transactions transactions_update L x) s"
  "steps (frames book) (insertRow refunds refunds_update M r) s"
  "steps (frames book) (updateOne refunds refunds_update Q g) s"
  "steps (frames book) (newId uuid) s"
  "steps (frames book) (findProgramAndYear y) s"
  by (auto simp: steps_def frames_def book_def exec_simps split: option.split)

lemma enrolled_reachable: "seated st \<Longrightarrow> status_reaches st ENROLLED"
  by (auto simp: seated_def validTransition_def intro!: validTransition_reaches)

lemma seatSafe_enroll:
  assumes "find (\<lambda>a. a_id a = a_id application) (applications s) = Some application"
    and "seated (a_status application)"
  shows "steps seatSafe (updateOne applications applications_update (\<lambda>a. a_id a = a_id application)
           (\<lambda>a. a\<lparr>a_status := ENROLLED\<rparr>)) s"
proof -
  let ?f = "\<lambda>a :: application_row. a\<lparr>a_status := ENROLLED\<rparr>"
  let ?t = "s\<lparr>applications := update_rows (\<lambda>a. a_id a = a_id application) ?f (applications s)\<rparr>"
  have f: "keepsKeys ?f" by (simp add: keepsKeys_def)
  have "seats ?t j \<le> seats s j" if "applicationKeys s" for j
    using seats_update [OF that assms(1) f, of j] assms(2) by (simp add: seated_def split: if_splits)
  with assms(1) show ?thesis
    by (simp add: steps_def exec_simps seatSafe_def update_keeps_keys [OF f])
qed

text \<open>One argument for both preorders.\<close>

lemma settle_respects:
  assumes "two_state R" "\<And>(m :: (db, unit) exec) s. steps (frames book) m s \<Longrightarrow> steps R m s"
    and "\<And>s a. find (\<lambda>x. a_id x = a_id a) (applications s) = Some a \<Longrightarrow> seated (a_status a) \<Longrightarrow>
           steps R (updateOne applications applications_update (\<lambda>x. a_id x = a_id a)
             (\<lambda>x. x\<lparr>a_status := ENROLLED\<rparr>)) s"
  shows "steps R (settlePayment now p st tx ref) s"
proof -
  note T = assms(1)
  have frame: "steps R m t" if "steps (frames book) m t" for m :: "(db, 'a) exec" and t
    using assms(2) [of "\<lambda>s. (Inr (), snd (m s))" t] that by (simp add: steps_def)
  have enroll: "steps R (enrollPaid now a) t"
    if "find (\<lambda>x. a_id x = i) (applications t) = Some a" "seated (a_status a)" for a i t
  proof -
    have i: "i = a_id a" using find_Some_in [OF that(1)] by simp
    have "steps R (enrollPaidIn now a offer program year) t" for offer program year
      unfolding enrollPaidIn_def
      using that assms(3) [of a t] unfolding i
      by (auto intro!: two_state.steps_thenE [OF T] assms(2) [OF frame_register]
          assms(2) [OF frame_addTimeline])
    moreover have "steps R (addTimeline now (a_id a) (a_status a) n None) t" for n
      by (rule assms(2) [OF frame_addTimeline])
    ultimately show ?thesis
      by (auto simp: steps_def enrollPaid_def bindE_run findOr_run findProgramAndYear_run
          two_state.reflR [OF T] split: option.split prod.split)
  qed
  have refund: "steps R (requestRefund now p a ref) t" for a t
    unfolding requestRefund_def
    by (intro frame frm.steps_thenE frm.steps_ret book_writes frame_addTimeline)
  have late: "steps R (thenE (addTimeline now aid ENROLLED n None) (ret v)) t"
    for aid n t and v :: "(id \<times> string) option"
    by (intro frame frm.steps_thenE frm.steps_ret frame_addTimeline)
  have app: "steps R (settleApplication now p aid ref) t" for aid t
    unfolding settleApplication_def
    by (intro two_state.steps_bindE [OF T] two_state.steps_findFirst [OF T] two_state.steps_if [OF T])
      (auto simp: exec_simps split: option.splits
        intro!: late refund two_state.steps_ret [OF T] two_state.steps_thenE [OF T] enroll)
  show ?thesis
    unfolding settlePayment_def
    by (intro two_state.steps_bindE [OF T] two_state.steps_if [OF T] two_state.steps_thenE [OF T]
        two_state.steps_findOr [OF T] two_state.steps_ret [OF T] two_state.steps_whenE [OF T])
      (auto intro!: frame book_writes two_state.steps_ret [OF T] app split: option.split)
qed

section \<open>Handlers and the applications\<close>

lemma book_initiate: "steps (frames book) (initiatePayment E now conflict sid aid method) s"
proof -
  have create: "steps (frames book) (createPayment E now sid aid am method ref) t" for am ref t
    unfolding createPayment_def expireOverdue_def
    by (auto intro!: frm.steps_thenE frm.steps_bindE book_writes frm.steps_findFirst frm.steps_throw
        split: option.split)
  have attach: "steps (frames book) (attachProvider i ref) t" for i ref t
    unfolding attachProvider_def
    by (intro frm.steps_bindE frm.steps_asks frm.steps_thenE frm.steps_require book_writes)
  show ?thesis
    unfolding initiatePayment_def reservePayment_def runTransaction_def callProvider_def failPayment_def
    by (intro frm.steps_bindE frm.steps_thenE frm.steps_findOr frm.steps_require book_writes
        frm.steps_catchE frm.steps_if frm.steps_transact frm.steps_throw create frm.steps_bestEffort
        attach frm.steps_ret steps_providerCall frm.reflR)
qed

lemma book_processRefund: "steps (frames book) (processRefund E now i ref) s"
  unfolding processRefund_def
  by (intro frm.steps_bestEffort frm.steps_bindE steps_providerCall frm.reflR book_writes)

lemma receiveWebhook_state: "receiveWebhook E now ref amt s = (r, t) \<Longrightarrow> t = s"
  by (auto simp: receiveWebhook_def exec_simps split: option.splits if_splits)

lemma receiveWebhook_ok:
  assumes "receiveWebhook E now ref amt s = (Inr (p, Some (st, tx)), t)"
  shows "p \<in> set (payments s) \<and> p_providerRef p = Some ref \<and> p_status p \<noteq> PayCOMPLETED \<and>
         (st = PayCOMPLETED \<or> st = PayFAILED) \<and> (\<forall>a. amt = Some a \<longrightarrow> a = p_amount p)"
  using assms
  by (auto simp: receiveWebhook_def exec_simps dest!: find_Some_in
      split: option.splits if_splits confirm_status.splits)

section \<open>Properties\<close>

text \<open>
  A student pays the price of the offer: an initiation that succeeds leaves one payment in
  progress for the student's own accepted application, of exactly the tuition fees of its offer,
  which are positive, with a commission of five per cent and the provider's reference, whatever
  the request contained.
\<close>

theorem initiated_amount:
  assumes "initiatePayment E now conflict sid aid method s = (Inr r, t)"
  shows "\<exists>a x p. find (\<lambda>a. a_id a = aid) (applications s) = Some a \<and> a_studentId a = sid \<and>
           a_status a = ACCEPTED \<and> find (\<lambda>x. o_id x = a_offerId a) (offers s) = Some x \<and>
           find (\<lambda>p. p_id p = in_paymentId r) (payments t) = Some p \<and>
           p_applicationId p = Some aid \<and> p_studentId p = sid \<and> p_status p = PayPROCESSING \<and>
           p_amount p = o_tuitionFees x \<and> in_amount r = o_tuitionFees x \<and> 0 < o_tuitionFees x \<and>
           p_commission p = o_tuitionFees x / 20 \<and> p_providerRef p \<noteq> None"
proof -
  obtain a x where a: "find (\<lambda>a. a_id a = aid) (applications s) = Some a" "a_studentId a = sid"
      "a_status a = ACCEPTED" "find (\<lambda>x. o_id x = a_offerId a) (offers s) = Some x"
      "0 < o_tuitionFees x"
    and rest: "(case reservePayment E now conflict sid aid (o_tuitionFees x) method
        (payment_reference now (mailUuid (py_mail E) (seqNo s))) (s\<lparr>seqNo := Suc (seqNo s)\<rparr>) of
        (Inl e, s') \<Rightarrow> (Inl e, s')
      | (Inr p, s') \<Rightarrow> callProvider E p (payment_reference now (mailUuid (py_mail E) (seqNo s)))
          (o_tuitionFees x) s') = (Inr r, t)"
    using assms
    by (auto simp: initiatePayment_def bindE_run thenE_run findOr_run require_run newId_run
        split: option.splits if_splits)
  then obtain p s2 where res: "reservePayment E now conflict sid aid (o_tuitionFees x) method
        (payment_reference now (mailUuid (py_mail E) (seqNo s))) (s\<lparr>seqNo := Suc (seqNo s)\<rparr>) = (Inr p, s2)"
    and call: "callProvider E p (payment_reference now (mailUuid (py_mail E) (seqNo s)))
          (o_tuitionFees x) s2 = (Inr r, t)"
    by (auto split: prod.splits sum.splits)
  obtain i where p: "find (\<lambda>q. p_id q = p_id p) (payments s2) = Some p"
    "p = newPayment now i sid aid (o_tuitionFees x) method
       (payment_reference now (mailUuid (py_mail E) (seqNo s)))"
    using reservePayment_ok [OF res] by blast
  obtain ref where r: "in_paymentId r = p_id p" "in_amount r = o_tuitionFees x"
    and t: "payments t = update_rows (\<lambda>q. p_id q = p_id p)
      (\<lambda>q. q\<lparr>p_providerRef := Some ref, p_status := PayPROCESSING\<rparr>) (payments s2)"
    using call p(1)
    by (auto simp: callProvider_def attachProvider_def exec_simps
        split: option.splits if_splits prod.splits sum.splits)
  have "find (\<lambda>q. p_id q = p_id p) (payments t) =
      Some (p\<lparr>p_providerRef := Some ref, p_status := PayPROCESSING\<rparr>)"
    unfolding t by (subst find_update_rows) (simp_all add: p(1))
  with a r p(2) show ?thesis by (intro exI [of _ a] exI [of _ x] exI) auto
qed

text \<open>
  Replaying a webhook changes nothing: once a payment is COMPLETED, another notification
  for it, with any amount and any answer of the provider, returns the payment as it is and
  writes nothing.
\<close>

lemma webhook_idempotent:
  assumes "find (\<lambda>p. p_providerRef p = Some ref) (payments s) = Some p" "p_status p = PayCOMPLETED"
  shows "reconcilePayment E now ref amt s = (Inr p, s)"
  using assms by (simp add: reconcilePayment_def receiveWebhook_def exec_simps)

text \<open>
  Money for a cancelled application goes back: when the provider confirms a payment whose
  application no longer holds a seat, no other payment of the application being completed, the
  settlement records a pending refund of the full amount and reports it for the provider, and
  registers nobody: applications, enrolments and course registrations are unchanged.
\<close>

theorem cancelled_is_refunded:
  assumes "transact (settlePayment now p PayCOMPLETED tx ref) s = (Inr (q, refund), t)"
    and "0 < count_rows (claimable p) (payments s)" "p_applicationId p = Some aid"
    and "find (\<lambda>a. a_id a = aid) (applications s) = Some a" "\<not> seated (a_status a)"
    and "\<forall>z \<in> set (payments s). p_applicationId z = Some aid \<and> p_status z = PayCOMPLETED \<longrightarrow> p_id z = p_id p"
  shows "refund = Some (p_id p, ref) \<and> applications t = applications s \<and>
         enrollments t = enrollments s \<and> courseEnrollments t = courseEnrollments s \<and>
         (\<exists>r \<in> set (refunds t). r_paymentId r = p_id p \<and> r_amount r = p_amount p \<and>
            r_status r = RefundPENDING)"
proof -
  let ?c = "claimed_db now p PayCOMPLETED ref s"
  have none: "find (\<lambda>q. p_applicationId q = Some aid \<and> p_status q = PayCOMPLETED \<and> p_id q \<noteq> p_id p)
      (payments ?c) = None"
    unfolding find_None claimed_db_def
    using assms(6) by (auto simp: set_update_rows claimPayment_def claimable_def split: if_splits)
  have c: "applications ?c = applications s" "enrollments ?c = enrollments s"
    "courseEnrollments ?c = courseEnrollments s" "refunds ?c = refunds s"
    by (simp_all add: claimed_db_def)
  have "settlePayment now p PayCOMPLETED tx ref s = (Inr (q, refund), t)"
    using assms(1) by (auto simp: transact_run split: prod.splits sum.splits)
  then show ?thesis
    using assms(2-5) none c
    by (auto simp: settlePayment_run settleApplication_def requestRefund_def addTimeline_def exec_simps
        split: option.splits if_splits)
qed

text \<open>
  A paid seat is an enrolment: when the provider confirms the first completed payment of an
  application that holds a seat and the offer's programme and academic year are known, the
  application is ENROLLED afterwards and the student is an ACTIVE student of the programme.
\<close>

theorem payment_enrolls:
  assumes "transact (settlePayment now p PayCOMPLETED tx ref) s = (Inr (q, refund), t)"
    and "0 < count_rows (claimable p) (payments s)" "p_applicationId p = Some aid"
    and "find (\<lambda>a. a_id a = aid) (applications s) = Some a" "seated (a_status a)"
    and "\<forall>z \<in> set (payments s). p_applicationId z = Some aid \<and> p_status z = PayCOMPLETED \<longrightarrow> p_id z = p_id p"
    and "find (\<lambda>x. o_id x = a_offerId a) (offers s) = Some x" "programAndYear s x = Some (pr, y)"
  shows "statusOf t aid = Some ENROLLED \<and> enrolledIn t (a_studentId a) (o_schoolId x) pr y \<and>
         refund = None"
proof -
  let ?c = "claimed_db now p PayCOMPLETED ref s"
  let ?f = "\<lambda>a :: application_row. a\<lparr>a_status := ENROLLED\<rparr>"
  let ?u = "?c\<lparr>applications := update_rows (\<lambda>b. a_id b = a_id a) ?f (applications s)\<rparr>"
  have id: "a_id a = aid" using find_Some_in [OF assms(4)] by simp
  have none: "find (\<lambda>q. p_applicationId q = Some aid \<and> p_status q = PayCOMPLETED \<and> p_id q \<noteq> p_id p)
      (payments ?c) = None"
    unfolding find_None claimed_db_def
    using assms(6) by (auto simp: set_update_rows claimPayment_def claimable_def split: if_splits)
  have c: "applications ?c = applications s" "offers ?c = offers s" by (simp_all add: claimed_db_def)
  have py: "programAndYear ?c x = Some (pr, y)"
    using assms(8) programAndYear_same [of ?c s x] by (simp add: claimed_db_def)
  obtain es where es: "registerStudent (a_studentId a) (o_schoolId x) pr y ?u =
      (Inr (), ?u\<lparr>enrollments := es,
        courseEnrollments := synced ?u (a_studentId a) (o_schoolId x) (pr_id pr) 1\<rparr>)"
    "enrolledIn (?u\<lparr>enrollments := es\<rparr>) (a_studentId a) (o_schoolId x) pr y"
    using registerStudent_ok by blast
  have "settlePayment now p PayCOMPLETED tx ref s = (Inr (q, refund), t)"
    using assms(1) by (auto simp: transact_run split: prod.splits sum.splits)
  then have t: "applications t = applications ?u" "enrollments t = es" "refund = None"
    using assms(2-5,7) none c py es(1) id
    by (auto simp: settlePayment_run settleApplication_def enrollPaid_def enrollPaidIn_def
        addTimeline_def bindE_run thenE_run findOr_run findFirst_run ret_run whenE_run insertRow_run
        updateOne_run addRow_run findProgramAndYear_run split: option.splits if_splits)
  have "statusOf ?u aid = Some ENROLLED"
    using statusOf_update [of ?f "a_id a" ?c aid] id assms(4) c by (simp add: keepsKeys_def)
  with t es(2) show ?thesis by (simp add: statusOf_def enrolledIn_def)
qed

text \<open>
  A webhook is only acted upon when it is signed: \<open>handleWebhook\<close> goes past its first line
  exactly when a secret is configured and the signature decodes to the HMAC of the received
  bytes under that secret; otherwise it is refused and nothing is written. The hexadecimal
  digest that an honest sender transmits is accepted.
\<close>

theorem webhook_signed:
  "handleWebhook E now dto raw sig s =
     (if truthy (py_secret E) \<and> truthy sig
      then if fromHex (the sig) = py_hmac E (the (py_secret E))
                (case raw of None \<Rightarrow> py_stringify E dto | Some b \<Rightarrow> b)
           then reconcilePayment E now (wh_providerReference dto) (wh_amount dto) s
           else (Inl (Forbidden ''Signature webhook invalide''), s)
      else (Inl (Forbidden ''Signature webhook manquante''), s)) \<and>
   fromHex (toHex (py_hmac E k body)) = py_hmac E k body"
  by (auto simp: handleWebhook_def assertValidWebhookSignature_def Let_def thenE_run exec_simps)

section \<open>Examples\<close>

definition sample_pay :: pay_env where
  "sample_pay =
     \<lparr>py_mail = sample_mail, py_initiate = (\<lambda>_ _. Some (''MOCK-1'', None)),
      py_confirm = (\<lambda>_ _. Some \<lparr>cf_status = ConfirmCOMPLETED, cf_transactionId = Some ''TX-1''\<rparr>),
      py_refund = (\<lambda>_. Some True), py_secret = Some ''k'', py_hmac = (\<lambda>k b. k @ b),
      py_stringify = (\<lambda>_. ''{}''), py_stripe = None, py_stripeSecret = None\<rparr>"

definition sample_payment :: "pay_status \<Rightarrow> payment_row" where
  "sample_payment st =
     (newPayment 0 ''pay1'' ''st1'' ''a1'' 1000 ''CARD'' ''PAY-1'')
       \<lparr>p_providerRef := Some ''MOCK-1'', p_status := st\<rparr>"

definition sample_paid_db :: "app_status \<Rightarrow> pay_status \<Rightarrow> db" where
  "sample_paid_db ast pst =
     (sample_school_db (sample_queue ast))\<lparr>payments := [sample_payment pst]\<rparr>"

lemma sample_paid_tables [simp]:
  "payments (sample_paid_db ast pst) = [sample_payment pst]"
  "applications (sample_paid_db ast pst) = sample_queue ast"
  "offers (sample_paid_db ast pst) = [sample_offer ''o1'' 1]"
  "transactions (sample_paid_db ast pst) = []" "refunds (sample_paid_db ast pst) = []"
  by (simp_all add: sample_paid_db_def) (simp_all add: sample_school_db_def empty_db_def)

lemma sample_payment_simps [simp]:
  "p_id (sample_payment st) = ''pay1''" "p_status (sample_payment st) = st"
  "p_applicationId (sample_payment st) = Some ''a1''"
  "p_providerRef (sample_payment st) = Some ''MOCK-1''" "p_amount (sample_payment st) = 1000"
  by (simp_all add: sample_payment_def)

theorem initiated_amount_witness:
  "\<exists>r t. initiatePayment sample_pay 100 False ''st1'' ''a1'' ''CARD''
       (sample_school_db (sample_queue ACCEPTED)) = (Inr r, t) \<and> in_amount r = 1000 \<and>
     (\<exists>p. find (\<lambda>p. p_id p = in_paymentId r) (payments t) = Some p \<and> p_amount p = 1000 \<and>
        p_status p = PayPROCESSING)"
proof -
  have p0: "payments (sample_school_db apps) = []" "seqNo (sample_school_db apps) = 0" for apps
    by (simp_all add: sample_school_db_def empty_db_def)
  have "\<exists>r t. initiatePayment sample_pay 100 False ''st1'' ''a1'' ''CARD''
       (sample_school_db (sample_queue ACCEPTED)) = (Inr r, t)"
    by (simp add: initiatePayment_def reservePayment_def runTransaction_def createPayment_def
        expireOverdue_def callProvider_def attachProvider_def exec_simps sample_defs sample_pay_def
        newPayment_def p0)
  then obtain r t where run: "initiatePayment sample_pay 100 False ''st1'' ''a1'' ''CARD''
       (sample_school_db (sample_queue ACCEPTED)) = (Inr r, t)" by blast
  from initiated_amount [OF run] run show ?thesis
    by (intro exI [of _ r] exI [of _ t]) (auto simp: sample_defs)
qed

lemma webhook_idempotent_witness:
  "reconcilePayment sample_pay 7 ''MOCK-1'' (Some 5) (sample_paid_db ENROLLED PayCOMPLETED) =
     (Inr (sample_payment PayCOMPLETED), sample_paid_db ENROLLED PayCOMPLETED)"
  by (rule webhook_idempotent) simp_all

lemma sample_claimable: "0 < count_rows (claimable (sample_payment PayPROCESSING)) (payments (sample_paid_db ast PayPROCESSING))"
  by (simp add: claimable_def)

theorem cancelled_is_refunded_witness:
  "\<exists>q refund t. transact (settlePayment 7 (sample_payment PayPROCESSING) PayCOMPLETED None ''MOCK-1'')
       (sample_paid_db CANCELLED PayPROCESSING) = (Inr (q, refund), t) \<and>
     refund = Some (''pay1'', ''MOCK-1'') \<and> applications t = sample_queue CANCELLED"
proof -
  have "\<exists>q refund t. transact (settlePayment 7 (sample_payment PayPROCESSING) PayCOMPLETED None ''MOCK-1'')
       (sample_paid_db CANCELLED PayPROCESSING) = (Inr (q, refund), t)"
    by (simp add: settlePayment_run settleApplication_def requestRefund_def addTimeline_def
        exec_simps claimed_db_def claimPayment_def claimable_def sample_defs seated_def)
  then obtain q refund t where run: "transact (settlePayment 7 (sample_payment PayPROCESSING) PayCOMPLETED None ''MOCK-1'')
       (sample_paid_db CANCELLED PayPROCESSING) = (Inr (q, refund), t)" by blast
  have "refund = Some (p_id (sample_payment PayPROCESSING), ''MOCK-1'') \<and>
      applications t = applications (sample_paid_db CANCELLED PayPROCESSING)"
    using cancelled_is_refunded [OF run sample_claimable, of "''a1''" "sample_application ''a1'' ''st1'' CANCELLED 10"]
    by (simp add: sample_defs seated_def)
  with run show ?thesis by auto
qed

lemma enrollPaid_ok:
  assumes "find (\<lambda>x. o_id x = a_offerId a) (offers s) = Some x"
    and "find (\<lambda>b. a_id b = a_id a) (applications s) = Some b"
  shows "\<exists>t. enrollPaid now a s = (Inr (), t) \<and> ledger t = ledger s"
proof -
  obtain r t where run: "enrollPaid now a s = (r, t)" by (cases "enrollPaid now a s")
  have "r = Inr ()"
  proof (cases "programAndYear s x")
    case None
    with run assms show ?thesis
      by (simp add: enrollPaid_def bindE_run findOr_run findProgramAndYear_run addTimeline_def addRow_run)
  next
    case (Some py)
    obtain p y where py: "py = (p, y)" by (cases py)
    let ?u = "s\<lparr>applications := update_rows (\<lambda>b. a_id b = a_id a) (\<lambda>a. a\<lparr>a_status := ENROLLED\<rparr>) (applications s)\<rparr>"
    obtain u where "registerStudent (a_studentId a) (o_schoolId x) p y ?u = (Inr (), u)"
      using registerStudent_ok by blast
    with run assms Some py show ?thesis
      by (simp add: enrollPaid_def enrollPaidIn_def bindE_run thenE_run updateOne_run findOr_run
          findProgramAndYear_run addTimeline_def addRow_run)
  qed
  moreover have "steps (frames ledger) (enrollPaid now a) s"
    unfolding enrollPaid_def enrollPaidIn_def
    by (auto intro!: frm.steps_bindE frm.steps_thenE frm.steps_findOr ledger_writes split: option.split)
  from steps_framesD [OF this run] have "ledger t = ledger s" .
  ultimately show ?thesis using run by simp
qed

theorem payment_enrolls_witness:
  "\<exists>q refund t. transact (settlePayment 7 (sample_payment PayPROCESSING) PayCOMPLETED None ''MOCK-1'')
       (sample_paid_db ACCEPTED PayPROCESSING) = (Inr (q, refund), t) \<and>
     statusOf t ''a1'' = Some ENROLLED \<and> enrolledIn t ''st1'' ''sc1'' sample_program sample_year"
proof -
  let ?s = "sample_paid_db ACCEPTED PayPROCESSING"
  let ?a = "sample_application ''a1'' ''st1'' ACCEPTED 10"
  have py: "programAndYear (sample_paid_db ast pst) (sample_offer ''o1'' 1) = Some (sample_program, sample_year)" for ast pst
    using programAndYear_same [of "sample_paid_db ast pst" "sample_school_db (sample_queue ast)" "sample_offer ''o1'' 1"]
    by (simp add: sample_paid_db_def sample_programAndYear)
  have py': "programAndYear (claimed_db 7 (sample_payment PayPROCESSING) PayCOMPLETED ''MOCK-1'' ?s)
      (sample_offer ''o1'' 1) = Some (sample_program, sample_year)"
    using programAndYear_same [of "claimed_db 7 (sample_payment PayPROCESSING) PayCOMPLETED ''MOCK-1'' ?s" ?s "sample_offer ''o1'' 1"] py
    by (simp add: claimed_db_def)
  have c: "applications (claimed_db n p st ref s) = applications s" "offers (claimed_db n p st ref s) = offers s"
    "transactions (claimed_db n p st ref s) = transactions s" for n p st ref s
    by (simp_all add: claimed_db_def)
  have other: "find (\<lambda>p. p_applicationId p = Some ''a1'' \<and> p_status p = PayCOMPLETED \<and> p_id p \<noteq> ''pay1'')
      (payments (claimed_db 7 (sample_payment PayPROCESSING) PayCOMPLETED ''MOCK-1'' ?s)) = None"
    "find (\<lambda>p. p_id p = ''pay1'')
      (payments (claimed_db 7 (sample_payment PayPROCESSING) PayCOMPLETED ''MOCK-1'' ?s)) =
      Some (claimPayment 7 PayCOMPLETED ''MOCK-1'' (sample_payment PayPROCESSING))"
    by (simp_all add: claimed_db_def claimable_def claimPayment_def)
  obtain t where enr: "enrollPaid 7 ?a (claimed_db 7 (sample_payment PayPROCESSING) PayCOMPLETED ''MOCK-1'' ?s) = (Inr (), t)"
    and l: "ledger t = ledger (claimed_db 7 (sample_payment PayPROCESSING) PayCOMPLETED ''MOCK-1'' ?s)"
    using enrollPaid_ok [of ?a "claimed_db 7 (sample_payment PayPROCESSING) PayCOMPLETED ''MOCK-1'' ?s"
        "sample_offer ''o1'' 1" ?a 7]
    by (auto simp: c sample_defs)
  have t: "transactions t = []" using l by (simp add: ledger_def c)
  have "\<exists>q refund t. transact (settlePayment 7 (sample_payment PayPROCESSING) PayCOMPLETED None ''MOCK-1'') ?s =
      (Inr (q, refund), t)"
    using sample_claimable [of ACCEPTED] enr t other
    by (simp add: settlePayment_run settleApplication_def bindE_run thenE_run findOr_run findFirst_run
        ret_run whenE_run insertRow_run transact_run c sample_queue_def sample_application_def seated_def)
  then obtain q refund t where run: "transact (settlePayment 7 (sample_payment PayPROCESSING) PayCOMPLETED None ''MOCK-1'') ?s =
      (Inr (q, refund), t)" by blast
  have "statusOf t ''a1'' = Some ENROLLED \<and>
      enrolledIn t (a_studentId ?a) (o_schoolId (sample_offer ''o1'' 1)) sample_program sample_year"
    using payment_enrolls [OF run sample_claimable, of "''a1''" ?a "sample_offer ''o1'' 1" sample_program sample_year] py
    by (simp add: sample_defs seated_def)
  with run show ?thesis by (auto simp: sample_defs)
qed

end
