(* ===== verification/Platform.thy ===== *)
theory Platform
  imports Payments
begin

text \<open>
  The application and payment services running together. Requests of students and schools,
  payment initiations and refunds are served one at a time; the notifications of the payment
  provider are not: \<open>reconcilePayment\<close> reads the payment and asks the provider first, and
  settles in a transaction later, so any number of deliveries for the same payment can be
  between the two when another request runs. The step relation \<open>platform_step\<close> has those two
  phases as separate steps, and the invariants of the two services are proved for every
  reachable state.
\<close>

section \<open>The step relation\<close>

text \<open>A delivery past its checks: the row it read and what the provider answered.\<close>

datatype delivery = Delivery payment_row pay_status "string option" string

type_synonym platform = "delivery list \<times> db"

inductive platform_step :: "app_env \<Rightarrow> pay_env \<Rightarrow> platform \<Rightarrow> platform \<Rightarrow> bool"
  for A :: app_env and P :: pay_env where
  request: "platform_step A P (ds, s) (ds, snd (serve A now req s))"
| initiate: "platform_step A P (ds, s) (ds, snd (initiatePayment P now conflict sid aid payMethod s))"
| receive: "receiveWebhook P now ref amt s = (Inr (p, Some (st, tx)), t) \<Longrightarrow>
    platform_step A P (ds, s) (Delivery p st tx ref # ds, t)"
| settle: "platform_step A P (ds1 @ Delivery p st tx ref # ds2, s)
    (ds1 @ ds2, snd (transact (settlePayment now p st tx ref) s))"
| refund: "platform_step A P (ds, s) (ds, snd (processRefund P now i ref s))"

inductive_cases platform_stepE: "platform_step A P c c'"

text \<open>The steps of the payment service alone: every step that is not a request.\<close>

inductive payment_step :: "app_env \<Rightarrow> pay_env \<Rightarrow> platform \<Rightarrow> platform \<Rightarrow> bool"
  for A :: app_env and P :: pay_env where
  initiate: "payment_step A P (ds, s) (ds, snd (initiatePayment P now conflict sid aid payMethod s))"
| receive: "receiveWebhook P now ref amt s = (Inr (p, Some (st, tx)), t) \<Longrightarrow>
    payment_step A P (ds, s) (Delivery p st tx ref # ds, t)"
| settle: "payment_step A P (ds1 @ Delivery p st tx ref # ds2, s)
    (ds1 @ ds2, snd (transact (settlePayment now p st tx ref) s))"
| refund: "payment_step A P (ds, s) (ds, snd (processRefund P now i ref s))"

lemma platform_step_iff:
  "platform_step A P c c' \<longleftrightarrow>
     (\<exists>now req. c' = (fst c, snd (serve A now req (snd c)))) \<or> payment_step A P c c'"
proof
  assume "platform_step A P c c'"
  then show "(\<exists>now req. c' = (fst c, snd (serve A now req (snd c)))) \<or> payment_step A P c c'"
    by (cases rule: platform_step.cases) (auto intro: payment_step.intros)
next
  assume "(\<exists>now req. c' = (fst c, snd (serve A now req (snd c)))) \<or> payment_step A P c c'"
  then show "platform_step A P c c'"
  proof
    assume "\<exists>now req. c' = (fst c, snd (serve A now req (snd c)))"
    then show ?thesis by (cases c) (auto intro: platform_step.request)
  next
    assume "payment_step A P c c'"
    then show ?thesis by (cases rule: payment_step.cases) (auto intro: platform_step.intros)
  qed
qed

inductive platform_run :: "app_env \<Rightarrow> pay_env \<Rightarrow> platform \<Rightarrow> platform \<Rightarrow> bool"
  for A :: app_env and P :: pay_env where
  start: "platform_run A P c c"
| step: "platform_run A P c c' \<Longrightarrow> platform_step A P c' c'' \<Longrightarrow> platform_run A P c c''"

section \<open>The application service does not touch the money\<close>

text \<open>Payments, the transactions of the ledger and refunds.\<close>

definition money :: "db \<Rightarrow> payment_row list \<times> transaction_row list \<times> refund_row list" where
  "money s = (payments s, transactions s, refunds s)"

lemma money_writes:
  "steps (frames money) (addTimeline now i st n by) s"
  "steps (frames money) (registerStudent sid school p y) s"
  "steps (frames money) (updateOne applications applications_update P f) s"
  "steps (frames money) (findProgramAndYear x) s"
proof -
  show "steps (frames money) (registerStudent sid school p y) s"
    using registerStudent_ok [of sid school p y s] by (auto simp: steps_def frames_def money_def)
qed (auto simp: steps_def frames_def money_def addTimeline_def exec_simps split: option.split)

lemma money_core: "steps (frames core) m s \<Longrightarrow> steps (frames money) m s"
  by (auto simp: steps_def frames_def money_def intro: core_fields)

lemma money_announce: "steps (frames money) (announceDecision E now a st p i dto u) s"
  by (rule money_core [OF core_announce])

lemma money_notifyStudent: "steps (frames money) (notifyStudent E now u i st) s"
proof -
  have "steps (frames money) (notifyStatusChange E now u i st) s"
    unfolding notifyStatusChange_def
    using statusMail.confined [of "ae_mail E" now "(u, i, status_name st)" s]
    by (auto intro: money_core frm.steps_bestEffort)
  then show ?thesis unfolding notifyStudent_def by (intro frm.steps_whenE)
qed

lemma readonly_frames:
  assumes "\<And>r t. m s = (r, t) \<Longrightarrow> t = s"
  shows "steps (frames f) m s"
  using assms by (cases "m s") (simp add: steps_def frames_def)

lemma money_app_writes:
  "steps (frames money) (insertRow applications applications_update K a) s"
  "steps (frames money) (newId uuid) s"
  "steps (frames money) (prepareUpdate i dto u) s"
  "steps (frames money) (prepareChange i u st) s"
  "steps (frames money) (fetchApplication i) s"
  by (simp_all add: readonly_frames prepareUpdate_state prepareChange_state fetchApplication_state)
    (simp_all add: steps_def frames_def money_def exec_simps)

lemma money_autoRegister: "steps (frames money) (autoRegister now i a x st u) s"
  unfolding autoRegister_def
  by (auto intro!: frm.steps_bindE frm.steps_thenE money_writes split: option.split)

lemma money_statusTransaction: "steps (frames money) (statusTransaction now conflict i a x dto u) s"
  unfolding statusTransaction_def runTransaction_def checkCapacity_def applyStatusTransaction_def
    promoteNext_def Let_def
  by (auto intro!: frm.steps_catchE frm.steps_if frm.steps_transact frm.steps_throw frm.steps_thenE
      frm.steps_bindE frm.steps_whenE frm.steps_countRows frm.steps_require frm.steps_ret
      frm.steps_asks frm.steps_findOr money_writes money_autoRegister split: option.split)

lemma money_serve: "steps (frames money) (serve A now req) s"
proof (cases req)
  case (Submit sid oids)
  have "steps (frames money) (createApplication A now sid' oid) t" for sid' oid t
    unfolding createApplication_def
    by (intro frm.steps_bindE frm.steps_thenE frm.steps_ret money_app_writes money_writes)
  then show ?thesis
    unfolding Submit serve.simps submitApplications_def submitOne_def
    by (auto intro!: frm.steps_thenE frm.steps_bindE frm.steps_findOr frm.steps_foldE frm.steps_if
        frm.steps_findFirst frm.steps_transact frm.steps_ret money_notifyStudent split: option.split)
next
  case (UpdateStatus conflict i dto u)
  show ?thesis
    unfolding UpdateStatus serve.simps updateStatus_def
    by (intro frm.steps_thenE frm.steps_bindE frm.steps_ret money_app_writes)
      (auto split: prod.split intro!: frm.steps_bindE frm.steps_thenE frm.steps_ret
        money_statusTransaction money_announce)
qed (auto simp: scheduleTest_def scheduleInterview_def recordScore_def writeApplication_def
    intro!: frm.steps_thenE frm.steps_bindE frm.steps_ret frm.steps_throw money_app_writes
      money_writes money_notifyStudent split: option.split)

lemma ledger_newId: "steps (frames ledger) (newId uuid) s"
  by (simp add: steps_def frames_def ledger_def exec_simps)

lemma ledger_serve: "steps (frames ledger) (serve A now req) s"
  using money_serve [of A now req s] by (simp add: steps_def frames_def money_def ledger_def)

section \<open>Payments are kept, completed ones for good\<close>

definition moneyKept :: "db \<Rightarrow> db \<Rightarrow> bool" where
  "moneyKept s t \<longleftrightarrow>
     (paymentKeys s \<longrightarrow> paymentKeys t \<and>
        (\<forall>q \<in> set (payments s). \<exists>q' \<in> set (payments t).
           p_id q' = p_id q \<and> p_amount q' = p_amount q \<and> (p_status q = PayCOMPLETED \<longrightarrow> q' = q)))"

interpretation mk: two_state moneyKept
proof unfold_locales
  show "moneyKept s s" for s by (auto simp: moneyKept_def)
  show "moneyKept s u" if "moneyKept s t" "moneyKept t u" for s t u
    unfolding moneyKept_def
  proof (intro impI conjI ballI)
    assume "paymentKeys s"
    with that show "paymentKeys u" by (simp add: moneyKept_def)
    fix q
    assume "q \<in> set (payments s)"
    with \<open>paymentKeys s\<close> that(1) obtain q1 where q1: "q1 \<in> set (payments t)" "p_id q1 = p_id q"
      "p_amount q1 = p_amount q" "p_status q = PayCOMPLETED \<longrightarrow> q1 = q"
      unfolding moneyKept_def by blast
    moreover from \<open>paymentKeys s\<close> that q1(1) obtain q2 where "q2 \<in> set (payments u)" "p_id q2 = p_id q1"
      "p_amount q2 = p_amount q1" "p_status q1 = PayCOMPLETED \<longrightarrow> q2 = q1"
      unfolding moneyKept_def by blast
    ultimately show "\<exists>q' \<in> set (payments u). p_id q' = p_id q \<and> p_amount q' = p_amount q \<and>
        (p_status q = PayCOMPLETED \<longrightarrow> q' = q)" by (intro bexI [of _ q2]) auto
  qed
qed

lemma moneyKept_frame: "steps (frames ledger) m s \<Longrightarrow> steps moneyKept m s"
  by (auto simp: steps_def frames_def ledger_def moneyKept_def paymentKeys_def)

lemma moneyKept_update:
  assumes "sameMoney f" "\<And>p. p \<in> set (payments s) \<Longrightarrow> P p \<Longrightarrow> paymentKeys s \<Longrightarrow> p_status p \<noteq> PayCOMPLETED"
  shows "moneyKept s (s\<lparr>payments := update_rows P f (payments s)\<rparr>)"
  unfolding moneyKept_def
proof (intro impI conjI ballI)
  assume k: "paymentKeys s"
  then show "paymentKeys (s\<lparr>payments := update_rows P f (payments s)\<rparr>)"
    using assms(1) by (simp add: paymentKeys_def sameMoney_def)
  fix q
  assume q: "q \<in> set (payments s)"
  then have "(if P q then f q else q) \<in> set (update_rows P f (payments s))"
    by (rule in_update_rowsI) simp
  with assms(1) assms(2) [OF q _ k]
  show "\<exists>q' \<in> set (payments (s\<lparr>payments := update_rows P f (payments s)\<rparr>)).
      p_id q' = p_id q \<and> p_amount q' = p_amount q \<and> (p_status q = PayCOMPLETED \<longrightarrow> q' = q)"
    by (intro bexI [of _ "if P q then f q else q"]) (auto simp: sameMoney_def)
qed

lemma moneyKept_initiate: "steps moneyKept (initiatePayment E now conflict sid aid payMethod) s"
proof (rule initiate_respects [OF mk.two_state_axioms])
  have seq: "steps moneyKept (newId uuid) t" for uuid t
    by (rule moneyKept_frame [OF ledger_newId])
  have ins: "steps moneyKept (insertRow payments payments_update payment_clash p) t" for p t
    by (auto simp: steps_def exec_simps moneyKept_def paymentKeys_def payment_clash_def)
  have exp: "steps moneyKept (expireOverdue now aid) t" for t
    by (auto simp: steps_def expireOverdue_def exec_simps sameMoney_def openStatus_def
        intro!: moneyKept_update)
  show "steps moneyKept (createPayment E now sid aid am payMethod ref) t" for am ref t
    unfolding createPayment_def
    by (auto intro!: mk.steps_thenE mk.steps_bindE mk.steps_findFirst mk.steps_throw seq ins exp
        split: option.split)
  show "steps moneyKept (newId uuid) t" for uuid t by (rule seq)
  fix p f and t :: db
  assume p: "find (\<lambda>q. p_id q = p_id p) (payments t) = Some p" "p_status p = PayPENDING" "sameMoney f"
  have "p_status q \<noteq> PayCOMPLETED"
    if "q \<in> set (payments t)" "p_id q = p_id p" "paymentKeys t" for q
    using that find_Some_in [OF p(1)] p(2) distinct_key_eq [of p_id "payments t" q p]
    by (auto simp: paymentKeys_def)
  with p show "steps moneyKept (updateOne payments payments_update (\<lambda>q. p_id q = p_id p) f) t"
    by (auto simp: steps_def exec_simps intro!: moneyKept_update)
qed

lemma moneyKept_settle: "steps moneyKept (transact (settlePayment now p st tx ref)) s"
proof (rule stepsI)
  fix r t
  assume run: "transact (settlePayment now p st tx ref) s = (r, t)"
  show "moneyKept s t"
  proof (cases "t = s")
    case False
    then obtain v where ok: "settlePayment now p st tx ref s = (Inr v, t)"
      using run by (auto simp: transact_run split: prod.splits sum.splits)
    with settlePayment_ledger [OF ok] False
    have led: "payments t = payments (claimed_db now p st ref s)"
      "transactions t = transactions s @ (if st = PayCOMPLETED then [paid now p tx] else [])"
      "st = PayCOMPLETED \<longrightarrow> p_id p \<notin> x_paymentId ` set (transactions s)"
      by auto
    have "moneyKept s (claimed_db now p st ref s)"
      unfolding claimed_db_def by (rule moneyKept_update) (auto simp: claimable_def)
    with led show ?thesis
      by (auto simp: moneyKept_def paymentKeys_def claimed_db_def paid_def)
  qed (simp add: mk.reflR)
qed

section \<open>Transactions and refunds are only added\<close>

text \<open>What a refund row says for good; only its progress at the provider changes.\<close>

definition refundFacts :: "refund_row \<Rightarrow> id \<times> rat \<times> string" where
  "refundFacts r = (r_paymentId r, r_amount r, r_reason r)"

definition recordsKept :: "db \<Rightarrow> db \<Rightarrow> bool" where
  "recordsKept s t \<longleftrightarrow>
     (\<exists>xs. transactions t = transactions s @ xs) \<and>
     (\<exists>rs. map refundFacts (refunds t) = map refundFacts (refunds s) @ rs)"

interpretation rk: two_state recordsKept
  by unfold_locales (auto simp: recordsKept_def)

lemma recordsKept_frame: "steps (frames money) m s \<Longrightarrow> steps recordsKept m s"
  by (auto simp: steps_def frames_def money_def recordsKept_def)

lemma recordsKept_writes:
  "steps recordsKept (addTimeline now i st n by) s"
  "steps recordsKept (registerStudent sid school p y) s"
  "steps recordsKept (updateOne applications applications_update P f) s"
  "steps recordsKept (findProgramAndYear x) s"
  "steps recordsKept (newId uuid) s"
  "steps recordsKept (updateMany payments payments_update Q g) s"
  "steps recordsKept (updateOne payments payments_update Q g) s"
  "steps recordsKept (insertRow payments payments_update K pay) s"
  "steps recordsKept (insertRow transactions transactions_update L tr) s"
  "steps recordsKept (insertRow refunds refunds_update M rf) s"
  by (auto intro: recordsKept_frame money_writes money_app_writes)
    (auto simp: steps_def exec_simps recordsKept_def split: option.split)

lemma refundFacts_update:
  "(\<And>r. refundFacts (f r) = refundFacts r) \<Longrightarrow>
   map refundFacts (update_rows P f rs) = map refundFacts rs"
  by (induction rs) simp_all

lemma recordsKept_initiate: "steps recordsKept (initiatePayment E now conflict sid aid payMethod) s"
proof (rule initiate_respects [OF rk.two_state_axioms])
  show "steps recordsKept (createPayment E now sid aid am payMethod ref) t" for am ref t
    unfolding createPayment_def expireOverdue_def
    by (auto intro!: rk.steps_thenE rk.steps_bindE rk.steps_findFirst rk.steps_throw recordsKept_writes
        split: option.split)
qed (rule recordsKept_writes)+

lemma recordsKept_settle: "steps recordsKept (transact (settlePayment now p st tx ref)) s"
proof -
  have "steps recordsKept (settleApplication now p aid ref) t" for aid t
    unfolding settleApplication_def requestRefund_def enrollPaid_def enrollPaidIn_def
    by (auto intro!: rk.steps_bindE rk.steps_thenE rk.steps_if rk.steps_ret rk.steps_findFirst
        rk.steps_findOr recordsKept_writes split: option.split)
  then show ?thesis
    unfolding settlePayment_def
    by (auto intro!: rk.steps_transact rk.steps_bindE rk.steps_if rk.steps_thenE rk.steps_findOr
        rk.steps_ret rk.steps_whenE recordsKept_writes split: option.split)
qed

lemma recordsKept_refund: "steps recordsKept (processRefund E now i ref) s"
proof -
  have "steps recordsKept (updateOne refunds refunds_update (\<lambda>r. r_paymentId r = i)
      (\<lambda>r. r\<lparr>r_status := st, r_processedAt := h r\<rparr>)) t" for st h t
    by (auto simp: steps_def exec_simps recordsKept_def refundFacts_update refundFacts_def
        split: option.split)
  then show ?thesis
    unfolding processRefund_def
    by (intro rk.steps_bestEffort rk.steps_bindE steps_providerCall rk.reflR)
qed

section \<open>Payments only enrol\<close>






section \<open>Invariants of every run\<close>

fun deliverySound :: "db \<Rightarrow> delivery \<Rightarrow> bool" where
  "deliverySound s (Delivery p st tx ref) \<longleftrightarrow>
     (st = PayCOMPLETED \<or> st = PayFAILED) \<and>
     (\<exists>q \<in> set (payments s). p_id q = p_id p \<and> p_amount q = p_amount p)"

definition platformInv :: "platform \<Rightarrow> bool" where
  "platformInv c \<longleftrightarrow>
     paymentInv (snd c) \<and> capacityInv (snd c) \<and> (\<forall>d \<in> set (fst c). deliverySound (snd c) d)"

text \<open>What a step does to the database.\<close>

definition evolves :: "db \<Rightarrow> db \<Rightarrow> bool" where
  "evolves s t \<longleftrightarrow> workflow s t \<and> moneyKept s t \<and> recordsKept s t"

lemma step_evolves:
  assumes "platform_step A P c c'"
  shows "evolves (snd c) (snd c')"
  using assms
proof (cases rule: platform_step.cases)
  case (request ds s now req)
  then show ?thesis
    using workflow_serve [of A now req s] moneyKept_frame [OF ledger_serve, of A now req s]
      recordsKept_frame [OF money_serve, of A now req s]
    by (simp add: evolves_def steps_def)
next
  case (initiate ds s now conflict sid aid payMethod)
  then show ?thesis
    using workflow_frame [OF book_initiate, of P now conflict sid aid payMethod s] moneyKept_initiate
      recordsKept_initiate
    by (simp add: evolves_def steps_def)
next
  case (receive now ref amt s p st tx t ds)
  then show ?thesis
    using receiveWebhook_state [OF receive(3)] by (simp add: evolves_def wf.reflR mk.reflR rk.reflR)
next
  case (settle ds1 p st tx ref ds2 s now)
  have "steps workflow (transact (settlePayment now p st tx ref)) s"
    by (intro wf.steps_transact settle_respects [OF wf.two_state_axioms workflow_frame])
      (auto intro!: workflow_updateOne simp: keepsKeys_def enrolled_reachable)
  then show ?thesis
    using settle moneyKept_settle recordsKept_settle by (simp add: evolves_def steps_def)
next
  case (refund ds s now i ref)
  then show ?thesis
    using workflow_frame [OF book_processRefund, of P now i ref s]
      moneyKept_frame [OF ledger_processRefund, of P now i ref s] recordsKept_refund [of P now i ref s]
    by (simp add: evolves_def steps_def)
qed

lemma deliverySound_mono:
  "moneyKept s t \<Longrightarrow> paymentInv s \<Longrightarrow> deliverySound s d \<Longrightarrow> deliverySound t d"
  by (cases d) (auto simp: moneyKept_def paymentInv_def, metis+)

lemma step_inv:
  assumes "platform_step A P c c'" "platformInv c"
  shows "platformInv c'"
proof -
  have m: "moneyKept (snd c) (snd c')" using step_evolves [OF assms(1)] by (simp add: evolves_def)
  have old: "deliverySound (snd c') d" if "d \<in> set (fst c)" for d
    using deliverySound_mono [OF m] assms(2) that by (simp add: platformInv_def)
  have books: "paymentInv (snd c)" and cap: "capacityInv (snd c)"
    using assms(2) by (simp_all add: platformInv_def)
  from assms(1) show ?thesis
  proof (cases rule: platform_step.cases)
    case (request ds s now req)
    then show ?thesis
      using paymentInv_frame [OF ledger_serve, of A now req s] capacity_serve [of A now req s] books cap old
      by (auto simp: platformInv_def steps_def keeps_def)
  next
    case (initiate ds s now conflict sid aid payMethod)
    then show ?thesis
      using paymentInv_initiate [of P now conflict sid aid payMethod s]
        seatSafe_keeps [OF seatSafe_frame [OF book_initiate], of P now conflict sid aid payMethod s] books cap old
      by (auto simp: platformInv_def steps_def keeps_def)
  next
    case (receive now ref amt s p st tx t ds)
    have "deliverySound s (Delivery p st tx ref)"
      using receiveWebhook_ok [OF receive(3)] by auto
    then show ?thesis
      using receive receiveWebhook_state [OF receive(3)] books cap old by (auto simp: platformInv_def)
  next
    case (settle ds1 p st tx ref ds2 s now)
    have "deliverySound s (Delivery p st tx ref)" using settle assms(2) by (auto simp: platformInv_def)
    then have "steps (keeps paymentInv) (transact (settlePayment now p st tx ref)) s"
      by (intro paymentInv_settle) auto
    moreover have "steps (keeps capacityInv) (transact (settlePayment now p st tx ref)) s"
      by (intro seatSafe_keeps ss.steps_transact settle_respects [OF ss.two_state_axioms seatSafe_frame]
          seatSafe_enroll)
    ultimately show ?thesis
      using settle books cap old by (auto simp: platformInv_def steps_def keeps_def)
  next
    case (refund ds s now i ref)
    then show ?thesis
      using paymentInv_frame [OF ledger_processRefund, of P now i ref s]
        seatSafe_keeps [OF seatSafe_frame [OF book_processRefund], of P now i ref s] books cap old
      by (auto simp: platformInv_def steps_def keeps_def)
  qed
qed

lemma run_inv: "platform_run A P c c' \<Longrightarrow> platformInv c \<Longrightarrow> platformInv c'"
  by (induction rule: platform_run.induct) (auto intro: step_inv)

lemma run_evolves: "platform_run A P c c' \<Longrightarrow> evolves (snd c) (snd c')"
proof (induction rule: platform_run.induct)
  case (start c)
  then show ?case by (simp add: evolves_def wf.reflR mk.reflR rk.reflR)
next
  case (step c c' c'')
  then show ?case
    using step_evolves [OF step.hyps(2)] unfolding evolves_def by (metis wf.transR mk.transR rk.transR)
qed

section \<open>Properties\<close>

lemma count_key:
  assumes "distinct (map k xs)"
  shows "count_rows (\<lambda>x. k x = i) xs = (if i \<in> k ` set xs then 1 else 0)"
  using assms by (induction xs) auto

text \<open>
  C7. Every ariary is booked once: whatever the interleaving of requests, initiations and
  deliveries of webhooks, duplicates included, a COMPLETED payment has exactly one transaction,
  of its amount, any other payment has none, and an application never has two payments in
  progress.
\<close>

theorem money_is_booked:
  assumes "platform_run A P ([], s) (ds, t)" "paymentInv s" "capacityInv s"
  shows "(\<forall>p \<in> set (payments t). count_rows (\<lambda>x. x_paymentId x = p_id p) (transactions t) =
            (if p_status p = PayCOMPLETED then 1 else 0)) \<and>
         (\<forall>p \<in> set (payments t). \<forall>x \<in> set (transactions t).
            x_paymentId x = p_id p \<longrightarrow> x_amount x = p_amount p) \<and>
         (\<forall>a. openPayments t a \<le> 1)"
proof -
  have inv: "paymentInv t"
    using run_inv [OF assms(1)] assms(2,3) by (simp add: platformInv_def)
  then have d: "distinct (map p_id (payments t))" "distinct (map x_paymentId (transactions t))"
    and b: "booked t" by (simp_all add: paymentInv_def paymentKeys_def)
  have owner: "p_status p = PayCOMPLETED \<and> x_amount x = p_amount p"
    if "p \<in> set (payments t)" "x \<in> set (transactions t)" "x_paymentId x = p_id p" for p x
  proof -
    from b that(2) obtain q where "q \<in> set (payments t)" "p_id q = x_paymentId x"
      "p_status q = PayCOMPLETED" "p_amount q = x_amount x" unfolding booked_def by blast
    with that distinct_key_eq [OF d(1), of q p] show ?thesis by auto
  qed
  have "count_rows (\<lambda>x. x_paymentId x = p_id p) (transactions t) =
      (if p_status p = PayCOMPLETED then 1 else 0)" if p: "p \<in> set (payments t)" for p
    unfolding count_key [OF d(2)]
  proof (cases "p_status p = PayCOMPLETED")
    case True
    with b p obtain x where "x \<in> set (transactions t)" "x_paymentId x = p_id p"
      unfolding booked_def by blast
    then have "p_id p \<in> x_paymentId ` set (transactions t)" by (metis image_eqI)
    with True show "(if p_id p \<in> x_paymentId ` set (transactions t) then 1 else 0) =
        (if p_status p = PayCOMPLETED then 1 else (0 :: nat))" by simp
  next
    case False
    with owner [OF p] have "p_id p \<notin> x_paymentId ` set (transactions t)" by (metis imageE)
    with False show "(if p_id p \<in> x_paymentId ` set (transactions t) then 1 else 0) =
        (if p_status p = PayCOMPLETED then 1 else (0 :: nat))" by simp
  qed
  with owner inv show ?thesis by (auto simp: paymentInv_def)
qed

text \<open>
  C8. A completed payment is final: in any run, the row of a COMPLETED payment is never changed
  or lost, and no payment ever changes its amount. The ledger is append-only, so that no
  transaction is ever changed or lost; a refund keeps its payment, its amount and its reason, and
  none is lost: only its progress at the provider is updated.
\<close>

theorem completed_is_final:
  assumes "platform_run A P (cs, s) (ds, t)" "paymentKeys s" "p \<in> set (payments s)"
  shows "(p_status p = PayCOMPLETED \<longrightarrow> p \<in> set (payments t)) \<and>
         (\<exists>q \<in> set (payments t). p_id q = p_id p \<and> p_amount q = p_amount p) \<and>
         (\<exists>xs. transactions t = transactions s @ xs) \<and>
         (\<exists>rs. map (\<lambda>r. (r_paymentId r, r_amount r, r_reason r)) (refunds t) =
                 map (\<lambda>r. (r_paymentId r, r_amount r, r_reason r)) (refunds s) @ rs)"
proof -
  have e: "moneyKept s t" "recordsKept s t" using run_evolves [OF assms(1)] by (simp_all add: evolves_def)
  have "refundFacts = (\<lambda>r. (r_paymentId r, r_amount r, r_reason r))" by (simp add: refundFacts_def fun_eq_iff)
  with e(2) have "(\<exists>xs. transactions t = transactions s @ xs) \<and>
      (\<exists>rs. map (\<lambda>r. (r_paymentId r, r_amount r, r_reason r)) (refunds t) =
         map (\<lambda>r. (r_paymentId r, r_amount r, r_reason r)) (refunds s) @ rs)"
    by (simp add: recordsKept_def)
  moreover from e(1) assms(2,3) have "(p_status p = PayCOMPLETED \<longrightarrow> p \<in> set (payments t)) \<and>
      (\<exists>q \<in> set (payments t). p_id q = p_id p \<and> p_amount q = p_amount p)"
    unfolding moneyKept_def by metis
  ultimately show ?thesis by simp
qed


section \<open>Examples\<close>

lemma sample_paymentInv: "paymentInv (sample_paid_db ast PayPROCESSING)"
  by (auto simp: paymentInv_def paymentKeys_def booked_def openPayments_def openStatus_def)

lemma sample_paid_capacity: "capacityInv (sample_paid_db ast pst)"
proof -
  have "book (sample_paid_db ast pst) = book (sample_school_db (sample_queue ast))"
    by (simp add: book_def)
  then have "capacityInv (sample_paid_db ast pst) = capacityInv (sample_school_db (sample_queue ast))"
    by (simp only: book_def capacityInv_def capacityRespected_def applicationKeys_def seats_def prod.inject)
  then show ?thesis using sample_capacity by simp
qed

text \<open>The same webhook delivered twice: both deliveries pass the check before either settles.\<close>

definition twiceSettled :: "app_status \<Rightarrow> db" where
  "twiceSettled ast =
     snd (transact (settlePayment 8 (sample_payment PayPROCESSING) PayCOMPLETED (Some ''TX-1'') ''MOCK-1'')
       (snd (transact (settlePayment 7 (sample_payment PayPROCESSING) PayCOMPLETED (Some ''TX-1'') ''MOCK-1'')
          (sample_paid_db ast PayPROCESSING))))"

lemma sample_twice: "platform_run A sample_pay ([], sample_paid_db ast PayPROCESSING) ([], twiceSettled ast)"
proof -
  let ?s = "sample_paid_db ast PayPROCESSING"
  let ?d = "Delivery (sample_payment PayPROCESSING) PayCOMPLETED (Some ''TX-1'') ''MOCK-1''"
  have r: "receiveWebhook sample_pay now ''MOCK-1'' None ?s =
      (Inr (sample_payment PayPROCESSING, Some (PayCOMPLETED, Some ''TX-1'')), ?s)" for now
    by (simp add: receiveWebhook_def exec_simps sample_pay_def)
  have "platform_run A sample_pay ([], ?s) ([?d], ?s)"
    by (rule platform_run.step [OF platform_run.start platform_step.receive [OF r]])
  then have "platform_run A sample_pay ([], ?s) ([?d, ?d], ?s)"
    by (rule platform_run.step [OF _ platform_step.receive [OF r]])
  then have "platform_run A sample_pay ([], ?s) ([?d],
      snd (transact (settlePayment 7 (sample_payment PayPROCESSING) PayCOMPLETED (Some ''TX-1'') ''MOCK-1'') ?s))"
    using platform_step.settle [of A sample_pay "[]" "sample_payment PayPROCESSING" PayCOMPLETED
        "Some ''TX-1''" "''MOCK-1''" "[?d]" ?s 7]
    by (auto intro: platform_run.step)
  then show ?thesis
    using platform_step.settle [of A sample_pay "[]" "sample_payment PayPROCESSING" PayCOMPLETED
        "Some ''TX-1''" "''MOCK-1''" "[]" _ 8]
    unfolding twiceSettled_def by (auto intro: platform_run.step)
qed

theorem money_is_booked_witness:
  "list_all (\<lambda>p. count_rows (\<lambda>x. x_paymentId x = p_id p) (transactions (twiceSettled CANCELLED)) =
       (if p_status p = PayCOMPLETED then 1 else 0)) (payments (twiceSettled CANCELLED))"
  using money_is_booked [OF sample_twice sample_paymentInv sample_paid_capacity]
  unfolding list_all_iff by blast

theorem completed_is_final_witness:
  "\<exists>q \<in> set (payments (twiceSettled ACCEPTED)). p_id q = ''pay1'' \<and> p_amount q = 1000"
proof -
  have k: "paymentKeys (sample_paid_db ACCEPTED PayPROCESSING)"
    using sample_paymentInv by (simp add: paymentInv_def)
  show ?thesis
    using completed_is_final [OF sample_twice k, of "sample_payment PayPROCESSING"] by simp
qed



end
