(* ===== verification/Clock.thy ===== *)
theory Clock
  imports Text
begin

text \<open>
  Times of day as the schedules keep them: strings \<open>HH:mm\<close>, which the DTOs check against
  \<open>^([01]\d|2[0-3]):[0-5]\d$\<close>, the services compare as text and convert with \<open>toMinutes\<close>.
  The main fact is that the two agree: on checked times the order of the strings is the order
  of the minutes.
\<close>

definition digitBetween :: "nat \<Rightarrow> nat \<Rightarrow> char \<Rightarrow> bool" where
  "digitBetween a b c \<longleftrightarrow> 48 + a \<le> (of_char c :: nat) \<and> (of_char c :: nat) \<le> 48 + b"

fun timeOk :: "string \<Rightarrow> bool" where
  "timeOk [a, b, c, d, e] =
     ((digitBetween 0 1 a \<and> digitBetween 0 9 b \<or> a = CHR ''2'' \<and> digitBetween 0 3 b) \<and>
      c = CHR '':'' \<and> digitBetween 0 5 d \<and> digitBetween 0 9 e)"
| "timeOk _ = False"

text \<open>\<open>time.split(':').map(Number)\<close> and the sum, on times whose parts are digits.\<close>

definition toMinutes :: "string \<Rightarrow> int" where
  "toMinutes t =
     (let h = takeWhile (\<lambda>c. c \<noteq> CHR '':'') t;
          m = takeWhile (\<lambda>c. c \<noteq> CHR '':'') (tl (dropWhile (\<lambda>c. c \<noteq> CHR '':'') t))
      in int (read_nat h * 60 + read_nat m))"

definition overlaps :: "int \<Rightarrow> int \<Rightarrow> int \<Rightarrow> int \<Rightarrow> bool" where
  "overlaps aStart aEnd bStart bEnd \<longleftrightarrow> aStart < bEnd \<and> bStart < aEnd"

lemma digitBetween_value:
  "digitBetween a b c \<Longrightarrow> b \<le> 9 \<Longrightarrow> of_char c = (48 :: nat) + digit_value c \<and> a \<le> digit_value c \<and> digit_value c \<le> b"
  by (auto simp: digitBetween_def digit_value_def)

lemma timeOk_cases:
  assumes "timeOk t"
  obtains a b d e where "t = [a, b, CHR '':'', d, e]"
    "of_char a = (48 :: nat) + digit_value a" "of_char b = (48 :: nat) + digit_value b"
    "of_char d = (48 :: nat) + digit_value d" "of_char e = (48 :: nat) + digit_value e"
    "digit_value a \<le> 2" "digit_value b \<le> 9" "digit_value d \<le> 5" "digit_value e \<le> 9"
    "10 * digit_value a + digit_value b \<le> 23"
proof -
  from assms obtain a b c d e where t: "t = [a, b, c, d, e]" by (cases t rule: timeOk.cases) auto
  with assms have c: "c = CHR '':''" and de: "digitBetween 0 5 d" "digitBetween 0 9 e"
    and ab: "digitBetween 0 1 a \<and> digitBetween 0 9 b \<or> a = CHR ''2'' \<and> digitBetween 0 3 b"
    by auto
  have two: "digit_value (CHR ''2'') = 2" by (simp add: digit_value_def)
  have "of_char a = (48 :: nat) + digit_value a \<and> of_char b = (48 :: nat) + digit_value b \<and>
      digit_value a \<le> 2 \<and> digit_value b \<le> 9 \<and> 10 * digit_value a + digit_value b \<le> 23"
    using ab
  proof
    assume "digitBetween 0 1 a \<and> digitBetween 0 9 b"
    then show ?thesis using digitBetween_value [of 0 1 a] digitBetween_value [of 0 9 b] by auto
  next
    assume "a = CHR ''2'' \<and> digitBetween 0 3 b"
    then show ?thesis using digitBetween_value [of 0 3 b] two by auto
  qed
  with that t c digitBetween_value [OF de(1)] digitBetween_value [OF de(2)] show thesis by auto
qed

lemma digit_not_colon: "of_char c = (48 :: nat) + digit_value c \<Longrightarrow> digit_value c \<le> 9 \<Longrightarrow> c \<noteq> CHR '':''"
  by auto

lemma toMinutes_ok:
  assumes "of_char a = (48 :: nat) + digit_value a" "of_char b = (48 :: nat) + digit_value b"
    "of_char d = (48 :: nat) + digit_value d" "of_char e = (48 :: nat) + digit_value e"
    "digit_value a \<le> 9" "digit_value b \<le> 9" "digit_value d \<le> 9" "digit_value e \<le> 9"
  shows "toMinutes [a, b, CHR '':'', d, e] =
     int ((10 * digit_value a + digit_value b) * 60 + 10 * digit_value d + digit_value e)"
  using assms digit_not_colon [of a] digit_not_colon [of b] digit_not_colon [of d] digit_not_colon [of e]
  by (simp add: toMinutes_def Let_def read_nat_def)

lemma char_less: "(c :: char) < d \<longleftrightarrow> of_char c < (of_char d :: nat)"
  by (simp add: less_char_def)

lemma char_eq: "(c :: char) = d \<longleftrightarrow> of_char c = (of_char d :: nat)"
  by simp

lemma toMinutes_range:
  assumes "timeOk t"
  shows "0 \<le> toMinutes t \<and> toMinutes t < 1440"
  using assms by (elim timeOk_cases) (simp add: toMinutes_ok)

lemma lex_60:
  fixes q r q' r' :: nat
  assumes "r < 60" "r' < 60"
  shows "(60 * q + r < 60 * q' + r') = (q < q' \<or> q = q' \<and> r < r')"
    and "(60 * q + r = 60 * q' + r') = (q = q' \<and> r = r')"
  using assms by (cases q q' rule: linorder_cases; linarith)+

lemma lex_10:
  fixes q r q' r' :: nat
  assumes "r < 10" "r' < 10"
  shows "(10 * q + r < 10 * q' + r') = (q < q' \<or> q = q' \<and> r < r')"
    and "(10 * q + r = 10 * q' + r') = (q = q' \<and> r = r')"
  using assms by (cases q q' rule: linorder_cases; linarith)+

lemma minutes_order:
  fixes a b d e a' b' d' e' :: nat
  assumes "b \<le> 9" "d \<le> 5" "e \<le> 9" "b' \<le> 9" "d' \<le> 5" "e' \<le> 9"
  shows "((10 * a + b) * 60 + 10 * d + e < (10 * a' + b') * 60 + 10 * d' + e') =
      (a < a' \<or> a = a' \<and> (b < b' \<or> b = b' \<and> (d < d' \<or> d = d' \<and> e < e')))"
    and "((10 * a + b) * 60 + 10 * d + e = (10 * a' + b') * 60 + 10 * d' + e') =
      (a = a' \<and> b = b' \<and> d = d' \<and> e = e')"
proof -
  have r: "(10 * x + y) * 60 + 10 * z + w = 60 * (10 * x + y) + (10 * z + w)" for x y z w :: nat
    by simp
  note bounds = assms
  show "((10 * a + b) * 60 + 10 * d + e < (10 * a' + b') * 60 + 10 * d' + e') =
      (a < a' \<or> a = a' \<and> (b < b' \<or> b = b' \<and> (d < d' \<or> d = d' \<and> e < e')))"
    unfolding r using bounds lex_60 [of "10 * d + e" "10 * d' + e'" "10 * a + b" "10 * a' + b'"]
      lex_10 [of b b' a a'] lex_10 [of e e' d d'] by auto
  show "((10 * a + b) * 60 + 10 * d + e = (10 * a' + b') * 60 + 10 * d' + e') =
      (a = a' \<and> b = b' \<and> d = d' \<and> e = e')"
    unfolding r using bounds lex_60 [of "10 * d + e" "10 * d' + e'" "10 * a + b" "10 * a' + b'"]
      lex_10 [of b b' a a'] lex_10 [of e e' d d'] by auto
qed

text \<open>
  Comparing times as text is comparing them as times: for times the DTOs accept, the
  services' string comparisons and their minute arithmetic give the same order, and distinct
  strings are distinct times.
\<close>

lemma time_order:
  assumes "timeOk s" "timeOk t"
  shows "(s < t \<longleftrightarrow> toMinutes s < toMinutes t) \<and> (s = t \<longleftrightarrow> toMinutes s = toMinutes t)"
proof -
  from assms(1) obtain a b d e where s: "s = [a, b, CHR '':'', d, e]"
    "of_char a = (48 :: nat) + digit_value a" "of_char b = (48 :: nat) + digit_value b"
    "of_char d = (48 :: nat) + digit_value d" "of_char e = (48 :: nat) + digit_value e"
    "digit_value a \<le> 2" "digit_value b \<le> 9" "digit_value d \<le> 5" "digit_value e \<le> 9"
    "10 * digit_value a + digit_value b \<le> 23" by (rule timeOk_cases)
  from assms(2) obtain a' b' d' e' where t: "t = [a', b', CHR '':'', d', e']"
    "of_char a' = (48 :: nat) + digit_value a'" "of_char b' = (48 :: nat) + digit_value b'"
    "of_char d' = (48 :: nat) + digit_value d'" "of_char e' = (48 :: nat) + digit_value e'"
    "digit_value a' \<le> 2" "digit_value b' \<le> 9" "digit_value d' \<le> 5" "digit_value e' \<le> 9"
    "10 * digit_value a' + digit_value b' \<le> 23" by (rule timeOk_cases)
  have ms: "toMinutes s = int ((10 * digit_value a + digit_value b) * 60 + 10 * digit_value d + digit_value e)"
    unfolding s(1) using s by (intro toMinutes_ok) auto
  have mt: "toMinutes t = int ((10 * digit_value a' + digit_value b') * 60 + 10 * digit_value d' + digit_value e')"
    unfolding t(1) using t by (intro toMinutes_ok) auto
  have lt: "x < y \<longleftrightarrow> digit_value x < digit_value y" and eq: "x = y \<longleftrightarrow> digit_value x = digit_value y"
    if "of_char x = (48 :: nat) + digit_value x" "of_char y = (48 :: nat) + digit_value y" for x y
    using that by (simp_all add: char_less char_eq [of x y])
  have "s < t \<longleftrightarrow> digit_value a < digit_value a' \<or> digit_value a = digit_value a' \<and>
      (digit_value b < digit_value b' \<or> digit_value b = digit_value b' \<and>
       (digit_value d < digit_value d' \<or> digit_value d = digit_value d' \<and> digit_value e < digit_value e'))"
    unfolding s(1) t(1) using s t by (simp add: lt eq)
  moreover have "s = t \<longleftrightarrow> digit_value a = digit_value a' \<and> digit_value b = digit_value b' \<and>
      digit_value d = digit_value d' \<and> digit_value e = digit_value e'"
    unfolding s(1) t(1) using s t by (simp add: eq)
  ultimately show ?thesis
    unfolding ms mt of_nat_less_iff of_nat_eq_iff using s(6-) t(6-) minutes_order by simp
qed

end
