(* ===== verification/Teacher_Availability.thy ===== *)
theory Teacher_Availability
  imports Clock Pagination Notifications
begin

text \<open>
  \<open>TeacherAvailabilityService\<close> (\<open>teacher-availability/teacher-availability.service.ts\<close>):
  declared unavailabilities, travel buffers between schools, the check \<open>isTeacherFree\<close> that the
  school calendar makes before a teacher is booked, and the conflict report. The main fact
  states \<open>isTeacherFree\<close> in terms of intervals of time. The \<open>reason\<close> of an unavailability is
  not kept.
\<close>

section \<open>Unavailabilities\<close>

record unavailability_dto =
  uv_dayOfWeek :: "int option"
  uv_date :: "time option"
  uv_startTime :: string
  uv_endTime :: string

definition resolveTeacherByUserId :: "id \<Rightarrow> (db, teacher_row) exec" where
  "resolveTeacherByUserId userId =
     findOr teachers (\<lambda>t. th_userId t = userId) (Forbidden ''Profil professeur introuvable'')"

text \<open>Prisma's ascending order puts null last.\<close>

definition nullsLast :: "int option \<Rightarrow> bool \<times> int" where
  "nullsLast x = (case x of None \<Rightarrow> (True, 0) | Some v \<Rightarrow> (False, v))"

definition unavailability_before :: "availability_row \<Rightarrow> availability_row \<Rightarrow> bool" where
  "unavailability_before a b \<longleftrightarrow>
     (let key = (\<lambda>r. (nullsLast (av_dayOfWeek r), nullsLast (av_date r)));
          lt = (\<lambda>(p, v) (q, w). \<not> p \<and> q \<or> p = q \<and> (v :: int) < w)
      in lt (fst (key a)) (fst (key b)) \<or>
         fst (key a) = fst (key b) \<and>
           (lt (snd (key a)) (snd (key b)) \<or>
            snd (key a) = snd (key b) \<and> av_startTime a \<le> av_startTime b))"

fun insert_by :: "('a \<Rightarrow> 'a \<Rightarrow> bool) \<Rightarrow> 'a \<Rightarrow> 'a list \<Rightarrow> 'a list" where
  "insert_by le x [] = [x]"
| "insert_by le x (y # ys) = (if le x y then x # y # ys else y # insert_by le x ys)"

fun sort_by :: "('a \<Rightarrow> 'a \<Rightarrow> bool) \<Rightarrow> 'a list \<Rightarrow> 'a list" where
  "sort_by le [] = []"
| "sort_by le (x # xs) = insert_by le x (sort_by le xs)"

definition listMyUnavailability :: "id \<Rightarrow> (db, availability_row list) exec" where
  "listMyUnavailability teacherId =
     bindE (findMany availabilities (\<lambda>a. av_teacherId a = teacherId)) (\<lambda>rows.
     ret (sort_by unavailability_before rows))"

definition declareUnavailability ::
  "mail_config \<Rightarrow> id \<Rightarrow> unavailability_dto \<Rightarrow> (db, availability_row) exec" where
  "declareUnavailability C teacherId dto =
     thenE (require (\<not> uv_endTime dto \<le> uv_startTime dto)
              (BadRequest ''L'heure de fin doit etre posterieure a l'heure de debut''))
     (thenE (require (\<not> ((uv_dayOfWeek dto = None \<or> uv_dayOfWeek dto = Some 0) \<and> uv_date dto = None))
              (BadRequest ''Precisez un jour recurrent ou une date ponctuelle''))
     (bindE (newId (mailUuid C)) (\<lambda>i.
      let row = \<lparr>av_id = i, av_teacherId = teacherId, av_dayOfWeek = uv_dayOfWeek dto,
                 av_date = uv_date dto, av_startTime = uv_startTime dto,
                 av_endTime = uv_endTime dto\<rparr>
      in thenE (addRow availabilities availabilities_update row) (ret row))))"

definition deleteUnavailability :: "id \<Rightarrow> id \<Rightarrow> (db, id) exec" where
  "deleteUnavailability teacherId i =
     bindE (findOr availabilities (\<lambda>a. av_id a = i \<and> av_teacherId a = teacherId)
              (NotFound ''Indisponibilite introuvable'')) (\<lambda>_.
     thenE (deleteMany availabilities availabilities_update (\<lambda>a. av_id a = i)) (ret i))"

section \<open>Travel buffers\<close>

definition sortedPair :: "id \<Rightarrow> id \<Rightarrow> id \<times> id" where
  "sortedPair a b = (if b < a then (b, a) else (a, b))"

definition bufferFor :: "id \<times> id \<Rightarrow> travel_buffer_row \<Rightarrow> bool" where
  "bufferFor pair b \<longleftrightarrow> (tb_schoolAId b, tb_schoolBId b) = pair"

definition listMyTravelBuffers :: "id \<Rightarrow> (db, travel_buffer_row list) exec" where
  "listMyTravelBuffers teacherId = findMany travelBuffers (\<lambda>b. tb_teacherId b = teacherId)"

definition assertActiveAssignment :: "id \<Rightarrow> id \<Rightarrow> (db, unit) exec" where
  "assertActiveAssignment teacherId schoolId =
     bindE (findFirst teacherSchools
              (\<lambda>t. ts_teacherId t = teacherId \<and> ts_schoolId t = schoolId \<and> ts_isActive t))
       (\<lambda>assignment.
     require (assignment \<noteq> None) (BadRequest ''Le professeur n'est pas affecte a cette ecole''))"

definition setTravelBuffer ::
  "mail_config \<Rightarrow> id \<Rightarrow> id \<Rightarrow> id \<Rightarrow> int \<Rightarrow> (db, unit) exec" where
  "setTravelBuffer C teacherId schoolA schoolB minutes =
     thenE (require (schoolA \<noteq> schoolB) (BadRequest ''Choisissez deux ecoles differentes''))
     (thenE (assertActiveAssignment teacherId schoolA)
     (thenE (assertActiveAssignment teacherId schoolB)
     (bindE (newId (mailUuid C)) (\<lambda>i.
      let pair = sortedPair schoolA schoolB in
      upsertRow travelBuffers travelBuffers_update
        (\<lambda>b. tb_teacherId b = teacherId \<and> bufferFor pair b)
        (\<lambda>b. b\<lparr>tb_minutesBuffer := minutes\<rparr>)
        \<lparr>tb_id = i, tb_teacherId = teacherId, tb_schoolAId = fst pair, tb_schoolBId = snd pair,
         tb_minutesBuffer = minutes\<rparr>))))"

definition deleteTravelBuffer :: "id \<Rightarrow> id \<Rightarrow> (db, id) exec" where
  "deleteTravelBuffer teacherId i =
     bindE (findOr travelBuffers (\<lambda>b. tb_id b = i \<and> tb_teacherId b = teacherId)
              (NotFound ''Temps de trajet introuvable'')) (\<lambda>_.
     thenE (deleteMany travelBuffers travelBuffers_update (\<lambda>b. tb_id b = i)) (ret i))"

section \<open>Is the teacher free?\<close>

record slot_time =
  sm_dayOfWeek :: int
  sm_startTime :: string
  sm_endTime :: string

text \<open>The school of a slot, through its course.\<close>

definition slotSchool :: "db \<Rightarrow> course_slot_row \<Rightarrow> id" where
  "slotSchool s e =
     (case find (\<lambda>c. c_id c = s_courseId e) (courses s) of None \<Rightarrow> [] | Some c \<Rightarrow> c_schoolId c)"

definition rangesOverlap :: "slot_time \<Rightarrow> string \<Rightarrow> string \<Rightarrow> bool" where
  "rangesOverlap slot startTime endTime \<longleftrightarrow>
     overlaps (toMinutes (sm_startTime slot)) (toMinutes (sm_endTime slot))
       (toMinutes startTime) (toMinutes endTime)"

text \<open>The minutes between the slot and an existing one of the same day.\<close>

definition gapMinutes :: "slot_time \<Rightarrow> course_slot_row \<Rightarrow> int" where
  "gapMinutes slot e =
     (let gapBefore = toMinutes (sm_startTime slot) - toMinutes (s_endTime e);
          gapAfter = toMinutes (s_startTime e) - toMinutes (sm_endTime slot)
      in if 0 \<le> gapBefore then gapBefore else gapAfter)"

definition isTeacherFree :: "id \<Rightarrow> id \<Rightarrow> slot_time \<Rightarrow> id option \<Rightarrow> (db, bool) exec" where
  "isTeacherFree teacherId schoolId slot excludeSlotId =
     bindE (findMany availabilities
              (\<lambda>a. av_teacherId a = teacherId \<and> av_dayOfWeek a = Some (sm_dayOfWeek slot)))
       (\<lambda>unavailability.
     if \<exists>a \<in> set unavailability. rangesOverlap slot (av_startTime a) (av_endTime a) then ret False
     else
       bindE (findMany courseSlots (\<lambda>e. s_teacherId e = teacherId \<and>
                s_dayOfWeek e = sm_dayOfWeek slot \<and> (truthy excludeSlotId \<longrightarrow> excludeSlotId \<noteq> Some (s_id e))))
         (\<lambda>existingSlots.
       if \<exists>e \<in> set existingSlots. rangesOverlap slot (s_startTime e) (s_endTime e) then ret False
       else
         bindE (asks slotSchool) (\<lambda>school.
         let otherSchoolSlots = filter (\<lambda>e. school e \<noteq> schoolId) existingSlots;
             otherSchoolIds = uniq (map school otherSchoolSlots)
         in bindE (findMany travelBuffers (\<lambda>b. tb_teacherId b = teacherId \<and>
                     (\<exists>otherId \<in> set otherSchoolIds. bufferFor (sortedPair schoolId otherId) b)))
              (\<lambda>buffers.
            ret (\<forall>e \<in> set otherSchoolSlots.
                   case find (bufferFor (sortedPair schoolId (school e))) buffers of
                     None \<Rightarrow> True
                   | Some b \<Rightarrow> tb_minutesBuffer b \<le> gapMinutes slot e)))))"

definition assertTeacherFreeOrThrow :: "id \<Rightarrow> id \<Rightarrow> slot_time \<Rightarrow> id option \<Rightarrow> (db, unit) exec" where
  "assertTeacherFreeOrThrow teacherId schoolId slot excludeSlotId =
     bindE (isTeacherFree teacherId schoolId slot excludeSlotId) (\<lambda>free.
     require free (BadRequest ''Ce professeur n'est pas disponible sur ce creneau''))"

section \<open>Search and conflict report\<close>

definition searchTeachers :: "string option \<Rightarrow> (db, teacher_row list) exec" where
  "searchTeachers search =
     bindE (asks (\<lambda>s t. \<not> truthy search \<or>
              (case th_firstName t of None \<Rightarrow> False | Some n \<Rightarrow> containsInsensitive n (the search)) \<or>
              (case th_lastName t of None \<Rightarrow> False | Some n \<Rightarrow> containsInsensitive n (the search)) \<or>
              (\<exists>u \<in> set (users s). u_id u = th_userId t \<and> containsInsensitive (u_email u) (the search))))
       (\<lambda>where.
     bindE (findMany teachers where) (\<lambda>rows. ret (take 20 (orderDesc th_createdAt rows))))"

record conflict_warning =
  cw_dayOfWeek :: int
  cw_first :: course_slot_row
  cw_second :: course_slot_row
  cw_gapMinutes :: int
  cw_requiredMinutes :: int

definition slotWarning ::
  "db \<Rightarrow> travel_buffer_row list \<Rightarrow> course_slot_row \<Rightarrow> course_slot_row \<Rightarrow> conflict_warning list" where
  "slotWarning s buffers a b =
     (if s_dayOfWeek a \<noteq> s_dayOfWeek b then []
      else if slotSchool s a = slotSchool s b then []
      else
        let (x, y) = (if toMinutes (s_startTime a) \<le> toMinutes (s_startTime b) then (a, b) else (b, a));
            gap = toMinutes (s_startTime y) - toMinutes (s_endTime x);
            required = (case find (bufferFor (sortedPair (slotSchool s x) (slotSchool s y))) buffers of
                          None \<Rightarrow> 0 | Some buf \<Rightarrow> tb_minutesBuffer buf)
        in if gap < required
           then [\<lparr>cw_dayOfWeek = s_dayOfWeek x, cw_first = x, cw_second = y, cw_gapMinutes = gap,
                  cw_requiredMinutes = required\<rparr>]
           else [])"

fun allPairs :: "('a \<Rightarrow> 'a \<Rightarrow> 'b list) \<Rightarrow> 'a list \<Rightarrow> 'b list" where
  "allPairs f [] = []"
| "allPairs f (x # xs) = concat (map (f x) xs) @ allPairs f xs"

definition slot_before :: "course_slot_row \<Rightarrow> course_slot_row \<Rightarrow> bool" where
  "slot_before a b \<longleftrightarrow>
     s_dayOfWeek a < s_dayOfWeek b \<or>
     s_dayOfWeek a = s_dayOfWeek b \<and> s_startTime a \<le> s_startTime b"

definition getConflictReport :: "id \<Rightarrow> (db, nat \<times> conflict_warning list) exec" where
  "getConflictReport teacherId =
     bindE (findOr teachers (\<lambda>t. th_id t = teacherId) (NotFound ''Professeur introuvable'')) (\<lambda>_.
     bindE (findMany courseSlots (\<lambda>e. s_teacherId e = teacherId)) (\<lambda>rows.
     bindE (findMany travelBuffers (\<lambda>b. tb_teacherId b = teacherId)) (\<lambda>buffers.
     bindE (asks (\<lambda>s. s)) (\<lambda>s.
     let slots = sort_by slot_before rows in
     ret (length (uniq (map (slotSchool s) slots)), allPairs (slotWarning s buffers) slots)))))"

section \<open>Facts\<close>

lemma set_insert_by [simp]: "set (insert_by le x xs) = insert x (set xs)"
  by (induction xs) auto

lemma set_sort_by [simp]: "set (sort_by le xs) = set xs"
  by (induction xs) auto

lemma mset_insert_by [simp]: "mset (insert_by le x xs) = add_mset x (mset xs)"
  by (induction xs) auto

lemma mset_sort_by [simp]: "mset (sort_by le xs) = mset xs"
  by (induction xs) auto

lemma sortedPair_commute: "sortedPair a b = sortedPair b a"
  by (auto simp: sortedPair_def)

text \<open>One buffer per teacher and pair of schools: the unique key of the table.\<close>

definition uniqueBuffers :: "db \<Rightarrow> bool" where
  "uniqueBuffers s \<longleftrightarrow>
     distinct (map (\<lambda>b. (tb_teacherId b, tb_schoolAId b, tb_schoolBId b)) (travelBuffers s))"

text \<open>The other slots of the teacher that day.\<close>

definition daySlots :: "db \<Rightarrow> id \<Rightarrow> slot_time \<Rightarrow> id option \<Rightarrow> course_slot_row set" where
  "daySlots s teacherId slot excludeSlotId =
     {e \<in> set (courseSlots s). s_teacherId e = teacherId \<and> s_dayOfWeek e = sm_dayOfWeek slot \<and>
        (truthy excludeSlotId \<longrightarrow> excludeSlotId \<noteq> Some (s_id e))}"

definition requiredBuffer :: "db \<Rightarrow> id \<Rightarrow> id \<Rightarrow> id \<Rightarrow> travel_buffer_row \<Rightarrow> bool" where
  "requiredBuffer s teacherId schoolId otherId b \<longleftrightarrow>
     b \<in> set (travelBuffers s) \<and> tb_teacherId b = teacherId \<and> bufferFor (sortedPair schoolId otherId) b"

lemma isTeacherFree_state: "isTeacherFree t sc slot ex s = (r, s') \<Longrightarrow> s' = s"
  by (auto simp: isTeacherFree_def exec_simps Let_def split: if_splits)

text \<open>A gap of at least \<open>m\<close> minutes is the same as no overlap with the slot widened by \<open>m\<close>.\<close>

lemma gap_widened:
  assumes "\<not> overlaps b1 b2 e1 e2" "b1 < b2" "e1 < e2" "0 \<le> m"
  shows "(m \<le> (if 0 \<le> b1 - e2 then b1 - e2 else e1 - b2)) = (\<not> overlaps b1 b2 (e1 - m) (e2 + m))"
  using assms by (auto simp: overlaps_def)
lemma find_buffer:
  assumes "uniqueBuffers s" "schoolOther \<in> set others"
  shows "(case find (bufferFor (sortedPair schoolId schoolOther))
            (filter (\<lambda>b. tb_teacherId b = teacherId \<and>
               (\<exists>i \<in> set others. bufferFor (sortedPair schoolId i) b)) (travelBuffers s)) of
            None \<Rightarrow> True | Some b \<Rightarrow> P b) =
         (\<forall>b. requiredBuffer s teacherId schoolId schoolOther b \<longrightarrow> P b)"
proof -
  let ?bs = "filter (\<lambda>b. tb_teacherId b = teacherId \<and>
      (\<exists>i \<in> set others. bufferFor (sortedPair schoolId i) b)) (travelBuffers s)"
  have one: "b = b'" if "requiredBuffer s teacherId schoolId schoolOther b"
    "requiredBuffer s teacherId schoolId schoolOther b'" for b b'
  proof -
    let ?k = "\<lambda>b. (tb_teacherId b, tb_schoolAId b, tb_schoolBId b)"
    have "?k b = ?k b'" using that by (auto simp: requiredBuffer_def bufferFor_def dest!: sym)
    with that assms(1) show ?thesis
      unfolding uniqueBuffers_def requiredBuffer_def by (auto dest: distinct_key_eq [of ?k])
  qed
  show ?thesis
  proof (cases "find (bufferFor (sortedPair schoolId schoolOther)) ?bs")
    case None
    then have "\<not> requiredBuffer s teacherId schoolId schoolOther b" for b
      using assms(2) by (auto simp: find_None requiredBuffer_def)
    with None show ?thesis by simp
  next
    case (Some b)
    with find_Some_in [OF Some] have "requiredBuffer s teacherId schoolId schoolOther b"
      by (auto simp: requiredBuffer_def)
    with Some one show ?thesis by auto
  qed
qed

text \<open>
  C10. What a free teacher is: the check the school calendar makes answers true exactly when the
  slot meets no weekly unavailability of that day, no other slot of the teacher that day, and,
  for a slot in another school with a declared travel buffer, not even that slot extended by the
  buffer on both sides.
\<close>

theorem teacher_free_iff:
  assumes "uniqueBuffers s" "\<forall>b \<in> set (travelBuffers s). 0 \<le> tb_minutesBuffer b"
    and "toMinutes (sm_startTime slot) < toMinutes (sm_endTime slot)"
    and "\<forall>e \<in> set (courseSlots s). toMinutes (s_startTime e) < toMinutes (s_endTime e)"
  shows "isTeacherFree teacherId schoolId slot excluded s =
     (Inr ((\<forall>a \<in> set (availabilities s).
               av_teacherId a = teacherId \<and> av_dayOfWeek a = Some (sm_dayOfWeek slot) \<longrightarrow>
               \<not> rangesOverlap slot (av_startTime a) (av_endTime a)) \<and>
           (\<forall>e \<in> daySlots s teacherId slot excluded.
               \<not> rangesOverlap slot (s_startTime e) (s_endTime e) \<and>
               (slotSchool s e \<noteq> schoolId \<longrightarrow>
                  (\<forall>b. requiredBuffer s teacherId schoolId (slotSchool s e) b \<longrightarrow>
                     \<not> overlaps (toMinutes (sm_startTime slot)) (toMinutes (sm_endTime slot))
                         (toMinutes (s_startTime e) - tb_minutesBuffer b)
                         (toMinutes (s_endTime e) + tb_minutesBuffer b))))), s)"
proof -
  let ?existing = "filter (\<lambda>e. s_teacherId e = teacherId \<and> s_dayOfWeek e = sm_dayOfWeek slot \<and>
      (truthy excluded \<longrightarrow> excluded \<noteq> Some (s_id e))) (courseSlots s)"
  let ?others = "filter (\<lambda>e. slotSchool s e \<noteq> schoolId) ?existing"
  let ?ids = "uniq (map (slotSchool s) ?others)"
  let ?buffers = "filter (\<lambda>b. tb_teacherId b = teacherId \<and>
      (\<exists>i \<in> set ?ids. bufferFor (sortedPair schoolId i) b)) (travelBuffers s)"
  have day: "daySlots s teacherId slot excluded = set ?existing" by (auto simp: daySlots_def)
  have gaps: "(case find (bufferFor (sortedPair schoolId (slotSchool s e))) ?buffers of
        None \<Rightarrow> True | Some b \<Rightarrow> tb_minutesBuffer b \<le> gapMinutes slot e) =
      (\<forall>b. requiredBuffer s teacherId schoolId (slotSchool s e) b \<longrightarrow>
         \<not> overlaps (toMinutes (sm_startTime slot)) (toMinutes (sm_endTime slot))
             (toMinutes (s_startTime e) - tb_minutesBuffer b) (toMinutes (s_endTime e) + tb_minutesBuffer b))"
    if e: "e \<in> set ?others" and free: "\<not> rangesOverlap slot (s_startTime e) (s_endTime e)" for e
  proof -
    have "slotSchool s e \<in> set ?ids" using e by auto
    from find_buffer [OF assms(1) this, where P = "\<lambda>b. tb_minutesBuffer b \<le> gapMinutes slot e"
        and schoolId = schoolId and teacherId = teacherId]
    have "(case find (bufferFor (sortedPair schoolId (slotSchool s e))) ?buffers of
        None \<Rightarrow> True | Some b \<Rightarrow> tb_minutesBuffer b \<le> gapMinutes slot e) =
      (\<forall>b. requiredBuffer s teacherId schoolId (slotSchool s e) b \<longrightarrow> tb_minutesBuffer b \<le> gapMinutes slot e)" .
    moreover have "(tb_minutesBuffer b \<le> gapMinutes slot e) =
        (\<not> overlaps (toMinutes (sm_startTime slot)) (toMinutes (sm_endTime slot))
             (toMinutes (s_startTime e) - tb_minutesBuffer b) (toMinutes (s_endTime e) + tb_minutesBuffer b))"
      if "requiredBuffer s teacherId schoolId (slotSchool s e) b" for b
      using free assms(2-4) e that unfolding gapMinutes_def Let_def
      by (intro gap_widened) (auto simp: rangesOverlap_def requiredBuffer_def)
    ultimately show ?thesis by auto
  qed
  have all: "(\<forall>e \<in> set ?others. case find (bufferFor (sortedPair schoolId (slotSchool s e))) ?buffers of
        None \<Rightarrow> True | Some b \<Rightarrow> tb_minutesBuffer b \<le> gapMinutes slot e) =
      (\<forall>e \<in> set ?existing. slotSchool s e \<noteq> schoolId \<longrightarrow>
        (\<forall>b. requiredBuffer s teacherId schoolId (slotSchool s e) b \<longrightarrow>
         \<not> overlaps (toMinutes (sm_startTime slot)) (toMinutes (sm_endTime slot))
             (toMinutes (s_startTime e) - tb_minutesBuffer b) (toMinutes (s_endTime e) + tb_minutesBuffer b)))"
    if "\<forall>e \<in> set ?existing. \<not> rangesOverlap slot (s_startTime e) (s_endTime e)"
    using gaps that by (simp only: set_filter mem_Collect_eq Ball_def) blast
  have run: "isTeacherFree teacherId schoolId slot excluded s =
      (Inr ((\<forall>a \<in> set (availabilities s).
               av_teacherId a = teacherId \<and> av_dayOfWeek a = Some (sm_dayOfWeek slot) \<longrightarrow>
               \<not> rangesOverlap slot (av_startTime a) (av_endTime a)) \<and>
            (\<forall>e \<in> set ?existing. \<not> rangesOverlap slot (s_startTime e) (s_endTime e)) \<and>
            (\<forall>e \<in> set ?others. case find (bufferFor (sortedPair schoolId (slotSchool s e))) ?buffers of
               None \<Rightarrow> True | Some b \<Rightarrow> tb_minutesBuffer b \<le> gapMinutes slot e)), s)"
    unfolding isTeacherFree_def Let_def bindE_run findMany_run asks_run
    by (auto simp: ret_run)
  show ?thesis unfolding run day using all by auto
qed

definition sample_slot_time :: slot_time where
  "sample_slot_time = \<lparr>sm_dayOfWeek = 1, sm_startTime = ''10:00'', sm_endTime = ''12:00''\<rparr>"

definition sample_slot :: "id \<Rightarrow> id \<Rightarrow> string \<Rightarrow> string \<Rightarrow> course_slot_row" where
  "sample_slot i c b e =
     \<lparr>s_id = i, s_courseId = c, s_teacherId = ''t1'', s_dayOfWeek = 1, s_startTime = b,
      s_endTime = e, s_room = ''R1''\<rparr>"

definition sample_teaching_db :: "course_slot_row list \<Rightarrow> db" where
  "sample_teaching_db slots =
     empty_db\<lparr>courseSlots := slots,
              travelBuffers := [\<lparr>tb_id = ''b1'', tb_teacherId = ''t1'', tb_schoolAId = ''sc1'',
                                 tb_schoolBId = ''sc2'', tb_minutesBuffer = 30\<rparr>]\<rparr>"

theorem teacher_free_iff_witness:
  "\<exists>free. isTeacherFree ''t1'' ''sc1'' sample_slot_time None
       (sample_teaching_db [sample_slot ''e1'' ''c1'' ''08:00'' ''09:00'']) =
     (Inr free, sample_teaching_db [sample_slot ''e1'' ''c1'' ''08:00'' ''09:00''])"
proof -
  have "uniqueBuffers (sample_teaching_db slots)" for slots
    by (simp add: uniqueBuffers_def sample_teaching_db_def)
  from teacher_free_iff [OF this, of "[sample_slot ''e1'' ''c1'' ''08:00'' ''09:00'']"
      sample_slot_time "''t1''" "''sc1''" None]
  show ?thesis
    by (auto simp: sample_teaching_db_def sample_slot_time_def sample_slot_def toMinutes_def Let_def
        read_nat_def digit_value_def)
qed

end
