(* ===== verification/Course_Slots.thy ===== *)
theory Course_Slots
  imports Teacher_Availability Enrollment
begin

text \<open>
  The courses of a school and their weekly lessons (\<open>school/school.service.ts\<close>:
  \<open>createCourse\<close>, \<open>updateCourse\<close>, \<open>getCourses\<close>, \<open>getSchedule\<close>, \<open>createCourseSlot\<close>,
  \<open>updateCourseSlot\<close>, \<open>deleteCourseSlot\<close>) with the constraints of the table \<open>course_slots\<close>.
  The timetable never has two lessons of a teacher, or two lessons of a school in one room,
  at the same time. The columns \<open>description\<close>, \<open>room\<close> and \<open>schedule\<close> of a course are not kept.
\<close>

section \<open>Requests\<close>

record slot_dto =
  sd_dayOfWeek :: int
  sd_startTime :: string
  sd_endTime :: string
  sd_room :: string

record slot_patch =
  sp_dayOfWeek :: "int option"
  sp_startTime :: "string option"
  sp_endTime :: "string option"
  sp_room :: "string option"

record course_dto =
  cd_teacherId :: id
  cd_code :: string
  cd_subjectId :: id
  cd_programId :: id
  cd_programLevel :: int
  cd_group :: "string option"
  cd_credits :: "int option"
  cd_isPublished :: "bool option"

record course_patch =
  cp_teacherId :: "id option"
  cp_code :: "string option"
  cp_subjectId :: "id option"
  cp_programId :: "id option"
  cp_programLevel :: "int option"
  cp_group :: "string option"
  cp_credits :: "int option"
  cp_isPublished :: "bool option"

section \<open>The constraints of the tables\<close>

text \<open>
  \<open>course_slots\<close>: the primary key, the unique key on course, day, times and room, and the
  exclusion constraint \<open>no_teacher_double_booking\<close> on the half-open ranges of minutes
  (empty ranges meet nothing; a range whose end precedes its start is an error).
\<close>

definition slotClash :: "course_slot_row \<Rightarrow> course_slot_row \<Rightarrow> bool" where
  "slotClash a b \<longleftrightarrow>
     s_id a = s_id b \<or>
     (s_courseId a = s_courseId b \<and> s_dayOfWeek a = s_dayOfWeek b \<and>
      s_startTime a = s_startTime b \<and> s_endTime a = s_endTime b \<and> s_room a = s_room b)"

definition startMin :: "course_slot_row \<Rightarrow> int" where
  "startMin e = toMinutes (s_startTime e)"

definition endMin :: "course_slot_row \<Rightarrow> int" where
  "endMin e = toMinutes (s_endTime e)"

definition doubleBooked :: "course_slot_row \<Rightarrow> course_slot_row \<Rightarrow> bool" where
  "doubleBooked a b \<longleftrightarrow>
     s_teacherId a = s_teacherId b \<and> s_dayOfWeek a = s_dayOfWeek b \<and>
     startMin a < endMin a \<and> startMin b < endMin b \<and>
     overlaps (startMin a) (endMin a) (startMin b) (endMin b)"

definition checkSlots :: "course_slot_row list \<Rightarrow> (db, unit) exec" where
  "checkSlots rows =
     thenE (require (\<forall>e \<in> set rows. startMin e \<le> endMin e) (Failure ''22000''))
     (thenE (require (sorted_wrt (\<lambda>a b. \<not> slotClash a b) rows) (Failure ''P2002''))
     (require (sorted_wrt (\<lambda>a b. \<not> doubleBooked a b) rows)
        (Failure ''no_teacher_double_booking'')))"

text \<open>A statement that writes the table: it is refused as a whole when a constraint fails.\<close>

definition writeSlots :: "(course_slot_row list \<Rightarrow> course_slot_row list) \<Rightarrow> (db, unit) exec" where
  "writeSlots f =
     bindE (asks (\<lambda>s. f (courseSlots s))) (\<lambda>rows.
     thenE (checkSlots rows) (modify (courseSlots_update (\<lambda>_. rows))))"

definition translateExclusionConstraintError :: "error \<Rightarrow> error option" where
  "translateExclusionConstraintError e =
     (if e = Failure ''no_teacher_double_booking''
      then Some (BadRequest ''Ce professeur vient d'etre reserve sur ce creneau'') else None)"

definition translated :: "(db, 'a) exec \<Rightarrow> (db, 'a) exec" where
  "translated m = catchE m (\<lambda>e. throw (nullish (translateExclusionConstraintError e) e))"

text \<open>\<open>courses\<close>: two null groups, or two null requirements, are different to the unique keys.\<close>

definition courseClash :: "course_row \<Rightarrow> course_row \<Rightarrow> bool" where
  "courseClash a b \<longleftrightarrow>
     c_id a = c_id b \<or>
     (c_schoolId a = c_schoolId b \<and> c_code a = c_code b \<and> c_group a = c_group b \<and> c_group a \<noteq> None) \<or>
     (c_subjectRequirementId a = c_subjectRequirementId b \<and> c_subjectRequirementId a \<noteq> None)"

section \<open>Guards\<close>

definition ensureSchoolCourse :: "id \<Rightarrow> id \<Rightarrow> (db, course_row) exec" where
  "ensureSchoolCourse schoolId courseId =
     findOr courses (\<lambda>c. c_id c = courseId \<and> c_schoolId c = schoolId) (NotFound ''Course not found'')"

definition assertSlotTimes :: "string \<Rightarrow> string \<Rightarrow> (db, unit) exec" where
  "assertSlotTimes startTime endTime =
     require (\<not> endTime \<le> startTime)
       (BadRequest ''L'heure de fin doit etre posterieure a l'heure de debut'')"

definition ensureNoRoomConflict :: "id \<Rightarrow> slot_dto \<Rightarrow> id option \<Rightarrow> (db, unit) exec" where
  "ensureNoRoomConflict schoolId slot excludedSlotId =
     bindE (asks slotSchool) (\<lambda>school.
     bindE (findFirst courseSlots (\<lambda>e.
              (truthy excludedSlotId \<longrightarrow> excludedSlotId \<noteq> Some (s_id e)) \<and>
              s_dayOfWeek e = sd_dayOfWeek slot \<and> s_room e = sd_room slot \<and>
              s_startTime e < sd_endTime slot \<and> sd_startTime slot < s_endTime e \<and>
              school e = schoolId)) (\<lambda>conflict.
     require (conflict = None)
       (BadRequest ''Ce creneau chevauche deja un autre cours dans cette salle'')))"

definition ensureActiveTeacherAssignment :: "id \<Rightarrow> id \<Rightarrow> (db, unit) exec" where
  "ensureActiveTeacherAssignment schoolId teacherId =
     bindE (findFirst teacherSchools
              (\<lambda>t. ts_schoolId t = schoolId \<and> ts_teacherId t = teacherId \<and> ts_isActive t))
       (\<lambda>assignment.
     require (assignment \<noteq> None)
       (Forbidden ''Le professeur doit etre activement affecte a cet etablissement''))"

definition slotTime :: "slot_dto \<Rightarrow> slot_time" where
  "slotTime dto =
     \<lparr>sm_dayOfWeek = sd_dayOfWeek dto, sm_startTime = sd_startTime dto, sm_endTime = sd_endTime dto\<rparr>"

section \<open>Lessons\<close>

definition notifyTeacherScheduleChange ::
  "mail_config \<Rightarrow> time \<Rightarrow> id \<Rightarrow> string \<Rightarrow> (db, unit) exec" where
  "notifyTeacherScheduleChange C now teacherId action =
     bindE (findFirst teachers (\<lambda>t. th_id t = teacherId)) (\<lambda>teacher.
     case teacher of
       None \<Rightarrow> ret ()
     | Some t \<Rightarrow>
         thenE (sendInAppBatch C now [th_userId t] ''Emploi du temps mis a jour''
                  (''Un creneau a ete '' @ action @ '' dans votre emploi du temps.'')) (ret ()))"

definition insertLesson ::
  "mail_config \<Rightarrow> time \<Rightarrow> course_slot_row \<Rightarrow> (db, course_slot_row) exec" where
  "insertLesson C now slot =
     thenE (translated (writeSlots (\<lambda>rows. rows @ [slot])))
     (thenE (notifyTeacherScheduleChange C now (s_teacherId slot) ''ajoute'')
     (ret slot))"

definition createCourseSlot ::
  "mail_config \<Rightarrow> time \<Rightarrow> id \<Rightarrow> id \<Rightarrow> slot_dto \<Rightarrow> (db, course_slot_row) exec" where
  "createCourseSlot C now schoolId courseId dto =
     bindE (ensureSchoolCourse schoolId courseId) (\<lambda>course.
     thenE (assertSlotTimes (sd_startTime dto) (sd_endTime dto))
     (thenE (ensureNoRoomConflict schoolId dto None)
     (thenE (assertTeacherFreeOrThrow (c_teacherId course) schoolId (slotTime dto) None)
     (bindE (newId (mailUuid C)) (\<lambda>i.
      insertLesson C now
        \<lparr>s_id = i, s_courseId = courseId, s_teacherId = c_teacherId course,
         s_dayOfWeek = sd_dayOfWeek dto, s_startTime = sd_startTime dto,
         s_endTime = sd_endTime dto, s_room = sd_room dto\<rparr>)))))"

definition patchSlot :: "slot_patch \<Rightarrow> course_slot_row \<Rightarrow> course_slot_row" where
  "patchSlot dto e =
     e\<lparr>s_dayOfWeek := nullish (sp_dayOfWeek dto) (s_dayOfWeek e),
       s_startTime := nullish (sp_startTime dto) (s_startTime e),
       s_endTime := nullish (sp_endTime dto) (s_endTime e),
       s_room := nullish (sp_room dto) (s_room e)\<rparr>"

definition candidateSlot :: "slot_patch \<Rightarrow> course_slot_row \<Rightarrow> slot_dto" where
  "candidateSlot dto e =
     \<lparr>sd_dayOfWeek = nullish (sp_dayOfWeek dto) (s_dayOfWeek e),
      sd_startTime = nullish (sp_startTime dto) (s_startTime e),
      sd_endTime = nullish (sp_endTime dto) (s_endTime e),
      sd_room = nullish (sp_room dto) (s_room e)\<rparr>"

definition updateCourseSlot ::
  "mail_config \<Rightarrow> time \<Rightarrow> id \<Rightarrow> id \<Rightarrow> id \<Rightarrow> slot_patch \<Rightarrow> (db, course_slot_row) exec" where
  "updateCourseSlot C now schoolId courseId slotId dto =
     bindE (ensureSchoolCourse schoolId courseId) (\<lambda>course.
     bindE (findOr courseSlots (\<lambda>e. s_id e = slotId \<and> s_courseId e = courseId)
              (NotFound ''Course slot not found'')) (\<lambda>slot.
     let candidate = candidateSlot dto slot in
     thenE (assertSlotTimes (sd_startTime candidate) (sd_endTime candidate))
     (thenE (ensureNoRoomConflict schoolId candidate (Some slotId))
     (thenE (assertTeacherFreeOrThrow (c_teacherId course) schoolId (slotTime candidate) (Some slotId))
     (thenE (translated (writeSlots (update_rows (\<lambda>e. s_id e = slotId) (patchSlot dto))))
     (thenE (notifyTeacherScheduleChange C now (c_teacherId course) ''modifie'')
     (ret (patchSlot dto slot))))))))"

definition deleteCourseSlot ::
  "mail_config \<Rightarrow> time \<Rightarrow> id \<Rightarrow> id \<Rightarrow> id \<Rightarrow> (db, course_slot_row) exec" where
  "deleteCourseSlot C now schoolId courseId slotId =
     bindE (ensureSchoolCourse schoolId courseId) (\<lambda>course.
     bindE (findOr courseSlots (\<lambda>e. s_id e = slotId \<and> s_courseId e = courseId)
              (NotFound ''Course slot not found'')) (\<lambda>slot.
     thenE (deleteMany courseSlots courseSlots_update (\<lambda>e. s_id e = slotId))
     (thenE (notifyTeacherScheduleChange C now (c_teacherId course) ''annule'')
     (ret slot))))"

definition getSchedule :: "id \<Rightarrow> (db, course_slot_row list) exec" where
  "getSchedule schoolId =
     bindE (asks slotSchool) (\<lambda>school.
     bindE (findMany courseSlots (\<lambda>e. school e = schoolId)) (\<lambda>rows.
     ret (sort_by slot_before rows)))"

section \<open>Courses\<close>

definition getCourses :: "id \<Rightarrow> (db, course_row list) exec" where
  "getCourses schoolId =
     bindE (findMany courses (\<lambda>c. c_schoolId c = schoolId)) (\<lambda>rows.
     ret (sort_by (\<lambda>a b. c_title a \<le> c_title b) rows))"

definition levelName :: "int \<Rightarrow> program_row \<Rightarrow> string" where
  "levelName n program = ''Annee '' @ show_int n @ '' - '' @ pr_name program"

definition createCourse :: "mail_config \<Rightarrow> id \<Rightarrow> course_dto \<Rightarrow> (db, course_row) exec" where
  "createCourse C schoolId dto =
     thenE (ensureActiveTeacherAssignment schoolId (cd_teacherId dto))
     (bindE (findFirst subjects (\<lambda>j. sj_id j = cd_subjectId dto \<and> sj_schoolId j = schoolId \<and> sj_isActive j))
       (\<lambda>subject.
     bindE (findFirst programs (\<lambda>p. pr_id p = cd_programId dto \<and> pr_schoolId p = schoolId \<and> pr_isActive p))
       (\<lambda>program.
     case (subject, program) of
       (Some j, Some p) \<Rightarrow>
         thenE (require (\<not> pr_durationYears p < cd_programLevel dto)
                  (BadRequest ''Ce programme ne compte pas autant d'annees''))
         (bindE (newId (mailUuid C)) (\<lambda>i.
          insertRow courses courses_update courseClash
            \<lparr>c_id = i, c_schoolId = schoolId, c_teacherId = cd_teacherId dto, c_code = cd_code dto,
             c_title = sj_name j, c_level = levelName (cd_programLevel dto) p,
             c_subjectId = Some (sj_id j), c_programId = Some (pr_id p),
             c_programLevel = Some (cd_programLevel dto), c_group = cd_group dto,
             c_credits = nullish (cd_credits dto) 0, c_isPublished = nullish (cd_isPublished dto) True,
             c_subjectRequirementId = None, c_welcomeMessage = None,
             c_allowGroupMessages = True, c_notifyOnPublish = True\<rparr>))
     | _ \<Rightarrow> throw (NotFound ''Matiere ou filiere introuvable''))))"

definition activelyEnrolled :: "db \<Rightarrow> id \<Rightarrow> id \<Rightarrow> bool" where
  "activelyEnrolled s schoolId studentId \<longleftrightarrow>
     (\<exists>x \<in> set (students s). st_id x = studentId \<and> st_deletedAt x = None) \<and>
     (\<exists>e \<in> set (enrollments s).
        e_studentId e = studentId \<and> e_schoolId e = schoolId \<and> e_status e = ACTIVE)"

definition patchCourse ::
  "id \<Rightarrow> subject_row option \<Rightarrow> program_row option \<Rightarrow> course_patch \<Rightarrow> course_row \<Rightarrow> course_row" where
  "patchCourse teacherId subject program dto c =
     c\<lparr>c_teacherId := teacherId, c_code := nullish (cp_code dto) (c_code c),
       c_title := (case subject of None \<Rightarrow> c_title c | Some j \<Rightarrow> sj_name j),
       c_subjectId := (case cp_subjectId dto of None \<Rightarrow> c_subjectId c | Some i \<Rightarrow> Some i),
       c_programId := (case cp_programId dto of None \<Rightarrow> c_programId c | Some i \<Rightarrow> Some i),
       c_programLevel := (case cp_programLevel dto of None \<Rightarrow> c_programLevel c | Some n \<Rightarrow> Some n),
       c_level := (case (program, cp_programLevel dto) of
                     (Some p, Some n) \<Rightarrow> if n \<noteq> 0 then levelName n p else c_level c
                   | _ \<Rightarrow> c_level c),
       c_group := (case cp_group dto of None \<Rightarrow> c_group c | Some g \<Rightarrow> Some g),
       c_credits := nullish (cp_credits dto) (c_credits c),
       c_isPublished := nullish (cp_isPublished dto) (c_isPublished c)\<rparr>"

definition writeCourses :: "(course_row list \<Rightarrow> course_row list) \<Rightarrow> (db, unit) exec" where
  "writeCourses f =
     bindE (asks (\<lambda>s. f (courses s))) (\<lambda>rows.
     thenE (require (sorted_wrt (\<lambda>a b. \<not> courseClash a b) rows) (Failure ''P2002''))
     (modify (courses_update (\<lambda>_. rows))))"

definition prepareCourseUpdate ::
  "id \<Rightarrow> id \<Rightarrow> course_patch \<Rightarrow> (db, course_row \<times> id \<times> subject_row option \<times> program_row option) exec" where
  "prepareCourseUpdate schoolId courseId dto =
     bindE (ensureSchoolCourse schoolId courseId) (\<lambda>course.
     thenE (whenE (cp_isPublished dto = Some False)
              (bindE (asks activelyEnrolled) (\<lambda>active.
               bindE (countRows courseEnrollments
                        (\<lambda>e. ce_courseId e = courseId \<and> active schoolId (ce_studentId e))) (\<lambda>n.
               require (n = 0)
                 (BadRequest ''Impossible de desactiver ce cours : des etudiants y sont encore inscrits.'')))))
     (let teacherId = nullish (cp_teacherId dto) (c_teacherId course) in
      thenE (ensureActiveTeacherAssignment schoolId teacherId)
      (bindE (if truthy (cp_subjectId dto)
              then findFirst subjects
                     (\<lambda>j. Some (sj_id j) = cp_subjectId dto \<and> sj_schoolId j = schoolId \<and> sj_isActive j)
              else ret None) (\<lambda>subject.
       bindE (if truthy (cp_programId dto)
              then findFirst programs
                     (\<lambda>p. Some (pr_id p) = cp_programId dto \<and> pr_schoolId p = schoolId \<and> pr_isActive p)
              else ret None) (\<lambda>program.
       thenE (require (\<not> (truthy (cp_subjectId dto) \<and> subject = None \<or>
                          truthy (cp_programId dto) \<and> program = None))
                (NotFound ''Matiere ou filiere introuvable''))
       (ret (course, teacherId, subject, program)))))))"

definition moveLessons :: "id \<Rightarrow> id \<Rightarrow> (db, unit) exec" where
  "moveLessons courseId teacherId =
     translated (writeSlots
       (update_rows (\<lambda>e. s_courseId e = courseId) (\<lambda>e. e\<lparr>s_teacherId := teacherId\<rparr>)))"

definition updateCourse :: "id \<Rightarrow> id \<Rightarrow> course_patch \<Rightarrow> (db, course_row) exec" where
  "updateCourse schoolId courseId dto =
     bindE (prepareCourseUpdate schoolId courseId dto) (\<lambda>(course, teacherId, subject, program).
     thenE (writeCourses (update_rows (\<lambda>c. c_id c = courseId)
              (patchCourse teacherId subject program dto)))
     (thenE (whenE (truthy (cp_teacherId dto) \<and> cp_teacherId dto \<noteq> Some (c_teacherId course))
               (moveLessons courseId teacherId))
     (ret (patchCourse teacherId subject program dto course))))"

section \<open>The timetable\<close>

definition orderedTimes :: "course_slot_row \<Rightarrow> bool" where
  "orderedTimes e \<longleftrightarrow>
     timeOk (s_startTime e) \<and> timeOk (s_endTime e) \<and> s_startTime e < s_endTime e"

text \<open>Two different lessons of one school in one room do not overlap.\<close>

definition sameRoom :: "db \<Rightarrow> course_slot_row \<Rightarrow> course_slot_row \<Rightarrow> bool" where
  "sameRoom s a b \<longleftrightarrow>
     slotSchool s a = slotSchool s b \<and> s_dayOfWeek a = s_dayOfWeek b \<and> s_room a = s_room b"

definition textOverlap :: "course_slot_row \<Rightarrow> course_slot_row \<Rightarrow> bool" where
  "textOverlap a b \<longleftrightarrow> s_startTime a < s_endTime b \<and> s_startTime b < s_endTime a"

definition roomsOk :: "db \<Rightarrow> bool" where
  "roomsOk s \<longleftrightarrow>
     (\<forall>a \<in> set (courseSlots s). \<forall>b \<in> set (courseSlots s).
        s_id a \<noteq> s_id b \<longrightarrow> sameRoom s a b \<longrightarrow> \<not> textOverlap a b)"

definition coursesOk :: "db \<Rightarrow> bool" where
  "coursesOk s \<longleftrightarrow>
     distinct (map c_id (courses s)) \<and>
     (\<forall>e \<in> set (courseSlots s). orderedTimes e \<and> s_courseId e \<in> c_id ` set (courses s))"

definition teachersOk :: "db \<Rightarrow> bool" where
  "teachersOk s \<longleftrightarrow>
     sorted_wrt (\<lambda>a b. \<not> slotClash a b) (courseSlots s) \<and>
     sorted_wrt (\<lambda>a b. \<not> doubleBooked a b) (courseSlots s)"

definition timetableInv :: "db \<Rightarrow> bool" where
  "timetableInv s \<longleftrightarrow> coursesOk s \<and> teachersOk s \<and> roomsOk s"

lemmas timetable_defs = timetableInv_def coursesOk_def teachersOk_def roomsOk_def

lemma textOverlap_commute: "textOverlap a b = textOverlap b a"
  by (auto simp: textOverlap_def)

lemma sameRoom_commute: "sameRoom s a b = sameRoom s b a"
  by (auto simp: sameRoom_def)

lemma timetableInv_same:
  "courses t = courses s \<Longrightarrow> courseSlots t = courseSlots s \<Longrightarrow> timetableInv t = timetableInv s"
  by (simp add: timetable_defs sameRoom_def slotSchool_def)

lemma timetable_frame:
  assumes "core t = core s"
  shows "keeps timetableInv s t"
  using timetableInv_same [OF core_fields(13) [OF assms] core_fields(14) [OF assms]]
  by (simp add: keeps_def)

text \<open>A write of the table is refused, or its new content satisfies the constraints.\<close>

lemma writeSlots_run:
  "writeSlots f s =
     (if (\<forall>e \<in> set (f (courseSlots s)). startMin e \<le> endMin e)
      then if sorted_wrt (\<lambda>a b. \<not> slotClash a b) (f (courseSlots s))
        then if sorted_wrt (\<lambda>a b. \<not> doubleBooked a b) (f (courseSlots s))
          then (Inr (), s\<lparr>courseSlots := f (courseSlots s)\<rparr>)
          else (Inl (Failure ''no_teacher_double_booking''), s)
        else (Inl (Failure ''P2002''), s)
      else (Inl (Failure ''22000''), s))"
  by (simp add: writeSlots_def checkSlots_def exec_simps)

lemma translated_state: "snd (translated m s) = snd (m s)"
  by (simp add: translated_def exec_simps split: prod.splits sum.splits)

lemma translated_ok: "translated m s = (Inr x, t) \<Longrightarrow> m s = (Inr x, t)"
  by (auto simp: translated_def exec_simps split: prod.splits sum.splits)

lemma keeps_writeSlots:
  assumes "timetableInv s \<Longrightarrow> teachersOk (s\<lparr>courseSlots := f (courseSlots s)\<rparr>) \<Longrightarrow>
      coursesOk (s\<lparr>courseSlots := f (courseSlots s)\<rparr>) \<and> roomsOk (s\<lparr>courseSlots := f (courseSlots s)\<rparr>)"
  shows "steps (keeps timetableInv) (translated (writeSlots f)) s"
  using assms
  by (auto simp: steps_def translated_state writeSlots_run keeps_def timetableInv_def teachersOk_def)

lemma distinct_ids: "sorted_wrt (\<lambda>a b. \<not> slotClash a b) xs \<Longrightarrow> distinct (map s_id xs)"
  by (induction xs) (auto simp: slotClash_def)

lemma timetable_distinct: "timetableInv s \<Longrightarrow> distinct (map s_id (courseSlots s))"
  by (auto simp: timetable_defs intro: distinct_ids)

lemma slotSchool_slots [simp]: "slotSchool (s\<lparr>courseSlots := x\<rparr>) = slotSchool s"
  by (simp add: fun_eq_iff slotSchool_def)

lemma sameRoom_slots [simp]: "sameRoom (s\<lparr>courseSlots := x\<rparr>) = sameRoom s"
  by (simp add: fun_eq_iff sameRoom_def)

text \<open>The school of a lesson of the course a request names.\<close>

lemma slotSchool_course:
  assumes "distinct (map c_id (courses s))" "c \<in> set (courses s)" "s_courseId e = c_id c"
  shows "slotSchool s e = c_schoolId c"
  using assms find_key [OF assms(1,2)] by (simp add: slotSchool_def)

lemma ensureSchoolCourse_ok:
  "ensureSchoolCourse schoolId courseId s = (Inr c, t) \<Longrightarrow>
   t = s \<and> c \<in> set (courses s) \<and> c_id c = courseId \<and> c_schoolId c = schoolId"
  by (auto simp: ensureSchoolCourse_def exec_simps split: option.splits dest: find_Some_in)

lemma assertSlotTimes_ok: "assertSlotTimes a b s = (Inr u, t) \<Longrightarrow> t = s \<and> a < b"
  by (auto simp: assertSlotTimes_def exec_simps split: if_splits)

lemma ensureNoRoomConflict_ok:
  assumes "ensureNoRoomConflict schoolId dto ex s = (Inr u, t)"
  shows "t = s \<and> (\<forall>e \<in> set (courseSlots s).
      (truthy ex \<longrightarrow> ex \<noteq> Some (s_id e)) \<longrightarrow> s_dayOfWeek e = sd_dayOfWeek dto \<longrightarrow>
      s_room e = sd_room dto \<longrightarrow> slotSchool s e = schoolId \<longrightarrow>
      \<not> (s_startTime e < sd_endTime dto \<and> sd_startTime dto < s_endTime e))"
  using assms
  by (auto simp: ensureNoRoomConflict_def exec_simps find_None split: if_splits)

lemma assertTeacherFree_ok:
  assumes "assertTeacherFreeOrThrow t sc slot ex s = (Inr u, s')"
  shows "s' = s \<and> isTeacherFree t sc slot ex s = (Inr True, s)"
proof -
  obtain r s1 where r: "isTeacherFree t sc slot ex s = (r, s1)" by (cases "isTeacherFree t sc slot ex s")
  with isTeacherFree_state [OF r] assms show ?thesis
    by (auto simp: assertTeacherFreeOrThrow_def exec_simps split: sum.splits if_splits)
qed

lemma assertTeacherFree_state: "snd (assertTeacherFreeOrThrow t sc slot ex s) = s"
proof -
  obtain r s1 where r: "isTeacherFree t sc slot ex s = (r, s1)" by (cases "isTeacherFree t sc slot ex s")
  with isTeacherFree_state [OF r] show ?thesis
    by (auto simp: assertTeacherFreeOrThrow_def exec_simps split: sum.splits)
qed

lemma core_notifyTeacher: "steps (frames core) (notifyTeacherScheduleChange C now i a) s"
  unfolding notifyTeacherScheduleChange_def by (intro step_rules core_sendInAppBatch)

interpretation lessonMail: confined "\<lambda>(i, a). notifyTeacherScheduleChange C now i a" for C now
  by unfold_locales (auto intro: core_notifyTeacher)

lemma keeps_notifyTeacher: "steps (keeps timetableInv) (notifyTeacherScheduleChange C now i a) s"
  using lessonMail.steps_call [of "keeps timetableInv" C now "(i, a)" s] timetable_frame by simp

lemma keeps_guards [step_rules]:
  "steps (keeps timetableInv) (ensureSchoolCourse schoolId courseId) s"
  "steps (keeps timetableInv) (assertSlotTimes a b) s"
  "steps (keeps timetableInv) (ensureNoRoomConflict schoolId dto ex) s"
  "steps (keeps timetableInv) (assertTeacherFreeOrThrow t sc slot ex) s"
  "steps (keeps timetableInv) (ensureActiveTeacherAssignment schoolId teacherId) s"
  by (simp_all add: steps_def keeps_def assertTeacherFree_state ensureSchoolCourse_def
      assertSlotTimes_def ensureNoRoomConflict_def ensureActiveTeacherAssignment_def exec_simps
      split: option.splits)

lemma keeps_newId: "steps (keeps timetableInv) (newId uuid) s"
  using timetableInv_same [of "s\<lparr>seqNo := Suc (seqNo s)\<rparr>" s] by (simp add: steps_def keeps_def exec_simps)

text \<open>Creating, changing and removing a lesson.\<close>

lemma roomsOk_slots:
  "roomsOk (s\<lparr>courseSlots := xs\<rparr>) \<longleftrightarrow>
     (\<forall>a \<in> set xs. \<forall>b \<in> set xs. s_id a \<noteq> s_id b \<longrightarrow> sameRoom s a b \<longrightarrow> \<not> textOverlap a b)"
  by (simp add: roomsOk_def sameRoom_def)

lemma keeps_addSlot:
  assumes "c \<in> set (courses s)" "s_courseId e = c_id c" "orderedTimes e"
    "\<forall>x \<in> set (courseSlots s). s_dayOfWeek x = s_dayOfWeek e \<longrightarrow> s_room x = s_room e \<longrightarrow>
       slotSchool s x = c_schoolId c \<longrightarrow> \<not> (s_startTime x < s_endTime e \<and> s_startTime e < s_endTime x)"
  shows "steps (keeps timetableInv) (translated (writeSlots (\<lambda>rows. rows @ [e]))) s"
proof (rule keeps_writeSlots, intro conjI)
  assume inv: "timetableInv s"
  then have school: "slotSchool s e = c_schoolId c"
    using assms(1,2) by (intro slotSchool_course) (auto simp: timetable_defs)
  show "coursesOk (s\<lparr>courseSlots := courseSlots s @ [e]\<rparr>)"
    using inv assms(1-3) by (auto simp: timetable_defs)
  show "roomsOk (s\<lparr>courseSlots := courseSlots s @ [e]\<rparr>)"
    using inv assms(4) school unfolding roomsOk_slots
    by (auto simp: timetableInv_def roomsOk_def sameRoom_def textOverlap_def)
qed

lemma keeps_createCourseSlot:
  assumes "timeOk (sd_startTime dto)" "timeOk (sd_endTime dto)"
  shows "steps (keeps timetableInv) (createCourseSlot C now schoolId courseId dto) s"
  unfolding createCourseSlot_def insertLesson_def
proof (intro step_rules keeps_newId keeps_notifyTeacher)
  fix c s1 u1 s2 u2 s3 u3 s4 i s5
  assume "ensureSchoolCourse schoolId courseId s = (Inr c, s1)"
    "assertSlotTimes (sd_startTime dto) (sd_endTime dto) s1 = (Inr u1, s2)"
    "ensureNoRoomConflict schoolId dto None s2 = (Inr u2, s3)"
    "assertTeacherFreeOrThrow (c_teacherId c) schoolId (slotTime dto) None s3 = (Inr u3, s4)"
    "newId (mailUuid C) s4 = (Inr i, s5)"
  then have s5: "s5 = s\<lparr>seqNo := Suc (seqNo s)\<rparr>" and c: "c \<in> set (courses s)" "c_id c = courseId"
    "c_schoolId c = schoolId" and lt: "sd_startTime dto < sd_endTime dto"
    and room: "\<forall>e \<in> set (courseSlots s). s_dayOfWeek e = sd_dayOfWeek dto \<longrightarrow>
      s_room e = sd_room dto \<longrightarrow> slotSchool s e = schoolId \<longrightarrow>
      \<not> (s_startTime e < sd_endTime dto \<and> sd_startTime dto < s_endTime e)"
    by (auto simp: exec_simps dest!: ensureSchoolCourse_ok assertSlotTimes_ok
        ensureNoRoomConflict_ok assertTeacherFree_ok)
  have same: "slotSchool (s\<lparr>seqNo := n\<rparr>) = slotSchool s" for n
    by (simp add: fun_eq_iff slotSchool_def)
  show "steps (keeps timetableInv) (translated (writeSlots (\<lambda>rows. rows @
      [\<lparr>s_id = i, s_courseId = courseId, s_teacherId = c_teacherId c, s_dayOfWeek = sd_dayOfWeek dto,
        s_startTime = sd_startTime dto, s_endTime = sd_endTime dto, s_room = sd_room dto\<rparr>]))) s5"
    using assms c lt room unfolding s5
    by (intro keeps_addSlot [of c]) (auto simp: same orderedTimes_def)
qed

lemma patchSlot_simps [simp]:
  "s_id (patchSlot dto e) = s_id e"
  "s_courseId (patchSlot dto e) = s_courseId e"
  "s_teacherId (patchSlot dto e) = s_teacherId e"
  "s_dayOfWeek (patchSlot dto e) = sd_dayOfWeek (candidateSlot dto e)"
  "s_startTime (patchSlot dto e) = sd_startTime (candidateSlot dto e)"
  "s_endTime (patchSlot dto e) = sd_endTime (candidateSlot dto e)"
  "s_room (patchSlot dto e) = sd_room (candidateSlot dto e)"
  by (simp_all add: patchSlot_def candidateSlot_def)

lemma slotSchool_cong: "s_courseId a = s_courseId b \<Longrightarrow> slotSchool s a = slotSchool s b"
  by (simp add: slotSchool_def)

lemma keeps_patchSlot:
  assumes "e \<in> set (courseSlots s)" "s_id e = i" "c \<in> set (courses s)" "s_courseId e = c_id c"
    "orderedTimes e'" "s_id e' = i" "s_courseId e' = s_courseId e"
    "\<forall>x \<in> set (courseSlots s). s_id x \<noteq> i \<longrightarrow> s_dayOfWeek x = s_dayOfWeek e' \<longrightarrow> s_room x = s_room e' \<longrightarrow>
       slotSchool s x = c_schoolId c \<longrightarrow> \<not> (s_startTime x < s_endTime e' \<and> s_startTime e' < s_endTime x)"
    "f e = e'"
  shows "steps (keeps timetableInv) (translated (writeSlots (update_rows (\<lambda>x. s_id x = i) f))) s"
proof (rule keeps_writeSlots, intro conjI)
  assume inv: "timetableInv s"
  note ids = timetable_distinct [OF inv]
  have school: "slotSchool s e = c_schoolId c"
    using inv assms(3,4) by (intro slotSchool_course) (auto simp: timetable_defs)
  have school': "slotSchool s e' = c_schoolId c" using slotSchool_cong [OF assms(7)] school by simp
  have cases: "x \<in> set (courseSlots s) \<and> s_id x \<noteq> i \<or> x = e'"
    if "x \<in> set (update_rows (\<lambda>x. s_id x = i) f (courseSlots s))" for x
    using that
  proof (rule in_update_rowsE)
    fix y assume y: "y \<in> set (courseSlots s)" "x = (if s_id y = i then f y else y)"
    have "y = e" if "s_id y = i" using distinct_key_eq [OF ids y(1) assms(1)] assms(2) that by simp
    with y assms(9) show ?thesis by (cases "s_id y = i") simp_all
  qed
  show "coursesOk (s\<lparr>courseSlots := update_rows (\<lambda>x. s_id x = i) f (courseSlots s)\<rparr>)"
    using inv assms(3,4,5,7) by (auto simp: timetable_defs dest!: cases)
  show "roomsOk (s\<lparr>courseSlots := update_rows (\<lambda>x. s_id x = i) f (courseSlots s)\<rparr>)"
    unfolding roomsOk_slots
  proof (intro ballI impI)
    fix a b assume a: "a \<in> set (update_rows (\<lambda>x. s_id x = i) f (courseSlots s))"
      and b: "b \<in> set (update_rows (\<lambda>x. s_id x = i) f (courseSlots s))"
      and ab: "s_id a \<noteq> s_id b" "sameRoom s a b"
    have new: "\<not> textOverlap x e'" if "x \<in> set (courseSlots s)" "s_id x \<noteq> i" "sameRoom s x e'" for x
      using that assms(8) school' by (auto simp: sameRoom_def textOverlap_def)
    have old: "\<not> textOverlap a b" if "a \<in> set (courseSlots s)" "b \<in> set (courseSlots s)"
      using that ab inv by (auto simp: timetableInv_def roomsOk_def)
    consider "a \<in> set (courseSlots s)" "s_id a \<noteq> i" "b \<in> set (courseSlots s)"
      | "a \<in> set (courseSlots s)" "s_id a \<noteq> i" "b = e'"
      | "b \<in> set (courseSlots s)" "s_id b \<noteq> i" "a = e'"
      using cases [OF a] cases [OF b] ab(1) by metis
    then show "\<not> textOverlap a b"
    proof cases
      case 1
      then show ?thesis using old by simp
    next
      case 2
      then show ?thesis using new [of a] ab(2) by simp
    next
      case 3
      then show ?thesis
        using new [of b] ab(2) sameRoom_commute [of s a b] textOverlap_commute [of a b] by simp
    qed
  qed
qed

definition patchOk :: "slot_patch \<Rightarrow> bool" where
  "patchOk dto \<longleftrightarrow>
     (case sp_startTime dto of None \<Rightarrow> True | Some t \<Rightarrow> timeOk t) \<and>
     (case sp_endTime dto of None \<Rightarrow> True | Some t \<Rightarrow> timeOk t)"

lemma candidate_timeOk:
  "patchOk dto \<Longrightarrow> orderedTimes e \<Longrightarrow>
   timeOk (sd_startTime (candidateSlot dto e)) \<and> timeOk (sd_endTime (candidateSlot dto e))"
  by (auto simp: patchOk_def orderedTimes_def candidateSlot_def nullish_def split: option.splits)

lemma keeps_inv: "(timetableInv s \<Longrightarrow> steps (keeps timetableInv) m s) \<Longrightarrow> steps (keeps timetableInv) m s"
  by (auto simp: steps_def keeps_def)

lemma keeps_updateCourseSlot:
  assumes "patchOk dto"
  shows "steps (keeps timetableInv) (updateCourseSlot C now schoolId courseId slotId dto) s"
proof (rule keeps_inv)
  assume inv: "timetableInv s"
  show ?thesis
    unfolding updateCourseSlot_def Let_def
  proof (intro step_rules keeps_notifyTeacher)
    fix c s1 e s2 u1 s3 u2 s4 u3 s5
    assume "ensureSchoolCourse schoolId courseId s = (Inr c, s1)"
      "findOr courseSlots (\<lambda>e. s_id e = slotId \<and> s_courseId e = courseId)
         (NotFound ''Course slot not found'') s1 = (Inr e, s2)"
      "assertSlotTimes (sd_startTime (candidateSlot dto e)) (sd_endTime (candidateSlot dto e)) s2 = (Inr u1, s3)"
      "ensureNoRoomConflict schoolId (candidateSlot dto e) (Some slotId) s3 = (Inr u2, s4)"
      "assertTeacherFreeOrThrow (c_teacherId c) schoolId (slotTime (candidateSlot dto e)) (Some slotId) s4 = (Inr u3, s5)"
    then have s5: "s5 = s" and c: "c \<in> set (courses s)" "c_id c = courseId" "c_schoolId c = schoolId"
      and e: "e \<in> set (courseSlots s)" "s_id e = slotId" "s_courseId e = courseId"
      and lt: "sd_startTime (candidateSlot dto e) < sd_endTime (candidateSlot dto e)"
      and room: "\<forall>x \<in> set (courseSlots s). s_id x \<noteq> slotId \<longrightarrow>
        s_dayOfWeek x = sd_dayOfWeek (candidateSlot dto e) \<longrightarrow> s_room x = sd_room (candidateSlot dto e) \<longrightarrow>
        slotSchool s x = schoolId \<longrightarrow>
        \<not> (s_startTime x < sd_endTime (candidateSlot dto e) \<and> sd_startTime (candidateSlot dto e) < s_endTime x)"
      by (auto simp: exec_simps split: option.splits dest!: ensureSchoolCourse_ok assertSlotTimes_ok
          ensureNoRoomConflict_ok assertTeacherFree_ok find_Some_in)
    have "orderedTimes e" using inv e(1) by (auto simp: timetable_defs)
    from candidate_timeOk [OF assms this] lt have "orderedTimes (patchSlot dto e)"
      by (simp add: orderedTimes_def)
    with c e room show "steps (keeps timetableInv)
        (translated (writeSlots (update_rows (\<lambda>x. s_id x = slotId) (patchSlot dto)))) s5"
      unfolding s5 by (intro keeps_patchSlot [of e s slotId c "patchSlot dto e"]) simp_all
  qed
qed

lemma sorted_wrt_filter_imp: "sorted_wrt R xs \<Longrightarrow> sorted_wrt R (filter P xs)"
  by (induction xs) auto

lemma inv_filter_slots:
  assumes "timetableInv s"
  shows "timetableInv (s\<lparr>courseSlots := filter P (courseSlots s)\<rparr>)"
  using assms by (auto simp: timetableInv_def coursesOk_def teachersOk_def roomsOk_slots roomsOk_def
      intro: sorted_wrt_filter_imp)

lemma keeps_deleteSlots: "steps (keeps timetableInv) (deleteMany courseSlots courseSlots_update P) s"
  by (simp add: steps_def keeps_def exec_simps inv_filter_slots)

lemma keeps_deleteCourseSlot:
  "steps (keeps timetableInv) (deleteCourseSlot C now schoolId courseId slotId) s"
  unfolding deleteCourseSlot_def by (intro step_rules keeps_notifyTeacher keeps_deleteSlots)

text \<open>Courses: new ones have a new identifier, and a change keeps identifier and school.\<close>

lemma inv_newCourse:
  assumes inv: "timetableInv s" and new: "c_id c \<notin> c_id ` set (courses s)"
  shows "timetableInv (s\<lparr>courses := courses s @ [c]\<rparr>)"
proof -
  let ?t = "s\<lparr>courses := courses s @ [c]\<rparr>"
  have "slotSchool ?t e = slotSchool s e" if "e \<in> set (courseSlots s)" for e
  proof -
    have "s_courseId e \<in> c_id ` set (courses s)" using inv that by (auto simp: timetable_defs)
    then have "find (\<lambda>c. c_id c = s_courseId e) (courses s) \<noteq> None" by (auto simp: find_None)
    then show ?thesis by (auto simp: slotSchool_def find_append split: option.split)
  qed
  then show ?thesis using inv new by (auto simp: timetable_defs sameRoom_def)
qed

lemma keeps_insertCourse: "steps (keeps timetableInv) (insertRow courses courses_update courseClash c) s"
proof (rule keeps_inv)
  assume "timetableInv s"
  moreover have "c_id c \<notin> c_id ` set (courses s)" if "\<not> (\<exists>x \<in> set (courses s). courseClash x c)"
    using that by (auto simp: courseClash_def)
  ultimately show ?thesis using inv_newCourse [of s c]
    by (cases "\<exists>x \<in> set (courses s). courseClash x c") (simp_all add: steps_def keeps_def insertRow_run)
qed

lemma keeps_createCourse: "steps (keeps timetableInv) (createCourse C schoolId dto) s"
  unfolding createCourse_def
  by (intro step_rules) (auto split: option.splits intro!: step_rules keeps_insertCourse keeps_newId)

lemma patchCourse_keys [simp]:
  "c_id (patchCourse t j p dto c) = c_id c"
  "c_schoolId (patchCourse t j p dto c) = c_schoolId c"
  by (simp_all add: patchCourse_def)

lemma slotSchool_updateCourses:
  assumes "\<And>c. c_id (f c) = c_id c" "\<And>c. c_schoolId (f c) = c_schoolId c"
  shows "slotSchool (s\<lparr>courses := update_rows P f (courses s)\<rparr>) = slotSchool s"
proof
  fix e :: course_slot_row
  have "find (\<lambda>c. c_id c = s_courseId e) (update_rows P f (courses s)) =
      map_option (\<lambda>r. if P r then f r else r) (find (\<lambda>c. c_id c = s_courseId e) (courses s))"
    using assms(1) by (intro find_update_rows) simp
  then show "slotSchool (s\<lparr>courses := update_rows P f (courses s)\<rparr>) e = slotSchool s e"
    using assms(2) by (simp add: slotSchool_def split: option.split)
qed

lemma inv_updateCourses:
  assumes "\<And>c. c_id (f c) = c_id c" "\<And>c. c_schoolId (f c) = c_schoolId c" "timetableInv s"
  shows "timetableInv (s\<lparr>courses := update_rows P f (courses s)\<rparr>)"
proof -
  have "map c_id (update_rows P f (courses s)) = map c_id (courses s)"
    using assms(1) by simp
  then have "c_id ` set (update_rows P f (courses s)) = c_id ` set (courses s)"
    by (metis list.set_map)
  moreover have "sameRoom (s\<lparr>courses := update_rows P f (courses s)\<rparr>) = sameRoom s"
    using slotSchool_updateCourses [where f = f and s = s and P = P] assms(1,2) by (simp add: fun_eq_iff sameRoom_def)
  ultimately show ?thesis using assms(1,3) by (simp add: timetable_defs)
qed

lemma keeps_writeCourses:
  "steps (keeps timetableInv) (writeCourses (update_rows P (patchCourse t j p dto))) s"
  unfolding writeCourses_def
  by (auto simp: steps_def keeps_def exec_simps intro: inv_updateCourses)

lemma keeps_prepareCourseUpdate:
  "steps (keeps timetableInv) (prepareCourseUpdate schoolId courseId dto) s"
  unfolding prepareCourseUpdate_def Let_def by (intro step_rules)

lemma keeps_moveLessons: "steps (keeps timetableInv) (moveLessons courseId teacherId) s"
  unfolding moveLessons_def
proof (rule keeps_writeSlots, intro conjI)
  let ?f = "\<lambda>e :: course_slot_row. e\<lparr>s_teacherId := teacherId\<rparr>"
  let ?xs = "update_rows (\<lambda>e. s_courseId e = courseId) ?f (courseSlots s)"
  assume inv: "timetableInv s"
  show "coursesOk (s\<lparr>courseSlots := ?xs\<rparr>)"
    using inv by (auto simp: timetable_defs orderedTimes_def elim!: in_update_rowsE)
  show "roomsOk (s\<lparr>courseSlots := ?xs\<rparr>)"
    unfolding roomsOk_slots
  proof (intro ballI impI)
    fix a b assume a: "a \<in> set ?xs" and b: "b \<in> set ?xs"
      and ab: "s_id a \<noteq> s_id b" "sameRoom s a b"
    have old: "\<exists>y \<in> set (courseSlots s). s_id y = s_id x \<and> s_courseId y = s_courseId x \<and>
        s_dayOfWeek y = s_dayOfWeek x \<and> s_room y = s_room x \<and>
        s_startTime y = s_startTime x \<and> s_endTime y = s_endTime x" if "x \<in> set ?xs" for x
      using that by (auto elim!: in_update_rowsE)
    from old [OF a] old [OF b] obtain a0 b0 where "a0 \<in> set (courseSlots s)" "b0 \<in> set (courseSlots s)"
      "s_id a0 \<noteq> s_id b0" "sameRoom s a0 b0" "textOverlap a0 b0 = textOverlap a b"
      using ab by (auto simp: sameRoom_def textOverlap_def slotSchool_def)
    with inv show "\<not> textOverlap a b" by (auto simp: timetableInv_def roomsOk_def)
  qed
qed

lemma keeps_updateCourse: "steps (keeps timetableInv) (updateCourse schoolId courseId dto) s"
  unfolding updateCourse_def
  by (intro step_rules keeps_prepareCourseUpdate)
    (auto intro!: step_rules keeps_writeCourses keeps_moveLessons split: prod.split)

section \<open>Requests on the timetable\<close>

datatype timetable_request =
    CreateSlot id id slot_dto
  | UpdateSlot id id id slot_patch
  | DeleteSlot id id id
  | CreateCourse id course_dto
  | UpdateCourse id id course_patch

fun serveTimetable :: "mail_config \<Rightarrow> time \<Rightarrow> timetable_request \<Rightarrow> (db, unit) exec" where
  "serveTimetable C now (CreateSlot sc c dto) = thenE (createCourseSlot C now sc c dto) (ret ())"
| "serveTimetable C now (UpdateSlot sc c i dto) = thenE (updateCourseSlot C now sc c i dto) (ret ())"
| "serveTimetable C now (DeleteSlot sc c i) = thenE (deleteCourseSlot C now sc c i) (ret ())"
| "serveTimetable C now (CreateCourse sc dto) = thenE (createCourse C sc dto) (ret ())"
| "serveTimetable C now (UpdateCourse sc c dto) = thenE (updateCourse sc c dto) (ret ())"

text \<open>The checks of the validation pipe on the body: times are \<open>HH:mm\<close>.\<close>

fun validated :: "timetable_request \<Rightarrow> bool" where
  "validated (CreateSlot sc c dto) = (timeOk (sd_startTime dto) \<and> timeOk (sd_endTime dto))"
| "validated (UpdateSlot sc c i dto) = patchOk dto"
| "validated _ = True"

lemma keeps_serveTimetable: "validated q \<Longrightarrow> steps (keeps timetableInv) (serveTimetable C now q) s"
  by (cases q)
    (auto intro!: step_rules keeps_createCourseSlot keeps_updateCourseSlot keeps_deleteCourseSlot
       keeps_createCourse keeps_updateCourse)

primrec serveTimetables :: "mail_config \<Rightarrow> (time \<times> timetable_request) list \<Rightarrow> db \<Rightarrow> db" where
  "serveTimetables C [] s = s"
| "serveTimetables C (q # qs) s = serveTimetables C qs (snd (serveTimetable C (fst q) (snd q) s))"

lemma timetable_requests:
  "list_all (\<lambda>q. validated (snd q)) qs \<Longrightarrow> timetableInv s \<Longrightarrow> timetableInv (serveTimetables C qs s)"
proof (induction qs arbitrary: s)
  case Nil
  then show ?case by simp
next
  case (Cons q qs)
  then have "timetableInv (snd (serveTimetable C (fst q) (snd q) s))"
    using keeps_serveTimetable [of "snd q" C "fst q" s] by (simp add: steps_def keeps_def)
  with Cons show ?case by simp
qed

text \<open>What the invariant says of two lessons, in minutes.\<close>

lemma sorted_wrt_pair:
  assumes "sorted_wrt R xs" "a \<in> set xs" "b \<in> set xs" "a \<noteq> b"
  shows "R a b \<or> R b a"
  using assms by (induction xs) auto

lemma doubleBooked_commute: "doubleBooked a b \<longleftrightarrow> doubleBooked b a"
  by (auto simp: doubleBooked_def overlaps_def)

lemma lessons_apart:
  assumes "timetableInv s" "a \<in> set (courseSlots s)" "b \<in> set (courseSlots s)" "s_id a \<noteq> s_id b"
    "s_teacherId a = s_teacherId b \<or> slotSchool s a = slotSchool s b \<and> s_room a = s_room b"
    "s_dayOfWeek a = s_dayOfWeek b"
  shows "\<not> overlaps (startMin a) (endMin a) (startMin b) (endMin b)"
proof -
  have t: "orderedTimes a" "orderedTimes b" using assms(1-3) by (auto simp: timetable_defs)
  then have o: "startMin a < endMin a" "startMin b < endMin b"
    "(s_startTime a < s_endTime b) = (startMin a < endMin b)"
    "(s_startTime b < s_endTime a) = (startMin b < endMin a)"
    by (auto simp: orderedTimes_def startMin_def endMin_def time_order)
  from assms(5) show ?thesis
  proof
    assume teacher: "s_teacherId a = s_teacherId b"
    have "\<not> doubleBooked a b"
      using sorted_wrt_pair [of "\<lambda>a b. \<not> doubleBooked a b" "courseSlots s" a b] assms(1-4)
        doubleBooked_commute [of a b] by (auto simp: timetable_defs)
    with teacher assms(6) o show ?thesis by (simp add: doubleBooked_def)
  next
    assume "slotSchool s a = slotSchool s b \<and> s_room a = s_room b"
    with assms have "\<not> textOverlap a b" by (auto simp: timetableInv_def roomsOk_def sameRoom_def)
    with o show ?thesis by (auto simp: textOverlap_def overlaps_def)
  qed
qed

text \<open>
  C12. The timetable is free of conflicts: whatever sequence of validated requests creates,
  changes and removes lessons and courses, from a timetable without conflict two different
  lessons of the same day that have the same teacher, or are in the same room of the same
  school, never overlap (in minutes), and every lesson ends after it starts.
\<close>

theorem timetable_conflict_free:
  assumes "timetableInv s" "list_all (\<lambda>q. validated (snd q)) qs"
    "a \<in> set (courseSlots (serveTimetables C qs s))" "b \<in> set (courseSlots (serveTimetables C qs s))"
    "s_id a \<noteq> s_id b" "s_dayOfWeek a = s_dayOfWeek b"
    "s_teacherId a = s_teacherId b \<or>
     slotSchool (serveTimetables C qs s) a = slotSchool (serveTimetables C qs s) b \<and> s_room a = s_room b"
  shows "\<not> overlaps (startMin a) (endMin a) (startMin b) (endMin b) \<and> startMin a < endMin a"
proof -
  have inv: "timetableInv (serveTimetables C qs s)" by (rule timetable_requests [OF assms(2,1)])
  then have "orderedTimes a" using assms(3) by (auto simp: timetable_defs)
  then have "startMin a < endMin a" by (auto simp: orderedTimes_def startMin_def endMin_def time_order)
  with lessons_apart [OF inv assms(3,4,5,7,6)] show ?thesis by simp
qed

lemma insertLesson_ok:
  assumes "insertLesson C now slot s = (Inr e, t)"
  shows "e = slot \<and> courseSlots t = courseSlots s @ [slot]"
proof -
  obtain u t1 where w: "translated (writeSlots (\<lambda>rows. rows @ [slot])) s = (Inr u, t1)"
    and n: "snd (notifyTeacherScheduleChange C now (s_teacherId slot) ''ajoute'' t1) = t" and e: "e = slot"
    using assms by (auto simp: insertLesson_def exec_simps split: prod.splits sum.splits)
  have "courseSlots t = courseSlots t1"
    using core_notifyTeacher [of C now "s_teacherId slot" "''ajoute''" t1] n
    by (auto simp: steps_def frames_def dest: core_fields(14))
  with translated_ok [OF w] e show ?thesis by (auto simp: writeSlots_run split: if_splits)
qed

text \<open>
  What a new lesson satisfies: when \<open>createCourseSlot\<close> succeeds, the course is one of
  the school, the times are in order, no lesson of the school is in the room at that time, the
  teacher of the course was free in the sense of \<open>isTeacherFree\<close>, and the timetable has
  gained exactly this lesson, with the teacher of the course.
\<close>

theorem lesson_created:
  assumes "createCourseSlot C now schoolId courseId dto s = (Inr e, t)"
  shows "\<exists>c \<in> set (courses s). c_id c = courseId \<and> c_schoolId c = schoolId \<and>
      isTeacherFree (c_teacherId c) schoolId (slotTime dto) None s = (Inr True, s) \<and>
      s_teacherId e = c_teacherId c \<and> courseSlots t = courseSlots s @ [e] \<and>
      s_courseId e = courseId \<and> s_startTime e < s_endTime e \<and>
      (\<forall>x \<in> set (courseSlots s). slotSchool s x = schoolId \<longrightarrow> s_room x = s_room e \<longrightarrow>
         s_dayOfWeek x = s_dayOfWeek e \<longrightarrow> \<not> textOverlap x e)"
proof -
  obtain c s1 u1 s2 u2 s3 u3 s4 where run: "ensureSchoolCourse schoolId courseId s = (Inr c, s1)"
      "assertSlotTimes (sd_startTime dto) (sd_endTime dto) s1 = (Inr u1, s2)"
      "ensureNoRoomConflict schoolId dto None s2 = (Inr u2, s3)"
      "assertTeacherFreeOrThrow (c_teacherId c) schoolId (slotTime dto) None s3 = (Inr u3, s4)"
    and rest: "insertLesson C now \<lparr>s_id = mailUuid C (seqNo s4), s_courseId = courseId,
          s_teacherId = c_teacherId c, s_dayOfWeek = sd_dayOfWeek dto, s_startTime = sd_startTime dto,
          s_endTime = sd_endTime dto, s_room = sd_room dto\<rparr> (s4\<lparr>seqNo := Suc (seqNo s4)\<rparr>) = (Inr e, t)"
    using assms by (auto simp: createCourseSlot_def bindE_run thenE_run newId_run split: prod.splits sum.splits)
  have facts: "s4 = s" "c \<in> set (courses s)" "c_id c = courseId" "c_schoolId c = schoolId"
    "sd_startTime dto < sd_endTime dto"
    "isTeacherFree (c_teacherId c) schoolId (slotTime dto) None s = (Inr True, s)"
    "\<forall>x \<in> set (courseSlots s). s_dayOfWeek x = sd_dayOfWeek dto \<longrightarrow> s_room x = sd_room dto \<longrightarrow>
       slotSchool s x = schoolId \<longrightarrow> \<not> (s_startTime x < sd_endTime dto \<and> sd_startTime dto < s_endTime x)"
    using run by (auto dest!: ensureSchoolCourse_ok assertSlotTimes_ok ensureNoRoomConflict_ok
        assertTeacherFree_ok)
  from insertLesson_ok [OF rest] facts show ?thesis by (auto simp: textOverlap_def)
qed

text \<open>
  A change of teacher is not atomic: when the lessons of the course meet lessons of the new
  teacher, \<open>updateCourse\<close> answers with the error of the exclusion constraint but has already
  given the course to the new teacher, while its lessons stay booked on the old one; the column
  \<open>CourseSlot.teacherId\<close> the source calls a copy of the teacher of the course no longer is one.
\<close>

theorem teacher_change_not_atomic:
  assumes "prepareCourseUpdate schoolId courseId dto s = (Inr (course, teacherId, j, p), s)"
    "cp_teacherId dto = Some teacherId" "teacherId \<noteq> []" "teacherId \<noteq> c_teacherId course"
    "sorted_wrt (\<lambda>a b. \<not> courseClash a b)
       (update_rows (\<lambda>c. c_id c = courseId) (patchCourse teacherId j p dto) (courses s))"
    "timetableInv s" "e \<in> set (courseSlots s)" "x \<in> set (courseSlots s)"
    "s_courseId e = courseId" "s_courseId x \<noteq> courseId" "s_teacherId x = teacherId"
    "s_dayOfWeek x = s_dayOfWeek e" "overlaps (startMin e) (endMin e) (startMin x) (endMin x)"
  shows "\<exists>t. updateCourse schoolId courseId dto s =
      (Inl (BadRequest ''Ce professeur vient d'etre reserve sur ce creneau''), t) \<and>
      courseSlots t = courseSlots s \<and>
      (\<forall>c \<in> set (courses t). c_id c = courseId \<longrightarrow> c_teacherId c = teacherId)"
proof -
  let ?f = "\<lambda>e :: course_slot_row. e\<lparr>s_teacherId := teacherId\<rparr>"
  let ?xs = "update_rows (\<lambda>e. s_courseId e = courseId) ?f (courseSlots s)"
  let ?t = "s\<lparr>courses := update_rows (\<lambda>c. c_id c = courseId) (patchCourse teacherId j p dto) (courses s)\<rparr>"
  have times: "\<forall>y \<in> set ?xs. startMin y < endMin y"
    using assms(6) by (auto simp: timetable_defs orderedTimes_def startMin_def endMin_def time_order
        elim!: in_update_rowsE)
  have uniq: "sorted_wrt (\<lambda>a b. \<not> slotClash a b) ?xs"
    using assms(6) by (simp add: timetable_defs update_rows_def sorted_wrt_map slotClash_def if_distrib cong: if_cong)
  have in': "?f e \<in> set ?xs" "x \<in> set ?xs"
    using assms(7-10) by (auto intro: in_update_rowsI)
  have "?f e \<noteq> x" using assms(9,10) by auto
  moreover have "doubleBooked (?f e) x"
    using times in' assms(11-13) by (auto simp: doubleBooked_def startMin_def endMin_def)
  ultimately have no: "\<not> sorted_wrt (\<lambda>a b. \<not> doubleBooked a b) ?xs"
    using sorted_wrt_pair [OF _ in'] doubleBooked_commute [of "?f e" x] by blast
  have "writeSlots (update_rows (\<lambda>e. s_courseId e = courseId) ?f) ?t =
      (Inl (Failure ''no_teacher_double_booking''), ?t)"
    using times uniq no by (auto simp: writeSlots_run intro: less_imp_le)
  then have "moveLessons courseId teacherId ?t =
      (Inl (BadRequest ''Ce professeur vient d'etre reserve sur ce creneau''), ?t)"
    by (simp add: moveLessons_def translated_def translateExclusionConstraintError_def exec_simps)
  then have "updateCourse schoolId courseId dto s =
      (Inl (BadRequest ''Ce professeur vient d'etre reserve sur ce creneau''), ?t)"
    using assms(1-5) by (simp add: updateCourse_def writeCourses_def exec_simps truthy_code)
  moreover have "\<forall>c \<in> set (courses ?t). c_id c = courseId \<longrightarrow> c_teacherId c = teacherId"
    by (auto elim!: in_update_rowsE simp: patchCourse_def)
  ultimately show ?thesis by (intro exI [of _ ?t]) simp
qed

section \<open>Examples\<close>

definition sample_lesson :: "id \<Rightarrow> id \<Rightarrow> id \<Rightarrow> string \<Rightarrow> string \<Rightarrow> course_slot_row" where
  "sample_lesson i c t b e =
     \<lparr>s_id = i, s_courseId = c, s_teacherId = t, s_dayOfWeek = 1, s_startTime = b,
      s_endTime = e, s_room = ''R-'' @ c\<rparr>"

definition sample_math :: "id \<Rightarrow> id \<Rightarrow> course_row" where
  "sample_math i t = (sample_course i ''sc1'' True)\<lparr>c_teacherId := t\<rparr>"

definition sample_timetable :: db where
  "sample_timetable =
     empty_db\<lparr>users := [sample_user ''u1'' ''TEACHER'', sample_user ''u2'' ''TEACHER''],
       teachers := [\<lparr>th_id = ''t1'', th_userId = ''u1'', th_firstName = None, th_lastName = None,
                     th_createdAt = 0, th_phone = None, th_avatarUrl = None\<rparr>],
       teacherSchools := [\<lparr>ts_id = ''ts1'', ts_teacherId = ''t2'', ts_schoolId = ''sc1'', ts_isActive = True,
                     ts_department = None, ts_specialty = None, ts_createdAt = 0\<rparr>],
       courses := [sample_math ''c1'' ''t1'', sample_math ''c2'' ''t2''],
       courseSlots := [sample_lesson ''e1'' ''c1'' ''t1'' ''08:00'' ''10:00'',
                       sample_lesson ''e2'' ''c2'' ''t2'' ''09:00'' ''11:00'']\<rparr>"

definition sample_dto :: slot_dto where
  "sample_dto =
     \<lparr>sd_dayOfWeek = 1, sd_startTime = ''11:00'', sd_endTime = ''12:00'', sd_room = ''R-c2''\<rparr>"

lemmas sample_timetable_defs =
  sample_timetable_def sample_math_def sample_lesson_def sample_course_def sample_dto_def empty_db_def

lemma sample_times [simp]:
  "toMinutes ''08:00'' = 480" "toMinutes ''09:00'' = 540" "toMinutes ''10:00'' = 600"
  "toMinutes ''11:00'' = 660" "toMinutes ''12:00'' = 720"
  by (simp_all add: toMinutes_def read_nat_def digit_value_def)

lemma sample_timeOk [simp]:
  "timeOk ''08:00''" "timeOk ''09:00''" "timeOk ''10:00''" "timeOk ''11:00''" "timeOk ''12:00''"
  by (simp_all add: digitBetween_def)

lemma sample_timetable_inv: "timetableInv sample_timetable"
  by (simp add: timetable_defs orderedTimes_def sample_timetable_defs slotClash_def doubleBooked_def
      startMin_def endMin_def sameRoom_def digitBetween_def)

lemma sample_created:
  "createCourseSlot sample_mail 0 ''sc1'' ''c2'' sample_dto sample_timetable =
     (Inr (sample_lesson ''id-'' ''c2'' ''t2'' ''11:00'' ''12:00''),
      sample_timetable\<lparr>courseSlots := courseSlots sample_timetable @
          [sample_lesson ''id-'' ''c2'' ''t2'' ''11:00'' ''12:00''], seqNo := 1\<rparr>)"
  by (simp add: createCourseSlot_def ensureSchoolCourse_def assertSlotTimes_def ensureNoRoomConflict_def
      assertTeacherFreeOrThrow_def isTeacherFree_def insertLesson_def notifyTeacherScheduleChange_def
      translated_def writeSlots_run exec_simps sample_timetable_defs slotTime_def rangesOverlap_def
      slotSchool_def truthy_def overlaps_def startMin_def endMin_def slotClash_def doubleBooked_def
      sample_mail_def sample_uuid_def)

definition sample_takeover :: course_patch where
  "sample_takeover =
     \<lparr>cp_teacherId = Some ''t2'', cp_code = None, cp_subjectId = None, cp_programId = None,
      cp_programLevel = None, cp_group = None, cp_credits = None, cp_isPublished = None\<rparr>"

theorem timetable_conflict_free_witness:
  "\<not> overlaps (startMin (sample_lesson ''e2'' ''c2'' ''t2'' ''09:00'' ''11:00''))
       (endMin (sample_lesson ''e2'' ''c2'' ''t2'' ''09:00'' ''11:00''))
       (startMin (sample_lesson ''id-'' ''c2'' ''t2'' ''11:00'' ''12:00''))
       (endMin (sample_lesson ''id-'' ''c2'' ''t2'' ''11:00'' ''12:00''))"
proof -
  let ?qs = "[(0, CreateSlot ''sc1'' ''c2'' sample_dto)]"
  have "courseSlots (serveTimetables sample_mail ?qs sample_timetable) =
      [sample_lesson ''e1'' ''c1'' ''t1'' ''08:00'' ''10:00'', sample_lesson ''e2'' ''c2'' ''t2'' ''09:00'' ''11:00'',
       sample_lesson ''id-'' ''c2'' ''t2'' ''11:00'' ''12:00'']"
    by (simp add: sample_created exec_simps) (simp add: sample_timetable_def)
  moreover have "list_all (\<lambda>q. validated (snd q)) ?qs" by (simp add: sample_dto_def digitBetween_def)
  ultimately show ?thesis
    using timetable_conflict_free [OF sample_timetable_inv, of ?qs
        "sample_lesson ''e2'' ''c2'' ''t2'' ''09:00'' ''11:00''" sample_mail
        "sample_lesson ''id-'' ''c2'' ''t2'' ''11:00'' ''12:00''"]
    by (simp add: sample_lesson_def)
qed

theorem lesson_created_witness:
  "isTeacherFree ''t2'' ''sc1'' (slotTime sample_dto) None sample_timetable = (Inr True, sample_timetable)"
  using lesson_created [OF sample_created]
  by (auto simp: sample_timetable_def sample_math_def sample_course_def)

theorem teacher_change_not_atomic_witness:
  "\<exists>t. updateCourse ''sc1'' ''c1'' sample_takeover sample_timetable =
      (Inl (BadRequest ''Ce professeur vient d'etre reserve sur ce creneau''), t) \<and>
      map s_teacherId (courseSlots t) = [''t1'', ''t2'']"
proof -
  have "prepareCourseUpdate ''sc1'' ''c1'' sample_takeover sample_timetable =
      (Inr (sample_math ''c1'' ''t1'', ''t2'', None, None), sample_timetable)"
    by (simp add: prepareCourseUpdate_def ensureSchoolCourse_def ensureActiveTeacherAssignment_def
        exec_simps Let_def sample_takeover_def sample_timetable_defs truthy_def)
  from teacher_change_not_atomic [OF this _ _ _ _ sample_timetable_inv,
      of "sample_lesson ''e1'' ''c1'' ''t1'' ''08:00'' ''10:00''"
         "sample_lesson ''e2'' ''c2'' ''t2'' ''09:00'' ''11:00''"]
  show ?thesis
    by (auto simp: sample_takeover_def sample_timetable_defs patchCourse_def courseClash_def
        startMin_def endMin_def overlaps_def)
qed

end
