(* ===== verification/Scheduling.thy ===== *)
theory Scheduling
  imports Course_Slots
begin

text \<open>
  \<open>SchedulingService\<close> (\<open>school/scheduling.service.ts\<close>): the rooms, the weekly grid of
  time slots, the classes, the hours each class needs of a subject and the teacher given to
  each need. The grid never has two overlapping slots, names stay unique in a school, the
  references between the tables stay valid, and a request of one school never changes a row
  of another.
\<close>

section \<open>Requests\<close>

record room_dto =
  rd_name :: string
  rd_capacity :: "int option"
  rd_type :: "string option"
  rd_isActive :: "bool option"

record room_patch =
  rp_name :: "string option"
  rp_capacity :: "int option"
  rp_type :: "string option"
  rp_isActive :: "bool option"

record time_slot_dto =
  gd_dayOfWeek :: int
  gd_startTime :: string
  gd_endTime :: string
  gd_label :: "string option"
  gd_isActive :: "bool option"

record time_slot_patch =
  gp_dayOfWeek :: "int option"
  gp_startTime :: "string option"
  gp_endTime :: "string option"
  gp_label :: "string option"
  gp_isActive :: "bool option"

record class_dto =
  kd_academicYearId :: id
  kd_programId :: "id option"
  kd_name :: string
  kd_level :: "int option"
  kd_studentCount :: "int option"
  kd_isActive :: "bool option"

record class_patch =
  kp_academicYearId :: "id option"
  kp_programId :: "id option"
  kp_name :: "string option"
  kp_level :: "int option"
  kp_studentCount :: "int option"
  kp_isActive :: "bool option"

record requirement_dto =
  qd_subjectId :: id
  qd_academicYearId :: id
  qd_hoursPerWeek :: int

record requirement_patch =
  qp_subjectId :: "id option"
  qp_academicYearId :: "id option"
  qp_hoursPerWeek :: "int option"

section \<open>Rooms\<close>

definition roomClash :: "room_row \<Rightarrow> room_row \<Rightarrow> bool" where
  "roomClash a b \<longleftrightarrow>
     rm_id a = rm_id b \<or> (rm_schoolId a = rm_schoolId b \<and> rm_name a = rm_name b)"

definition listRooms :: "id \<Rightarrow> (db, room_row list) exec" where
  "listRooms schoolId =
     bindE (findMany rooms (\<lambda>r. rm_schoolId r = schoolId)) (\<lambda>rows.
     ret (sort_by (\<lambda>a b. rm_name a \<le> rm_name b) rows))"

definition ensureRoom :: "id \<Rightarrow> id \<Rightarrow> (db, room_row) exec" where
  "ensureRoom schoolId roomId =
     findOr rooms (\<lambda>r. rm_id r = roomId \<and> rm_schoolId r = schoolId) (NotFound ''Salle introuvable'')"

definition assertRoomNameAvailable :: "id \<Rightarrow> string \<Rightarrow> (db, unit) exec" where
  "assertRoomNameAvailable schoolId name =
     bindE (findFirst rooms (\<lambda>r. rm_schoolId r = schoolId \<and> rm_name r = trim name)) (\<lambda>existing.
     require (existing = None) (BadRequest ''Une salle porte deja ce nom''))"

definition createRoom :: "mail_config \<Rightarrow> id \<Rightarrow> room_dto \<Rightarrow> (db, room_row) exec" where
  "createRoom C schoolId dto =
     thenE (assertRoomNameAvailable schoolId (rd_name dto))
     (bindE (newId (mailUuid C)) (\<lambda>i.
      insertRow rooms rooms_update roomClash
        \<lparr>rm_id = i, rm_schoolId = schoolId, rm_name = trim (rd_name dto),
         rm_capacity = rd_capacity dto, rm_type = nullish (rd_type dto) ''STANDARD'',
         rm_isActive = nullish (rd_isActive dto) True\<rparr>))"

definition patchRoom :: "room_patch \<Rightarrow> room_row \<Rightarrow> room_row" where
  "patchRoom dto r =
     r\<lparr>rm_name := nullish (map_option trim (rp_name dto)) (rm_name r),
       rm_capacity := overwrite (rp_capacity dto) (rm_capacity r),
       rm_type := nullish (rp_type dto) (rm_type r),
       rm_isActive := nullish (rp_isActive dto) (rm_isActive r)\<rparr>"

definition updateRoom :: "id \<Rightarrow> id \<Rightarrow> room_patch \<Rightarrow> (db, room_row) exec" where
  "updateRoom schoolId roomId dto =
     bindE (ensureRoom schoolId roomId) (\<lambda>room.
     thenE (whenE (truthy (rp_name dto) \<and> trim (the (rp_name dto)) \<noteq> rm_name room)
              (assertRoomNameAvailable schoolId (the (rp_name dto))))
     (thenE (updateUnique rooms rooms_update roomClash (\<lambda>r. rm_id r = roomId) (patchRoom dto))
     (ret (patchRoom dto room))))"

definition deleteRoom :: "id \<Rightarrow> id \<Rightarrow> (db, id) exec" where
  "deleteRoom schoolId roomId =
     bindE (ensureRoom schoolId roomId) (\<lambda>_.
     thenE (deleteMany rooms rooms_update (\<lambda>r. rm_id r = roomId)) (ret roomId))"

section \<open>The grid of time slots\<close>

definition gridClash :: "time_slot_row \<Rightarrow> time_slot_row \<Rightarrow> bool" where
  "gridClash a b \<longleftrightarrow>
     sl_id a = sl_id b \<or>
     (sl_schoolId a = sl_schoolId b \<and> sl_dayOfWeek a = sl_dayOfWeek b \<and>
      sl_startTime a = sl_startTime b \<and> sl_endTime a = sl_endTime b)"

definition grid_before :: "time_slot_row \<Rightarrow> time_slot_row \<Rightarrow> bool" where
  "grid_before a b \<longleftrightarrow>
     sl_dayOfWeek a < sl_dayOfWeek b \<or>
     sl_dayOfWeek a = sl_dayOfWeek b \<and> sl_startTime a \<le> sl_startTime b"

definition listTimeSlots :: "id \<Rightarrow> (db, time_slot_row list) exec" where
  "listTimeSlots schoolId =
     bindE (findMany timeSlots (\<lambda>t. sl_schoolId t = schoolId)) (\<lambda>rows.
     ret (sort_by grid_before rows))"

definition ensureTimeSlot :: "id \<Rightarrow> id \<Rightarrow> (db, time_slot_row) exec" where
  "ensureTimeSlot schoolId slotId =
     findOr timeSlots (\<lambda>t. sl_id t = slotId \<and> sl_schoolId t = schoolId) (NotFound ''Creneau introuvable'')"

definition assertTimeOrder :: "string \<Rightarrow> string \<Rightarrow> (db, unit) exec" where
  "assertTimeOrder startTime endTime =
     require (\<not> endTime \<le> startTime)
       (BadRequest ''L'heure de fin doit etre posterieure a l'heure de debut'')"

definition assertNoTimeSlotOverlap :: "id \<Rightarrow> slot_time \<Rightarrow> id option \<Rightarrow> (db, unit) exec" where
  "assertNoTimeSlotOverlap schoolId slot excludedSlotId =
     bindE (findFirst timeSlots (\<lambda>t.
              sl_schoolId t = schoolId \<and> sl_dayOfWeek t = sm_dayOfWeek slot \<and>
              sl_startTime t < sm_endTime slot \<and> sm_startTime slot < sl_endTime t \<and>
              (truthy excludedSlotId \<longrightarrow> excludedSlotId \<noteq> Some (sl_id t)))) (\<lambda>conflict.
     require (conflict = None) (BadRequest ''Ce creneau chevauche un creneau-type existant''))"

definition createTimeSlot :: "mail_config \<Rightarrow> id \<Rightarrow> time_slot_dto \<Rightarrow> (db, time_slot_row) exec" where
  "createTimeSlot C schoolId dto =
     thenE (assertTimeOrder (gd_startTime dto) (gd_endTime dto))
     (thenE (assertNoTimeSlotOverlap schoolId
               \<lparr>sm_dayOfWeek = gd_dayOfWeek dto, sm_startTime = gd_startTime dto,
                sm_endTime = gd_endTime dto\<rparr> None)
     (bindE (newId (mailUuid C)) (\<lambda>i.
      insertRow timeSlots timeSlots_update gridClash
        \<lparr>sl_id = i, sl_schoolId = schoolId, sl_dayOfWeek = gd_dayOfWeek dto,
         sl_startTime = gd_startTime dto, sl_endTime = gd_endTime dto, sl_label = gd_label dto,
         sl_isActive = nullish (gd_isActive dto) True\<rparr>)))"

definition patchTimeSlot :: "time_slot_patch \<Rightarrow> time_slot_row \<Rightarrow> time_slot_row" where
  "patchTimeSlot dto t =
     t\<lparr>sl_dayOfWeek := nullish (gp_dayOfWeek dto) (sl_dayOfWeek t),
       sl_startTime := nullish (gp_startTime dto) (sl_startTime t),
       sl_endTime := nullish (gp_endTime dto) (sl_endTime t),
       sl_label := overwrite (gp_label dto) (sl_label t),
       sl_isActive := nullish (gp_isActive dto) (sl_isActive t)\<rparr>"

definition candidateTime :: "time_slot_patch \<Rightarrow> time_slot_row \<Rightarrow> slot_time" where
  "candidateTime dto t =
     \<lparr>sm_dayOfWeek = nullish (gp_dayOfWeek dto) (sl_dayOfWeek t),
      sm_startTime = nullish (gp_startTime dto) (sl_startTime t),
      sm_endTime = nullish (gp_endTime dto) (sl_endTime t)\<rparr>"

definition updateTimeSlot :: "id \<Rightarrow> id \<Rightarrow> time_slot_patch \<Rightarrow> (db, time_slot_row) exec" where
  "updateTimeSlot schoolId slotId dto =
     bindE (ensureTimeSlot schoolId slotId) (\<lambda>slot.
     thenE (assertTimeOrder (sm_startTime (candidateTime dto slot)) (sm_endTime (candidateTime dto slot)))
     (thenE (assertNoTimeSlotOverlap schoolId (candidateTime dto slot) (Some slotId))
     (thenE (updateUnique timeSlots timeSlots_update gridClash (\<lambda>t. sl_id t = slotId) (patchTimeSlot dto))
     (ret (patchTimeSlot dto slot)))))"

definition deleteTimeSlot :: "id \<Rightarrow> id \<Rightarrow> (db, id) exec" where
  "deleteTimeSlot schoolId slotId =
     bindE (ensureTimeSlot schoolId slotId) (\<lambda>_.
     thenE (deleteMany timeSlots timeSlots_update (\<lambda>t. sl_id t = slotId)) (ret slotId))"

section \<open>Classes\<close>

definition classClash :: "class_row \<Rightarrow> class_row \<Rightarrow> bool" where
  "classClash a b \<longleftrightarrow>
     cl_id a = cl_id b \<or>
     (cl_schoolId a = cl_schoolId b \<and> cl_academicYearId a = cl_academicYearId b \<and> cl_name a = cl_name b)"

text \<open>The classes with their needs and teachers, by year (the latest first), then by name.\<close>

definition class_before :: "class_row \<Rightarrow> class_row \<Rightarrow> bool" where
  "class_before a b \<longleftrightarrow>
     cl_academicYearId b < cl_academicYearId a \<or>
     cl_academicYearId a = cl_academicYearId b \<and> cl_name a \<le> cl_name b"

definition classNeeds :: "db \<Rightarrow> class_row \<Rightarrow> (requirement_row \<times> id option) list" where
  "classNeeds s c =
     map (\<lambda>q. (q, map_option as_teacherId
                     (find (\<lambda>a. as_requirementId a = rq_id q) (teacherAssignments s))))
       (filter (\<lambda>q. rq_classId q = cl_id c) (requirements s))"

definition listClasses :: "id \<Rightarrow> (db, (class_row \<times> (requirement_row \<times> id option) list) list) exec" where
  "listClasses schoolId =
     bindE (findMany classes (\<lambda>c. cl_schoolId c = schoolId)) (\<lambda>rows.
     bindE (asks classNeeds) (\<lambda>needs.
     ret (map (\<lambda>c. (c, needs c)) (sort_by class_before rows))))"

definition ensureClass :: "id \<Rightarrow> id \<Rightarrow> (db, class_row) exec" where
  "ensureClass schoolId classId =
     findOr classes (\<lambda>c. cl_id c = classId \<and> cl_schoolId c = schoolId) (NotFound ''Classe introuvable'')"

definition assertClassNameAvailable :: "id \<Rightarrow> id \<Rightarrow> string \<Rightarrow> (db, unit) exec" where
  "assertClassNameAvailable schoolId academicYearId name =
     bindE (findFirst classes (\<lambda>c. cl_schoolId c = schoolId \<and> cl_academicYearId c = academicYearId \<and>
              cl_name c = trim name)) (\<lambda>existing.
     require (existing = None)
       (BadRequest ''Une classe porte deja ce nom pour cette annee scolaire''))"

definition assertProgramBelongsToSchool :: "id \<Rightarrow> id \<Rightarrow> (db, unit) exec" where
  "assertProgramBelongsToSchool schoolId programId =
     bindE (findFirst programs (\<lambda>p. pr_id p = programId \<and> pr_schoolId p = schoolId)) (\<lambda>program.
     require (program \<noteq> None) (BadRequest ''Filiere introuvable pour cette ecole''))"

definition assertAcademicYearExists :: "id \<Rightarrow> (db, unit) exec" where
  "assertAcademicYearExists academicYearId =
     bindE (findFirst academicYears (\<lambda>y. ay_id y = academicYearId)) (\<lambda>year.
     require (year \<noteq> None) (BadRequest ''Annee scolaire introuvable''))"

definition createClass :: "mail_config \<Rightarrow> id \<Rightarrow> class_dto \<Rightarrow> (db, class_row) exec" where
  "createClass C schoolId dto =
     thenE (assertAcademicYearExists (kd_academicYearId dto))
     (thenE (whenE (truthy (kd_programId dto))
               (assertProgramBelongsToSchool schoolId (the (kd_programId dto))))
     (thenE (assertClassNameAvailable schoolId (kd_academicYearId dto) (kd_name dto))
     (bindE (newId (mailUuid C)) (\<lambda>i.
      insertRow classes classes_update classClash
        \<lparr>cl_id = i, cl_schoolId = schoolId, cl_academicYearId = kd_academicYearId dto,
         cl_programId = kd_programId dto, cl_name = trim (kd_name dto), cl_level = kd_level dto,
         cl_studentCount = kd_studentCount dto, cl_isActive = nullish (kd_isActive dto) True\<rparr>))))"

definition patchClass :: "class_patch \<Rightarrow> class_row \<Rightarrow> class_row" where
  "patchClass dto c =
     c\<lparr>cl_academicYearId := nullish (kp_academicYearId dto) (cl_academicYearId c),
       cl_programId := overwrite (kp_programId dto) (cl_programId c),
       cl_name := nullish (map_option trim (kp_name dto)) (cl_name c),
       cl_level := overwrite (kp_level dto) (cl_level c),
       cl_studentCount := overwrite (kp_studentCount dto) (cl_studentCount c),
       cl_isActive := nullish (kp_isActive dto) (cl_isActive c)\<rparr>"

definition prepareClassUpdate :: "id \<Rightarrow> id \<Rightarrow> class_patch \<Rightarrow> (db, class_row) exec" where
  "prepareClassUpdate schoolId classId dto =
     bindE (ensureClass schoolId classId) (\<lambda>schoolClass.
     thenE (whenE (truthy (kp_academicYearId dto)) (assertAcademicYearExists (the (kp_academicYearId dto))))
     (thenE (whenE (truthy (kp_programId dto))
               (assertProgramBelongsToSchool schoolId (the (kp_programId dto))))
     (thenE (whenE (truthy (kp_name dto) \<and> trim (the (kp_name dto)) \<noteq> cl_name schoolClass)
               (assertClassNameAvailable schoolId
                  (nullish (kp_academicYearId dto) (cl_academicYearId schoolClass)) (the (kp_name dto))))
     (ret schoolClass))))"

definition updateClass :: "id \<Rightarrow> id \<Rightarrow> class_patch \<Rightarrow> (db, class_row) exec" where
  "updateClass schoolId classId dto =
     bindE (prepareClassUpdate schoolId classId dto) (\<lambda>schoolClass.
     thenE (updateUnique classes classes_update classClash (\<lambda>c. cl_id c = classId) (patchClass dto))
     (ret (patchClass dto schoolClass)))"

text \<open>
  The foreign keys: removing a class removes its needs, removing a need removes the teacher
  given to it and detaches the course generated for it.
\<close>

definition removeRequirements :: "(requirement_row \<Rightarrow> bool) \<Rightarrow> (db, unit) exec" where
  "removeRequirements P =
     bindE (asks (\<lambda>s. map rq_id (filter P (requirements s)))) (\<lambda>gone.
     thenE (deleteMany teacherAssignments teacherAssignments_update (\<lambda>a. as_requirementId a \<in> set gone))
     (thenE (modify (courses_update (update_rows
               (\<lambda>c. case c_subjectRequirementId c of None \<Rightarrow> False | Some i \<Rightarrow> i \<in> set gone)
               (\<lambda>c. c\<lparr>c_subjectRequirementId := None\<rparr>))))
     (deleteMany requirements requirements_update (\<lambda>q. rq_id q \<in> set gone))))"

definition deleteClass :: "id \<Rightarrow> id \<Rightarrow> (db, id) exec" where
  "deleteClass schoolId classId =
     bindE (ensureClass schoolId classId) (\<lambda>_.
     thenE (removeRequirements (\<lambda>q. rq_classId q = classId))
     (thenE (deleteMany classes classes_update (\<lambda>c. cl_id c = classId)) (ret classId)))"

section \<open>Needs and teachers\<close>

definition requirementClash :: "requirement_row \<Rightarrow> requirement_row \<Rightarrow> bool" where
  "requirementClash a b \<longleftrightarrow>
     rq_id a = rq_id b \<or> (rq_classId a = rq_classId b \<and> rq_subjectId a = rq_subjectId b)"

definition ensureRequirement :: "id \<Rightarrow> id \<Rightarrow> id \<Rightarrow> (db, requirement_row) exec" where
  "ensureRequirement schoolId classId requirementId =
     findOr requirements
       (\<lambda>q. rq_id q = requirementId \<and> rq_classId q = classId \<and> rq_schoolId q = schoolId)
       (NotFound ''Besoin horaire introuvable'')"

definition assertSubjectBelongsToSchool :: "id \<Rightarrow> id \<Rightarrow> (db, unit) exec" where
  "assertSubjectBelongsToSchool schoolId subjectId =
     bindE (findFirst subjects (\<lambda>j. sj_id j = subjectId \<and> sj_schoolId j = schoolId)) (\<lambda>subject.
     require (subject \<noteq> None) (BadRequest ''Matiere introuvable pour cette ecole''))"

text \<open>The qualification through the active assignment of the teacher to the school.\<close>

definition isQualified :: "db \<Rightarrow> id \<Rightarrow> id \<Rightarrow> id \<Rightarrow> bool" where
  "isQualified s schoolId teacherId subjectId \<longleftrightarrow>
     (\<exists>x \<in> set (teacherSubjects s). tss_subjectId x = subjectId \<and>
        (\<exists>t \<in> set (teacherSchools s). ts_id t = tss_teacherSchoolId x \<and> ts_schoolId t = schoolId \<and>
           ts_teacherId t = teacherId \<and> ts_isActive t))"

definition assertTeacherQualified :: "id \<Rightarrow> id \<Rightarrow> id \<Rightarrow> (db, unit) exec" where
  "assertTeacherQualified schoolId teacherId subjectId =
     bindE (asks (\<lambda>s. isQualified s schoolId teacherId subjectId)) (\<lambda>qualification.
     require qualification
       (BadRequest ''Ce professeur n'est pas declare qualifie pour cette matiere dans votre ecole''))"

definition createRequirement ::
  "mail_config \<Rightarrow> id \<Rightarrow> id \<Rightarrow> requirement_dto \<Rightarrow> (db, requirement_row) exec" where
  "createRequirement C schoolId classId dto =
     bindE (ensureClass schoolId classId) (\<lambda>_.
     thenE (assertSubjectBelongsToSchool schoolId (qd_subjectId dto))
     (thenE (assertAcademicYearExists (qd_academicYearId dto))
     (bindE (findFirst requirements
               (\<lambda>q. rq_classId q = classId \<and> rq_subjectId q = qd_subjectId dto)) (\<lambda>existing.
      thenE (require (existing = None)
               (BadRequest ''Cette matiere est deja definie pour cette classe''))
      (bindE (newId (mailUuid C)) (\<lambda>i.
       insertRow requirements requirements_update requirementClash
         \<lparr>rq_id = i, rq_schoolId = schoolId, rq_academicYearId = qd_academicYearId dto,
          rq_classId = classId, rq_subjectId = qd_subjectId dto,
          rq_hoursPerWeek = qd_hoursPerWeek dto\<rparr>))))))"

definition patchRequirement :: "requirement_patch \<Rightarrow> requirement_row \<Rightarrow> requirement_row" where
  "patchRequirement dto q =
     q\<lparr>rq_subjectId := nullish (qp_subjectId dto) (rq_subjectId q),
       rq_academicYearId := nullish (qp_academicYearId dto) (rq_academicYearId q),
       rq_hoursPerWeek := nullish (qp_hoursPerWeek dto) (rq_hoursPerWeek q)\<rparr>"

text \<open>The foreign keys of the patched columns must exist, in whatever school.\<close>

definition updateRequirement :: "id \<Rightarrow> id \<Rightarrow> id \<Rightarrow> requirement_patch \<Rightarrow> (db, requirement_row) exec" where
  "updateRequirement schoolId classId requirementId dto =
     bindE (ensureRequirement schoolId classId requirementId) (\<lambda>q.
     bindE (asks (\<lambda>s.
              (case qp_subjectId dto of None \<Rightarrow> True | Some i \<Rightarrow> i \<in> sj_id ` set (subjects s)) \<and>
              (case qp_academicYearId dto of None \<Rightarrow> True | Some y \<Rightarrow> y \<in> ay_id ` set (academicYears s)))) (\<lambda>fk.
     thenE (require fk (Failure ''P2003''))
     (thenE (updateUnique requirements requirements_update requirementClash
               (\<lambda>q. rq_id q = requirementId) (patchRequirement dto))
     (ret (patchRequirement dto q)))))"

definition deleteRequirement :: "id \<Rightarrow> id \<Rightarrow> id \<Rightarrow> (db, id) exec" where
  "deleteRequirement schoolId classId requirementId =
     bindE (ensureRequirement schoolId classId requirementId) (\<lambda>_.
     thenE (removeRequirements (\<lambda>q. rq_id q = requirementId)) (ret requirementId))"

definition assignTeacher :: "id \<Rightarrow> id \<Rightarrow> id \<Rightarrow> id \<Rightarrow> (db, unit) exec" where
  "assignTeacher schoolId classId requirementId teacherId =
     bindE (ensureRequirement schoolId classId requirementId) (\<lambda>requirement.
     thenE (assertTeacherQualified schoolId teacherId (rq_subjectId requirement))
     (upsertRow teacherAssignments teacherAssignments_update
        (\<lambda>a. as_requirementId a = requirementId) (\<lambda>a. a\<lparr>as_teacherId := teacherId\<rparr>)
        \<lparr>as_requirementId = requirementId, as_teacherId = teacherId\<rparr>))"

definition unassignTeacher :: "id \<Rightarrow> id \<Rightarrow> id \<Rightarrow> (db, id) exec" where
  "unassignTeacher schoolId classId requirementId =
     bindE (ensureRequirement schoolId classId requirementId) (\<lambda>_.
     thenE (deleteMany teacherAssignments teacherAssignments_update
              (\<lambda>a. as_requirementId a = requirementId)) (ret requirementId))"

section \<open>One request\<close>

datatype scheduling_request =
    CreateRoom room_dto | UpdateRoom id room_patch | DeleteRoom id
  | CreateTimeSlot time_slot_dto | UpdateTimeSlot id time_slot_patch | DeleteTimeSlot id
  | CreateClass class_dto | UpdateClass id class_patch | DeleteClass id
  | CreateRequirement id requirement_dto | UpdateRequirement id id requirement_patch
  | DeleteRequirement id id | AssignTeacher id id id | UnassignTeacher id id

fun serveScheduling :: "mail_config \<Rightarrow> id \<Rightarrow> scheduling_request \<Rightarrow> (db, unit) exec" where
  "serveScheduling C sc (CreateRoom dto) = thenE (createRoom C sc dto) (ret ())"
| "serveScheduling C sc (UpdateRoom i dto) = thenE (updateRoom sc i dto) (ret ())"
| "serveScheduling C sc (DeleteRoom i) = thenE (deleteRoom sc i) (ret ())"
| "serveScheduling C sc (CreateTimeSlot dto) = thenE (createTimeSlot C sc dto) (ret ())"
| "serveScheduling C sc (UpdateTimeSlot i dto) = thenE (updateTimeSlot sc i dto) (ret ())"
| "serveScheduling C sc (DeleteTimeSlot i) = thenE (deleteTimeSlot sc i) (ret ())"
| "serveScheduling C sc (CreateClass dto) = thenE (createClass C sc dto) (ret ())"
| "serveScheduling C sc (UpdateClass i dto) = thenE (updateClass sc i dto) (ret ())"
| "serveScheduling C sc (DeleteClass i) = thenE (deleteClass sc i) (ret ())"
| "serveScheduling C sc (CreateRequirement k dto) = thenE (createRequirement C sc k dto) (ret ())"
| "serveScheduling C sc (UpdateRequirement k i dto) = thenE (updateRequirement sc k i dto) (ret ())"
| "serveScheduling C sc (DeleteRequirement k i) = thenE (deleteRequirement sc k i) (ret ())"
| "serveScheduling C sc (AssignTeacher k i t) = assignTeacher sc k i t"
| "serveScheduling C sc (UnassignTeacher k i) = thenE (unassignTeacher sc k i) (ret ())"

primrec serveSchedulings :: "mail_config \<Rightarrow> (id \<times> scheduling_request) list \<Rightarrow> db \<Rightarrow> db" where
  "serveSchedulings C [] s = s"
| "serveSchedulings C (q # qs) s = serveSchedulings C qs (snd (serveScheduling C (fst q) (snd q) s))"

section \<open>What each request can touch\<close>

text \<open>Guards only read.\<close>

lemma readonly_class:
  "steps (=) (ensureClass sc i) s" "steps (=) (assertAcademicYearExists y) s"
  "steps (=) (assertProgramBelongsToSchool sc p) s" "steps (=) (assertClassNameAvailable sc y n) s"
  unfolding ensureClass_def assertAcademicYearExists_def assertProgramBelongsToSchool_def
    assertClassNameAvailable_def
  by (intro step_rules)+

lemma readonly_prepareClass: "steps (=) (prepareClassUpdate sc i dto) s"
  unfolding prepareClassUpdate_def by (intro step_rules readonly_class)

lemma thenE_okE:
  assumes "fst (thenE m k s) = Inr x"
  obtains s' where "fst (k s') = Inr x"
  using assms that by (auto simp: thenE_run split: prod.splits sum.splits)

lemma prepareClass_found:
  assumes "fst (prepareClassUpdate sc i dto s) = Inr c"
  shows "find (\<lambda>c. cl_id c = i \<and> cl_schoolId c = sc) (classes s) = Some c"
proof (cases "find (\<lambda>c. cl_id c = i \<and> cl_schoolId c = sc) (classes s)")
  case None
  with assms show ?thesis by (simp add: prepareClassUpdate_def ensureClass_def exec_simps)
next
  case (Some c')
  then have "ensureClass sc i s = (Inr c', s)" by (simp add: ensureClass_def exec_simps)
  with assms have "c = c'"
    unfolding prepareClassUpdate_def bindE_run by (auto elim!: thenE_okE simp: ret_run)
  with Some show ?thesis by simp
qed

lemma updateClass_cases:
  obtains "snd (updateClass sc i dto s) = s"
  | c where "find (\<lambda>c. cl_id c = i \<and> cl_schoolId c = sc) (classes s) = Some c"
    "sorted_wrt (\<lambda>a b. \<not> classClash a b) (update_rows (\<lambda>c. cl_id c = i) (patchClass dto) (classes s))"
    "snd (updateClass sc i dto s) = s\<lparr>classes := update_rows (\<lambda>c. cl_id c = i) (patchClass dto) (classes s)\<rparr>"
proof -
  have run: "updateClass sc i dto s = (case fst (prepareClassUpdate sc i dto s) of Inl e \<Rightarrow> (Inl e, s)
      | Inr c \<Rightarrow> thenE (updateUnique classes classes_update classClash (\<lambda>c. cl_id c = i) (patchClass dto))
                  (ret (patchClass dto c)) s)"
    unfolding updateClass_def by (rule readonly_bind [OF readonly_prepareClass])
  show thesis
  proof (cases "fst (prepareClassUpdate sc i dto s)")
    case (Inl e)
    then show thesis by (intro that(1)) (simp add: run)
  next
    case (Inr c)
    show thesis
    proof (cases "sorted_wrt (\<lambda>a b. \<not> classClash a b)
        (update_rows (\<lambda>c. cl_id c = i) (patchClass dto) (classes s))")
      case True
      then show thesis by (intro that(2) [OF prepareClass_found [OF Inr]]) (simp_all add: run Inr exec_simps)
    next
      case False
      then show thesis by (intro that(1)) (simp add: run Inr exec_simps)
    qed
  qed
qed

lemmas room_ops = createRoom_def updateRoom_def deleteRoom_def ensureRoom_def assertRoomNameAvailable_def
lemmas grid_ops = createTimeSlot_def updateTimeSlot_def deleteTimeSlot_def ensureTimeSlot_def
  assertTimeOrder_def assertNoTimeSlotOverlap_def
lemmas class_ops = createClass_def ensureClass_def assertClassNameAvailable_def
  assertProgramBelongsToSchool_def assertAcademicYearExists_def
lemmas need_ops = createRequirement_def updateRequirement_def ensureRequirement_def ensureClass_def
  assertSubjectBelongsToSchool_def assertAcademicYearExists_def
lemmas teacher_ops = assignTeacher_def unassignTeacher_def ensureRequirement_def assertTeacherQualified_def

text \<open>The tables of the service.\<close>

fun roomRequest :: "scheduling_request \<Rightarrow> bool" where
  "roomRequest (CreateRoom _) = True" | "roomRequest (UpdateRoom _ _) = True"
| "roomRequest (DeleteRoom _) = True" | "roomRequest _ = False"

fun gridRequest :: "scheduling_request \<Rightarrow> bool" where
  "gridRequest (CreateTimeSlot _) = True" | "gridRequest (UpdateTimeSlot _ _) = True"
| "gridRequest (DeleteTimeSlot _) = True" | "gridRequest _ = False"

text \<open>A write of one table leaves every function of the others.\<close>

lemma write_frames:
  "(\<And>g t. f (upd g t) = f t) \<Longrightarrow> steps (frames f) (insertRow rows upd K r) s"
  "(\<And>g t. f (upd g t) = f t) \<Longrightarrow> steps (frames f) (updateUnique rows upd K P h) s"
  "(\<And>g t. f (upd g t) = f t) \<Longrightarrow> steps (frames f) (deleteMany rows upd P) s"
  "(\<And>g t. f (upd g t) = f t) \<Longrightarrow> steps (frames f) (upsertRow rows upd P h r) s"
  "(\<And>t. f (k t) = f t) \<Longrightarrow> steps (frames f) (modify k) s"
  "(\<And>g t. f (seqNo_update g t) = f t) \<Longrightarrow> steps (frames f) (newId uuid) s"
  by (simp_all add: steps_def frames_def exec_simps)

lemmas service_defs = room_ops grid_ops class_ops need_ops teacher_ops updateClass_def
  prepareClassUpdate_def deleteClass_def deleteRequirement_def removeRequirements_def

lemma frame_rooms:
  "\<not> roomRequest q \<Longrightarrow> steps (frames rooms) (serveScheduling C sc q) s"
  by (cases q; simp only: serveScheduling.simps service_defs roomRequest.simps not_True_eq_False;
      intro step_rules write_frames; simp)

lemma frame_grid:
  "\<not> gridRequest q \<Longrightarrow> steps (frames timeSlots) (serveScheduling C sc q) s"
  by (cases q; simp only: serveScheduling.simps service_defs gridRequest.simps not_True_eq_False;
      intro step_rules write_frames; simp)

lemma frame_classes:
  "roomRequest q \<or> gridRequest q \<Longrightarrow>
   steps (frames (\<lambda>s. (classes s, requirements s, teacherAssignments s, courses s)))
     (serveScheduling C sc q) s"
  by (cases q; simp only: serveScheduling.simps service_defs roomRequest.simps gridRequest.simps
        not_True_eq_False disj_not1 simp_thms; intro step_rules write_frames; simp)

lemma frame_slots: "steps (frames courseSlots) (serveScheduling C sc q) s"
  by (cases q; simp only: serveScheduling.simps service_defs; intro step_rules write_frames; simp)

section \<open>The grid\<close>

definition gridTimes :: "time_slot_row \<Rightarrow> bool" where
  "gridTimes t \<longleftrightarrow> timeOk (sl_startTime t) \<and> timeOk (sl_endTime t) \<and> sl_startTime t < sl_endTime t"

definition gridOverlap :: "time_slot_row \<Rightarrow> time_slot_row \<Rightarrow> bool" where
  "gridOverlap a b \<longleftrightarrow>
     sl_schoolId a = sl_schoolId b \<and> sl_dayOfWeek a = sl_dayOfWeek b \<and>
     sl_startTime a < sl_endTime b \<and> sl_startTime b < sl_endTime a"

definition gridInv :: "db \<Rightarrow> bool" where
  "gridInv s \<longleftrightarrow>
     distinct (map sl_id (timeSlots s)) \<and> (\<forall>t \<in> set (timeSlots s). gridTimes t) \<and>
     (\<forall>a \<in> set (timeSlots s). \<forall>b \<in> set (timeSlots s). sl_id a \<noteq> sl_id b \<longrightarrow> \<not> gridOverlap a b)"

lemma gridOverlap_commute: "gridOverlap a b \<longleftrightarrow> gridOverlap b a"
  by (auto simp: gridOverlap_def)

lemma grid_insert:
  assumes "gridInv s" "gridTimes t" "\<forall>x \<in> set (timeSlots s). sl_id x \<noteq> sl_id t \<and> \<not> gridOverlap x t"
  shows "gridInv (s\<lparr>timeSlots := timeSlots s @ [t]\<rparr>)"
  using assms gridOverlap_commute by (auto simp: gridInv_def)

lemma grid_update:
  assumes inv: "gridInv s" and t: "t \<in> set (timeSlots s)" "sl_id (f t) = sl_id t" "gridTimes (f t)"
    and free: "\<forall>x \<in> set (timeSlots s). sl_id x \<noteq> sl_id t \<longrightarrow> \<not> gridOverlap x (f t)"
  shows "gridInv (s\<lparr>timeSlots := update_rows (\<lambda>x. sl_id x = sl_id t) f (timeSlots s)\<rparr>)"
proof -
  have ids: "distinct (map sl_id (timeSlots s))" using inv by (simp add: gridInv_def)
  have only: "x = t" if "x \<in> set (timeSlots s)" "sl_id x = sl_id t" for x
    using distinct_key_eq [OF ids that(1) t(1) that(2)] .
  have "map sl_id (update_rows (\<lambda>x. sl_id x = sl_id t) f (timeSlots s)) = map sl_id (timeSlots s)"
    using only t(2) unfolding update_rows_def map_map comp_def by (intro map_cong) auto
  moreover have "x \<in> set (timeSlots s) \<and> sl_id x \<noteq> sl_id t \<or> x = f t"
    if "x \<in> set (update_rows (\<lambda>x. sl_id x = sl_id t) f (timeSlots s))" for x
    using that
  proof (rule in_update_rowsE)
    fix y assume y: "y \<in> set (timeSlots s)" "x = (if sl_id y = sl_id t then f y else y)"
    with only [OF y(1)] show ?thesis by (cases "sl_id y = sl_id t") auto
  qed
  ultimately show ?thesis
    using inv t(3) free gridOverlap_commute unfolding gridInv_def
    by simp (metis (no_types, lifting) t(2))
qed

lemma grid_filter: "gridInv s \<Longrightarrow> gridInv (s\<lparr>timeSlots := filter P (timeSlots s)\<rparr>)"
  by (auto simp: gridInv_def distinct_map intro: inj_on_subset)

definition gridOk :: "scheduling_request \<Rightarrow> bool" where
  "gridOk q \<longleftrightarrow>
     (case q of
        CreateTimeSlot dto \<Rightarrow> timeOk (gd_startTime dto) \<and> timeOk (gd_endTime dto)
      | UpdateTimeSlot i dto \<Rightarrow>
          pred_option timeOk (gp_startTime dto) \<and> pred_option timeOk (gp_endTime dto)
      | _ \<Rightarrow> True)"

lemma gridInv_same: "timeSlots t = timeSlots s \<Longrightarrow> gridInv t \<longleftrightarrow> gridInv s"
  by (simp add: gridInv_def)

lemma grid_create_effect:
  assumes "gridOk (CreateTimeSlot dto)"
  shows "timeSlots (snd (createTimeSlot C sc dto s)) = timeSlots s \<or>
     (\<exists>t. timeSlots (snd (createTimeSlot C sc dto s)) = timeSlots s @ [t] \<and> gridTimes t \<and>
        (\<forall>x \<in> set (timeSlots s). sl_id x \<noteq> sl_id t \<and> \<not> gridOverlap x t))"
proof -
  let ?t = "\<lparr>sl_id = mailUuid C (seqNo s), sl_schoolId = sc, sl_dayOfWeek = gd_dayOfWeek dto,
         sl_startTime = gd_startTime dto, sl_endTime = gd_endTime dto, sl_label = gd_label dto,
         sl_isActive = nullish (gd_isActive dto) True\<rparr>"
  have "timeSlots (snd (createTimeSlot C sc dto s)) = timeSlots s \<or>
     timeSlots (snd (createTimeSlot C sc dto s)) = timeSlots s @ [?t] \<and>
     gd_startTime dto < gd_endTime dto \<and>
     (\<forall>x \<in> set (timeSlots s). sl_id x \<noteq> sl_id ?t \<and> \<not> gridOverlap x ?t)"
    by (auto simp: grid_ops exec_simps gridOverlap_def gridClash_def find_None)
  moreover have "gridTimes ?t" if "gd_startTime dto < gd_endTime dto"
    using assms that by (simp add: gridTimes_def gridOk_def)
  ultimately show ?thesis by metis
qed

lemma grid_create:
  assumes "gridOk (CreateTimeSlot dto)" "gridInv s"
  shows "gridInv (snd (createTimeSlot C sc dto s))"
  using grid_create_effect [OF assms(1), of C sc s]
proof (elim disjE exE conjE)
  fix t assume t: "timeSlots (snd (createTimeSlot C sc dto s)) = timeSlots s @ [t]" "gridTimes t"
    "\<forall>x \<in> set (timeSlots s). sl_id x \<noteq> sl_id t \<and> \<not> gridOverlap x t"
  from gridInv_same [of "snd (createTimeSlot C sc dto s)" "s\<lparr>timeSlots := timeSlots s @ [t]\<rparr>"]
  show ?thesis using t(1) grid_insert [OF assms(2) t(2,3)] by simp
next
  assume "timeSlots (snd (createTimeSlot C sc dto s)) = timeSlots s"
  from gridInv_same [OF this] assms(2) show ?thesis by simp
qed

lemma patchTimeSlot_simps [simp]:
  "sl_id (patchTimeSlot dto t) = sl_id t"
  "sl_schoolId (patchTimeSlot dto t) = sl_schoolId t"
  "sl_dayOfWeek (patchTimeSlot dto t) = sm_dayOfWeek (candidateTime dto t)"
  "sl_startTime (patchTimeSlot dto t) = sm_startTime (candidateTime dto t)"
  "sl_endTime (patchTimeSlot dto t) = sm_endTime (candidateTime dto t)"
  by (simp_all add: patchTimeSlot_def candidateTime_def)

lemma grid_change:
  assumes "gridOk (UpdateTimeSlot i dto)" "gridInv s"
  shows "gridInv (snd (updateTimeSlot sc i dto s))"
proof (cases "find (\<lambda>t. sl_id t = i \<and> sl_schoolId t = sc) (timeSlots s)")
  case None
  with assms(2) show ?thesis by (simp add: updateTimeSlot_def ensureTimeSlot_def exec_simps)
next
  case (Some t)
  note t = find_Some_in [OF Some]
  let ?u = "s\<lparr>timeSlots := update_rows (\<lambda>x. sl_id x = sl_id t) (patchTimeSlot dto) (timeSlots s)\<rparr>"
  have "gridTimes t" using assms(2) t by (auto simp: gridInv_def)
  then have ok: "timeOk (sl_startTime (patchTimeSlot dto t)) \<and> timeOk (sl_endTime (patchTimeSlot dto t))"
    using assms(1) by (auto simp: gridOk_def gridTimes_def candidateTime_def nullish_def split: option.splits)
  have "snd (updateTimeSlot sc i dto s) = s \<or>
      snd (updateTimeSlot sc i dto s) = ?u \<and>
      sm_startTime (candidateTime dto t) < sm_endTime (candidateTime dto t) \<and>
      (\<forall>x \<in> set (timeSlots s). sl_id x \<noteq> sl_id t \<longrightarrow> \<not> gridOverlap x (patchTimeSlot dto t))"
    using Some t by (auto simp: grid_ops exec_simps gridOverlap_def find_None)
  then show ?thesis
    using assms(2) grid_update [OF assms(2), of t "patchTimeSlot dto"] t ok by (auto simp: gridTimes_def)
qed

lemma grid_delete: "gridInv s \<Longrightarrow> gridInv (snd (deleteTimeSlot sc i s))"
  by (auto simp: deleteTimeSlot_def ensureTimeSlot_def exec_simps grid_filter split: option.splits)

lemma grid_serve:
  assumes "gridOk q" "gridInv s"
  shows "gridInv (snd (serveScheduling C sc q s))"
proof (cases "gridRequest q")
  case False
  from frame_grid [OF this, of C sc s] show ?thesis
    using assms(2) gridInv_same [of "snd (serveScheduling C sc q s)" s]
    by (simp add: steps_def frames_def)
next
  case True
  with assms show ?thesis by (cases q) (auto simp: snd_then_ret grid_create grid_change grid_delete)
qed

lemma grid_requests:
  "list_all (\<lambda>q. gridOk (snd q)) qs \<Longrightarrow> gridInv s \<Longrightarrow> gridInv (serveSchedulings C qs s)"
  by (induction qs arbitrary: s) (simp_all add: grid_serve)

section \<open>Names\<close>

lemma dropWhile_trimmed: "dropWhile P xs = xs \<longleftrightarrow> xs = [] \<or> \<not> P (hd xs)"
  by (cases xs) (auto dest: arg_cong [of _ _ length] simp: le_imp_less_Suc [OF length_dropWhile_le] less_imp_neq)

lemma hd_trimmed: "dropWhile P xs = [] \<or> \<not> P (hd (dropWhile P xs))"
  by (induction xs) auto

lemma trim_ends: "trim x = [] \<or> \<not> isSpace (hd (trim x)) \<and> \<not> isSpace (last (trim x))"
proof (cases "trim x = []")
  case False
  let ?y = "dropWhile isSpace x"
  have last: "\<not> isSpace (last (trim x))"
    using False hd_trimmed [of isSpace "rev ?y"] by (auto simp: trim_def last_rev)
  obtain zs where "rev ?y = zs @ dropWhile isSpace (rev ?y)"
    by (metis takeWhile_dropWhile_id)
  then have "?y = trim x @ rev zs" by (metis rev_append rev_rev_ident trim_def)
  with False have "hd (trim x) = hd ?y" "?y \<noteq> []" by auto
  with hd_trimmed [of isSpace x] last show ?thesis by auto
qed simp

text \<open>Trimming twice is trimming once: stored names compare equal to what a request trims.\<close>

lemma trim_trim [simp]: "trim (trim x) = trim x"
proof (cases "trim x = []")
  case True
  then show ?thesis by (simp add: trim_def [of "[]"])
next
  case False
  with trim_ends [of x] have "dropWhile isSpace (trim x) = trim x" "dropWhile isSpace (rev (trim x)) = rev (trim x)"
    by (auto simp: dropWhile_trimmed hd_rev)
  then show ?thesis by (simp add: trim_def [of "trim x"])
qed

definition namesInv :: "db \<Rightarrow> bool" where
  "namesInv s \<longleftrightarrow>
     sorted_wrt (\<lambda>a b. \<not> roomClash a b) (rooms s) \<and> (\<forall>r \<in> set (rooms s). trim (rm_name r) = rm_name r) \<and>
     sorted_wrt (\<lambda>a b. \<not> classClash a b) (classes s) \<and> (\<forall>c \<in> set (classes s). trim (cl_name c) = cl_name c)"

lemma sorted_wrt_filter_clash: "sorted_wrt R xs \<Longrightarrow> sorted_wrt R (filter P xs)"
  by (induction xs) auto

lemma names_rooms:
  assumes "namesInv s"
  shows "namesInv (snd (createRoom C sc dto s))" "namesInv (snd (updateRoom sc i rp s))"
    "namesInv (snd (deleteRoom sc i s))"
  using assms
  by (auto simp: room_ops exec_simps namesInv_def sorted_wrt_append patchRoom_def nullish_def
      sorted_wrt_filter_clash split: option.splits elim!: in_update_rowsE)

lemma names_createClass: "namesInv s \<Longrightarrow> namesInv (snd (createClass C sc kd s))"
  by (auto simp: class_ops exec_simps namesInv_def sorted_wrt_append split: option.splits)

lemma names_updateClass:
  assumes "namesInv s"
  shows "namesInv (snd (updateClass sc i kp s))"
  by (rule updateClass_cases [of sc i kp s])
    (use assms in \<open>auto simp: namesInv_def patchClass_def nullish_def elim!: in_update_rowsE
       split: option.splits\<close>)

lemma names_delete_class: "namesInv s \<Longrightarrow> namesInv (snd (deleteClass sc i s))"
  by (auto simp: deleteClass_def ensureClass_def removeRequirements_def exec_simps namesInv_def
      sorted_wrt_filter_clash split: option.splits)

lemma names_other:
  assumes "namesInv s"
  shows "namesInv (snd (createRequirement C sc k qd s))" "namesInv (snd (updateRequirement sc k i qp s))"
    "namesInv (snd (deleteRequirement sc k i s))" "namesInv (snd (assignTeacher sc k i t s))"
    "namesInv (snd (unassignTeacher sc k i s))" "namesInv (snd (createTimeSlot C sc gd s))"
    "namesInv (snd (updateTimeSlot sc i gp s))" "namesInv (snd (deleteTimeSlot sc i s))"
  using assms
  by (auto simp: need_ops teacher_ops grid_ops deleteRequirement_def removeRequirements_def exec_simps
      namesInv_def split: option.splits)

lemma names_serve: "namesInv s \<Longrightarrow> namesInv (snd (serveScheduling C sc q s))"
  by (cases q) (simp_all add: snd_then_ret names_rooms names_createClass names_updateClass names_delete_class names_other)

lemma names_requests: "namesInv s \<Longrightarrow> namesInv (serveSchedulings C qs s)"
  by (induction qs arbitrary: s) (simp_all add: names_serve)

section \<open>References between the tables\<close>

definition classesHold :: "db \<Rightarrow> bool" where
  "classesHold s \<longleftrightarrow>
     distinct (map cl_id (classes s)) \<and>
     (\<forall>q \<in> set (requirements s). \<exists>c \<in> set (classes s).
        cl_id c = rq_classId q \<and> cl_schoolId c = rq_schoolId q)"

definition needsHold :: "db \<Rightarrow> bool" where
  "needsHold s \<longleftrightarrow>
     distinct (map rq_id (requirements s)) \<and>
     (\<forall>a \<in> set (teacherAssignments s). as_requirementId a \<in> rq_id ` set (requirements s)) \<and>
     distinct (map as_requirementId (teacherAssignments s)) \<and>
     (\<forall>c \<in> set (courses s). \<forall>i. c_subjectRequirementId c = Some i \<longrightarrow>
        (\<exists>q \<in> set (requirements s). rq_id q = i \<and> rq_schoolId q = c_schoolId c))"

definition refsInv :: "db \<Rightarrow> bool" where
  "refsInv s \<longleftrightarrow> classesHold s \<and> needsHold s"

lemmas refs_defs = refsInv_def classesHold_def needsHold_def

lemma refs_same:
  assumes "classes t = classes s" "requirements t = requirements s"
    "teacherAssignments t = teacherAssignments s" "courses t = courses s"
  shows "refsInv t \<longleftrightarrow> refsInv s"
  using assms by (simp add: refs_defs)

lemma patchClass_keys [simp]:
  "cl_id (patchClass dto c) = cl_id c" "cl_schoolId (patchClass dto c) = cl_schoolId c"
  by (simp_all add: patchClass_def)

lemma patchRequirement_keys [simp]:
  "rq_id (patchRequirement dto q) = rq_id q" "rq_classId (patchRequirement dto q) = rq_classId q"
  "rq_schoolId (patchRequirement dto q) = rq_schoolId q"
  by (simp_all add: patchRequirement_def)

lemma refs_createClass: "refsInv s \<Longrightarrow> refsInv (snd (createClass C sc kd s))"
  by (auto simp: class_ops exec_simps refs_defs classClash_def split: option.splits)

lemma refs_updateClassRows:
  assumes "refsInv s"
  shows "refsInv (s\<lparr>classes := update_rows P (patchClass dto) (classes s)\<rparr>)"
proof -
  have "\<exists>c \<in> set (update_rows P (patchClass dto) (classes s)). cl_id c = i \<and> cl_schoolId c = j"
    if "\<exists>c \<in> set (classes s). cl_id c = i \<and> cl_schoolId c = j" for i j
  proof -
    from that obtain c where "c \<in> set (classes s)" "cl_id c = i" "cl_schoolId c = j" by auto
    then show ?thesis
      by (intro bexI [of _ "if P c then patchClass dto c else c"]) (auto intro: in_update_rowsI)
  qed
  with assms show ?thesis by (simp add: refs_defs)
qed

lemma refs_updateClass: "refsInv s \<Longrightarrow> refsInv (snd (updateClass sc i kp s))"
  by (rule updateClass_cases [of sc i kp s]) (simp_all add: refs_updateClassRows)

lemma needs_hold_removed:
  assumes "needsHold s"
  shows "needsHold (snd (removeRequirements P s))"
proof -
  have gone: "rq_id q \<notin> rq_id ` {x \<in> set (requirements s). P x} \<or> P q" if "q \<in> set (requirements s)" for q
    using that assms distinct_key_eq [of rq_id "requirements s"] by (auto simp: needsHold_def)
  show ?thesis
    using assms gone
    by (auto simp: removeRequirements_def exec_simps needsHold_def distinct_map elim!: in_update_rowsE
        intro: inj_on_subset split: if_splits option.splits) blast+
qed

lemma removed_requirements:
  assumes "distinct (map rq_id (requirements s))"
  shows "requirements (snd (removeRequirements P s)) = filter (\<lambda>q. \<not> P q) (requirements s)"
    and "classes (snd (removeRequirements P s)) = classes s"
proof -
  have "rq_id q \<in> rq_id ` {x \<in> set (requirements s). P x} \<longleftrightarrow> P q" if "q \<in> set (requirements s)" for q
    using that assms distinct_key_eq [of rq_id "requirements s"] by auto
  then show "requirements (snd (removeRequirements P s)) = filter (\<lambda>q. \<not> P q) (requirements s)"
    by (auto simp: removeRequirements_def exec_simps intro!: filter_cong)
  show "classes (snd (removeRequirements P s)) = classes s"
    by (simp add: removeRequirements_def exec_simps)
qed

lemma removeRequirements_ok: "fst (removeRequirements P s) = Inr ()"
  by (simp add: removeRequirements_def exec_simps)

lemma refs_removed:
  assumes "refsInv s"
  shows "refsInv (snd (removeRequirements P s))"
  using assms needs_hold_removed [of s P] removed_requirements [of s P]
  by (auto simp: refsInv_def classesHold_def needsHold_def)

lemma refs_deleteRequirement: "refsInv s \<Longrightarrow> refsInv (snd (deleteRequirement sc k i s))"
  using removeRequirements_ok refs_removed
  by (auto simp: deleteRequirement_def ensureRequirement_def exec_simps split: option.splits prod.splits sum.splits)
    (metis snd_conv)+

lemma refs_deleteClass:
  assumes "refsInv s"
  shows "refsInv (snd (deleteClass sc i s))"
proof -
  obtain t where t: "removeRequirements (\<lambda>q. rq_classId q = i) s = (Inr (), t)"
    using removeRequirements_ok [of "\<lambda>q. rq_classId q = i" s]
    by (cases "removeRequirements (\<lambda>q. rq_classId q = i) s") auto
  have "refsInv t" using refs_removed [OF assms, of "\<lambda>q. rq_classId q = i"] t by simp
  moreover have "requirements t = filter (\<lambda>q. rq_classId q \<noteq> i) (requirements s)"
    using removed_requirements(1) [of s "\<lambda>q. rq_classId q = i"] assms t by (simp add: refs_defs)
  ultimately have "refsInv (t\<lparr>classes := filter (\<lambda>c. cl_id c \<noteq> i) (classes t)\<rparr>)"
    by (auto simp: refs_defs distinct_map intro: inj_on_subset) (metis (no_types, lifting))
  with t assms show ?thesis
    by (auto simp: deleteClass_def ensureClass_def exec_simps split: option.splits)
qed

lemma refs_createRequirement: "refsInv s \<Longrightarrow> refsInv (snd (createRequirement C sc k qd s))"
  by (auto simp: need_ops exec_simps refs_defs requirementClash_def find_Some_iff split: option.splits
      dest!: find_Some_in)

lemma refs_updateRequirementRows:
  assumes "refsInv s"
  shows "refsInv (s\<lparr>requirements := update_rows P (patchRequirement dto) (requirements s)\<rparr>)"
proof -
  have ids: "rq_id ` set (update_rows P (patchRequirement dto) (requirements s)) = rq_id ` set (requirements s)"
    by (metis list.set_map map_update_rows patchRequirement_keys(1))
  have "\<exists>q \<in> set (update_rows P (patchRequirement dto) (requirements s)). rq_id q = i \<and> rq_schoolId q = j"
    if "\<exists>q \<in> set (requirements s). rq_id q = i \<and> rq_schoolId q = j" for i j
  proof -
    from that obtain q where "q \<in> set (requirements s)" "rq_id q = i" "rq_schoolId q = j" by auto
    then show ?thesis
      by (intro bexI [of _ "if P q then patchRequirement dto q else q"]) (auto intro: in_update_rowsI)
  qed
  then show ?thesis
    using assms ids by (simp add: refs_defs) (auto elim!: in_update_rowsE)
qed

lemma refs_updateRequirement: "refsInv s \<Longrightarrow> refsInv (snd (updateRequirement sc k i qp s))"
  by (auto simp: need_ops exec_simps refs_updateRequirementRows split: option.splits)

lemma refs_assignTeacher: "refsInv s \<Longrightarrow> refsInv (snd (assignTeacher sc k i t s))"
  by (auto simp: teacher_ops exec_simps refs_defs split: option.splits dest!: find_Some_in
      elim!: in_update_rowsE)

lemma refs_unassignTeacher: "refsInv s \<Longrightarrow> refsInv (snd (unassignTeacher sc k i s))"
  by (auto simp: teacher_ops exec_simps refs_defs distinct_map split: option.splits intro: inj_on_subset)

lemma refs_serve:
  assumes "refsInv s"
  shows "refsInv (snd (serveScheduling C sc q s))"
proof (cases "roomRequest q \<or> gridRequest q")
  case True
  from frame_classes [OF this, of C sc s] show ?thesis
    using assms refs_same [of "snd (serveScheduling C sc q s)" s] by (simp add: steps_def frames_def)
next
  case False
  with assms show ?thesis
    by (cases q) (simp_all add: snd_then_ret refs_createClass refs_updateClass refs_deleteClass
        refs_createRequirement refs_updateRequirement refs_deleteRequirement refs_assignTeacher
        refs_unassignTeacher)
qed

section \<open>Subjects and teachers of the needs\<close>

text \<open>What is asked of the teacher of each need, in terms of its school and subject.\<close>

definition staffed :: "(id \<Rightarrow> id \<Rightarrow> id \<Rightarrow> bool) \<Rightarrow> db \<Rightarrow> bool" where
  "staffed Q s \<longleftrightarrow>
     (\<forall>a \<in> set (teacherAssignments s). \<forall>q \<in> set (requirements s).
        rq_id q = as_requirementId a \<longrightarrow> Q (rq_schoolId q) (as_teacherId a) (rq_subjectId q))"

definition worksAt :: "db \<Rightarrow> id \<Rightarrow> id \<Rightarrow> bool" where
  "worksAt s schoolId teacherId \<longleftrightarrow>
     (\<exists>x \<in> set (teacherSchools s). ts_schoolId x = schoolId \<and> ts_teacherId x = teacherId \<and> ts_isActive x)"

text \<open>Teachers assigned to a need work in its school.\<close>

definition staffInv :: "db \<Rightarrow> bool" where
  "staffInv s \<longleftrightarrow> staffed (\<lambda>sc teacher _. worksAt s sc teacher) s"

text \<open>The subject of a need is of its school, and its teacher is qualified for it.\<close>

definition subjectsInv :: "db \<Rightarrow> bool" where
  "subjectsInv s \<longleftrightarrow>
     (\<forall>q \<in> set (requirements s). \<exists>j \<in> set (subjects s).
        sj_id j = rq_subjectId q \<and> sj_schoolId j = rq_schoolId q) \<and>
     staffed (isQualified s) s"

text \<open>A request that is no update of a need with a subject.\<close>

definition subjectKept :: "scheduling_request \<Rightarrow> bool" where
  "subjectKept q \<longleftrightarrow> (case q of UpdateRequirement k i dto \<Rightarrow> qp_subjectId dto = None | _ \<Rightarrow> True)"

lemma isQualified_works: "isQualified s sc t j \<Longrightarrow> worksAt s sc t"
  by (auto simp: isQualified_def worksAt_def)

definition staffTables :: "db \<Rightarrow> subject_row list \<times> teacher_school_row list \<times> teacher_subject_row list" where
  "staffTables s = (subjects s, teacherSchools s, teacherSubjects s)"

lemma frame_staffTables: "steps (frames staffTables) (serveScheduling C sc q) s"
  by (cases q; simp only: serveScheduling.simps service_defs;
      intro step_rules write_frames; simp add: staffTables_def)

lemma staffTables_fields:
  assumes "staffTables t = staffTables s"
  shows "subjects t = subjects s" "worksAt t = worksAt s" "isQualified t = isQualified s"
  using assms by (auto simp: staffTables_def worksAt_def isQualified_def fun_eq_iff)

text \<open>The requests that only take needs and assigned teachers away.\<close>

definition shrinks :: "db \<Rightarrow> db \<Rightarrow> bool" where
  "shrinks s t \<longleftrightarrow>
     set (requirements t) \<subseteq> set (requirements s) \<and>
     set (teacherAssignments t) \<subseteq> set (teacherAssignments s)"

interpretation shr: two_state shrinks
  by unfold_locales (auto simp: shrinks_def)

lemma shrinks_frame: "steps (frames (\<lambda>s. (requirements s, teacherAssignments s))) m s \<Longrightarrow> steps shrinks m s"
  by (simp add: steps_def frames_def shrinks_def)

lemma shrinks_removed: "steps shrinks (removeRequirements P) s"
  by (auto simp: steps_def shrinks_def removeRequirements_def exec_simps)

lemma shrinks_class:
  "steps shrinks (createClass C sc kd) s" "steps shrinks (updateClass sc i kp) s"
  "steps shrinks (deleteClass sc i) s"
proof -
  show "steps shrinks (createClass C sc kd) s" "steps shrinks (updateClass sc i kp) s"
    unfolding class_ops updateClass_def prepareClassUpdate_def
    by (intro shrinks_frame step_rules write_frames; simp)+
  have "steps shrinks (deleteMany classes classes_update P) t" for P t
    by (intro shrinks_frame write_frames) simp
  then show "steps shrinks (deleteClass sc i) s"
    unfolding deleteClass_def ensureClass_def by (intro step_rules shrinks_removed)
qed

lemma shrinks_needs:
  "steps shrinks (deleteRequirement sc k i) s" "steps shrinks (unassignTeacher sc k i) s"
proof -
  have "steps shrinks (deleteMany teacherAssignments teacherAssignments_update P) t" for P t
    by (auto simp: steps_def shrinks_def exec_simps)
  then show "steps shrinks (deleteRequirement sc k i) s" "steps shrinks (unassignTeacher sc k i) s"
    unfolding deleteRequirement_def unassignTeacher_def ensureRequirement_def
    by (intro step_rules shrinks_removed)+
qed

fun staffRequest :: "scheduling_request \<Rightarrow> bool" where
  "staffRequest (CreateRequirement _ _) = True" | "staffRequest (UpdateRequirement _ _ _) = True"
| "staffRequest (AssignTeacher _ _ _) = True" | "staffRequest _ = False"

lemma shrinks_serve:
  assumes "\<not> staffRequest q"
  shows "steps shrinks (serveScheduling C sc q) s"
proof (cases "roomRequest q \<or> gridRequest q")
  case True
  from frame_classes [OF this, of C sc s] show ?thesis
    by (simp add: steps_def frames_def shrinks_def)
next
  case False
  with assms show ?thesis
    by (cases q) (auto intro!: step_rules shrinks_class shrinks_needs)
qed

lemma staffed_shrinks: "shrinks s t \<Longrightarrow> staffed Q s \<Longrightarrow> staffed Q t"
  unfolding staffed_def shrinks_def by blast

lemma createRequirement_effect:
  obtains "requirements (snd (createRequirement C sc k dto s)) = requirements s"
    "teacherAssignments (snd (createRequirement C sc k dto s)) = teacherAssignments s"
  | q where "requirements (snd (createRequirement C sc k dto s)) = requirements s @ [q]"
    "teacherAssignments (snd (createRequirement C sc k dto s)) = teacherAssignments s"
    "rq_id q \<notin> rq_id ` set (requirements s)"
    "\<exists>j \<in> set (subjects s). sj_id j = rq_subjectId q \<and> sj_schoolId j = rq_schoolId q"
proof -
  let ?t = "snd (createRequirement C sc k dto s)"
  let ?q = "\<lparr>rq_id = mailUuid C (seqNo s), rq_schoolId = sc, rq_academicYearId = qd_academicYearId dto,
    rq_classId = k, rq_subjectId = qd_subjectId dto, rq_hoursPerWeek = qd_hoursPerWeek dto\<rparr>"
  have t: "teacherAssignments ?t = teacherAssignments s"
    by (simp add: need_ops exec_simps split: option.split)
  have r: "requirements ?t = requirements s \<or> requirements ?t = requirements s @ [?q] \<and>
      find (\<lambda>j. sj_id j = qd_subjectId dto \<and> sj_schoolId j = sc) (subjects s) \<noteq> None \<and>
      \<not> (\<exists>x \<in> set (requirements s). requirementClash x ?q)"
    by (simp add: need_ops exec_simps split: option.split)
  have "\<exists>j \<in> set (subjects s). sj_id j = qd_subjectId dto \<and> sj_schoolId j = sc"
    if "find (\<lambda>j. sj_id j = qd_subjectId dto \<and> sj_schoolId j = sc) (subjects s) \<noteq> None"
    using that by (auto simp: find_None)
  moreover have "rq_id ?q \<notin> rq_id ` set (requirements s)"
    if "\<not> (\<exists>x \<in> set (requirements s). requirementClash x ?q)"
    using that by (auto simp: requirementClash_def)
  ultimately show thesis using that(1) [OF _ t] that(2) [OF _ t, of ?q] r by auto
qed

lemma staffed_createRequirement:
  assumes "staffed Q s" "needsHold s"
  shows "staffed Q (snd (createRequirement C sc k dto s))"
proof (rule createRequirement_effect [of C sc k dto s])
  fix q assume q: "requirements (snd (createRequirement C sc k dto s)) = requirements s @ [q]"
    "teacherAssignments (snd (createRequirement C sc k dto s)) = teacherAssignments s"
    "rq_id q \<notin> rq_id ` set (requirements s)"
  have "rq_id q \<noteq> as_requirementId a" if "a \<in> set (teacherAssignments s)" for a
    using assms(2) that q(3) unfolding needsHold_def by metis
  with assms(1) show ?thesis unfolding staffed_def q(1,2) by simp
qed (use assms in \<open>simp_all add: staffed_def\<close>)

lemma updateRequirement_effect:
  obtains "snd (updateRequirement sc k i dto s) = s"
  | "snd (updateRequirement sc k i dto s) =
      s\<lparr>requirements := update_rows (\<lambda>q. rq_id q = i) (patchRequirement dto) (requirements s)\<rparr>"
proof -
  have "snd (updateRequirement sc k i dto s) = s \<or> snd (updateRequirement sc k i dto s) =
      s\<lparr>requirements := update_rows (\<lambda>q. rq_id q = i) (patchRequirement dto) (requirements s)\<rparr>"
    by (cases "find (\<lambda>q. rq_id q = i \<and> rq_classId q = k \<and> rq_schoolId q = sc) (requirements s)")
      (simp_all add: updateRequirement_def ensureRequirement_def exec_simps)
  with that show thesis by blast
qed

lemma staffed_patched:
  assumes "staffed Q s" "\<And>q teacher. Q (rq_schoolId q) teacher (rq_subjectId q) \<Longrightarrow>
    Q (rq_schoolId q) teacher (rq_subjectId (patchRequirement dto q))"
  shows "staffed Q (snd (updateRequirement sc k i dto s))"
proof (rule updateRequirement_effect [of sc k i dto s])
  assume t: "snd (updateRequirement sc k i dto s) =
      s\<lparr>requirements := update_rows (\<lambda>q. rq_id q = i) (patchRequirement dto) (requirements s)\<rparr>"
  show ?thesis
    unfolding t staffed_def
  proof (intro ballI impI)
    fix a q assume a: "a \<in> set (teacherAssignments
        (s\<lparr>requirements := update_rows (\<lambda>q. rq_id q = i) (patchRequirement dto) (requirements s)\<rparr>))"
      and q: "q \<in> set (requirements
        (s\<lparr>requirements := update_rows (\<lambda>q. rq_id q = i) (patchRequirement dto) (requirements s)\<rparr>))"
      and eq: "rq_id q = as_requirementId a"
    from q obtain r where r: "r \<in> set (requirements s)" "q = (if rq_id r = i then patchRequirement dto r else r)"
      by (auto elim: in_update_rowsE)
    with eq have "rq_id r = as_requirementId a" by (cases "rq_id r = i") auto
    with assms(1) a r(1) have "Q (rq_schoolId r) (as_teacherId a) (rq_subjectId r)"
      by (simp add: staffed_def)
    with r(2) assms(2) show "Q (rq_schoolId q) (as_teacherId a) (rq_subjectId q)"
      by (cases "rq_id r = i") auto
  qed
qed (use assms(1) in simp)

lemma staffed_assign:
  assumes "staffed Q s" "needsHold s"
    and "\<And>j. isQualified s sc teacher j \<Longrightarrow> Q sc teacher j"
  shows "staffed Q (snd (assignTeacher sc k i teacher s))"
proof (cases "find (\<lambda>q. rq_id q = i \<and> rq_classId q = k \<and> rq_schoolId q = sc) (requirements s)")
  case None
  with assms(1) show ?thesis by (simp add: teacher_ops exec_simps)
next
  case (Some q)
  note q = find_Some_in [OF Some]
  show ?thesis
  proof (cases "isQualified s sc teacher (rq_subjectId q)")
    case False
    with assms(1) Some show ?thesis by (simp add: teacher_ops exec_simps)
  next
    case True
    with assms(3) have Q: "Q sc teacher (rq_subjectId q)" .
    let ?t = "snd (assignTeacher sc k i teacher s)"
    have t: "requirements ?t = requirements s" and
      new: "a \<in> set (teacherAssignments s) \<or> as_requirementId a = i \<and> as_teacherId a = teacher"
        if "a \<in> set (teacherAssignments ?t)" for a
      using Some True that by (auto simp: teacher_ops exec_simps elim!: in_update_rowsE split: if_splits)
    have only: "r = q" if "r \<in> set (requirements s)" "rq_id r = i" for r
      using assms(2) q that distinct_key_eq [of rq_id "requirements s" r q] by (simp add: needsHold_def)
    show ?thesis
      unfolding staffed_def
    proof (intro ballI impI)
      fix a r assume "a \<in> set (teacherAssignments ?t)" "r \<in> set (requirements ?t)" "rq_id r = as_requirementId a"
      with t new only Q q assms(1) show "Q (rq_schoolId r) (as_teacherId a) (rq_subjectId r)"
        unfolding staffed_def by metis
    qed
  qed
qed

text \<open>Whoever is asked for: the state before and after one request.\<close>

lemma staffed_serve:
  assumes "staffed Q s" "needsHold s" "\<And>sc teacher j. isQualified s sc teacher j \<Longrightarrow> Q sc teacher j"
    and "subjectKept q \<or> (\<forall>sc teacher j j'. Q sc teacher j = Q sc teacher j')"
  shows "staffed Q (snd (serveScheduling C sc q s))"
proof (cases "staffRequest q")
  case False
  from shrinks_serve [OF this, of C sc s] show ?thesis
    using assms(1) staffed_shrinks by (auto simp: steps_def)
next
  case True
  have patched: "Q (rq_schoolId r) teacher (rq_subjectId (patchRequirement dto r))"
    if "q = UpdateRequirement k i dto" "Q (rq_schoolId r) teacher (rq_subjectId r)" for k i dto r teacher
    using assms(4) that by (auto simp: subjectKept_def patchRequirement_def nullish_def)
  with True assms show ?thesis
    by (cases q) (auto simp: snd_then_ret staffed_createRequirement intro: staffed_patched staffed_assign)
qed

lemma staff_serve:
  assumes "staffInv s" "needsHold s"
  shows "staffInv (snd (serveScheduling C sc q s))"
proof -
  have "staffTables (snd (serveScheduling C sc q s)) = staffTables s"
    using frame_staffTables [of C sc q s] by (simp add: steps_def frames_def)
  then have "worksAt (snd (serveScheduling C sc q s)) = worksAt s" by (rule staffTables_fields(2))
  moreover have "staffed (\<lambda>sc teacher _. worksAt s sc teacher) (snd (serveScheduling C sc q s))"
    by (rule staffed_serve)
      (use assms(1) in \<open>simp add: staffInv_def\<close>, rule assms(2), erule isQualified_works, simp)
  ultimately show ?thesis by (simp add: staffInv_def)
qed

lemma subjects_createRequirement:
  assumes "\<forall>q \<in> set (requirements s). \<exists>j \<in> set (subjects s). sj_id j = rq_subjectId q \<and> sj_schoolId j = rq_schoolId q"
  shows "\<forall>q \<in> set (requirements (snd (createRequirement C sc k dto s))). \<exists>j \<in> set (subjects s).
    sj_id j = rq_subjectId q \<and> sj_schoolId j = rq_schoolId q"
  by (rule createRequirement_effect [of C sc k dto s]) (use assms in auto)

lemma subjects_updateRequirement:
  assumes "\<forall>q \<in> set (requirements s). \<exists>j \<in> set (subjects s). sj_id j = rq_subjectId q \<and> sj_schoolId j = rq_schoolId q"
    and "qp_subjectId dto = None"
  shows "\<forall>q \<in> set (requirements (snd (updateRequirement sc k i dto s))). \<exists>j \<in> set (subjects s).
    sj_id j = rq_subjectId q \<and> sj_schoolId j = rq_schoolId q"
proof -
  have same: "rq_subjectId (patchRequirement dto r) = rq_subjectId r" for r
    using assms(2) by (simp add: patchRequirement_def nullish_def)
  have new: "\<exists>j \<in> set (subjects s). sj_id j = rq_subjectId q \<and> sj_schoolId j = rq_schoolId q"
    if q: "q \<in> set (update_rows (\<lambda>q. rq_id q = i) (patchRequirement dto) (requirements s))" for q
    using q
  proof (rule in_update_rowsE)
    fix r assume r: "r \<in> set (requirements s)" "q = (if rq_id r = i then patchRequirement dto r else r)"
    then have "rq_subjectId q = rq_subjectId r" "rq_schoolId q = rq_schoolId r" using same by auto
    with assms(1) r(1) show ?thesis by simp
  qed
  show ?thesis
  proof (rule updateRequirement_effect [of sc k i dto s])
    assume "snd (updateRequirement sc k i dto s) = s"
    then show ?thesis using assms(1) by (rule ssubst)
  next
    assume t: "snd (updateRequirement sc k i dto s) =
      s\<lparr>requirements := update_rows (\<lambda>q. rq_id q = i) (patchRequirement dto) (requirements s)\<rparr>"
    show ?thesis unfolding t using new by simp
  qed
qed

lemma subjects_known:
  assumes "\<forall>q \<in> set (requirements s). \<exists>j \<in> set (subjects s). sj_id j = rq_subjectId q \<and> sj_schoolId j = rq_schoolId q"
    and "subjectKept q"
  shows "\<forall>r \<in> set (requirements (snd (serveScheduling C sc q s))). \<exists>j \<in> set (subjects s).
    sj_id j = rq_subjectId r \<and> sj_schoolId j = rq_schoolId r"
proof (cases "staffRequest q")
  case False
  from shrinks_serve [OF this, of C sc s] have "set (requirements (snd (serveScheduling C sc q s))) \<subseteq> set (requirements s)"
    by (simp add: steps_def shrinks_def)
  with assms(1) show ?thesis by blast
next
  case True
  then consider (create) k dto where "q = CreateRequirement k dto" | (update) k i dto where "q = UpdateRequirement k i dto"
    | (assign) k i teacher where "q = AssignTeacher k i teacher"
    by (cases q) auto
  then show ?thesis
  proof cases
    case create
    from subjects_createRequirement [OF assms(1), of C sc k dto] show ?thesis
      unfolding create serveScheduling.simps snd_then_ret .
  next
    case update
    with assms(2) have "qp_subjectId dto = None" by (simp add: subjectKept_def)
    from subjects_updateRequirement [OF assms(1) this, of sc k i] show ?thesis
      unfolding update serveScheduling.simps snd_then_ret .
  next
    case assign
    have "requirements (snd (assignTeacher sc k i teacher s)) = requirements s"
      by (simp add: teacher_ops exec_simps split: option.split)
    then have r: "requirements (snd (serveScheduling C sc q s)) = requirements s" by (simp only: assign serveScheduling.simps)
    from assms(1) show ?thesis unfolding r .
  qed
qed

lemma subjects_serve:
  assumes "subjectsInv s" "needsHold s" "subjectKept q"
  shows "subjectsInv (snd (serveScheduling C sc q s))"
proof -
  let ?t = "snd (serveScheduling C sc q s)"
  have T: "staffTables ?t = staffTables s"
    using frame_staffTables [of C sc q s] by (simp add: steps_def frames_def)
  have "\<forall>r \<in> set (requirements ?t). \<exists>j \<in> set (subjects s). sj_id j = rq_subjectId r \<and> sj_schoolId j = rq_schoolId r"
    using assms(1) by (intro subjects_known [OF _ assms(3)]) (simp add: subjectsInv_def)
  moreover have "staffed (isQualified s) ?t"
    using assms(1) by (intro staffed_serve disjI1 assms(2,3)) (simp_all add: subjectsInv_def)
  ultimately show ?thesis
    unfolding subjectsInv_def staffTables_fields [OF T] by (rule conjI)
qed

section \<open>Schools are separate\<close>

text \<open>Everything the service keeps for the other schools.\<close>

definition ownNeed :: "db \<Rightarrow> id \<Rightarrow> id \<Rightarrow> bool" where
  "ownNeed s sc i \<longleftrightarrow> (\<exists>q \<in> set (requirements s). rq_id q = i \<and> rq_schoolId q = sc)"

record school_view =
  vw_rooms :: "room_row list"
  vw_grid :: "time_slot_row list"
  vw_classes :: "class_row list"
  vw_needs :: "requirement_row list"
  vw_teachers :: "assignment_row list"
  vw_courses :: "course_row list"

definition othersView :: "id \<Rightarrow> db \<Rightarrow> school_view" where
  "othersView sc s =
     \<lparr>vw_rooms = filter (\<lambda>r. rm_schoolId r \<noteq> sc) (rooms s),
      vw_grid = filter (\<lambda>t. sl_schoolId t \<noteq> sc) (timeSlots s),
      vw_classes = filter (\<lambda>c. cl_schoolId c \<noteq> sc) (classes s),
      vw_needs = filter (\<lambda>q. rq_schoolId q \<noteq> sc) (requirements s),
      vw_teachers = filter (\<lambda>a. \<not> ownNeed s sc (as_requirementId a)) (teacherAssignments s),
      vw_courses = filter (\<lambda>c. c_schoolId c \<noteq> sc) (courses s)\<rparr>"

definition isolated :: "id \<Rightarrow> db \<Rightarrow> db \<Rightarrow> bool" where
  "isolated sc s t \<longleftrightarrow> othersView sc t = othersView sc s"

lemma filter_update_rows_other:
  "(\<And>r. r \<in> set xs \<Longrightarrow> P r \<Longrightarrow> \<not> Q r \<and> \<not> Q (f r)) \<Longrightarrow> filter Q (update_rows P f xs) = filter Q xs"
  by (induction xs) auto

lemma filter_delete_other:
  "(\<And>r. r \<in> set xs \<Longrightarrow> P r \<Longrightarrow> \<not> Q r) \<Longrightarrow> filter Q (filter (\<lambda>r. \<not> P r) xs) = filter Q xs"
  by (induction xs) auto

text \<open>The rows with the key of a row of the school are rows of the school.\<close>

lemma same_key_school:
  assumes "distinct (map k xs)" "find (\<lambda>r. k r = i \<and> g r = sc) xs = Some r" "r' \<in> set xs" "k r' = i"
  shows "g r' = sc"
  using find_Some_in [OF assms(2)] distinct_key_eq [OF assms(1,3)] assms(4) by metis

lemma filter_own_update:
  assumes "distinct (map k xs)" "\<And>r. g (f r) = g r" "find (\<lambda>r. k r = i \<and> g r = sc) xs = Some r0"
  shows "filter (\<lambda>r. g r \<noteq> sc) (update_rows (\<lambda>r. k r = i) f xs) = filter (\<lambda>r. g r \<noteq> sc) xs"
  using same_key_school [OF assms(1,3)] assms(2) by (intro filter_update_rows_other) auto

lemma filter_own_delete:
  assumes "distinct (map k xs)" "find (\<lambda>r. k r = i \<and> g r = sc) xs = Some r0"
  shows "filter (\<lambda>r. g r \<noteq> sc) (filter (\<lambda>r. k r \<noteq> i) xs) = filter (\<lambda>r. g r \<noteq> sc) xs"
  using filter_delete_other [of xs "\<lambda>r. k r = i" "\<lambda>r. g r \<noteq> sc"] same_key_school [OF assms] by auto

definition schedulingInv :: "db \<Rightarrow> bool" where
  "schedulingInv s \<longleftrightarrow> gridInv s \<and> namesInv s \<and> refsInv s"

lemma scheduling_keys:
  assumes "schedulingInv s"
  shows "distinct (map rm_id (rooms s))" "distinct (map sl_id (timeSlots s))"
    "distinct (map cl_id (classes s))" "distinct (map rq_id (requirements s))"
proof -
  have "sorted_wrt (\<lambda>a b. \<not> roomClash a b) xs \<Longrightarrow> distinct (map rm_id xs)" for xs
    by (induction xs) (auto simp: roomClash_def)
  with assms show "distinct (map rm_id (rooms s))" "distinct (map sl_id (timeSlots s))"
    "distinct (map cl_id (classes s))" "distinct (map rq_id (requirements s))"
    by (auto simp: schedulingInv_def namesInv_def gridInv_def refs_defs)
qed

lemma patchRoom_keys [simp]: "rm_id (patchRoom dto r) = rm_id r" "rm_schoolId (patchRoom dto r) = rm_schoolId r"
  by (simp_all add: patchRoom_def)

lemma isolated_same:
  assumes "rooms t = rooms s" "timeSlots t = timeSlots s" "classes t = classes s"
    "requirements t = requirements s" "teacherAssignments t = teacherAssignments s" "courses t = courses s"
  shows "isolated sc s t"
  using assms by (simp add: isolated_def othersView_def ownNeed_def)

lemma isolated_rooms:
  assumes "schedulingInv s"
  shows "isolated sc s (snd (createRoom C sc dto s))" "isolated sc s (snd (updateRoom sc i rp s))"
    "isolated sc s (snd (deleteRoom sc i s))"
proof -
  note key = scheduling_keys(1) [OF assms]
  show "isolated sc s (snd (createRoom C sc dto s))"
    by (simp add: room_ops exec_simps isolated_def othersView_def ownNeed_def)
  show "isolated sc s (snd (updateRoom sc i rp s))"
  proof (cases "find (\<lambda>r. rm_id r = i \<and> rm_schoolId r = sc) (rooms s)")
    case (Some r)
    with filter_own_update [OF key, of rm_schoolId "patchRoom rp"] show ?thesis
      by (simp add: room_ops exec_simps isolated_def othersView_def ownNeed_def)
  qed (simp add: updateRoom_def ensureRoom_def exec_simps isolated_def)
  show "isolated sc s (snd (deleteRoom sc i s))"
  proof (cases "find (\<lambda>r. rm_id r = i \<and> rm_schoolId r = sc) (rooms s)")
    case (Some r)
    with filter_own_delete [OF key, of i rm_schoolId sc] show ?thesis
      by (simp add: room_ops exec_simps isolated_def othersView_def ownNeed_def)
  qed (simp add: deleteRoom_def ensureRoom_def exec_simps isolated_def)
qed

lemma isolated_grid:
  assumes "schedulingInv s"
  shows "isolated sc s (snd (createTimeSlot C sc dto s))" "isolated sc s (snd (updateTimeSlot sc i gp s))"
    "isolated sc s (snd (deleteTimeSlot sc i s))"
proof -
  note key = scheduling_keys(2) [OF assms]
  show "isolated sc s (snd (createTimeSlot C sc dto s))"
    by (simp add: grid_ops exec_simps isolated_def othersView_def ownNeed_def)
  show "isolated sc s (snd (updateTimeSlot sc i gp s))"
  proof (cases "find (\<lambda>r. sl_id r = i \<and> sl_schoolId r = sc) (timeSlots s)")
    case (Some r)
    with filter_own_update [OF key, of sl_schoolId "patchTimeSlot gp"] show ?thesis
      by (simp add: grid_ops exec_simps isolated_def othersView_def ownNeed_def)
  qed (simp add: updateTimeSlot_def ensureTimeSlot_def exec_simps isolated_def)
  show "isolated sc s (snd (deleteTimeSlot sc i s))"
  proof (cases "find (\<lambda>r. sl_id r = i \<and> sl_schoolId r = sc) (timeSlots s)")
    case (Some r)
    with filter_own_delete [OF key, of i sl_schoolId sc] show ?thesis
      by (simp add: grid_ops exec_simps isolated_def othersView_def ownNeed_def)
  qed (simp add: deleteTimeSlot_def ensureTimeSlot_def exec_simps isolated_def)
qed

interpretation iso: two_state "isolated sc" for sc
  by unfold_locales (auto simp: isolated_def)

lemma isolated_insertClass:
  "cl_schoolId c = sc \<Longrightarrow> steps (isolated sc) (insertRow classes classes_update K c) s"
  "steps (isolated sc) (newId uuid) s"
  by (simp_all add: steps_def exec_simps isolated_def othersView_def ownNeed_def)

lemma isolated_createClass: "isolated sc s (snd (createClass C sc dto s))"
proof -
  have "steps (isolated sc) (createClass C sc dto) s"
    unfolding createClass_def assertAcademicYearExists_def assertProgramBelongsToSchool_def
      assertClassNameAvailable_def
    by (intro step_rules isolated_insertClass) simp
  then show ?thesis by (simp add: steps_def)
qed

lemma isolated_updateClass:
  assumes "schedulingInv s"
  shows "isolated sc s (snd (updateClass sc i kp s))"
proof (rule updateClass_cases [of sc i kp s])
  fix c assume "find (\<lambda>c. cl_id c = i \<and> cl_schoolId c = sc) (classes s) = Some c"
    "snd (updateClass sc i kp s) = s\<lparr>classes := update_rows (\<lambda>c. cl_id c = i) (patchClass kp) (classes s)\<rparr>"
  with filter_own_update [OF scheduling_keys(3) [OF assms], of cl_schoolId "patchClass kp"] show ?thesis
    by (simp add: isolated_def othersView_def ownNeed_def)
qed (simp add: isolated_def)

lemma isolated_removed:
  assumes inv: "schedulingInv s" and own: "\<And>q. q \<in> set (requirements s) \<Longrightarrow> P q \<Longrightarrow> rq_schoolId q = sc"
  shows "isolated sc s (snd (removeRequirements P s))"
proof -
  define G where "G = rq_id ` {q \<in> set (requirements s). P q}"
  have run: "snd (removeRequirements P s) =
      s\<lparr>teacherAssignments := filter (\<lambda>a. as_requirementId a \<notin> G) (teacherAssignments s),
        courses := update_rows
          (\<lambda>c. case c_subjectRequirementId c of None \<Rightarrow> False | Some i \<Rightarrow> i \<in> G)
          (\<lambda>c. c\<lparr>c_subjectRequirementId := None\<rparr>) (courses s),
        requirements := filter (\<lambda>q. rq_id q \<notin> G) (requirements s)\<rparr>"
    by (simp add: removeRequirements_def exec_simps G_def cong: option.case_cong)
  have gone: "rq_id q \<in> G \<longleftrightarrow> P q" if "q \<in> set (requirements s)" for q
    using that distinct_key_eq [OF scheduling_keys(4) [OF inv]] by (auto simp: G_def)
  have course: "c_schoolId c = sc" if "c \<in> set (courses s)" "c_subjectRequirementId c = Some i" "i \<in> G" for c i
  proof -
    from inv have "needsHold s" by (simp add: schedulingInv_def refsInv_def)
    with that(1,2) obtain q where q: "q \<in> set (requirements s)" "rq_id q = i" "rq_schoolId q = c_schoolId c"
      unfolding needsHold_def by blast
    with gone [OF q(1)] that(3) own show ?thesis by auto
  qed
  have needs: "filter (\<lambda>q. rq_schoolId q \<noteq> sc) (filter (\<lambda>q. rq_id q \<notin> G) (requirements s)) =
      filter (\<lambda>q. rq_schoolId q \<noteq> sc) (requirements s)"
    using gone own by (auto intro!: filter_cong)
  have generated: "filter (\<lambda>c. c_schoolId c \<noteq> sc) (update_rows
        (\<lambda>c. case c_subjectRequirementId c of None \<Rightarrow> False | Some i \<Rightarrow> i \<in> G)
        (\<lambda>c. c\<lparr>c_subjectRequirementId := None\<rparr>) (courses s)) = filter (\<lambda>c. c_schoolId c \<noteq> sc) (courses s)"
    using course by (intro filter_update_rows_other) (auto split: option.splits)
  let ?t = "snd (removeRequirements P s)"
  have "(i \<notin> G \<and> \<not> ownNeed ?t sc i) = (\<not> ownNeed s sc i)" for i
  proof -
    have "ownNeed s sc i" if "i \<in> G" using that own by (auto simp: G_def ownNeed_def)
    then show ?thesis by (auto simp: run ownNeed_def)
  qed
  then have "filter (\<lambda>a. \<not> ownNeed ?t sc (as_requirementId a)) (teacherAssignments ?t) =
      filter (\<lambda>a. \<not> ownNeed s sc (as_requirementId a)) (teacherAssignments s)"
    by (simp add: run conj_commute)
  with needs generated show ?thesis by (simp add: isolated_def othersView_def run)
qed

lemma isolated_deleteClass:
  assumes inv: "schedulingInv s"
  shows "isolated sc s (snd (deleteClass sc i s))"
proof (cases "find (\<lambda>r. cl_id r = i \<and> cl_schoolId r = sc) (classes s)")
  case None
  then show ?thesis by (simp add: deleteClass_def ensureClass_def exec_simps isolated_def)
next
  case (Some c)
  let ?P = "\<lambda>q. rq_classId q = i"
  obtain t where t: "removeRequirements ?P s = (Inr (), t)"
    using removeRequirements_ok [of ?P s] by (cases "removeRequirements ?P s") auto
  have own: "rq_schoolId q = sc" if "q \<in> set (requirements s)" "?P q" for q
  proof -
    have "classesHold s" using inv by (simp add: schedulingInv_def refsInv_def)
    with that(1) obtain k where k: "k \<in> set (classes s)" "cl_id k = rq_classId q" "cl_schoolId k = rq_schoolId q"
      unfolding classesHold_def by blast
    from k(2) that(2) have "cl_id k = i" by simp
    note k = k(1) this k(3)
    with same_key_school [OF scheduling_keys(3) [OF inv] Some k(1,2)] show ?thesis by simp
  qed
  have "isolated sc s (snd (removeRequirements ?P s))" by (rule isolated_removed [OF inv]) (rule own)
  then have "isolated sc s t" by (simp add: t)
  moreover have "classes t = classes s"
    using removed_requirements(2) [OF scheduling_keys(4) [OF inv], of ?P] t by simp
  then have "isolated sc t (t\<lparr>classes := filter (\<lambda>c. cl_id c \<noteq> i) (classes t)\<rparr>)"
    using filter_own_delete [OF scheduling_keys(3) [OF inv] Some]
    by (simp add: isolated_def othersView_def ownNeed_def)
  ultimately have "isolated sc s (t\<lparr>classes := filter (\<lambda>c. cl_id c \<noteq> i) (classes t)\<rparr>)"
    by (rule iso.transR)
  with t Some show ?thesis by (simp add: deleteClass_def ensureClass_def exec_simps)
qed

lemma isolated_deleteRequirement:
  assumes inv: "schedulingInv s"
  shows "isolated sc s (snd (deleteRequirement sc k i s))"
proof (cases "find (\<lambda>q. rq_id q = i \<and> rq_classId q = k \<and> rq_schoolId q = sc) (requirements s)")
  case None
  then show ?thesis by (simp add: deleteRequirement_def ensureRequirement_def exec_simps isolated_def)
next
  case (Some q)
  note q = find_Some_in [OF Some]
  have own: "rq_schoolId r = sc" if "r \<in> set (requirements s)" "rq_id r = i" for r
  proof -
    have "r = q" by (rule distinct_key_eq [OF scheduling_keys(4) [OF inv] that(1)]) (use q that(2) in simp_all)
    with q show ?thesis by simp
  qed
  obtain t where t: "removeRequirements (\<lambda>q. rq_id q = i) s = (Inr (), t)"
    using removeRequirements_ok [of "\<lambda>q. rq_id q = i" s] by (cases "removeRequirements (\<lambda>q. rq_id q = i) s") auto
  have "isolated sc s (snd (removeRequirements (\<lambda>q. rq_id q = i) s))"
    by (rule isolated_removed [OF inv]) (rule own)
  then have "isolated sc s t" by (simp add: t)
  with t Some show ?thesis by (simp add: deleteRequirement_def ensureRequirement_def exec_simps)
qed

lemma isolated_createRequirement:
  assumes inv: "schedulingInv s"
  shows "isolated sc s (snd (createRequirement C sc k dto s))"
proof -
  have ins: "steps (isolated sc) (insertRow requirements requirements_update requirementClash q) t"
    if "rq_schoolId q = sc" "needsHold t" for q t
  proof -
    have "\<not> ownNeed t sc (as_requirementId a) \<longleftrightarrow>
        \<not> ownNeed (t\<lparr>requirements := requirements t @ [q]\<rparr>) sc (as_requirementId a)"
      if "a \<in> set (teacherAssignments t)" "\<not> (\<exists>x \<in> set (requirements t). requirementClash x q)" for a
    proof -
      from that(1) \<open>needsHold t\<close> obtain x where "x \<in> set (requirements t)" "rq_id x = as_requirementId a"
        unfolding needsHold_def by (metis imageE)
      with that(2) have "rq_id q \<noteq> as_requirementId a" by (auto simp: requirementClash_def)
      then show ?thesis by (auto simp: ownNeed_def)
    qed
    then show ?thesis
      using that by (auto simp: steps_def exec_simps isolated_def othersView_def intro!: filter_cong)
  qed
  have "needsHold s" using inv by (simp add: schedulingInv_def refsInv_def)
  then have "steps (isolated sc) (createRequirement C sc k dto) s"
    unfolding createRequirement_def ensureClass_def assertSubjectBelongsToSchool_def assertAcademicYearExists_def
    by (intro step_rules isolated_insertClass ins)
      (auto simp: exec_simps needsHold_def split: option.splits if_splits)
  then show ?thesis by (simp add: steps_def)
qed

lemma ownNeed_map:
  "ownNeed s sc i \<longleftrightarrow> (i, sc) \<in> set (map (\<lambda>q. (rq_id q, rq_schoolId q)) (requirements s))"
  by (auto simp: ownNeed_def)

lemma isolated_updateRequirement:
  assumes inv: "schedulingInv s"
  shows "isolated sc s (snd (updateRequirement sc k i dto s))"
proof (cases "find (\<lambda>q. rq_id q = i \<and> rq_classId q = k \<and> rq_schoolId q = sc) (requirements s)")
  case None
  then show ?thesis by (simp add: updateRequirement_def ensureRequirement_def exec_simps isolated_def)
next
  case (Some q)
  note q = find_Some_in [OF Some]
  have own: "rq_schoolId r = sc" if "r \<in> set (requirements s)" "rq_id r = i" for r
  proof -
    have "r = q" by (rule distinct_key_eq [OF scheduling_keys(4) [OF inv] that(1)]) (use q that(2) in simp_all)
    with q show ?thesis by simp
  qed
  let ?t = "s\<lparr>requirements := update_rows (\<lambda>q. rq_id q = i) (patchRequirement dto) (requirements s)\<rparr>"
  have "filter (\<lambda>q. rq_schoolId q \<noteq> sc) (requirements ?t) = filter (\<lambda>q. rq_schoolId q \<noteq> sc) (requirements s)"
    using own filter_update_rows_other [of "requirements s" "\<lambda>q. rq_id q = i" "\<lambda>q. rq_schoolId q \<noteq> sc"]
    by simp
  moreover have "ownNeed ?t sc j \<longleftrightarrow> ownNeed s sc j" for j
    unfolding ownNeed_map by (simp del: set_map)
  ultimately have "isolated sc s ?t" by (simp add: isolated_def othersView_def)
  with Some show ?thesis
    by (auto simp: updateRequirement_def ensureRequirement_def exec_simps isolated_def)
qed

lemma isolated_teacher:
  assumes "schedulingInv s"
  shows "isolated sc s (snd (assignTeacher sc k i t s))" "isolated sc s (snd (unassignTeacher sc k i s))"
proof -
  let ?find = "find (\<lambda>q. rq_id q = i \<and> rq_classId q = k \<and> rq_schoolId q = sc) (requirements s)"
  have own: "ownNeed s sc i" if "?find = Some q" for q
    using find_Some_in [OF that] by (auto simp: ownNeed_def)
  have 1: "filter (\<lambda>a. \<not> ownNeed s sc (as_requirementId a)) (update_rows (\<lambda>a. as_requirementId a = i)
        (\<lambda>a. a\<lparr>as_teacherId := t\<rparr>) xs) = filter (\<lambda>a. \<not> ownNeed s sc (as_requirementId a)) xs"
    if "ownNeed s sc i" for xs :: "assignment_row list"
    using that by (intro filter_update_rows_other) auto
  have 2: "filter (\<lambda>a. \<not> ownNeed s sc (as_requirementId a)) (filter (\<lambda>a. as_requirementId a \<noteq> i) xs) =
      filter (\<lambda>a. \<not> ownNeed s sc (as_requirementId a)) xs" if "ownNeed s sc i" for xs :: "assignment_row list"
    using that by (auto intro!: filter_cong)
  have same: "ownNeed (s\<lparr>teacherAssignments := x\<rparr>) sc j = ownNeed s sc j" for x j
    by (simp add: ownNeed_def)
  show "isolated sc s (snd (assignTeacher sc k i t s))"
    using own 1 by (cases ?find)
      (simp_all add: teacher_ops exec_simps isolated_def othersView_def same)
  show "isolated sc s (snd (unassignTeacher sc k i s))"
    using own 2 by (cases ?find)
      (simp_all add: teacher_ops exec_simps isolated_def othersView_def same del: filter_filter)
qed

lemma isolated_serve: "schedulingInv s \<Longrightarrow> isolated sc s (snd (serveScheduling C sc q s))"
  by (cases q) (simp_all add: snd_then_ret isolated_rooms isolated_grid isolated_createClass
      isolated_updateClass isolated_deleteClass isolated_createRequirement isolated_updateRequirement
      isolated_deleteRequirement isolated_teacher)

lemma scheduling_serve:
  "gridOk q \<Longrightarrow> schedulingInv s \<Longrightarrow> schedulingInv (snd (serveScheduling C sc q s))"
  by (simp add: schedulingInv_def grid_serve names_serve refs_serve)

lemma scheduling_requests:
  "list_all (\<lambda>q. gridOk (snd q)) qs \<Longrightarrow> schedulingInv s \<Longrightarrow> schedulingInv (serveSchedulings C qs s)"
  by (induction qs arbitrary: s) (simp_all add: scheduling_serve)

section \<open>Properties\<close>

text \<open>
  C13. The weekly grid has no overlap: over any sequence of validated requests of any schools,
  two different time slots of one school on one day never overlap in minutes, and each ends
  after it starts.
\<close>

theorem grid_conflict_free:
  assumes "gridInv s" "list_all (\<lambda>q. gridOk (snd q)) qs"
    "a \<in> set (timeSlots (serveSchedulings C qs s))" "b \<in> set (timeSlots (serveSchedulings C qs s))"
    "sl_id a \<noteq> sl_id b" "sl_schoolId a = sl_schoolId b" "sl_dayOfWeek a = sl_dayOfWeek b"
  shows "toMinutes (sl_startTime a) < toMinutes (sl_endTime a) \<and>
    \<not> overlaps (toMinutes (sl_startTime a)) (toMinutes (sl_endTime a))
        (toMinutes (sl_startTime b)) (toMinutes (sl_endTime b))"
proof -
  have inv: "gridInv (serveSchedulings C qs s)" by (rule grid_requests [OF assms(2,1)])
  with assms(3,4,5) have no: "\<not> gridOverlap a b" and t: "gridTimes a" "gridTimes b"
    by (auto simp: gridInv_def)
  from t have "(sl_startTime a < sl_endTime b) = (toMinutes (sl_startTime a) < toMinutes (sl_endTime b))"
    "(sl_startTime b < sl_endTime a) = (toMinutes (sl_startTime b) < toMinutes (sl_endTime a))"
    "toMinutes (sl_startTime a) < toMinutes (sl_endTime a)"
    by (auto simp: gridTimes_def time_order)
  with no assms(6,7) show ?thesis by (auto simp: gridOverlap_def overlaps_def)
qed

lemma staff_requests:
  "list_all (\<lambda>q. gridOk (snd q)) qs \<Longrightarrow> schedulingInv s \<Longrightarrow> staffInv s \<Longrightarrow>
   staffInv (serveSchedulings C qs s)"
proof (induction qs arbitrary: s)
  case (Cons q qs)
  moreover have "needsHold s" using Cons.prems(2) by (simp add: schedulingInv_def refsInv_def)
  ultimately show ?case by (simp add: scheduling_serve staff_serve)
qed simp

lemma subjects_requests:
  "list_all (\<lambda>q. gridOk (snd q)) qs \<Longrightarrow> list_all (\<lambda>q. subjectKept (snd q)) qs \<Longrightarrow>
   schedulingInv s \<Longrightarrow> subjectsInv s \<Longrightarrow> subjectsInv (serveSchedulings C qs s)"
proof (induction qs arbitrary: s)
  case (Cons q qs)
  moreover have "needsHold s" using Cons.prems(3) by (simp add: schedulingInv_def refsInv_def)
  ultimately show ?case by (simp add: scheduling_serve subjects_serve)
qed simp

text \<open>
  C14. Consistency of the scheduling tables: over any sequence of requests, rooms keep
  different names in a school and classes in a school and year, names are stored trimmed,
  every need belongs to an existing class of its school, every assigned teacher to an existing
  need, and every generated course to an existing need of the course's school. Every assigned
  teacher works in the school of the need. As long as no update of a need carries a subject,
  the subject of every need is also one of its school, and every assigned teacher is qualified
  there for it; a change of subject is not checked again (\<open>subject_change_unchecked\<close>).
\<close>

theorem scheduling_consistent:
  assumes "schedulingInv s" "list_all (\<lambda>q. gridOk (snd q)) qs"
  shows "namesInv (serveSchedulings C qs s) \<and> refsInv (serveSchedulings C qs s) \<and>
    (staffInv s \<longrightarrow> staffInv (serveSchedulings C qs s)) \<and>
    (subjectsInv s \<and> list_all (\<lambda>q. subjectKept (snd q)) qs \<longrightarrow> subjectsInv (serveSchedulings C qs s))"
  using scheduling_requests [OF assms(2,1), of C] staff_requests [OF assms(2,1), of C]
    subjects_requests [OF assms(2) _ assms(1), of C]
  by (simp add: schedulingInv_def)

text \<open>
  Schools are separate: a request made for one school leaves the rooms, the grid, the
  classes, the needs, the assigned teachers and the courses of all other schools, and every
  planned lesson, exactly as they were, whatever identifiers the request names.
\<close>

theorem schools_separate:
  assumes "schedulingInv s"
  shows "othersView sc (snd (serveScheduling C sc q s)) = othersView sc s \<and>
    courseSlots (snd (serveScheduling C sc q s)) = courseSlots s"
  using isolated_serve [OF assms, of sc C q] frame_slots [of C sc q s]
  by (simp add: isolated_def steps_def frames_def)

text \<open>
  Who may be assigned: when \<open>assignTeacher\<close> succeeds, the need exists in that class and
  school, the teacher is declared qualified for its subject through an active assignment to
  the school, and this teacher, and no other, now holds the need; the other needs keep theirs.
\<close>

theorem assigned_is_qualified:
  assumes "assignTeacher sc k i teacherId s = (Inr (), t)"
  shows "\<exists>q \<in> set (requirements s). rq_id q = i \<and> rq_classId q = k \<and> rq_schoolId q = sc \<and>
      isQualified s sc teacherId (rq_subjectId q) \<and>
      (\<forall>a \<in> set (teacherAssignments t). as_requirementId a = i \<longrightarrow> as_teacherId a = teacherId) \<and>
      (\<exists>a \<in> set (teacherAssignments t). as_requirementId a = i) \<and>
      filter (\<lambda>a. as_requirementId a \<noteq> i) (teacherAssignments t) =
        filter (\<lambda>a. as_requirementId a \<noteq> i) (teacherAssignments s)"
proof -
  obtain q where q: "find (\<lambda>q. rq_id q = i \<and> rq_classId q = k \<and> rq_schoolId q = sc) (requirements s) = Some q"
    "isQualified s sc teacherId (rq_subjectId q)"
    using assms(1) by (auto simp: teacher_ops exec_simps split: option.splits if_splits)
  let ?f = "\<lambda>a :: assignment_row. a\<lparr>as_teacherId := teacherId\<rparr>"
  have t: "teacherAssignments t =
      (if \<exists>x \<in> set (teacherAssignments s). as_requirementId x = i
       then update_rows (\<lambda>a. as_requirementId a = i) ?f (teacherAssignments s)
       else teacherAssignments s @ [\<lparr>as_requirementId = i, as_teacherId = teacherId\<rparr>])"
    using assms(1) q by (auto simp: teacher_ops exec_simps split: if_splits)
  have "filter (\<lambda>a. as_requirementId a \<noteq> i) (update_rows (\<lambda>a. as_requirementId a = i) ?f xs) =
      filter (\<lambda>a. as_requirementId a \<noteq> i) xs" for xs
    by (intro filter_update_rows_other) auto
  moreover have "\<exists>a \<in> set (teacherAssignments t). as_requirementId a = i"
  proof (cases "\<exists>x \<in> set (teacherAssignments s). as_requirementId x = i")
    case True
    then obtain x where "x \<in> set (teacherAssignments s)" "as_requirementId x = i" by blast
    then have "?f x \<in> set (teacherAssignments t)" unfolding t by (auto intro!: in_update_rowsI)
    with \<open>as_requirementId x = i\<close> show ?thesis by (intro bexI [of _ "?f x"]) simp_all
  qed (simp add: t)
  moreover have "\<forall>a \<in> set (teacherAssignments t). as_requirementId a = i \<longrightarrow> as_teacherId a = teacherId"
    unfolding t by (auto simp: set_update_rows split: if_splits)
  ultimately show ?thesis
    using find_Some_in [OF q(1)] q(2) unfolding t by (intro bexI [of _ q]) auto
qed

text \<open>
  A change of subject is not checked again: \<open>updateRequirement\<close> accepts any subject that
  exists and that the class does not have yet, even one of another school, and leaves the
  assigned teacher in place, whether or not this teacher is qualified for it.
\<close>

theorem subject_change_unchecked:
  assumes "find (\<lambda>q. rq_id q = i \<and> rq_classId q = k \<and> rq_schoolId q = sc) (requirements s) = Some q"
    "j \<in> set (subjects s)"
    "sorted_wrt (\<lambda>a b. \<not> requirementClash a b) (update_rows (\<lambda>q. rq_id q = i)
       (patchRequirement \<lparr>qp_subjectId = Some (sj_id j), qp_academicYearId = None, qp_hoursPerWeek = None\<rparr>)
       (requirements s))"
    "updateRequirement sc k i \<lparr>qp_subjectId = Some (sj_id j), qp_academicYearId = None,
       qp_hoursPerWeek = None\<rparr> s = (r, t)"
  shows "r = Inr (q\<lparr>rq_subjectId := sj_id j\<rparr>) \<and> teacherAssignments t = teacherAssignments s \<and>
    (\<forall>x \<in> set (requirements t). rq_id x = i \<longrightarrow> rq_subjectId x = sj_id j)"
proof -
  let ?p = "\<lparr>qp_subjectId = Some (sj_id j), qp_academicYearId = None, qp_hoursPerWeek = None\<rparr>"
  have "updateRequirement sc k i ?p s = (Inr (patchRequirement ?p q),
      s\<lparr>requirements := update_rows (\<lambda>q. rq_id q = i) (patchRequirement ?p) (requirements s)\<rparr>)"
    using assms(1-3) by (simp add: updateRequirement_def ensureRequirement_def exec_simps)
  with assms(4) have rt: "r = Inr (patchRequirement ?p q)"
    "t = s\<lparr>requirements := update_rows (\<lambda>q. rq_id q = i) (patchRequirement ?p) (requirements s)\<rparr>"
    by simp_all
  have "\<forall>x \<in> set (requirements t). rq_id x = i \<longrightarrow> rq_subjectId x = sj_id j"
  proof (intro ballI impI)
    fix x assume "x \<in> set (requirements t)" "rq_id x = i"
    then obtain y where "x = (if rq_id y = i then patchRequirement ?p y else y)" "rq_id x = i"
      unfolding rt by (auto elim: in_update_rowsE)
    then show "rq_subjectId x = sj_id j"
      by (cases "rq_id y = i") (simp_all add: patchRequirement_def)
  qed
  with rt show ?thesis by (simp add: patchRequirement_def)
qed

section \<open>Examples\<close>

definition sample_school :: db where
  "sample_school =
     empty_db\<lparr>
       rooms := [\<lparr>rm_id = ''rm1'', rm_schoolId = ''sc1'', rm_name = ''A1'', rm_capacity = None,
                  rm_type = ''STANDARD'', rm_isActive = True\<rparr>],
       timeSlots := [\<lparr>sl_id = ''g1'', sl_schoolId = ''sc1'', sl_dayOfWeek = 1, sl_startTime = ''08:00'',
                      sl_endTime = ''10:00'', sl_label = None, sl_isActive = True\<rparr>],
       classes := [\<lparr>cl_id = ''k1'', cl_schoolId = ''sc1'', cl_academicYearId = ''y1'', cl_programId = None,
                    cl_name = ''L1'', cl_level = None, cl_studentCount = None, cl_isActive = True\<rparr>],
       academicYears := [\<lparr>ay_id = ''y1'', ay_label = ''2026'', ay_startDate = 0, ay_endDate = 1, ay_isCurrent = True\<rparr>],
       subjects := [\<lparr>sj_id = ''j1'', sj_schoolId = ''sc1'', sj_name = ''Maths'', sj_isActive = True\<rparr>,
                    \<lparr>sj_id = ''j2'', sj_schoolId = ''sc2'', sj_name = ''Latin'', sj_isActive = True\<rparr>],
       requirements := [\<lparr>rq_id = ''q1'', rq_schoolId = ''sc1'', rq_academicYearId = ''y1'',
                         rq_classId = ''k1'', rq_subjectId = ''j1'', rq_hoursPerWeek = 4\<rparr>],
       teacherSchools := [\<lparr>ts_id = ''ts1'', ts_teacherId = ''t1'', ts_schoolId = ''sc1'', ts_isActive = True,
                     ts_department = None, ts_specialty = None, ts_createdAt = 0\<rparr>],
       teacherSubjects := [\<lparr>tss_teacherSchoolId = ''ts1'', tss_subjectId = ''j1''\<rparr>],
       teacherAssignments := [\<lparr>as_requirementId = ''q1'', as_teacherId = ''t1''\<rparr>]\<rparr>"

definition sample_new_slot :: time_slot_dto where
  "sample_new_slot =
     \<lparr>gd_dayOfWeek = 1, gd_startTime = ''10:00'', gd_endTime = ''12:00'', gd_label = None,
      gd_isActive = None\<rparr>"

definition sample_requests :: "(id \<times> scheduling_request) list" where
  "sample_requests = [(''sc1'', CreateTimeSlot sample_new_slot)]"

lemma sample_school_inv: "schedulingInv sample_school"
  by (simp add: schedulingInv_def gridInv_def namesInv_def refs_defs sample_school_def empty_db_def
      gridTimes_def trim_def isSpace_def digitBetween_def)

lemma sample_requests_ok: "list_all (\<lambda>q. gridOk (snd q)) sample_requests"
  by (simp add: sample_requests_def gridOk_def sample_new_slot_def digitBetween_def)

lemma sample_grid:
  "map sl_id (timeSlots (serveSchedulings sample_mail sample_requests sample_school)) = [''g1'', ''id-'']"
  by (simp add: sample_requests_def createTimeSlot_def assertTimeOrder_def assertNoTimeSlotOverlap_def
      exec_simps sample_school_def sample_new_slot_def empty_db_def gridClash_def sample_mail_def
      sample_uuid_def truthy_def)

theorem grid_conflict_free_witness:
  "let g = timeSlots (serveSchedulings sample_mail sample_requests sample_school)
   in \<not> overlaps (toMinutes (sl_startTime (g ! 0))) (toMinutes (sl_endTime (g ! 0)))
        (toMinutes (sl_startTime (g ! 1))) (toMinutes (sl_endTime (g ! 1)))"
proof -
  let ?g = "timeSlots (serveSchedulings sample_mail sample_requests sample_school)"
  have g: "?g = timeSlots sample_school @ [\<lparr>sl_id = ''id-'', sl_schoolId = ''sc1'', sl_dayOfWeek = 1,
      sl_startTime = ''10:00'', sl_endTime = ''12:00'', sl_label = None, sl_isActive = True\<rparr>]"
    by (simp add: sample_requests_def createTimeSlot_def assertTimeOrder_def assertNoTimeSlotOverlap_def
      exec_simps sample_school_def sample_new_slot_def empty_db_def gridClash_def sample_mail_def
      sample_uuid_def truthy_def)
  have "gridInv sample_school" using sample_school_inv by (simp add: schedulingInv_def)
  from grid_conflict_free [OF this sample_requests_ok, of "?g ! 0" sample_mail "?g ! 1"]
  show ?thesis unfolding g by (simp add: sample_school_def)
qed

lemma sample_staff: "staffInv sample_school" "subjectsInv sample_school"
  by (simp_all add: staffInv_def subjectsInv_def staffed_def worksAt_def isQualified_def sample_school_def
      empty_db_def)

theorem scheduling_consistent_witness:
  "namesInv (serveSchedulings sample_mail sample_requests sample_school) \<and>
   staffInv (serveSchedulings sample_mail sample_requests sample_school) \<and>
   subjectsInv (serveSchedulings sample_mail sample_requests sample_school)"
proof -
  have "list_all (\<lambda>q. subjectKept (snd q)) sample_requests"
    by (simp add: sample_requests_def subjectKept_def)
  then show ?thesis
    using scheduling_consistent [OF sample_school_inv sample_requests_ok] sample_staff by blast
qed

theorem schools_separate_witness:
  "othersView ''sc2'' (snd (serveScheduling sample_mail ''sc2'' (DeleteClass ''k1'') sample_school)) =
   othersView ''sc2'' sample_school"
  by (rule schools_separate [OF sample_school_inv, THEN conjunct1])

theorem assigned_is_qualified_witness: "isQualified sample_school ''sc1'' ''t1'' ''j1''"
proof -
  have "assignTeacher ''sc1'' ''k1'' ''q1'' ''t1'' sample_school = (Inr (), sample_school)"
    by (simp add: teacher_ops exec_simps sample_school_def empty_db_def isQualified_def)
  from assigned_is_qualified [OF this] show ?thesis by (simp add: sample_school_def)
qed

theorem subject_change_unchecked_witness:
  "fst (updateRequirement ''sc1'' ''k1'' ''q1'' \<lparr>qp_subjectId = Some ''j2'', qp_academicYearId = None,
     qp_hoursPerWeek = None\<rparr> sample_school) =
   Inr \<lparr>rq_id = ''q1'', rq_schoolId = ''sc1'', rq_academicYearId = ''y1'', rq_classId = ''k1'',
        rq_subjectId = ''j2'', rq_hoursPerWeek = 4\<rparr>"
proof -
  obtain r t where rt: "updateRequirement ''sc1'' ''k1'' ''q1'' \<lparr>qp_subjectId = Some ''j2'',
      qp_academicYearId = None, qp_hoursPerWeek = None\<rparr> sample_school = (r, t)"
    by (cases "updateRequirement ''sc1'' ''k1'' ''q1'' \<lparr>qp_subjectId = Some ''j2'',
      qp_academicYearId = None, qp_hoursPerWeek = None\<rparr> sample_school")
  from subject_change_unchecked [of "''q1''" "''k1''" "''sc1''" sample_school
      "\<lparr>rq_id = ''q1'', rq_schoolId = ''sc1'', rq_academicYearId = ''y1'', rq_classId = ''k1'',
        rq_subjectId = ''j1'', rq_hoursPerWeek = 4\<rparr>"
      "\<lparr>sj_id = ''j2'', sj_schoolId = ''sc2'', sj_name = ''Latin'', sj_isActive = True\<rparr>" r t] rt
  show ?thesis by (simp add: sample_school_def)
qed

end
