(* ===== verification/Schedule_Generation.thy ===== *)
theory Schedule_Generation
  imports Scheduling
begin

text \<open>
  \<open>ScheduleGenerationService\<close> (\<open>school/schedule-generation.service.ts\<close>): for every need of
  the school's classes, the course is created and its missing lessons are placed in free
  slots of the grid and free rooms, through the same operations a person uses. The order of
  names (\<open>localeCompare\<close>) is a parameter. Generation never creates a conflict, never gives
  a class two lessons at once, and never places more lessons than a need asks for.
\<close>

section \<open>Requests and results\<close>

record generate_dto =
  yd_academicYearId :: id
  yd_classId :: "id option"
  yd_subjectId :: "id option"
  yd_teacherId :: "id option"
  yd_roomId :: "id option"

record unresolved_item =
  ui_classId :: id
  ui_className :: string
  ui_subjectId :: id
  ui_subjectName :: string
  ui_teacherName :: "string option"
  ui_hoursPerWeek :: int
  ui_sessionsPlaced :: int
  ui_sessionsNeeded :: int
  ui_reason :: string

text \<open>A need with its class, subject, teacher and generated course, as the query loads them.\<close>

record job =
  jb_need :: requirement_row
  jb_class :: class_row
  jb_hasProgram :: bool
  jb_subjectName :: string
  jb_teacher :: "(id \<times> teacher_row option) option"
  jb_course :: "(id \<times> nat) option"

record progress =
  gs_created :: nat
  gs_unresolved :: "unresolved_item list"
  gs_usedTeachers :: "string set"
  gs_usedRooms :: "string set"

section \<open>Loading\<close>

definition loadJob :: "db \<Rightarrow> class_row \<Rightarrow> requirement_row \<Rightarrow> job" where
  "loadJob s c q =
     \<lparr>jb_need = q, jb_class = c,
      jb_hasProgram = (\<exists>p \<in> set (programs s). Some (pr_id p) = cl_programId c),
      jb_subjectName = (case find (\<lambda>j. sj_id j = rq_subjectId q) (subjects s) of
                          None \<Rightarrow> [] | Some j \<Rightarrow> sj_name j),
      jb_teacher = map_option (\<lambda>a. (as_teacherId a, find (\<lambda>t. th_id t = as_teacherId a) (teachers s)))
                     (find (\<lambda>a. as_requirementId a = rq_id q) (teacherAssignments s)),
      jb_course = map_option (\<lambda>x. (c_id x, count_rows (\<lambda>e. s_courseId e = c_id x) (courseSlots s)))
                    (find (\<lambda>x. c_subjectRequirementId x = Some (rq_id q)) (courses s))\<rparr>"

definition needSelected :: "db \<Rightarrow> generate_dto \<Rightarrow> requirement_row \<Rightarrow> bool" where
  "needSelected s dto q \<longleftrightarrow>
     (truthy (yd_subjectId dto) \<longrightarrow> yd_subjectId dto = Some (rq_subjectId q)) \<and>
     (truthy (yd_teacherId dto) \<longrightarrow>
        (\<exists>a \<in> set (teacherAssignments s). as_requirementId a = rq_id q \<and> yd_teacherId dto = Some (as_teacherId a)))"

definition loadJobs :: "id \<Rightarrow> generate_dto \<Rightarrow> db \<Rightarrow> job list" where
  "loadJobs schoolId dto s =
     concat (map (\<lambda>c. map (loadJob s c)
                        (filter (\<lambda>q. rq_classId q = cl_id c \<and> needSelected s dto q) (requirements s)))
       (filter (\<lambda>c. cl_schoolId c = schoolId \<and> cl_academicYearId c = yd_academicYearId dto \<and>
                    (truthy (yd_classId dto) \<longrightarrow> yd_classId dto = Some (cl_id c))) (classes s)))"

text \<open>The heaviest needs first, then by class and subject: \<open>jobs.sort\<close> with a stable sort.\<close>

definition job_before :: "(string \<Rightarrow> string \<Rightarrow> int) \<Rightarrow> job \<Rightarrow> job \<Rightarrow> bool" where
  "job_before collate a b \<longleftrightarrow>
     (let h = rq_hoursPerWeek (jb_need b) - rq_hoursPerWeek (jb_need a);
          n = collate (cl_name (jb_class a)) (cl_name (jb_class b));
          m = collate (jb_subjectName a) (jb_subjectName b)
      in (if h \<noteq> 0 then h else if n \<noteq> 0 then n else m) \<le> 0)"

section \<open>Durations\<close>

text \<open>\<open>Math.round\<close>: the nearest integer, halves upwards.\<close>

definition roundHalfUp :: "rat \<Rightarrow> int" where
  "roundHalfUp x = \<lfloor>x + 1 / 2\<rfloor>"

definition typicalDuration :: "time_slot_row list \<Rightarrow> int" where
  "typicalDuration grid =
     (if grid = [] then 0
      else roundHalfUp (of_int (sum_list (map (\<lambda>t. toMinutes (sl_endTime t) - toMinutes (sl_startTime t)) grid)) /
                        of_nat (length grid)))"

definition sessionsNeededFor :: "int \<Rightarrow> int \<Rightarrow> int" where
  "sessionsNeededFor hoursPerWeek typicalDurationMinutes =
     (if typicalDurationMinutes \<le> 0 then 1
      else max 1 (roundHalfUp (of_int (hoursPerWeek * 60) / of_int typicalDurationMinutes)))"

section \<open>Placing\<close>

definition comboKey :: "string \<Rightarrow> time_slot_row \<Rightarrow> string" where
  "comboKey entityKey t =
     entityKey @ ''|'' @ show_int (sl_dayOfWeek t) @ ''|'' @ sl_startTime t"

text \<open>The need a course was generated for, and the class of that need.\<close>

definition needOf :: "db \<Rightarrow> id \<Rightarrow> id option" where
  "needOf s courseId =
     (case find (\<lambda>c. c_id c = courseId) (courses s) of
        None \<Rightarrow> None | Some c \<Rightarrow> c_subjectRequirementId c)"

definition courseClass :: "db \<Rightarrow> id \<Rightarrow> id option" where
  "courseClass s courseId =
     (case needOf s courseId of
        None \<Rightarrow> None
      | Some i \<Rightarrow> map_option rq_classId (find (\<lambda>q. rq_id q = i) (requirements s)))"

definition isClassBusy :: "id \<Rightarrow> time_slot_row \<Rightarrow> (db, bool) exec" where
  "isClassBusy classId t =
     bindE (asks courseClass) (\<lambda>cls.
     bindE (findFirst courseSlots (\<lambda>e.
              s_dayOfWeek e = sl_dayOfWeek t \<and> s_startTime e < sl_endTime t \<and>
              sl_startTime t < s_endTime e \<and> cls (s_courseId e) = Some classId)) (\<lambda>conflict.
     ret (conflict \<noteq> None)))"

definition gridDto :: "time_slot_row \<Rightarrow> room_row \<Rightarrow> slot_dto" where
  "gridDto t r =
     \<lparr>sd_dayOfWeek = sl_dayOfWeek t, sd_startTime = sl_startTime t, sd_endTime = sl_endTime t,
      sd_room = rm_name r\<rparr>"

text \<open>The rooms are tried in order; any failure of \<open>createCourseSlot\<close> moves on to the next.\<close>

primrec tryRooms ::
  "mail_config \<Rightarrow> time \<Rightarrow> id \<Rightarrow> id \<Rightarrow> time_slot_row \<Rightarrow> string set \<Rightarrow> room_row list
    \<Rightarrow> (db, room_row option) exec" where
  "tryRooms C now schoolId courseId t used [] = ret None"
| "tryRooms C now schoolId courseId t used (r # rs) =
     (if comboKey (rm_name r) t \<in> used then tryRooms C now schoolId courseId t used rs
      else catchE (thenE (createCourseSlot C now schoolId courseId (gridDto t r)) (ret (Some r)))
             (\<lambda>_. tryRooms C now schoolId courseId t used rs))"

text \<open>One slot of the grid: the number placed so far and the combinations used.\<close>

definition placeSlot ::
  "mail_config \<Rightarrow> time \<Rightarrow> id \<Rightarrow> id \<Rightarrow> id \<Rightarrow> id \<Rightarrow> room_row list \<Rightarrow> int
    \<Rightarrow> nat \<times> string set \<times> string set \<Rightarrow> time_slot_row \<Rightarrow> (db, nat \<times> string set \<times> string set) exec" where
  "placeSlot C now schoolId courseId teacherId classId rs sessionsToPlace =
     (\<lambda>(placed, usedTeachers, usedRooms) t.
       if sessionsToPlace \<le> int placed \<or> comboKey teacherId t \<in> usedTeachers
       then ret (placed, usedTeachers, usedRooms)
       else
         bindE (isClassBusy classId t) (\<lambda>busy.
         if busy then ret (placed, usedTeachers, usedRooms)
         else
           bindE (tryRooms C now schoolId courseId t usedRooms rs) (\<lambda>room.
           ret (case room of
                  None \<Rightarrow> (placed, usedTeachers, usedRooms)
                | Some r \<Rightarrow> (Suc placed, insert (comboKey teacherId t) usedTeachers,
                             insert (comboKey (rm_name r) t) usedRooms)))))"

definition upperChar :: "char \<Rightarrow> char" where
  "upperChar c =
     (if 97 \<le> (of_char c :: nat) \<and> (of_char c :: nat) \<le> 122 then char_of ((of_char c :: nat) - 32) else c)"

definition createJobCourse :: "mail_config \<Rightarrow> id \<Rightarrow> job \<Rightarrow> id \<Rightarrow> (db, id) exec" where
  "createJobCourse C schoolId jb teacherId =
     bindE (createCourse C schoolId
              \<lparr>cd_teacherId = teacherId, cd_code = ''AUTO-'' @ map upperChar (take 8 (rq_id (jb_need jb))),
               cd_subjectId = rq_subjectId (jb_need jb), cd_programId = nullish (cl_programId (jb_class jb)) [],
               cd_programLevel = nullish (cl_level (jb_class jb)) 1, cd_group = None, cd_credits = None,
               cd_isPublished = Some True\<rparr>) (\<lambda>created.
     thenE (writeCourses (update_rows (\<lambda>c. c_id c = c_id created)
              (\<lambda>c. c\<lparr>c_subjectRequirementId := Some (rq_id (jb_need jb))\<rparr>)))
     (ret (c_id created)))"

section \<open>Jobs\<close>

text \<open>\<open>baseUnresolved\<close>; the name is null without a teacher or without a first or last name.\<close>

definition teacherLabel :: "(id \<times> teacher_row option) option \<Rightarrow> string option" where
  "teacherLabel x =
     (case x of
        Some (_, Some t) \<Rightarrow>
          (if truthy (th_firstName t) \<or> truthy (th_lastName t)
           then Some (trim (nullish (th_firstName t) [] @ '' '' @ nullish (th_lastName t) [])) else None)
      | _ \<Rightarrow> None)"

definition baseUnresolved :: "int \<Rightarrow> job \<Rightarrow> int \<Rightarrow> string \<Rightarrow> unresolved_item" where
  "baseUnresolved duration jb sessionsPlaced reason =
     \<lparr>ui_classId = cl_id (jb_class jb), ui_className = cl_name (jb_class jb),
      ui_subjectId = rq_subjectId (jb_need jb), ui_subjectName = jb_subjectName jb,
      ui_teacherName = teacherLabel (jb_teacher jb), ui_hoursPerWeek = rq_hoursPerWeek (jb_need jb),
      ui_sessionsPlaced = sessionsPlaced,
      ui_sessionsNeeded = sessionsNeededFor (rq_hoursPerWeek (jb_need jb)) duration,
      ui_reason = reason\<rparr>"

definition reportJob :: "int \<Rightarrow> job \<Rightarrow> int \<Rightarrow> string \<Rightarrow> progress \<Rightarrow> progress" where
  "reportJob duration jb n reason st =
     st\<lparr>gs_unresolved := gs_unresolved st @ [baseUnresolved duration jb n reason]\<rparr>"

fun badRequestMessage :: "error \<Rightarrow> string" where
  "badRequestMessage (BadRequest m) = m"
| "badRequestMessage _ = ''Erreur''"

definition placeLessons ::
  "mail_config \<Rightarrow> time \<Rightarrow> id \<Rightarrow> time_slot_row list \<Rightarrow> room_row list \<Rightarrow> job \<Rightarrow> id \<Rightarrow> id \<Rightarrow> int
    \<Rightarrow> progress \<Rightarrow> (db, nat \<times> progress) exec" where
  "placeLessons C now schoolId grid rs jb courseId teacherId sessionsToPlace st =
     bindE (foldE (placeSlot C now schoolId courseId teacherId (cl_id (jb_class jb)) rs sessionsToPlace)
              (0, gs_usedTeachers st, gs_usedRooms st) grid) (\<lambda>(placed, usedTeachers, usedRooms).
     ret (placed, st\<lparr>gs_created := gs_created st + placed, gs_usedTeachers := usedTeachers,
                     gs_usedRooms := usedRooms\<rparr>))"

text \<open>The course of a job, or the message of why it could not be created.\<close>

definition jobCourse :: "mail_config \<Rightarrow> id \<Rightarrow> job \<Rightarrow> id \<Rightarrow> (db, string + id) exec" where
  "jobCourse C schoolId jb teacherId =
     (let courseId = map_option fst (jb_course jb) in
      if truthy courseId then ret (Inr (the courseId))
      else catchE (bindE (createJobCourse C schoolId jb teacherId) (\<lambda>i. ret (Inr i)))
             (\<lambda>e. ret (Inl (''Cours impossible a creer : '' @ badRequestMessage e))))"

definition existingSessions :: "job \<Rightarrow> nat" where
  "existingSessions jb = (case jb_course jb of None \<Rightarrow> 0 | Some (_, n) \<Rightarrow> n)"

definition planJob ::
  "mail_config \<Rightarrow> time \<Rightarrow> id \<Rightarrow> time_slot_row list \<Rightarrow> room_row list \<Rightarrow> progress \<Rightarrow> job
    \<Rightarrow> (db, progress) exec" where
  "planJob C now schoolId grid rs st jb =
     (let duration = typicalDuration grid in
      case jb_teacher jb of
        None \<Rightarrow> ret (reportJob duration jb 0 ''Aucun professeur affecte'' st)
      | Some (teacherId, _) \<Rightarrow>
          if \<not> truthy (cl_programId (jb_class jb)) \<or> \<not> jb_hasProgram jb
          then ret (reportJob duration jb 0 ''Classe sans filiere associee'' st)
          else if grid = [] \<or> rs = [] \<or> duration \<le> 0
          then ret (reportJob duration jb 0
                 ''Aucun creneau-type ou salle active configure pour cette ecole'' st)
          else
            let sessionsToPlace =
                  sessionsNeededFor (rq_hoursPerWeek (jb_need jb)) duration - int (existingSessions jb)
            in if sessionsToPlace \<le> 0 then ret st
               else
                 bindE (jobCourse C schoolId jb teacherId) (\<lambda>course.
                 case course of
                   Inl message \<Rightarrow> ret (reportJob duration jb 0 message st)
                 | Inr courseId \<Rightarrow>
                     bindE (placeLessons C now schoolId grid rs jb courseId teacherId sessionsToPlace st)
                       (\<lambda>(placed, st').
                     ret (if int placed < sessionsToPlace
                          then reportJob duration jb (int (existingSessions jb) + int placed)
                                 ''Aucun creneau libre compatible (disponibilite prof / salle / classe)'' st'
                          else st'))))"

definition generateSchedule ::
  "mail_config \<Rightarrow> (string \<Rightarrow> string \<Rightarrow> int) \<Rightarrow> time \<Rightarrow> id \<Rightarrow> generate_dto
    \<Rightarrow> (db, nat \<times> unresolved_item list) exec" where
  "generateSchedule C collate now schoolId dto =
     bindE (findMany timeSlots (\<lambda>t. sl_schoolId t = schoolId \<and> sl_isActive t)) (\<lambda>slots.
     bindE (findMany rooms (\<lambda>r. rm_schoolId r = schoolId \<and> rm_isActive r \<and>
              (truthy (yd_roomId dto) \<longrightarrow> yd_roomId dto = Some (rm_id r)))) (\<lambda>rs.
     bindE (asks (loadJobs schoolId dto)) (\<lambda>jobs.
     bindE (foldE (planJob C now schoolId (sort_by grid_before slots)
                     (sort_by (\<lambda>a b. rm_name a \<le> rm_name b) rs))
              \<lparr>gs_created = 0, gs_unresolved = [], gs_usedTeachers = {}, gs_usedRooms = {}\<rparr>
              (sort_by (job_before collate) jobs)) (\<lambda>st.
     ret (gs_created st, gs_unresolved st)))))"

section \<open>Notifying a teacher always succeeds\<close>

text \<open>The foreign key of \<open>Teacher.userId\<close>.\<close>

definition teachersHaveUsers :: "db \<Rightarrow> bool" where
  "teachersHaveUsers s \<longleftrightarrow> (\<forall>t \<in> set (teachers s). th_userId t \<in> u_id ` set (users s))"

lemma sendInApp_ok:
  assumes "u \<in> u_id ` set (users s)"
  shows "\<exists>r t. send C now \<lparr>nd_userId = u, nd_type = IN_APP, nd_title = a, nd_body = b\<rparr> s = (Inr r, t)"
proof -
  obtain x where "find (\<lambda>x. u_id x = u) (users s) = Some x"
    using assms by (cases "find (\<lambda>x. u_id x = u) (users s)") (auto simp: find_None)
  then show ?thesis
    by (auto simp: send_def exec_simps sendInApp_def getUserPreferences_run storeNotification_def
        split: option.split)
qed

lemma notifyTeacher_ok:
  assumes "teachersHaveUsers s"
  shows "\<exists>t. notifyTeacherScheduleChange C now i a s = (Inr (), t)"
proof (cases "find (\<lambda>t. th_id t = i) (teachers s)")
  case None
  then show ?thesis by (simp add: notifyTeacherScheduleChange_def exec_simps)
next
  case (Some x)
  from find_Some_in [OF this] assms have "th_userId x \<in> u_id ` set (users s)"
    by (auto simp: teachersHaveUsers_def)
  then obtain r t where "send C now \<lparr>nd_userId = th_userId x, nd_type = IN_APP,
      nd_title = ''Emploi du temps mis a jour'',
      nd_body = ''Un creneau a ete '' @ a @ '' dans votre emploi du temps.''\<rparr> s = (Inr r, t)"
    using sendInApp_ok by blast
  with Some show ?thesis
    by (simp add: notifyTeacherScheduleChange_def sendInAppBatch_def exec_simps chunks.simps [of 25])
qed

lemma insertLesson_outcome:
  assumes "teachersHaveUsers s" "insertLesson C now slot s = (r, t)"
  shows "(case r of Inl _ \<Rightarrow> courseSlots t = courseSlots s
          | Inr e \<Rightarrow> e = slot \<and> courseSlots t = courseSlots s @ [slot])"
proof (cases r)
  case (Inr e)
  with insertLesson_ok [of C now slot s e t] assms(2) show ?thesis by simp
next
  case (Inl x)
  obtain w u where w: "translated (writeSlots (\<lambda>rows. rows @ [slot])) s = (w, u)"
    by (cases "translated (writeSlots (\<lambda>rows. rows @ [slot])) s")
  show ?thesis
  proof (cases w)
    case (Inr y)
    from translated_ok [OF w [unfolded Inr]] have "teachersHaveUsers u"
      using assms(1) by (auto simp: writeSlots_run teachersHaveUsers_def split: if_splits)
    from notifyTeacher_ok [OF this, of C now "s_teacherId slot" "''ajoute''"] w Inr Inl assms(2)
    show ?thesis by (auto simp: insertLesson_def exec_simps)
  next
    case (Inl y)
    have "courseSlots u = courseSlots s"
      using w Inl by (auto simp: translated_def writeSlots_run exec_simps split: if_splits)
    with w Inl assms(2) \<open>r = Inl x\<close> show ?thesis by (auto simp: insertLesson_def exec_simps)
  qed
qed

text \<open>The guards of \<open>createCourseSlot\<close> only read, so it reduces to the insertion.\<close>

lemma lesson_guards:
  "steps (=) (ensureSchoolCourse sc i) s" "steps (=) (assertSlotTimes b e) s"
  "steps (=) (ensureNoRoomConflict sc dto ex) s" "steps (=) (assertTeacherFreeOrThrow t sc slot ex) s"
  unfolding ensureSchoolCourse_def assertSlotTimes_def ensureNoRoomConflict_def
  by (intro step_rules | simp add: steps_def assertTeacherFree_state)+

lemma newId_bind: "bindE (newId uuid) f s = f (uuid (seqNo s)) (s\<lparr>seqNo := Suc (seqNo s)\<rparr>)"
  by (simp add: bindE_run newId_run)

lemma createCourseSlot_cases:
  obtains e where "createCourseSlot C now sc i dto s = (Inl e, s)"
  | x where "createCourseSlot C now sc i dto s = insertLesson C now
        \<lparr>s_id = mailUuid C (seqNo s), s_courseId = i, s_teacherId = x,
         s_dayOfWeek = sd_dayOfWeek dto, s_startTime = sd_startTime dto,
         s_endTime = sd_endTime dto, s_room = sd_room dto\<rparr> (s\<lparr>seqNo := Suc (seqNo s)\<rparr>)"
proof (cases "fst (ensureSchoolCourse sc i s)")
  case (Inl e)
  then show thesis
    by (intro that(1) [of e]) (simp add: createCourseSlot_def readonly_bind [OF lesson_guards(1)])
next
  case (Inr c)
  note run = createCourseSlot_def readonly_bind [OF lesson_guards(1)] readonly_then [OF lesson_guards(2)]
    readonly_then [OF lesson_guards(3)] readonly_then [OF lesson_guards(4)] newId_bind Inr
  have "(\<exists>e. createCourseSlot C now sc i dto s = (Inl e, s)) \<or>
      createCourseSlot C now sc i dto s = insertLesson C now
        \<lparr>s_id = mailUuid C (seqNo s), s_courseId = i, s_teacherId = c_teacherId c,
         s_dayOfWeek = sd_dayOfWeek dto, s_startTime = sd_startTime dto,
         s_endTime = sd_endTime dto, s_room = sd_room dto\<rparr> (s\<lparr>seqNo := Suc (seqNo s)\<rparr>)"
    by (cases "fst (assertSlotTimes (sd_startTime dto) (sd_endTime dto) s)";
        cases "fst (ensureNoRoomConflict sc dto None s)";
        cases "fst (assertTeacherFreeOrThrow (c_teacherId c) sc (slotTime dto) None s)")
      (simp_all add: run)
  with that show thesis by blast
qed

lemma createCourseSlot_outcome:
  assumes "teachersHaveUsers s" "createCourseSlot C now sc i dto s = (r, t)"
  shows "(case r of Inl _ \<Rightarrow> courseSlots t = courseSlots s
          | Inr e \<Rightarrow> courseSlots t = courseSlots s @ [e] \<and> s_courseId e = i \<and>
              s_dayOfWeek e = sd_dayOfWeek dto \<and> s_startTime e = sd_startTime dto \<and>
              s_endTime e = sd_endTime dto)"
proof (rule createCourseSlot_cases [of C now sc i dto s])
  fix e assume "createCourseSlot C now sc i dto s = (Inl e, s)"
  with assms(2) show ?thesis by auto
next
  have users: "teachersHaveUsers (s\<lparr>seqNo := n\<rparr>)" for n using assms(1) by (simp add: teachersHaveUsers_def)
  fix x assume "createCourseSlot C now sc i dto s = insertLesson C now
        \<lparr>s_id = mailUuid C (seqNo s), s_courseId = i, s_teacherId = x,
         s_dayOfWeek = sd_dayOfWeek dto, s_startTime = sd_startTime dto,
         s_endTime = sd_endTime dto, s_room = sd_room dto\<rparr> (s\<lparr>seqNo := Suc (seqNo s)\<rparr>)"
  with insertLesson_outcome [OF users, of C now _ _ r t] assms(2) show ?thesis
    by (force split: sum.splits)
qed

section \<open>Classes are never in two lessons\<close>

definition classesApart :: "db \<Rightarrow> bool" where
  "classesApart s \<longleftrightarrow>
     (\<forall>a \<in> set (courseSlots s). \<forall>b \<in> set (courseSlots s). s_id a \<noteq> s_id b \<longrightarrow>
        courseClass s (s_courseId a) \<noteq> None \<longrightarrow>
        courseClass s (s_courseId a) = courseClass s (s_courseId b) \<longrightarrow>
        s_dayOfWeek a = s_dayOfWeek b \<longrightarrow> \<not> textOverlap a b)"

definition genInv :: "db \<Rightarrow> bool" where
  "genInv s \<longleftrightarrow> timetableInv s \<and> classesApart s \<and> teachersHaveUsers s"

text \<open>The courses that exist keep their need.\<close>

definition linkKept :: "db \<Rightarrow> db \<Rightarrow> bool" where
  "linkKept s t \<longleftrightarrow>
     requirements t = requirements s \<and>
     (\<forall>x \<in> c_id ` set (courses s). x \<in> c_id ` set (courses t) \<and> needOf t x = needOf s x)"

definition genView :: "db \<Rightarrow> course_row list \<times> requirement_row list \<times> teacher_row list \<times> user_row list" where
  "genView s = (courses s, requirements s, teachers s, users s)"

lemma genViewD:
  assumes "genView t = genView s"
  shows "courses t = courses s" "requirements t = requirements s" "teachers t = teachers s" "users t = users s"
  using assms by (simp_all add: genView_def)

lemma courseClass_view:
  assumes "genView t = genView s"
  shows "courseClass t = courseClass s" "needOf t = needOf s"
  unfolding courseClass_def needOf_def fun_eq_iff genViewD [OF assms] by simp_all

lemma classesApart_same:
  "courseSlots t = courseSlots s \<Longrightarrow> courseClass t = courseClass s \<Longrightarrow> classesApart t = classesApart s"
  by (simp add: classesApart_def)

lemma genInv_same:
  assumes "genView t = genView s" "courseSlots t = courseSlots s"
  shows "genInv t = genInv s"
  using timetableInv_same [of t s] classesApart_same [OF assms(2) courseClass_view(1) [OF assms(1)]]
  by (simp add: genInv_def teachersHaveUsers_def genViewD [OF assms(1)] assms(2))

lemma linkKept_view:
  assumes "genView t = genView s"
  shows "linkKept s t"
  by (simp add: linkKept_def courseClass_view [OF assms] genViewD [OF assms])

lemma view_createCourseSlot: "steps (frames genView) (createCourseSlot C now sc i dto) s"
proof -
  have n: "steps (frames genView) (notifyTeacherScheduleChange C now x a) u" for x a u
    using core_notifyTeacher [of C now x a u]
    by (auto simp: steps_def frames_def genView_def dest: core_fields)
  have w: "steps (frames genView) (translated (writeSlots f)) u" for f u
    by (simp add: steps_def frames_def translated_state writeSlots_run genView_def)
  have i: "steps (frames genView) (insertLesson C now e) u" for e u
    unfolding insertLesson_def by (intro step_rules n w)
  show ?thesis
  proof (rule createCourseSlot_cases [of C now sc i dto s])
    show "steps (frames genView) (createCourseSlot C now sc i dto) s"
      if "createCourseSlot C now sc i dto s = (Inl e, s)" for e
      using that by (simp add: steps_def frames_def)
  next
    fix x assume "createCourseSlot C now sc i dto s = insertLesson C now
        \<lparr>s_id = mailUuid C (seqNo s), s_courseId = i, s_teacherId = x,
         s_dayOfWeek = sd_dayOfWeek dto, s_startTime = sd_startTime dto,
         s_endTime = sd_endTime dto, s_room = sd_room dto\<rparr> (s\<lparr>seqNo := Suc (seqNo s)\<rparr>)"
    then show ?thesis
      using i [of _ "s\<lparr>seqNo := Suc (seqNo s)\<rparr>"] by (simp add: steps_def frames_def genView_def)
  qed
qed

text \<open>No lesson of the class meets the slot of the grid.\<close>

definition classFree :: "db \<Rightarrow> id \<Rightarrow> int \<Rightarrow> string \<Rightarrow> string \<Rightarrow> bool" where
  "classFree s k day b e \<longleftrightarrow>
     (\<forall>x \<in> set (courseSlots s). courseClass s (s_courseId x) = Some k \<longrightarrow> s_dayOfWeek x = day \<longrightarrow>
        \<not> (s_startTime x < e \<and> b < s_endTime x))"

text \<open>\<open>grows q s t xs\<close>: the timetable has gained the lessons \<open>xs\<close>, all of the need \<open>q\<close>.\<close>

definition grows :: "id \<Rightarrow> db \<Rightarrow> db \<Rightarrow> course_slot_row list \<Rightarrow> bool" where
  "grows q s t xs \<longleftrightarrow>
     genInv t \<and> linkKept s t \<and> courseSlots t = courseSlots s @ xs \<and>
     (\<forall>e \<in> set xs. needOf t (s_courseId e) = Some q)"

lemma needOf_exists: "needOf s x = Some i \<Longrightarrow> x \<in> c_id ` set (courses s)"
  by (auto simp: needOf_def split: option.splits dest: find_Some_in)

lemma linkKept_need: "linkKept s t \<Longrightarrow> needOf s x = Some i \<Longrightarrow> needOf t x = Some i"
  by (frule needOf_exists) (simp only: linkKept_def)

lemma linkKept_refl [simp]: "linkKept s s"
  by (simp add: linkKept_def)

lemma linkKept_trans: "linkKept s t \<Longrightarrow> linkKept t u \<Longrightarrow> linkKept s u"
  by (auto simp: linkKept_def)

lemma grows_refl: "genInv s \<Longrightarrow> grows q s s []"
  by (simp add: grows_def)

lemma grows_trans:
  assumes "grows q s t xs" "grows q t u ys"
  shows "grows q s u (xs @ ys)"
  using assms linkKept_need [of t u] linkKept_trans [of s t u] by (auto simp: grows_def)

lemma grows_createCourseSlot:
  assumes "timeOk (sd_startTime dto)" "timeOk (sd_endTime dto)"
    "courseClass s i = Some k" "needOf s i = Some q"
    "classFree s k (sd_dayOfWeek dto) (sd_startTime dto) (sd_endTime dto)"
    and inv: "genInv s" and run: "createCourseSlot C now sc i dto s = (r, t)"
  shows "genView t = genView s \<and> grows q s t (case r of Inl _ \<Rightarrow> [] | Inr e \<Rightarrow> [e])"
proof -
  have view: "genView t = genView s" using view_createCourseSlot [of C now sc i dto s] run
    by (simp add: steps_def frames_def)
  note cls = courseClass_view(1) [OF view]
  have users: "teachersHaveUsers s" "teachersHaveUsers t"
    using inv by (simp_all add: genInv_def teachersHaveUsers_def genViewD [OF view])
  have tt: "timetableInv t"
    using keeps_createCourseSlot [OF assms(1,2), of C now sc i s] run inv
    by (simp add: steps_def keeps_def genInv_def)
  have "classesApart t"
  proof (cases r)
    case (Inl e)
    with createCourseSlot_outcome [OF users(1) run] have "courseSlots t = courseSlots s" by simp
    from classesApart_same [OF this cls] inv show ?thesis by (simp add: genInv_def)
  next
    case (Inr e)
    with createCourseSlot_outcome [OF users(1) run] have slots: "courseSlots t = courseSlots s @ [e]"
      and e: "s_courseId e = i" "s_dayOfWeek e = sd_dayOfWeek dto" "s_startTime e = sd_startTime dto"
        "s_endTime e = sd_endTime dto" by auto
    have new: "\<not> textOverlap x e" if "x \<in> set (courseSlots s)"
      "courseClass s (s_courseId x) = courseClass s i" "s_dayOfWeek x = s_dayOfWeek e" for x
      using that assms(3,5) e by (auto simp: classFree_def textOverlap_def)
    show ?thesis
      unfolding classesApart_def slots cls
    proof (intro ballI impI)
      fix a b assume ab: "a \<in> set (courseSlots s @ [e])" "b \<in> set (courseSlots s @ [e])" "s_id a \<noteq> s_id b"
        "courseClass s (s_courseId a) \<noteq> None" "courseClass s (s_courseId a) = courseClass s (s_courseId b)"
        "s_dayOfWeek a = s_dayOfWeek b"
      then consider "a \<in> set (courseSlots s)" "b \<in> set (courseSlots s)" | "a \<in> set (courseSlots s)" "b = e"
        | "a = e" "b \<in> set (courseSlots s)" by auto
      then show "\<not> textOverlap a b"
      proof cases
        case 1
        with inv ab show ?thesis by (simp add: genInv_def classesApart_def)
      next
        case 2
        with new [of a] ab e show ?thesis by simp
      next
        case 3
        with new [of b] ab e have "\<not> textOverlap b e" by simp
        with 3 show ?thesis by (simp add: textOverlap_def conj_commute)
      qed
    qed
  qed
  then have "genInv t" using tt users by (simp add: genInv_def)
  moreover note linkKept_view [OF view]
  ultimately show ?thesis
    using createCourseSlot_outcome [OF users(1) run] view assms(4)
    by (cases r) (simp_all add: grows_def courseClass_view(2) [OF view])
qed

text \<open>A failed attempt leaves the class free, so the next room can be tried.\<close>

lemma classFree_same:
  assumes "genView t = genView s" "courseSlots t = courseSlots s"
  shows "classFree t k d b e = classFree s k d b e"
  by (simp add: classFree_def courseClass_view(1) [OF assms(1)] assms(2))

lemma tryRooms_outcome:
  assumes "gridTimes g" "courseClass s i = Some k" "needOf s i = Some q"
    "classFree s k (sl_dayOfWeek g) (sl_startTime g) (sl_endTime g)" "genInv s"
  shows "\<exists>x t new. tryRooms C now sc i g used rs s = (Inr x, t) \<and> genView t = genView s \<and>
    grows q s t new \<and> length new = (case x of None \<Rightarrow> 0 | Some _ \<Rightarrow> 1)"
  using assms(2-5)
proof (induction rs arbitrary: s)
  case Nil
  then show ?case by (simp add: exec_simps grows_refl)
next
  case (Cons r rs)
  obtain x t where run: "createCourseSlot C now sc i (gridDto g r) s = (x, t)" by fastforce
  have times: "timeOk (sd_startTime (gridDto g r))" "timeOk (sd_endTime (gridDto g r))"
    using assms(1) by (simp_all only: gridTimes_def gridDto_def slot_dto.simps)
  have one: "genView t = genView s" "grows q s t (case x of Inl _ \<Rightarrow> [] | Inr e \<Rightarrow> [e])"
    using grows_createCourseSlot [OF times Cons.prems(1,2) _ Cons.prems(4) run] Cons.prems(3)
    by (simp_all add: gridDto_def)
  show ?case
  proof (cases "comboKey (rm_name r) g \<in> used")
    case True
    with Cons show ?thesis by simp
  next
    case False
    show ?thesis
    proof (cases x)
      case (Inr e)
      with False run one show ?thesis by (simp add: exec_simps) (metis length_Cons list.size(3))
    next
      case (Inl e)
      with one have same: "courseSlots t = courseSlots s" and g: "grows q s t []"
        by (simp_all add: grows_def)
      obtain y u new where rest: "tryRooms C now sc i g used rs t = (Inr y, u)" "genView u = genView t"
          "grows q t u new" "length new = (case y of None \<Rightarrow> 0 | Some _ \<Rightarrow> 1)"
        using Cons.IH [of t] Cons.prems g classFree_same [OF one(1) same]
        by (auto simp: courseClass_view [OF one(1)] grows_def)
      from grows_trans [OF g rest(3)] rest False run Inl one(1) show ?thesis by (simp add: exec_simps) blast
    qed
  qed
qed

text \<open>One slot, then all the slots of the grid.\<close>

lemma isClassBusy_run:
  "isClassBusy k g s = (Inr (\<not> classFree s k (sl_dayOfWeek g) (sl_startTime g) (sl_endTime g)), s)"
  by (auto simp: isClassBusy_def exec_simps find_None classFree_def simp del: not_None_eq)

lemma placeSlot_outcome:
  assumes "gridTimes g" "courseClass s i = Some k" "needOf s i = Some q" "genInv s"
  shows "\<exists>p' ut' ur' t new. placeSlot C now sc i th k rs n (p, ut, ur) g s = (Inr (p', ut', ur'), t) \<and>
    genView t = genView s \<and> grows q s t new \<and> p' = p + length new \<and> (int p \<le> n \<longrightarrow> int p' \<le> n)"
proof (cases "n \<le> int p \<or> comboKey th g \<in> ut \<or> \<not> classFree s k (sl_dayOfWeek g) (sl_startTime g) (sl_endTime g)")
  case True
  then have "placeSlot C now sc i th k rs n (p, ut, ur) g s = (Inr (p, ut, ur), s)"
    by (auto simp: placeSlot_def exec_simps isClassBusy_run)
  with grows_refl [OF assms(4), of q] show ?thesis by simp
next
  case False
  then obtain x t new where run: "tryRooms C now sc i g ur rs s = (Inr x, t)" "genView t = genView s"
      "grows q s t new" "length new = (case x of None \<Rightarrow> 0 | Some _ \<Rightarrow> 1)"
    using tryRooms_outcome [OF assms(1-3) _ assms(4), of C now sc ur rs] by blast
  from False run show ?thesis
    by (cases x) (auto simp: placeSlot_def exec_simps isClassBusy_run)
qed

lemma placeSlots_outcome:
  assumes "\<forall>g \<in> set grid. gridTimes g" "courseClass s i = Some k" "needOf s i = Some q" "genInv s"
  shows "\<exists>p' ut' ur' t new. foldE (placeSlot C now sc i th k rs n) (p, ut, ur) grid s = (Inr (p', ut', ur'), t) \<and>
    genView t = genView s \<and> grows q s t new \<and> p' = p + length new \<and> (int p \<le> n \<longrightarrow> int p' \<le> n)"
  using assms
proof (induction grid arbitrary: s p ut ur)
  case Nil
  then show ?case using grows_refl [of s q] by (simp add: exec_simps)
next
  case (Cons g grid)
  then obtain p1 ut1 ur1 t1 new1 where one: "placeSlot C now sc i th k rs n (p, ut, ur) g s = (Inr (p1, ut1, ur1), t1)"
      "genView t1 = genView s" "grows q s t1 new1" "p1 = p + length new1" "int p \<le> n \<longrightarrow> int p1 \<le> n"
    using placeSlot_outcome [of g s i k q C now sc th rs n p ut ur] by auto
  obtain p2 ut2 ur2 t2 new2 where two: "foldE (placeSlot C now sc i th k rs n) (p1, ut1, ur1) grid t1 = (Inr (p2, ut2, ur2), t2)"
      "genView t2 = genView t1" "grows q t1 t2 new2" "p2 = p1 + length new2" "int p1 \<le> n \<longrightarrow> int p2 \<le> n"
    using Cons.IH [of t1 p1 ut1 ur1] Cons.prems one(3) courseClass_view [OF one(2)] by (auto simp: grows_def)
  have "foldE (placeSlot C now sc i th k rs n) (p, ut, ur) (g # grid) s = (Inr (p2, ut2, ur2), t2)"
    using one(1) two(1) by (simp add: exec_simps)
  moreover have "genView t2 = genView s" "p2 = p + length (new1 @ new2)" "int p \<le> n \<longrightarrow> int p2 \<le> n"
    using one two by simp_all
  ultimately show ?case using grows_trans [OF one(3) two(3)] by blast
qed

text \<open>The course of a job: a new course has no lesson, so linking it to its need moves no lesson.\<close>

lemma needOf_same:
  "courses t = courses s \<Longrightarrow> needOf t = needOf s"
  by (simp add: needOf_def fun_eq_iff)

lemma courseClass_need:
  assumes "needOf t x = needOf s x" "requirements t = requirements s"
  shows "courseClass t x = courseClass s x"
  unfolding courseClass_def assms ..

lemma classesApart_need:
  assumes "courseSlots t = courseSlots s" "requirements t = requirements s" "classesApart s"
    "\<forall>e \<in> set (courseSlots s). needOf t (s_courseId e) = needOf s (s_courseId e)"
  shows "classesApart t"
proof -
  have "courseClass t (s_courseId e) = courseClass s (s_courseId e)" if "e \<in> set (courseSlots s)" for e
    using courseClass_need [of t "s_courseId e" s] assms(2,4) that by simp
  with assms(1,3) show ?thesis by (simp add: classesApart_def)
qed

lemma createCourse_outcome:
  "(\<exists>e u. createCourse C sc dto s = (Inl e, s\<lparr>seqNo := u\<rparr>)) \<or>
   (\<exists>c u. createCourse C sc dto s = (Inr c, s\<lparr>courses := courses s @ [c], seqNo := u\<rparr>) \<and>
      c_subjectRequirementId c = None \<and> c_id c \<notin> c_id ` set (courses s))"
proof -
  have active: "steps (=) (ensureActiveTeacherAssignment sc x) s" for x
    unfolding ensureActiveTeacherAssignment_def by (intro step_rules)
  have fail: ?thesis if "createCourse C sc dto s = (Inl e, s)" for e
    using that by (intro disjI1 exI [of _ e] exI [of _ "seqNo s"]) simp
  have insert: "(\<exists>e u. insertRow courses courses_update courseClash c (s\<lparr>seqNo := n\<rparr>) = (Inl e, s\<lparr>seqNo := u\<rparr>)) \<or>
      (insertRow courses courses_update courseClash c (s\<lparr>seqNo := n\<rparr>) =
         (Inr c, s\<lparr>courses := courses s @ [c], seqNo := n\<rparr>) \<and> c_id c \<notin> c_id ` set (courses s))" for c n
  proof (cases "\<exists>x \<in> set (courses s). courseClash x c")
    case True
    then have "insertRow courses courses_update courseClash c (s\<lparr>seqNo := n\<rparr>) =
        (Inl (Failure ''P2002''), s\<lparr>seqNo := n\<rparr>)" by (simp add: insertRow_run)
    then show ?thesis by blast
  next
    case False
    then have "c_id c \<notin> c_id ` set (courses s)" by (auto simp: courseClash_def)
    with False show ?thesis by (simp add: insertRow_run)
  qed
  show ?thesis
  proof (cases "fst (ensureActiveTeacherAssignment sc (cd_teacherId dto) s)")
    case (Inl e)
    then show ?thesis by (intro fail [of e]) (simp add: createCourse_def readonly_then [OF active])
  next
    case (Inr u)
    show ?thesis
    proof (cases "find (\<lambda>j. sj_id j = cd_subjectId dto \<and> sj_schoolId j = sc \<and> sj_isActive j) (subjects s)";
        cases "find (\<lambda>p. pr_id p = cd_programId dto \<and> pr_schoolId p = sc \<and> pr_isActive p) (programs s)")
      fix j p
      assume found: "find (\<lambda>j. sj_id j = cd_subjectId dto \<and> sj_schoolId j = sc \<and> sj_isActive j) (subjects s) = Some j"
        "find (\<lambda>p. pr_id p = cd_programId dto \<and> pr_schoolId p = sc \<and> pr_isActive p) (programs s) = Some p"
      note run = createCourse_def readonly_then [OF active] Inr
        bindE_run [where m = "findFirst _ _"] findFirst_run found
        thenE_run [where m = "require _ _"] require_run newId_bind
      show ?thesis
      proof (cases "pr_durationYears p < cd_programLevel dto")
        case True
        then have "createCourse C sc dto s =
            (Inl (BadRequest ''Ce programme ne compte pas autant d'annees''), s)" by (simp add: run)
        then show ?thesis by (rule fail)
      next
        case False
        let ?c = "\<lparr>c_id = mailUuid C (seqNo s), c_schoolId = sc, c_teacherId = cd_teacherId dto, c_code = cd_code dto,
             c_title = sj_name j, c_level = levelName (cd_programLevel dto) p,
             c_subjectId = Some (sj_id j), c_programId = Some (pr_id p),
             c_programLevel = Some (cd_programLevel dto), c_group = cd_group dto,
             c_credits = nullish (cd_credits dto) 0, c_isPublished = nullish (cd_isPublished dto) True,
             c_subjectRequirementId = None, c_welcomeMessage = None,
             c_allowGroupMessages = True, c_notifyOnPublish = True\<rparr>"
        from False have "createCourse C sc dto s =
            insertRow courses courses_update courseClash ?c (s\<lparr>seqNo := Suc (seqNo s)\<rparr>)"
          by (simp add: run)
        with insert [of ?c "Suc (seqNo s)"] show ?thesis
          by (elim disjE) (simp_all, blast)
      qed
    qed (intro fail [of "NotFound ''Matiere ou filiere introuvable''"],
        simp add: createCourse_def readonly_then [OF active] Inr bindE_run [where m = "findFirst _ _"]
          findFirst_run throw_run)+
  qed
qed

lemma grows_newCourse:
  assumes inv: "genInv s" and new: "c_id c \<notin> c_id ` set (courses s)"
  shows "grows q s (s\<lparr>courses := courses s @ [c], seqNo := n\<rparr>) []"
proof -
  let ?t = "s\<lparr>courses := courses s @ [c], seqNo := n\<rparr>"
  have "timetableInv (s\<lparr>courses := courses s @ [c]\<rparr>)"
    using inv inv_newCourse [OF _ new] by (simp add: genInv_def)
  then have tt: "timetableInv ?t" using timetableInv_same [of ?t "s\<lparr>courses := courses s @ [c]\<rparr>"] by simp
  have need: "needOf ?t x = needOf s x" if x: "x \<in> c_id ` set (courses s)" for x
  proof -
    obtain c' where "find (\<lambda>c. c_id c = x) (courses s) = Some c'"
      using x by (cases "find (\<lambda>c. c_id c = x) (courses s)") (auto simp: find_None)
    then show ?thesis by (simp add: needOf_def find_append)
  qed
  have "\<forall>e \<in> set (courseSlots s). s_courseId e \<in> c_id ` set (courses s)"
    using inv by (simp add: genInv_def timetable_defs)
  then have "classesApart ?t"
    using inv need by (intro classesApart_need [of ?t s]) (simp_all add: genInv_def)
  moreover have "teachersHaveUsers ?t" using inv by (simp add: genInv_def teachersHaveUsers_def)
  ultimately show ?thesis using tt need by (simp add: grows_def genInv_def linkKept_def)
qed

lemma grows_seqNo: "genInv s \<Longrightarrow> grows q s (s\<lparr>seqNo := n\<rparr>) []"
  using genInv_same [of "s\<lparr>seqNo := n\<rparr>" s] linkKept_view [of "s\<lparr>seqNo := n\<rparr>" s]
  by (simp add: grows_def genView_def)

lemma createJobCourse_outcome:
  assumes inv: "genInv s" and run: "createJobCourse C sc jb th s = (r, t)"
  shows "grows q s t [] \<and> (case r of Inl _ \<Rightarrow> True | Inr i \<Rightarrow> needOf t i = Some (rq_id (jb_need jb)))"
proof -
  define dto where "dto = \<lparr>cd_teacherId = th, cd_code = ''AUTO-'' @ map upperChar (take 8 (rq_id (jb_need jb))),
     cd_subjectId = rq_subjectId (jb_need jb), cd_programId = nullish (cl_programId (jb_class jb)) [],
     cd_programLevel = nullish (cl_level (jb_class jb)) 1, cd_group = None, cd_credits = None,
     cd_isPublished = Some True\<rparr>"
  let ?f = "\<lambda>c :: course_row. c\<lparr>c_subjectRequirementId := Some (rq_id (jb_need jb))\<rparr>"
  note run = run [unfolded createJobCourse_def, folded dto_def, unfolded bindE_run [where m = "createCourse C sc dto"]]
  from createCourse_outcome [of C sc dto s] consider
      e u where "createCourse C sc dto s = (Inl e, s\<lparr>seqNo := u\<rparr>)"
    | c u where "createCourse C sc dto s = (Inr c, s\<lparr>courses := courses s @ [c], seqNo := u\<rparr>)"
        "c_id c \<notin> c_id ` set (courses s)"
    by blast
  then show ?thesis
  proof cases
    case 1
    with run grows_seqNo [OF inv] show ?thesis by auto
  next
    case 2
    have old: "update_rows (\<lambda>x. c_id x = c_id c) ?f (courses s) = courses s"
      using 2(2) by (intro update_rows_id) (metis imageI)
    have new: "c_id (?f c) \<notin> c_id ` set (courses s)" using 2(2) by simp
    have "needOf (s\<lparr>seqNo := u, courses := courses s @ [?f c]\<rparr>) (c_id c) = Some (rq_id (jb_need jb))"
      using 2(2) by (auto simp: needOf_def find_append split: option.split dest!: find_Some_in)
        (metis imageI)
    moreover have swap: "s\<lparr>courses := x, seqNo := u\<rparr> = s\<lparr>seqNo := u, courses := x\<rparr>" for x by simp
    moreover have "grows q s (s\<lparr>seqNo := u, courses := courses s @ [?f c]\<rparr>) []"
      using grows_newCourse [OF inv new, of q u] by (simp only: swap)
    moreover note grows_newCourse [OF inv 2(2), of q u]
    ultimately show ?thesis
      using run 2(1) old
      by (auto simp: writeCourses_def exec_simps split: if_splits)
  qed
qed

text \<open>A job against a database: its need is a row, and its course is linked to it.\<close>

definition jobOk :: "db \<Rightarrow> job \<Rightarrow> bool" where
  "jobOk s jb \<longleftrightarrow>
     find (\<lambda>q. rq_id q = rq_id (jb_need jb)) (requirements s) = Some (jb_need jb) \<and>
     rq_classId (jb_need jb) = cl_id (jb_class jb) \<and>
     (case jb_course jb of None \<Rightarrow> True | Some (i, _) \<Rightarrow> needOf s i = Some (rq_id (jb_need jb)))"

definition sessionsMissing :: "time_slot_row list \<Rightarrow> job \<Rightarrow> int" where
  "sessionsMissing grid jb =
     sessionsNeededFor (rq_hoursPerWeek (jb_need jb)) (typicalDuration grid) - int (existingSessions jb)"

lemma jobOk_kept: "jobOk s jb \<Longrightarrow> linkKept s t \<Longrightarrow> jobOk t jb"
  by (auto simp: jobOk_def linkKept_need split: option.splits) (auto simp: linkKept_def)

lemma jobOk_class: "jobOk s jb \<Longrightarrow> needOf s i = Some (rq_id (jb_need jb)) \<Longrightarrow> courseClass s i = Some (cl_id (jb_class jb))"
  by (simp add: jobOk_def courseClass_def)

lemma jobCourse_outcome:
  assumes "genInv s" "jobOk s jb"
  shows "\<exists>x t. jobCourse C sc jb th s = (Inr x, t) \<and> grows (rq_id (jb_need jb)) s t [] \<and>
    (case x of Inl _ \<Rightarrow> True | Inr i \<Rightarrow> needOf t i = Some (rq_id (jb_need jb)))"
proof (cases "truthy (map_option fst (jb_course jb))")
  case True
  then obtain i n where c: "jb_course jb = Some (i, n)" by (cases "jb_course jb") auto
  with True have "jobCourse C sc jb th s = (Inr (Inr i), s)" by (simp add: jobCourse_def exec_simps)
  with assms c grows_refl [OF assms(1)] show ?thesis by (simp add: jobOk_def)
next
  case False
  obtain r t where run: "createJobCourse C sc jb th s = (r, t)" by fastforce
  from createJobCourse_outcome [OF assms(1) run, of "rq_id (jb_need jb)"] run False show ?thesis
    by (cases r) (simp_all add: jobCourse_def exec_simps)
qed

text \<open>A job is reported at the end of the list, or has its lessons.\<close>

definition answered :: "time_slot_row list \<Rightarrow> job \<Rightarrow> nat \<Rightarrow> progress \<Rightarrow> progress \<Rightarrow> bool" where
  "answered grid jb n st st' \<longleftrightarrow>
     (\<exists>k m. gs_unresolved st' = gs_unresolved st @ [baseUnresolved (typicalDuration grid) jb k m]) \<or>
     (gs_unresolved st' = gs_unresolved st \<and> sessionsMissing grid jb \<le> int n)"

lemma report_simps [simp]:
  "gs_created (reportJob d jb k m st) = gs_created st"
  "gs_unresolved (reportJob d jb k m st) = gs_unresolved st @ [baseUnresolved d jb k m]"
  by (simp_all add: reportJob_def)

lemma answered_report [intro]:
  "gs_unresolved st' = gs_unresolved st \<Longrightarrow>
   answered grid jb n st (reportJob (typicalDuration grid) jb k m st')"
  by (auto simp: answered_def)

lemma answered_full [intro]: "sessionsMissing grid jb \<le> int n \<Longrightarrow> gs_unresolved st' = gs_unresolved st \<Longrightarrow> answered grid jb n st st'"
  by (simp add: answered_def)

lemma planJob_outcome:
  assumes "genInv s" "jobOk s jb" "\<forall>g \<in> set grid. gridTimes g"
  shows "\<exists>st' t new. planJob C now sc grid rs st jb s = (Inr st', t) \<and>
    grows (rq_id (jb_need jb)) s t new \<and> gs_created st' = gs_created st + length new \<and>
    int (length new) \<le> max 0 (sessionsMissing grid jb) \<and>
    answered grid jb (length new) st st'"
proof -
  have stay: ?thesis if "planJob C now sc grid rs st jb s = (Inr st', s)" "gs_created st' = gs_created st"
    "answered grid jb 0 st st'" for st'
    using that grows_refl [OF assms(1)] by (intro exI [of _ st'] exI [of _ s] exI [of _ "[]"]) simp
  show ?thesis
  proof (cases "jb_teacher jb")
    case None
    then show ?thesis
      by (intro stay [of "reportJob (typicalDuration grid) jb 0 ''Aucun professeur affecte'' st"])
        (auto simp: planJob_def exec_simps)
  next
    case (Some a)
    obtain th y where a: "a = (th, y)" by (cases a)
    consider (quit) "\<not> truthy (cl_programId (jb_class jb)) \<or> \<not> jb_hasProgram jb \<or> grid = [] \<or> rs = [] \<or>
        typicalDuration grid \<le> 0 \<or> sessionsMissing grid jb \<le> 0"
      | (go) "truthy (cl_programId (jb_class jb))" "jb_hasProgram jb" "\<not> (grid = [] \<or> rs = [] \<or>
        typicalDuration grid \<le> 0)" "0 < sessionsMissing grid jb" by linarith
    then show ?thesis
    proof cases
      case quit
      then have "\<exists>st'. planJob C now sc grid rs st jb s = (Inr st', s) \<and> gs_created st' = gs_created st \<and>
          answered grid jb 0 st st'"
        using Some a
        by (auto simp: planJob_def exec_simps sessionsMissing_def Let_def)
      with stay show ?thesis by blast
    next
      case go
      obtain x u where c: "jobCourse C sc jb th s = (Inr x, u)" "grows (rq_id (jb_need jb)) s u []"
          "case x of Inl _ \<Rightarrow> True | Inr i \<Rightarrow> needOf u i = Some (rq_id (jb_need jb))"
        using jobCourse_outcome [OF assms(1,2)] by blast
      have run: "planJob C now sc grid rs st jb s = bindE (jobCourse C sc jb th) (\<lambda>course.
         case course of
           Inl message \<Rightarrow> ret (reportJob (typicalDuration grid) jb 0 message st)
         | Inr courseId \<Rightarrow>
             bindE (placeLessons C now sc grid rs jb courseId th (sessionsMissing grid jb) st)
               (\<lambda>(placed, st').
             ret (if int placed < sessionsMissing grid jb
                  then reportJob (typicalDuration grid) jb (int (existingSessions jb) + int placed)
                         ''Aucun creneau libre compatible (disponibilite prof / salle / classe)'' st'
                  else st'))) s"
        using Some a go unfolding planJob_def sessionsMissing_def Let_def by simp
      show ?thesis
      proof (cases x)
        case (Inl m)
        with c run show ?thesis by (auto simp: exec_simps intro!: exI [of _ "[]"])
      next
        case (Inr i)
        have u: "genInv u" "needOf u i = Some (rq_id (jb_need jb))" "jobOk u jb"
          using c Inr jobOk_kept [OF assms(2)] by (simp_all add: grows_def)
        obtain p ut ur t new where loop: "foldE (placeSlot C now sc i th (cl_id (jb_class jb)) rs (sessionsMissing grid jb))
            (0, gs_usedTeachers st, gs_usedRooms st) grid u = (Inr (p, ut, ur), t)"
          "grows (rq_id (jb_need jb)) u t new" "p = length new" "int p \<le> sessionsMissing grid jb"
          using placeSlots_outcome [OF assms(3) jobOk_class [OF u(3,2)] u(2,1), of C now sc th rs
              "sessionsMissing grid jb" 0 "gs_usedTeachers st" "gs_usedRooms st"] go(4) by auto
        have "\<exists>st'. planJob C now sc grid rs st jb s = (Inr st', t) \<and> gs_created st' = gs_created st + length new \<and>
            answered grid jb (length new) st st'"
          using loop(1,3) c(1) Inr by (auto simp: run placeLessons_def exec_simps)
        with grows_trans [OF c(2) loop(2)] loop(3,4) go(4) show ?thesis by auto
      qed
    qed
  qed
qed

definition needLessons :: "db \<Rightarrow> id \<Rightarrow> course_slot_row list \<Rightarrow> nat" where
  "needLessons s q = count_rows (\<lambda>e. needOf s (s_courseId e) = Some q)"

lemma needLessons_append [simp]: "needLessons s q (xs @ ys) = needLessons s q xs + needLessons s q ys"
  by (simp add: needLessons_def count_rows_def)

lemma needLessons_grown:
  assumes "\<forall>e \<in> set xs. needOf s (s_courseId e) = Some q"
  shows "needLessons s q' xs = (if q' = q then length xs else 0)"
  using assms by (induction xs) (auto simp: needLessons_def count_rows_def)

lemma planJobs_outcome:
  assumes "genInv s" "\<forall>jb \<in> set jobs. jobOk s jb" "\<forall>g \<in> set grid. gridTimes g"
  shows "\<exists>st' t new. foldE (planJob C now sc grid rs) st jobs s = (Inr st', t) \<and> genInv t \<and> linkKept s t \<and>
    courseSlots t = courseSlots s @ new \<and> gs_created st' = gs_created st + length new \<and>
    (\<forall>q. int (needLessons t q new) \<le>
       (\<Sum>jb \<leftarrow> filter (\<lambda>jb. rq_id (jb_need jb) = q) jobs. max 0 (sessionsMissing grid jb))) \<and>
    (\<exists>items. gs_unresolved st' = gs_unresolved st @ items \<and> (items = [] \<longrightarrow>
       (\<forall>jb \<in> set jobs. sessionsMissing grid jb \<le> int (needLessons t (rq_id (jb_need jb)) new))))"
  using assms(1,2)
proof (induction jobs arbitrary: s st)
  case Nil
  then show ?case by (simp add: exec_simps needLessons_def)
next
  case (Cons jb jobs)
  obtain st1 t1 xs where one: "planJob C now sc grid rs st jb s = (Inr st1, t1)"
      "grows (rq_id (jb_need jb)) s t1 xs" "gs_created st1 = gs_created st + length xs"
      "int (length xs) \<le> max 0 (sessionsMissing grid jb)" "answered grid jb (length xs) st st1"
    using planJob_outcome [of s jb grid C now sc rs st] Cons.prems assms(3) by auto
  have "genInv t1" and link: "linkKept s t1" and s1: "courseSlots t1 = courseSlots s @ xs"
    and xs: "\<forall>e \<in> set xs. needOf t1 (s_courseId e) = Some (rq_id (jb_need jb))"
    using one(2) by (simp_all add: grows_def)
  then obtain st2 t2 ys items where two: "foldE (planJob C now sc grid rs) st1 jobs t1 = (Inr st2, t2)"
      "genInv t2" "linkKept t1 t2" "courseSlots t2 = courseSlots t1 @ ys"
      "gs_created st2 = gs_created st1 + length ys"
      "\<forall>q. int (needLessons t2 q ys) \<le>
         (\<Sum>jb \<leftarrow> filter (\<lambda>jb. rq_id (jb_need jb) = q) jobs. max 0 (sessionsMissing grid jb))"
      "gs_unresolved st2 = gs_unresolved st1 @ items"
      "items = [] \<longrightarrow> (\<forall>jb \<in> set jobs. sessionsMissing grid jb \<le> int (needLessons t2 (rq_id (jb_need jb)) ys))"
    using Cons.IH [of t1 st1] Cons.prems jobOk_kept by fastforce
  have xs2: "needLessons t2 q xs = (if q = rq_id (jb_need jb) then length xs else 0)" for q
    using xs two(3) by (intro needLessons_grown) (blast intro: linkKept_need)
  have "foldE (planJob C now sc grid rs) st (jb # jobs) s = (Inr st2, t2)"
    using one(1) two(1) by (simp add: exec_simps)
  moreover have "courseSlots t2 = courseSlots s @ xs @ ys" "gs_created st2 = gs_created st + length (xs @ ys)"
    using s1 two(4,5) one(3) by simp_all
  moreover have "int (needLessons t2 q (xs @ ys)) \<le>
      (\<Sum>jb \<leftarrow> filter (\<lambda>jb. rq_id (jb_need jb) = q) (jb # jobs). max 0 (sessionsMissing grid jb))" for q
    using two(6) [rule_format, of q] one(4) xs2 [of q] by auto
  moreover have "\<exists>items. gs_unresolved st2 = gs_unresolved st @ items \<and> (items = [] \<longrightarrow>
      (\<forall>j \<in> set (jb # jobs). sessionsMissing grid j \<le> int (needLessons t2 (rq_id (jb_need j)) (xs @ ys))))"
    using one(5) unfolding answered_def
  proof
    assume "\<exists>k m. gs_unresolved st1 = gs_unresolved st @ [baseUnresolved (typicalDuration grid) jb k m]"
    with two(7) show ?thesis by auto
  next
    assume "gs_unresolved st1 = gs_unresolved st \<and> sessionsMissing grid jb \<le> int (length xs)"
    with two(7,8) xs2 show ?thesis by (intro exI [of _ items]) fastforce
  qed
  ultimately show ?case using two(2) linkKept_trans [OF link two(3)] by blast
qed

section \<open>A whole generation\<close>

definition generationInv :: "db \<Rightarrow> bool" where
  "generationInv s \<longleftrightarrow>
     genInv s \<and> schedulingInv s \<and> sorted_wrt (\<lambda>a b. \<not> courseClash a b) (courses s)"

definition generationGrid :: "db \<Rightarrow> id \<Rightarrow> time_slot_row list" where
  "generationGrid s schoolId =
     sort_by grid_before (filter (\<lambda>t. sl_schoolId t = schoolId \<and> sl_isActive t) (timeSlots s))"

lemma in_loadJobs:
  "jb \<in> set (loadJobs sc dto s) \<longleftrightarrow>
   (\<exists>c \<in> set (classes s). \<exists>q \<in> set (requirements s). jb = loadJob s c q \<and> rq_classId q = cl_id c \<and>
      cl_schoolId c = sc \<and> cl_academicYearId c = yd_academicYearId dto \<and>
      (truthy (yd_classId dto) \<longrightarrow> yd_classId dto = Some (cl_id c)) \<and> needSelected s dto q)"
  by (auto simp: loadJobs_def)

lemma loadJob_need [simp]: "jb_need (loadJob s c q) = q" "jb_class (loadJob s c q) = c"
  by (simp_all add: loadJob_def)

lemma filter_own: "distinct (map k xs) \<Longrightarrow> x \<in> set xs \<Longrightarrow> filter (\<lambda>y. k y = k x) xs = [x]"
proof (induction xs)
  case (Cons a xs)
  have "filter (\<lambda>y. k y = k a) xs = []" using Cons.prems(1) by (auto simp: filter_empty_conv) (metis imageI)
  with Cons show ?case by auto
qed simp

lemma generation_keys:
  assumes "generationInv s"
  shows "distinct (map rq_id (requirements s))" "distinct (map cl_id (classes s))"
    "distinct (map c_id (courses s))" "\<forall>e \<in> set (courseSlots s). s_courseId e \<in> c_id ` set (courses s)"
    "genInv s" "\<forall>g \<in> set (generationGrid s sc). gridTimes g"
  using assms scheduling_keys(3,4) [of s]
  by (auto simp: generationInv_def genInv_def timetable_defs schedulingInv_def gridInv_def generationGrid_def)

text \<open>A need has at most one course, so its lessons are those of its course.\<close>

lemma course_of_need:
  assumes inv: "generationInv s" and c: "c \<in> set (courses s)" "c_subjectRequirementId c = Some q"
  shows "needOf s x = Some q \<longleftrightarrow> x = c_id c"
proof
  assume "x = c_id c"
  with find_key [OF generation_keys(3) [OF inv] c(1)] c(2) show "needOf s x = Some q"
    by (simp add: needOf_def)
next
  assume "needOf s x = Some q"
  then obtain d where d: "d \<in> set (courses s)" "c_id d = x" "c_subjectRequirementId d = Some q"
    by (auto simp: needOf_def split: option.splits dest: find_Some_in)
  have "d = c \<or> \<not> courseClash d c \<or> \<not> courseClash c d"
    using inv sorted_wrt_pair [of "\<lambda>a b. \<not> courseClash a b", OF _ d(1) c(1)]
    by (auto simp: generationInv_def)
  with c d show "x = c_id c" by (auto simp: courseClash_def)
qed

lemma existing_loaded:
  assumes "generationInv s"
  shows "existingSessions (loadJob s c q) = needLessons s (rq_id q) (courseSlots s)"
proof (cases "find (\<lambda>x. c_subjectRequirementId x = Some (rq_id q)) (courses s)")
  case None
  then have "needOf s x \<noteq> Some (rq_id q)" for x
    by (auto simp: needOf_def find_None split: option.splits dest!: find_Some_in)
  with None show ?thesis
    by (simp add: existingSessions_def loadJob_def needLessons_def count_rows_def)
next
  case (Some x)
  with find_Some_in [OF this] have "needOf s y = Some (rq_id q) \<longleftrightarrow> y = c_id x" for y
    by (intro course_of_need [OF assms]) simp_all
  with Some show ?thesis by (simp add: existingSessions_def loadJob_def needLessons_def)
qed

lemma jobOk_loaded:
  assumes "generationInv s" "jb \<in> set (loadJobs sc dto s)"
  shows "jobOk s jb"
proof -
  obtain c q where j: "q \<in> set (requirements s)" "jb = loadJob s c q" "rq_classId q = cl_id c"
    using assms(2) by (auto simp: in_loadJobs)
  have "needOf s (c_id x) = Some (rq_id q)" if "x \<in> set (courses s)" "c_subjectRequirementId x = Some (rq_id q)" for x
    using course_of_need [OF assms(1) that] by simp
  then have "case jb_course jb of None \<Rightarrow> True | Some (i, _) \<Rightarrow> needOf s i = Some (rq_id q)"
    by (auto simp: j(2) loadJob_def split: option.splits dest!: find_Some_in)
  with find_key [OF generation_keys(1) [OF assms(1)] j(1)] j(3) show ?thesis
    unfolding jobOk_def j(2) loadJob_need by simp
qed

lemma jobs_distinct:
  assumes "generationInv s"
  shows "distinct (map (\<lambda>jb. rq_id (jb_need jb)) (sort_by le (loadJobs sc dto s)))"
proof -
  have d: "distinct (map rq_id (requirements s))" "distinct (map cl_id (classes s))"
    using generation_keys [OF assms] by simp_all
  have "distinct (map (\<lambda>jb. rq_id (jb_need jb)) (concat (map (\<lambda>c. map (loadJob s c)
      (filter (\<lambda>q. rq_classId q = cl_id c \<and> P q) (requirements s))) cs)))"
    if "distinct (map cl_id cs)" for cs P
    using that
  proof (induction cs)
    case (Cons c cs)
    let ?own = "\<lambda>c. filter (\<lambda>q. rq_classId q = cl_id c \<and> P q) (requirements s)"
    let ?rest = "concat (map (\<lambda>c. map (loadJob s c) (?own c)) cs)"
    have "distinct (map rq_id (?own c))"
      using d(1) by (auto simp: distinct_map intro: inj_on_subset)
    moreover have "distinct (map (\<lambda>jb. rq_id (jb_need jb)) ?rest)" using Cons by simp
    moreover have "rq_id q \<noteq> rq_id (jb_need jb)" if "q \<in> set (?own c)" "jb \<in> set ?rest" for q jb
    proof
      note pair = that
      assume same: "rq_id q = rq_id (jb_need jb)"
      obtain c' where c': "c' \<in> set cs" "jb_need jb \<in> set (requirements s)" "rq_classId (jb_need jb) = cl_id c'"
        using pair(2) by auto
      with distinct_key_eq [OF d(1) _ c'(2) same] pair(1) Cons.prems show False by auto
    qed
    ultimately show ?case by (auto simp: comp_def)
  qed simp
  moreover have "distinct (map cl_id (filter Q (classes s)))" for Q
    using d(2) by (auto simp: distinct_map intro: inj_on_subset)
  ultimately have "distinct (map (\<lambda>jb. rq_id (jb_need jb)) (loadJobs sc dto s))"
    by (simp add: loadJobs_def)
  moreover have "mset (map (\<lambda>jb. rq_id (jb_need jb)) (sort_by le xs)) = mset (map (\<lambda>jb. rq_id (jb_need jb)) xs)" for xs
    by simp
  ultimately show ?thesis using mset_eq_imp_distinct_iff by blast
qed

lemma generate_outcome:
  assumes inv: "generationInv s"
  shows "\<exists>created unresolved t new. generateSchedule C collate now sc dto s = (Inr (created, unresolved), t) \<and>
    genInv t \<and> linkKept s t \<and> courseSlots t = courseSlots s @ new \<and> created = length new \<and>
    (\<forall>q. int (needLessons t q new) \<le> (\<Sum>jb \<leftarrow> filter (\<lambda>jb. rq_id (jb_need jb) = q)
       (sort_by (job_before collate) (loadJobs sc dto s)). max 0 (sessionsMissing (generationGrid s sc) jb))) \<and>
    (unresolved = [] \<longrightarrow> (\<forall>jb \<in> set (loadJobs sc dto s).
       sessionsMissing (generationGrid s sc) jb \<le> int (needLessons t (rq_id (jb_need jb)) new)))"
proof -
  let ?jobs = "sort_by (job_before collate) (loadJobs sc dto s)"
  let ?rs = "sort_by (\<lambda>a b. rm_name a \<le> rm_name b) (filter (\<lambda>r. rm_schoolId r = sc \<and> rm_isActive r \<and>
      (truthy (yd_roomId dto) \<longrightarrow> yd_roomId dto = Some (rm_id r))) (rooms s))"
  let ?st = "\<lparr>gs_created = 0, gs_unresolved = [], gs_usedTeachers = {}, gs_usedRooms = {}\<rparr>"
  have jobs: "\<forall>jb \<in> set ?jobs. jobOk s jb" using jobOk_loaded [OF inv] by simp
  from planJobs_outcome [OF generation_keys(5) [OF inv] jobs generation_keys(6) [OF inv, of sc],
      where C = C and now = now and sc = sc and rs = ?rs and st = ?st]
  obtain st t new items where run: "foldE (planJob C now sc (generationGrid s sc) ?rs) ?st ?jobs s = (Inr st, t)"
    and facts: "genInv t" "linkKept s t" "courseSlots t = courseSlots s @ new" "gs_created st = length new"
      "\<forall>q. int (needLessons t q new) \<le> (\<Sum>jb \<leftarrow> filter (\<lambda>jb. rq_id (jb_need jb) = q) ?jobs.
         max 0 (sessionsMissing (generationGrid s sc) jb))"
      "gs_unresolved st = items" "items = [] \<longrightarrow> (\<forall>jb \<in> set (loadJobs sc dto s).
         sessionsMissing (generationGrid s sc) jb \<le> int (needLessons t (rq_id (jb_need jb)) new))"
    by auto
  have "generateSchedule C collate now sc dto s = (Inr (gs_created st, gs_unresolved st), t)"
    using run by (simp add: generateSchedule_def generationGrid_def exec_simps)
  with facts show ?thesis by blast
qed

lemma needLessons_kept:
  assumes "generationInv s" "linkKept s t"
  shows "needLessons t q (courseSlots s) = needLessons s q (courseSlots s)"
  unfolding needLessons_def
proof (rule count_rows_cong)
  fix e assume "e \<in> set (courseSlots s)"
  then have "s_courseId e \<in> c_id ` set (courses s)" using generation_keys(4) [OF assms(1)] by blast
  with assms(2) have "needOf t (s_courseId e) = needOf s (s_courseId e)" unfolding linkKept_def by blast
  then show "needOf t (s_courseId e) = Some q \<longleftrightarrow> needOf s (s_courseId e) = Some q" by simp
qed

lemma lesson_minutes:
  assumes "timetableInv s" "a \<in> set (courseSlots s)" "b \<in> set (courseSlots s)"
  shows "overlaps (startMin a) (endMin a) (startMin b) (endMin b) \<longleftrightarrow> textOverlap a b"
proof -
  have "orderedTimes a" "orderedTimes b" using assms by (auto simp: timetable_defs)
  then show ?thesis
    by (auto simp: orderedTimes_def startMin_def endMin_def time_order textOverlap_def overlaps_def)
qed

text \<open>
  C15. Generation never creates a conflict: from a consistent school, after generating, two
  different lessons of the same day that have the same class, or the same teacher, or are in
  the same room of the same school, never overlap in minutes.
\<close>

theorem generation_conflict_free:
  assumes "generationInv s" "generateSchedule C collate now sc dto s = (r, t)"
    "a \<in> set (courseSlots t)" "b \<in> set (courseSlots t)" "s_id a \<noteq> s_id b" "s_dayOfWeek a = s_dayOfWeek b"
    "s_teacherId a = s_teacherId b \<or> (slotSchool t a = slotSchool t b \<and> s_room a = s_room b) \<or>
     (courseClass t (s_courseId a) = Some k \<and> courseClass t (s_courseId b) = Some k)"
  shows "\<not> overlaps (startMin a) (endMin a) (startMin b) (endMin b)"
proof -
  have inv: "timetableInv t" "classesApart t"
    using generate_outcome [OF assms(1), of C collate now sc dto] assms(2) by (auto simp: genInv_def)
  consider "s_teacherId a = s_teacherId b \<or> slotSchool t a = slotSchool t b \<and> s_room a = s_room b"
    | "courseClass t (s_courseId a) = Some k" "courseClass t (s_courseId b) = Some k" using assms(7) by blast
  then show ?thesis
  proof cases
    case 1
    with lessons_apart [OF inv(1) assms(3-5) _ assms(6)] show ?thesis by simp
  next
    case 2
    with inv(2) assms(3-6) have "\<not> textOverlap a b" by (simp add: classesApart_def)
    with lesson_minutes [OF inv(1) assms(3,4)] show ?thesis by simp
  qed
qed

text \<open>
  Generation always answers, without an error; the number it reports is the number of
  lessons it added; it changes no planned lesson; and a need never gets more lessons than its
  weekly hours ask for (or than it already had).
\<close>

theorem generation_counts:
  assumes "generationInv s"
  shows "\<exists>unresolved t new.
    generateSchedule C collate now sc dto s = (Inr (length new, unresolved), t) \<and>
    courseSlots t = courseSlots s @ new \<and>
    (\<forall>q \<in> set (requirements s). int (needLessons t (rq_id q) (courseSlots t)) \<le>
       max (int (needLessons s (rq_id q) (courseSlots s)))
         (sessionsNeededFor (rq_hoursPerWeek q) (typicalDuration (generationGrid s sc))))"
proof -
  let ?jobs = "sort_by (job_before collate) (loadJobs sc dto s)"
  obtain unresolved t new where run: "generateSchedule C collate now sc dto s = (Inr (length new, unresolved), t)"
    and t: "linkKept s t" "courseSlots t = courseSlots s @ new"
    and le: "\<forall>q. int (needLessons t q new) \<le> (\<Sum>jb \<leftarrow> filter (\<lambda>jb. rq_id (jb_need jb) = q) ?jobs.
         max 0 (sessionsMissing (generationGrid s sc) jb))"
    using generate_outcome [OF assms, of C collate now sc dto] by blast
  have "int (needLessons t (rq_id q) (courseSlots t)) \<le> max (int (needLessons s (rq_id q) (courseSlots s)))
      (sessionsNeededFor (rq_hoursPerWeek q) (typicalDuration (generationGrid s sc)))"
    if q: "q \<in> set (requirements s)" for q
  proof (cases "\<exists>jb \<in> set ?jobs. rq_id (jb_need jb) = rq_id q")
    case True
    then obtain jb where jb: "jb \<in> set ?jobs" "rq_id (jb_need jb) = rq_id q" by blast
    then obtain c q' where j: "q' \<in> set (requirements s)" "jb = loadJob s c q'" by (auto simp: in_loadJobs)
    have "q' = q" using distinct_key_eq [OF generation_keys(1) [OF assms] j(1) q] jb(2) j(2) by simp
    with j have "sessionsMissing (generationGrid s sc) jb =
        sessionsNeededFor (rq_hoursPerWeek q) (typicalDuration (generationGrid s sc)) -
        int (needLessons s (rq_id q) (courseSlots s))"
      by (simp add: sessionsMissing_def existing_loaded [OF assms])
    moreover have "filter (\<lambda>jb. rq_id (jb_need jb) = rq_id q) ?jobs = [jb]"
      using filter_own [OF jobs_distinct [OF assms] jb(1)] jb(2) by simp
    ultimately show ?thesis
      using le [rule_format, of "rq_id q"] t(2) needLessons_kept [OF assms t(1)] by simp
  next
    case False
    then have "filter (\<lambda>jb. rq_id (jb_need jb) = rq_id q) ?jobs = []" by (simp add: filter_empty_conv)
    then show ?thesis
      using le [rule_format, of "rq_id q"] t(2) needLessons_kept [OF assms t(1)] by simp
  qed
  with run t(2) show ?thesis by blast
qed

text \<open>
  Nothing is lost silently: when generation reports no unresolved need, every need it was
  asked to plan has at least the lessons its weekly hours ask for.
\<close>

theorem generation_complete:
  assumes "generationInv s" "generateSchedule C collate now sc dto s = (Inr (created, []), t)"
    "c \<in> set (classes s)" "cl_schoolId c = sc" "cl_academicYearId c = yd_academicYearId dto" "yd_classId dto = None"
    "q \<in> set (requirements s)" "rq_classId q = cl_id c" "needSelected s dto q"
  shows "sessionsNeededFor (rq_hoursPerWeek q) (typicalDuration (generationGrid s sc))
    \<le> int (needLessons t (rq_id q) (courseSlots t))"
proof -
  have jb: "loadJob s c q \<in> set (loadJobs sc dto s)"
    using assms(3-9) by (auto simp: in_loadJobs truthy_def)
  obtain new where t: "linkKept s t" "courseSlots t = courseSlots s @ new"
    and le: "\<forall>jb \<in> set (loadJobs sc dto s).
      sessionsMissing (generationGrid s sc) jb \<le> int (needLessons t (rq_id (jb_need jb)) new)"
    using generate_outcome [OF assms(1), of C collate now sc dto] assms(2) by auto
  from bspec [OF le jb] t(2) needLessons_kept [OF assms(1) t(1)] show ?thesis
    by (simp add: sessionsMissing_def existing_loaded [OF assms(1)])
qed

section \<open>Examples\<close>

definition sample_grid_slot :: "id \<Rightarrow> string \<Rightarrow> string \<Rightarrow> time_slot_row" where
  "sample_grid_slot i b e =
     \<lparr>sl_id = i, sl_schoolId = ''sc1'', sl_dayOfWeek = 1, sl_startTime = b, sl_endTime = e,
      sl_label = None, sl_isActive = True\<rparr>"

definition sample_need :: requirement_row where
  "sample_need =
     \<lparr>rq_id = ''q1'', rq_schoolId = ''sc1'', rq_academicYearId = ''y1'', rq_classId = ''k1'',
      rq_subjectId = ''j1'', rq_hoursPerWeek = 4\<rparr>"

definition sample_class :: class_row where
  "sample_class =
     \<lparr>cl_id = ''k1'', cl_schoolId = ''sc1'', cl_academicYearId = ''y1'', cl_programId = Some ''p1'',
      cl_name = ''L1'', cl_level = None, cl_studentCount = None, cl_isActive = True\<rparr>"

definition sample_planned :: db where
  "sample_planned =
     sample_school\<lparr>
       timeSlots := [sample_grid_slot ''g1'' ''08:00'' ''10:00'', sample_grid_slot ''g2'' ''10:00'' ''12:00''],
       programs := [\<lparr>pr_id = ''p1'', pr_schoolId = ''sc1'', pr_name = ''Maths'', pr_durationYears = 3,
                     pr_isActive = True, pr_diploma = ''Licence''\<rparr>],
       classes := [sample_class], requirements := [sample_need],
       courses := [(sample_math ''c1'' ''t1'')\<lparr>c_subjectRequirementId := Some ''q1''\<rparr>],
       courseSlots := [sample_lesson ''e1'' ''c1'' ''t1'' ''08:00'' ''10:00'']\<rparr>"

definition sample_generation :: generate_dto where
  "sample_generation =
     \<lparr>yd_academicYearId = ''y1'', yd_classId = None, yd_subjectId = None, yd_teacherId = None, yd_roomId = None\<rparr>"

definition sample_new_lesson :: course_slot_row where
  "sample_new_lesson =
     \<lparr>s_id = ''id-'', s_courseId = ''c1'', s_teacherId = ''t1'', s_dayOfWeek = 1,
      s_startTime = ''10:00'', s_endTime = ''12:00'', s_room = ''A1''\<rparr>"

lemmas sample_planned_defs =
  sample_planned_def sample_grid_slot_def sample_need_def sample_class_def sample_school_def
  sample_timetable_defs

lemma sample_planned_inv: "generationInv sample_planned"
  by (simp add: generationInv_def genInv_def timetable_defs orderedTimes_def classesApart_def
      teachersHaveUsers_def schedulingInv_def gridInv_def namesInv_def refs_defs gridTimes_def trim_def
      isSpace_def sample_planned_defs slotClash_def doubleBooked_def gridOverlap_def classClash_def
      startMin_def endMin_def sameRoom_def digitBetween_def courseClash_def)

definition sample_job :: job where
  "sample_job =
     \<lparr>jb_need = sample_need, jb_class = sample_class, jb_hasProgram = True, jb_subjectName = ''Maths'',
      jb_teacher = Some (''t1'', None), jb_course = Some (''c1'', 1)\<rparr>"

lemma sample_jobs: "loadJobs ''sc1'' sample_generation sample_planned = [sample_job]"
  by (simp add: loadJobs_def loadJob_def needSelected_def sample_generation_def sample_job_def
      sample_planned_defs truthy_def)

lemma sample_duration:
  "typicalDuration [sample_grid_slot ''g1'' ''08:00'' ''10:00'', sample_grid_slot ''g2'' ''10:00'' ''12:00''] = 120"
  "sessionsNeededFor 4 120 = 2"
  by (simp_all add: typicalDuration_def sessionsNeededFor_def roundHalfUp_def sample_grid_slot_def floor_eq_iff)

lemma sample_slot_busy:
  "isClassBusy ''k1'' (sample_grid_slot ''g1'' ''08:00'' ''10:00'') sample_planned = (Inr True, sample_planned)"
  "isClassBusy ''k1'' (sample_grid_slot ''g2'' ''10:00'' ''12:00'') sample_planned = (Inr False, sample_planned)"
  by (simp_all add: isClassBusy_run classFree_def courseClass_def needOf_def sample_planned_defs)

lemma sample_placed:
  "createCourseSlot sample_mail 0 ''sc1'' ''c1''
     \<lparr>sd_dayOfWeek = 1, sd_startTime = ''10:00'', sd_endTime = ''12:00'', sd_room = ''A1''\<rparr> sample_planned =
   (Inr sample_new_lesson, sample_planned\<lparr>courseSlots := courseSlots sample_planned @ [sample_new_lesson], seqNo := 1\<rparr>)"
  by (simp add: createCourseSlot_def ensureSchoolCourse_def assertSlotTimes_def ensureNoRoomConflict_def
      assertTeacherFreeOrThrow_def isTeacherFree_def insertLesson_def notifyTeacherScheduleChange_def
      translated_def writeSlots_run exec_simps sample_planned_defs slotTime_def rangesOverlap_def
      slotSchool_def truthy_def overlaps_def startMin_def endMin_def slotClash_def doubleBooked_def
      sample_mail_def sample_uuid_def sample_new_lesson_def)

lemma sample_job_simps:
  "jb_need sample_job = sample_need" "jb_class sample_job = sample_class" "jb_hasProgram sample_job"
  "jb_teacher sample_job = Some (''t1'', None)" "jb_course sample_job = Some (''c1'', 1)"
  "existingSessions sample_job = 1" "rq_hoursPerWeek sample_need = 4" "cl_id sample_class = ''k1''"
  "truthy (cl_programId sample_class)"
  by (simp_all add: sample_job_def sample_need_def sample_class_def existingSessions_def truthy_def)

definition sample_room :: room_row where
  "sample_room = \<lparr>rm_id = ''rm1'', rm_schoolId = ''sc1'', rm_name = ''A1'', rm_capacity = None,
     rm_type = ''STANDARD'', rm_isActive = True\<rparr>"

lemma sample_dto_grid:
  "gridDto (sample_grid_slot ''g2'' ''10:00'' ''12:00'') sample_room =
   \<lparr>sd_dayOfWeek = 1, sd_startTime = ''10:00'', sd_endTime = ''12:00'', sd_room = ''A1''\<rparr>"
  by (simp add: gridDto_def sample_grid_slot_def sample_room_def)

lemma sample_slots_placed:
  "\<exists>ut ur. foldE (placeSlot sample_mail 0 ''sc1'' ''c1'' ''t1'' ''k1'' [sample_room] 1) (0, {}, {})
     [sample_grid_slot ''g1'' ''08:00'' ''10:00'', sample_grid_slot ''g2'' ''10:00'' ''12:00''] sample_planned =
   (Inr (1, ut, ur), sample_planned\<lparr>courseSlots := courseSlots sample_planned @ [sample_new_lesson], seqNo := 1\<rparr>)"
  by (simp add: placeSlot_def exec_simps sample_slot_busy sample_dto_grid sample_placed)

lemma sample_generated:
  "generateSchedule sample_mail (\<lambda>a b. 0) 0 ''sc1'' sample_generation sample_planned =
     (Inr (1, []), sample_planned\<lparr>courseSlots := courseSlots sample_planned @ [sample_new_lesson], seqNo := 1\<rparr>)"
proof -
  let ?grid = "[sample_grid_slot ''g1'' ''08:00'' ''10:00'', sample_grid_slot ''g2'' ''10:00'' ''12:00'']"
  let ?t = "sample_planned\<lparr>courseSlots := courseSlots sample_planned @ [sample_new_lesson], seqNo := 1\<rparr>"
  let ?st = "\<lparr>gs_created = 0, gs_unresolved = [], gs_usedTeachers = {}, gs_usedRooms = {}\<rparr>"
  have grid: "filter (\<lambda>t. sl_schoolId t = ''sc1'' \<and> sl_isActive t) (timeSlots sample_planned) = ?grid"
    by (simp add: sample_planned_defs)
  have sorted: "grid_before (sample_grid_slot ''g1'' ''08:00'' ''10:00'') (sample_grid_slot ''g2'' ''10:00'' ''12:00'')"
    by (simp add: grid_before_def sample_grid_slot_def)
  have rs: "filter (\<lambda>r. rm_schoolId r = ''sc1'' \<and> rm_isActive r \<and> (truthy (yd_roomId sample_generation) \<longrightarrow>
       yd_roomId sample_generation = Some (rm_id r))) (rooms sample_planned) = [sample_room]"
    by (simp add: sample_planned_def sample_school_def sample_generation_def truthy_def sample_room_def)
  have course: "jobCourse sample_mail ''sc1'' sample_job ''t1'' sample_planned = (Inr (Inr ''c1''), sample_planned)"
    by (simp add: jobCourse_def sample_job_simps truthy_def exec_simps)
  have place: "\<exists>st. placeLessons sample_mail 0 ''sc1'' ?grid [sample_room] sample_job ''c1'' ''t1'' 1 ?st sample_planned =
      (Inr (1, st), ?t) \<and> gs_created st = 1 \<and> gs_unresolved st = []"
    using sample_slots_placed by (auto simp: placeLessons_def bindE_run [where m = "foldE _ _ _"]
        sample_job_simps ret_run simp del: foldE.simps)
  then obtain st where st: "placeLessons sample_mail 0 ''sc1'' ?grid [sample_room] sample_job ''c1'' ''t1'' 1 ?st sample_planned =
      (Inr (1, st), ?t)" "gs_created st = 1" "gs_unresolved st = []" by blast
  have "planJob sample_mail 0 ''sc1'' ?grid [sample_room] ?st sample_job sample_planned = (Inr st, ?t)"
    by (simp add: planJob_def sample_job_simps sample_duration bindE_run [where m = "jobCourse _ _ _ _"]
        bindE_run [where m = "placeLessons _ _ _ _ _ _ _ _ _ _"] course st ret_run)
  with st(2,3) show ?thesis
    by (simp add: generateSchedule_def exec_simps grid sorted rs sample_jobs)
qed

theorem generation_conflict_free_witness:
  "\<not> overlaps (startMin (sample_lesson ''e1'' ''c1'' ''t1'' ''08:00'' ''10:00''))
       (endMin (sample_lesson ''e1'' ''c1'' ''t1'' ''08:00'' ''10:00''))
       (startMin sample_new_lesson) (endMin sample_new_lesson)"
  by (rule generation_conflict_free [OF sample_planned_inv sample_generated])
    (simp_all add: sample_planned_def sample_lesson_def sample_new_lesson_def)

theorem generation_counts_witness:
  "\<exists>unresolved t new.
     generateSchedule sample_mail (\<lambda>a b. 0) 0 ''sc1'' sample_generation sample_planned =
       (Inr (length new, unresolved), t) \<and> courseSlots t = courseSlots sample_planned @ new"
  using generation_counts [OF sample_planned_inv, of sample_mail "\<lambda>a b. 0" 0 "''sc1''" sample_generation]
  by blast

theorem generation_complete_witness:
  "2 \<le> needLessons (sample_planned\<lparr>courseSlots := courseSlots sample_planned @ [sample_new_lesson], seqNo := 1\<rparr>)
     ''q1'' (courseSlots sample_planned @ [sample_new_lesson])"
proof -
  have grid: "generationGrid sample_planned ''sc1'' =
      [sample_grid_slot ''g1'' ''08:00'' ''10:00'', sample_grid_slot ''g2'' ''10:00'' ''12:00'']"
    by (simp add: generationGrid_def sample_planned_defs grid_before_def)
  from generation_complete [OF sample_planned_inv sample_generated, of sample_class sample_need] show ?thesis
    by (simp add: grid sample_duration sample_job_simps)
      (simp add: sample_planned_def sample_class_def sample_need_def sample_generation_def needSelected_def truthy_def)
qed

end
