(* ===== verification/Announcements.thy ===== *)
theory Announcements
  imports Enrollment Text
begin

text \<open>
  Announcements: \<open>announcement/announcement.service.ts\<close>, the only place that creates one and
  notifies its recipients, and the operations of \<open>school/school.service.ts\<close> on announcements:
  targeted announcements of a school, broadcasts to the students of every school with their
  history, the lists of announcements and the photo. The main facts: an announcement and all
  its notifications are written together or not at all, each recipient once; a school only
  reaches its own people; a broadcast reappears as one entry of the history. The users behind
  the recipients are checked by a foreign key; those behind a school are assumed.
\<close>

section \<open>Creating and notifying\<close>

record announcement_input =
  ai_schoolId :: id
  ai_authorId :: id
  ai_title :: string
  ai_body :: string
  ai_targetType :: string
  ai_targetClasses :: "string list"
  ai_courseId :: "id option"

text \<open>\<open>rows\<close>: every recipient with the identifier drawn for its notification.\<close>

primrec drawRows :: "(nat \<Rightarrow> id) \<Rightarrow> id list \<Rightarrow> (db, (id \<times> id) list) exec" where
  "drawRows uuid [] = ret []"
| "drawRows uuid (u # us) =
     bindE (newId uuid) (\<lambda>i. bindE (drawRows uuid us) (\<lambda>rows. ret ((u, i) # rows)))"

definition recipientClash :: "announcement_recipient_row \<Rightarrow> announcement_recipient_row \<Rightarrow> bool" where
  "recipientClash a b \<longleftrightarrow>
     (ar_announcementId a = ar_announcementId b \<and> ar_userId a = ar_userId b) \<or>
     ar_notificationId a = ar_notificationId b"

definition announcementOf :: "announcement_input \<Rightarrow> id \<Rightarrow> time \<Rightarrow> announcement_row" where
  "announcementOf input i now =
     \<lparr>an_id = i, an_schoolId = ai_schoolId input, an_authorId = ai_authorId input,
      an_title = trim (ai_title input), an_body = trim (ai_body input),
      an_targetType = ai_targetType input, an_imageUrl = None, an_courseId = ai_courseId input,
      an_targetClasses = ai_targetClasses input, an_createdAt = now\<rparr>"

definition noticeOf :: "announcement_row \<Rightarrow> time \<Rightarrow> id \<times> id \<Rightarrow> notification_row" where
  "noticeOf a now row =
     \<lparr>n_id = snd row, n_userId = fst row, n_type = ''IN_APP'', n_title = an_title a, n_body = an_body a,
      n_isRead = False, n_sentAt = Some now, n_status = ''SENT'', n_failureReason = None,
      n_createdAt = now\<rparr>"

definition recipientOf :: "id \<Rightarrow> id \<times> id \<Rightarrow> announcement_recipient_row" where
  "recipientOf i row = \<lparr>ar_announcementId = i, ar_userId = fst row, ar_notificationId = snd row\<rparr>"

text \<open>The writes for the recipients, one \<open>createMany\<close> for each of the two tables.\<close>

definition notifyAll :: "(nat \<Rightarrow> id) \<Rightarrow> time \<Rightarrow> announcement_row \<Rightarrow> id list \<Rightarrow> (db, unit) exec" where
  "notifyAll uuid now announcement uniqueUserIds =
     bindE (drawRows uuid uniqueUserIds) (\<lambda>rows.
     bindE (asks (\<lambda>s. list_all (\<lambda>row. fst row \<in> u_id ` set (users s)) rows)) (\<lambda>known.
     thenE (require known (Failure ''P2003''))
     (thenE (insertMany notifications notifications_update (\<lambda>a b. n_id a = n_id b)
               (map (noticeOf announcement now) rows))
     (insertMany announcementRecipients announcementRecipients_update recipientClash
        (map (recipientOf (an_id announcement)) rows)))))"

definition createAndNotify ::
  "(nat \<Rightarrow> id) \<Rightarrow> time \<Rightarrow> announcement_input \<Rightarrow> id list \<Rightarrow> (db, id \<times> nat) exec" where
  "createAndNotify uuid now input recipientUserIds =
     (let uniqueUserIds = uniq recipientUserIds in
      transact
        (bindE (newId uuid) (\<lambda>i.
         bindE (insertRow announcements announcements_update (\<lambda>a b. an_id a = an_id b)
                  (announcementOf input i now)) (\<lambda>announcement.
         thenE (whenE (uniqueUserIds \<noteq> []) (notifyAll uuid now announcement uniqueUserIds))
         (ret (an_id announcement, length uniqueUserIds))))))"

section \<open>Targets\<close>

record create_announcement_dto =
  ca_title :: string
  ca_body :: string
  ca_targetType :: string
  ca_classes :: "string list option"
  ca_studentIds :: "id list option"
  ca_teacherIds :: "id list option"

definition activeIn :: "db \<Rightarrow> id \<Rightarrow> (enrollment_row \<Rightarrow> bool) \<Rightarrow> student_row \<Rightarrow> bool" where
  "activeIn s schoolId P x \<longleftrightarrow>
     (\<exists>e \<in> set (enrollments s). e_studentId e = st_id x \<and> e_schoolId e = schoolId \<and>
        e_status e = ACTIVE \<and> P e)"

definition teacherUsers :: "id \<Rightarrow> (teacher_school_row \<Rightarrow> bool) \<Rightarrow> (db, id list) exec" where
  "teacherUsers schoolId P =
     bindE (findMany teacherSchools (\<lambda>a. ts_schoolId a = schoolId \<and> ts_isActive a \<and> P a)) (\<lambda>assigned.
     asks (\<lambda>s. List.map_filter
                 (\<lambda>a. map_option th_userId (find (\<lambda>t. th_id t = ts_teacherId a) (teachers s))) assigned))"

definition studentUsers ::
  "id \<Rightarrow> (enrollment_row \<Rightarrow> bool) \<Rightarrow> (student_row \<Rightarrow> bool) \<Rightarrow> (db, id list) exec" where
  "studentUsers schoolId P Q =
     asks (\<lambda>s. map st_userId
                 (filter (\<lambda>x. st_deletedAt x = None \<and> activeIn s schoolId P x \<and> Q x) (students s)))"

definition targetUsers :: "id \<Rightarrow> create_announcement_dto \<Rightarrow> string list \<Rightarrow> (db, id list) exec" where
  "targetUsers schoolId dto classNames =
     (if ca_targetType dto = ''TEACHERS'' then
        teacherUsers schoolId (\<lambda>a. ts_teacherId a \<in> set (nullish (ca_teacherIds dto) []))
      else if ca_targetType dto = ''EVERYONE'' then
        bindE (teacherUsers schoolId (\<lambda>_. True)) (\<lambda>staff.
        bindE (studentUsers schoolId (\<lambda>_. True) (\<lambda>_. True)) (\<lambda>pupils.
        ret (staff @ pupils)))
      else
        studentUsers schoolId
          (\<lambda>e. ca_targetType dto = ''CLASSES'' \<longrightarrow> e_enrolledYear e \<in> set classNames)
          (\<lambda>x. ca_targetType dto = ''STUDENTS'' \<longrightarrow> st_id x \<in> set (nullish (ca_studentIds dto) [])))"

definition createAnnouncement ::
  "(nat \<Rightarrow> id) \<Rightarrow> time \<Rightarrow> id \<Rightarrow> id \<Rightarrow> create_announcement_dto \<Rightarrow> (db, id \<times> nat) exec" where
  "createAnnouncement uuid now schoolId senderId dto =
     (let classNames = filter (\<lambda>c. c \<noteq> []) (nullish (ca_classes dto) []);
          studentIds = nullish (ca_studentIds dto) [];
          teacherIds = nullish (ca_teacherIds dto) [] in
      thenE (require (\<not> (ca_targetType dto = ''CLASSES'' \<and> classNames = []))
               (BadRequest ''Au moins une classe doit etre selectionnee''))
      (thenE (require (\<not> (ca_targetType dto = ''STUDENTS'' \<and> studentIds = []))
               (BadRequest ''Au moins un etudiant doit etre selectionne''))
      (thenE (require (\<not> (ca_targetType dto = ''TEACHERS'' \<and> teacherIds = []))
               (BadRequest ''Au moins un professeur doit etre selectionne''))
      (bindE (targetUsers schoolId dto classNames) (\<lambda>userIds.
       createAndNotify uuid now
         \<lparr>ai_schoolId = schoolId, ai_authorId = senderId, ai_title = ca_title dto, ai_body = ca_body dto,
          ai_targetType = ca_targetType dto,
          ai_targetClasses = (if ca_targetType dto = ''CLASSES'' then classNames else []),
          ai_courseId = None\<rparr> userIds)))))"

section \<open>Broadcasts\<close>

text \<open>The schools are served one after the other; \<open>clock k\<close> is the time at the \<open>k\<close>-th of them.\<close>

definition broadcastTo ::
  "(nat \<Rightarrow> id) \<Rightarrow> id \<Rightarrow> string \<Rightarrow> string \<Rightarrow> time \<Rightarrow> id \<Rightarrow> (db, nat) exec" where
  "broadcastTo uuid adminUserId title body now schoolId =
     bindE (studentUsers schoolId (\<lambda>_. True) (\<lambda>_. True)) (\<lambda>userIds.
     bindE (createAndNotify uuid now
              \<lparr>ai_schoolId = schoolId, ai_authorId = adminUserId, ai_title = title, ai_body = body,
               ai_targetType = ''ALL_STUDENTS'', ai_targetClasses = [], ai_courseId = None\<rparr> userIds)
       (\<lambda>result. ret (snd result)))"

definition broadcastStep ::
  "(nat \<Rightarrow> id) \<Rightarrow> (nat \<Rightarrow> time) \<Rightarrow> id \<Rightarrow> string \<Rightarrow> string \<Rightarrow> nat \<Rightarrow> nat \<times> school_row \<Rightarrow> (db, nat) exec" where
  "broadcastStep uuid clock adminUserId title body recipientCount school =
     bindE (broadcastTo uuid adminUserId title body (clock (fst school)) (sc_id (snd school))) (\<lambda>n.
     ret (recipientCount + n))"

definition broadcastAnnouncement ::
  "(nat \<Rightarrow> id) \<Rightarrow> (nat \<Rightarrow> time) \<Rightarrow> id \<Rightarrow> string \<Rightarrow> string \<Rightarrow> (db, nat \<times> nat) exec" where
  "broadcastAnnouncement uuid clock adminUserId title body =
     bindE (findMany schools (\<lambda>c. sc_deletedAt c = None \<and> sc_isActive c)) (\<lambda>reached.
     bindE (foldE (broadcastStep uuid clock adminUserId title body) 0 (enumerate 0 reached)) (\<lambda>recipientCount.
     ret (length reached, recipientCount)))"

record broadcast_entry =
  bc_title :: string
  bc_body :: string
  bc_createdAt :: time
  bc_schoolIds :: "id list"

definition broadcastKey :: "announcement_row \<Rightarrow> string" where
  "broadcastKey a = an_title a @ '' '' @ an_body a @ '' '' @ show_int (an_createdAt a div 60000)"

definition addToGroup ::
  "(string \<times> broadcast_entry) list \<Rightarrow> announcement_row \<Rightarrow> (string \<times> broadcast_entry) list" where
  "addToGroup groups item =
     (let key = broadcastKey item in
      if key \<in> fst ` set groups then
        map (\<lambda>(k, g). (k, if k = key then g\<lparr>bc_schoolIds := List.insert (an_schoolId item) (bc_schoolIds g)\<rparr>
                            else g)) groups
      else groups @ [(key, \<lparr>bc_title = an_title item, bc_body = an_body item,
                            bc_createdAt = an_createdAt item, bc_schoolIds = [an_schoolId item]\<rparr>)])"

record broadcast_view =
  bv_title :: string
  bv_body :: string
  bv_createdAt :: time
  bv_schoolsReached :: nat

definition broadcastView :: "broadcast_entry \<Rightarrow> broadcast_view" where
  "broadcastView g =
     \<lparr>bv_title = bc_title g, bv_body = bc_body g, bv_createdAt = bc_createdAt g,
      bv_schoolsReached = length (bc_schoolIds g)\<rparr>"

definition getBroadcastHistory :: "id \<Rightarrow> (db, broadcast_view list) exec" where
  "getBroadcastHistory adminUserId =
     bindE (findMany announcements
              (\<lambda>a. an_authorId a = adminUserId \<and> an_targetType a = ''ALL_STUDENTS'')) (\<lambda>rows.
     ret (map (broadcastView \<circ> snd)
            (take 20 (foldl addToGroup [] (take 300 (orderDesc an_createdAt rows))))))"

section \<open>Lists\<close>

definition recipientsOf :: "db \<Rightarrow> id \<Rightarrow> announcement_recipient_row list" where
  "recipientsOf s announcementId =
     filter (\<lambda>r. ar_announcementId r = announcementId) (announcementRecipients s)"

definition hasRead :: "db \<Rightarrow> announcement_recipient_row \<Rightarrow> bool" where
  "hasRead s r \<longleftrightarrow> (\<exists>n \<in> set (notifications s). n_id n = ar_notificationId r \<and> n_isRead n)"

record announcement_view =
  aw_announcement :: announcement_row
  aw_recipientCount :: nat
  aw_readCount :: nat

definition announcementView :: "db \<Rightarrow> announcement_row \<Rightarrow> announcement_view" where
  "announcementView s a =
     \<lparr>aw_announcement = a, aw_recipientCount = length (recipientsOf s (an_id a)),
      aw_readCount = length (filter (hasRead s) (recipientsOf s (an_id a)))\<rparr>"

definition getAnnouncements :: "id \<Rightarrow> int option \<Rightarrow> int option \<Rightarrow> (db, announcement_view page) exec" where
  "getAnnouncements schoolId page limit =
     bindE (findMany announcements (\<lambda>a. an_schoolId a = schoolId)) (\<lambda>rows.
     bindE (asks (\<lambda>s. map (announcementView s) (orderDesc an_createdAt rows))) (\<lambda>views.
     paginate (clampPage page) (clampLimit 20 limit) views))"

definition setAnnouncementPhoto :: "id \<Rightarrow> id \<Rightarrow> string \<Rightarrow> (db, string) exec" where
  "setAnnouncementPhoto schoolId announcementId imageUrl =
     bindE (updateMany announcements announcements_update
              (\<lambda>a. an_id a = announcementId \<and> an_schoolId a = schoolId)
              (\<lambda>a. a\<lparr>an_imageUrl := Some imageUrl\<rparr>)) (\<lambda>n.
     thenE (require (n \<noteq> 0) (NotFound ''Annonce introuvable pour cette ecole''))
     (ret imageUrl))"

record received_announcement =
  rv_announcement :: announcement_row
  rv_notificationId :: id
  rv_isRead :: bool

text \<open>The joins of a recipient with its announcement and its notification, both there by foreign keys.\<close>

definition receivedBy :: "db \<Rightarrow> announcement_recipient_row \<Rightarrow> (time \<times> received_announcement) option" where
  "receivedBy s r =
     (case (find (\<lambda>a. an_id a = ar_announcementId r) (announcements s),
            find (\<lambda>n. n_id n = ar_notificationId r) (notifications s)) of
        (Some a, Some n) \<Rightarrow>
          Some (n_createdAt n, \<lparr>rv_announcement = a, rv_notificationId = n_id n, rv_isRead = n_isRead n\<rparr>)
      | _ \<Rightarrow> None)"

definition getMyAnnouncements :: "id \<Rightarrow> int option \<Rightarrow> int option \<Rightarrow> (db, received_announcement page) exec" where
  "getMyAnnouncements userId page limit =
     bindE (findMany announcementRecipients (\<lambda>r. ar_userId r = userId)) (\<lambda>rows.
     bindE (asks (\<lambda>s. map snd (orderDesc fst (List.map_filter (receivedBy s) rows)))) (\<lambda>views.
     paginate (clampPage page) (clampLimit 20 limit) views))"

section \<open>All or nothing\<close>

lemma drawRows_run [exec_simps]:
  "drawRows uuid us s =
     (Inr (zip us (map uuid [seqNo s ..< seqNo s + length us])), s\<lparr>seqNo := seqNo s + length us\<rparr>)"
proof (induction us arbitrary: s)
  case Nil
  then show ?case by (simp add: exec_simps)
next
  case (Cons u us)
  have "[seqNo s ..< seqNo s + length (u # us)] =
      seqNo s # [Suc (seqNo s) ..< Suc (seqNo s) + length us]"
    by (simp add: upt_conv_Cons del: upt_Suc)
  then show ?case by (simp add: bindE_run newId_run Cons.IH ret_run del: upt_Suc)
qed

lemma length_uniq: "length (uniq xs) = card (set xs)"
  by (metis distinct_card distinct_uniq set_uniq)

lemma notifyAll_step:
  assumes "notifyAll uuid now a us s = (Inr x, t)"
  shows "\<exists>ids. length ids = length us \<and>
    t = s\<lparr>seqNo := seqNo s + length us, notifications := notifications s @ map (noticeOf a now) (zip us ids),
          announcementRecipients := announcementRecipients s @ map (recipientOf (an_id a)) (zip us ids)\<rparr>"
proof -
  define ids where "ids = map uuid [seqNo s ..< seqNo s + length us]"
  have len: "length ids = length us" by (simp add: ids_def)
  define rows where "rows = zip us ids"
  have "drawRows uuid us s = (Inr rows, s\<lparr>seqNo := seqNo s + length us\<rparr>)"
    by (simp add: drawRows_run rows_def ids_def)
  with assms have "t = s\<lparr>seqNo := seqNo s + length us, notifications := notifications s @ map (noticeOf a now) rows,
          announcementRecipients := announcementRecipients s @ map (recipientOf (an_id a)) rows\<rparr>"
    by (simp add: notifyAll_def bindE_run asks_run thenE_run require_run insertMany_run split: if_splits)
  with len show ?thesis unfolding rows_def by blast
qed

lemma notifyAll_none: "whenE (us \<noteq> []) (notifyAll uuid now a us) s = notifyAll uuid now a us s"
  by (simp add: whenE_run notifyAll_def exec_simps)

lemma createAndNotify_run:
  "createAndNotify uuid now input userIds s =
     (let i = uuid (seqNo s); a = announcementOf input i now in
      if \<exists>x \<in> set (announcements s). an_id x = i then (Inl (Failure ''P2002''), s)
      else (case notifyAll uuid now a (uniq userIds)
                   (s\<lparr>seqNo := Suc (seqNo s), announcements := announcements s @ [a]\<rparr>) of
              (Inl e, t) \<Rightarrow> (Inl e, s)
            | (Inr _, t) \<Rightarrow> (Inr (i, length (uniq userIds)), t)))"
proof -
  have i: "an_id (announcementOf input i now) = i" for i by (simp add: announcementOf_def)
  show ?thesis
    by (simp add: createAndNotify_def Let_def transact_run bindE_run newId_run insertRow_run i thenE_run
        notifyAll_none ret_run split: prod.split sum.split)
qed

lemma createAndNotify_step:
  assumes "createAndNotify uuid now input userIds s = (Inr (i, n), t)"
  shows "n = card (set userIds) \<and>
    (\<exists>ids. length ids = n \<and>
       t = s\<lparr>announcements := announcements s @ [announcementOf input i now],
             notifications := notifications s @
               map (noticeOf (announcementOf input i now) now) (zip (uniq userIds) ids),
             announcementRecipients := announcementRecipients s @
               map (recipientOf i) (zip (uniq userIds) ids),
             seqNo := seqNo s + Suc n\<rparr>)"
proof -
  define a where "a = announcementOf input i now"
  define s1 where "s1 = s\<lparr>seqNo := Suc (seqNo s), announcements := announcements s @ [a]\<rparr>"
  have a: "an_id a = i" by (simp add: a_def announcementOf_def)
  obtain r u where na: "notifyAll uuid now (announcementOf input (uuid (seqNo s)) now) (uniq userIds)
      (s\<lparr>seqNo := Suc (seqNo s),
         announcements := announcements s @ [announcementOf input (uuid (seqNo s)) now]\<rparr>) = (r, u)"
    by fastforce
  have "uuid (seqNo s) = i" "n = length (uniq userIds)" "r = Inr ()" "u = t"
    using assms unfolding createAndNotify_run Let_def na by (cases r; simp split: if_splits)+
  with na have n: "n = length (uniq userIds)" and run: "notifyAll uuid now a (uniq userIds) s1 = (Inr (), t)"
    by (simp_all add: a_def s1_def)
  from notifyAll_step [OF run] obtain ids where len: "length ids = length (uniq userIds)"
    and t: "t = s1\<lparr>seqNo := seqNo s1 + length (uniq userIds),
        notifications := notifications s1 @ map (noticeOf a now) (zip (uniq userIds) ids),
        announcementRecipients := announcementRecipients s1 @ map (recipientOf (an_id a)) (zip (uniq userIds) ids)\<rparr>"
    by blast
  have "t = s\<lparr>announcements := announcements s @ [a],
             notifications := notifications s @ map (noticeOf a now) (zip (uniq userIds) ids),
             announcementRecipients := announcementRecipients s @ map (recipientOf i) (zip (uniq userIds) ids),
             seqNo := seqNo s + Suc n\<rparr>"
    by (simp add: t s1_def a n)
  moreover have "length ids = n" using len n by simp
  moreover have "n = card (set userIds)" by (simp add: n length_uniq)
  ultimately show ?thesis unfolding a_def by blast
qed

text \<open>
  C21. An announcement and its notifications are written together or not at all: when the call
  fails, for whatever reason, nothing has changed; when it succeeds, one announcement is there,
  every distinct recipient has one unread notification with its text, and each notification is
  tied to the announcement; nothing else has changed.
\<close>

theorem announcement_all_or_nothing:
  "case createAndNotify uuid now input userIds s of
     (Inl e, t) \<Rightarrow> t = s
   | (Inr (i, n), t) \<Rightarrow>
       n = card (set userIds) \<and>
       (\<exists>ids. length ids = n \<and>
          t = s\<lparr>announcements := announcements s @ [announcementOf input i now],
                notifications := notifications s @
                  map (noticeOf (announcementOf input i now) now) (zip (uniq userIds) ids),
                announcementRecipients := announcementRecipients s @
                  map (recipientOf i) (zip (uniq userIds) ids),
                seqNo := seqNo s + Suc n\<rparr>)"
proof (cases "createAndNotify uuid now input userIds s")
  case (Pair r t)
  show ?thesis
  proof (cases r)
    case (Inl e)
    with Pair have "t = s"
      by (auto simp: createAndNotify_run Let_def split: if_splits prod.splits sum.splits)
    with Pair Inl show ?thesis by simp
  next
    case (Inr p)
    obtain i n where p: "p = (i, n)" by (cases p)
    with Pair Inr have run: "createAndNotify uuid now input userIds s = (Inr (i, n), t)" by simp
    show ?thesis unfolding run prod.case sum.case by (rule createAndNotify_step [OF run])
  qed
qed

section \<open>A school reaches its own people\<close>

definition pupilOf :: "db \<Rightarrow> id \<Rightarrow> (enrollment_row \<Rightarrow> bool) \<Rightarrow> id \<Rightarrow> bool" where
  "pupilOf s schoolId P u \<longleftrightarrow>
     (\<exists>x \<in> set (students s). st_userId x = u \<and> st_deletedAt x = None \<and> activeIn s schoolId P x)"

definition staffOf :: "db \<Rightarrow> id \<Rightarrow> id \<Rightarrow> bool" where
  "staffOf s schoolId u \<longleftrightarrow>
     (\<exists>a \<in> set (teacherSchools s). ts_schoolId a = schoolId \<and> ts_isActive a \<and>
        (\<exists>t \<in> set (teachers s). th_id t = ts_teacherId a \<and> th_userId t = u))"

lemma teacherUsers_run:
  "teacherUsers schoolId P s =
     (Inr (List.map_filter
             (\<lambda>a. map_option th_userId (find (\<lambda>t. th_id t = ts_teacherId a) (teachers s)))
             (filter (\<lambda>a. ts_schoolId a = schoolId \<and> ts_isActive a \<and> P a) (teacherSchools s))), s)"
  by (simp add: teacherUsers_def exec_simps)

lemma teacherUsers_staff:
  assumes "teacherUsers schoolId P s = (Inr us, t)" "u \<in> set us"
  shows "staffOf s schoolId u"
proof -
  obtain a y where "a \<in> set (teacherSchools s)" "ts_schoolId a = schoolId" "ts_isActive a"
    "find (\<lambda>t. th_id t = ts_teacherId a) (teachers s) = Some y" "u = th_userId y"
    using assms by (auto simp: teacherUsers_run List.map_filter_def)
  moreover from this(4) have "y \<in> set (teachers s)" "th_id y = ts_teacherId a" by (auto dest: find_Some_in)
  ultimately show ?thesis unfolding staffOf_def by blast
qed

lemma studentUsers_run:
  "studentUsers schoolId P Q s =
     (Inr (map st_userId
             (filter (\<lambda>x. st_deletedAt x = None \<and> activeIn s schoolId P x \<and> Q x) (students s))), s)"
  by (simp add: studentUsers_def exec_simps)

lemma activeIn_weaken: "activeIn s schoolId P x \<Longrightarrow> activeIn s schoolId (\<lambda>_. True) x"
  by (auto simp: activeIn_def)

lemma studentUsers_pupils:
  assumes "studentUsers schoolId P Q s = (Inr us, t)" "u \<in> set us"
  shows "pupilOf s schoolId (\<lambda>_. True) u"
proof -
  obtain x where "x \<in> set (students s)" "st_userId x = u" "st_deletedAt x = None" "activeIn s schoolId P x"
    using assms by (auto simp: studentUsers_run)
  with activeIn_weaken show ?thesis unfolding pupilOf_def by blast
qed

lemma targetUsers_same: "snd (targetUsers schoolId dto cs s) = s"
  by (simp add: targetUsers_def teacherUsers_run studentUsers_run bindE_run ret_run)

lemma targetUsers_people:
  assumes "targetUsers schoolId dto cs s = (Inr us, t)" "u \<in> set us"
  shows "staffOf s schoolId u \<or> pupilOf s schoolId (\<lambda>_. True) u"
proof (cases "ca_targetType dto = ''TEACHERS''")
  case True
  with assms show ?thesis by (auto simp: targetUsers_def dest: teacherUsers_staff)
next
  case False
  show ?thesis
  proof (cases "ca_targetType dto = ''EVERYONE''")
    case True
    with assms False obtain us1 us2 s1 s2 where
      "teacherUsers schoolId (\<lambda>_. True) s = (Inr us1, s1)"
      "studentUsers schoolId (\<lambda>_. True) (\<lambda>_. True) s1 = (Inr us2, s2)" "us = us1 @ us2"
      by (auto simp: targetUsers_def bindE_run ret_run split: prod.splits sum.splits)
    moreover have "s1 = s" using calculation(1) by (simp add: teacherUsers_run)
    ultimately show ?thesis using assms(2) by (auto dest: teacherUsers_staff studentUsers_pupils)
  next
    case other: False
    with False assms have "studentUsers schoolId
        (\<lambda>e. ca_targetType dto = ''CLASSES'' \<longrightarrow> e_enrolledYear e \<in> set cs)
        (\<lambda>x. ca_targetType dto = ''STUDENTS'' \<longrightarrow> st_id x \<in> set (nullish (ca_studentIds dto) [])) s = (Inr us, t)"
      by (simp add: targetUsers_def)
    from studentUsers_pupils [OF this assms(2)] show ?thesis ..
  qed
qed

text \<open>The users with a new notification, in the order of the table.\<close>

definition newlyNotified :: "db \<Rightarrow> db \<Rightarrow> id list" where
  "newlyNotified s t = map n_userId (drop (length (notifications s)) (notifications t))"

lemma createAndNotify_notified:
  assumes "createAndNotify uuid now input us s = (Inr r, t)"
  shows "newlyNotified s t = uniq us"
proof -
  obtain i n where r: "r = (i, n)" by (cases r)
  obtain ids where n: "n = card (set us)" and len: "length ids = n" and
    t: "notifications t = notifications s @
       map (noticeOf (announcementOf input i now) now) (zip (uniq us) ids)"
    using createAndNotify_step [OF assms [unfolded r]] by auto
  have "n_userId \<circ> noticeOf a now = fst" for a by (auto simp: noticeOf_def)
  moreover have "length (uniq us) = length ids" by (simp add: n len length_uniq)
  ultimately show ?thesis by (simp add: newlyNotified_def t)
qed

lemma createAnnouncement_step:
  assumes "createAnnouncement uuid now schoolId senderId dto s = (Inr r, t)"
  shows "\<exists>us. targetUsers schoolId dto (filter (\<lambda>c. c \<noteq> []) (nullish (ca_classes dto) [])) s = (Inr us, s) \<and>
    newlyNotified s t = uniq us"
proof -
  let ?cs = "filter (\<lambda>c. c \<noteq> []) (nullish (ca_classes dto) [])"
  obtain res s1 where tu: "targetUsers schoolId dto ?cs s = (res, s1)" by fastforce
  then have s1: "s1 = s" using targetUsers_same [of schoolId dto ?cs s] by simp
  with assms tu obtain us where us: "res = Inr us"
    by (cases res) (auto simp: createAnnouncement_def Let_def thenE_run bindE_run require_run split: if_splits)
  with assms tu s1 obtain input where "createAndNotify uuid now input us s = (Inr r, t)"
    by (auto simp: createAnnouncement_def Let_def thenE_run bindE_run require_run split: if_splits)
  from createAndNotify_notified [OF this] tu us s1 show ?thesis by blast
qed

text \<open>
  An announcement of a school reaches nobody outside it: everyone it notifies is a pupil with
  an active enrolment or a teacher with an active assignment there. Sent to classes, it
  reaches all the active pupils of these classes, and each of them once.
\<close>

theorem announcement_stays_in_school:
  assumes "createAnnouncement uuid now schoolId senderId dto s = (Inr r, t)"
  shows "distinct (newlyNotified s t) \<and>
    list_all (\<lambda>u. staffOf s schoolId u \<or> pupilOf s schoolId (\<lambda>_. True) u) (newlyNotified s t) \<and>
    (ca_targetType dto = ''CLASSES'' \<longrightarrow>
       set (newlyNotified s t) =
       {u. pupilOf s schoolId (\<lambda>e. e_enrolledYear e \<in> set (nullish (ca_classes dto) []) - {[]}) u})"
proof -
  let ?cs = "filter (\<lambda>c. c \<noteq> []) (nullish (ca_classes dto) [])"
  obtain us where us: "targetUsers schoolId dto ?cs s = (Inr us, s)" and new: "newlyNotified s t = uniq us"
    using createAnnouncement_step [OF assms] by blast
  have people: "staffOf s schoolId u \<or> pupilOf s schoolId (\<lambda>_. True) u" if "u \<in> set us" for u
    using targetUsers_people [OF us that] .
  have classes: "set us = {u. pupilOf s schoolId (\<lambda>e. e_enrolledYear e \<in> set (nullish (ca_classes dto) []) - {[]}) u}"
    if "ca_targetType dto = ''CLASSES''"
  proof -
    have "us = map st_userId (filter (\<lambda>x. st_deletedAt x = None \<and>
        activeIn s schoolId (\<lambda>e. e_enrolledYear e \<in> set (nullish (ca_classes dto) []) - {[]}) x) (students s))"
      using us that by (simp add: targetUsers_def studentUsers_run conj_commute)
    then show ?thesis unfolding pupilOf_def by auto
  qed
  show ?thesis using people classes by (auto simp: new list_all_iff)
qed

section \<open>A broadcast is one entry of the history\<close>

lemma broadcastTo_step:
  assumes "broadcastTo uuid admin title body now schoolId s = (Inr m, t)"
  shows "\<exists>a. announcements t = announcements s @ [a] \<and> schools t = schools s \<and>
    an_schoolId a = schoolId \<and> an_authorId a = admin \<and> an_targetType a = ''ALL_STUDENTS'' \<and>
    an_title a = trim title \<and> an_body a = trim body \<and> an_createdAt a = now"
proof -
  obtain us where us: "studentUsers schoolId (\<lambda>_. True) (\<lambda>_. True) s = (Inr us, s)"
    by (simp add: studentUsers_run)
  define input where "input = \<lparr>ai_schoolId = schoolId, ai_authorId = admin, ai_title = title, ai_body = body,
      ai_targetType = ''ALL_STUDENTS'', ai_targetClasses = [], ai_courseId = None\<rparr>"
  obtain i n where c: "createAndNotify uuid now input us s = (Inr (i, n), t)"
    using assms us by (auto simp: broadcastTo_def bindE_run ret_run input_def split: prod.splits sum.splits)
  from createAndNotify_step [OF c] have "announcements t = announcements s @ [announcementOf input i now]"
    "schools t = schools s" by auto
  then show ?thesis by (auto simp: announcementOf_def input_def)
qed

text \<open>The rows a broadcast adds: one per school, with the same text, at the times of the clock.\<close>

definition broadcastRows ::
  "(nat \<Rightarrow> time) \<Rightarrow> id \<Rightarrow> string \<Rightarrow> string \<Rightarrow> nat \<Rightarrow> school_row list \<Rightarrow> announcement_row list \<Rightarrow> bool" where
  "broadcastRows clock admin title body k cs new \<longleftrightarrow>
     map an_schoolId new = map sc_id cs \<and>
     map an_createdAt new = map clock [k ..< k + length cs] \<and>
     (\<forall>a \<in> set new. an_authorId a = admin \<and> an_targetType a = ''ALL_STUDENTS'' \<and>
        an_title a = trim title \<and> an_body a = trim body)"

lemma broadcastStep_run:
  "broadcastStep uuid clock admin title body acc (k, c) s =
     (case broadcastTo uuid admin title body (clock k) (sc_id c) s of
        (Inl e, t) \<Rightarrow> (Inl e, t) | (Inr n, t) \<Rightarrow> (Inr (acc + n), t))"
  by (simp add: broadcastStep_def bindE_run ret_run split: prod.split sum.split)

lemma broadcast_fold:
  assumes "foldE (broadcastStep uuid clock admin title body) acc (enumerate k cs) s = (Inr r, t)"
  shows "\<exists>new. announcements t = announcements s @ new \<and> broadcastRows clock admin title body k cs new"
  using assms
proof (induction cs arbitrary: acc k s)
  case Nil
  then show ?case by (simp add: ret_run broadcastRows_def)
next
  case (Cons c cs)
  obtain n s1 where one: "broadcastTo uuid admin title body (clock k) (sc_id c) s = (Inr n, s1)"
    and rest: "foldE (broadcastStep uuid clock admin title body) (acc + n) (enumerate (Suc k) cs) s1 = (Inr r, t)"
    using Cons.prems by (auto simp: broadcastStep_run bindE_run [where m = "broadcastStep uuid clock admin title body acc (k, c)"]
        split: prod.splits sum.splits)
  obtain a where a: "announcements s1 = announcements s @ [a]" "an_schoolId a = sc_id c"
    "an_authorId a = admin" "an_targetType a = ''ALL_STUDENTS''" "an_title a = trim title"
    "an_body a = trim body" "an_createdAt a = clock k"
    using broadcastTo_step [OF one] by blast
  obtain new where new: "announcements t = announcements s1 @ new"
    "broadcastRows clock admin title body (Suc k) cs new"
    using Cons.IH [OF rest] by blast
  have "[k ..< k + length (c # cs)] = k # [Suc k ..< Suc k + length cs]"
    by (simp add: upt_conv_Cons del: upt_Suc)
  then have "broadcastRows clock admin title body k (c # cs) (a # new)"
    using a new(2) by (simp add: broadcastRows_def del: upt_Suc)
  with a(1) new(1) show ?case by (intro exI [of _ "a # new"]) simp
qed

lemma sort_key_append_less:
  assumes "\<And>x y. x \<in> set xs \<Longrightarrow> y \<in> set ys \<Longrightarrow> (f y :: int) < f x"
  shows "sort_key f (xs @ ys) = sort_key f ys @ sort_key f xs"
proof (rule properties_for_sort_key)
  show "sorted (map f (sort_key f ys @ sort_key f xs))"
    using assms by (fastforce simp: sorted_append intro: less_imp_le)
  show "filter (\<lambda>x. f k = f x) (sort_key f ys @ sort_key f xs) = filter (\<lambda>x. f k = f x) (xs @ ys)"
    if "k \<in> set (sort_key f ys @ sort_key f xs)" for k
  proof -
    have flip: "filter (\<lambda>x. f k = f x) zs = filter (\<lambda>x. f x = f k) zs" for zs by metis
    have "filter (\<lambda>x. f x = f k) xs = [] \<or> filter (\<lambda>x. f x = f k) ys = []"
      using that assms by (fastforce simp: filter_empty_conv)
    then show ?thesis by (auto simp: flip sort_key_stable)
  qed
qed simp

lemma orderDesc_newer:
  assumes "\<And>x y. x \<in> set xs \<Longrightarrow> y \<in> set ys \<Longrightarrow> f x < f y"
  shows "orderDesc f (xs @ ys) = orderDesc f ys @ orderDesc f xs"
  unfolding orderDesc_def by (rule sort_key_append_less) (simp add: assms)

text \<open>The minute is the last word of a key, so keys of different minutes differ.\<close>

lemma show_nat_plain: "CHR '' '' \<notin> set (show_nat n) \<and> CHR ''-'' \<notin> set (show_nat n)"
proof -
  have "digit d \<noteq> CHR '' '' \<and> digit d \<noteq> CHR ''-''" if "d < 10" for d
    using of_char_digit [OF that] by (auto dest: arg_cong [where f = "of_char :: char \<Rightarrow> nat"])
  then show ?thesis using show_nat_digits by metis
qed

lemma show_int_inj: "show_int a = show_int b \<Longrightarrow> a = b"
proof -
  assume eq: "show_int a = show_int b"
  have inj: "show_nat m = show_nat n \<Longrightarrow> m = n" for m n by (metis read_show_nat)
  have minus: "show_nat m \<noteq> CHR ''-'' # show_nat n" for m n by (metis show_nat_plain list.set_intros(1))
  from eq show "a = b"
    by (auto simp: show_int_def minus minus [symmetric] dest!: inj split: if_splits)
qed

lemma show_int_plain: "CHR '' '' \<notin> set (show_int i)"
  using show_nat_plain by (auto simp: show_int_def)

lemma last_word:
  assumes "xs @ c # ys = xs' @ c # ys'" "c \<notin> set ys" "c \<notin> set ys'"
  shows "ys = ys'"
proof -
  have "rev (takeWhile (\<lambda>x. x \<noteq> c) (rev (us @ c # vs))) = vs" if "c \<notin> set vs" for us vs
  proof -
    have "takeWhile (\<lambda>x. x \<noteq> c) (rev vs @ c # rev us) = rev vs @ takeWhile (\<lambda>x. x \<noteq> c) (c # rev us)"
      by (rule takeWhile_append2) (use that in auto)
    then show ?thesis by simp
  qed
  from this [OF assms(2), of xs] this [OF assms(3), of xs'] show ?thesis by (simp only: assms(1))
qed

lemma broadcastKey_minute:
  assumes "broadcastKey a = broadcastKey b"
  shows "an_createdAt a div 60000 = an_createdAt b div 60000"
proof -
  have "(an_title a @ '' '' @ an_body a) @ CHR '' '' # show_int (an_createdAt a div 60000) =
      (an_title b @ '' '' @ an_body b) @ CHR '' '' # show_int (an_createdAt b div 60000)"
    using assms by (simp add: broadcastKey_def)
  from last_word [OF this show_int_plain show_int_plain] show ?thesis by (rule show_int_inj)
qed

lemma group_same:
  assumes "\<forall>a \<in> set as. broadcastKey a = key" "distinct (bc_schoolIds g)"
  shows "\<exists>ids. foldl addToGroup [(key, g)] as = [(key, g\<lparr>bc_schoolIds := ids\<rparr>)] \<and>
    distinct ids \<and> set ids = set (bc_schoolIds g) \<union> an_schoolId ` set as"
  using assms
proof (induction as arbitrary: g)
  case Nil
  have "g = g\<lparr>bc_schoolIds := bc_schoolIds g\<rparr>" by simp
  with Nil show ?case by (intro exI [of _ "bc_schoolIds g"]) simp
next
  case (Cons a as)
  let ?g = "g\<lparr>bc_schoolIds := List.insert (an_schoolId a) (bc_schoolIds g)\<rparr>"
  have "addToGroup [(key, g)] a = [(key, ?g)]" using Cons.prems by (simp add: addToGroup_def Let_def)
  then have step: "foldl addToGroup [(key, g)] (a # as) = foldl addToGroup [(key, ?g)] as" by simp
  have "\<forall>a \<in> set as. broadcastKey a = key" "distinct (bc_schoolIds ?g)" using Cons.prems by simp_all
  from Cons.IH [OF this] obtain ids where ids: "foldl addToGroup [(key, ?g)] as = [(key, ?g\<lparr>bc_schoolIds := ids\<rparr>)]"
    "distinct ids" "set ids = set (bc_schoolIds ?g) \<union> an_schoolId ` set as" by blast
  show ?case
  proof (intro exI conjI)
    show "foldl addToGroup [(key, g)] (a # as) = [(key, g\<lparr>bc_schoolIds := ids\<rparr>)]"
      unfolding step ids(1) by simp
    show "set ids = set (bc_schoolIds g) \<union> an_schoolId ` set (a # as)" using ids(3) by auto
  qed (rule ids(2))
qed

lemma addToGroup_first:
  "broadcastKey a \<noteq> fst p \<Longrightarrow> \<exists>ps'. addToGroup (p # ps) a = p # ps'"
  by (cases p) (simp add: addToGroup_def Let_def)

lemma group_first:
  "\<forall>a \<in> set as. broadcastKey a \<noteq> fst p \<Longrightarrow> \<exists>ps'. foldl addToGroup (p # ps) as = p # ps'"
proof (induction as arbitrary: ps)
  case (Cons a as)
  obtain ps1 where "addToGroup (p # ps) a = p # ps1" using addToGroup_first [of a p ps] Cons.prems by auto
  with Cons show ?case by simp
qed simp

lemma group_all:
  assumes "ys \<noteq> []" "\<forall>a \<in> set ys. broadcastKey a = key \<and> an_title a = title \<and> an_body a = body"
    and "\<forall>a \<in> set zs. broadcastKey a \<noteq> key"
  shows "\<exists>c ids ps. foldl addToGroup [] (ys @ zs) =
      (key, \<lparr>bc_title = title, bc_body = body, bc_createdAt = c, bc_schoolIds = ids\<rparr>) # ps \<and>
    distinct ids \<and> set ids = an_schoolId ` set ys"
proof -
  obtain y ys' where ys: "ys = y # ys'" using assms(1) by (cases ys) auto
  define g where "g = \<lparr>bc_title = title, bc_body = body, bc_createdAt = an_createdAt y, bc_schoolIds = [an_schoolId y]\<rparr>"
  have "addToGroup [] y = [(key, g)]" using assms(2) ys by (simp add: addToGroup_def Let_def g_def)
  then have first: "foldl addToGroup [] (ys @ zs) = foldl addToGroup (foldl addToGroup [(key, g)] ys') zs"
    by (simp add: ys)
  have "\<forall>a \<in> set ys'. broadcastKey a = key" "distinct (bc_schoolIds g)" using assms(2) ys by (simp_all add: g_def)
  from group_same [OF this] obtain ids where ids: "foldl addToGroup [(key, g)] ys' = [(key, g\<lparr>bc_schoolIds := ids\<rparr>)]"
    "distinct ids" "set ids = set (bc_schoolIds g) \<union> an_schoolId ` set ys'" by blast
  obtain ps where "foldl addToGroup [(key, g\<lparr>bc_schoolIds := ids\<rparr>)] zs = (key, g\<lparr>bc_schoolIds := ids\<rparr>) # ps"
    using group_first [of zs "(key, g\<lparr>bc_schoolIds := ids\<rparr>)" "[]"] assms(3) by auto
  then have "foldl addToGroup [] (ys @ zs) =
      (key, \<lparr>bc_title = title, bc_body = body, bc_createdAt = an_createdAt y, bc_schoolIds = ids\<rparr>) # ps"
    unfolding first ids(1) by (simp add: g_def)
  moreover have "set ids = an_schoolId ` set ys" using ids(3) by (simp add: g_def ys)
  ultimately show ?thesis using ids(2) by blast
qed

text \<open>
  C3. A broadcast can be found again: once it has been sent to up to 300 schools within one
  minute, the history of its author starts with one entry that has its text and the number of
  schools it reached, although every school got an announcement of its own.
\<close>

theorem broadcast_history:
  assumes run: "broadcastAnnouncement uuid clock admin title body s = (Inr (n, r), t)"
    and n: "0 < n" "n \<le> 300"
    and ids: "distinct (map sc_id (schools s))"
    and minute: "\<forall>k < n. clock k div 60000 = minute"
    and older: "\<forall>a \<in> set (announcements s). an_createdAt a div 60000 < minute"
  shows "\<exists>c rest. getBroadcastHistory admin t =
    (Inr (\<lparr>bv_title = trim title, bv_body = trim body, bv_createdAt = c, bv_schoolsReached = n\<rparr> # rest), t)"
proof -
  define cs where "cs = filter (\<lambda>c. sc_deletedAt c = None \<and> sc_isActive c) (schools s)"
  obtain r' where fold: "foldE (broadcastStep uuid clock admin title body) 0 (enumerate 0 cs) s = (Inr r', t)"
    and len: "n = length cs"
    using run by (auto simp: broadcastAnnouncement_def bindE_run findMany_run ret_run cs_def
        split: prod.splits sum.splits)
  obtain new where new: "announcements t = announcements s @ new" "broadcastRows clock admin title body 0 cs new"
    using broadcast_fold [OF fold] by blast
  define mine where "mine = filter (\<lambda>a :: announcement_row. an_authorId a = admin \<and> an_targetType a = ''ALL_STUDENTS'')"
  have rows: "mine (announcements t) = mine (announcements s) @ new"
    using new by (simp add: mine_def broadcastRows_def)
  have lnew: "length new = n" using new(2) len by (metis broadcastRows_def length_map)
  have times: "an_createdAt a div 60000 = minute" if "a \<in> set new" for a
  proof -
    have "an_createdAt a \<in> set (map clock [0 ..< 0 + length cs])"
      using new(2) that unfolding broadcastRows_def by (metis imageI list.set_map)
    then show ?thesis using minute len by auto
  qed
  have earlier: "an_createdAt x < an_createdAt y" if "x \<in> set (announcements s)" "y \<in> set new" for x y
  proof (rule ccontr)
    assume "\<not> ?thesis"
    then have "an_createdAt y div 60000 \<le> an_createdAt x div 60000" by (simp add: zdiv_mono1)
    with older that times [of y] show False by fastforce
  qed
  have sorted: "orderDesc an_createdAt (mine (announcements t)) =
      orderDesc an_createdAt new @ orderDesc an_createdAt (mine (announcements s))"
    unfolding rows by (rule orderDesc_newer) (auto simp: mine_def intro: earlier)
  define ys where "ys = orderDesc an_createdAt new"
  define zs where "zs = take (300 - n) (orderDesc an_createdAt (mine (announcements s)))"
  have top: "take 300 (orderDesc an_createdAt (mine (announcements t))) = ys @ zs"
    using n(2) by (simp add: sorted ys_def zs_def lnew)
  define key where "key = trim title @ '' '' @ trim body @ '' '' @ show_int minute"
  have "ys \<noteq> []" using n(1) lnew by (metis length_0_conv length_orderDesc less_irrefl ys_def)
  moreover have "\<forall>a \<in> set ys. broadcastKey a = key \<and> an_title a = trim title \<and> an_body a = trim body"
    using new(2) times by (simp add: ys_def broadcastKey_def key_def broadcastRows_def)
  moreover have "\<forall>a \<in> set zs. broadcastKey a \<noteq> key"
  proof (intro ballI notI)
    fix a assume a: "a \<in> set zs" "broadcastKey a = key"
    obtain y where y: "y \<in> set new" using n(1) lnew by (cases new) auto
    then have "broadcastKey y = key" using new(2) times by (simp add: broadcastKey_def key_def broadcastRows_def)
    with a(2) have "an_createdAt a div 60000 = minute" using broadcastKey_minute [of a y] times [OF y] by simp
    moreover have "a \<in> set (announcements s)" using a(1) by (auto simp: zs_def mine_def dest: in_set_takeD)
    ultimately show False using older by fastforce
  qed
  ultimately obtain c cids ps where groups: "foldl addToGroup [] (ys @ zs) =
      (key, \<lparr>bc_title = trim title, bc_body = trim body, bc_createdAt = c, bc_schoolIds = cids\<rparr>) # ps"
    and cids: "distinct cids" "set cids = an_schoolId ` set ys" using group_all by blast
  have "map an_schoolId new = map sc_id cs" using new(2) by (simp add: broadcastRows_def)
  then have "set cids = set (map sc_id cs)" unfolding cids(2) ys_def set_orderDesc by (metis list.set_map)
  moreover have "distinct (map sc_id cs)" using ids by (simp add: cs_def distinct_map_filter)
  ultimately have "length cids = n" using cids(1) len by (metis distinct_card length_map)
  moreover have "getBroadcastHistory admin t = (Inr (map (broadcastView \<circ> snd)
      (take 20 (foldl addToGroup [] (take 300 (orderDesc an_createdAt (mine (announcements t))))))), t)"
    by (simp only: getBroadcastHistory_def bindE_run findMany_run ret_run mine_def prod.case sum.case)
  ultimately show ?thesis unfolding top groups by (simp add: broadcastView_def)
qed

section \<open>Examples\<close>

definition sample_school_row :: "id \<Rightarrow> school_row" where
  "sample_school_row i =
     \<lparr>sc_id = i, sc_name = i, sc_slug = i, sc_type = ''PRIVATE'', sc_description = None, sc_city = ''Tana'',
      sc_region = None, sc_contactEmail = None, sc_contactPhone = None, sc_website = None, sc_logo = None,
      sc_isActive = True, sc_deletedAt = None\<rparr>"

definition sample_pupil :: "id \<Rightarrow> id \<Rightarrow> student_row" where
  "sample_pupil i u =
     \<lparr>st_id = i, st_userId = u, st_firstName = ''Soa'', st_lastName = ''Rabe'', st_phone = None,
      st_deletedAt = None, st_birthDate = None, st_cin = None, st_bacYear = None, st_bacType = None,
      st_address = None, st_city = None, st_region = None, st_bio = None, st_interests = [], st_skills = [],
      st_aspirations = [], st_profileCompleted = False, st_avatarUrl = None\<rparr>"

definition sample_registration :: "id \<Rightarrow> id \<Rightarrow> string \<Rightarrow> enrollment_row" where
  "sample_registration student school label =
     \<lparr>e_studentId = student, e_schoolId = school, e_programId = ''p1'', e_programLevel = 1,
      e_academicYearId = ''y1'', e_enrolledYear = label, e_status = ACTIVE\<rparr>"

definition sample_campus :: db where
  "sample_campus =
     empty_db\<lparr>users := [sample_user ''u1'' ''STUDENT'', sample_user ''u2'' ''STUDENT''],
       schools := [sample_school_row ''sc1'', sample_school_row ''sc2''],
       students := [sample_pupil ''st1'' ''u1'', sample_pupil ''st2'' ''u2''],
       enrollments := [sample_registration ''st1'' ''sc1'' ''L1'', sample_registration ''st2'' ''sc1'' ''L2'',
                       sample_registration ''st2'' ''sc2'' ''L1'']\<rparr>"

lemmas sample_campus_defs =
  sample_campus_def empty_db_def sample_school_row_def sample_pupil_def sample_registration_def
  sample_user_def sample_uuid_def

definition sample_class_notice :: create_announcement_dto where
  "sample_class_notice =
     \<lparr>ca_title = ''Examens'', ca_body = ''Lundi'', ca_targetType = ''CLASSES'', ca_classes = Some [''L1''],
      ca_studentIds = None, ca_teacherIds = None\<rparr>"

theorem announcement_stays_in_school_witness:
  "\<exists>t. createAnnouncement sample_uuid 0 ''sc1'' ''u9'' sample_class_notice sample_campus = (Inr (''id-'', 1), t) \<and>
     distinct (newlyNotified sample_campus t) \<and>
     set (newlyNotified sample_campus t) =
       {u. pupilOf sample_campus ''sc1''
             (\<lambda>e. e_enrolledYear e \<in> set (nullish (ca_classes sample_class_notice) []) - {[]}) u}"
proof -
  obtain t where "createAnnouncement sample_uuid 0 ''sc1'' ''u9'' sample_class_notice sample_campus = (Inr (''id-'', 1), t)"
    by (simp add: sample_campus_defs sample_class_notice_def createAnnouncement_def Let_def exec_simps
        targetUsers_def studentUsers_run activeIn_def createAndNotify_run notifyAll_def)
  with announcement_stays_in_school [OF this] show ?thesis by (simp add: sample_class_notice_def)
qed

theorem broadcast_history_witness:
  "\<exists>t c rest. broadcastAnnouncement sample_uuid (\<lambda>k. 60000 + int k) ''u9'' ''Avis'' ''Rentree'' sample_campus =
       (Inr (2, 3), t) \<and>
     getBroadcastHistory ''u9'' t =
       (Inr (\<lparr>bv_title = ''Avis'', bv_body = ''Rentree'', bv_createdAt = c, bv_schoolsReached = 2\<rparr> # rest), t)"
proof -
  obtain t where run: "broadcastAnnouncement sample_uuid (\<lambda>k. 60000 + int k) ''u9'' ''Avis'' ''Rentree'' sample_campus =
      (Inr (2, 3), t)"
    by (simp add: sample_campus_defs broadcastAnnouncement_def broadcastStep_def broadcastTo_def exec_simps
        studentUsers_run activeIn_def createAndNotify_run notifyAll_def Let_def announcementOf_def noticeOf_def
        recipientOf_def recipientClash_def)
  have ids: "distinct (map sc_id (schools sample_campus))" and none: "announcements sample_campus = []"
    by (simp_all add: sample_campus_defs)
  have "\<forall>k < 2. (60000 + int k) div 60000 = 1" by (simp add: All_less_Suc2 numeral_2_eq_2)
  with broadcast_history [OF run _ _ ids, of 1] have "\<exists>c rest. getBroadcastHistory ''u9'' t =
      (Inr (\<lparr>bv_title = trim ''Avis'', bv_body = trim ''Rentree'', bv_createdAt = c, bv_schoolsReached = 2\<rparr> # rest), t)"
    by (simp add: none)
  moreover have "trim ''Avis'' = ''Avis''" "trim ''Rentree'' = ''Rentree''" by (simp_all add: trim_def isSpace_def)
  ultimately show ?thesis using run by auto
qed

text \<open>
  Two different broadcasts of one minute are shown as one when their titles and bodies meet at
  another space: the key of the history joins them by spaces.
\<close>

lemma broadcasts_confused:
  "getBroadcastHistory ''u9'' (empty_db\<lparr>announcements :=
     [\<lparr>an_id = ''a1'', an_schoolId = ''sc1'', an_authorId = ''u9'', an_title = ''Avis'', an_body = ''de rentree'',
       an_targetType = ''ALL_STUDENTS'', an_imageUrl = None, an_courseId = None, an_targetClasses = [],
       an_createdAt = 0\<rparr>,
      \<lparr>an_id = ''a2'', an_schoolId = ''sc2'', an_authorId = ''u9'', an_title = ''Avis de'', an_body = ''rentree'',
       an_targetType = ''ALL_STUDENTS'', an_imageUrl = None, an_courseId = None, an_targetClasses = [],
       an_createdAt = 0\<rparr>]\<rparr>) =
   (Inr [\<lparr>bv_title = ''Avis'', bv_body = ''de rentree'', bv_createdAt = 0, bv_schoolsReached = 2\<rparr>],
    empty_db\<lparr>announcements :=
     [\<lparr>an_id = ''a1'', an_schoolId = ''sc1'', an_authorId = ''u9'', an_title = ''Avis'', an_body = ''de rentree'',
       an_targetType = ''ALL_STUDENTS'', an_imageUrl = None, an_courseId = None, an_targetClasses = [],
       an_createdAt = 0\<rparr>,
      \<lparr>an_id = ''a2'', an_schoolId = ''sc2'', an_authorId = ''u9'', an_title = ''Avis de'', an_body = ''rentree'',
       an_targetType = ''ALL_STUDENTS'', an_imageUrl = None, an_courseId = None, an_targetClasses = [],
       an_createdAt = 0\<rparr>]\<rparr>)"
  by (simp add: getBroadcastHistory_def exec_simps orderDesc_def addToGroup_def Let_def broadcastKey_def
      broadcastView_def)

end
