(* ===== verification/Authentication.thy ===== *)
theory Authentication
  imports Notifications Text
begin

text \<open>
  \<open>AuthService\<close>, \<open>MfaService\<close>, \<open>JwtStrategy\<close> and the guards of the module \<open>auth\<close>:
  registration confirmed by e-mail, login with lockout and second factor, refresh sessions with
  single-use rotation, revocation, password reset. The libraries are parameters, the fields of
  \<open>auth_env\<close>: bcrypt, SHA-256, the random generators (functions of the number of values drawn
  so far), the encryption service, the JWT library and TOTP verification. One instant \<open>now\<close>
  stands for the calls of \<open>new Date()\<close> of a request. The webhook to n8n is sent without
  waiting and reads nothing back: it is left out. The column \<open>acceptedTermsAt\<close> and
  \<open>isVerified\<close>, always true on the accounts created here, are not kept.
\<close>

section \<open>Tokens and environment\<close>

datatype jwt_key = AccessKey | RefreshKey

record claims =
  jc_sub :: id
  jc_type :: "string option"
  jc_email :: "string option"
  jc_role :: "string option"
  jc_sessionVersion :: "nat option"
  jc_jti :: "string option"
  jc_rememberMe :: "bool option"

text \<open>\<open>signToken key now lifetime claims\<close> and \<open>verifyToken key now token\<close>: \<open>None\<close> is an exception.\<close>

record auth_env =
  au_mail :: mail_config
  hashPassword :: "nat \<Rightarrow> string \<Rightarrow> string"
  comparePassword :: "string \<Rightarrow> string \<Rightarrow> bool"
  sha256Hex :: "string \<Rightarrow> string"
  verificationCode :: "nat \<Rightarrow> string"
  resetTokenBytes :: "nat \<Rightarrow> string"
  encryptText :: "nat \<Rightarrow> string \<Rightarrow> string"
  decryptText :: "string \<Rightarrow> string option"
  signToken :: "jwt_key \<Rightarrow> time \<Rightarrow> time \<Rightarrow> claims \<Rightarrow> string"
  verifyToken :: "jwt_key \<Rightarrow> time \<Rightarrow> string \<Rightarrow> claims option"
  totpVerify :: "time \<Rightarrow> string \<Rightarrow> string \<Rightarrow> bool"
  newTotpSecret :: "nat \<Rightarrow> string"
  accessLifetime :: time
  refreshLifetime :: time
  frontendUrlVar :: "string option"
  roleNames :: "string list"

definition MFA_CHALLENGE_EXPIRATION :: time where
  "MFA_CHALLENGE_EXPIRATION = 5 * 60 * 1000"

definition EMAIL_VERIFICATION_EXPIRATION_MS :: time where
  "EMAIL_VERIFICATION_EXPIRATION_MS = 24 * 60 * 60 * 1000"

definition MAX_VERIFICATION_CODE_ATTEMPTS :: nat where
  "MAX_VERIFICATION_CODE_ATTEMPTS = 8"

definition RESET_TOKEN_EXPIRATION_MS :: time where
  "RESET_TOKEN_EXPIRATION_MS = 60 * 60 * 1000"

definition MAX_LOGIN_ATTEMPTS :: nat where
  "MAX_LOGIN_ATTEMPTS = 5"

definition LOCK_TIME :: time where
  "LOCK_TIME = 15 * 60 * 1000"

definition CURRENT_TERMS_VERSION :: string where
  "CURRENT_TERMS_VERSION = ''2026-08-11''"

definition DUMMY_PASSWORD_HASH :: string where
  "DUMMY_PASSWORD_HASH = ''$2b$10$CwTycUXWue0Thq9StjUM0uJ8g2xnfj/RcM7lz3l0i5U7YQ29OaG3.''"

lemmas auth_constants = MAX_VERIFICATION_CODE_ATTEMPTS_def MAX_LOGIN_ATTEMPTS_def LOCK_TIME_def

section \<open>Requests\<close>

record register_dto =
  rd_email :: string
  rd_password :: string
  rd_firstName :: string
  rd_lastName :: string
  rd_phone :: string
  rd_acceptedTermsVersion :: string

record login_dto =
  ld_email :: string
  ld_password :: string
  ld_remember :: "bool option"

record user_info =
  uf_id :: id
  uf_email :: string
  uf_firstName :: string
  uf_lastName :: string
  uf_role :: string

record session_tokens =
  tk_accessToken :: string
  tk_refreshToken :: string

datatype login_result =
    MfaRequired string
  | LoggedIn session_tokens user_info bool

definition charIn :: "char \<Rightarrow> char \<Rightarrow> char \<Rightarrow> bool" where
  "charIn a b c \<longleftrightarrow> a \<le> c \<and> c \<le> b"

section \<open>Helpers\<close>

text \<open>\<open>encodeURIComponent\<close> on the bytes of a string.\<close>

definition uriUnreserved :: "char \<Rightarrow> bool" where
  "uriUnreserved c \<longleftrightarrow>
     charIn (CHR ''a'') (CHR ''z'') c \<or> charIn (CHR ''A'') (CHR ''Z'') c \<or>
     charIn (CHR ''0'') (CHR ''9'') c \<or> c \<in> set ''-_.!~*()'' \<or> c = CHR 0x27"

definition upperHex :: "nat \<Rightarrow> char" where
  "upperHex n = (if n < 10 then char_of (48 + n) else char_of (55 + n))"

definition encodeURIComponent :: "string \<Rightarrow> string" where
  "encodeURIComponent s =
     concat (map (\<lambda>c. if uriUnreserved c then [c]
                       else [CHR ''%'', upperHex (of_char c div 16), upperHex (of_char c mod 16)]) s)"

definition frontendUrl :: "auth_env \<Rightarrow> string" where
  "frontendUrl E =
     takeWhile (\<lambda>c. c \<noteq> CHR '','')
       (if truthy (frontendUrlVar E) then the (frontendUrlVar E) else ''http://localhost:3000'')"

definition noClaims :: "id \<Rightarrow> claims" where
  "noClaims i =
     \<lparr>jc_sub = i, jc_type = None, jc_email = None, jc_role = None, jc_sessionVersion = None,
      jc_jti = None, jc_rememberMe = None\<rparr>"

definition userClash :: "user_row \<Rightarrow> user_row \<Rightarrow> bool" where
  "userClash a b \<longleftrightarrow> u_id a = u_id b \<or> u_email a = u_email b"

definition studentClash :: "student_row \<Rightarrow> student_row \<Rightarrow> bool" where
  "studentClash a b \<longleftrightarrow> st_id a = st_id b \<or> st_userId a = st_userId b"

definition sessionClash :: "refresh_session_row \<Rightarrow> refresh_session_row \<Rightarrow> bool" where
  "sessionClash a b \<longleftrightarrow> rs_currentJti a = rs_currentJti b"

text \<open>\<open>email.split('@')[0] || d\<close>\<close>

definition localPart :: "string \<Rightarrow> string \<Rightarrow> string" where
  "localPart d email =
     (let p = takeWhile (\<lambda>c. c \<noteq> CHR ''@'') email in if p = [] then d else p)"

definition extractUserInfo :: "db \<Rightarrow> user_row \<Rightarrow> user_info" where
  "extractUserInfo s user =
     (let roleName = (if truthy (u_role user) then the (u_role user) else ''STUDENT'');
          (firstName, lastName) =
            (case find (\<lambda>x. st_userId x = u_id user) (students s) of
               Some x \<Rightarrow> (st_firstName x, st_lastName x)
             | None \<Rightarrow>
                 (case find (\<lambda>a. sa_userId a = u_id user) (schoolAdmins s) of
                    Some _ \<Rightarrow> (localPart ''School'' (u_email user), ''Admin'')
                  | None \<Rightarrow> (localPart ''Utilisateur'' (u_email user), [])))
      in \<lparr>uf_id = u_id user, uf_email = u_email user, uf_firstName = firstName,
          uf_lastName = lastName, uf_role = roleName\<rparr>)"

section \<open>Sessions\<close>

definition generateTokens ::
  "auth_env \<Rightarrow> time \<Rightarrow> id \<Rightarrow> string \<Rightarrow> string \<Rightarrow> nat \<Rightarrow> string \<Rightarrow> bool \<Rightarrow> session_tokens" where
  "generateTokens E now userId email role sessionVersion refreshJti rememberMe =
     (let payload = (noClaims userId)\<lparr>jc_email := Some email, jc_role := Some role,
            jc_sessionVersion := Some sessionVersion, jc_rememberMe := Some rememberMe\<rparr>
      in \<lparr>tk_accessToken = signToken E AccessKey now (accessLifetime E) payload,
          tk_refreshToken = signToken E RefreshKey now (refreshLifetime E)
            (payload\<lparr>jc_jti := Some refreshJti\<rparr>)\<rparr>)"

text \<open>\<open>user.role!.name\<close> raises a \<open>TypeError\<close> for a user without role.\<close>

definition roleNameOf :: "user_row \<Rightarrow> (db, string) exec" where
  "roleNameOf user =
     (case u_role user of None \<Rightarrow> throw (Failure ''TypeError'') | Some r \<Rightarrow> ret r)"

definition issueTokens :: "auth_env \<Rightarrow> time \<Rightarrow> user_row \<Rightarrow> bool \<Rightarrow> (db, session_tokens) exec" where
  "issueTokens E now user rememberMe =
     bindE (newId (mailUuid (au_mail E))) (\<lambda>jti.
     thenE (insertRow refreshSessions refreshSessions_update sessionClash
              \<lparr>rs_userId = u_id user, rs_currentJti = jti, rs_revokedAt = None, rs_lastUsedAt = now\<rparr>)
     (bindE (roleNameOf user) (\<lambda>role.
     ret (generateTokens E now (u_id user) (u_email user) role (u_sessionVersion user) jti rememberMe))))"

definition updateUser :: "id \<Rightarrow> (user_row \<Rightarrow> user_row) \<Rightarrow> (db, user_row) exec" where
  "updateUser userId f = updateOne users users_update (\<lambda>u. u_id u = userId) f"

definition revokeSession :: "id \<Rightarrow> (db, unit) exec" where
  "revokeSession userId =
     transact
       (thenE (updateUser userId (\<lambda>u. u\<lparr>u_sessionVersion := Suc (u_sessionVersion u)\<rparr>))
         (deleteMany refreshSessions refreshSessions_update (\<lambda>r. rs_userId r = userId)))"

text \<open>The exchange of a verified refresh token: the conditional update consumes its \<open>jti\<close>.\<close>

definition consumeJti :: "auth_env \<Rightarrow> time \<Rightarrow> id \<Rightarrow> string \<Rightarrow> (db, string \<times> nat) exec" where
  "consumeJti E now userId jti =
     bindE (newId (mailUuid (au_mail E))) (\<lambda>newJti.
     bindE (updateMany refreshSessions refreshSessions_update
              (\<lambda>r. rs_userId r = userId \<and> rs_currentJti r = jti \<and> rs_revokedAt r = None)
              (\<lambda>r. r\<lparr>rs_currentJti := newJti, rs_lastUsedAt := now\<rparr>)) (\<lambda>n.
     ret (newJti, n)))"

definition rotateSession ::
  "auth_env \<Rightarrow> time \<Rightarrow> user_row \<Rightarrow> claims \<Rightarrow> (db, bool \<times> session_tokens \<times> user_info) exec" where
  "rotateSession E now user payload =
     bindE (consumeJti E now (u_id user) (nullish (jc_jti payload) [])) (\<lambda>(newJti, n).
     if n = 0 then
       thenE (revokeSession (u_id user))
         (throw (Unauthorized ''Session revoquee, veuillez vous reconnecter''))
     else
       bindE (roleNameOf user) (\<lambda>role.
       bindE (asks (\<lambda>s. extractUserInfo s user)) (\<lambda>info.
       let rememberMe = nullish (jc_rememberMe payload) True in
       ret (rememberMe,
            generateTokens E now (u_id user) (u_email user) role (u_sessionVersion user) newJti rememberMe,
            info))))"

definition refreshTokens ::
  "auth_env \<Rightarrow> time \<Rightarrow> string \<Rightarrow> (db, bool \<times> session_tokens \<times> user_info) exec" where
  "refreshTokens E now refreshToken =
     (case verifyToken E RefreshKey now refreshToken of
        None \<Rightarrow> throw (Unauthorized ''Session expiree, veuillez vous reconnecter'')
      | Some payload \<Rightarrow>
          thenE (require (\<not> truthy (jc_type payload)) (Unauthorized ''Jeton invalide pour cet usage''))
          (bindE (findFirst users (\<lambda>u. u_id u = jc_sub payload)) (\<lambda>user.
           case user of
             None \<Rightarrow> throw (Unauthorized ''Utilisateur non trouve ou inactif'')
           | Some u \<Rightarrow>
               thenE (require (u_isActive u) (Unauthorized ''Utilisateur non trouve ou inactif''))
               (thenE (require (jc_sessionVersion payload = Some (u_sessionVersion u))
                         (Unauthorized ''Session revoquee, veuillez vous reconnecter''))
               (rotateSession E now u payload)))))"

section \<open>Second factor\<close>

definition decryptMfaSecret :: "auth_env \<Rightarrow> string \<Rightarrow> (db, string) exec" where
  "decryptMfaSecret E secret =
     (case decryptText E secret of
        None \<Rightarrow> throw (BadRequest ''Secret MFA illisible, contactez un administrateur'')
      | Some x \<Rightarrow> ret x)"

definition verifyCode :: "auth_env \<Rightarrow> time \<Rightarrow> id \<Rightarrow> string \<Rightarrow> (db, bool) exec" where
  "verifyCode E now userId code =
     bindE (findFirst users (\<lambda>u. u_id u = userId)) (\<lambda>user.
     let secret = Option.bind user u_mfaSecret in
     if \<not> truthy secret then ret False
     else bindE (decryptMfaSecret E (the secret)) (\<lambda>x. ret (totpVerify E now x code)))"

definition generateSecret :: "auth_env \<Rightarrow> time \<Rightarrow> id \<Rightarrow> string option \<Rightarrow> (db, string) exec" where
  "generateSecret E now userId currentCode =
     bindE (findOr users (\<lambda>u. u_id u = userId) (BadRequest ''User not found'')) (\<lambda>user.
     thenE (whenE (u_mfaEnabled user)
              (bindE (if truthy currentCode then verifyCode E now userId (the currentCode) else ret False)
                 (\<lambda>verified.
               require verified
                 (BadRequest ''Le MFA est deja active : le code TOTP actuel est requis pour le re-enroler''))))
     (bindE (newId (newTotpSecret E)) (\<lambda>secret.
      bindE (newId (\<lambda>n. encryptText E n secret)) (\<lambda>encrypted.
      thenE (updateUser userId (\<lambda>u. u\<lparr>u_mfaSecret := Some encrypted, u_mfaEnabled := False\<rparr>))
      (ret secret)))))"

definition verifyAndEnable :: "auth_env \<Rightarrow> time \<Rightarrow> id \<Rightarrow> string \<Rightarrow> (db, unit) exec" where
  "verifyAndEnable E now userId code =
     bindE (findOr users (\<lambda>u. u_id u = userId) (BadRequest ''User not found'')) (\<lambda>user.
     thenE (require (truthy (u_mfaSecret user)) (BadRequest ''MFA not configured''))
     (bindE (decryptMfaSecret E (the (u_mfaSecret user))) (\<lambda>secret.
      thenE (require (totpVerify E now secret code) (BadRequest ''Invalid MFA code''))
      (thenE (updateUser userId (\<lambda>u. u\<lparr>u_mfaEnabled := True\<rparr>)) (ret ())))))"

definition disable :: "auth_env \<Rightarrow> time \<Rightarrow> id \<Rightarrow> string \<Rightarrow> (db, unit) exec" where
  "disable E now userId code =
     bindE (verifyCode E now userId code) (\<lambda>verified.
     thenE (require verified (BadRequest ''Invalid MFA code''))
     (thenE (updateUser userId (\<lambda>u. u\<lparr>u_mfaSecret := None, u_mfaEnabled := False\<rparr>)) (ret ())))"

section \<open>Login\<close>

definition checkLoginAttempts :: "time \<Rightarrow> id \<Rightarrow> (db, unit) exec" where
  "checkLoginAttempts now userId =
     bindE (findFirst users (\<lambda>u. u_id u = userId)) (\<lambda>user.
     case user of
       None \<Rightarrow> ret ()
     | Some u \<Rightarrow>
         whenE (MAX_LOGIN_ATTEMPTS \<le> u_failedLoginAttempts u)
           (thenE (require (\<not> (case u_lastFailedLoginAt u of None \<Rightarrow> False | Some w \<Rightarrow> now - w < LOCK_TIME))
                     (Unauthorized ''Trop de tentatives. Reessayez dans 15 minutes.''))
           (thenE (updateUser userId (\<lambda>u. u\<lparr>u_failedLoginAttempts := 0, u_lastFailedLoginAt := None\<rparr>))
             (ret ()))))"

definition incrementLoginAttempts :: "time \<Rightarrow> id \<Rightarrow> (db, unit) exec" where
  "incrementLoginAttempts now userId =
     thenE (updateUser userId (\<lambda>u. u\<lparr>u_failedLoginAttempts := Suc (u_failedLoginAttempts u),
                                     u_lastFailedLoginAt := Some now\<rparr>)) (ret ())"

definition resetLoginAttempts :: "id \<Rightarrow> (db, unit) exec" where
  "resetLoginAttempts userId =
     thenE (updateUser userId (\<lambda>u. u\<lparr>u_failedLoginAttempts := 0, u_lastFailedLoginAt := None\<rparr>)) (ret ())"

text \<open>The branch of an e-mail without account: the answer depends on the pending registration.\<close>

definition loginUnknown :: "auth_env \<Rightarrow> login_dto \<Rightarrow> (db, 'a) exec" where
  "loginUnknown E dto =
     bindE (findFirst pendings (\<lambda>p. pd_email p = ld_email dto)) (\<lambda>pending.
     let matchesPending = comparePassword E (ld_password dto)
           (nullish (map_option pd_passwordHash pending) DUMMY_PASSWORD_HASH)
     in if pending \<noteq> None \<and> matchesPending
        then throw (Unauthorized ''Merci de verifier ton adresse email avant de te connecter'')
        else throw (Unauthorized ''Identifiants invalides''))"

text \<open>What follows a valid password: a challenge for the second factor, or a session.\<close>

definition openSession ::
  "auth_env \<Rightarrow> time \<Rightarrow> user_row \<Rightarrow> bool \<Rightarrow> (db, session_tokens \<times> user_info) exec" where
  "openSession E now user rememberMe =
     thenE (updateUser (u_id user) (\<lambda>u. u\<lparr>u_lastLogin := Some now\<rparr>))
     (bindE (issueTokens E now user rememberMe) (\<lambda>tokens.
      bindE (asks (\<lambda>s. extractUserInfo s user)) (\<lambda>info. ret (tokens, info))))"

definition mfaChallenge :: "auth_env \<Rightarrow> time \<Rightarrow> id \<Rightarrow> bool \<Rightarrow> string" where
  "mfaChallenge E now userId rememberMe =
     signToken E AccessKey now MFA_CHALLENGE_EXPIRATION
       ((noClaims userId)\<lparr>jc_type := Some ''mfa_challenge'', jc_rememberMe := Some rememberMe\<rparr>)"

definition login :: "auth_env \<Rightarrow> time \<Rightarrow> login_dto \<Rightarrow> (db, login_result) exec" where
  "login E now dto =
     bindE (findFirst users (\<lambda>u. u_email u = ld_email dto)) (\<lambda>found.
     case found of
       None \<Rightarrow> loginUnknown E dto
     | Some user \<Rightarrow>
         thenE (checkLoginAttempts now (u_id user))
         (if \<not> comparePassword E (ld_password dto) (u_password user) then
            thenE (incrementLoginAttempts now (u_id user)) (throw (Unauthorized ''Identifiants invalides''))
          else
            thenE (resetLoginAttempts (u_id user))
            (let rememberMe = nullish (ld_remember dto) True in
             if u_mfaEnabled user then ret (MfaRequired (mfaChallenge E now (u_id user) rememberMe))
             else bindE (openSession E now user rememberMe)
                    (\<lambda>(tokens, info). ret (LoggedIn tokens info rememberMe)))))"

definition completeMfaLogin ::
  "auth_env \<Rightarrow> time \<Rightarrow> string \<Rightarrow> string \<Rightarrow> (db, bool \<times> session_tokens \<times> user_info) exec" where
  "completeMfaLogin E now challengeToken code =
     (case verifyToken E AccessKey now challengeToken of
        None \<Rightarrow> throw (Unauthorized ''Session MFA expiree, veuillez vous reconnecter'')
      | Some payload \<Rightarrow>
          thenE (require (jc_type payload = Some ''mfa_challenge'') (Unauthorized ''Jeton invalide''))
          (bindE (findFirst users (\<lambda>u. u_id u = jc_sub payload)) (\<lambda>found.
           case found of
             None \<Rightarrow> throw (Unauthorized ''Identifiants invalides'')
           | Some user \<Rightarrow>
               thenE (require (u_mfaEnabled user) (Unauthorized ''Identifiants invalides''))
               (bindE (verifyCode E now (u_id user) code) (\<lambda>verified.
                thenE (require verified (BadRequest ''Code MFA invalide''))
                (let rememberMe = nullish (jc_rememberMe payload) True in
                 bindE (openSession E now user rememberMe)
                   (\<lambda>(tokens, info). ret (rememberMe, tokens, info))))))))"

section \<open>Registration\<close>

text \<open>\<open>pendingRegistration.delete(...).catch(() => undefined)\<close>\<close>

definition discardPending :: "id \<Rightarrow> (db, unit) exec" where
  "discardPending pendingId = deleteMany pendings pendings_update (\<lambda>p. pd_id p = pendingId)"

definition verificationText :: "auth_env \<Rightarrow> time \<Rightarrow> pending_row \<Rightarrow> string \<Rightarrow> string" where
  "verificationText E now pending code =
     (let verifyToken = signToken E AccessKey now EMAIL_VERIFICATION_EXPIRATION_MS
            ((noClaims (pd_id pending))\<lparr>jc_type := Some ''email_verify''\<rparr>);
          verifyUrl = frontendUrl E @ ''/auth/verify-email?token='' @ verifyToken @ ''&email='' @
            encodeURIComponent (pd_email pending)
      in ''Bonjour '' @ pd_firstName pending @ '','' @ newline @ newline @
         ''Merci de verifier ton adresse email pour activer ton compte GET.'' @ newline @ newline @
         ''Clique sur ce lien (valable 24h) pour activer ton compte :'' @ newline @ verifyUrl @ newline @ newline @
         ''Ou saisis ce code de verification sur la page d'inscription : '' @ code @ newline @ newline @
         ''Si tu n'es pas a l'origine de cette inscription, ignore cet email.'')"

definition sendVerificationEmail :: "auth_env \<Rightarrow> time \<Rightarrow> pending_row \<Rightarrow> string \<Rightarrow> (db, unit) exec" where
  "sendVerificationEmail E now pending code =
     catchE (thenE (sendRawEmail (au_mail E) (pd_email pending) ''Verifie ton adresse email - GET''
                      (verificationText E now pending code)) (ret ()))
       (\<lambda>_. thenE (discardPending (pd_id pending))
              (throw (BadRequest ''Impossible d'envoyer l'email de verification, reessaie dans quelques instants.'')))"

text \<open>The row written by the \<open>upsert\<close>: a pending registration of the e-mail keeps its identifier.\<close>

definition pendingOf ::
  "auth_env \<Rightarrow> time \<Rightarrow> register_dto \<Rightarrow> id \<Rightarrow> string \<Rightarrow> string \<Rightarrow> string \<Rightarrow> pending_row" where
  "pendingOf E now dto i hashedPassword encryptedPhone code =
     \<lparr>pd_id = i, pd_email = rd_email dto, pd_passwordHash = hashedPassword,
      pd_firstName = rd_firstName dto, pd_lastName = rd_lastName dto, pd_phone = encryptedPhone,
      pd_codeHash = sha256Hex E code, pd_codeAttempts = 0,
      pd_expiresAt = now + EMAIL_VERIFICATION_EXPIRATION_MS,
      pd_acceptedTermsVersion = rd_acceptedTermsVersion dto\<rparr>"

lemma pendingOf_simps [simp]:
  "pd_id (pendingOf E now dto i h x code) = i" "pd_email (pendingOf E now dto i h x code) = rd_email dto"
  "pd_passwordHash (pendingOf E now dto i h x code) = h"
  by (simp_all add: pendingOf_def)

definition register :: "auth_env \<Rightarrow> time \<Rightarrow> register_dto \<Rightarrow> (db, string) exec" where
  "register E now dto =
     thenE (require (rd_acceptedTermsVersion dto = CURRENT_TERMS_VERSION)
              (BadRequest ''La version des CGU a change : merci de recharger la page et de les accepter a nouveau.''))
     (bindE (findFirst users (\<lambda>u. u_email u = rd_email dto)) (\<lambda>existing.
      thenE (require (existing = None) (Conflict ''Cet email est deja utilise''))
      (bindE (newId (\<lambda>n. hashPassword E n (rd_password dto))) (\<lambda>hashedPassword.
       bindE (newId (verificationCode E)) (\<lambda>code.
       bindE (newId (\<lambda>n. encryptText E n (rd_phone dto))) (\<lambda>encryptedPhone.
       bindE (newId (mailUuid (au_mail E))) (\<lambda>i.
       let row = (\<lambda>i. pendingOf E now dto i hashedPassword encryptedPhone code) in
       thenE (upsertRow pendings pendings_update (\<lambda>p. pd_email p = rd_email dto)
                (\<lambda>p. row (pd_id p)) (row i))
       (bindE (findOr pendings (\<lambda>p. pd_email p = rd_email dto) (Failure ''P2025'')) (\<lambda>pending.
        thenE (sendVerificationEmail E now pending code)
        (ret (pd_email pending)))))))))))"

definition resendVerification :: "auth_env \<Rightarrow> time \<Rightarrow> string \<Rightarrow> (db, string) exec" where
  "resendVerification E now email =
     (let genericMessage = ''Si une inscription est en attente pour cet email, un nouveau code a ete envoye.'' in
      bindE (findFirst pendings (\<lambda>p. pd_email p = email)) (\<lambda>found.
      case found of
        None \<Rightarrow> ret genericMessage
      | Some pending \<Rightarrow>
          bindE (newId (verificationCode E)) (\<lambda>code.
          bindE (updateOne pendings pendings_update (\<lambda>p. pd_id p = pd_id pending)
                   (\<lambda>p. p\<lparr>pd_codeHash := sha256Hex E code, pd_codeAttempts := 0,
                         pd_expiresAt := now + EMAIL_VERIFICATION_EXPIRATION_MS\<rparr>)) (\<lambda>updated.
          thenE (sendVerificationEmail E now updated code) (ret genericMessage)))))"

text \<open>\<open>user.create\<close> with the nested \<open>student.create\<close>: one statement.\<close>

definition createAccount :: "auth_env \<Rightarrow> pending_row \<Rightarrow> (db, user_row) exec" where
  "createAccount E pending =
     transact
       (bindE (newId (mailUuid (au_mail E))) (\<lambda>userId.
        bindE (newId (mailUuid (au_mail E))) (\<lambda>studentId.
        bindE (insertRow users users_update userClash
          \<lparr>u_id = userId, u_email = pd_email pending, u_password = pd_passwordHash pending,
           u_role = Some ''STUDENT'', u_isActive = True, u_lastLogin = None, u_mfaSecret = None,
           u_mfaEnabled = False, u_failedLoginAttempts = 0, u_lastFailedLoginAt = None,
           u_sessionVersion = 0, u_resetTokenHash = None, u_resetTokenExpiresAt = None,
           u_acceptedTermsVersion = Some (pd_acceptedTermsVersion pending),
           u_theme = ''system'', u_deletedAt = None\<rparr>) (\<lambda>user.
        thenE (insertRow students students_update studentClash
          \<lparr>st_id = studentId, st_userId = userId, st_firstName = pd_firstName pending,
           st_lastName = pd_lastName pending, st_phone = Some (pd_phone pending), st_deletedAt = None,
           st_birthDate = None, st_cin = None, st_bacYear = None,
           st_bacType = None, st_address = None, st_city = None, st_region = None, st_bio = None,
           st_interests = [], st_skills = [], st_aspirations = [], st_profileCompleted = False,
           st_avatarUrl = None\<rparr>)
        (ret user)))))"

definition openAccount :: "auth_env \<Rightarrow> time \<Rightarrow> pending_row \<Rightarrow> (db, session_tokens \<times> user_info) exec" where
  "openAccount E now pending =
     bindE (createAccount E pending) (\<lambda>user.
     thenE (discardPending (pd_id pending))
     (bindE (issueTokens E now user True) (\<lambda>tokens.
      bindE (asks (\<lambda>s. extractUserInfo s user)) (\<lambda>info. ret (tokens, info)))))"

definition completeEmailVerification ::
  "auth_env \<Rightarrow> time \<Rightarrow> id \<Rightarrow> (db, session_tokens \<times> user_info) exec" where
  "completeEmailVerification E now pendingId =
     bindE (findOr pendings (\<lambda>p. pd_id p = pendingId)
              (BadRequest ''Cette demande de verification est introuvable ou a deja ete utilisee.'')) (\<lambda>pending.
     if pd_expiresAt pending < now then
       thenE (discardPending pendingId) (throw (BadRequest ''Ce lien a expire, redemande une verification.''))
     else
       bindE (findFirst users (\<lambda>u. u_email u = pd_email pending)) (\<lambda>existingUser.
       if existingUser \<noteq> None then
         thenE (discardPending pendingId) (throw (Conflict ''Cet email est deja verifie, connecte-toi.''))
       else
         thenE (require (''STUDENT'' \<in> set (roleNames E))
                  (Failure ''Role STUDENT introuvable. Executez d'abord le seed.''))
         (openAccount E now pending)))"

definition verifyEmailByToken ::
  "auth_env \<Rightarrow> time \<Rightarrow> string \<Rightarrow> (db, session_tokens \<times> user_info) exec" where
  "verifyEmailByToken E now token =
     (case verifyToken E AccessKey now token of
        None \<Rightarrow> throw (BadRequest ''Lien de verification invalide ou expire'')
      | Some payload \<Rightarrow>
          thenE (require (jc_type payload = Some ''email_verify'') (BadRequest ''Lien de verification invalide''))
          (completeEmailVerification E now (jc_sub payload)))"

definition verifyEmailByCode ::
  "auth_env \<Rightarrow> time \<Rightarrow> string \<Rightarrow> string \<Rightarrow> (db, session_tokens \<times> user_info) exec" where
  "verifyEmailByCode E now email code =
     bindE (findOr pendings (\<lambda>p. pd_email p = email)
              (BadRequest ''Aucune inscription en attente pour cet email'')) (\<lambda>pending.
     if pd_expiresAt pending < now then
       thenE (discardPending (pd_id pending)) (throw (BadRequest ''Ce code a expire, redemande un nouveau code.''))
     else if MAX_VERIFICATION_CODE_ATTEMPTS \<le> pd_codeAttempts pending then
       throw (BadRequest ''Trop de tentatives, redemande un nouveau code.'')
     else if sha256Hex E code \<noteq> pd_codeHash pending then
       thenE (updateOne pendings pendings_update (\<lambda>p. pd_id p = pd_id pending)
                (\<lambda>p. p\<lparr>pd_codeAttempts := Suc (pd_codeAttempts p)\<rparr>))
         (throw (BadRequest ''Code de verification invalide''))
     else completeEmailVerification E now (pd_id pending))"

section \<open>Password reset\<close>

definition forgotMessage :: string where
  "forgotMessage = ''Si un compte existe avec cet email, vous recevrez un lien de reinitialisation.''"

definition forgotPassword :: "auth_env \<Rightarrow> time \<Rightarrow> string \<Rightarrow> (db, string) exec" where
  "forgotPassword E now email =
     bindE (findFirst users (\<lambda>u. u_email u = email)) (\<lambda>found.
     case found of
       None \<Rightarrow> ret forgotMessage
     | Some user \<Rightarrow>
         bindE (newId (resetTokenBytes E)) (\<lambda>resetToken.
         thenE (updateUser (u_id user) (\<lambda>u. u\<lparr>u_resetTokenHash := Some (sha256Hex E resetToken),
                  u_resetTokenExpiresAt := Some (now + RESET_TOKEN_EXPIRATION_MS)\<rparr>))
         (let resetUrl = frontendUrl E @ ''/auth/reset-password?token='' @ resetToken in
          thenE (bestEffort (sendRawEmail (au_mail E) (u_email user)
                   ''Reinitialisation de votre mot de passe GET''
                   (''Vous avez demande la reinitialisation de votre mot de passe. Cliquez sur ce lien '' @
                    ''(valable 1h, usage unique) '' @
                    ''pour choisir un nouveau mot de passe : '' @ resetUrl @ newline @ newline @
                    ''Si vous n'etes pas a l'origine de cette demande, ignorez cet email.'')))
          (ret forgotMessage))))"

definition resetMatches :: "string \<Rightarrow> time \<Rightarrow> user_row \<Rightarrow> bool" where
  "resetMatches resetTokenHash now u \<longleftrightarrow>
     u_resetTokenHash u = Some resetTokenHash \<and>
     (case u_resetTokenExpiresAt u of None \<Rightarrow> False | Some w \<Rightarrow> now < w)"

definition resetPassword :: "auth_env \<Rightarrow> time \<Rightarrow> string \<Rightarrow> string \<Rightarrow> (db, unit) exec" where
  "resetPassword E now token newPassword =
     (let resetTokenHash = sha256Hex E token in
      bindE (newId (\<lambda>n. hashPassword E n newPassword)) (\<lambda>hashedPassword.
      bindE (findFirst users (resetMatches resetTokenHash now)) (\<lambda>candidate.
      bindE (updateMany users users_update (resetMatches resetTokenHash now)
               (\<lambda>u. u\<lparr>u_password := hashedPassword, u_resetTokenHash := None,
                     u_resetTokenExpiresAt := None, u_sessionVersion := Suc (u_sessionVersion u)\<rparr>)) (\<lambda>n.
      thenE (require (n \<noteq> 0) (BadRequest ''Token invalide ou expire''))
      (case candidate of
         None \<Rightarrow> ret ()
       | Some u \<Rightarrow> deleteMany refreshSessions refreshSessions_update (\<lambda>r. rs_userId r = u_id u))))))"

section \<open>Requests with a token\<close>

text \<open>\<open>JwtStrategy\<close>: what passport calls once the signature of the access token is verified.\<close>

definition validate :: "claims \<Rightarrow> (db, user_row) exec" where
  "validate payload =
     thenE (require (\<not> truthy (jc_type payload)) (Unauthorized ''Jeton invalide pour cet usage''))
     (bindE (findFirst users (\<lambda>u. u_id u = jc_sub payload)) (\<lambda>found.
      case found of
        None \<Rightarrow> throw (Unauthorized ''Utilisateur non trouve ou inactif'')
      | Some user \<Rightarrow>
          thenE (require (u_isActive user) (Unauthorized ''Utilisateur non trouve ou inactif''))
          (thenE (require (jc_sessionVersion payload = Some (u_sessionVersion user))
                    (Unauthorized ''Session revoquee, veuillez vous reconnecter''))
          (ret user))))"

definition authenticate :: "auth_env \<Rightarrow> time \<Rightarrow> string \<Rightarrow> (db, user_row) exec" where
  "authenticate E now token =
     (case verifyToken E AccessKey now token of
        None \<Rightarrow> throw (Unauthorized ''Unauthorized'')
      | Some payload \<Rightarrow> validate payload)"

text \<open>The guards: the metadata of the route are arguments, the user is the one \<open>validate\<close> returned.\<close>

definition requestRole :: "user_row \<Rightarrow> string" where
  "requestRole user = (if truthy (u_role user) then the (u_role user) else ''STUDENT'')"

definition rolesGuard :: "bool \<Rightarrow> string list option \<Rightarrow> user_row option \<Rightarrow> bool" where
  "rolesGuard isPublic requiredRoles user =
     (if isPublic then True
      else case requiredRoles of
             None \<Rightarrow> True
           | Some roles \<Rightarrow> (case user of None \<Rightarrow> False | Some u \<Rightarrow> \<exists>r \<in> set roles. requestRole u = r))"

definition MFA_REQUIRED_ROLES :: "string list" where
  "MFA_REQUIRED_ROLES = [''ADMIN_GET'', ''SCHOOL_ADMIN'', ''MINISTRY'']"

definition mfaEnforcedGuard :: "bool \<Rightarrow> bool \<Rightarrow> user_row option \<Rightarrow> error + bool" where
  "mfaEnforcedGuard isPublic isMfaExempt user =
     (if isPublic \<or> isMfaExempt then Inr True
      else case user of
             None \<Rightarrow> Inr True
           | Some u \<Rightarrow>
               if requestRole u \<notin> set MFA_REQUIRED_ROLES \<or> u_mfaEnabled u then Inr True
               else Inl (Forbidden ''L'authentification a deux facteurs (MFA) est obligatoire pour ce role.''))"

section \<open>The service\<close>

datatype auth_request =
    Register register_dto
  | VerifyByToken string
  | VerifyByCode string string
  | Resend string
  | Login login_dto
  | CompleteMfa string string
  | Refresh string
  | Logout id
  | ForgotPassword string
  | ResetPassword string string
  | EnableMfa id "string option"
  | VerifyMfa id string
  | DisableMfa id string

text \<open>A request answers or fails; the answers themselves are not compared here.\<close>

definition answer :: "('s, 'a) exec \<Rightarrow> ('s, unit) exec" where
  "answer m = thenE m (ret ())"

fun serveAuth :: "auth_env \<Rightarrow> time \<Rightarrow> auth_request \<Rightarrow> (db, unit) exec" where
  "serveAuth E now (Register dto) = answer (register E now dto)"
| "serveAuth E now (VerifyByToken token) = answer (verifyEmailByToken E now token)"
| "serveAuth E now (VerifyByCode email code) = answer (verifyEmailByCode E now email code)"
| "serveAuth E now (Resend email) = answer (resendVerification E now email)"
| "serveAuth E now (Login dto) = answer (login E now dto)"
| "serveAuth E now (CompleteMfa token code) = answer (completeMfaLogin E now token code)"
| "serveAuth E now (Refresh token) = answer (refreshTokens E now token)"
| "serveAuth E now (Logout userId) = answer (revokeSession userId)"
| "serveAuth E now (ForgotPassword email) = answer (forgotPassword E now email)"
| "serveAuth E now (ResetPassword token newPassword) = answer (resetPassword E now token newPassword)"
| "serveAuth E now (EnableMfa userId code) = answer (generateSecret E now userId code)"
| "serveAuth E now (VerifyMfa userId code) = answer (verifyAndEnable E now userId code)"
| "serveAuth E now (DisableMfa userId code) = answer (disable E now userId code)"

fun serveAuths :: "auth_env \<Rightarrow> (time \<times> auth_request) list \<Rightarrow> db \<Rightarrow> db" where
  "serveAuths E [] s = s"
| "serveAuths E ((now, q) # qs) s = serveAuths E qs (snd (serveAuth E now q s))"

section \<open>Refresh sessions\<close>

text \<open>
  How a request changes the identifiers of the refresh sessions: each one was there, or was
  drawn from the generator by this request.
\<close>

definition sessionIds :: "db \<Rightarrow> string set" where
  "sessionIds s = rs_currentJti ` set (refreshSessions s)"

definition drawn :: "auth_env \<Rightarrow> nat \<Rightarrow> nat \<Rightarrow> string set" where
  "drawn E m n = {mailUuid (au_mail E) k | k. m \<le> k \<and> k < n}"

definition sessInv :: "auth_env \<Rightarrow> db \<Rightarrow> bool" where
  "sessInv E s \<longleftrightarrow>
     distinct (map rs_currentJti (refreshSessions s)) \<and> sessionIds s \<subseteq> drawn E 0 (seqNo s)"

definition sessStep :: "auth_env \<Rightarrow> db \<Rightarrow> db \<Rightarrow> bool" where
  "sessStep E s t \<longleftrightarrow>
     seqNo s \<le> seqNo t \<and> sessionIds t \<subseteq> sessionIds s \<union> drawn E (seqNo s) (seqNo t) \<and>
     (inj (mailUuid (au_mail E)) \<longrightarrow> sessInv E s \<longrightarrow> sessInv E t)"

lemma drawn_mono: "m' \<le> m \<Longrightarrow> n \<le> n' \<Longrightarrow> drawn E m n \<subseteq> drawn E m' n'"
  by (auto simp: drawn_def)

interpretation sess: two_state "sessStep E" for E
proof
  show "sessStep E s s" for s by (simp add: sessStep_def)
  fix s t u assume st: "sessStep E s t" and tu: "sessStep E t u"
  then have le: "seqNo s \<le> seqNo t" "seqNo t \<le> seqNo u" by (simp_all add: sessStep_def)
  have "drawn E (seqNo s) (seqNo t) \<subseteq> drawn E (seqNo s) (seqNo u)"
    "drawn E (seqNo t) (seqNo u) \<subseteq> drawn E (seqNo s) (seqNo u)"
    using le by (intro drawn_mono; simp)+
  moreover have "sessionIds t \<subseteq> sessionIds s \<union> drawn E (seqNo s) (seqNo t)"
    "sessionIds u \<subseteq> sessionIds t \<union> drawn E (seqNo t) (seqNo u)"
    using st tu by (simp_all add: sessStep_def)
  ultimately have "sessionIds u \<subseteq> sessionIds s \<union> drawn E (seqNo s) (seqNo u)" by blast
  with st tu le show "sessStep E s u" by (simp add: sessStep_def)
qed

lemma sessStep_frame:
  assumes "refreshSessions t = refreshSessions s" "seqNo s \<le> seqNo t"
  shows "sessStep E s t"
proof -
  have "sessionIds t = sessionIds s" using assms(1) by (simp add: sessionIds_def)
  moreover have "drawn E 0 (seqNo s) \<subseteq> drawn E 0 (seqNo t)" using assms(2) by (intro drawn_mono) simp_all
  ultimately show ?thesis using assms by (auto simp: sessStep_def sessInv_def)
qed

lemma sessStep_shrink:
  assumes "refreshSessions t = filter P (refreshSessions s)" "seqNo t = seqNo s"
  shows "sessStep E s t"
proof -
  have "sessionIds t \<subseteq> sessionIds s" using assms(1) by (auto simp: sessionIds_def)
  moreover have "distinct (map rs_currentJti (refreshSessions t))" if "distinct (map rs_currentJti (refreshSessions s))"
    using that assms(1) by (auto simp: distinct_map intro: inj_on_subset)
  ultimately show ?thesis using assms(2) by (auto simp: sessStep_def sessInv_def)
qed

lemma sess_modify:
  assumes "refreshSessions (snd (m s)) = refreshSessions s" "seqNo s \<le> seqNo (snd (m s))"
  shows "steps (sessStep E) m s"
  using assms by (simp add: steps_def sessStep_frame)

lemma sess_tables:
  "steps (sessStep E) (newId uuid) s" "steps (sessStep E) (updateUser i f) s"
  "steps (sessStep E) (updateMany users users_update P f) s"
  "steps (sessStep E) (insertRow users users_update K u) s"
  "steps (sessStep E) (insertRow students students_update K' x) s"
  "steps (sessStep E) (updateOne pendings pendings_update P' f') s"
  "steps (sessStep E) (upsertRow pendings pendings_update P' f' p) s"
  "steps (sessStep E) (discardPending j) s"
  "steps (sessStep E) (addRow mails mails_update m) s"
  by (rule sess_modify; simp add: exec_simps updateUser_def discardPending_def split: option.split)+

lemma sess_deleteSessions: "steps (sessStep E) (deleteMany refreshSessions refreshSessions_update P) s"
  by (simp add: steps_def exec_simps sessStep_shrink [where P = "\<lambda>r. \<not> P r"])

lemma sess_roleNameOf: "steps (sessStep E) (roleNameOf user) s"
  unfolding roleNameOf_def by (intro step_rules)

lemma sess_dispatchEmail: "steps (sessStep E) (dispatchEmail C to subject body) s"
  unfolding dispatchEmail_def Let_def by (intro step_rules sess_tables)

lemma fresh_jti:
  assumes "inj (mailUuid (au_mail E))" "sessInv E s"
  shows "mailUuid (au_mail E) (seqNo s) \<notin> sessionIds s"
  using assms by (auto simp: sessInv_def drawn_def dest: injD)

lemma sessStep_new:
  assumes "refreshSessions t = refreshSessions s @ [r]" "rs_currentJti r = mailUuid (au_mail E) (seqNo s)"
    "seqNo t = Suc (seqNo s)"
  shows "sessStep E s t"
proof -
  have ids: "sessionIds t = insert (mailUuid (au_mail E) (seqNo s)) (sessionIds s)"
    using assms(1,2) by (auto simp: sessionIds_def)
  have "mailUuid (au_mail E) (seqNo s) \<in> drawn E (seqNo s) (seqNo t)"
    "mailUuid (au_mail E) (seqNo s) \<in> drawn E 0 (seqNo t)"
    "drawn E 0 (seqNo s) \<subseteq> drawn E 0 (seqNo t)"
    using assms(3) by (auto simp: drawn_def)
  moreover have "distinct (map rs_currentJti (refreshSessions t))"
    if "inj (mailUuid (au_mail E))" "sessInv E s"
    using fresh_jti [OF that] that(2) assms(1,2) by (simp add: sessInv_def sessionIds_def)
  ultimately show ?thesis
    unfolding sessStep_def sessInv_def [of E t] ids using assms(3) by (auto simp: sessInv_def)
qed

lemma sessStep_rotate:
  assumes "refreshSessions t = update_rows P f (refreshSessions s)" "seqNo t = Suc (seqNo s)"
    "\<And>r. P r \<Longrightarrow> rs_currentJti r = x" "\<And>r. rs_currentJti (f r) = mailUuid (au_mail E) (seqNo s)"
  shows "sessStep E s t"
proof -
  let ?new = "mailUuid (au_mail E) (seqNo s)"
  have ids: "sessionIds t \<subseteq> insert ?new (sessionIds s)"
    using assms(1,4) by (auto simp: sessionIds_def set_update_rows)
  have "?new \<in> drawn E (seqNo s) (seqNo t)" "?new \<in> drawn E 0 (seqNo t)"
    "drawn E 0 (seqNo s) \<subseteq> drawn E 0 (seqNo t)"
    using assms(2) by (auto simp: drawn_def)
  moreover have "distinct (map rs_currentJti (refreshSessions t))"
    if "inj (mailUuid (au_mail E))" "sessInv E s"
  proof -
    note old = that(2) [unfolded sessInv_def distinct_map]
    have "inj_on (\<lambda>r. rs_currentJti (if P r then f r else r)) (set (refreshSessions s))"
    proof (rule inj_onI)
      fix a b assume ab: "a \<in> set (refreshSessions s)" "b \<in> set (refreshSessions s)"
        "rs_currentJti (if P a then f a else a) = rs_currentJti (if P b then f b else b)"
      have "rs_currentJti a \<noteq> ?new" "rs_currentJti b \<noteq> ?new"
        using fresh_jti [OF that] ab(1,2) unfolding sessionIds_def by (metis imageI)+
      with ab(3) assms(3,4) have "rs_currentJti a = rs_currentJti b" by (auto split: if_splits)
      with old ab(1,2) show "a = b" by (auto dest: inj_onD)
    qed
    with old show ?thesis
      unfolding assms(1) update_rows_def map_map comp_def distinct_map by blast
  qed
  ultimately show ?thesis
    unfolding sessStep_def sessInv_def [of E t] using ids assms(2) by (auto simp: sessInv_def)
qed

lemma sess_issueTokens: "steps (sessStep E) (issueTokens E now user rm) s"
proof -
  let ?r = "\<lparr>rs_userId = u_id user, rs_currentJti = mailUuid (au_mail E) (seqNo s), rs_revokedAt = None,
    rs_lastUsedAt = now\<rparr>"
  let ?s1 = "s\<lparr>seqNo := Suc (seqNo s)\<rparr>"
  have "snd (issueTokens E now user rm s) = ?s1 \<or>
      snd (issueTokens E now user rm s) = ?s1\<lparr>refreshSessions := refreshSessions s @ [?r]\<rparr>"
    by (cases "\<exists>x \<in> set (refreshSessions s). sessionClash x ?r"; cases "u_role user")
      (simp_all add: issueTokens_def exec_simps roleNameOf_def)
  moreover have "sessStep E s ?s1" by (rule sessStep_frame) simp_all
  moreover have "sessStep E s (?s1\<lparr>refreshSessions := refreshSessions s @ [?r]\<rparr>)"
    by (rule sessStep_new [of _ _ ?r]) simp_all
  ultimately show ?thesis by (auto simp: steps_def)
qed

lemma sess_revokeSession: "steps (sessStep E) (revokeSession userId) s"
  unfolding revokeSession_def by (intro step_rules sess_tables sess_deleteSessions)

lemma consumeJti_run:
  "consumeJti E now userId jti s =
     (let P = (\<lambda>r. rs_userId r = userId \<and> rs_currentJti r = jti \<and> rs_revokedAt r = None) in
      (Inr (mailUuid (au_mail E) (seqNo s), count_rows P (refreshSessions s)),
       s\<lparr>seqNo := Suc (seqNo s), refreshSessions := update_rows P
          (\<lambda>r. r\<lparr>rs_currentJti := mailUuid (au_mail E) (seqNo s), rs_lastUsedAt := now\<rparr>) (refreshSessions s)\<rparr>))"
  by (simp add: consumeJti_def bindE_run newId_run updateMany_run ret_run Let_def)

lemma sess_consumeJti: "steps (sessStep E) (consumeJti E now userId jti) s"
  unfolding steps_def consumeJti_run Let_def
  by (rule sessStep_rotate [where x = jti and
        P = "\<lambda>r. rs_userId r = userId \<and> rs_currentJti r = jti \<and> rs_revokedAt r = None" and
        f = "\<lambda>r. r\<lparr>rs_currentJti := mailUuid (au_mail E) (seqNo s), rs_lastUsedAt := now\<rparr>"]) simp_all

lemma sess_rotateSession: "steps (sessStep E) (rotateSession E now user payload) s"
  unfolding rotateSession_def Let_def split_def
  by (intro step_rules sess_consumeJti sess_revokeSession sess_roleNameOf)

lemma sess_refreshTokens: "steps (sessStep E) (refreshTokens E now token) s"
  unfolding refreshTokens_def by (intro step_rules sess_rotateSession)

lemma sess_sendRawEmail: "steps (sessStep E) (sendRawEmail C to subject body) s"
  unfolding sendRawEmail_def by (rule sess_dispatchEmail)

lemma sess_sendVerificationEmail: "steps (sessStep E) (sendVerificationEmail E' now p code) s"
  unfolding sendVerificationEmail_def by (intro step_rules sess_sendRawEmail sess_tables)

lemma sess_completeEmail: "steps (sessStep E) (completeEmailVerification E now i) s"
  unfolding completeEmailVerification_def openAccount_def createAccount_def
  by (intro step_rules sess_tables sess_issueTokens)

lemma sess_openSession: "steps (sessStep E) (openSession E now user rm) s"
  unfolding openSession_def by (intro step_rules sess_tables sess_issueTokens)

lemma sess_verifyCode: "steps (sessStep E) (verifyCode E' now i code) s"
  unfolding verifyCode_def decryptMfaSecret_def Let_def by (intro step_rules)

lemma sess_login: "steps (sessStep E) (login E now dto) s"
  unfolding login_def loginUnknown_def checkLoginAttempts_def incrementLoginAttempts_def
    resetLoginAttempts_def Let_def split_def
  by (intro step_rules sess_tables sess_openSession)

lemma sess_serve: "steps (sessStep E) (serveAuth E now q) s"
  by (cases q; simp only: serveAuth.simps answer_def register_def verifyEmailByToken_def verifyEmailByCode_def
        resendVerification_def completeMfaLogin_def forgotPassword_def resetPassword_def generateSecret_def
        verifyAndEnable_def disable_def decryptMfaSecret_def Let_def split_def;
      intro step_rules sess_tables sess_sendVerificationEmail sess_completeEmail sess_login sess_openSession
        sess_verifyCode sess_refreshTokens sess_revokeSession sess_sendRawEmail sess_deleteSessions)

lemma sess_requests: "sessStep E s (serveAuths E qs s)"
proof (induction qs arbitrary: s)
  case (Cons q qs)
  obtain now q' where q: "q = (now, q')" by (cases q)
  show ?case
    using sess.transR [OF sess_serve [of E now q' s, unfolded steps_def] Cons.IH] by (simp add: q)
qed (simp add: sess.reflR)

section \<open>A refresh token works once\<close>

lemma in_sessionIds: "x \<in> sessionIds s \<longleftrightarrow> (\<exists>r \<in> set (refreshSessions s). rs_currentJti r = x)"
  by (auto simp: sessionIds_def)

lemma rotateSession_ok:
  assumes "rotateSession E now u p s = (Inr r, t)"
  shows "\<exists>n. t = snd (consumeJti E now (u_id u) (nullish (jc_jti p) []) s) \<and>
    fst (consumeJti E now (u_id u) (nullish (jc_jti p) []) s) = Inr (mailUuid (au_mail E) (seqNo s), Suc n)"
proof -
  define n where "n = count_rows (\<lambda>r. rs_userId r = u_id u \<and> rs_currentJti r = nullish (jc_jti p) [] \<and>
    rs_revokedAt r = None) (refreshSessions s)"
  show ?thesis
  proof (cases n)
    case 0
    with assms show ?thesis
      by (simp add: rotateSession_def bindE_run consumeJti_run Let_def n_def thenE_run throw_run split: prod.splits sum.splits)
  next
    case (Suc m)
    with assms show ?thesis
      by (auto simp: rotateSession_def bindE_run consumeJti_run Let_def n_def asks_run ret_run roleNameOf_def throw_run
          split: option.splits)
  qed
qed

lemma rotateSession_gone:
  assumes "nullish (jc_jti p) [] \<notin> sessionIds s" "find (\<lambda>x. u_id x = u_id u) (users s) \<noteq> None"
  shows "\<exists>t. rotateSession E now u p s = (Inl (Unauthorized ''Session revoquee, veuillez vous reconnecter''), t) \<and>
    (\<forall>r \<in> set (refreshSessions t). rs_userId r \<noteq> u_id u) \<and>
    users t = update_rows (\<lambda>x. u_id x = u_id u) (\<lambda>x. x\<lparr>u_sessionVersion := Suc (u_sessionVersion x)\<rparr>) (users s)"
proof -
  have "\<forall>r \<in> set (refreshSessions s). \<not> (rs_userId r = u_id u \<and> rs_currentJti r = nullish (jc_jti p) [] \<and> rs_revokedAt r = None)"
    using assms(1) unfolding in_sessionIds by blast
  then have n: "count_rows (\<lambda>r. rs_userId r = u_id u \<and> rs_currentJti r = nullish (jc_jti p) [] \<and> rs_revokedAt r = None)
      (refreshSessions s) = 0" by (simp add: count_rows_0)
  obtain x where "find (\<lambda>x. u_id x = u_id u) (users s) = Some x" using assms(2) by blast
  with n show ?thesis
    by (auto simp: rotateSession_def bindE_run consumeJti_run Let_def thenE_run throw_run revokeSession_def
        transact_run updateUser_def updateOne_run deleteMany_run)
qed

text \<open>What \<open>refreshTokens\<close> checks before it consumes the identifier.\<close>

definition refreshable :: "claims \<Rightarrow> db \<Rightarrow> user_row \<Rightarrow> bool" where
  "refreshable p s u \<longleftrightarrow>
     \<not> truthy (jc_type p) \<and> find (\<lambda>x. u_id x = jc_sub p) (users s) = Some u \<and> u_isActive u \<and>
     jc_sessionVersion p = Some (u_sessionVersion u)"

lemma refreshTokens_run:
  assumes "verifyToken E RefreshKey now token = Some p" "refreshable p s u"
  shows "refreshTokens E now token s = rotateSession E now u p s"
  using assms by (simp add: refreshTokens_def refreshable_def exec_simps)

lemma refreshTokens_refused:
  assumes "verifyToken E RefreshKey now token = Some p" "\<And>u. \<not> refreshable p s u"
  shows "\<exists>e. refreshTokens E now token s = (Inl e, s)"
  using assms by (auto simp: refreshTokens_def refreshable_def exec_simps split: option.split)

lemma refreshTokens_ok:
  assumes "refreshTokens E now token s = (Inr r, t)"
  obtains p u where "verifyToken E RefreshKey now token = Some p" "refreshable p s u"
    "rotateSession E now u p s = (Inr r, t)"
proof (cases "verifyToken E RefreshKey now token")
  case None
  with assms show thesis by (simp add: refreshTokens_def throw_run)
next
  case (Some p)
  then obtain u where u: "refreshable p s u"
    using refreshTokens_refused [OF Some] assms by fastforce
  with that Some refreshTokens_run [OF Some u] assms show thesis by simp
qed

text \<open>The identifier of a token that was exchanged is gone, and stays so.\<close>

definition gone :: "auth_env \<Rightarrow> string \<Rightarrow> db \<Rightarrow> bool" where
  "gone E x s \<longleftrightarrow> x \<in> drawn E 0 (seqNo s) \<and> x \<notin> sessionIds s"

lemma gone_step:
  assumes "inj (mailUuid (au_mail E))" "gone E x s" "sessStep E s t"
  shows "gone E x t"
proof -
  obtain k where k: "x = mailUuid (au_mail E) k" "k < seqNo s" using assms(2) by (auto simp: gone_def drawn_def)
  then have "x \<notin> drawn E (seqNo s) (seqNo t)" using assms(1) by (auto simp: drawn_def dest: injD)
  moreover have "x \<in> drawn E 0 (seqNo t)" using k assms(3) by (auto simp: drawn_def sessStep_def)
  ultimately show ?thesis using assms(2,3) by (auto simp: gone_def sessStep_def)
qed

lemma consumed_gone:
  assumes "inj (mailUuid (au_mail E))" "sessInv E s" "rotateSession E now u p s = (Inr r, t)"
  shows "gone E (nullish (jc_jti p) []) t"
proof -
  let ?j = "nullish (jc_jti p) []"
  let ?new = "mailUuid (au_mail E) (seqNo s)"
  let ?P = "\<lambda>r. rs_userId r = u_id u \<and> rs_currentJti r = ?j \<and> rs_revokedAt r = None"
  let ?f = "\<lambda>r :: refresh_session_row. r\<lparr>rs_currentJti := ?new, rs_lastUsedAt := now\<rparr>"
  obtain n where n: "count_rows ?P (refreshSessions s) = Suc n"
    and t: "t = s\<lparr>seqNo := Suc (seqNo s), refreshSessions := update_rows ?P ?f (refreshSessions s)\<rparr>"
    using rotateSession_ok [OF assms(3)] by (auto simp: consumeJti_run Let_def)
  have "0 < count_rows ?P (refreshSessions s)" using n by simp
  then obtain x where x: "x \<in> set (refreshSessions s)" "?P x" by (auto simp: count_rows_pos)
  have j: "?j \<in> sessionIds s" using x unfolding in_sessionIds by blast
  then have "?j \<noteq> ?new" "?j \<in> drawn E 0 (Suc (seqNo s))"
    using fresh_jti [OF assms(1,2)] assms(2) drawn_mono [of 0 0 "seqNo s" "Suc (seqNo s)" E]
    by (auto simp: sessInv_def)
  moreover have "y = x" if "y \<in> set (refreshSessions s)" "rs_currentJti y = ?j" for y
    using distinct_key_eq [of rs_currentJti "refreshSessions s" y x] assms(2) that x by (simp add: sessInv_def)
  ultimately show ?thesis
    using x(2) by (auto simp: gone_def t in_sessionIds elim!: in_update_rowsE split: if_splits)
qed

lemma validate_revoked:
  assumes "refreshable p s u" "jc_sub c = jc_sub p" "jc_sessionVersion c = jc_sessionVersion p"
    "users v = update_rows (\<lambda>x. u_id x = u_id u) (\<lambda>x. x\<lparr>u_sessionVersion := Suc (u_sessionVersion x)\<rparr>) (users s)"
  shows "\<exists>e. fst (validate c v) = Inl e"
proof -
  have "u_id u = jc_sub p" using assms(1) find_Some_in [of _ "users s" u] by (auto simp: refreshable_def)
  then have "find (\<lambda>x. u_id x = jc_sub c) (users v) = Some (u\<lparr>u_sessionVersion := Suc (u_sessionVersion u)\<rparr>)"
    using assms(1,2,4) by (simp add: refreshable_def find_update_rows)
  with assms(1,3) show ?thesis by (auto simp: validate_def exec_simps refreshable_def)
qed

text \<open>
  C16. A refresh token works once: after it was exchanged, and whatever other requests the
  service receives in between, presenting it again is refused. If it would otherwise still be
  accepted, the reuse ends every session of the user: no refresh session is left, and the access
  tokens of the user's session version are refused from then on.
\<close>

theorem refresh_single_use:
  assumes "inj (mailUuid (au_mail E))" "sessInv E s"
    and "verifyToken E RefreshKey now token = Some p" "refreshTokens E now token s = (Inr r, t)"
    and "verifyToken E RefreshKey later token = Some p"
  shows "\<exists>e v. refreshTokens E later token (serveAuths E qs t) = (Inl e, v) \<and>
    (\<forall>u. refreshable p (serveAuths E qs t) u \<longrightarrow>
       (\<forall>x \<in> set (refreshSessions v). rs_userId x \<noteq> jc_sub p) \<and>
       (\<forall>c. jc_sub c = jc_sub p \<longrightarrow> jc_sessionVersion c = jc_sessionVersion p \<longrightarrow>
          (\<exists>e'. fst (validate c v) = Inl e')))"
proof -
  let ?w = "serveAuths E qs t"
  obtain p' u where ok: "verifyToken E RefreshKey now token = Some p'" "rotateSession E now u p' s = (Inr r, t)"
    using assms(4) by (rule refreshTokens_ok)
  then have "rotateSession E now u p s = (Inr r, t)" using assms(3) by simp
  from gone_step [OF assms(1) consumed_gone [OF assms(1,2) this] sess_requests]
  have gone: "nullish (jc_jti p) [] \<notin> sessionIds ?w" by (simp add: gone_def)
  show ?thesis
  proof (cases "\<exists>u. refreshable p ?w u")
    case False
    then show ?thesis using refreshTokens_refused [OF assms(5), of ?w] by blast
  next
    case True
    then obtain u where u: "refreshable p ?w u" by blast
    then have id: "u_id u = jc_sub p" "find (\<lambda>x. u_id x = u_id u) (users ?w) \<noteq> None"
      using find_Some_in [of "\<lambda>x. u_id x = jc_sub p" "users ?w" u] by (simp_all add: refreshable_def)
    obtain v where v: "rotateSession E later u p ?w =
        (Inl (Unauthorized ''Session revoquee, veuillez vous reconnecter''), v)"
      "\<forall>r \<in> set (refreshSessions v). rs_userId r \<noteq> u_id u"
      "users v = update_rows (\<lambda>x. u_id x = u_id u) (\<lambda>x. x\<lparr>u_sessionVersion := Suc (u_sessionVersion x)\<rparr>) (users ?w)"
      using rotateSession_gone [OF gone id(2)] by blast
    have "u' = u" if "refreshable p ?w u'" for u' using that u by (simp add: refreshable_def)
    with v validate_revoked [OF u _ _ v(3)] refreshTokens_run [OF assms(5) u] id(1) show ?thesis by auto
  qed
qed

section \<open>Lockout\<close>

lemma login_found:
  assumes "find (\<lambda>u. u_email u = ld_email dto) (users s) = Some u"
  shows "login E now dto s = thenE (checkLoginAttempts now (u_id u))
         (if \<not> comparePassword E (ld_password dto) (u_password u) then
            thenE (incrementLoginAttempts now (u_id u)) (throw (Unauthorized ''Identifiants invalides''))
          else
            thenE (resetLoginAttempts (u_id u))
            (let rememberMe = nullish (ld_remember dto) True in
             if u_mfaEnabled u then ret (MfaRequired (mfaChallenge E now (u_id u) rememberMe))
             else bindE (openSession E now u rememberMe)
                    (\<lambda>(tokens, info). ret (LoggedIn tokens info rememberMe)))) s"
  using assms by (simp add: login_def bindE_run findFirst_run)

lemma login_locked:
  assumes "find (\<lambda>u. u_email u = ld_email dto) (users s) = Some u" "distinct (map u_id (users s))"
    "MAX_LOGIN_ATTEMPTS \<le> u_failedLoginAttempts u" "u_lastFailedLoginAt u = Some w" "now - w < LOCK_TIME"
  shows "login E now dto s = (Inl (Unauthorized ''Trop de tentatives. Reessayez dans 15 minutes.''), s)"
proof -
  have "find (\<lambda>x. u_id x = u_id u) (users s) = Some u"
    using find_key [OF assms(2), of u] find_Some_in [OF assms(1)] by simp
  with assms(3-5) have "checkLoginAttempts now (u_id u) s =
      (Inl (Unauthorized ''Trop de tentatives. Reessayez dans 15 minutes.''), s)"
    by (simp add: checkLoginAttempts_def exec_simps)
  then show ?thesis by (simp add: login_found [OF assms(1)] thenE_run [where m = "checkLoginAttempts _ _"])
qed

lemma login_wrong:
  assumes "find (\<lambda>u. u_email u = ld_email dto) (users s) = Some u" "distinct (map u_id (users s))"
    "u_failedLoginAttempts u < MAX_LOGIN_ATTEMPTS" "\<not> comparePassword E (ld_password dto) (u_password u)"
  shows "users (snd (login E now dto s)) = update_rows (\<lambda>x. u_id x = u_id u)
     (\<lambda>x. x\<lparr>u_failedLoginAttempts := Suc (u_failedLoginAttempts x), u_lastFailedLoginAt := Some now\<rparr>) (users s)"
proof -
  have u: "find (\<lambda>x. u_id x = u_id u) (users s) = Some u"
    using find_key [OF assms(2), of u] find_Some_in [OF assms(1)] by simp
  with assms(3) have "checkLoginAttempts now (u_id u) s = (Inr (), s)"
    by (simp add: checkLoginAttempts_def exec_simps)
  with u assms(4) show ?thesis
    by (simp add: login_found [OF assms(1)] thenE_run throw_run ret_run incrementLoginAttempts_def updateUser_def updateOne_run)
qed

text \<open>The state after some wrong passwords given between \<open>a\<close> and \<open>b\<close>.\<close>

definition guessed :: "string \<Rightarrow> string \<Rightarrow> time \<Rightarrow> time \<Rightarrow> nat \<Rightarrow> db \<Rightarrow> bool" where
  "guessed email hash a b n s \<longleftrightarrow>
     distinct (map u_id (users s)) \<and>
     (\<exists>u. find (\<lambda>u. u_email u = email) (users s) = Some u \<and> u_password u = hash \<and>
        (u_failedLoginAttempts u < MAX_LOGIN_ATTEMPTS \<and> n \<le> u_failedLoginAttempts u \<or>
         MAX_LOGIN_ATTEMPTS \<le> u_failedLoginAttempts u \<and>
         (\<exists>w. u_lastFailedLoginAt u = Some w \<and> a \<le> w \<and> w \<le> b)))"

lemma guessed_step:
  assumes "guessed (ld_email dto) hash a b n s" "\<not> comparePassword E (ld_password dto) hash"
    "a \<le> now" "now \<le> b" "b - a < LOCK_TIME"
  shows "guessed (ld_email dto) hash a b (Suc n) (snd (login E now dto s))"
proof -
  obtain u where u: "find (\<lambda>u. u_email u = ld_email dto) (users s) = Some u" "u_password u = hash"
    and ids: "distinct (map u_id (users s))"
    and c: "u_failedLoginAttempts u < MAX_LOGIN_ATTEMPTS \<and> n \<le> u_failedLoginAttempts u \<or>
         MAX_LOGIN_ATTEMPTS \<le> u_failedLoginAttempts u \<and>
         (\<exists>w. u_lastFailedLoginAt u = Some w \<and> a \<le> w \<and> w \<le> b)"
    using assms(1) by (auto simp: guessed_def)
  from c show ?thesis
  proof
    assume c: "u_failedLoginAttempts u < MAX_LOGIN_ATTEMPTS \<and> n \<le> u_failedLoginAttempts u"
    let ?f = "\<lambda>x. x\<lparr>u_failedLoginAttempts := Suc (u_failedLoginAttempts x), u_lastFailedLoginAt := Some now\<rparr>"
    have t: "users (snd (login E now dto s)) = update_rows (\<lambda>x. u_id x = u_id u) ?f (users s)"
      using login_wrong [OF u(1) ids] c assms(2) u(2) by simp
    have "find (\<lambda>x. u_email x = ld_email dto) (update_rows (\<lambda>x. u_id x = u_id u) ?f (users s)) = Some (?f u)"
      using u(1) by (subst find_update_rows) simp_all
    moreover have "distinct (map u_id (users (snd (login E now dto s))))" using ids t by simp
    ultimately show ?thesis using c assms(3,4) u(2) unfolding guessed_def t
      by (intro conjI exI [of _ "?f u"]) (auto simp: MAX_LOGIN_ATTEMPTS_def)
  next
    assume "MAX_LOGIN_ATTEMPTS \<le> u_failedLoginAttempts u \<and>
         (\<exists>w. u_lastFailedLoginAt u = Some w \<and> a \<le> w \<and> w \<le> b)"
    then obtain w where w: "MAX_LOGIN_ATTEMPTS \<le> u_failedLoginAttempts u" "u_lastFailedLoginAt u = Some w"
      "a \<le> w" "w \<le> b" by blast
    have "now - w < LOCK_TIME" using assms(4,5) w(3) by linarith
    from login_locked [OF u(1) ids w(1,2) this] have "snd (login E now dto s) = s" by simp
    with u ids w show ?thesis unfolding guessed_def by (metis (no_types, lifting))
  qed
qed

lemma guessed_all:
  assumes "guessed email hash a b n s" "b - a < LOCK_TIME"
    "list_all (\<lambda>(now, dto). ld_email dto = email \<and> \<not> comparePassword E (ld_password dto) hash \<and> a \<le> now \<and> now \<le> b) xs"
  shows "guessed email hash a b (n + length xs) (serveAuths E (map (\<lambda>(now, dto). (now, Login dto)) xs) s)"
  using assms(1,3)
proof (induction xs arbitrary: n s)
  case (Cons x xs)
  obtain now dto where x: "x = (now, dto)" by (cases x)
  have "guessed email hash a b (Suc n) (snd (login E now dto s))"
    using guessed_step [of dto hash a b n s E now] Cons.prems assms(2) by (simp add: x)
  moreover have "snd (serveAuth E now (Login dto) s) = snd (login E now dto s)"
    by (simp add: answer_def snd_then_ret)
  ultimately show ?case using Cons.IH [of "Suc n"] Cons.prems(2) by (simp add: x)
qed simp

text \<open>
  C17. Password guessing is slowed down: from an account with fewer than five failures, after
  five or more wrong passwords within less than fifteen minutes every further login in that
  time is refused before the password is looked at, the right one too, and changes nothing.
\<close>

theorem login_lockout:
  assumes "distinct (map u_id (users s))" "find (\<lambda>u. u_email u = email) (users s) = Some u"
    "u_failedLoginAttempts u < 5" "b - a < 15 * 60 * 1000" "5 \<le> length xs"
    "list_all (\<lambda>(now, dto). ld_email dto = email \<and>
       \<not> comparePassword E (ld_password dto) (u_password u) \<and> a \<le> now \<and> now \<le> b) xs"
    "ld_email dto = email" "a \<le> now" "now \<le> b"
  shows "let t = serveAuths E (map (\<lambda>(now, dto). (now, Login dto)) xs) s in
    login E now dto t = (Inl (Unauthorized ''Trop de tentatives. Reessayez dans 15 minutes.''), t)"
proof -
  let ?t = "serveAuths E (map (\<lambda>(now, dto). (now, Login dto)) xs) s"
  have lock: "b - a < LOCK_TIME" using assms(4) by (simp add: LOCK_TIME_def)
  have "guessed email (u_password u) a b 0 s"
    using assms(1-3) by (simp add: guessed_def MAX_LOGIN_ATTEMPTS_def)
  from guessed_all [OF this lock assms(6)] assms(5) obtain v w where v: "distinct (map u_id (users ?t))"
      "find (\<lambda>u. u_email u = email) (users ?t) = Some v" "MAX_LOGIN_ATTEMPTS \<le> u_failedLoginAttempts v"
      "u_lastFailedLoginAt v = Some w" "a \<le> w" "w \<le> b"
    by (auto simp: guessed_def MAX_LOGIN_ATTEMPTS_def)
  have "now - w < LOCK_TIME" using assms(9) v(5) lock by linarith
  from login_locked [OF _ v(1,3,4) this] v(2) assms(7) show ?thesis by (simp add: Let_def)
qed

section \<open>Confirmed addresses\<close>

lemma createAccount_ok:
  assumes "createAccount E p s = (Inr u, t)"
  shows "users t = users s @ [u] \<and> u_email u = pd_email p \<and> u_password u = pd_passwordHash p \<and>
    u_role u = Some ''STUDENT'' \<and> \<not> u_mfaEnabled u \<and> pendings t = pendings s \<and>
    refreshSessions t = refreshSessions s"
  using assms unfolding createAccount_def
  by (auto simp: transact_run bindE_run newId_run insertRow_run thenE_run ret_run split: prod.splits sum.splits if_splits)

lemma issueTokens_users:
  "users (snd (issueTokens E now u rm s)) = users s \<and> pendings (snd (issueTokens E now u rm s)) = pendings s"
  by (simp add: issueTokens_def bindE_run thenE_run newId_run insertRow_run roleNameOf_def throw_run ret_run
      split: option.split)

lemma completeEmail_ok:
  assumes "completeEmailVerification E now i s = (Inr r, t)"
  shows "\<exists>p u. find (\<lambda>p. pd_id p = i) (pendings s) = Some p \<and> now \<le> pd_expiresAt p \<and>
    pd_email p \<notin> u_email ` set (users s) \<and> users t = users s @ [u] \<and> u_email u = pd_email p \<and>
    u_password u = pd_passwordHash p \<and> u_role u = Some ''STUDENT'' \<and>
    pendings t = filter (\<lambda>p. pd_id p \<noteq> i) (pendings s)"
proof -
  obtain p where p: "find (\<lambda>p. pd_id p = i) (pendings s) = Some p"
    using assms by (auto simp: completeEmailVerification_def bindE_run findOr_run split: option.splits)
  have a: "now \<le> pd_expiresAt p" using assms p
    by (auto simp: completeEmailVerification_def bindE_run findOr_run thenE_run throw_run discardPending_def
        deleteMany_run not_less [symmetric])
  have b: "find (\<lambda>u. u_email u = pd_email p) (users s) = None" using assms p a
    by (auto simp: completeEmailVerification_def bindE_run findOr_run findFirst_run thenE_run throw_run
        discardPending_def deleteMany_run split: if_splits)
  have id: "pd_id p = i" using find_Some_in [OF p] by simp
  have "openAccount E now p s = (Inr r, t)"
    using assms p a b
    by (auto simp: completeEmailVerification_def bindE_run findOr_run findFirst_run thenE_run
        discardPending_def deleteMany_run require_run split: if_splits)
  then obtain u s1 where c: "createAccount E p s = (Inr u, s1)"
    and rest: "snd (issueTokens E now u True (s1\<lparr>pendings := filter (\<lambda>p. pd_id p \<noteq> i) (pendings s1)\<rparr>)) = t"
    by (auto simp: openAccount_def bindE_run thenE_run discardPending_def deleteMany_run asks_run ret_run id
        split: prod.splits sum.splits)
  have "users t = users s @ [u] \<and> pendings t = filter (\<lambda>p. pd_id p \<noteq> i) (pendings s)"
    using issueTokens_users [of E now u True "s1\<lparr>pendings := filter (\<lambda>p. pd_id p \<noteq> i) (pendings s1)\<rparr>"]
      createAccount_ok [OF c] rest by simp
  with p a b createAccount_ok [OF c] show ?thesis
    by (intro exI [of _ p] exI [of _ u]) (auto simp: find_None)
qed

text \<open>
  An account exists only for a confirmed address: \<open>verifyEmailByCode\<close> succeeds only with
  the code last sent for a pending registration of this e-mail, within its 24 hours and after
  fewer than eight wrong codes; the new account has that e-mail and the password hash of the
  registration and the role of a student, no older account had the e-mail, and the registration
  is used up.
\<close>

theorem verification_creates_account:
  assumes "verifyEmailByCode E now email code s = (Inr r, t)" "distinct (map pd_id (pendings s))"
  shows "\<exists>p u. p \<in> set (pendings s) \<and> pd_email p = email \<and> pd_codeHash p = sha256Hex E code \<and>
    pd_codeAttempts p < 8 \<and> now \<le> pd_expiresAt p \<and> email \<notin> u_email ` set (users s) \<and>
    users t = users s @ [u] \<and> u_email u = email \<and> u_password u = pd_passwordHash p \<and>
    u_role u = Some ''STUDENT'' \<and> pendings t = filter (\<lambda>x. pd_id x \<noteq> pd_id p) (pendings s)"
proof -
  obtain p where p: "find (\<lambda>p. pd_email p = email) (pendings s) = Some p"
    and c: "pd_codeAttempts p < 8" "sha256Hex E code = pd_codeHash p"
    and run: "completeEmailVerification E now (pd_id p) s = (Inr r, t)"
    using assms(1)
    by (auto simp: verifyEmailByCode_def bindE_run findOr_run thenE_run throw_run
        MAX_VERIFICATION_CODE_ATTEMPTS_def discardPending_def deleteMany_run
        split: option.splits if_splits prod.splits sum.splits)
  have "find (\<lambda>x. pd_id x = pd_id p) (pendings s) = Some p"
    using find_key [OF assms(2), of p] find_Some_in [OF p] by simp
  with completeEmail_ok [OF run] c find_Some_in [OF p] show ?thesis by auto
qed

lemma sendRawEmail_frame:
  assumes "sendRawEmail C to subject body s = (r, t)"
  shows "users t = users s \<and> pendings t = pendings s \<and> refreshSessions t = refreshSessions s"
  using assms by (auto simp: sendRawEmail_def dispatchEmail_def Let_def thenE_run require_run addRow_run ret_run
      throw_run split: if_splits)

lemma sendVerificationEmail_ok:
  assumes "sendVerificationEmail E now p code s = (Inr u, t)"
  shows "users t = users s \<and> pendings t = pendings s \<and> refreshSessions t = refreshSessions s"
proof -
  obtain r s1 where r: "sendRawEmail (au_mail E) (pd_email p) ''Verifie ton adresse email - GET''
      (verificationText E now p code) s = (r, s1)" by fastforce
  with assms have "t = s1"
    by (cases r) (simp_all add: sendVerificationEmail_def catchE_run thenE_run ret_run throw_run discardPending_def deleteMany_run)
  with sendRawEmail_frame [OF r] show ?thesis by simp
qed

lemma register_again:
  assumes "register E now dto s = (Inr m, t)" "\<exists>x \<in> set (pendings s). pd_email x = rd_email dto"
  shows "users t = users s \<and> pendings t = update_rows (\<lambda>x. pd_email x = rd_email dto)
    (\<lambda>x. pendingOf E now dto (pd_id x) (hashPassword E (seqNo s) (rd_password dto))
      (encryptText E (Suc (Suc (seqNo s))) (rd_phone dto)) (verificationCode E (Suc (seqNo s)))) (pendings s)"
proof -
  let ?ps = "update_rows (\<lambda>x. pd_email x = rd_email dto)
    (\<lambda>x. pendingOf E now dto (pd_id x) (hashPassword E (seqNo s) (rd_password dto))
      (encryptText E (Suc (Suc (seqNo s))) (rd_phone dto)) (verificationCode E (Suc (seqNo s)))) (pendings s)"
  let ?s = "s\<lparr>seqNo := Suc (Suc (Suc (Suc (seqNo s)))), pendings := ?ps\<rparr>"
  have terms: "rd_acceptedTermsVersion dto = CURRENT_TERMS_VERSION"
    using assms(1) by (rule contrapos_pp) (simp add: register_def thenE_run require_run)
  have new: "find (\<lambda>u. u_email u = rd_email dto) (users s) = None"
    using assms(1) terms by (auto simp: register_def thenE_run require_run bindE_run findFirst_run split: if_splits)
  have "register E now dto s = bindE (findOr pendings (\<lambda>p. pd_email p = rd_email dto) (Failure ''P2025''))
      (\<lambda>pending. thenE (sendVerificationEmail E now pending (verificationCode E (Suc (seqNo s))))
         (ret (pd_email pending))) ?s"
    using terms new assms(2)
    by (simp add: register_def thenE_run require_run bindE_run [where m = "findFirst _ _"] findFirst_run
        bindE_run [where m = "newId _"] newId_run upsertRow_run Let_def)
  with assms(1) obtain p where run: "thenE (sendVerificationEmail E now p (verificationCode E (Suc (seqNo s))))
      (ret (pd_email p)) ?s = (Inr m, t)"
    by (auto simp: bindE_run findOr_run split: option.splits)
  obtain r u where r: "sendVerificationEmail E now p (verificationCode E (Suc (seqNo s))) ?s = (r, u)" by fastforce
  with run obtain x where "r = Inr x" "u = t" by (cases r) (simp_all add: thenE_run ret_run)
  with sendVerificationEmail_ok [of E now p _ ?s x t] r show ?thesis by simp
qed

text \<open>
  An old link takes a new password: when somebody registers the e-mail again before the
  link of the first registration is used, that link stays valid and opens the account with the
  password of the second registration, not of the person who receives and clicks the first.
\<close>

theorem old_link_takes_new_password:
  assumes "verifyToken E AccessKey later link = Some c" "jc_type c = Some ''email_verify''" "jc_sub c = pd_id p"
    "find (\<lambda>x. pd_email x = pd_email p) (pendings s) = Some p" "distinct (map pd_id (pendings s))"
    "rd_email dto = pd_email p" "register E now dto s = (Inr m, t)"
    "verifyEmailByToken E later link t = (Inr r, v)"
  shows "\<exists>u. users v = users s @ [u] \<and> u_email u = pd_email p \<and>
    u_password u = hashPassword E (seqNo s) (rd_password dto)"
proof -
  let ?row = "\<lambda>x. pendingOf E now dto (pd_id x) (hashPassword E (seqNo s) (rd_password dto))
    (encryptText E (Suc (Suc (seqNo s))) (rd_phone dto)) (verificationCode E (Suc (seqNo s)))"
  let ?ps = "update_rows (\<lambda>x. pd_email x = pd_email p) ?row (pendings s)"
  have in_s: "\<exists>x \<in> set (pendings s). pd_email x = pd_email p" using find_Some_in [OF assms(4)] by blast
  have found: "find (\<lambda>x. pd_email x = pd_email p) ?ps = Some (?row p)"
    using assms(4,6) by (subst find_update_rows) simp_all
  have t: "users t = users s \<and> pendings t = ?ps"
    using register_again [OF assms(7) in_s [folded assms(6)]] found assms(6) by simp
  have ids: "map pd_id ?ps = map pd_id (pendings s)" by simp
  have "find (\<lambda>x. pd_id x = pd_id p) ?ps = Some (?row p)"
    using find_key [of pd_id ?ps "?row p"] find_Some_in [OF found] assms(5) ids by simp
  moreover have "completeEmailVerification E later (pd_id p) t = (Inr r, v)"
    using assms(1-3,8) by (simp add: verifyEmailByToken_def thenE_run require_run)
  ultimately show ?thesis
    using completeEmail_ok [of E later "pd_id p" t r v] t assms(6) by auto
qed

section \<open>Password reset\<close>

lemma resetPassword_run:
  "resetPassword E now token newPassword s =
     (let P = resetMatches (sha256Hex E token) now;
          t = s\<lparr>seqNo := Suc (seqNo s), users := update_rows P
            (\<lambda>x. x\<lparr>u_password := hashPassword E (seqNo s) newPassword, u_resetTokenHash := None,
               u_resetTokenExpiresAt := None, u_sessionVersion := Suc (u_sessionVersion x)\<rparr>) (users s)\<rparr>
      in if count_rows P (users s) = 0 then (Inl (BadRequest ''Token invalide ou expire''), t)
         else (Inr (), case find P (users s) of None \<Rightarrow> t
                | Some u \<Rightarrow> t\<lparr>refreshSessions := filter (\<lambda>r. rs_userId r \<noteq> u_id u) (refreshSessions s)\<rparr>))"
  by (simp add: resetPassword_def Let_def bindE_run newId_run findFirst_run updateMany_run thenE_run
      require_run deleteMany_run ret_run split: option.split)

text \<open>
  A reset link works once and closes every session: when \<open>resetPassword\<close> succeeds, the
  token was the unexpired one of an account, that account alone changes (its password, and its
  session version, so that its earlier tokens are refused), none of its refresh sessions is left,
  and the same token never resets a password again.
\<close>

theorem reset_single_use:
  assumes "resetPassword E now token newPassword s = (Inr (), t)"
    "distinct (map u_resetTokenHash (filter (\<lambda>u. u_resetTokenHash u \<noteq> None) (users s)))"
  shows "\<exists>u \<in> set (users s). u_resetTokenHash u = Some (sha256Hex E token) \<and>
    (\<exists>w. u_resetTokenExpiresAt u = Some w \<and> now < w) \<and>
    users t = update_rows (\<lambda>x. x = u) (\<lambda>x. x\<lparr>u_password := hashPassword E (seqNo s) newPassword,
      u_resetTokenHash := None, u_resetTokenExpiresAt := None,
      u_sessionVersion := Suc (u_sessionVersion x)\<rparr>) (users s) \<and>
    (\<forall>r \<in> set (refreshSessions t). rs_userId r \<noteq> u_id u) \<and>
    fst (resetPassword E later token other t) = Inl (BadRequest ''Token invalide ou expire'')"
proof -
  let ?P = "resetMatches (sha256Hex E token) now"
  let ?f = "\<lambda>x. x\<lparr>u_password := hashPassword E (seqNo s) newPassword,
      u_resetTokenHash := None, u_resetTokenExpiresAt := None, u_sessionVersion := Suc (u_sessionVersion x)\<rparr>"
  have some: "count_rows ?P (users s) \<noteq> 0"
    using assms(1) by (auto simp: resetPassword_run Let_def split: if_splits)
  then obtain u where u: "find ?P (users s) = Some u"
    by (cases "find ?P (users s)") (auto simp: find_None count_rows_0)
  have one: "?P x \<longleftrightarrow> x = u" if x: "x \<in> set (users s)" for x
  proof
    assume "?P x"
    with distinct_key_eq [OF assms(2), of x u] x find_Some_in [OF u] show "x = u"
      by (simp add: resetMatches_def)
  next
    assume "x = u"
    with find_Some_in [OF u] show "?P x" by simp
  qed
  have users: "users t = update_rows ?P ?f (users s)"
    and sessions: "refreshSessions t = filter (\<lambda>r. rs_userId r \<noteq> u_id u) (refreshSessions s)"
    using assms(1) some u by (auto simp: resetPassword_run Let_def)
  have same: "update_rows ?P ?f (users s) = update_rows (\<lambda>x. x = u) ?f (users s)"
    unfolding update_rows_def using one by (intro map_cong) simp_all
  have none: "\<not> resetMatches (sha256Hex E token) later x" if x: "x \<in> set (users t)" for x
  proof -
    obtain y where y: "y \<in> set (users s)" "x = (if ?P y then ?f y else y)"
      using x unfolding users by (rule in_update_rowsE)
    have "u_resetTokenHash y \<noteq> Some (sha256Hex E token) \<or> y = u"
      using distinct_key_eq [OF assms(2), of y u] y(1) find_Some_in [OF u] by (auto simp: resetMatches_def)
    with y one [OF y(1)] show ?thesis by (auto simp: resetMatches_def)
  qed
  then have "find (resetMatches (sha256Hex E token) later) (users t) = None"
    "count_rows (resetMatches (sha256Hex E token) later) (users t) = 0"
    by (auto simp: find_None count_rows_0)
  then have "fst (resetPassword E later token other t) = Inl (BadRequest ''Token invalide ou expire'')"
    by (simp add: resetPassword_run Let_def)
  with users same sessions find_Some_in [OF u] show ?thesis
    by (intro bexI [of _ u]) (auto simp: resetMatches_def split: option.splits)
qed

section \<open>Second factor\<close>

text \<open>
  \<open>guarded_account i secret s\<close>: the account \<open>i\<close> has the second factor on, with this stored secret.
  A step is safe for it when it stays so and no session of the account is opened.
\<close>

definition guarded_account :: "id \<Rightarrow> string \<Rightarrow> db \<Rightarrow> bool" where
  "guarded_account i secret s \<longleftrightarrow>
     distinct (map u_id (users s)) \<and>
     (\<exists>u. find (\<lambda>u. u_id u = i) (users s) = Some u \<and> u_mfaEnabled u \<and> u_mfaSecret u = Some secret)"

definition openSessions :: "id \<Rightarrow> db \<Rightarrow> nat" where
  "openSessions i s = count_rows (\<lambda>r. rs_userId r = i) (refreshSessions s)"

definition mfaStep :: "id \<Rightarrow> string \<Rightarrow> db \<Rightarrow> db \<Rightarrow> bool" where
  "mfaStep i secret s t \<longleftrightarrow>
     (guarded_account i secret s \<longrightarrow> guarded_account i secret t \<and> openSessions i t \<le> openSessions i s)"

interpretation mfa: two_state "mfaStep i secret" for i secret
  by unfold_locales (auto simp: mfaStep_def)

lemma mfa_inv: "(guarded_account i secret s \<Longrightarrow> steps (mfaStep i secret) m s) \<Longrightarrow> steps (mfaStep i secret) m s"
  by (auto simp: steps_def mfaStep_def)

lemma mfaStep_frame:
  "users t = users s \<Longrightarrow> refreshSessions t = refreshSessions s \<Longrightarrow> mfaStep i secret s t"
  by (simp add: mfaStep_def guarded_account_def openSessions_def)

lemma mfa_tables:
  "steps (mfaStep i secret) (newId uuid) s"
  "steps (mfaStep i secret) (insertRow students students_update K x) s"
  "steps (mfaStep i secret) (updateOne pendings pendings_update P f) s"
  "steps (mfaStep i secret) (upsertRow pendings pendings_update P f p) s"
  "steps (mfaStep i secret) (discardPending j) s"
  "steps (mfaStep i secret) (addRow mails mails_update m) s"
  by (simp_all add: steps_def exec_simps discardPending_def mfaStep_frame split: option.split)

lemma guarded_account_update:
  assumes "guarded_account i secret s" "\<And>u. u_id (f u) = u_id u"
    "\<And>u. P u \<Longrightarrow> u_id u = i \<Longrightarrow> u_mfaEnabled u \<Longrightarrow> u_mfaEnabled (f u) \<and> u_mfaSecret (f u) = u_mfaSecret u"
  shows "guarded_account i secret (s\<lparr>users := update_rows P f (users s)\<rparr>)"
proof -
  obtain u where u: "find (\<lambda>u. u_id u = i) (users s) = Some u" "u_mfaEnabled u" "u_mfaSecret u = Some secret"
    using assms(1) by (auto simp: guarded_account_def)
  have "find (\<lambda>u. u_id u = i) (update_rows P f (users s)) = Some (if P u then f u else u)"
    using u(1) assms(2) by (subst find_update_rows) simp_all
  with u assms find_Some_in [OF u(1)] show ?thesis by (auto simp: guarded_account_def)
qed

lemma mfa_updateUsers:
  assumes "\<And>u. u_id (f u) = u_id u"
    "\<And>u. P u \<Longrightarrow> u_id u = i \<Longrightarrow> u_mfaEnabled u \<Longrightarrow> u_mfaEnabled (f u) \<and> u_mfaSecret (f u) = u_mfaSecret u"
  shows "steps (mfaStep i secret) (updateOne users users_update P f) s"
    "steps (mfaStep i secret) (updateMany users users_update P f) s"
  using guarded_account_update [of i secret s f P] assms
  by (simp_all add: steps_def updateOne_run updateMany_run mfaStep_def openSessions_def split: option.split)

lemma mfa_insertUser: "steps (mfaStep i secret) (insertRow users users_update userClash u) s"
  by (auto simp: steps_def insertRow_run mfaStep_def guarded_account_def openSessions_def find_append userClash_def)

lemma mfa_deleteSessions: "steps (mfaStep i secret) (deleteMany refreshSessions refreshSessions_update P) s"
proof -
  have "count_rows Q (filter P' rs) \<le> count_rows Q rs" for Q P' and rs :: "refresh_session_row list"
    by (induction rs) auto
  then show ?thesis by (simp add: steps_def deleteMany_run mfaStep_def guarded_account_def openSessions_def)
qed

lemma mfa_consumeJti: "steps (mfaStep i secret) (consumeJti E now userId jti) s"
proof -
  have "count_rows (\<lambda>r. rs_userId r = i) (update_rows P (\<lambda>r. r\<lparr>rs_currentJti := x, rs_lastUsedAt := now\<rparr>) rs) =
      count_rows (\<lambda>r. rs_userId r = i) rs" for P x and rs :: "refresh_session_row list"
    by (induction rs) auto
  then show ?thesis
    by (simp add: steps_def consumeJti_run Let_def mfaStep_def guarded_account_def openSessions_def)
qed

lemma mfa_issueTokens:
  assumes "u_id u \<noteq> i"
  shows "steps (mfaStep i secret) (issueTokens E now u rm) s"
proof -
  have "steps (mfaStep i secret) (insertRow refreshSessions refreshSessions_update sessionClash
      \<lparr>rs_userId = u_id u, rs_currentJti = j, rs_revokedAt = None, rs_lastUsedAt = now\<rparr>) s" for j s
    using assms by (simp add: steps_def insertRow_run mfaStep_def guarded_account_def openSessions_def count_rows_def)
  then show ?thesis
    unfolding issueTokens_def roleNameOf_def by (intro step_rules mfa_tables)
qed

lemma mfa_updateUser:
  assumes "\<And>u. u_id (f u) = u_id u"
    "\<And>u. j = i \<Longrightarrow> u_mfaEnabled u \<Longrightarrow> u_mfaEnabled (f u) \<and> u_mfaSecret (f u) = u_mfaSecret u"
  shows "steps (mfaStep i secret) (updateUser j f) s"
  unfolding updateUser_def using assms by (intro mfa_updateUsers) auto

lemma mfa_openSession:
  assumes "u_id u \<noteq> i"
  shows "steps (mfaStep i secret) (openSession E now u rm) s"
  unfolding openSession_def using assms by (intro step_rules mfa_updateUser mfa_issueTokens) simp_all

lemma mfa_createAccount:
  assumes "createAccount E p s = (Inr u, t)" "guarded_account i secret s"
  shows "u_id u \<noteq> i"
proof -
  have "i \<in> u_id ` set (users s)" using assms(2) by (auto simp: guarded_account_def dest!: find_Some_in)
  moreover have "u_id u \<notin> u_id ` set (users s)"
    using assms(1) unfolding createAccount_def
    by (auto simp: transact_run bindE_run newId_run insertRow_run thenE_run ret_run userClash_def
        split: prod.splits sum.splits if_splits)
  ultimately show ?thesis by auto
qed

lemma mfa_createAccount_step: "steps (mfaStep i secret) (createAccount E p) s"
  unfolding createAccount_def by (intro step_rules mfa_tables mfa_insertUser)

lemma mfa_openAccount: "steps (mfaStep i secret) (openAccount E now p) s"
proof (rule mfa_inv)
  assume "guarded_account i secret s"
  then show ?thesis
    unfolding openAccount_def using mfa_createAccount [of E p s _ _ i secret]
    by (intro mfa.steps_bindE mfa.steps_thenE mfa_createAccount_step mfa_tables mfa_issueTokens mfa.steps_asks mfa.steps_ret)
      blast
qed

lemma mfa_completeEmail: "steps (mfaStep i secret) (completeEmailVerification E now j) s"
  unfolding completeEmailVerification_def by (intro step_rules mfa_tables mfa_openAccount)

lemma readonly_verifyCode: "steps (=) (verifyCode E now j code) s"
  unfolding verifyCode_def decryptMfaSecret_def Let_def by (intro step_rules)

lemma mfa_readonly: "steps (=) m s \<Longrightarrow> steps (mfaStep i secret) m s"
  by (simp add: steps_def mfa.reflR)

lemma mfa_login: "steps (mfaStep i secret) (login E now dto) s"
proof (rule mfa_inv)
  assume inv: "guarded_account i secret s"
  have other: "u_id u \<noteq> i" if "find (\<lambda>u. u_email u = ld_email dto) (users s) = Some u" "\<not> u_mfaEnabled u" for u
    using inv that find_Some_in [OF that(1)] distinct_key_eq [of u_id "users s" u]
    by (auto simp: guarded_account_def dest!: find_Some_in)
  have attempts: "steps (mfaStep i secret) (checkLoginAttempts now j) t"
    "steps (mfaStep i secret) (incrementLoginAttempts now j) t"
    "steps (mfaStep i secret) (resetLoginAttempts j) t" for j t
    unfolding checkLoginAttempts_def incrementLoginAttempts_def resetLoginAttempts_def
    by (intro step_rules mfa_updateUser; simp)+
  show ?thesis
    unfolding login_def
  proof (rule mfa.steps_bindE [OF mfa.steps_findFirst])
    fix found t assume "findFirst users (\<lambda>u. u_email u = ld_email dto) s = (Inr found, t)"
    then have "found = find (\<lambda>u. u_email u = ld_email dto) (users s)" unfolding findFirst_run by blast
    with other show "steps (mfaStep i secret) (case found of
       None \<Rightarrow> loginUnknown E dto
     | Some user \<Rightarrow>
         thenE (checkLoginAttempts now (u_id user))
         (if \<not> comparePassword E (ld_password dto) (u_password user) then
            thenE (incrementLoginAttempts now (u_id user)) (throw (Unauthorized ''Identifiants invalides''))
          else
            thenE (resetLoginAttempts (u_id user))
            (let rememberMe = nullish (ld_remember dto) True in
             if u_mfaEnabled user then ret (MfaRequired (mfaChallenge E now (u_id user) rememberMe))
             else bindE (openSession E now user rememberMe)
                    (\<lambda>(tokens, info). ret (LoggedIn tokens info rememberMe))))) t"
      unfolding loginUnknown_def Let_def split_def
      by (intro step_rules attempts mfa_openSession) simp_all
  qed
qed

text \<open>A request without a valid code for the stored secret.\<close>

fun codeOf :: "auth_request \<Rightarrow> string option" where
  "codeOf (CompleteMfa _ code) = Some code"
| "codeOf (EnableMfa _ code) = code"
| "codeOf (DisableMfa _ code) = Some code"
| "codeOf _ = None"

definition validCode :: "auth_env \<Rightarrow> time \<Rightarrow> string \<Rightarrow> string \<Rightarrow> bool" where
  "validCode E now secret code \<longleftrightarrow>
     (case decryptText E secret of None \<Rightarrow> False | Some x \<Rightarrow> totpVerify E now x code)"

definition withoutCode :: "auth_env \<Rightarrow> string \<Rightarrow> time \<times> auth_request \<Rightarrow> bool" where
  "withoutCode E secret = (\<lambda>(now, q).
     case codeOf q of None \<Rightarrow> True | Some code \<Rightarrow> \<not> validCode E now secret code)"

lemma verifyCode_guarded_account:
  assumes "guarded_account i secret s" "\<not> validCode E now secret code"
  shows "fst (verifyCode E now i code s) \<noteq> Inr True"
  using assms by (auto simp: guarded_account_def verifyCode_def bindE_run findFirst_run Let_def decryptMfaSecret_def
      validCode_def ret_run throw_run split: option.splits)

lemma verifyCode_run: "verifyCode E now j code s = (fst (verifyCode E now j code s), s)"
  using readonly_verifyCode [of E now j code s] by (cases "verifyCode E now j code s") (simp add: steps_def)

lemma mfa_disable:
  assumes "\<not> validCode E now secret code"
  shows "steps (mfaStep i secret) (disable E now j code) s"
proof (rule mfa_inv)
  assume inv: "guarded_account i secret s"
  show ?thesis
  proof (cases "j = i")
    case True
    with verifyCode_guarded_account [OF inv assms] have "snd (disable E now j code s) = s"
      by (cases "fst (verifyCode E now i code s)")
        (auto simp: disable_def readonly_bind [OF readonly_verifyCode] thenE_run require_run)
    then show ?thesis by (simp add: steps_def mfa.reflR)
  next
    case False
    then show ?thesis
      unfolding disable_def by (intro step_rules mfa_updateUser mfa_readonly [OF readonly_verifyCode]) simp_all
  qed
qed

lemma mfa_generateSecret:
  assumes "\<And>c. code = Some c \<Longrightarrow> \<not> validCode E now secret c"
  shows "steps (mfaStep i secret) (generateSecret E now j code) s"
proof (rule mfa_inv)
  assume inv: "guarded_account i secret s"
  show ?thesis
  proof (cases "j = i")
    case True
    obtain u where u: "find (\<lambda>u. u_id u = i) (users s) = Some u" "u_mfaEnabled u"
      using inv by (auto simp: guarded_account_def)
    have read: "steps (=) (if truthy code then verifyCode E now j (the code) else ret False) s"
      by (intro step_rules readonly_verifyCode)
    have "fst ((if truthy code then verifyCode E now j (the code) else ret False) s) \<noteq> Inr True"
      using verifyCode_guarded_account [OF inv] assms True by (cases code) (auto simp: ret_run)
    then have "snd (generateSecret E now j code s) = s"
      using u True
      by (cases "fst ((if truthy code then verifyCode E now j (the code) else ret False) s)")
        (auto simp: generateSecret_def bindE_run [where m = "findOr _ _ _"] findOr_run thenE_run whenE_run
          readonly_bind [OF read] readonly_bind [OF readonly_verifyCode] require_run ret_run split: if_splits)
    then show ?thesis by (simp add: steps_def mfa.reflR)
  next
    case False
    then show ?thesis
      unfolding generateSecret_def
      by (intro step_rules mfa_tables mfa_updateUser mfa_readonly [OF readonly_verifyCode]) simp_all
  qed
qed

lemma mfa_completeMfa:
  assumes "\<not> validCode E now secret code"
  shows "steps (mfaStep i secret) (completeMfaLogin E now token code) s"
proof (rule mfa_inv)
  assume inv: "guarded_account i secret s"
  have "steps (mfaStep i secret)
      (bindE (verifyCode E now (u_id u) code) (\<lambda>verified.
       thenE (require verified (BadRequest ''Code MFA invalide'')) (bindE (openSession E now u rm) (\<lambda>x. ret (f x))))) s"
    for u rm and f :: "session_tokens \<times> user_info \<Rightarrow> bool \<times> session_tokens \<times> user_info"
  proof (cases "u_id u = i")
    case True
    with verifyCode_guarded_account [OF inv assms]
    have "snd (bindE (verifyCode E now (u_id u) code) (\<lambda>verified.
       thenE (require verified (BadRequest ''Code MFA invalide'')) (bindE (openSession E now u rm) (\<lambda>x. ret (f x)))) s) = s"
      by (cases "fst (verifyCode E now i code s)")
        (auto simp: readonly_bind [OF readonly_verifyCode] thenE_run require_run)
    then show ?thesis by (simp add: steps_def mfa.reflR)
  next
    case False
    then show ?thesis
      by (intro step_rules mfa_openSession mfa_readonly [OF readonly_verifyCode])
  qed
  then show ?thesis
    by (auto simp: completeMfaLogin_def Let_def split_def steps_def bindE_run [where m = "findFirst _ _"]
        findFirst_run thenE_run [where m = "require _ _"] require_run throw_run mfa.reflR
        split: option.split)
qed

lemma mfa_serve:
  assumes "withoutCode E secret (now, q)"
  shows "steps (mfaStep i secret) (serveAuth E now q) s"
proof -
  have rotate: "steps (mfaStep i secret) (rotateSession E now u p) s" for u p s
    unfolding rotateSession_def revokeSession_def roleNameOf_def Let_def split_def
    by (intro step_rules mfa_consumeJti mfa_updateUser mfa_deleteSessions) simp_all
  have mail: "steps (mfaStep i secret) (sendRawEmail C to subject body) s" for C to subject body s
    unfolding sendRawEmail_def dispatchEmail_def Let_def by (intro step_rules mfa_tables)
  have update: "steps (mfaStep i secret) (updateUser j f) s"
    if "\<And>u. u_id (f u) = u_id u" "\<And>u. u_mfaEnabled u \<Longrightarrow> u_mfaEnabled (f u)" "\<And>u. u_mfaSecret (f u) = u_mfaSecret u" for j f s
    using that by (intro mfa_updateUser) auto
  show ?thesis
    using assms
    by (cases q; simp only: serveAuth.simps answer_def register_def verifyEmailByToken_def verifyEmailByCode_def
        resendVerification_def sendVerificationEmail_def forgotPassword_def resetPassword_def refreshTokens_def
        revokeSession_def verifyAndEnable_def decryptMfaSecret_def Let_def split_def;
      intro step_rules mfa_tables mfa_completeEmail mfa_login mfa_generateSecret mfa_completeMfa mfa_disable
        mfa_updateUsers update mail rotate mfa_deleteSessions; simp add: withoutCode_def)
qed

text \<open>
  C18. The second factor cannot be bypassed: whatever requests the service receives, as long as
  none of them carries a valid code for the stored secret, an account with the second factor on
  keeps it on, with this secret, and no session of the account is opened.
\<close>

theorem second_factor_required:
  assumes "guarded_account i secret s" "list_all (withoutCode E secret) qs"
  shows "guarded_account i secret (serveAuths E qs s) \<and>
    openSessions i (serveAuths E qs s) \<le> openSessions i s"
  using assms
proof (induction qs arbitrary: s)
  case (Cons q qs)
  obtain now q' where q: "q = (now, q')" by (cases q)
  have "mfaStep i secret s (snd (serveAuth E now q' s))"
    using mfa_serve [of E secret now q' i s] Cons.prems(2) by (simp add: q steps_def)
  then have "guarded_account i secret (snd (serveAuth E now q' s))"
    "openSessions i (snd (serveAuth E now q' s)) \<le> openSessions i s"
    using Cons.prems(1) by (simp_all add: mfaStep_def)
  with Cons.IH [of "snd (serveAuth E now q' s)"] Cons.prems(2) show ?case by (simp add: q)
qed simp

section \<open>Examples\<close>

text \<open>Transparent stand-ins for the libraries: a hash is the text with a mark before it.\<close>

definition sample_claims :: claims where
  "sample_claims =
     (noClaims ''u1'')\<lparr>jc_sessionVersion := Some 0, jc_jti := Some ''id-''\<rparr>"

definition sample_auth :: auth_env where
  "sample_auth =
     \<lparr>au_mail = sample_mail, hashPassword = (\<lambda>n p. ''h:'' @ p), comparePassword = (\<lambda>p h. h = ''h:'' @ p),
      sha256Hex = (\<lambda>x. ''#'' @ x), verificationCode = (\<lambda>n. ''123456''), resetTokenBytes = (\<lambda>n. ''tok''),
      encryptText = (\<lambda>n x. ''e:'' @ x), decryptText = (\<lambda>x. Some (drop 2 x)),
      signToken = (\<lambda>k now life c. ''token''),
      verifyToken = (\<lambda>k now t.
        if k = RefreshKey \<and> t = ''rt'' then Some sample_claims
        else if k = AccessKey \<and> t = ''link'' then Some ((noClaims ''pd1'')\<lparr>jc_type := Some ''email_verify''\<rparr>)
        else None),
      totpVerify = (\<lambda>now secret code. code = secret @ ''!''), newTotpSecret = (\<lambda>n. ''S''),
      accessLifetime = 900000, refreshLifetime = 604800000, frontendUrlVar = None, roleNames = [''STUDENT'']\<rparr>"

definition sample_account :: user_row where
  "sample_account = (sample_user ''u1'' ''STUDENT'')\<lparr>u_password := ''h:good''\<rparr>"

definition sample_pending :: pending_row where
  "sample_pending =
     \<lparr>pd_id = ''pd1'', pd_email = ''b@get.mg'', pd_passwordHash = ''h:mine'', pd_firstName = ''B'',
      pd_lastName = ''C'', pd_phone = ''e:034'', pd_codeHash = ''#123456'', pd_codeAttempts = 0,
      pd_expiresAt = 100, pd_acceptedTermsVersion = CURRENT_TERMS_VERSION\<rparr>"

definition sample_accounts :: db where
  "sample_accounts =
     empty_db\<lparr>users := [sample_account], pendings := [sample_pending],
       refreshSessions := [\<lparr>rs_userId = ''u1'', rs_currentJti = ''id-'', rs_revokedAt = None, rs_lastUsedAt = 0\<rparr>],
       seqNo := 1\<rparr>"

lemmas sample_auth_defs = sample_auth_def sample_claims_def sample_account_def sample_pending_def
  sample_accounts_def sample_user_def sample_mail_def sample_uuid_def noClaims_def empty_db_def

lemma inj_sample_uuid: "inj sample_uuid"
  by (auto simp: inj_def sample_uuid_def)

lemma sample_sessInv: "sessInv sample_auth sample_accounts"
proof -
  have "sessionIds sample_accounts = {mailUuid (au_mail sample_auth) 0}"
    by (simp add: sessionIds_def sample_auth_defs)
  moreover have "mailUuid (au_mail sample_auth) 0 \<in> drawn sample_auth 0 1"
    by (auto simp: drawn_def)
  ultimately have "sessionIds sample_accounts \<subseteq> drawn sample_auth 0 (seqNo sample_accounts)"
    by (simp add: sample_accounts_def)
  then show ?thesis by (simp add: sessInv_def sample_accounts_def)
qed

lemma sample_refreshed: "\<exists>r t. refreshTokens sample_auth 0 ''rt'' sample_accounts = (Inr r, t)"
  by (simp add: refreshTokens_def rotateSession_def consumeJti_run exec_simps Let_def roleNameOf_def sample_auth_defs)
    blast

theorem refresh_single_use_witness:
  "\<exists>e v. refreshTokens sample_auth 5 ''rt'' (snd (refreshTokens sample_auth 0 ''rt'' sample_accounts)) = (Inl e, v)"
proof -
  obtain r t where run: "refreshTokens sample_auth 0 ''rt'' sample_accounts = (Inr r, t)"
    using sample_refreshed by blast
  have "inj (mailUuid (au_mail sample_auth))"
    by (simp add: sample_auth_def sample_mail_def inj_sample_uuid)
  from refresh_single_use [OF this sample_sessInv _ run, of sample_claims 5 "[]"] run show ?thesis
    by (auto simp: sample_auth_def)
qed

definition sample_guess :: "string \<Rightarrow> login_dto" where
  "sample_guess p = \<lparr>ld_email = ''u1@get.mg'', ld_password = p, ld_remember = None\<rparr>"

theorem login_lockout_witness:
  "let t = serveAuths sample_auth (replicate 5 (0, Login (sample_guess ''bad''))) sample_accounts in
   login sample_auth 1000 (sample_guess ''good'') t =
     (Inl (Unauthorized ''Trop de tentatives. Reessayez dans 15 minutes.''), t)"
proof -
  have "map (\<lambda>(now, dto). (now, Login dto)) (replicate 5 (0 :: time, sample_guess ''bad'')) =
      replicate 5 (0, Login (sample_guess ''bad''))" by simp
  with login_lockout [of sample_accounts "''u1@get.mg''" sample_account 1000 0
      "replicate 5 (0, sample_guess ''bad'')" sample_auth "sample_guess ''good''" 1000]
  show ?thesis by (simp add: sample_auth_defs sample_guess_def list_all_iff)
qed

theorem verification_creates_account_witness:
  "\<exists>r t u. verifyEmailByCode sample_auth 50 ''b@get.mg'' ''123456'' sample_accounts = (Inr r, t) \<and>
     users t = [sample_account, u] \<and> u_email u = ''b@get.mg'' \<and> u_password u = ''h:mine'' \<and> pendings t = []"
proof -
  have "\<exists>r t. verifyEmailByCode sample_auth 50 ''b@get.mg'' ''123456'' sample_accounts = (Inr r, t)"
    by (simp add: verifyEmailByCode_def completeEmailVerification_def openAccount_def createAccount_def
        discardPending_def issueTokens_def roleNameOf_def exec_simps auth_constants sample_auth_defs
        userClash_def sessionClash_def studentClash_def)
  then obtain r t where run: "verifyEmailByCode sample_auth 50 ''b@get.mg'' ''123456'' sample_accounts = (Inr r, t)"
    by blast
  from verification_creates_account [OF run] run show ?thesis
    by (auto simp: sample_accounts_def sample_pending_def)
qed

definition sample_takeover_dto :: register_dto where
  "sample_takeover_dto =
     \<lparr>rd_email = ''b@get.mg'', rd_password = ''theirs'', rd_firstName = ''X'', rd_lastName = ''Y'',
      rd_phone = ''033'', rd_acceptedTermsVersion = CURRENT_TERMS_VERSION\<rparr>"

theorem old_link_takes_new_password_witness:
  "\<exists>r v u. verifyEmailByToken sample_auth 60 ''link'' (snd (register sample_auth 50 sample_takeover_dto sample_accounts)) =
       (Inr r, v) \<and> users v = [sample_account, u] \<and> u_email u = ''b@get.mg'' \<and> u_password u = ''h:theirs''"
proof -
  let ?t = "snd (register sample_auth 50 sample_takeover_dto sample_accounts)"
  have reg: "\<exists>m. register sample_auth 50 sample_takeover_dto sample_accounts = (Inr m, ?t)"
    by (simp add: register_def sendVerificationEmail_def sendRawEmail_def dispatchEmail_def discardPending_def
        exec_simps Let_def sample_auth_defs sample_takeover_dto_def)
  have "\<exists>r v. verifyEmailByToken sample_auth 60 ''link'' ?t = (Inr r, v)"
    by (simp add: verifyEmailByToken_def completeEmailVerification_def openAccount_def createAccount_def
        register_def sendVerificationEmail_def sendRawEmail_def dispatchEmail_def discardPending_def
        issueTokens_def roleNameOf_def exec_simps Let_def sample_auth_defs sample_takeover_dto_def
        pendingOf_def EMAIL_VERIFICATION_EXPIRATION_MS_def
        userClash_def sessionClash_def studentClash_def)
  with reg obtain m r v where run: "register sample_auth 50 sample_takeover_dto sample_accounts = (Inr m, ?t)"
    "verifyEmailByToken sample_auth 60 ''link'' ?t = (Inr r, v)" by blast
  from old_link_takes_new_password [OF _ _ _ _ _ _ run(1,2), of _ sample_pending] run(2) show ?thesis
    by (auto simp: sample_auth_defs sample_takeover_dto_def)
qed

definition sample_forgot :: db where
  "sample_forgot = sample_accounts\<lparr>users := [sample_account\<lparr>u_resetTokenHash := Some ''#tok'',
     u_resetTokenExpiresAt := Some 100\<rparr>]\<rparr>"

theorem reset_single_use_witness:
  "\<exists>t. resetPassword sample_auth 50 ''tok'' ''new'' sample_forgot = (Inr (), t) \<and>
     refreshSessions t = [] \<and> map u_password (users t) = [''h:new''] \<and>
     fst (resetPassword sample_auth 60 ''tok'' ''again'' t) = Inl (BadRequest ''Token invalide ou expire'')"
proof -
  obtain t where run: "resetPassword sample_auth 50 ''tok'' ''new'' sample_forgot = (Inr (), t)"
    by (simp add: resetPassword_run Let_def sample_forgot_def sample_auth_defs resetMatches_def)
  have "refreshSessions t = []" using run
    by (auto simp: resetPassword_run Let_def sample_forgot_def sample_auth_defs resetMatches_def)
  with reset_single_use [OF run, of 60 "''again''"] run show ?thesis
    by (auto simp: sample_forgot_def sample_auth_defs)
qed

definition sample_guarded :: db where
  "sample_guarded = sample_accounts\<lparr>users := [sample_account\<lparr>u_mfaEnabled := True, u_mfaSecret := Some ''e:S''\<rparr>]\<rparr>"

theorem second_factor_required_witness:
  "let t = serveAuths sample_auth [(0, Login (sample_guess ''good'')), (1, CompleteMfa ''token'' ''000000''),
        (2, DisableMfa ''u1'' ''123456'')] sample_guarded
   in guarded_account ''u1'' ''e:S'' t \<and> openSessions ''u1'' t \<le> 1"
proof -
  have account: "guarded_account ''u1'' ''e:S'' sample_guarded" "openSessions ''u1'' sample_guarded = 1"
    by (simp_all add: guarded_account_def openSessions_def sample_guarded_def sample_auth_defs)
  have "list_all (withoutCode sample_auth ''e:S'') [(0, Login (sample_guess ''good'')),
      (1, CompleteMfa ''token'' ''000000''), (2, DisableMfa ''u1'' ''123456'')]"
    by (simp add: withoutCode_def validCode_def sample_auth_def)
  from second_factor_required [OF account(1) this] account(2) show ?thesis by (simp only: Let_def)
qed

end
