(* ===== verification/Storage.thy ===== *)
theory Storage
  imports Pagination Text
begin

text \<open>
  \<open>StorageService\<close> (\<open>common/services/storage.service.ts\<close>): the checks on the content of uploaded
  files, the keys and addresses of the objects in the two S3 buckets, and the images recorded in
  the database. The S3 store is the list \<open>objects\<close> of the database record; whether a request to
  it goes through, the signed addresses and the random names are parameters, the fields of
  \<open>store_env\<close> with the environment variables. A file is its bytes, one character per byte. The
  main facts: what content is accepted, against the table of the formats' signatures; an upload
  always lands under the folder of its owner, whatever the name of the file; the key of a public
  image is found again from its address.
\<close>

section \<open>Environment\<close>

record store_env =
  S3_BUCKET :: "string option"
  S3_PUBLIC_BUCKET :: "string option"
  S3_PUBLIC_URL :: "string option"
  S3_ENDPOINT :: "string option"
  APP_URL :: "string option"
  s3_put :: "string \<Rightarrow> string \<Rightarrow> bool"
  s3_head :: "string \<Rightarrow> string \<Rightarrow> bool"
  s3_delete :: "string \<Rightarrow> string \<Rightarrow> bool"
  s3_sign :: "string \<Rightarrow> string \<Rightarrow> int \<Rightarrow> string"
  randomHex :: "nat \<Rightarrow> string"
  rowUuid :: "nat \<Rightarrow> id"

text \<open>\<open>value || fallback\<close> on a text.\<close>

definition orText :: "string option \<Rightarrow> string \<Rightarrow> string" where
  "orText x d = (case x of None \<Rightarrow> d | Some v \<Rightarrow> if v = [] then d else v)"

definition privateBucket :: "store_env \<Rightarrow> string" where
  "privateBucket E = orText (S3_BUCKET E) ''get-poc-uploads''"

definition publicBucket :: "store_env \<Rightarrow> string" where
  "publicBucket E = orText (S3_PUBLIC_BUCKET E) ''get-poc-public''"

record upload =
  f_originalname :: string
  f_mimetype :: string
  f_size :: int
  f_buffer :: string

section \<open>Names, keys and addresses\<close>

text \<open>
  \<open>path.extname\<close> and \<open>path.isAbsolute\<close> on POSIX: the extension starts at the last dot of the last
  portion of the path, a dot that starts the portion does not count.
\<close>

definition lastPortion :: "string \<Rightarrow> string" where
  "lastPortion p = rev (takeWhile (\<lambda>c. c \<noteq> CHR ''/'') (dropWhile (\<lambda>c. c = CHR ''/'') (rev p)))"

definition extname :: "string \<Rightarrow> string" where
  "extname p =
     (let b = lastPortion p in
      if b = ''..'' then []
      else case dropWhile (\<lambda>c. c \<noteq> CHR ''.'') (rev b) of
             d # before # _ \<Rightarrow> CHR ''.'' # rev (takeWhile (\<lambda>c. c \<noteq> CHR ''.'') (rev b))
           | _ \<Rightarrow> [])"

definition isAbsolute :: "string \<Rightarrow> bool" where
  "isAbsolute p \<longleftrightarrow> take 1 p = ''/''"

definition unsafeSegment :: "string \<Rightarrow> bool" where
  "unsafeSegment x \<longleftrightarrow> containsText x ''..'' \<or> isAbsolute x"

definition buildKey :: "string list \<Rightarrow> ('s, string) exec" where
  "buildKey segments =
     thenE (require (\<not> list_ex unsafeSegment segments) (BadRequest ''Chemin de stockage invalide''))
       (ret (joinWith ''/'' segments))"

text \<open>\<open>replace(/\/$/, '')\<close>\<close>

definition stripSlash :: "string \<Rightarrow> string" where
  "stripSlash x = (if x \<noteq> [] \<and> last x = CHR ''/'' then butlast x else x)"

definition publicObjectUrl :: "store_env \<Rightarrow> string \<Rightarrow> string" where
  "publicObjectUrl E key =
     (if truthy (S3_PUBLIC_URL E) then stripSlash (orText (S3_PUBLIC_URL E) []) @ ''/'' @ key
      else stripSlash (orText (S3_ENDPOINT E) []) @ ''/'' @ publicBucket E @ ''/'' @ key)"

definition stripPrefix :: "string \<Rightarrow> string \<Rightarrow> string option" where
  "stripPrefix p x = (if take (length p) x = p then Some (drop (length p) x) else None)"

definition keyFromPublicUrl :: "store_env \<Rightarrow> string \<Rightarrow> string option" where
  "keyFromPublicUrl E url =
     (case (if truthy (S3_PUBLIC_URL E)
            then stripPrefix (stripSlash (orText (S3_PUBLIC_URL E) []) @ ''/'') url else None) of
        Some key \<Rightarrow> Some key
      | None \<Rightarrow>
          if orText (S3_ENDPOINT E) [] \<noteq> []
          then stripPrefix (stripSlash (orText (S3_ENDPOINT E) []) @ ''/'' @ publicBucket E @ ''/'') url
          else None)"

definition protectedObjectUrl :: "store_env \<Rightarrow> string list \<Rightarrow> string" where
  "protectedObjectUrl E segments =
     orText (APP_URL E) ''http://localhost:3001'' @ ''/uploads/'' @ joinWith ''/'' segments"

definition generateFileName :: "store_env \<Rightarrow> string \<Rightarrow> (db, string) exec" where
  "generateFileName E originalName =
     bindE (newId (randomHex E)) (\<lambda>base. ret (base @ map lowerChar (extname originalName)))"

text \<open>The regular expression of an identifier: hexadecimal groups of 8, 4, 4, 4 and 12.\<close>

definition hexChar :: "char \<Rightarrow> bool" where
  "hexChar c \<longleftrightarrow> c \<in> set ''0123456789abcdefABCDEF''"

definition isUuid :: "string \<Rightarrow> bool" where
  "isUuid x \<longleftrightarrow>
     length x = 36 \<and>
     list_all (\<lambda>(i, c).
       if i \<in> {8, 13, 18, 23} then c = CHR ''-''
       else if i = 14 then c \<in> set ''12345678''
       else if i = 19 then c \<in> set ''89abAB''
       else hexChar c) (enumerate 0 x)"

definition assertSafeEntityId :: "string option \<Rightarrow> ('s, unit) exec" where
  "assertSafeEntityId entityId =
     (case entityId of
        None \<Rightarrow> ret ()
      | Some i \<Rightarrow> require (i = [] \<or> isUuid i) (BadRequest ''Identifiant de dossier invalide''))"

section \<open>Content\<close>

definition isPng :: "string \<Rightarrow> bool" where
  "isPng b \<longleftrightarrow> 8 \<le> length b \<and>
     take 8 b = [CHR 0x89, CHR 0x50, CHR 0x4E, CHR 0x47, CHR 0x0D, CHR 0x0A, CHR 0x1A, CHR 0x0A]"

definition isJpeg :: "string \<Rightarrow> bool" where
  "isJpeg b \<longleftrightarrow> 3 \<le> length b \<and> b ! 0 = CHR 0xFF \<and> b ! 1 = CHR 0xD8 \<and> b ! 2 = CHR 0xFF"

definition isWebp :: "string \<Rightarrow> bool" where
  "isWebp b \<longleftrightarrow> 12 \<le> length b \<and> take 4 b = ''RIFF'' \<and> take 4 (drop 8 b) = ''WEBP''"

definition isPdf :: "string \<Rightarrow> bool" where
  "isPdf b \<longleftrightarrow> 5 \<le> length b \<and> take 5 b = ''%PDF-''"

definition isDoc :: "string \<Rightarrow> bool" where
  "isDoc b \<longleftrightarrow> 8 \<le> length b \<and>
     take 8 b = [CHR 0xD0, CHR 0xCF, CHR 0x11, CHR 0xE0, CHR 0xA1, CHR 0xB1, CHR 0x1A, CHR 0xE1]"

definition isDocx :: "string \<Rightarrow> bool" where
  "isDocx b \<longleftrightarrow> 4 \<le> length b \<and> take 4 b = [CHR ''P'', CHR ''K'', CHR 0x03, CHR 0x04]"

definition isMp4OrMov :: "string \<Rightarrow> bool" where
  "isMp4OrMov b \<longleftrightarrow> 8 \<le> length b \<and> take 4 (drop 4 b) = ''ftyp''"

definition isWebm :: "string \<Rightarrow> bool" where
  "isWebm b \<longleftrightarrow> 4 \<le> length b \<and> take 4 b = [CHR 0x1A, CHR 0x45, CHR 0xDF, CHR 0xA3]"

definition PDF :: string where "PDF = ''application/pdf''"
definition MSWORD :: string where "MSWORD = ''application/msword''"
definition DOCX :: string where
  "DOCX = ''application/vnd.openxmlformats-officedocument.wordprocessingml.document''"
definition PPTX :: string where
  "PPTX = ''application/vnd.openxmlformats-officedocument.presentationml.presentation''"
definition XLSX :: string where
  "XLSX = ''application/vnd.openxmlformats-officedocument.spreadsheetml.sheet''"

definition imageMimes :: "string list" where
  "imageMimes = [''image/jpeg'', ''image/png'', ''image/webp'']"

definition videoMimes :: "string list" where
  "videoMimes = [''video/mp4'', ''video/quicktime'', ''video/webm'']"

definition archiveMimes :: "string list" where
  "archiveMimes = [PPTX, XLSX, ''application/zip'', ''application/x-zip-compressed'']"

definition assertSafeImage :: "upload \<Rightarrow> ('s, unit) exec" where
  "assertSafeImage f =
     thenE (require (f_mimetype f \<in> set imageMimes) (BadRequest ''Format image non autorise''))
     (let b = f_buffer f in
      require (isPng b \<or> isJpeg b \<or> isWebp b)
        (BadRequest ''Le contenu du fichier ne correspond pas a une image valide''))"

definition allowedMimes :: "bool \<Rightarrow> string list" where
  "allowedMimes allowCourseMaterials =
     [PDF, ''image/jpeg'', ''image/png'', MSWORD, DOCX] @
     (if allowCourseMaterials then ''image/webp'' # archiveMimes else [])"

definition assertSafeDocument :: "upload \<Rightarrow> bool \<Rightarrow> ('s, unit) exec" where
  "assertSafeDocument f allowCourseMaterials =
     thenE (require (f_mimetype f \<in> set (allowedMimes allowCourseMaterials))
              (BadRequest ''Format de document non autorise''))
     (if f_mimetype f \<in> set imageMimes then assertSafeImage f
      else
        (let b = f_buffer f; m = f_mimetype f in
         require
           ((m = PDF \<and> isPdf b) \<or> (m = MSWORD \<and> isDoc b) \<or> (m = DOCX \<and> isDocx b) \<or>
            (allowCourseMaterials \<and> m \<in> set archiveMimes \<and> isDocx b))
           (BadRequest ''Le contenu du fichier ne correspond pas a son format declare'')))"

definition assertSafeVideo :: "upload \<Rightarrow> ('s, unit) exec" where
  "assertSafeVideo f =
     thenE (require (f_mimetype f \<in> set videoMimes) (BadRequest ''Format video non autorise''))
     (let b = f_buffer f; m = f_mimetype f in
      require
        ((m \<in> set [''video/mp4'', ''video/quicktime''] \<and> isMp4OrMov b) \<or> (m = ''video/webm'' \<and> isWebm b))
        (BadRequest ''Le contenu du fichier ne correspond pas a une video valide''))"

definition MESSAGE_ATTACHMENT_LIMITS :: "string \<Rightarrow> int" where
  "MESSAGE_ATTACHMENT_LIMITS kind =
     (if kind = ''VIDEO'' then 20 * 1024 * 1024 else 5 * 1024 * 1024)"

definition attachmentKind :: "upload \<Rightarrow> ('s, string) exec" where
  "attachmentKind f =
     (if f_mimetype f \<in> set imageMimes then thenE (assertSafeImage f) (ret ''IMAGE'')
      else if f_mimetype f \<in> set [PDF, MSWORD, DOCX] then thenE (assertSafeDocument f False) (ret ''DOCUMENT'')
      else if f_mimetype f \<in> set videoMimes then thenE (assertSafeVideo f) (ret ''VIDEO'')
      else throw (BadRequest ''Type de piece jointe non autorise''))"

definition assertSafeMessageAttachment :: "upload \<Rightarrow> ('s, string) exec" where
  "assertSafeMessageAttachment f =
     bindE (attachmentKind f) (\<lambda>kind.
     thenE (require (\<not> MESSAGE_ATTACHMENT_LIMITS kind < f_size f)
              (BadRequest (''Ce fichier depasse la taille maximale autorisee ('' @
                 show_int (MESSAGE_ATTACHMENT_LIMITS kind div (1024 * 1024)) @ '' Mo)'')))
     (ret kind))"

section \<open>Operations\<close>

datatype image_entity =
    EntSTUDENT | EntTEACHER | EntSCHOOL | EntADMIN | EntMINISTRY | EntOFFER | EntSYSTEM
  | EntANNOUNCEMENT | EntLANDING_NEWS | EntFINANCIAL_PARTNER

datatype image_kind = ImgAVATAR | ImgLOGO | ImgILLUSTRATION | ImgBANNER

fun entityName :: "image_entity \<Rightarrow> string" where
  "entityName EntSTUDENT = ''STUDENT''"
| "entityName EntTEACHER = ''TEACHER''"
| "entityName EntSCHOOL = ''SCHOOL''"
| "entityName EntADMIN = ''ADMIN''"
| "entityName EntMINISTRY = ''MINISTRY''"
| "entityName EntOFFER = ''OFFER''"
| "entityName EntSYSTEM = ''SYSTEM''"
| "entityName EntANNOUNCEMENT = ''ANNOUNCEMENT''"
| "entityName EntLANDING_NEWS = ''LANDING_NEWS''"
| "entityName EntFINANCIAL_PARTNER = ''FINANCIAL_PARTNER''"

fun kindName :: "image_kind \<Rightarrow> string" where
  "kindName ImgAVATAR = ''AVATAR''"
| "kindName ImgLOGO = ''LOGO''"
| "kindName ImgILLUSTRATION = ''ILLUSTRATION''"
| "kindName ImgBANNER = ''BANNER''"

definition sameObject :: "string \<Rightarrow> string \<Rightarrow> object_row \<Rightarrow> bool" where
  "sameObject bucket key b \<longleftrightarrow> ob_bucket b = bucket \<and> ob_key b = key"

definition putObject :: "store_env \<Rightarrow> string \<Rightarrow> string \<Rightarrow> upload \<Rightarrow> (db, unit) exec" where
  "putObject E bucket key file =
     thenE (require (s3_put E bucket key) (Failure ''S3''))
     (upsertRow objects objects_update (sameObject bucket key)
        (\<lambda>b. b\<lparr>ob_contentType := f_mimetype file, ob_body := f_buffer file\<rparr>)
        \<lparr>ob_bucket = bucket, ob_key = key, ob_contentType = f_mimetype file, ob_body = f_buffer file\<rparr>)"

definition uploadImage ::
  "store_env \<Rightarrow> time \<Rightarrow> upload \<Rightarrow> image_entity \<Rightarrow> id option \<Rightarrow> image_kind \<Rightarrow> (db, id \<times> string) exec" where
  "uploadImage E now file entityType entityId type =
     thenE (assertSafeImage file)
     (thenE (assertSafeEntityId entityId)
     (bindE (generateFileName E (f_originalname file)) (\<lambda>fileName.
      bindE (buildKey [map lowerChar (entityName entityType), map lowerChar (kindName type),
                       orText entityId ''system'', fileName]) (\<lambda>key.
      thenE (putObject E (publicBucket E) key file)
      (bindE (newId (rowUuid E)) (\<lambda>i.
       thenE (addRow images images_update
                \<lparr>im_id = i, im_url = publicObjectUrl E key, im_type = kindName type,
                 im_entityType = entityName entityType, im_entityId = entityId,
                 im_mimeType = f_mimetype file, im_size = f_size file, im_createdAt = now\<rparr>)
       (ret (i, publicObjectUrl E key))))))))"

text \<open>The steps the three private uploads share: name, key, object, address.\<close>

definition storePrivate :: "store_env \<Rightarrow> string \<Rightarrow> id \<Rightarrow> upload \<Rightarrow> (db, string) exec" where
  "storePrivate E folder owner file =
     bindE (generateFileName E (f_originalname file)) (\<lambda>fileName.
     bindE (buildKey [folder, owner, fileName]) (\<lambda>key.
     thenE (putObject E (privateBucket E) key file)
     (ret (protectedObjectUrl E [folder, owner, fileName]))))"

definition uploadDocument :: "store_env \<Rightarrow> upload \<Rightarrow> id \<Rightarrow> (db, string) exec" where
  "uploadDocument E file studentId =
     thenE (assertSafeDocument file False)
     (thenE (assertSafeEntityId (Some studentId)) (storePrivate E ''documents'' studentId file))"

definition uploadCourseMaterial :: "store_env \<Rightarrow> upload \<Rightarrow> id \<Rightarrow> (db, string) exec" where
  "uploadCourseMaterial E file courseId =
     thenE (assertSafeDocument file True)
     (thenE (assertSafeEntityId (Some courseId)) (storePrivate E ''course-materials'' courseId file))"

record saved_attachment =
  sv_url :: string
  sv_fileName :: string
  sv_mimeType :: string
  sv_size :: int
  sv_kind :: string

definition saveMessageAttachment :: "store_env \<Rightarrow> upload \<Rightarrow> id \<Rightarrow> (db, saved_attachment) exec" where
  "saveMessageAttachment E file messageId =
     bindE (assertSafeMessageAttachment file) (\<lambda>kind.
     thenE (assertSafeEntityId (Some messageId))
     (bindE (storePrivate E ''messages'' messageId file) (\<lambda>url.
      ret \<lparr>sv_url = url, sv_fileName = f_originalname file, sv_mimeType = f_mimetype file,
           sv_size = f_size file, sv_kind = kind\<rparr>)))"

definition getImage :: "image_entity \<Rightarrow> id \<Rightarrow> image_kind \<Rightarrow> (db, string option) exec" where
  "getImage entityType entityId type =
     asks (\<lambda>s. case orderDesc im_createdAt
              (filter (\<lambda>im. im_entityType im = entityName entityType \<and> im_entityId im = Some entityId \<and>
                             im_type im = kindName type) (images s)) of
           [] \<Rightarrow> None | im # _ \<Rightarrow> if im_url im = [] then None else Some (im_url im))"

text \<open>A deletion that the store refuses is logged and swallowed.\<close>

definition dropObject :: "store_env \<Rightarrow> string \<Rightarrow> string \<Rightarrow> (db, unit) exec" where
  "dropObject E bucket key =
     whenE (s3_delete E bucket key) (deleteMany objects objects_update (sameObject bucket key))"

definition deleteImage :: "store_env \<Rightarrow> id \<Rightarrow> (db, unit) exec" where
  "deleteImage E imageId =
     bindE (findFirst images (\<lambda>im. im_id im = imageId)) (\<lambda>found.
     case found of
       None \<Rightarrow> ret ()
     | Some img \<Rightarrow>
         thenE (case keyFromPublicUrl E (im_url img) of
                  None \<Rightarrow> ret ()
                | Some key \<Rightarrow> whenE (key \<noteq> []) (dropObject E (publicBucket E) key))
           (deleteMany images images_update (\<lambda>im. im_id im = imageId)))"

definition deleteObject :: "store_env \<Rightarrow> string list \<Rightarrow> (db, unit) exec" where
  "deleteObject E segments = bindE (buildKey segments) (dropObject E (privateBucket E))"

definition PRESIGNED_URL_TTL_SECONDS :: int where
  "PRESIGNED_URL_TTL_SECONDS = 60"

definition headObject :: "store_env \<Rightarrow> string \<Rightarrow> string \<Rightarrow> (db, bool) exec" where
  "headObject E bucket key =
     asks (\<lambda>s. s3_head E bucket key \<and> list_ex (sameObject bucket key) (objects s))"

definition createPresignedDownloadUrl :: "store_env \<Rightarrow> string list \<Rightarrow> (db, string option) exec" where
  "createPresignedDownloadUrl E segments =
     bindE (buildKey segments) (\<lambda>key.
     bindE (headObject E (privateBucket E) key) (\<lambda>exists.
     ret (if exists then Some (s3_sign E (privateBucket E) key PRESIGNED_URL_TTL_SECONDS) else None)))"

section \<open>Accepted content\<close>

text \<open>
  The reference: the signatures of each format, bytes at an offset; a format with several
  signatures is recognised by one of them, each signature by all its parts.
\<close>

type_synonym signature = "(nat \<times> string) list"

definition hasSignature :: "string \<Rightarrow> signature \<Rightarrow> bool" where
  "hasSignature b sig \<longleftrightarrow> list_all (\<lambda>(i, magic). take (length magic) (drop i b) = magic) sig"

definition anyImage :: "signature list" where
  "anyImage =
     [[(0, [CHR 0x89] @ ''PNG'' @ [CHR 0x0D, CHR 0x0A, CHR 0x1A, CHR 0x0A])],
      [(0, [CHR 0xFF, CHR 0xD8, CHR 0xFF])],
      [(0, ''RIFF''), (8, ''WEBP'')]]"

definition attachmentTable :: "(string \<times> string \<times> signature list) list" where
  "attachmentTable =
     [(''image/jpeg'', ''IMAGE'', anyImage),
      (''image/png'', ''IMAGE'', anyImage),
      (''image/webp'', ''IMAGE'', anyImage),
      (PDF, ''DOCUMENT'', [[(0, ''%PDF-'')]]),
      (MSWORD, ''DOCUMENT'',
         [[(0, [CHR 0xD0, CHR 0xCF, CHR 0x11, CHR 0xE0, CHR 0xA1, CHR 0xB1, CHR 0x1A, CHR 0xE1])]]),
      (DOCX, ''DOCUMENT'', [[(0, ''PK'' @ [CHR 0x03, CHR 0x04])]]),
      (''video/mp4'', ''VIDEO'', [[(4, ''ftyp'')]]),
      (''video/quicktime'', ''VIDEO'', [[(4, ''ftyp'')]]),
      (''video/webm'', ''VIDEO'', [[(0, [CHR 0x1A, CHR 0x45, CHR 0xDF, CHR 0xA3])]])]"

definition megabytes :: "string \<Rightarrow> int" where
  "megabytes kind = (if kind = ''VIDEO'' then 20 else 5)"

text \<open>The lengths that the code checks first are implied by the comparison.\<close>

lemma hasSignature_one: "hasSignature b [(i, m)] \<longleftrightarrow> take (length m) (drop i b) = m"
  by (simp add: hasSignature_def)

lemma hasSignature_two: "hasSignature b [x, y] \<longleftrightarrow> hasSignature b [x] \<and> hasSignature b [y]"
  by (simp add: hasSignature_def)

lemma guarded_signature:
  assumes "length m = n" "0 < n" "k \<le> i + n"
  shows "k \<le> length b \<and> take n (drop i b) = m \<longleftrightarrow> hasSignature b [(i, m)]"
proof -
  have "k \<le> length b" if "take n (drop i b) = m"
    using arg_cong [OF that, of length] assms by simp
  with assms(1) show ?thesis by (auto simp: hasSignature_one)
qed

lemmas guarded_start = guarded_signature [where i = 0, unfolded drop_0]

lemma png_signature:
  "isPng b \<longleftrightarrow> hasSignature b [(0, [CHR 0x89] @ ''PNG'' @ [CHR 0x0D, CHR 0x0A, CHR 0x1A, CHR 0x0A])]"
  unfolding isPng_def by (subst guarded_start) simp_all

lemma jpeg_signature: "isJpeg b \<longleftrightarrow> hasSignature b [(0, [CHR 0xFF, CHR 0xD8, CHR 0xFF])]"
  by (cases b; cases "tl b"; cases "tl (tl b)") (auto simp: isJpeg_def hasSignature_one)

lemma webp_signature: "isWebp b \<longleftrightarrow> hasSignature b [(0, ''RIFF''), (8, ''WEBP'')]"
proof -
  have "12 \<le> length b \<and> take 4 (drop 8 b) = ''WEBP'' \<longleftrightarrow> hasSignature b [(8, ''WEBP'')]"
    by (rule guarded_signature) simp_all
  moreover have "take 4 b = ''RIFF'' \<longleftrightarrow> hasSignature b [(0, ''RIFF'')]"
    using guarded_start [of "''RIFF''" 4 0 b] by simp
  ultimately show ?thesis unfolding isWebp_def hasSignature_two [of b "(0, ''RIFF'')"] by blast
qed

lemma pdf_signature: "isPdf b \<longleftrightarrow> hasSignature b [(0, ''%PDF-'')]"
  unfolding isPdf_def by (rule guarded_start) simp_all

lemma doc_signature:
  "isDoc b \<longleftrightarrow> hasSignature b
     [(0, [CHR 0xD0, CHR 0xCF, CHR 0x11, CHR 0xE0, CHR 0xA1, CHR 0xB1, CHR 0x1A, CHR 0xE1])]"
  unfolding isDoc_def by (rule guarded_start) simp_all

lemma docx_signature: "isDocx b \<longleftrightarrow> hasSignature b [(0, ''PK'' @ [CHR 0x03, CHR 0x04])]"
  unfolding isDocx_def by (subst guarded_start) simp_all

lemma mp4_signature: "isMp4OrMov b \<longleftrightarrow> hasSignature b [(4, ''ftyp'')]"
  unfolding isMp4OrMov_def by (rule guarded_signature) simp_all

lemma webm_signature: "isWebm b \<longleftrightarrow> hasSignature b [(0, [CHR 0x1A, CHR 0x45, CHR 0xDF, CHR 0xA3])]"
  unfolding isWebm_def by (rule guarded_start) simp_all

lemmas signature_simps = png_signature jpeg_signature webp_signature pdf_signature doc_signature
  docx_signature mp4_signature webm_signature

lemma image_signatures:
  "(isPng b \<or> isJpeg b \<or> isWebp b) \<longleftrightarrow> (\<exists>sig \<in> set anyImage. hasSignature b sig)"
  unfolding signature_simps anyImage_def by simp

text \<open>The lists of types are disjoint; their names are not unfolded further down.\<close>

lemma mime_clash:
  "PDF \<notin> set imageMimes" "MSWORD \<notin> set imageMimes" "DOCX \<notin> set imageMimes"
  "PDF \<notin> set videoMimes" "MSWORD \<notin> set videoMimes" "DOCX \<notin> set videoMimes"
  "PDF \<notin> set archiveMimes" "MSWORD \<notin> set archiveMimes" "DOCX \<notin> set archiveMimes"
  "PDF \<noteq> MSWORD" "PDF \<noteq> DOCX" "MSWORD \<noteq> DOCX" "set imageMimes \<inter> set videoMimes = {}"
  by (simp_all add: PDF_def MSWORD_def DOCX_def PPTX_def XLSX_def imageMimes_def videoMimes_def archiveMimes_def)

definition accepted :: "upload \<Rightarrow> string \<Rightarrow> bool" where
  "accepted f kind \<longleftrightarrow>
     (\<exists>sigs. (f_mimetype f, kind, sigs) \<in> set attachmentTable \<and>
             (\<exists>sig \<in> set sigs. hasSignature (f_buffer f) sig))"

lemma accepted_alt:
  "accepted f kind \<longleftrightarrow>
     (f_mimetype f \<in> set imageMimes \<and> kind = ''IMAGE'' \<and> (\<exists>sig \<in> set anyImage. hasSignature (f_buffer f) sig)) \<or>
     (f_mimetype f = PDF \<and> kind = ''DOCUMENT'' \<and> isPdf (f_buffer f)) \<or>
     (f_mimetype f = MSWORD \<and> kind = ''DOCUMENT'' \<and> isDoc (f_buffer f)) \<or>
     (f_mimetype f = DOCX \<and> kind = ''DOCUMENT'' \<and> isDocx (f_buffer f)) \<or>
     (f_mimetype f \<in> set [''video/mp4'', ''video/quicktime''] \<and> kind = ''VIDEO'' \<and> isMp4OrMov (f_buffer f)) \<or>
     (f_mimetype f = ''video/webm'' \<and> kind = ''VIDEO'' \<and> isWebm (f_buffer f))"
proof -
  have one: "(\<exists>sigs. (m, k, sigs) \<in> set ((x, y, z) # zs) \<and> (\<exists>sig \<in> set sigs. P sig)) \<longleftrightarrow>
      (m = x \<and> k = y \<and> (\<exists>sig \<in> set z. P sig)) \<or> (\<exists>sigs. (m, k, sigs) \<in> set zs \<and> (\<exists>sig \<in> set sigs. P sig))"
    for m k :: string and x y z zs and P :: "signature \<Rightarrow> bool" by auto
  have none: "(\<exists>sigs. (m, k, sigs) \<in> set [] \<and> (\<exists>sig \<in> set sigs. P sig)) \<longleftrightarrow> False"
    for m k :: string and P :: "signature \<Rightarrow> bool" by simp
  have single: "(\<exists>sig \<in> set [x]. P sig) = P x" for x and P :: "signature \<Rightarrow> bool" by simp
  have member: "m \<in> set [x, y] \<longleftrightarrow> m = x \<or> m = y" for m x y :: string by simp
  have member3: "m \<in> set [x, y, z] \<longleftrightarrow> m = x \<or> m = y \<or> m = z" for m x y z :: string by simp
  have regroup: "(a1 \<and> i \<and> S) \<or> (a2 \<and> i \<and> S) \<or> (a3 \<and> i \<and> S) \<or> x1 \<or> x2 \<or> x3 \<or> (b1 \<and> v \<and> M) \<or> (b2 \<and> v \<and> M) \<or> x4 \<or> False
      \<longleftrightarrow> ((a1 \<or> a2 \<or> a3) \<and> i \<and> S) \<or> x1 \<or> x2 \<or> x3 \<or> ((b1 \<or> b2) \<and> v \<and> M) \<or> x4"
    for a1 a2 a3 i S x1 x2 x3 b1 b2 v M x4 :: bool by blast
  show ?thesis
    unfolding accepted_def attachmentTable_def one none single imageMimes_def member member3 signature_simps
    by (rule regroup)
qed

lemma allowed_documents: "m \<in> set [PDF, MSWORD, DOCX] \<Longrightarrow> m \<in> set (allowedMimes allow)"
  by (auto simp: allowedMimes_def)

lemma attachmentKind_run:
  "attachmentKind f s =
     (if f_mimetype f \<in> set imageMimes then
        (if \<exists>sig \<in> set anyImage. hasSignature (f_buffer f) sig then (Inr ''IMAGE'', s)
         else (Inl (BadRequest ''Le contenu du fichier ne correspond pas a une image valide''), s))
      else if f_mimetype f \<in> set [PDF, MSWORD, DOCX] then
        (if (f_mimetype f = PDF \<and> isPdf (f_buffer f)) \<or> (f_mimetype f = MSWORD \<and> isDoc (f_buffer f)) \<or>
            (f_mimetype f = DOCX \<and> isDocx (f_buffer f)) then (Inr ''DOCUMENT'', s)
         else (Inl (BadRequest ''Le contenu du fichier ne correspond pas a son format declare''), s))
      else if f_mimetype f \<in> set videoMimes then
        (if (f_mimetype f \<in> set [''video/mp4'', ''video/quicktime''] \<and> isMp4OrMov (f_buffer f)) \<or>
            (f_mimetype f = ''video/webm'' \<and> isWebm (f_buffer f)) then (Inr ''VIDEO'', s)
         else (Inl (BadRequest ''Le contenu du fichier ne correspond pas a une video valide''), s))
      else (Inl (BadRequest ''Type de piece jointe non autorise''), s))"
proof (cases "f_mimetype f \<in> set imageMimes")
  case True
  then show ?thesis
    unfolding attachmentKind_def assertSafeImage_def Let_def image_signatures thenE_run require_run ret_run if_P [OF True]
    by (cases "\<exists>sig \<in> set anyImage. hasSignature (f_buffer f) sig") simp_all
next
  case False
  show ?thesis
  proof (cases "f_mimetype f \<in> set [PDF, MSWORD, DOCX]")
    case True
    show ?thesis
      unfolding attachmentKind_def if_not_P [OF False] if_P [OF True] assertSafeDocument_def
        thenE_run require_run ret_run Let_def if_P [OF allowed_documents [OF True]]
      by simp
  next
    case not_document: False
    show ?thesis
    proof (cases "f_mimetype f \<in> set videoMimes")
      case True
      show ?thesis
        unfolding attachmentKind_def if_not_P [OF False] if_not_P [OF not_document] if_P [OF True]
          assertSafeVideo_def thenE_run require_run ret_run Let_def
        by simp
    next
      case no_video: False
      show ?thesis
        unfolding attachmentKind_def if_not_P [OF False] if_not_P [OF not_document] if_not_P [OF no_video] throw_run ..
    qed
  qed
qed

lemma attachmentKind_accepted: "fst (attachmentKind f s) = Inr kind \<longleftrightarrow> accepted f kind"
proof -
  let ?m = "f_mimetype f"
  have video: "?m \<in> set videoMimes \<longleftrightarrow> ?m \<in> set [''video/mp4'', ''video/quicktime''] \<or> ?m = ''video/webm''"
    unfolding videoMimes_def by simp
  have document: "?m \<in> set [PDF, MSWORD, DOCX] \<longleftrightarrow> ?m = PDF \<or> ?m = MSWORD \<or> ?m = DOCX" by simp
  have image_alone: "?m \<in> set imageMimes \<Longrightarrow> ?m \<notin> set videoMimes" using mime_clash(13) by blast
  have document_alone: "?m = PDF \<or> ?m = MSWORD \<or> ?m = DOCX \<Longrightarrow> ?m \<notin> set imageMimes \<and> ?m \<notin> set videoMimes"
    by (elim disjE) (simp_all only: mime_clash not_False_eq_True simp_thms)
  have result: "fst (if b then (Inr k, s) else (Inl e, s)) = Inr kind \<longleftrightarrow> b \<and> kind = k" for b k and e :: error
    by auto
  have pick: "\<lbrakk>i \<longrightarrow> \<not> (v1 \<or> v2); p \<or> w \<or> x \<longrightarrow> \<not> i \<and> \<not> (v1 \<or> v2)\<rbrakk> \<Longrightarrow>
      (if i then S \<and> kI else if p \<or> w \<or> x then (p \<and> P \<or> w \<and> W \<or> x \<and> X) \<and> kD
       else if v1 \<or> v2 then (v1 \<and> V1 \<or> v2 \<and> V2) \<and> kV else False) \<longleftrightarrow>
      i \<and> kI \<and> S \<or> p \<and> kD \<and> P \<or> w \<and> kD \<and> W \<or> x \<and> kD \<and> X \<or> v1 \<and> kV \<and> V1 \<or> v2 \<and> kV \<and> V2"
    for i v1 v2 p w x S kI P W X kD V1 V2 kV :: bool by argo
  have none: "(fst (Inl e :: error + string, s) = Inr kind) = False" for e by simp
  show ?thesis
    unfolding attachmentKind_run accepted_alt if_distrib [where f = fst] if_distrib [where f = "\<lambda>r. r = Inr kind"]
      result document video none
    unfolding fst_conv sum.inject sum.simps if_bool_eq_disj
    using pick [of "?m \<in> set imageMimes"] image_alone document_alone unfolding video document
    by argo
qed

lemma attachmentKind_kind: "fst (attachmentKind f s) = Inr kind \<Longrightarrow> kind \<in> {''IMAGE'', ''DOCUMENT'', ''VIDEO''}"
  by (auto simp: attachmentKind_run split: if_splits)

lemma limit_megabytes: "MESSAGE_ATTACHMENT_LIMITS k = megabytes k * 1048576"
  by (simp add: MESSAGE_ATTACHMENT_LIMITS_def megabytes_def)

text \<open>
  An attachment of a message is accepted, as an image, a document or a video, exactly when its
  declared type is in the table of formats, its bytes carry a signature of that format, and its
  size is at most 5 MB (20 MB for a video).
\<close>

theorem attachment_accepted_iff:
  "fst (assertSafeMessageAttachment f s) = Inr kind \<longleftrightarrow>
     accepted f kind \<and> f_size f \<le> megabytes kind * 1048576"
proof -
  obtain r t where r: "attachmentKind f s = (r, t)" by fastforce
  then have "accepted f k \<longleftrightarrow> r = Inr k" for k using attachmentKind_accepted [of f s k] by simp
  then show ?thesis
    by (cases r) (auto simp: assertSafeMessageAttachment_def bindE_run thenE_run require_run ret_run r
        limit_megabytes not_less conj_commute)
qed

section \<open>Where an upload lands\<close>

lemma takeWhile_no: "c \<notin> set (takeWhile (\<lambda>x. x \<noteq> c) xs)"
  by (induction xs) auto

lemma lastPortion_no_slash: "CHR ''/'' \<notin> set (lastPortion p)"
  unfolding lastPortion_def by (simp add: takeWhile_no)

text \<open>An extension is empty, or a dot followed by characters other than dots and slashes.\<close>

lemma extname_shape:
  "extname p = [] \<or> (\<exists>e. extname p = CHR ''.'' # e \<and> CHR ''.'' \<notin> set e \<and> CHR ''/'' \<notin> set e)"
proof -
  let ?e = "rev (takeWhile (\<lambda>c. c \<noteq> CHR ''.'') (rev (lastPortion p)))"
  have "CHR ''.'' \<notin> set ?e" by (simp add: takeWhile_no)
  moreover have "CHR ''/'' \<notin> set ?e" using lastPortion_no_slash [of p] by (auto dest: set_takeWhileD)
  ultimately show ?thesis unfolding extname_def Let_def by (auto split: list.split)
qed

lemma lowerChar_id: "lowerChar c = d \<Longrightarrow> (of_char d :: nat) < 65 \<Longrightarrow> c = d"
  by (auto simp: lowerChar_def Let_def split: if_splits dest!: arg_cong [where f = "of_char :: char \<Rightarrow> nat"])

lemma lower_no_dot: "CHR ''.'' \<notin> set e \<Longrightarrow> CHR ''.'' \<notin> lowerChar ` set e"
  by (auto dest: lowerChar_id [OF sym])

lemma lower_no_slash: "CHR ''/'' \<notin> set e \<Longrightarrow> CHR ''/'' \<notin> lowerChar ` set e"
  by (auto dest: lowerChar_id [OF sym])

lemma two_dots:
  "containsText x ''..'' \<Longrightarrow> \<exists>u v. x = u @ CHR ''.'' # CHR ''.'' # v"
proof (induction x "''..''" rule: containsText.induct)
  case (2 c cs)
  from "2.prems" consider "take 2 (c # cs) = ''..''" | "containsText cs ''..''" by (auto simp: numeral_2_eq_2)
  then show ?case
  proof cases
    case 1
    then have "c # cs = [] @ CHR ''.'' # CHR ''.'' # drop 2 (c # cs)"
      by (metis append_Cons append_Nil append_take_drop_id)
    then show ?thesis by blast
  next
    case b: 2
    with 2 obtain u v where "cs = u @ CHR ''.'' # CHR ''.'' # v" by blast
    then have "c # cs = (c # u) @ CHR ''.'' # CHR ''.'' # v" by simp
    then show ?thesis by blast
  qed
qed simp

text \<open>A name of hexadecimal characters with such an extension is a safe segment without a slash.\<close>

lemma hex_no: "list_all hexChar x \<Longrightarrow> CHR ''.'' \<notin> set x" "list_all hexChar x \<Longrightarrow> CHR ''/'' \<notin> set x"
proof -
  have "\<not> hexChar (CHR ''.'')" "\<not> hexChar (CHR ''/'')" by code_simp+
  then show "list_all hexChar x \<Longrightarrow> CHR ''.'' \<notin> set x" "list_all hexChar x \<Longrightarrow> CHR ''/'' \<notin> set x"
    by (auto simp: list_all_iff)
qed

lemma fileName_safe:
  assumes hex: "list_all hexChar x" and x: "x \<noteq> []"
  shows "\<not> unsafeSegment (x @ map lowerChar (extname p)) \<and> CHR ''/'' \<notin> set (x @ map lowerChar (extname p))"
proof -
  obtain e where ext: "map lowerChar (extname p) = [] \<or>
      (map lowerChar (extname p) = CHR ''.'' # e \<and> CHR ''.'' \<notin> set e \<and> CHR ''/'' \<notin> set e)"
  proof -
    have dot: "lowerChar (CHR ''.'') = CHR ''.''" by code_simp
    from extname_shape [of p] show ?thesis
    proof
      assume "extname p = []"
      then show ?thesis using that by simp
    next
      assume "\<exists>e. extname p = CHR ''.'' # e \<and> CHR ''.'' \<notin> set e \<and> CHR ''/'' \<notin> set e"
      then obtain e where "extname p = CHR ''.'' # e" "CHR ''.'' \<notin> set e" "CHR ''/'' \<notin> set e" by blast
      then show ?thesis using that [of "map lowerChar e"] dot lower_no_dot [of e] lower_no_slash [of e] by simp
    qed
  qed
  define y where "y = map lowerChar (extname p)"
  note ext = ext [folded y_def]
  have slash: "CHR ''/'' \<notin> set (x @ y)" using hex_no [OF hex] ext by auto
  have "\<not> containsText (x @ y) ''..''"
  proof
    assume "containsText (x @ y) ''..''"
    then obtain u v where uv: "x @ y = u @ CHR ''.'' # CHR ''.'' # v" using two_dots by blast
    have none: "filter (\<lambda>c. c = CHR ''.'') y = []" if "CHR ''.'' \<notin> set y" for y
      using that by (auto simp: filter_empty_conv)
    have "length (filter (\<lambda>c. c = CHR ''.'') (x @ y)) \<le> 1"
      using ext none [OF hex_no(1) [OF hex]] none [of e] by auto
    with uv show False by simp
  qed
  moreover have "\<not> isAbsolute (x @ y)"
    using slash x by (cases x) (auto simp: isAbsolute_def)
  ultimately show ?thesis using slash by (simp add: unsafeSegment_def y_def)
qed

lemma uuid_chars:
  assumes u: "isUuid x" and c: "c \<in> set x"
  shows "c = CHR ''-'' \<or> hexChar c"
proof -
  obtain i where "i < length x" "c = x ! i" using c by (metis in_set_conv_nth)
  then have i: "(i, c) \<in> set (enumerate 0 x)" by (simp add: in_set_enumerate_eq)
  have "list_all hexChar ''12345678''" "list_all hexChar ''89abAB''" by code_simp+
  then have digits: "d \<in> set ''12345678'' \<Longrightarrow> hexChar d" "d \<in> set ''89abAB'' \<Longrightarrow> hexChar d" for d
    by (simp_all only: list_all_iff)
  have "case (i, c) of (i, c) \<Rightarrow> if i \<in> {8, 13, 18, 23} then c = CHR ''-''
      else if i = 14 then c \<in> set ''12345678'' else if i = 19 then c \<in> set ''89abAB'' else hexChar c"
    using u i unfolding isUuid_def list_all_iff by (elim conjE) (rule bspec)
  then show ?thesis using digits [of c] unfolding prod.case by argo
qed

lemma uuid_safe: "isUuid x \<Longrightarrow> \<not> unsafeSegment x \<and> CHR ''/'' \<notin> set x"
proof -
  assume u: "isUuid x"
  have no: "CHR ''.'' \<notin> set x" "CHR ''/'' \<notin> set x"
  proof -
    have "CHR ''.'' \<noteq> CHR ''-'' \<and> \<not> hexChar (CHR ''.'')" "CHR ''/'' \<noteq> CHR ''-'' \<and> \<not> hexChar (CHR ''/'')" by code_simp+
    then show "CHR ''.'' \<notin> set x" "CHR ''/'' \<notin> set x" using uuid_chars [OF u] by blast+
  qed
  then have "\<not> containsText x ''..''" using two_dots by force
  moreover have "\<not> isAbsolute x" using no(2) u by (cases x) (auto simp: isAbsolute_def isUuid_def)
  ultimately show ?thesis using no(2) by (simp add: unsafeSegment_def)
qed

lemma generateFileName_run:
  "generateFileName E n s =
     (Inr (randomHex E (seqNo s) @ map lowerChar (extname n)), s\<lparr>seqNo := Suc (seqNo s)\<rparr>)"
  by (simp add: generateFileName_def bindE_run newId_run ret_run)

lemma buildKey_run:
  "buildKey xs s =
     (if list_ex unsafeSegment xs then (Inl (BadRequest ''Chemin de stockage invalide''), s)
      else (Inr (joinWith ''/'' xs), s))"
  by (simp add: buildKey_def thenE_run require_run ret_run)

text \<open>The store after an object was written, and what stays of it.\<close>

definition withObject :: "string \<Rightarrow> string \<Rightarrow> upload \<Rightarrow> object_row list \<Rightarrow> object_row list" where
  "withObject bucket key file bs =
     (if list_ex (sameObject bucket key) bs
      then update_rows (sameObject bucket key)
             (\<lambda>b. b\<lparr>ob_contentType := f_mimetype file, ob_body := f_buffer file\<rparr>) bs
      else bs @ [\<lparr>ob_bucket = bucket, ob_key = key, ob_contentType = f_mimetype file, ob_body = f_buffer file\<rparr>])"

lemma putObject_run:
  "putObject E bucket key file s =
     (if s3_put E bucket key then (Inr (), s\<lparr>objects := withObject bucket key file (objects s)\<rparr>)
      else (Inl (Failure ''S3''), s))"
  by (auto simp: putObject_def thenE_run require_run upsertRow_run withObject_def list_ex_iff)

lemma withObject_others:
  "filter (\<lambda>b. \<not> sameObject bucket key b) (withObject bucket key file bs) =
     filter (\<lambda>b. \<not> sameObject bucket key b) bs"
proof -
  have "filter (\<lambda>b. \<not> sameObject bucket key b)
      (update_rows (sameObject bucket key) (\<lambda>b. b\<lparr>ob_contentType := c, ob_body := d\<rparr>) bs) =
      filter (\<lambda>b. \<not> sameObject bucket key b) bs" for c d
    by (induction bs) (auto simp: sameObject_def)
  then show ?thesis by (simp add: withObject_def sameObject_def)
qed

lemma withObject_stored:
  "\<exists>b \<in> set (withObject bucket key f bs).
     ob_bucket b = bucket \<and> ob_key b = key \<and> ob_contentType b = f_mimetype f \<and> ob_body b = f_buffer f"
proof (cases "list_ex (sameObject bucket key) bs")
  case True
  then obtain b where "b \<in> set bs" "sameObject bucket key b" by (auto simp: list_ex_iff)
  then show ?thesis using True
    by (intro bexI [of _ "b\<lparr>ob_contentType := f_mimetype f, ob_body := f_buffer f\<rparr>"])
      (auto simp: withObject_def set_update_rows sameObject_def image_iff intro!: bexI [of _ b])
qed (auto simp: withObject_def sameObject_def)

lemma storePrivate_lands:
  assumes hex: "\<And>n. list_all hexChar (randomHex E n) \<and> randomHex E n \<noteq> []"
    and up: "\<And>key. s3_put E (privateBucket E) key"
    and uuid: "isUuid i" and folder: "\<not> unsafeSegment folder"
  shows "\<exists>name. CHR ''/'' \<notin> set name \<and>
    storePrivate E folder i file s =
      (Inr (protectedObjectUrl E [folder, i, name]),
       s\<lparr>seqNo := Suc (seqNo s),
         objects := withObject (privateBucket E) (folder @ ''/'' @ i @ ''/'' @ name) file (objects s)\<rparr>)"
proof -
  define name where "name = randomHex E (seqNo s) @ map lowerChar (extname (f_originalname file))"
  have name: "\<not> unsafeSegment name" "CHR ''/'' \<notin> set name"
    using fileName_safe [of "randomHex E (seqNo s)"] hex unfolding name_def by blast+
  have "storePrivate E folder i file s =
      (Inr (protectedObjectUrl E [folder, i, name]),
       s\<lparr>seqNo := Suc (seqNo s),
         objects := withObject (privateBucket E) (folder @ ''/'' @ i @ ''/'' @ name) file (objects s)\<rparr>)"
    using name(1) folder uuid_safe [OF uuid] up
    by (simp add: storePrivate_def bindE_run thenE_run generateFileName_run buildKey_run putObject_run ret_run
        name_def [symmetric])
  with name(2) show ?thesis by blast
qed

text \<open>
  A document or course material with an accepted content is stored whatever its file name
  is: under the folder of its owner, in one new name without a slash, with its type and bytes; no
  other object and no table changes, and the address returned is the protected one of that key.
\<close>

theorem upload_lands:
  assumes "\<And>n. list_all hexChar (randomHex E n) \<and> randomHex E n \<noteq> []"
    and "\<And>key. s3_put E (privateBucket E) key"
    and "isUuid i"
    and "fst (assertSafeDocument file materials s) = Inr ()"
    and "folder = (if materials then ''course-materials'' else ''documents'')"
  shows "\<exists>name t. CHR ''/'' \<notin> set name \<and>
    (if materials then uploadCourseMaterial E file i else uploadDocument E file i) s =
      (Inr (orText (APP_URL E) ''http://localhost:3001'' @ ''/uploads/'' @ folder @ ''/'' @ i @ ''/'' @ name), t) \<and>
    (\<exists>b \<in> set (objects t). ob_bucket b = privateBucket E \<and> ob_key b = folder @ ''/'' @ i @ ''/'' @ name \<and>
       ob_contentType b = f_mimetype file \<and> ob_body b = f_buffer file) \<and>
    filter (\<lambda>b. \<not> sameObject (privateBucket E) (folder @ ''/'' @ i @ ''/'' @ name) b) (objects t) =
      filter (\<lambda>b. \<not> sameObject (privateBucket E) (folder @ ''/'' @ i @ ''/'' @ name) b) (objects s) \<and>
    t\<lparr>objects := objects s, seqNo := seqNo s\<rparr> = s"
proof -
  have "\<not> unsafeSegment ''course-materials''" "\<not> unsafeSegment ''documents''" by code_simp+
  then have folder: "\<not> unsafeSegment folder" using assms(5) by simp
  obtain name where name: "CHR ''/'' \<notin> set name" "storePrivate E folder i file s =
      (Inr (protectedObjectUrl E [folder, i, name]),
       s\<lparr>seqNo := Suc (seqNo s),
         objects := withObject (privateBucket E) (folder @ ''/'' @ i @ ''/'' @ name) file (objects s)\<rparr>)"
    using storePrivate_lands [OF assms(1,2,3) folder] by blast
  have read: "assertSafeDocument file materials s = (Inr (), s)"
  proof -
    have "snd (assertSafeDocument file materials s) = s"
      by (auto simp: assertSafeDocument_def assertSafeImage_def Let_def thenE_run require_run split: if_splits)
    with assms(4) show ?thesis by (simp add: prod_eq_iff)
  qed
  have run: "(if materials then uploadCourseMaterial E file i else uploadDocument E file i) s =
      storePrivate E folder i file s"
    using read assms(3,5)
    by (simp add: uploadCourseMaterial_def uploadDocument_def thenE_run assertSafeEntityId_def require_run split: if_splits)
  show ?thesis unfolding run name(2)
    using name(1) withObject_stored [where bucket = "privateBucket E" and key = "folder @ ''/'' @ i @ ''/'' @ name"
        and f = "file" and bs = "objects s"]
    by (intro exI [of _ name]) (auto simp: protectedObjectUrl_def withObject_others)
qed

text \<open>
  A transaction of the database does not undo what was put in the store meanwhile, nor the random
  values drawn.
\<close>

definition transactDb :: "(db, 'a) exec \<Rightarrow> (db, 'a) exec" where
  "transactDb m =
     (\<lambda>s. case m s of
        (Inl e, t) \<Rightarrow> (Inl e, s\<lparr>objects := objects t, seqNo := seqNo t\<rparr>)
      | (Inr x, t) \<Rightarrow> (Inr x, t))"

lemma transactDb_run [exec_simps]:
  "transactDb m s =
     (case m s of (Inl e, t) \<Rightarrow> (Inl e, s\<lparr>objects := objects t, seqNo := seqNo t\<rparr>) | (Inr x, t) \<Rightarrow> (Inr x, t))"
  by (simp add: transactDb_def)

text \<open>The tables: the database without the store. An upload does not touch them.\<close>

definition tables :: "db \<Rightarrow> db" where
  "tables s = s\<lparr>objects := [], seqNo := 0\<rparr>"

lemma tables_eqD: "tables t = tables s \<Longrightarrow> \<exists>os n. t = s\<lparr>objects := os, seqNo := n\<rparr>"
proof -
  assume eq: "tables t = tables s"
  have "t = (tables t)\<lparr>objects := objects t, seqNo := seqNo t\<rparr>" by (simp add: tables_def)
  also have "\<dots> = s\<lparr>objects := objects t, seqNo := seqNo t\<rparr>" unfolding eq by (simp add: tables_def)
  finally show ?thesis by blast
qed

lemma storePrivate_tables: "storePrivate E folder i file s = (r, t) \<Longrightarrow> tables t = tables s"
  by (auto simp: storePrivate_def bindE_run thenE_run generateFileName_run buildKey_run putObject_run ret_run
      tables_def split: if_splits)

lemma saveMessageAttachment_tables: "saveMessageAttachment E f i s = (r, t) \<Longrightarrow> tables t = tables s"
proof -
  assume run: "saveMessageAttachment E f i s = (r, t)"
  have kind: "snd (attachmentKind f s) = s" unfolding attachmentKind_run by (simp only: if_distrib [where f = snd] snd_conv if_cancel)
  obtain a where a: "assertSafeMessageAttachment f s = (a, s)"
  proof -
    obtain k where k: "attachmentKind f s = (k, s)" using kind by (metis prod.collapse)
    have "snd (assertSafeMessageAttachment f s) = s"
      by (cases k) (simp_all add: assertSafeMessageAttachment_def bindE_run thenE_run require_run ret_run k)
    then show ?thesis using that by (metis prod.collapse)
  qed
  obtain b u where b: "storePrivate E ''messages'' i f s = (b, u)" by fastforce
  from storePrivate_tables [OF b] run show ?thesis
    by (cases a; cases b) (simp_all add: saveMessageAttachment_def bindE_run thenE_run assertSafeEntityId_def
        require_run ret_run a b split: if_splits)
qed

section \<open>Images\<close>

lemma stripPrefix_append [simp]: "stripPrefix p (p @ x) = Some x"
  by (simp add: stripPrefix_def)

text \<open>The key is found again from the address, when one of the two base addresses is configured.\<close>

lemma key_roundtrip:
  "truthy (S3_PUBLIC_URL E) \<or> truthy (S3_ENDPOINT E) \<Longrightarrow> keyFromPublicUrl E (publicObjectUrl E key) = Some key"
  using stripPrefix_append [of "stripSlash (orText (S3_PUBLIC_URL E) []) @ ''/''" key]
    stripPrefix_append [of "stripSlash (orText (S3_ENDPOINT E) []) @ ''/'' @ publicBucket E @ ''/''" key]
  by (auto simp: keyFromPublicUrl_def publicObjectUrl_def orText_def truthy_def split: option.splits)

lemma keyFromPublicUrl_bare:
  "\<not> truthy (S3_PUBLIC_URL E) \<Longrightarrow> \<not> truthy (S3_ENDPOINT E) \<Longrightarrow> keyFromPublicUrl E url = None"
  by (auto simp: keyFromPublicUrl_def orText_def truthy_def split: option.splits)

lemma without_new_object:
  assumes "\<not> list_ex (sameObject bucket key) bs"
  shows "filter (\<lambda>b. \<not> sameObject bucket key b) (withObject bucket key file bs) = bs"
  using assms by (auto simp: withObject_others list_ex_iff filter_id_conv)

text \<open>
  An image that is uploaded and then deleted leaves no trace: when a base address is
  configured and the store accepts the deletion, the deletion finds the object from the address
  that was recorded, and both the bucket and the table of images are as before the upload.
\<close>

theorem image_upload_deleted:
  assumes up: "uploadImage E now file entityType entityId type s = (Inr (i, url), t)"
    and base: "truthy (S3_PUBLIC_URL E) \<or> truthy (S3_ENDPOINT E)"
    and del: "\<And>key. s3_delete E (publicBucket E) key"
    and fresh: "i \<notin> im_id ` set (images s)"
    and new: "\<forall>b \<in> set (objects s). keyFromPublicUrl E url \<noteq> Some (ob_key b)"
  shows "\<exists>u. deleteImage E i t = (Inr (), u) \<and> objects u = objects s \<and> images u = images s"
proof -
  have image_reads: "snd (assertSafeImage file s) = s" "snd (assertSafeEntityId entityId s) = s"
    by (auto simp: assertSafeImage_def Let_def thenE_run require_run assertSafeEntityId_def ret_run
        split: if_splits option.splits)
  obtain key where key: "url = publicObjectUrl E key"
    "t = s\<lparr>seqNo := Suc (Suc (seqNo s)), objects := withObject (publicBucket E) key file (objects s),
           images := images s @ [\<lparr>im_id = i, im_url = url, im_type = kindName type,
                 im_entityType = entityName entityType, im_entityId = entityId,
                 im_mimeType = f_mimetype file, im_size = f_size file, im_createdAt = now\<rparr>]\<rparr>"
    "key \<noteq> []"
    using up image_reads
    by (auto simp: uploadImage_def thenE_run bindE_run generateFileName_run buildKey_run putObject_run newId_run
        addRow_run ret_run split: prod.splits sum.splits if_splits)
  have round: "keyFromPublicUrl E url = Some key" using key_roundtrip [OF base] key(1) by simp
  have none: "\<not> list_ex (sameObject (publicBucket E) key) (objects s)"
    using new round by (auto simp: list_ex_iff sameObject_def)
  have found: "find (\<lambda>im. im_id im = i) (images s) = None" using fresh by (auto simp: find_None)
  have others: "filter (\<lambda>im. im_id im \<noteq> i) (images s) = images s"
    using fresh by (auto simp: filter_id_conv)
  show ?thesis
    using key(3) without_new_object [OF none] others
    by (simp add: deleteImage_def bindE_run thenE_run findFirst_run deleteMany_run whenE_run dropObject_def key(2)
        find_append found round del)
qed

section \<open>Examples\<close>

definition sample_store :: store_env where
  "sample_store =
     \<lparr>S3_BUCKET = None, S3_PUBLIC_BUCKET = None, S3_PUBLIC_URL = Some ''https://cdn/'', S3_ENDPOINT = None,
      APP_URL = None, s3_put = (\<lambda>_ _. True), s3_head = (\<lambda>_ _. True), s3_delete = (\<lambda>_ _. True),
      s3_sign = (\<lambda>b k _. b @ k), randomHex = (\<lambda>n. ''a'' @ replicate n CHR ''0''),
      rowUuid = sample_uuid\<rparr>"

definition sample_owner :: string where
  "sample_owner = ''0b9c7c5e-3c1d-4f7a-9b2e-5a1d2c3b4e5f''"

definition sample_pdf :: upload where
  "sample_pdf =
     \<lparr>f_originalname = ''../../etc/CV.PDF'', f_mimetype = PDF, f_size = 5, f_buffer = ''%PDF-''\<rparr>"

definition sample_picture :: upload where
  "sample_picture =
     \<lparr>f_originalname = ''me.jpg'', f_mimetype = ''image/jpeg'', f_size = 3,
      f_buffer = [CHR 0xFF, CHR 0xD8, CHR 0xFF]\<rparr>"

lemma sample_store_hex: "list_all hexChar (randomHex sample_store n) \<and> randomHex sample_store n \<noteq> []"
  by (simp add: sample_store_def hexChar_def list_all_iff)

theorem upload_lands_witness:
  "\<exists>name t. CHR ''/'' \<notin> set name \<and>
    uploadDocument sample_store sample_pdf sample_owner empty_db =
      (Inr (''http://localhost:3001/uploads/documents/'' @ sample_owner @ ''/'' @ name), t)"
proof -
  have uuid: "isUuid sample_owner" unfolding sample_owner_def by code_simp
  have content: "fst (assertSafeDocument sample_pdf False empty_db) = Inr ()"
    using mime_clash(1) by (simp add: assertSafeDocument_def sample_pdf_def thenE_run require_run allowedMimes_def
        isPdf_def Let_def)
  have put: "s3_put sample_store b key" for b key by (simp add: sample_store_def)
  have url: "orText (APP_URL sample_store) ''http://localhost:3001'' = ''http://localhost:3001''"
    by (simp add: sample_store_def orText_def)
  from upload_lands [OF sample_store_hex put uuid content refl] show ?thesis
    unfolding if_False url by (auto 0 4)
qed

theorem image_upload_deleted_witness:
  "\<exists>i url t u. uploadImage sample_store 0 sample_picture EntSTUDENT (Some sample_owner) ImgAVATAR empty_db = (Inr (i, url), t) \<and>
    deleteImage sample_store i t = (Inr (), u) \<and> objects u = [] \<and> images u = []"
proof -
  have uuid: "isUuid sample_owner" unfolding sample_owner_def by code_simp
  have content: "assertSafeImage sample_picture empty_db = (Inr (), empty_db)"
    by (simp add: assertSafeImage_def sample_picture_def thenE_run require_run imageMimes_def isJpeg_def Let_def)
  have segment: "\<not> unsafeSegment ''student''" "\<not> unsafeSegment ''avatar''" by code_simp+
  have lower: "map lowerChar (entityName EntSTUDENT) = ''student''" "map lowerChar (kindName ImgAVATAR) = ''avatar''"
    by code_simp+
  have owner: "orText (Some sample_owner) d = sample_owner" for d by (simp add: orText_def sample_owner_def)
  have put: "s3_put sample_store b key" for b key by (simp add: sample_store_def)
  obtain i url t where run: "uploadImage sample_store 0 sample_picture EntSTUDENT (Some sample_owner) ImgAVATAR empty_db =
      (Inr (i, url), t)"
    using uuid_safe [OF uuid] fileName_safe [of "randomHex sample_store (seqNo empty_db)"]
      sample_store_hex [of "seqNo empty_db"] segment uuid
    by (auto simp: uploadImage_def thenE_run bindE_run content assertSafeEntityId_def require_run generateFileName_run
        buildKey_run putObject_run newId_run addRow_run ret_run lower owner put
        simp del: entityName.simps kindName.simps list.map)
  have base: "truthy (S3_PUBLIC_URL sample_store) \<or> truthy (S3_ENDPOINT sample_store)" by (simp add: sample_store_def)
  have del: "s3_delete sample_store b key" for b key by (simp add: sample_store_def)
  from image_upload_deleted [OF run base del] run show ?thesis by (auto simp: empty_db_def)
qed

end
