(* ===== verification/Encryption.thy ===== *)
theory Encryption
  imports Text
begin

text \<open>
  \<open>EncryptionService\<close> (\<open>common/services/encryption.service.ts\<close>): the key read from the environment
  and the format \<open>iv:tag:data\<close> of an encrypted text, all three in hexadecimal. AES-256-GCM and the
  random generator are parameters. The main fact: what is encrypted is decrypted to the same text,
  whatever bytes the cipher produces, because no part of the format can contain the separator.
\<close>

record cipher_env =
  gcmEncrypt :: "string \<Rightarrow> string \<Rightarrow> string \<Rightarrow> string \<times> string"
  gcmDecrypt :: "string \<Rightarrow> string \<Rightarrow> string \<Rightarrow> string \<Rightarrow> string option"
  randomIv :: "nat \<Rightarrow> string"

section \<open>The key\<close>

definition isQuote :: "char \<Rightarrow> bool" where
  "isQuote c \<longleftrightarrow> c = CHR 0x27 \<or> c = CHR 0x22"

text \<open>The two replacements of the key: one quote at each end, and a leading \<open>0x\<close>.\<close>

definition unquote :: "string \<Rightarrow> string" where
  "unquote x =
     (let y = (case x of c # cs \<Rightarrow> if isQuote c then cs else x | [] \<Rightarrow> []) in
      if y \<noteq> [] \<and> isQuote (last y) then butlast y else y)"

definition dropHexMark :: "string \<Rightarrow> string" where
  "dropHexMark x = (if map lowerChar (take 2 x) = ''0x'' then drop 2 x else x)"

definition loadKey :: "string option \<Rightarrow> string + string" where
  "loadKey configuredSecret =
     (case map_option (dropHexMark \<circ> unquote \<circ> trim) configuredSecret of
        None \<Rightarrow> Inl ''ENCRYPTION_KEY is not defined in environment variables''
      | Some secret \<Rightarrow>
          if secret = [] then Inl ''ENCRYPTION_KEY is not defined in environment variables''
          else if length secret = 64 \<and> list_all (\<lambda>c. hexValue c \<noteq> None) secret then Inr (fromHex secret)
          else Inl ''ENCRYPTION_KEY must be a 32-byte hexadecimal key'')"

section \<open>Encrypted texts\<close>

fun splitOn :: "char \<Rightarrow> string \<Rightarrow> string \<Rightarrow> string list" where
  "splitOn sep w [] = [w]"
| "splitOn sep w (c # cs) = (if c = sep then w # splitOn sep [] cs else splitOn sep (w @ [c]) cs)"

definition encrypt :: "cipher_env \<Rightarrow> string \<Rightarrow> nat \<Rightarrow> string \<Rightarrow> string" where
  "encrypt E key n text =
     (let iv = randomIv E n; (encrypted, authTag) = gcmEncrypt E key iv text in
      toHex iv @ '':'' @ toHex authTag @ '':'' @ toHex encrypted)"

definition decrypt :: "cipher_env \<Rightarrow> string \<Rightarrow> string \<Rightarrow> string + string" where
  "decrypt E key encryptedData =
     (case splitOn (CHR '':'') [] encryptedData of
        [ivHex, authTagHex, encryptedText] \<Rightarrow>
          (case gcmDecrypt E key (fromHex ivHex) (fromHex authTagHex) (fromHex encryptedText) of
             None \<Rightarrow> Inl ''Unsupported state or unable to authenticate data''
           | Some text \<Rightarrow> Inr text)
      | _ \<Rightarrow> Inl ''Invalid encrypted data format'')"

lemma splitOn_none: "sep \<notin> set x \<Longrightarrow> splitOn sep w x = [w @ x]"
  by (induction x arbitrary: w) auto

lemma splitOn_sep: "sep \<notin> set x \<Longrightarrow> splitOn sep w (x @ sep # y) = (w @ x) # splitOn sep [] y"
  by (induction x arbitrary: w) auto

lemma hexDigit_no_colon: "n < 16 \<Longrightarrow> hexDigit n \<noteq> CHR '':''"
proof
  assume "n < 16" "hexDigit n = CHR '':''"
  then have "hexValue (CHR '':'') = Some n" using hexValue_hexDigit by metis
  then show False by (simp add: hexValue_def)
qed

lemma toHex_no_colon: "CHR '':'' \<notin> set (toHex bs)"
proof -
  have "of_char b div 16 < (16 :: nat)" for b
    using nat_of_char_less_256 [of b] by (simp add: less_mult_imp_div_less)
  then have "CHR '':'' \<noteq> hexDigit (of_char b div 16)" "CHR '':'' \<noteq> hexDigit (of_char b mod 16)" for b
    using hexDigit_no_colon by (metis, metis mod_less_divisor zero_less_numeral)
  then show ?thesis by (auto simp: toHex_def)
qed

text \<open>
  Decrypting what was encrypted with the same key gives the text back: the three parts of the
  stored form (initial vector, tag, ciphertext in hexadecimal, joined with colons) reach the cipher
  unchanged, whatever bytes the text holds.
\<close>

theorem encryption_roundtrip:
  assumes "\<And>key iv text. (case gcmEncrypt E key iv text of (c, tag) \<Rightarrow> gcmDecrypt E key iv tag c) = Some text"
  shows "decrypt E key (encrypt E key n text) = Inr text"
proof -
  obtain c tag where enc: "gcmEncrypt E key (randomIv E n) text = (c, tag)" by fastforce
  have "splitOn (CHR '':'') [] (encrypt E key n text) = [toHex (randomIv E n), toHex tag, toHex c]"
    by (simp add: encrypt_def enc Let_def splitOn_sep splitOn_none toHex_no_colon)
  with assms [of key "randomIv E n" "text"] enc show ?thesis by (simp add: decrypt_def)
qed

text \<open>A stand-in for the cipher: the text with the key before it, the initial vector as tag.\<close>

definition sample_cipher :: cipher_env where
  "sample_cipher =
     \<lparr>gcmEncrypt = (\<lambda>key iv text. (key @ text, iv)),
      gcmDecrypt = (\<lambda>key iv tag c. if tag = iv \<and> take (length key) c = key then Some (drop (length key) c) else None),
      randomIv = (\<lambda>n. [CHR 0x3A])\<rparr>"

theorem encryption_roundtrip_witness:
  "decrypt sample_cipher ''k'' (encrypt sample_cipher ''k'' 0 ''a:b'') = Inr ''a:b''"
  by (rule encryption_roundtrip) (simp add: sample_cipher_def)

end
