(* ===== verification/Coursework.thy ===== *)
theory Coursework
  imports Announcements Authentication Storage Encryption
begin

text \<open>
  \<open>TeachingService\<close> (\<open>teaching/teaching.service.ts\<close>), the teacher's side of a course: profile,
  lists of courses, chapters and their resources, attendance, evaluations and grades, homework and
  its submissions, announcements. A date of a request body is the instant it denotes; the column
  \<open>Attendance.date\<close> has the type date of the database, which keeps the day only. The deletion of a
  chapter takes its resources along, as the foreign key says. The main facts: a request of a
  teacher leaves the coursework of every course that is not his as it was, the register of
  attendance implements a map from course, student and day to a status, and grades are given to
  students of the course only.
\<close>

section \<open>Environment\<close>

text \<open>
  The parameters of the portals of teachers and students: the store, the hashing of passwords, the
  cipher with the key loaded at the start, the sort key of the database's collation, identifiers.
\<close>

record portal_env =
  pe_store :: store_env
  pe_auth :: auth_env
  pe_cipher :: cipher_env
  pe_key :: string
  pe_collation :: "string \<Rightarrow> string"
  pe_uuid :: "nat \<Rightarrow> id"

definition sealText :: "portal_env \<Rightarrow> string \<Rightarrow> (db, string) exec" where
  "sealText E text = newId (\<lambda>n. encrypt (pe_cipher E) (pe_key E) n text)"

definition openText :: "portal_env \<Rightarrow> string option \<Rightarrow> string option" where
  "openText E stored =
     (if truthy stored then
        (case decrypt (pe_cipher E) (pe_key E) (nullish stored []) of Inl e \<Rightarrow> None | Inr x \<Rightarrow> Some x)
      else stored)"

text \<open>Ascending order of a column that may be null: the database puts the nulls last.\<close>

definition orderNullsLast :: "('a \<Rightarrow> time option) \<Rightarrow> 'a list \<Rightarrow> 'a list" where
  "orderNullsLast k xs =
     sort_key (\<lambda>x. nullish (k x) 0) (filter (\<lambda>x. k x \<noteq> None) xs) @ filter (\<lambda>x. k x = None) xs"

text \<open>The value of a \<open>@db.Date\<close> column.\<close>

definition dayOf :: "time \<Rightarrow> time" where
  "dayOf t = t - t mod 86400000"

section \<open>The teacher and the profile\<close>

definition teacherOf :: "id \<Rightarrow> (db, teacher_row) exec" where
  "teacherOf userId = findOr teachers (\<lambda>x. th_userId x = userId) (Forbidden ''Profil professeur introuvable'')"

definition decryptTeacherPhone :: "portal_env \<Rightarrow> teacher_row \<Rightarrow> teacher_row" where
  "decryptTeacherPhone E x = x\<lparr>th_phone := openText E (th_phone x)\<rparr>"

record teacher_profile =
  tp_teacher :: teacher_row
  tp_email :: "string option"
  tp_theme :: "string option"

definition teacherView :: "portal_env \<Rightarrow> db \<Rightarrow> teacher_row \<Rightarrow> teacher_profile" where
  "teacherView E s x =
     (let u = find (\<lambda>u. u_id u = th_userId x) (users s) in
      \<lparr>tp_teacher = decryptTeacherPhone E x, tp_email = map_option u_email u, tp_theme = map_option u_theme u\<rparr>)"

definition teacherProfile :: "portal_env \<Rightarrow> id \<Rightarrow> (db, teacher_profile) exec" where
  "teacherProfile E userId = bindE (teacherOf userId) (\<lambda>x. asks (\<lambda>s. teacherView E s x))"

text \<open>The condition \<open>teacherAssignments: { some: { teacherId, isActive: true } }\<close> on a school.\<close>

definition assignedAt :: "db \<Rightarrow> id \<Rightarrow> id \<Rightarrow> bool" where
  "assignedAt s teacherId schoolId \<longleftrightarrow>
     list_ex (\<lambda>a. ts_schoolId a = schoolId \<and> ts_teacherId a = teacherId \<and> ts_isActive a) (teacherSchools s)"

definition taughtBy :: "db \<Rightarrow> id \<Rightarrow> course_row \<Rightarrow> bool" where
  "taughtBy s teacherId c \<longleftrightarrow> c_teacherId c = teacherId \<and> assignedAt s teacherId (c_schoolId c)"

text \<open>A condition on the course of a row that carries a course identifier.\<close>

definition courseWhere :: "db \<Rightarrow> (course_row \<Rightarrow> bool) \<Rightarrow> id \<Rightarrow> bool" where
  "courseWhere s P i \<longleftrightarrow> list_ex (\<lambda>c. c_id c = i \<and> P c) (courses s)"

record dashboard_summary =
  ds_courses :: nat
  ds_students :: nat
  ds_submissionsToGrade :: nat
  ds_upcomingEvaluations :: nat
  ds_unreadMessages :: nat

definition dashboardSummary :: "time \<Rightarrow> id \<Rightarrow> (db, dashboard_summary) exec" where
  "dashboardSummary now userId =
     bindE (teacherOf userId) (\<lambda>teacher.
     asks (\<lambda>s.
       let mine = courseWhere s (taughtBy s (th_id teacher)) in
       \<lparr>ds_courses = count_rows (taughtBy s (th_id teacher)) (courses s),
        ds_students = length (uniq (map ce_studentId (filter (\<lambda>e. mine (ce_courseId e)) (courseEnrollments s)))),
        ds_submissionsToGrade =
          count_rows (\<lambda>x. su_grade x = None \<and>
            list_ex (\<lambda>h. h_id h = su_assignmentId x \<and> mine (h_courseId h)) (homeworks s)) (submissions s),
        ds_upcomingEvaluations =
          count_rows (\<lambda>e. (case el_scheduledAt e of None \<Rightarrow> False | Some d \<Rightarrow> now \<le> d) \<and> mine (el_courseId e))
            (evaluations s),
        ds_unreadMessages = count_rows (\<lambda>m. m_recipientId m = userId \<and> \<not> m_isRead m) (messages s)\<rparr>))"

record teacher_profile_dto =
  tu_firstName :: "string option"
  tu_lastName :: "string option"
  tu_phone :: "string option"

text \<open>The \<open>phone\<close> of the update: \<open>undefined\<close>, an encrypted number, or the blank text itself.\<close>

definition phoneData :: "portal_env \<Rightarrow> string option \<Rightarrow> (db, string option) exec" where
  "phoneData E phone =
     (case phone of
        None \<Rightarrow> ret None
      | Some x \<Rightarrow> if trim x = [] then ret (Some x) else bindE (sealText E (trim x)) (\<lambda>y. ret (Some y)))"

definition updateTeacherProfile :: "portal_env \<Rightarrow> id \<Rightarrow> teacher_profile_dto \<Rightarrow> (db, teacher_profile) exec" where
  "updateTeacherProfile E userId dto =
     bindE (teacherOf userId) (\<lambda>teacher.
     bindE (phoneData E (tu_phone dto)) (\<lambda>phone.
     bindE (updateOne teachers teachers_update (\<lambda>x. th_id x = th_id teacher)
              (\<lambda>x. x\<lparr>th_firstName := overwrite (map_option trim (tu_firstName dto)) (th_firstName x),
                    th_lastName := overwrite (map_option trim (tu_lastName dto)) (th_lastName x),
                    th_phone := overwrite phone (th_phone x)\<rparr>)) (\<lambda>updated.
     asks (\<lambda>s. teacherView E s updated))))"

definition updateTeacherAvatar :: "portal_env \<Rightarrow> id \<Rightarrow> string \<Rightarrow> (db, teacher_profile) exec" where
  "updateTeacherAvatar E userId avatarUrl =
     bindE (teacherOf userId) (\<lambda>teacher.
     bindE (updateOne teachers teachers_update (\<lambda>x. th_id x = th_id teacher)
              (\<lambda>x. x\<lparr>th_avatarUrl := Some avatarUrl\<rparr>)) (\<lambda>updated.
     asks (\<lambda>s. teacherView E s updated)))"

definition changeTeacherPassword :: "portal_env \<Rightarrow> id \<Rightarrow> string \<Rightarrow> string \<Rightarrow> (db, unit) exec" where
  "changeTeacherPassword E userId currentPassword newPassword =
     bindE (findOr users (\<lambda>u. u_id u = userId) (Forbidden ''Utilisateur introuvable'')) (\<lambda>user.
     thenE (require (comparePassword (pe_auth E) currentPassword (u_password user))
              (BadRequest ''Le mot de passe actuel est incorrect''))
     (bindE (newId (\<lambda>n. hashPassword (pe_auth E) n newPassword)) (\<lambda>hashedPassword.
      thenE (updateOne users users_update (\<lambda>u. u_id u = userId)
               (\<lambda>u. u\<lparr>u_password := hashedPassword, u_sessionVersion := Suc (u_sessionVersion u)\<rparr>))
        (ret ()))))"

definition updateTheme :: "id \<Rightarrow> string \<Rightarrow> (db, string) exec" where
  "updateTheme userId theme =
     bindE (updateOne users users_update (\<lambda>u. u_id u = userId) (\<lambda>u. u\<lparr>u_theme := theme\<rparr>)) (\<lambda>u.
     ret (u_theme u))"

section \<open>Authorisation\<close>

definition ownCourse :: "id \<Rightarrow> id \<Rightarrow> (db, course_row) exec" where
  "ownCourse userId courseId =
     bindE (teacherOf userId) (\<lambda>teacher.
     bindE (asks (\<lambda>s. find (\<lambda>c. c_id c = courseId \<and> taughtBy s (th_id teacher) c) (courses s))) (\<lambda>found.
     case found of None \<Rightarrow> throw (NotFound ''Cours introuvable'') | Some c \<Rightarrow> ret c))"

definition ownEvaluation :: "id \<Rightarrow> id \<Rightarrow> (db, evaluation_row) exec" where
  "ownEvaluation userId evaluationId =
     bindE (findOr evaluations (\<lambda>e. el_id e = evaluationId) (NotFound ''Evaluation introuvable'')) (\<lambda>evaluation.
     thenE (ownCourse userId (el_courseId evaluation)) (ret evaluation))"

definition ownHomework :: "id \<Rightarrow> id \<Rightarrow> (db, homework_row) exec" where
  "ownHomework userId assignmentId =
     bindE (findOr homeworks (\<lambda>h. h_id h = assignmentId) (NotFound ''Devoir introuvable'')) (\<lambda>assignment.
     thenE (ownCourse userId (h_courseId assignment)) (ret assignment))"

definition ownSubmission :: "id \<Rightarrow> id \<Rightarrow> (db, submission_row) exec" where
  "ownSubmission userId submissionId =
     bindE (findOr submissions (\<lambda>x. su_id x = submissionId) (NotFound ''Soumission introuvable'')) (\<lambda>submission.
     thenE (ownHomework userId (su_assignmentId submission)) (ret submission))"

section \<open>Lists\<close>

record school_summary =
  ss_id :: id
  ss_name :: string
  ss_slug :: string

definition schoolSummary :: "db \<Rightarrow> id \<Rightarrow> school_summary option" where
  "schoolSummary s i =
     map_option (\<lambda>x. \<lparr>ss_id = sc_id x, ss_name = sc_name x, ss_slug = sc_slug x\<rparr>)
       (find (\<lambda>x. sc_id x = i) (schools s))"

record course_view =
  cw_course :: course_row
  cw_school :: "school_summary option"
  cw_enrollments :: nat
  cw_chapters :: nat
  cw_evaluations :: nat
  cw_assignments :: nat

definition courseView :: "db \<Rightarrow> course_row \<Rightarrow> course_view" where
  "courseView s c =
     \<lparr>cw_course = c, cw_school = schoolSummary s (c_schoolId c),
      cw_enrollments = count_rows (\<lambda>e. ce_courseId e = c_id c) (courseEnrollments s),
      cw_chapters = count_rows (\<lambda>x. ch_courseId x = c_id c) (chapters s),
      cw_evaluations = count_rows (\<lambda>x. el_courseId x = c_id c) (evaluations s),
      cw_assignments = count_rows (\<lambda>x. h_courseId x = c_id c) (homeworks s)\<rparr>"

definition teacherCourses :: "portal_env \<Rightarrow> id \<Rightarrow> (db, course_view list) exec" where
  "teacherCourses E userId =
     bindE (teacherOf userId) (\<lambda>teacher.
     asks (\<lambda>s. map (courseView s)
       (sort_key (\<lambda>c. pe_collation E (c_title c)) (filter (taughtBy s (th_id teacher)) (courses s)))))"

definition teacherSchoolList :: "portal_env \<Rightarrow> id \<Rightarrow> (db, (teacher_school_row \<times> school_summary option) list) exec" where
  "teacherSchoolList E userId =
     bindE (teacherOf userId) (\<lambda>teacher.
     asks (\<lambda>s. sort_key (\<lambda>(a, x). pe_collation E (case x of None \<Rightarrow> [] | Some y \<Rightarrow> ss_name y))
       (map (\<lambda>a. (a, schoolSummary s (ts_schoolId a)))
         (filter (\<lambda>a. ts_teacherId a = th_id teacher \<and> ts_isActive a) (teacherSchools s)))))"

definition teacherSchedule ::
  "id \<Rightarrow> (db, (course_slot_row \<times> course_row option \<times> school_summary option) list) exec" where
  "teacherSchedule userId =
     bindE (teacherOf userId) (\<lambda>teacher.
     asks (\<lambda>s. map (\<lambda>e. let c = find (\<lambda>c. c_id c = s_courseId e) (courses s) in
                          (e, c, Option.bind c (schoolSummary s \<circ> c_schoolId)))
       (sort_key s_dayOfWeek (sort_key s_startTime
         (filter (\<lambda>e. courseWhere s (taughtBy s (th_id teacher)) (s_courseId e)) (courseSlots s))))))"

definition chapterWhere :: "db \<Rightarrow> (chapter_row \<Rightarrow> bool) \<Rightarrow> id \<Rightarrow> bool" where
  "chapterWhere s P i \<longleftrightarrow> list_ex (\<lambda>x. ch_id x = i \<and> P x) (chapters s)"

definition resourceView :: "db \<Rightarrow> resource_row \<Rightarrow> resource_row \<times> (string \<times> (id \<times> string) option) option" where
  "resourceView s r =
     (r, map_option (\<lambda>x. (ch_title x, map_option (\<lambda>c. (c_id c, c_title c)) (find (\<lambda>c. c_id c = ch_courseId x) (courses s))))
           (find (\<lambda>x. ch_id x = re_chapterId r) (chapters s)))"

definition teacherResources ::
  "id \<Rightarrow> int option \<Rightarrow> int option \<Rightarrow> (db, (resource_row \<times> (string \<times> (id \<times> string) option) option) page) exec" where
  "teacherResources userId page limit =
     bindE (teacherOf userId) (\<lambda>teacher.
     bindE (asks (\<lambda>s. map (resourceView s) (orderDesc re_createdAt
              (filter (\<lambda>r. chapterWhere s (\<lambda>x. courseWhere s (taughtBy s (th_id teacher)) (ch_courseId x)) (re_chapterId r))
                 (resources s))))) (\<lambda>items.
     paginate (clampPage page) (clampLimit 25 limit) items))"

record course_detail =
  dt_course :: course_row
  dt_chapters :: "(chapter_row \<times> resource_row list) list"
  dt_evaluations :: "evaluation_row list"
  dt_assignments :: "homework_row list"
  dt_enrollments :: nat

definition courseDetail :: "id \<Rightarrow> id \<Rightarrow> (db, course_detail option) exec" where
  "courseDetail userId courseId =
     thenE (ownCourse userId courseId)
     (asks (\<lambda>s. map_option (\<lambda>c.
        \<lparr>dt_course = c,
         dt_chapters = map (\<lambda>x. (x, filter (\<lambda>r. re_chapterId r = ch_id x) (resources s)))
           (sort_key ch_position (filter (\<lambda>x. ch_courseId x = courseId) (chapters s))),
         dt_evaluations = orderNullsLast el_scheduledAt (filter (\<lambda>x. el_courseId x = courseId) (evaluations s)),
         dt_assignments = orderNullsLast h_dueAt (filter (\<lambda>x. h_courseId x = courseId) (homeworks s)),
         dt_enrollments = count_rows (\<lambda>e. ce_courseId e = courseId) (courseEnrollments s)\<rparr>)
        (find (\<lambda>c. c_id c = courseId) (courses s))))"

record course_settings_dto =
  cx_welcomeMessage :: "string option"
  cx_allowGroupMessages :: "bool option"
  cx_notifyOnPublish :: "bool option"

definition updateCourseSettings :: "id \<Rightarrow> id \<Rightarrow> course_settings_dto \<Rightarrow> (db, course_row \<times> nat) exec" where
  "updateCourseSettings userId courseId dto =
     thenE (ownCourse userId courseId)
     (bindE (updateOne courses courses_update (\<lambda>c. c_id c = courseId)
               (\<lambda>c. c\<lparr>c_welcomeMessage := overwrite (map_option trim (cx_welcomeMessage dto)) (c_welcomeMessage c),
                     c_allowGroupMessages := nullish (cx_allowGroupMessages dto) (c_allowGroupMessages c),
                     c_notifyOnPublish := nullish (cx_notifyOnPublish dto) (c_notifyOnPublish c)\<rparr>)) (\<lambda>c.
      asks (\<lambda>s. (c, count_rows (\<lambda>e. ce_courseId e = courseId) (courseEnrollments s)))))"

section \<open>Chapters and resources\<close>

text \<open>Two unique keys of the chapters: the identifier, and course with position.\<close>

definition chapterClash :: "chapter_row \<Rightarrow> chapter_row \<Rightarrow> bool" where
  "chapterClash a b \<longleftrightarrow>
     ch_id a = ch_id b \<or> (ch_courseId a = ch_courseId b \<and> ch_position a = ch_position b)"

definition createChapter ::
  "(nat \<Rightarrow> id) \<Rightarrow> id \<Rightarrow> id \<Rightarrow> string \<Rightarrow> string option \<Rightarrow> (db, chapter_row) exec" where
  "createChapter uuid userId courseId title description =
     thenE (ownCourse userId courseId)
     (bindE (countRows chapters (\<lambda>x. ch_courseId x = courseId)) (\<lambda>n.
      bindE (newId uuid) (\<lambda>i.
      insertRow chapters chapters_update chapterClash
        \<lparr>ch_id = i, ch_courseId = courseId, ch_title = title, ch_description = description,
         ch_position = n + 1, ch_isPublished = False, ch_publishedAt = None\<rparr>)))"

definition chapterOf :: "id \<Rightarrow> id \<Rightarrow> (db, chapter_row) exec" where
  "chapterOf courseId chapterId =
     findOr chapters (\<lambda>x. ch_id x = chapterId \<and> ch_courseId x = courseId) (NotFound ''Chapitre introuvable'')"

definition updateChapter ::
  "id \<Rightarrow> id \<Rightarrow> id \<Rightarrow> string option \<Rightarrow> string option \<Rightarrow> (db, chapter_row) exec" where
  "updateChapter userId courseId chapterId title description =
     thenE (ownCourse userId courseId)
     (thenE (chapterOf courseId chapterId)
     (updateOne chapters chapters_update (\<lambda>x. ch_id x = chapterId)
        (\<lambda>x. x\<lparr>ch_title := nullish title (ch_title x),
              ch_description := overwrite description (ch_description x)\<rparr>)))"

definition deleteChapter :: "id \<Rightarrow> id \<Rightarrow> id \<Rightarrow> (db, chapter_row) exec" where
  "deleteChapter userId courseId chapterId =
     thenE (ownCourse userId courseId)
     (bindE (chapterOf courseId chapterId) (\<lambda>chapter.
      thenE (deleteMany resources resources_update (\<lambda>r. re_chapterId r = chapterId))
      (thenE (deleteMany chapters chapters_update (\<lambda>x. ch_id x = chapterId))
      (ret chapter))))"

definition publishChapter :: "time \<Rightarrow> id \<Rightarrow> id \<Rightarrow> id \<Rightarrow> (db, chapter_row) exec" where
  "publishChapter now userId courseId chapterId =
     thenE (ownCourse userId courseId)
     (thenE (chapterOf courseId chapterId)
     (updateOne chapters chapters_update (\<lambda>x. ch_id x = chapterId)
        (\<lambda>x. x\<lparr>ch_isPublished := True, ch_publishedAt := Some now\<rparr>)))"

definition resourceClash :: "resource_row \<Rightarrow> resource_row \<Rightarrow> bool" where
  "resourceClash a b \<longleftrightarrow> re_id a = re_id b"

record resource_dto =
  rt_title :: string
  rt_url :: "string option"
  rt_type :: string

definition resourceUrl :: "portal_env \<Rightarrow> id \<Rightarrow> string option \<Rightarrow> upload option \<Rightarrow> (db, string option) exec" where
  "resourceUrl E courseId link upl =
     (case upl of
        Some f \<Rightarrow> bindE (uploadCourseMaterial (pe_store E) f courseId) (\<lambda>u. ret (Some u))
      | None \<Rightarrow> ret link)"

definition addResource ::
  "portal_env \<Rightarrow> time \<Rightarrow> id \<Rightarrow> id \<Rightarrow> id \<Rightarrow> resource_dto \<Rightarrow> upload option \<Rightarrow> (db, resource_row) exec" where
  "addResource E now userId courseId chapterId dto upl =
     thenE (ownCourse userId courseId)
     (thenE (chapterOf courseId chapterId)
     (bindE (resourceUrl E courseId (rt_url dto) upl) (\<lambda>url.
      thenE (require (truthy url) (BadRequest ''Ajoutez un lien ou un fichier''))
      (bindE (newId (pe_uuid E)) (\<lambda>i.
       insertRow resources resources_update resourceClash
         \<lparr>re_id = i, re_chapterId = chapterId, re_title = rt_title dto, re_url = nullish url [],
          re_type = rt_type dto, re_createdAt = now\<rparr>)))))"

definition resourceOf :: "id \<Rightarrow> id \<Rightarrow> (db, resource_row) exec" where
  "resourceOf chapterId resourceId =
     findOr resources (\<lambda>r. re_id r = resourceId \<and> re_chapterId r = chapterId) (NotFound ''Ressource introuvable'')"

definition updateResource ::
  "id \<Rightarrow> id \<Rightarrow> id \<Rightarrow> id \<Rightarrow> string option \<Rightarrow> string option \<Rightarrow> string option \<Rightarrow> (db, resource_row) exec" where
  "updateResource userId courseId chapterId resourceId title url type =
     thenE (ownCourse userId courseId)
     (thenE (chapterOf courseId chapterId)
     (thenE (resourceOf chapterId resourceId)
     (updateOne resources resources_update (\<lambda>r. re_id r = resourceId)
        (\<lambda>r. r\<lparr>re_title := nullish title (re_title r), re_url := nullish url (re_url r),
              re_type := nullish type (re_type r)\<rparr>))))"

definition deleteResource :: "id \<Rightarrow> id \<Rightarrow> id \<Rightarrow> id \<Rightarrow> (db, resource_row) exec" where
  "deleteResource userId courseId chapterId resourceId =
     thenE (ownCourse userId courseId)
     (thenE (chapterOf courseId chapterId)
     (bindE (resourceOf chapterId resourceId) (\<lambda>resource.
      thenE (deleteMany resources resources_update (\<lambda>r. re_id r = resourceId)) (ret resource))))"

section \<open>Students of a course\<close>

record enrolled_item =
  ei_studentId :: id
  ei_student :: student_row
  ei_email :: "string option"

definition enrolledItem :: "db \<Rightarrow> course_enrollment_row \<Rightarrow> enrolled_item option" where
  "enrolledItem s e =
     map_option (\<lambda>x. \<lparr>ei_studentId = ce_studentId e, ei_student = x,
                      ei_email = map_option u_email (find (\<lambda>u. u_id u = st_userId x) (users s))\<rparr>)
       (find (\<lambda>x. st_id x = ce_studentId e) (students s))"

definition classList :: "portal_env \<Rightarrow> db \<Rightarrow> id \<Rightarrow> enrolled_item list" where
  "classList E s courseId =
     sort_key (\<lambda>v. pe_collation E (st_lastName (ei_student v)))
       (List.map_filter (enrolledItem s) (filter (\<lambda>e. ce_courseId e = courseId) (courseEnrollments s)))"

definition enrolledStudents ::
  "portal_env \<Rightarrow> id \<Rightarrow> int option \<Rightarrow> int option \<Rightarrow> (db, enrolled_item page) exec" where
  "enrolledStudents E courseId page limit =
     bindE (asks (\<lambda>s. classList E s courseId)) (\<lambda>items.
     paginate (clampPage page) (clampLimit 25 limit) items)"

definition courseStudents ::
  "portal_env \<Rightarrow> id \<Rightarrow> id \<Rightarrow> int option \<Rightarrow> int option \<Rightarrow> (db, enrolled_item page) exec" where
  "courseStudents E userId courseId page limit =
     thenE (ownCourse userId courseId) (enrolledStudents E courseId page limit)"

section \<open>Attendance\<close>

record roll_line =
  rl_studentId :: id
  rl_firstName :: string
  rl_lastName :: string
  rl_status :: "string option"

definition getAttendance :: "portal_env \<Rightarrow> id \<Rightarrow> id \<Rightarrow> time \<Rightarrow> (db, roll_line list) exec" where
  "getAttendance E userId courseId date =
     thenE (ownCourse userId courseId)
     (bindE (asks (\<lambda>s. map ei_student (classList E s courseId))) (\<lambda>enrolled.
      bindE (findMany attendances (\<lambda>r. at_courseId r = courseId \<and> at_date r = dayOf date)) (\<lambda>existing.
      let statusByStudent = map_of (rev (map (\<lambda>r. (at_studentId r, at_status r)) existing)) in
      ret (map (\<lambda>x. \<lparr>rl_studentId = st_id x, rl_firstName = st_firstName x, rl_lastName = st_lastName x,
                     rl_status = statusByStudent (st_id x)\<rparr>) enrolled))))"

definition sameAttendance :: "id \<Rightarrow> time \<Rightarrow> id \<Rightarrow> attendance_row \<Rightarrow> bool" where
  "sameAttendance courseId day studentId r \<longleftrightarrow>
     at_courseId r = courseId \<and> at_studentId r = studentId \<and> at_date r = day"

definition recordAttendance :: "id \<Rightarrow> id \<Rightarrow> time \<Rightarrow> id \<times> string \<Rightarrow> (db, unit) exec" where
  "recordAttendance teacherId courseId day = (\<lambda>(studentId, status).
     upsertRow attendances attendances_update (sameAttendance courseId day studentId)
       (\<lambda>r. r\<lparr>at_status := status, at_markedBy := teacherId\<rparr>)
       \<lparr>at_courseId = courseId, at_studentId = studentId, at_date = day, at_status = status,
        at_markedBy = teacherId\<rparr>)"

definition markAttendance ::
  "portal_env \<Rightarrow> id \<Rightarrow> id \<Rightarrow> time \<Rightarrow> (id \<times> string) list \<Rightarrow> (db, roll_line list) exec" where
  "markAttendance E userId courseId date records =
     bindE (teacherOf userId) (\<lambda>teacher.
     thenE (ownCourse userId courseId)
     (bindE (findMany courseEnrollments (\<lambda>e. ce_courseId e = courseId \<and> ce_studentId e \<in> fst ` set records))
        (\<lambda>enrolled.
      let enrolledIds = set (map ce_studentId enrolled) in
      thenE (case find (\<lambda>r. fst r \<notin> enrolledIds) records of
               None \<Rightarrow> ret ()
             | Some unknown \<Rightarrow>
                 throw (BadRequest (''L'etudiant '' @ fst unknown @ '' n'est pas inscrit a ce cours'')))
      (thenE (transact (forEach records (recordAttendance (th_id teacher) courseId (dayOf date))))
      (getAttendance E userId courseId date)))))"

section \<open>Evaluations and announcements\<close>

definition courseEvaluations :: "id \<Rightarrow> id \<Rightarrow> (db, evaluation_row list) exec" where
  "courseEvaluations userId courseId =
     thenE (ownCourse userId courseId)
     (asks (\<lambda>s. orderNullsLast el_scheduledAt (filter (\<lambda>x. el_courseId x = courseId) (evaluations s))))"

definition announceToCourse ::
  "portal_env \<Rightarrow> time \<Rightarrow> id \<Rightarrow> id \<Rightarrow> string \<Rightarrow> string \<Rightarrow> (db, id \<times> nat) exec" where
  "announceToCourse E now userId courseId title body =
     bindE (ownCourse userId courseId) (\<lambda>course.
     bindE (asks (\<lambda>s. List.map_filter
              (\<lambda>e. map_option st_userId (find (\<lambda>x. st_id x = ce_studentId e) (students s)))
              (filter (\<lambda>e. ce_courseId e = courseId) (courseEnrollments s)))) (\<lambda>userIds.
     createAndNotify (pe_uuid E) now
       \<lparr>ai_schoolId = c_schoolId course, ai_authorId = userId, ai_title = title, ai_body = body,
        ai_targetType = ''COURSE_STUDENTS'', ai_targetClasses = [], ai_courseId = Some courseId\<rparr>
       userIds))"

record announcement_summary =
  as_id :: id
  as_title :: string
  as_body :: string
  as_createdAt :: time
  as_recipientCount :: nat
  as_readCount :: nat

definition announcementSummary :: "db \<Rightarrow> announcement_row \<Rightarrow> announcement_summary" where
  "announcementSummary s a =
     (let recipients = filter (\<lambda>r. ar_announcementId r = an_id a) (announcementRecipients s) in
      \<lparr>as_id = an_id a, as_title = an_title a, as_body = an_body a, as_createdAt = an_createdAt a,
       as_recipientCount = length recipients,
       as_readCount = count_rows (\<lambda>r. list_ex (\<lambda>n. n_id n = ar_notificationId r \<and> n_isRead n) (notifications s))
         recipients\<rparr>)"

definition courseAnnouncements :: "id \<Rightarrow> id \<Rightarrow> (db, announcement_summary list) exec" where
  "courseAnnouncements userId courseId =
     thenE (ownCourse userId courseId)
     (asks (\<lambda>s. map (announcementSummary s) (orderDesc an_createdAt
        (filter (\<lambda>a. an_courseId a = Some courseId \<and> an_targetType a = ''COURSE_STUDENTS'') (announcements s)))))"

record evaluation_dto =
  ev2_title :: string
  ev2_type :: string
  ev2_scheduledAt :: "time option"
  ev2_coefficient :: "rat option"

definition evaluationClash :: "evaluation_row \<Rightarrow> evaluation_row \<Rightarrow> bool" where
  "evaluationClash a b \<longleftrightarrow> el_id a = el_id b"

definition createEvaluation :: "(nat \<Rightarrow> id) \<Rightarrow> id \<Rightarrow> id \<Rightarrow> evaluation_dto \<Rightarrow> (db, evaluation_row) exec" where
  "createEvaluation uuid userId courseId dto =
     thenE (ownCourse userId courseId)
     (bindE (newId uuid) (\<lambda>i.
      insertRow evaluations evaluations_update evaluationClash
        \<lparr>el_id = i, el_courseId = courseId, el_title = ev2_title dto, el_type = ev2_type dto,
         el_scheduledAt = ev2_scheduledAt dto, el_coefficient = nullish (ev2_coefficient dto) 1\<rparr>))"

definition courseGrades ::
  "portal_env \<Rightarrow> id \<Rightarrow> id \<Rightarrow> int option \<Rightarrow> int option \<Rightarrow> (db, (enrolled_item \<times> grade_row option) page) exec" where
  "courseGrades E userId evaluationId page limit =
     bindE (ownEvaluation userId evaluationId) (\<lambda>evaluation.
     bindE (enrolledStudents E (el_courseId evaluation) page limit) (\<lambda>p.
     bindE (findMany grades (\<lambda>g. g_evaluationId g = evaluationId \<and> g_studentId g \<in> ei_studentId ` set (pg_items p)))
       (\<lambda>found.
     let gradesByStudentId = map_of (rev (map (\<lambda>g. (g_studentId g, g)) found)) in
     ret \<lparr>pg_items = map (\<lambda>v. (v, gradesByStudentId (ei_studentId v))) (pg_items p),
          pg_page = pg_page p, pg_limit = pg_limit p, pg_total = pg_total p, pg_totalPages = pg_totalPages p\<rparr>)))"

record grade_dto =
  gd_studentId :: id
  gd_value :: rat
  gd_comment :: "string option"

definition sameGrade :: "id \<Rightarrow> id \<Rightarrow> grade_row \<Rightarrow> bool" where
  "sameGrade evaluationId studentId g \<longleftrightarrow> g_evaluationId g = evaluationId \<and> g_studentId g = studentId"

definition saveGrade :: "id \<Rightarrow> id \<Rightarrow> grade_dto \<Rightarrow> (db, grade_row) exec" where
  "saveGrade userId evaluationId dto =
     bindE (ownEvaluation userId evaluationId) (\<lambda>evaluation.
     thenE (findOr courseEnrollments
              (\<lambda>e. ce_courseId e = el_courseId evaluation \<and> ce_studentId e = gd_studentId dto)
              (NotFound ''Etudiant non inscrit a ce cours''))
     (thenE (upsertRow grades grades_update (sameGrade evaluationId (gd_studentId dto))
               (\<lambda>g. g\<lparr>g_value := gd_value dto, g_comment := overwrite (gd_comment dto) (g_comment g)\<rparr>)
               \<lparr>g_evaluationId = evaluationId, g_studentId = gd_studentId dto, g_value = gd_value dto,
                g_comment = gd_comment dto\<rparr>)
     (findOr grades (sameGrade evaluationId (gd_studentId dto)) (Failure ''P2025''))))"

section \<open>Homework\<close>

definition homeworkClash :: "homework_row \<Rightarrow> homework_row \<Rightarrow> bool" where
  "homeworkClash a b \<longleftrightarrow> h_id a = h_id b"

record homework_dto =
  hd_title :: string
  hd_instructions :: "string option"
  hd_dueAt :: "time option"

definition createHomework :: "(nat \<Rightarrow> id) \<Rightarrow> time \<Rightarrow> id \<Rightarrow> id \<Rightarrow> homework_dto \<Rightarrow> (db, homework_row) exec" where
  "createHomework uuid now userId courseId dto =
     thenE (ownCourse userId courseId)
     (bindE (newId uuid) (\<lambda>i.
      insertRow homeworks homeworks_update homeworkClash
        \<lparr>h_id = i, h_courseId = courseId, h_title = hd_title dto, h_instructions = hd_instructions dto,
         h_dueAt = hd_dueAt dto, h_publishedAt = None, h_createdAt = now\<rparr>))"

definition publishHomework :: "time \<Rightarrow> id \<Rightarrow> id \<Rightarrow> (db, homework_row) exec" where
  "publishHomework now userId assignmentId =
     thenE (ownHomework userId assignmentId)
     (updateOne homeworks homeworks_update (\<lambda>h. h_id h = assignmentId) (\<lambda>h. h\<lparr>h_publishedAt := Some now\<rparr>))"

record submission_view =
  sv_submission :: submission_row
  sv_student :: "student_row option"
  sv_email :: "string option"

definition submissionView :: "db \<Rightarrow> submission_row \<Rightarrow> submission_view" where
  "submissionView s x =
     (let st = find (\<lambda>y. st_id y = su_studentId x) (students s) in
      \<lparr>sv_submission = x, sv_student = st,
       sv_email = Option.bind st (\<lambda>y. map_option u_email (find (\<lambda>u. u_id u = st_userId y) (users s)))\<rparr>)"

definition homeworkSubmissions :: "id \<Rightarrow> id \<Rightarrow> (db, submission_view list) exec" where
  "homeworkSubmissions userId assignmentId =
     thenE (ownHomework userId assignmentId)
     (asks (\<lambda>s. map (submissionView s)
        (orderDesc su_submittedAt (filter (\<lambda>x. su_assignmentId x = assignmentId) (submissions s)))))"

definition gradeSubmission :: "id \<Rightarrow> id \<Rightarrow> rat \<Rightarrow> string option \<Rightarrow> (db, submission_row) exec" where
  "gradeSubmission userId submissionId grade feedback =
     thenE (ownSubmission userId submissionId)
     (updateOne submissions submissions_update (\<lambda>x. su_id x = submissionId)
        (\<lambda>x. x\<lparr>su_grade := Some grade, su_feedback := overwrite feedback (su_feedback x)\<rparr>))"

section \<open>Requests of teachers\<close>

text \<open>Every operation that writes, as a request; the results are dropped.\<close>

datatype teaching_request =
    UpdateProfile teacher_profile_dto
  | UpdateAvatar string
  | ChangePassword string string
  | UpdateTheme string
  | UpdateSettings id course_settings_dto
  | CreateChapter id string "string option"
  | UpdateChapter id id "string option" "string option"
  | DeleteChapter id id
  | PublishChapter id id
  | AddResource id id resource_dto "upload option"
  | UpdateResource id id id "string option" "string option" "string option"
  | DeleteResource id id id
  | MarkAttendance id time "(id \<times> string) list"
  | Announce id string string
  | CreateEvaluation id evaluation_dto
  | SaveGrade id grade_dto
  | CreateHomework id homework_dto
  | PublishHomework id
  | GradeSubmission id rat "string option"

definition discard :: "('s, 'a) exec \<Rightarrow> ('s, unit) exec" where
  "discard m = thenE m (ret ())"

fun teachingRequest :: "portal_env \<Rightarrow> time \<Rightarrow> id \<Rightarrow> teaching_request \<Rightarrow> (db, unit) exec" where
  "teachingRequest E now u (UpdateProfile dto) = discard (updateTeacherProfile E u dto)"
| "teachingRequest E now u (UpdateAvatar url) = discard (updateTeacherAvatar E u url)"
| "teachingRequest E now u (ChangePassword old new) = changeTeacherPassword E u old new"
| "teachingRequest E now u (UpdateTheme theme) = discard (updateTheme u theme)"
| "teachingRequest E now u (UpdateSettings c dto) = discard (updateCourseSettings u c dto)"
| "teachingRequest E now u (CreateChapter c title description) =
     discard (createChapter (pe_uuid E) u c title description)"
| "teachingRequest E now u (UpdateChapter c k title description) = discard (updateChapter u c k title description)"
| "teachingRequest E now u (DeleteChapter c k) = discard (deleteChapter u c k)"
| "teachingRequest E now u (PublishChapter c k) = discard (publishChapter now u c k)"
| "teachingRequest E now u (AddResource c k dto upl) = discard (addResource E now u c k dto upl)"
| "teachingRequest E now u (UpdateResource c k r title url type) = discard (updateResource u c k r title url type)"
| "teachingRequest E now u (DeleteResource c k r) = discard (deleteResource u c k r)"
| "teachingRequest E now u (MarkAttendance c date records) = discard (markAttendance E u c date records)"
| "teachingRequest E now u (Announce c title body) = discard (announceToCourse E now u c title body)"
| "teachingRequest E now u (CreateEvaluation c dto) = discard (createEvaluation (pe_uuid E) u c dto)"
| "teachingRequest E now u (SaveGrade e dto) = discard (saveGrade u e dto)"
| "teachingRequest E now u (CreateHomework c dto) = discard (createHomework (pe_uuid E) now u c dto)"
| "teachingRequest E now u (PublishHomework h) = discard (publishHomework now u h)"
| "teachingRequest E now u (GradeSubmission x grade feedback) = discard (gradeSubmission u x grade feedback)"

text \<open>Requests one after the other; a request that fails does not stop the next ones.\<close>

fun serveTeaching :: "portal_env \<Rightarrow> time \<Rightarrow> (id \<times> teaching_request) list \<Rightarrow> db \<Rightarrow> db" where
  "serveTeaching E now [] s = s"
| "serveTeaching E now ((u, r) # rs) s = serveTeaching E now rs (snd (teachingRequest E now u r s))"

section \<open>The work of a course\<close>

definition teachesCourse :: "db \<Rightarrow> id \<Rightarrow> id \<Rightarrow> bool" where
  "teachesCourse s u i \<longleftrightarrow>
     list_ex (\<lambda>x. th_userId x = u \<and> courseWhere s (taughtBy s (th_id x)) i) (teachers s)"

definition chapterCourse :: "db \<Rightarrow> id \<Rightarrow> id option" where
  "chapterCourse s k = map_option ch_courseId (find (\<lambda>x. ch_id x = k) (chapters s))"

definition evaluationCourse :: "db \<Rightarrow> id \<Rightarrow> id option" where
  "evaluationCourse s k = map_option el_courseId (find (\<lambda>x. el_id x = k) (evaluations s))"

definition homeworkCourse :: "db \<Rightarrow> id \<Rightarrow> id option" where
  "homeworkCourse s k = map_option h_courseId (find (\<lambda>x. h_id x = k) (homeworks s))"

record course_work =
  wk_chapters :: "chapter_row list"
  wk_resources :: "resource_row list"
  wk_evaluations :: "evaluation_row list"
  wk_grades :: "grade_row list"
  wk_homeworks :: "homework_row list"
  wk_submissions :: "submission_row list"
  wk_attendances :: "attendance_row list"

definition courseWork :: "db \<Rightarrow> id \<Rightarrow> course_work" where
  "courseWork s i =
     \<lparr>wk_chapters = filter (\<lambda>x. ch_courseId x = i) (chapters s),
      wk_resources = filter (\<lambda>r. chapterCourse s (re_chapterId r) = Some i) (resources s),
      wk_evaluations = filter (\<lambda>x. el_courseId x = i) (evaluations s),
      wk_grades = filter (\<lambda>g. evaluationCourse s (g_evaluationId g) = Some i) (grades s),
      wk_homeworks = filter (\<lambda>x. h_courseId x = i) (homeworks s),
      wk_submissions = filter (\<lambda>x. homeworkCourse s (su_assignmentId x) = Some i) (submissions s),
      wk_attendances = filter (\<lambda>r. at_courseId r = i) (attendances s)\<rparr>"

text \<open>Identifiers are unique keys of their tables.\<close>

definition workIds :: "db \<Rightarrow> bool" where
  "workIds s \<longleftrightarrow>
     distinct (map ch_id (chapters s)) \<and> distinct (map re_id (resources s)) \<and>
     distinct (map el_id (evaluations s)) \<and> distinct (map h_id (homeworks s)) \<and>
     distinct (map su_id (submissions s))"

text \<open>What the coursework of a course and the rights of a teacher depend on.\<close>

definition courseCore ::
  "db \<Rightarrow> chapter_row list \<times> resource_row list \<times> evaluation_row list \<times> grade_row list \<times> homework_row list \<times>
     submission_row list \<times> attendance_row list" where
  "courseCore s = (chapters s, resources s, evaluations s, grades s, homeworks s, submissions s, attendances s)"

definition teachingRights :: "db \<Rightarrow> (id \<times> id) list \<times> teacher_school_row list \<times> (id \<times> id \<times> id) list" where
  "teachingRights s =
     (map (\<lambda>x. (th_userId x, th_id x)) (teachers s), teacherSchools s,
      map (\<lambda>c. (c_id c, c_teacherId c, c_schoolId c)) (courses s))"

lemma teachesCourse_rights:
  "teachesCourse s u i \<longleftrightarrow>
     (case teachingRights s of (ts, asg, cs) \<Rightarrow>
        list_ex (\<lambda>(v, t). v = u \<and>
          list_ex (\<lambda>(c, t', sc). c = i \<and> t' = t \<and>
            list_ex (\<lambda>a. ts_schoolId a = sc \<and> ts_teacherId a = t \<and> ts_isActive a) asg) cs) ts)"
  by (simp add: teachesCourse_def teachingRights_def courseWhere_def taughtBy_def assignedAt_def
      list_ex_iff image_iff)

text \<open>The relation: rights and unique keys stay, and so does the work of other teachers' courses.\<close>

definition minds :: "id \<Rightarrow> db \<Rightarrow> db \<Rightarrow> bool" where
  "minds u s t \<longleftrightarrow>
     teachingRights t = teachingRights s \<and>
     (workIds s \<longrightarrow> workIds t \<and> (\<forall>i. \<not> teachesCourse s u i \<longrightarrow> courseWork t i = courseWork s i))"

interpretation mind: two_state "minds u" for u
  by unfold_locales (auto simp: minds_def teachesCourse_rights)

lemma minds_core:
  assumes "teachingRights t = teachingRights s" "courseCore t = courseCore s"
  shows "minds u s t"
proof -
  have "workIds t = workIds s" using assms(2) by (simp add: courseCore_def workIds_def)
  moreover have "courseWork t i = courseWork s i" for i
    using assms(2) by (simp add: courseCore_def courseWork_def chapterCourse_def evaluationCourse_def homeworkCourse_def)
  ultimately show ?thesis using assms(1) by (simp add: minds_def)
qed

lemma minds_tables: "tables t = tables s \<Longrightarrow> minds u s t"
  by (drule tables_eqD) (auto intro!: minds_core simp: teachingRights_def courseCore_def)

lemma minds_seqNo: "minds u s (s\<lparr>seqNo := n\<rparr>)"
  by (rule minds_tables) (simp add: tables_def)

lemma steps_newId: "steps (minds u) (newId f) s"
  by (simp add: steps_def newId_run minds_seqNo)

lemma find_unique: "distinct (map k xs) \<Longrightarrow> x \<in> set xs \<Longrightarrow> k x = i \<Longrightarrow> find (\<lambda>y. k y = i) xs = Some x"
  using find_key [of k xs x] by simp

text \<open>A row inserted in a table of the course, or a change of rows that leaves identifier and course.\<close>

lemma filter_append_other: "\<not> P r \<Longrightarrow> filter P (xs @ [r]) = filter P xs"
  by simp

lemma filter_update_rows_outside:
  "(\<And>r. r \<in> set xs \<Longrightarrow> P r \<Longrightarrow> \<not> Q r \<and> \<not> Q (f r)) \<Longrightarrow> filter Q (update_rows P f xs) = filter Q xs"
  by (induction xs) auto

lemma filter_filter_other: "(\<And>r. r \<in> set xs \<Longrightarrow> P r \<Longrightarrow> \<not> Q r) \<Longrightarrow> filter Q (filter (\<lambda>r. \<not> P r) xs) = filter Q xs"
  by (induction xs) auto

lemma find_append_key: "k r \<noteq> i \<Longrightarrow> find (\<lambda>y. k y = i) (xs @ [r]) = find (\<lambda>y. k y = i) xs"
  by (simp add: find_append split: option.split)

lemma find_filter_key:
  "k0 \<noteq> i \<Longrightarrow> find (\<lambda>y. k y = i) (filter (\<lambda>y. k y \<noteq> k0) xs) = find (\<lambda>y. k y = i) xs"
  by (induction xs) auto

text \<open>
  The three tables of a course whose rows others refer to (chapters, evaluations, homework) are
  handled alike: \<open>elsewhere\<close> says that a change only concerns rows of the course \<open>c\<close>.
\<close>

definition locate :: "('r \<Rightarrow> id) \<Rightarrow> ('r \<Rightarrow> id) \<Rightarrow> 'r list \<Rightarrow> id \<Rightarrow> id option" where
  "locate ident cid xs k = map_option cid (find (\<lambda>x. ident x = k) xs)"

definition elsewhere :: "('r \<Rightarrow> id) \<Rightarrow> ('r \<Rightarrow> id) \<Rightarrow> id \<Rightarrow> 'r list \<Rightarrow> 'r list \<Rightarrow> bool" where
  "elsewhere ident cid c xs ys \<longleftrightarrow>
     (distinct (map ident xs) \<longrightarrow>
        distinct (map ident ys) \<and>
        (\<forall>i. i \<noteq> c \<longrightarrow> filter (\<lambda>x. cid x = i) ys = filter (\<lambda>x. cid x = i) xs \<and>
           (\<forall>k. (locate ident cid ys k = Some i) = (locate ident cid xs k = Some i))))"

lemma elsewhere_insert:
  assumes "ident r \<notin> ident ` set xs" "cid r = c"
  shows "elsewhere ident cid c xs (xs @ [r])"
  using assms by (auto simp: elsewhere_def locate_def find_append split: option.split)

lemma elsewhere_update:
  assumes "find (\<lambda>x. ident x = k) xs = Some x" "cid x = c" "\<And>x. ident (f x) = ident x \<and> cid (f x) = cid x"
  shows "elsewhere ident cid c xs (update_rows (\<lambda>x. ident x = k) f xs)"
proof -
  have x: "x \<in> set xs" "ident x = k" using find_Some_in [OF assms(1)] by auto
  have "locate ident cid (update_rows (\<lambda>x. ident x = k) f xs) j = locate ident cid xs j" for j
    by (simp add: locate_def find_update_rows assms(3) option.map_comp comp_def if_distrib cong: if_cong)
  moreover have "filter (\<lambda>x. cid x = i) (update_rows (\<lambda>x. ident x = k) f xs) = filter (\<lambda>x. cid x = i) xs"
    if d: "distinct (map ident xs)" and i: "i \<noteq> c" for i
  proof (rule filter_update_rows_outside)
    fix r assume "r \<in> set xs" "ident r = k"
    have "r = x" by (rule distinct_key_eq [OF d \<open>r \<in> set xs\<close> x(1)]) (simp add: \<open>ident r = k\<close> x(2))
    with assms i show "cid r \<noteq> i \<and> cid (f r) \<noteq> i" by simp
  qed
  ultimately show ?thesis by (simp add: elsewhere_def assms(3))
qed

lemma elsewhere_delete:
  assumes "find (\<lambda>x. ident x = k) xs = Some x" "cid x = c"
  shows "elsewhere ident cid c xs (filter (\<lambda>x. ident x \<noteq> k) xs)"
proof -
  have x: "x \<in> set xs" "ident x = k" using find_Some_in [OF assms(1)] by auto
  have own: "r = x" if "distinct (map ident xs)" "r \<in> set xs" "ident r = k" for r
    by (rule distinct_key_eq [OF that(1,2) x(1)]) (simp add: that(3) x(2))
  have "filter (\<lambda>x. cid x = i) (filter (\<lambda>x. ident x \<noteq> k) xs) = filter (\<lambda>x. cid x = i) xs"
    if d: "distinct (map ident xs)" and i: "i \<noteq> c" for i
    by (rule filter_filter_other) (use own [OF d] assms(2) i in auto)
  moreover have "(locate ident cid (filter (\<lambda>x. ident x \<noteq> k) xs) j = Some i) = (locate ident cid xs j = Some i)"
    if i: "i \<noteq> c" for i j
  proof (cases "k = j")
    case True
    have "find (\<lambda>x. ident x = j) (filter (\<lambda>x. ident x \<noteq> k) xs) = None" by (auto simp: find_None True)
    with assms i True show ?thesis by (simp add: locate_def)
  next
    case False
    then show ?thesis by (simp add: locate_def find_filter_key)
  qed
  ultimately show ?thesis by (auto simp: elsewhere_def distinct_map_filter)
qed

lemma find_of_two:
  assumes "distinct (map ident xs)" "find (\<lambda>x. ident x = k \<and> P x) xs = Some x"
  shows "find (\<lambda>x. ident x = k) xs = Some x \<and> P x"
proof -
  have "x \<in> set xs" "ident x = k" "P x" using find_Some_in [OF assms(2)] by auto
  with find_unique [OF assms(1) this(1,2)] show ?thesis by blast
qed

lemma workIds_simps:
  "workIds s \<Longrightarrow> distinct (map ch_id (chapters s))" "workIds s \<Longrightarrow> distinct (map re_id (resources s))"
  "workIds s \<Longrightarrow> distinct (map el_id (evaluations s))" "workIds s \<Longrightarrow> distinct (map h_id (homeworks s))"
  "workIds s \<Longrightarrow> distinct (map su_id (submissions s))"
  by (simp_all add: workIds_def)

lemma locate_simps:
  "locate ch_id ch_courseId (chapters s) = chapterCourse s"
  "locate el_id el_courseId (evaluations s) = evaluationCourse s"
  "locate h_id h_courseId (homeworks s) = homeworkCourse s"
  by (simp_all add: fun_eq_iff locate_def chapterCourse_def evaluationCourse_def homeworkCourse_def)

lemma minds_chapters:
  assumes "teachesCourse s u c" "workIds s \<Longrightarrow> elsewhere ch_id ch_courseId c (chapters s) xs"
  shows "minds u s (s\<lparr>chapters := xs\<rparr>)"
proof -
  have "courseWork (s\<lparr>chapters := xs\<rparr>) i = courseWork s i" if "\<not> teachesCourse s u i" "workIds s" for i
  proof -
    have "i \<noteq> c" using assms(1) that(1) by blast
    with assms(2) [OF that(2)] workIds_simps(1) [OF that(2)] show ?thesis
      by (simp add: courseWork_def elsewhere_def locate_simps evaluationCourse_def homeworkCourse_def)
         (simp add: locate_def chapterCourse_def)
  qed
  moreover have "workIds (s\<lparr>chapters := xs\<rparr>)" if "workIds s"
    using assms(2) [OF that] that by (simp add: workIds_def elsewhere_def)
  ultimately show ?thesis by (simp add: minds_def teachingRights_def)
qed

lemma minds_evaluations:
  assumes "teachesCourse s u c" "workIds s \<Longrightarrow> elsewhere el_id el_courseId c (evaluations s) xs"
  shows "minds u s (s\<lparr>evaluations := xs\<rparr>)"
proof -
  have "courseWork (s\<lparr>evaluations := xs\<rparr>) i = courseWork s i" if "\<not> teachesCourse s u i" "workIds s" for i
  proof -
    have "i \<noteq> c" using assms(1) that(1) by blast
    with assms(2) [OF that(2)] workIds_simps(3) [OF that(2)] show ?thesis
      by (simp add: courseWork_def elsewhere_def locate_simps chapterCourse_def homeworkCourse_def)
         (simp add: locate_def evaluationCourse_def)
  qed
  moreover have "workIds (s\<lparr>evaluations := xs\<rparr>)" if "workIds s"
    using assms(2) [OF that] that by (simp add: workIds_def elsewhere_def)
  ultimately show ?thesis by (simp add: minds_def teachingRights_def)
qed

lemma minds_homeworks:
  assumes "teachesCourse s u c" "workIds s \<Longrightarrow> elsewhere h_id h_courseId c (homeworks s) xs"
  shows "minds u s (s\<lparr>homeworks := xs\<rparr>)"
proof -
  have "courseWork (s\<lparr>homeworks := xs\<rparr>) i = courseWork s i" if "\<not> teachesCourse s u i" "workIds s" for i
  proof -
    have "i \<noteq> c" using assms(1) that(1) by blast
    with assms(2) [OF that(2)] workIds_simps(4) [OF that(2)] show ?thesis
      by (simp add: courseWork_def elsewhere_def locate_simps chapterCourse_def evaluationCourse_def)
         (simp add: locate_def homeworkCourse_def)
  qed
  moreover have "workIds (s\<lparr>homeworks := xs\<rparr>)" if "workIds s"
    using assms(2) [OF that] that by (simp add: workIds_def elsewhere_def)
  ultimately show ?thesis by (simp add: minds_def teachingRights_def)
qed

text \<open>The tables that refer to them: a change concerns rows of the course only.\<close>

lemma minds_resources:
  assumes "teachesCourse s u c" "workIds s \<Longrightarrow> distinct (map re_id xs)"
    and "\<And>i. workIds s \<Longrightarrow> i \<noteq> c \<Longrightarrow> filter (\<lambda>r. chapterCourse s (re_chapterId r) = Some i) xs =
           filter (\<lambda>r. chapterCourse s (re_chapterId r) = Some i) (resources s)"
  shows "minds u s (s\<lparr>resources := xs\<rparr>)"
proof -
  have "courseWork (s\<lparr>resources := xs\<rparr>) i = courseWork s i" if "\<not> teachesCourse s u i" "workIds s" for i
    using assms(1) that assms(3) [OF that(2), of i]
    by (auto simp: courseWork_def chapterCourse_def evaluationCourse_def homeworkCourse_def)
  then show ?thesis using assms(2) by (auto simp: minds_def teachingRights_def workIds_def)
qed

lemma minds_grades:
  assumes "teachesCourse s u c"
    and "\<And>i. workIds s \<Longrightarrow> i \<noteq> c \<Longrightarrow> filter (\<lambda>g. evaluationCourse s (g_evaluationId g) = Some i) xs =
           filter (\<lambda>g. evaluationCourse s (g_evaluationId g) = Some i) (grades s)"
  shows "minds u s (s\<lparr>grades := xs\<rparr>)"
proof -
  have "courseWork (s\<lparr>grades := xs\<rparr>) i = courseWork s i" if "\<not> teachesCourse s u i" "workIds s" for i
    using assms(1) that assms(2) [OF that(2), of i]
    by (auto simp: courseWork_def chapterCourse_def evaluationCourse_def homeworkCourse_def)
  then show ?thesis by (auto simp: minds_def teachingRights_def workIds_def)
qed

lemma minds_submissions:
  assumes "teachesCourse s u c" "workIds s \<Longrightarrow> distinct (map su_id xs)"
    and "\<And>i. workIds s \<Longrightarrow> i \<noteq> c \<Longrightarrow> filter (\<lambda>x. homeworkCourse s (su_assignmentId x) = Some i) xs =
           filter (\<lambda>x. homeworkCourse s (su_assignmentId x) = Some i) (submissions s)"
  shows "minds u s (s\<lparr>submissions := xs\<rparr>)"
proof -
  have "courseWork (s\<lparr>submissions := xs\<rparr>) i = courseWork s i" if "\<not> teachesCourse s u i" "workIds s" for i
    using assms(1) that assms(3) [OF that(2), of i]
    by (auto simp: courseWork_def chapterCourse_def evaluationCourse_def homeworkCourse_def)
  then show ?thesis using assms(2) by (auto simp: minds_def teachingRights_def workIds_def)
qed

lemma minds_attendances:
  assumes "teachesCourse s u c"
    and "\<And>i. i \<noteq> c \<Longrightarrow> filter (\<lambda>r. at_courseId r = i) xs = filter (\<lambda>r. at_courseId r = i) (attendances s)"
  shows "minds u s (s\<lparr>attendances := xs\<rparr>)"
proof -
  have "courseWork (s\<lparr>attendances := xs\<rparr>) i = courseWork s i" if "\<not> teachesCourse s u i" for i
    using assms(1) that assms(2) [of i]
    by (auto simp: courseWork_def chapterCourse_def evaluationCourse_def homeworkCourse_def)
  then show ?thesis by (auto simp: minds_def teachingRights_def workIds_def)
qed

section \<open>A teacher's requests stay in the teacher's courses\<close>

lemma steps_readonly: "snd (m s) = s \<Longrightarrow> steps (minds u) m s"
  by (simp add: steps_def mind.reflR)

lemma steps_discard: "steps (minds u) m s \<Longrightarrow> steps (minds u) (discard m) s"
  unfolding discard_def by (rule mind.steps_thenE) (simp_all add: mind.steps_ret)

lemma teacherOf_ok: "teacherOf u s = (Inr x, t) \<Longrightarrow> t = s \<and> x \<in> set (teachers s) \<and> th_userId x = u"
  by (auto simp: teacherOf_def findOr_run dest: find_Some_in split: option.splits)

lemma teacherOf_readonly: "snd (teacherOf u s) = s"
  by (simp add: teacherOf_def findOr_run split: option.split)

lemma ownCourse_ok: "ownCourse u c s = (Inr x, t) \<Longrightarrow> t = s \<and> teachesCourse s u c"
  by (auto simp: ownCourse_def bindE_run asks_run ret_run throw_run teachesCourse_def courseWhere_def list_ex_iff
      dest!: teacherOf_ok find_Some_in split: prod.splits sum.splits option.splits)

lemma ownCourse_readonly: "snd (ownCourse u c s) = s"
  using teacherOf_readonly [of u s]
  by (auto simp: ownCourse_def bindE_run asks_run ret_run throw_run split: prod.splits sum.splits option.splits)

lemma ownEvaluation_ok:
  "ownEvaluation u e s = (Inr x, t) \<Longrightarrow>
   t = s \<and> find (\<lambda>y. el_id y = e) (evaluations s) = Some x \<and> teachesCourse s u (el_courseId x)"
  by (auto simp: ownEvaluation_def bindE_run thenE_run findOr_run ret_run dest: ownCourse_ok
      split: prod.splits sum.splits option.splits)

lemma ownEvaluation_readonly: "snd (ownEvaluation u e s) = s"
  by (auto simp: ownEvaluation_def bindE_run thenE_run findOr_run ret_run intro: ownCourse_readonly [THEN sym]
      split: prod.splits sum.splits option.splits) (metis ownCourse_readonly snd_conv)+

lemma ownHomework_ok:
  "ownHomework u h s = (Inr x, t) \<Longrightarrow>
   t = s \<and> find (\<lambda>y. h_id y = h) (homeworks s) = Some x \<and> teachesCourse s u (h_courseId x)"
  by (auto simp: ownHomework_def bindE_run thenE_run findOr_run ret_run dest: ownCourse_ok
      split: prod.splits sum.splits option.splits)

lemma ownHomework_readonly: "snd (ownHomework u h s) = s"
  by (auto simp: ownHomework_def bindE_run thenE_run findOr_run ret_run
      split: prod.splits sum.splits option.splits) (metis ownCourse_readonly snd_conv)+

lemma ownSubmission_ok:
  "ownSubmission u i s = (Inr x, t) \<Longrightarrow>
   t = s \<and> find (\<lambda>y. su_id y = i) (submissions s) = Some x \<and>
   (\<exists>h. find (\<lambda>y. h_id y = su_assignmentId x) (homeworks s) = Some h \<and> teachesCourse s u (h_courseId h))"
  by (auto simp: ownSubmission_def bindE_run thenE_run findOr_run ret_run dest: ownHomework_ok
      split: prod.splits sum.splits option.splits)

lemma ownSubmission_readonly: "snd (ownSubmission u i s) = s"
  by (auto simp: ownSubmission_def bindE_run thenE_run findOr_run ret_run
      split: prod.splits sum.splits option.splits) (metis ownHomework_readonly snd_conv)+

lemma chapterOf_ok:
  "chapterOf c k s = (Inr x, t) \<Longrightarrow> t = s \<and> find (\<lambda>x. ch_id x = k \<and> ch_courseId x = c) (chapters s) = Some x"
  by (simp add: chapterOf_def findOr_run split: option.splits)

lemma chapterOf_readonly: "snd (chapterOf c k s) = s"
  by (simp add: chapterOf_def findOr_run split: option.split)

lemma resourceOf_ok:
  "resourceOf k i s = (Inr x, t) \<Longrightarrow> t = s \<and> find (\<lambda>x. re_id x = i \<and> re_chapterId x = k) (resources s) = Some x"
  by (simp add: resourceOf_def findOr_run split: option.splits)

lemma resourceOf_readonly: "snd (resourceOf k i s) = s"
  by (simp add: resourceOf_def findOr_run split: option.split)

lemma own_steps:
  "steps (minds u) (teacherOf v) s" "steps (minds u) (ownCourse v c) s" "steps (minds u) (ownEvaluation v e) s"
  "steps (minds u) (ownHomework v h) s" "steps (minds u) (ownSubmission v x) s"
  "steps (minds u) (chapterOf c k) s" "steps (minds u) (resourceOf k i) s"
  by (simp_all add: steps_def mind.reflR teacherOf_readonly ownCourse_readonly ownEvaluation_readonly
      ownHomework_readonly ownSubmission_readonly chapterOf_readonly resourceOf_readonly)

text \<open>What the reads before a write establish, in the form the table lemmas ask for.\<close>

lemma own_chapter:
  assumes "ownCourse u c s = (Inr x, t)" "chapterOf c k t = (Inr ch, v)" "workIds s"
  shows "find (\<lambda>x. ch_id x = k) (chapters s) = Some ch \<and> ch_courseId ch = c \<and> chapterCourse s k = Some c"
  using ownCourse_ok [OF assms(1)] chapterOf_ok [OF assms(2)]
    find_of_two [OF workIds_simps(1) [OF assms(3)], of k "\<lambda>x. ch_courseId x = c" ch]
  by (simp add: chapterCourse_def)

lemma own_resource:
  assumes "ownCourse u c s = (Inr x, t)" "chapterOf c k t = (Inr ch, v)" "resourceOf k i v = (Inr r, w)" "workIds s"
    "r' \<in> set (resources s)" "re_id r' = i"
  shows "re_chapterId r' = k \<and> chapterCourse s (re_chapterId r') = Some c"
proof -
  have st: "t = s" "v = s" using ownCourse_ok [OF assms(1)] chapterOf_ok [OF assms(2)] by auto
  have r: "find (\<lambda>x. re_id x = i) (resources s) = Some r \<and> re_chapterId r = k"
    using find_of_two [OF workIds_simps(2) [OF assms(4)], of i "\<lambda>x. re_chapterId x = k" r] resourceOf_ok [OF assms(3)] st
    by simp
  have "r \<in> set (resources s)" "re_id r = i" using find_Some_in [OF conjunct1 [OF r]] by auto
  with assms(6) have "r' = r" by (intro distinct_key_eq [OF workIds_simps(2) [OF assms(4)] assms(5)]) auto
  with r own_chapter [OF assms(1,2,4)] show ?thesis by simp
qed

lemma steps_updateOne:
  "(\<And>x. find P (rows s) = Some x \<Longrightarrow> R s (upd (\<lambda>_. update_rows P f (rows s)) s)) \<Longrightarrow> R s s \<Longrightarrow>
   steps R (updateOne rows upd P f) s"
  by (simp add: steps_def updateOne_run split: option.split)

lemma steps_insertRow:
  "(\<And>x. (\<forall>x \<in> set (rows s). \<not> K x r) \<Longrightarrow> R s (upd (\<lambda>_. rows s @ [r]) s)) \<Longrightarrow> R s s \<Longrightarrow>
   steps R (insertRow rows upd K r) s"
  by (simp add: steps_def insertRow_run)

lemma steps_deleteMany:
  "R s (upd (\<lambda>_. filter (\<lambda>r. \<not> P r) (rows s)) s) \<Longrightarrow> steps R (deleteMany rows upd P) s"
  by (simp add: steps_def deleteMany_run)

lemma newId_state: "newId f s = (Inr i, t) \<Longrightarrow> t = s\<lparr>seqNo := Suc (seqNo s)\<rparr>"
  by (simp add: newId_run)

lemma teachesCourse_seqNo [simp]: "teachesCourse (s\<lparr>seqNo := n\<rparr>) u c = teachesCourse s u c"
  by (simp add: teachesCourse_rights teachingRights_def)

lemma workIds_seqNo [simp]: "workIds (s\<lparr>seqNo := n\<rparr>) = workIds s"
  by (simp add: workIds_def)

lemma createChapter_minds: "steps (minds u) (createChapter uuid u c title description) s"
  unfolding createChapter_def
proof (intro mind.steps_thenE mind.steps_bindE own_steps mind.steps_countRows steps_newId steps_insertRow mind.reflR)
  fix x t n t1 i t2 w
  assume "ownCourse u c s = (Inr x, t)" "countRows chapters (\<lambda>x. ch_courseId x = c) t = (Inr n, t1)" "newId uuid t1 = (Inr i, t2)"
    and new: "\<forall>x \<in> set (chapters t2). \<not> chapterClash x
      \<lparr>ch_id = i, ch_courseId = c, ch_title = title, ch_description = description,
         ch_position = n + 1, ch_isPublished = False, ch_publishedAt = None\<rparr>"
  then have "teachesCourse t2 u c" by (auto simp: countRows_run newId_run dest: ownCourse_ok)
  then show "minds u t2 (t2\<lparr>chapters := chapters t2 @ [\<lparr>ch_id = i, ch_courseId = c, ch_title = title,
      ch_description = description, ch_position = n + 1, ch_isPublished = False, ch_publishedAt = None\<rparr>]\<rparr>)"
    by (rule minds_chapters) (use new in \<open>auto intro!: elsewhere_insert simp: chapterClash_def\<close>)
qed

lemma update_chapter_minds:
  assumes "ownCourse u c s = (Inr x, t)" "chapterOf c k t = (Inr ch, v)"
    "\<And>x. ch_id (f x) = ch_id x \<and> ch_courseId (f x) = ch_courseId x"
  shows "steps (minds u) (updateOne chapters chapters_update (\<lambda>x. ch_id x = k) f) v"
proof (intro steps_updateOne mind.reflR)
  fix y
  have st: "v = s" "teachesCourse s u c" using ownCourse_ok [OF assms(1)] chapterOf_ok [OF assms(2)] by auto
  show "minds u v (chapters_update (\<lambda>_. update_rows (\<lambda>x. ch_id x = k) f (chapters v)) v)"
    unfolding st(1) using st(2)
    by (rule minds_chapters) (use own_chapter [OF assms(1,2)] assms(3) in \<open>auto intro!: elsewhere_update\<close>)
qed

lemma updateChapter_minds: "steps (minds u) (updateChapter u c k title description) s"
  unfolding updateChapter_def
  by (rule mind.steps_thenE [OF own_steps(2) mind.steps_thenE [OF own_steps(6)]]) (erule (1) update_chapter_minds, simp)

lemma publishChapter_minds: "steps (minds u) (publishChapter now u c k) s"
  unfolding publishChapter_def
  by (rule mind.steps_thenE [OF own_steps(2) mind.steps_thenE [OF own_steps(6)]]) (erule (1) update_chapter_minds, simp)

lemma teachesCourse_resources [simp]: "teachesCourse (s\<lparr>resources := xs\<rparr>) u c = teachesCourse s u c"
  by (simp add: teachesCourse_rights teachingRights_def)

lemma deleteChapter_minds: "steps (minds u) (deleteChapter u c k) s"
  unfolding deleteChapter_def
proof (intro mind.steps_thenE mind.steps_bindE own_steps mind.steps_ret steps_deleteMany)
  fix x t ch v
  assume own: "ownCourse u c s = (Inr x, t)" "chapterOf c k t = (Inr ch, v)"
  have st: "v = s" "teachesCourse s u c" using ownCourse_ok [OF own(1)] chapterOf_ok [OF own(2)] by auto
  let ?rs = "filter (\<lambda>r. re_chapterId r \<noteq> k) (resources s)"
  show "minds u v (v\<lparr>resources := filter (\<lambda>r. re_chapterId r \<noteq> k) (resources v)\<rparr>)"
    unfolding st(1) using st(2)
  proof (rule minds_resources)
    assume w: "workIds s"
    show "distinct (map re_id ?rs)" using workIds_simps(2) [OF w] by (simp add: distinct_map_filter)
    fix i assume "i \<noteq> c"
    with own_chapter [OF own w]
    show "filter (\<lambda>r. chapterCourse s (re_chapterId r) = Some i) ?rs =
        filter (\<lambda>r. chapterCourse s (re_chapterId r) = Some i) (resources s)"
      by (intro filter_filter_other) auto
  qed
  fix y v'
  assume "deleteMany resources resources_update (\<lambda>r. re_chapterId r = k) v = (Inr y, v')"
  then have v': "v' = s\<lparr>resources := ?rs\<rparr>" by (simp add: deleteMany_run st(1))
  show "minds u v' (v'\<lparr>chapters := filter (\<lambda>x. ch_id x \<noteq> k) (chapters v')\<rparr>)"
  proof (rule minds_chapters)
    show "teachesCourse v' u c" using st(2) by (simp add: v')
    assume "workIds v'"
    have "find (\<lambda>x. ch_id x = k) (chapters s) = Some ch \<and> ch_courseId ch = c"
      using find_of_two [of ch_id "chapters s" k "\<lambda>x. ch_courseId x = c" ch] \<open>workIds v'\<close> chapterOf_ok [OF own(2)] st(1)
      by (simp add: workIds_def v')
    then show "elsewhere ch_id ch_courseId c (chapters v') (filter (\<lambda>x. ch_id x \<noteq> k) (chapters v'))"
      by (auto simp: v' intro!: elsewhere_delete)
  qed
qed

lemma resourceUrl_tables: "resourceUrl E c link upl s = (r, t) \<Longrightarrow> tables t = tables s"
proof -
  have doc: "snd (assertSafeDocument f True v) = v" for f v
    by (auto simp: assertSafeDocument_def assertSafeImage_def Let_def thenE_run require_run ret_run throw_run
        split: if_splits)
  have "uploadCourseMaterial (pe_store E) f c s = (q, t) \<Longrightarrow> tables t = tables s" for f q
    using doc [of f s]
    by (auto simp: uploadCourseMaterial_def thenE_run assertSafeEntityId_def require_run ret_run
        split: prod.splits sum.splits if_splits dest: storePrivate_tables)
  then show "resourceUrl E c link upl s = (r, t) \<Longrightarrow> tables t = tables s"
    by (auto simp: resourceUrl_def bindE_run ret_run split: option.splits prod.splits sum.splits)
qed

lemma rights_tables:
  assumes "tables t = tables s"
  shows "teachesCourse t u c = teachesCourse s u c" "chapterCourse t k = chapterCourse s k" "workIds t = workIds s"
    "resources t = resources s"
  using tables_eqD [OF assms]
  by (auto simp: teachesCourse_rights teachingRights_def chapterCourse_def workIds_def)

lemma addResource_minds: "steps (minds u) (addResource E now u c k dto upl) s"
  unfolding addResource_def
proof (intro mind.steps_thenE mind.steps_bindE own_steps steps_newId steps_insertRow mind.reflR mind.steps_require)
  show "steps (minds u) (resourceUrl E c (rt_url dto) upl) v" for v
    by (rule stepsI) (auto intro: minds_tables resourceUrl_tables)
  fix x t ch v url v1 y v2 i v3
  assume own: "ownCourse u c s = (Inr x, t)" "chapterOf c k t = (Inr ch, v)"
    and "resourceUrl E c (rt_url dto) upl v = (Inr url, v1)"
    "require (truthy url) (BadRequest ''Ajoutez un lien ou un fichier'') v1 = (Inr y, v2)"
    "newId (pe_uuid E) v2 = (Inr i, v3)"
  moreover have st: "v = s" "teachesCourse s u c" using ownCourse_ok [OF own(1)] chapterOf_ok [OF own(2)] by auto
  ultimately have tb: "tables v3 = tables s"
    by (auto simp: require_run newId_run split: if_splits dest!: resourceUrl_tables) (simp add: tables_def)
  note eq = rights_tables [OF tb]
  let ?r = "\<lparr>re_id = i, re_chapterId = k, re_title = rt_title dto, re_url = nullish url [],
          re_type = rt_type dto, re_createdAt = now\<rparr>"
  assume new: "\<forall>x \<in> set (resources v3). \<not> resourceClash x ?r"
  show "minds u v3 (v3\<lparr>resources := resources v3 @ [?r]\<rparr>)"
  proof (rule minds_resources)
    show "teachesCourse v3 u c" using st(2) by (simp add: eq(1))
    assume w: "workIds v3"
    then show "distinct (map re_id (resources v3 @ [?r]))"
      using new workIds_simps(2) [OF w] by (auto simp: resourceClash_def)
    have "chapterCourse v3 k = Some c" using own_chapter [OF own] w by (simp add: eq(2,3))
    then show "filter (\<lambda>r. chapterCourse v3 (re_chapterId r) = Some j) (resources v3 @ [?r]) =
        filter (\<lambda>r. chapterCourse v3 (re_chapterId r) = Some j) (resources v3)" if "j \<noteq> c" for j
      using that by simp
  qed
qed

lemma updateResource_minds: "steps (minds u) (updateResource u c k i title url type) s"
  unfolding updateResource_def
proof (intro mind.steps_thenE own_steps steps_updateOne mind.reflR)
  fix x t ch v r w y
  assume own: "ownCourse u c s = (Inr x, t)" "chapterOf c k t = (Inr ch, v)" "resourceOf k i v = (Inr r, w)"
  have st: "w = s" "teachesCourse s u c" using ownCourse_ok [OF own(1)] chapterOf_ok [OF own(2)] resourceOf_ok [OF own(3)] by auto
  let ?f = "\<lambda>r. r\<lparr>re_title := nullish title (re_title r), re_url := nullish url (re_url r),
              re_type := nullish type (re_type r)\<rparr>"
  show "minds u w (w\<lparr>resources := update_rows (\<lambda>r. re_id r = i) ?f (resources w)\<rparr>)"
    unfolding st(1) using st(2)
  proof (rule minds_resources)
    assume w: "workIds s"
    then show "distinct (map re_id (update_rows (\<lambda>r. re_id r = i) ?f (resources s)))" by (simp add: workIds_simps)
    show "filter (\<lambda>r. chapterCourse s (re_chapterId r) = Some j) (update_rows (\<lambda>r. re_id r = i) ?f (resources s)) =
        filter (\<lambda>r. chapterCourse s (re_chapterId r) = Some j) (resources s)" if "j \<noteq> c" for j
      by (rule filter_update_rows_outside) (use that in \<open>auto dest!: own_resource [OF own w]\<close>)
  qed
qed

lemma deleteResource_minds: "steps (minds u) (deleteResource u c k i) s"
  unfolding deleteResource_def
proof (intro mind.steps_thenE mind.steps_bindE own_steps steps_deleteMany mind.steps_ret)
  fix x t ch v r w
  assume own: "ownCourse u c s = (Inr x, t)" "chapterOf c k t = (Inr ch, v)" "resourceOf k i v = (Inr r, w)"
  have st: "w = s" "teachesCourse s u c" using ownCourse_ok [OF own(1)] chapterOf_ok [OF own(2)] resourceOf_ok [OF own(3)] by auto
  show "minds u w (w\<lparr>resources := filter (\<lambda>r. re_id r \<noteq> i) (resources w)\<rparr>)"
    unfolding st(1) using st(2)
  proof (rule minds_resources)
    assume w: "workIds s"
    then show "distinct (map re_id (filter (\<lambda>r. re_id r \<noteq> i) (resources s)))"
      using workIds_simps(2) by (simp add: distinct_map_filter)
    show "filter (\<lambda>r. chapterCourse s (re_chapterId r) = Some j) (filter (\<lambda>r. re_id r \<noteq> i) (resources s)) =
        filter (\<lambda>r. chapterCourse s (re_chapterId r) = Some j) (resources s)" if "j \<noteq> c" for j
      by (rule filter_filter_other) (use that in \<open>auto dest!: own_resource [OF own w]\<close>)
  qed
qed

lemma teachesCourse_attendances [simp]: "teachesCourse (s\<lparr>attendances := xs\<rparr>) u c = teachesCourse s u c"
  by (simp add: teachesCourse_rights teachingRights_def)

lemma teachesCourse_grades [simp]: "teachesCourse (s\<lparr>grades := xs\<rparr>) u c = teachesCourse s u c"
  by (simp add: teachesCourse_rights teachingRights_def)

text \<open>The register after one record, and after all of them.\<close>

definition markOne :: "id \<Rightarrow> id \<Rightarrow> time \<Rightarrow> id \<times> string \<Rightarrow> attendance_row list \<Rightarrow> attendance_row list" where
  "markOne teacherId courseId day r xs =
     (if list_ex (sameAttendance courseId day (fst r)) xs
      then update_rows (sameAttendance courseId day (fst r)) (\<lambda>x. x\<lparr>at_status := snd r, at_markedBy := teacherId\<rparr>) xs
      else xs @ [\<lparr>at_courseId = courseId, at_studentId = fst r, at_date = day, at_status = snd r,
                  at_markedBy = teacherId\<rparr>])"

lemma recordAttendance_run:
  "recordAttendance teacherId courseId day r s =
     (Inr (), s\<lparr>attendances := markOne teacherId courseId day r (attendances s)\<rparr>)"
  by (cases r) (simp add: recordAttendance_def upsertRow_run markOne_def list_ex_iff)

lemma markAll_run:
  "forEach records (recordAttendance teacherId courseId day) s =
     (Inr (), s\<lparr>attendances := fold (markOne teacherId courseId day) records (attendances s)\<rparr>)"
  by (induction records arbitrary: s) (simp_all add: ret_run thenE_run recordAttendance_run)

lemma markOne_others:
  "i \<noteq> c \<Longrightarrow> filter (\<lambda>r. at_courseId r = i) (markOne th c day r xs) = filter (\<lambda>r. at_courseId r = i) xs"
  by (auto simp: markOne_def sameAttendance_def intro!: filter_update_rows_outside)

lemma markAll_others:
  "i \<noteq> c \<Longrightarrow>
   filter (\<lambda>r. at_courseId r = i) (fold (markOne th c day) records xs) = filter (\<lambda>r. at_courseId r = i) xs"
  by (induction records arbitrary: xs) (simp_all add: markOne_others)

lemma getAttendance_readonly: "snd (getAttendance E u c date s) = s"
  using ownCourse_readonly [of u c s]
  by (auto simp: getAttendance_def thenE_run bindE_run asks_run findMany_run ret_run Let_def
      split: prod.splits sum.splits)

lemma markAttendance_minds: "steps (minds u) (markAttendance E u c date records) s"
  unfolding markAttendance_def Let_def
proof (intro mind.steps_thenE mind.steps_bindE own_steps mind.steps_findMany mind.steps_case_option
    mind.steps_ret mind.steps_throw mind.steps_transact)
  fix th t x t1 es t2 y t3
  assume own: "teacherOf u s = (Inr th, t)" "ownCourse u c t = (Inr x, t1)"
    and "findMany courseEnrollments (\<lambda>e. ce_courseId e = c \<and> ce_studentId e \<in> fst ` set records) t1 = (Inr es, t2)"
    "(case find (\<lambda>r. fst r \<notin> set (map ce_studentId es)) records of None \<Rightarrow> ret ()
      | Some unknown \<Rightarrow> throw (BadRequest (''L'etudiant '' @ fst unknown @ '' n'est pas inscrit a ce cours''))) t2 =
     (Inr y, t3)"
  then have st: "t3 = s" "teachesCourse s u c"
    by (auto simp: findMany_run ret_run throw_run dest!: teacherOf_ok ownCourse_ok split: option.splits)
  show "steps (minds u) (forEach records (recordAttendance (th_id th) c (dayOf date))) t3"
    unfolding st(1) steps_def markAll_run snd_conv
    by (rule minds_attendances [OF st(2)]) (simp add: markAll_others)
  show "steps (minds u) (getAttendance E u c date) t4" for t4
    by (rule steps_readonly) (rule getAttendance_readonly)
qed

lemma createEvaluation_minds: "steps (minds u) (createEvaluation uuid u c dto) s"
  unfolding createEvaluation_def
proof (intro mind.steps_thenE mind.steps_bindE own_steps steps_newId steps_insertRow mind.reflR)
  fix x t i t1
  let ?r = "\<lparr>el_id = i, el_courseId = c, el_title = ev2_title dto, el_type = ev2_type dto,
         el_scheduledAt = ev2_scheduledAt dto, el_coefficient = nullish (ev2_coefficient dto) 1\<rparr>"
  assume "ownCourse u c s = (Inr x, t)" "newId uuid t = (Inr i, t1)"
    and new: "\<forall>x \<in> set (evaluations t1). \<not> evaluationClash x ?r"
  then have "teachesCourse t1 u c" by (auto simp: newId_run dest: ownCourse_ok)
  then show "minds u t1 (t1\<lparr>evaluations := evaluations t1 @ [?r]\<rparr>)"
    by (rule minds_evaluations) (use new in \<open>auto intro!: elsewhere_insert simp: evaluationClash_def\<close>)
qed

lemma saveGrade_minds: "steps (minds u) (saveGrade u e dto) s"
  unfolding saveGrade_def
proof (intro mind.steps_thenE mind.steps_bindE own_steps mind.steps_findOr)
  fix ev t x t1
  assume "ownEvaluation u e s = (Inr ev, t)"
    "findOr courseEnrollments (\<lambda>x. ce_courseId x = el_courseId ev \<and> ce_studentId x = gd_studentId dto)
       (NotFound ''Etudiant non inscrit a ce cours'') t = (Inr x, t1)"
  then have st: "t1 = s" "evaluationCourse s e = Some (el_courseId ev)" "teachesCourse s u (el_courseId ev)"
    by (auto simp: findOr_run evaluationCourse_def dest!: ownEvaluation_ok split: option.splits)
  show "steps (minds u) (upsertRow grades grades_update (sameGrade e (gd_studentId dto))
      (\<lambda>g. g\<lparr>g_value := gd_value dto, g_comment := overwrite (gd_comment dto) (g_comment g)\<rparr>)
      \<lparr>g_evaluationId = e, g_studentId = gd_studentId dto, g_value = gd_value dto, g_comment = gd_comment dto\<rparr>) t1"
    unfolding st(1) using st(2)
    by (auto simp: steps_def upsertRow_run sameGrade_def intro!: minds_grades [OF st(3)] filter_update_rows_outside)
qed

lemma createHomework_minds: "steps (minds u) (createHomework uuid now u c dto) s"
  unfolding createHomework_def
proof (intro mind.steps_thenE mind.steps_bindE own_steps steps_newId steps_insertRow mind.reflR)
  fix x t i t1
  let ?r = "\<lparr>h_id = i, h_courseId = c, h_title = hd_title dto, h_instructions = hd_instructions dto,
         h_dueAt = hd_dueAt dto, h_publishedAt = None, h_createdAt = now\<rparr>"
  assume "ownCourse u c s = (Inr x, t)" "newId uuid t = (Inr i, t1)"
    and new: "\<forall>x \<in> set (homeworks t1). \<not> homeworkClash x ?r"
  then have "teachesCourse t1 u c" by (auto simp: newId_run dest: ownCourse_ok)
  then show "minds u t1 (t1\<lparr>homeworks := homeworks t1 @ [?r]\<rparr>)"
    by (rule minds_homeworks) (use new in \<open>auto intro!: elsewhere_insert simp: homeworkClash_def\<close>)
qed

lemma publishHomework_minds: "steps (minds u) (publishHomework now u h) s"
  unfolding publishHomework_def
proof (intro mind.steps_thenE own_steps steps_updateOne mind.reflR)
  fix x t y
  assume "ownHomework u h s = (Inr x, t)"
  then have st: "t = s" "find (\<lambda>y. h_id y = h) (homeworks s) = Some x" "teachesCourse s u (h_courseId x)"
    by (auto dest: ownHomework_ok)
  show "minds u t (t\<lparr>homeworks := update_rows (\<lambda>y. h_id y = h) (\<lambda>y. y\<lparr>h_publishedAt := Some now\<rparr>) (homeworks t)\<rparr>)"
    unfolding st(1) by (rule minds_homeworks [OF st(3)], rule elsewhere_update [OF st(2)]) auto
qed

lemma gradeSubmission_minds: "steps (minds u) (gradeSubmission u i grade feedback) s"
  unfolding gradeSubmission_def
proof (intro mind.steps_thenE own_steps steps_updateOne mind.reflR)
  fix x t y
  assume "ownSubmission u i s = (Inr x, t)"
  then obtain h where st: "t = s" "find (\<lambda>y. su_id y = i) (submissions s) = Some x"
      "find (\<lambda>y. h_id y = su_assignmentId x) (homeworks s) = Some h" "teachesCourse s u (h_courseId h)"
    by (auto dest: ownSubmission_ok)
  let ?f = "\<lambda>x. x\<lparr>su_grade := Some grade, su_feedback := overwrite feedback (su_feedback x)\<rparr>"
  show "minds u t (t\<lparr>submissions := update_rows (\<lambda>x. su_id x = i) ?f (submissions t)\<rparr>)"
    unfolding st(1)
  proof (rule minds_submissions [OF st(4)])
    assume w: "workIds s"
    then show "distinct (map su_id (update_rows (\<lambda>x. su_id x = i) ?f (submissions s)))" by (simp add: workIds_simps)
    have x: "x \<in> set (submissions s)" "su_id x = i" using find_Some_in [OF st(2)] by auto
    have "r = x" if "r \<in> set (submissions s)" "su_id r = i" for r
      by (rule distinct_key_eq [OF workIds_simps(5) [OF w] that(1) x(1)]) (simp add: that(2) x(2))
    then show "filter (\<lambda>x. homeworkCourse s (su_assignmentId x) = Some j) (update_rows (\<lambda>x. su_id x = i) ?f (submissions s)) =
        filter (\<lambda>x. homeworkCourse s (su_assignmentId x) = Some j) (submissions s)" if "j \<noteq> h_courseId h" for j
      using that st(3) by (intro filter_update_rows_outside) (auto simp: homeworkCourse_def)
  qed
qed

text \<open>The operations that do not touch coursework.\<close>

lemma announceToCourse_minds: "steps (minds u) (announceToCourse E now u c title body) s"
proof (rule stepsI)
  fix r t assume run: "announceToCourse E now u c title body s = (r, t)"
  have "minds u v w" if "createAndNotify uuid now input us v = (q, w)" for uuid input us v q w
  proof (cases q)
    case (Inl e)
    with that have "w = v" unfolding createAndNotify_def Let_def by (auto dest: transact_rollback)
    then show ?thesis by (simp add: mind.reflR)
  next
    case (Inr r)
    obtain i n where "r = (i, n)" by fastforce
    with that Inr createAndNotify_step [of uuid now input us v i n w] show ?thesis
      by (auto intro!: minds_core simp: teachingRights_def courseCore_def)
  qed
  with run ownCourse_readonly [of u c s] show "minds u s t"
    by (auto simp: announceToCourse_def bindE_run asks_run mind.reflR split: prod.splits sum.splits)
qed

lemma minds_teachers:
  assumes "\<And>x. th_userId (f x) = th_userId x \<and> th_id (f x) = th_id x"
  shows "steps (minds u) (updateOne teachers teachers_update P f) s"
  by (intro steps_updateOne mind.reflR minds_core)
    (simp_all add: teachingRights_def courseCore_def assms)

lemma minds_users: "steps (minds u) (updateOne users users_update P f) s"
  by (intro steps_updateOne mind.reflR minds_core) (simp_all add: teachingRights_def courseCore_def)

lemma updateTeacherProfile_minds: "steps (minds u) (updateTeacherProfile E v dto) s"
  unfolding updateTeacherProfile_def phoneData_def sealText_def
  by (intro mind.steps_bindE own_steps minds_teachers mind.steps_asks mind.steps_case_option mind.steps_if
      mind.steps_ret steps_newId) simp

lemma updateTeacherAvatar_minds: "steps (minds u) (updateTeacherAvatar E v url) s"
  unfolding updateTeacherAvatar_def
  by (intro mind.steps_bindE own_steps minds_teachers mind.steps_asks) simp

lemma changeTeacherPassword_minds: "steps (minds u) (changeTeacherPassword E v old new) s"
  unfolding changeTeacherPassword_def
  by (intro mind.steps_bindE mind.steps_thenE mind.steps_findOr mind.steps_require steps_newId minds_users mind.steps_ret)

lemma updateTheme_minds: "steps (minds u) (updateTheme v theme) s"
  unfolding updateTheme_def by (intro mind.steps_bindE minds_users mind.steps_ret)

lemma updateCourseSettings_minds: "steps (minds u) (updateCourseSettings v c dto) s"
  unfolding updateCourseSettings_def
  by (intro mind.steps_thenE mind.steps_bindE own_steps mind.steps_asks steps_updateOne mind.reflR minds_core)
    (simp_all add: teachingRights_def courseCore_def)

lemmas teaching_minds =
  updateTeacherProfile_minds updateTeacherAvatar_minds changeTeacherPassword_minds updateTheme_minds
  updateCourseSettings_minds createChapter_minds updateChapter_minds deleteChapter_minds publishChapter_minds
  addResource_minds updateResource_minds deleteResource_minds markAttendance_minds announceToCourse_minds
  createEvaluation_minds saveGrade_minds createHomework_minds publishHomework_minds gradeSubmission_minds

lemma teachingRequest_minds: "steps (minds u) (teachingRequest E now u r) s"
  by (cases r) (simp_all add: teaching_minds steps_discard)

lemma teaching_step: "minds u s (snd (teachingRequest E now u r s))"
  using teachingRequest_minds by (simp add: steps_def)

text \<open>
  C28. Teachers only change the work of their own courses: whatever requests are made, and whether
  they succeed or fail, a course that none of the callers teaches (as its teacher, with an active
  assignment in its school) keeps its chapters, resources, evaluations, grades, homework,
  submissions and attendance exactly as they were.
\<close>

theorem coursework_needs_teacher:
  assumes "workIds s" and "list_all (\<lambda>(u, r). \<not> teachesCourse s u c) requests"
  shows "courseWork (serveTeaching E now requests s) c = courseWork s c"
  using assms
proof (induction requests arbitrary: s)
  case Nil
  then show ?case by simp
next
  case (Cons q requests)
  obtain u r where q: "q = (u, r)" by fastforce
  let ?t = "snd (teachingRequest E now u r s)"
  have m: "minds u s ?t" by (rule teaching_step)
  then have "workIds ?t" "courseWork ?t c = courseWork s c" "teachesCourse ?t v c = teachesCourse s v c" for v
    using Cons.prems q by (auto simp: minds_def teachesCourse_rights)
  with Cons q show ?case by simp
qed

section \<open>Attendance\<close>

text \<open>
  What the register stands for: a map from course, student and day to a status. Calling the roll
  overrides the map with the records, the last one when a student is named twice.
\<close>

definition attendanceMap :: "db \<Rightarrow> id \<times> id \<times> time \<Rightarrow> string option" where
  "attendanceMap s = (\<lambda>(c, st, d). map_option at_status (find (sameAttendance c d st) (rev (attendances s))))"

definition callRoll ::
  "id \<Rightarrow> time \<Rightarrow> (id \<times> string) list \<Rightarrow> (id \<times> id \<times> time \<Rightarrow> string option) \<Rightarrow> id \<times> id \<times> time \<Rightarrow> string option" where
  "callRoll c d records m =
     (\<lambda>(c', st, d'). if c' = c \<and> d' = d then (case map_of (rev records) st of None \<Rightarrow> m (c', st, d') | Some x \<Rightarrow> Some x)
                     else m (c', st, d'))"

lemma rev_update_rows: "rev (update_rows P f xs) = update_rows P f (rev xs)"
  by (simp add: update_rows_def rev_map)

lemma sameAttendance_iff: "sameAttendance c d st r \<longleftrightarrow> (at_courseId r, at_studentId r, at_date r) = (c, st, d)"
  by (auto simp: sameAttendance_def)

lemma find_markOne:
  "map_option at_status (find (sameAttendance c' d' st) (rev (markOne th c d r xs))) =
     (if (c', st, d') = (c, fst r, d) then Some (snd r) else map_option at_status (find (sameAttendance c' d' st) (rev xs)))"
proof (cases "list_ex (sameAttendance c d (fst r)) xs")
  case True
  have "find (sameAttendance c' d' st) (rev (markOne th c d r xs)) =
      map_option (\<lambda>x. if sameAttendance c d (fst r) x then x\<lparr>at_status := snd r, at_markedBy := th\<rparr> else x)
        (find (sameAttendance c' d' st) (rev xs))"
    using True by (simp add: markOne_def rev_update_rows find_update_rows sameAttendance_def)
  moreover have "\<exists>x. find (sameAttendance c d (fst r)) (rev xs) = Some x"
    using True by (metis find_None list_ex_iff not_None_eq set_rev)
  moreover have "find (sameAttendance c' d' st) (rev xs) = Some x \<Longrightarrow> sameAttendance c' d' st x" for x
    using find_Some_in by fastforce
  ultimately show ?thesis
    by (cases "find (sameAttendance c' d' st) (rev xs)") (auto simp: sameAttendance_def)
next
  case False
  then show ?thesis by (simp add: markOne_def) (auto simp: sameAttendance_def)
qed

lemma attendanceMap_markAll:
  "map_option at_status (find (sameAttendance c' d' st) (rev (fold (markOne th c d) records xs))) =
     (if c' = c \<and> d' = d then
        (case map_of (rev records) st of
           None \<Rightarrow> map_option at_status (find (sameAttendance c' d' st) (rev xs)) | Some x \<Rightarrow> Some x)
      else map_option at_status (find (sameAttendance c' d' st) (rev xs)))"
proof (induction records arbitrary: xs)
  case Nil
  then show ?case by simp
next
  case (Cons r records)
  then show ?case by (cases r) (auto simp: find_markOne map_add_def split: option.split)
qed

lemma map_of_filter_find:
  "map_of (map (\<lambda>r. (k r, v r)) (filter P ys)) i = map_option v (find (\<lambda>r. P r \<and> k r = i) ys)"
  by (induction ys) auto

lemma recorded_status:
  "map_of (rev (map (\<lambda>r. (at_studentId r, at_status r))
     (filter (\<lambda>r. at_courseId r = c \<and> at_date r = d) xs))) i = map_option at_status (find (sameAttendance c d i) (rev xs))"
  by (simp add: rev_map rev_filter map_of_filter_find sameAttendance_def [abs_def] conj_ac cong: conj_cong)

lemma getAttendance_run:
  "ownCourse u c s = (Inr x, s) \<Longrightarrow>
   getAttendance E u c date s =
     (Inr (map (\<lambda>v. \<lparr>rl_studentId = st_id (ei_student v), rl_firstName = st_firstName (ei_student v),
                     rl_lastName = st_lastName (ei_student v),
                     rl_status = attendanceMap s (c, st_id (ei_student v), dayOf date)\<rparr>) (classList E s c)), s)"
  by (simp add: getAttendance_def thenE_run bindE_run asks_run findMany_run ret_run Let_def recorded_status
      attendanceMap_def comp_def)

lemma ownCourse_attendances:
  "ownCourse u c (s\<lparr>attendances := xs\<rparr>) = (fst (ownCourse u c s), s\<lparr>attendances := xs\<rparr>)"
  by (simp add: ownCourse_def teacherOf_def bindE_run asks_run findOr_run ret_run throw_run taughtBy_def
      assignedAt_def split: option.split)

lemma classList_attendances: "classList E (s\<lparr>attendances := xs\<rparr>) c = classList E s c"
proof -
  have "enrolledItem (s\<lparr>attendances := xs\<rparr>) = enrolledItem s" by (simp add: fun_eq_iff enrolledItem_def)
  then show ?thesis by (simp add: classList_def)
qed

text \<open>
  C29. The attendance register implements a map from course, student and day to a status. Calling
  the roll of a course either fails and changes nothing, or overrides the map with the records for
  that course and day (so that calling it again with corrections replaces what was recorded) and
  touches no other entry and no other table; the roll it returns shows, for every student of the
  course in the order of their names, what the map now holds.
\<close>

theorem attendance_refines_map:
  "case markAttendance E u c date records s of
     (Inl e, t) \<Rightarrow> t = s
   | (Inr roll, t) \<Rightarrow>
       attendanceMap t = callRoll c (dayOf date) records (attendanceMap s) \<and> t = s\<lparr>attendances := attendances t\<rparr> \<and>
       map (\<lambda>l. (rl_studentId l, rl_status l)) roll =
         map (\<lambda>v. (st_id (ei_student v), attendanceMap t (c, st_id (ei_student v), dayOf date))) (classList E s c)"
proof -
  have *: "attendanceMap (s\<lparr>attendances := fold (markOne th c (dayOf date)) records (attendances s)\<rparr>) =
      callRoll c (dayOf date) records (attendanceMap s)" for th
    by (simp add: fun_eq_iff attendanceMap_def callRoll_def attendanceMap_markAll split: option.split)
  show ?thesis
  proof (cases "ownCourse u c s")
    case (Pair r t)
    have t: "t = s" using ownCourse_readonly [of u c s] by (simp add: Pair)
    show ?thesis
    proof (cases r)
      case (Inl e)
      then show ?thesis
        by (simp add: markAttendance_def bindE_run thenE_run teacherOf_def findOr_run Pair t split: option.split)
    next
      case (Inr x)
      have run: "getAttendance E u c date (s\<lparr>attendances := xs\<rparr>) =
        (Inr (map (\<lambda>v. \<lparr>rl_studentId = st_id (ei_student v), rl_firstName = st_firstName (ei_student v),
                     rl_lastName = st_lastName (ei_student v),
                     rl_status = attendanceMap (s\<lparr>attendances := xs\<rparr>) (c, st_id (ei_student v), dayOf date)\<rparr>)
                (classList E s c)), s\<lparr>attendances := xs\<rparr>)" for xs
        using getAttendance_run [of u c "s\<lparr>attendances := xs\<rparr>" x E date]
        by (simp add: ownCourse_attendances Pair Inr classList_attendances)
      show ?thesis
        by (simp add: markAttendance_def bindE_run thenE_run teacherOf_def findOr_run Pair t Inr findMany_run Let_def
            ret_run throw_run transact_run markAll_run run * comp_def split: option.split)
    qed
  qed
qed

lemma ownCourse_cong:
  "teachers t = teachers s \<Longrightarrow> teacherSchools t = teacherSchools s \<Longrightarrow> courses t = courses s \<Longrightarrow>
   ownCourse u c t = (fst (ownCourse u c s), t)"
  by (simp add: ownCourse_def teacherOf_def bindE_run asks_run findOr_run ret_run throw_run taughtBy_def
      assignedAt_def split: option.split)

section \<open>Positions of chapters\<close>

lemma deleteChapter_run:
  assumes "deleteChapter u c k s = (Inr x, t)"
  shows "find (\<lambda>x. ch_id x = k \<and> ch_courseId x = c) (chapters s) = Some x \<and>
    t = s\<lparr>resources := filter (\<lambda>r. re_chapterId r \<noteq> k) (resources s), chapters := filter (\<lambda>x. ch_id x \<noteq> k) (chapters s)\<rparr> \<and>
    (\<exists>y. ownCourse u c s = (Inr y, s))"
  using assms
  by (auto simp: deleteChapter_def thenE_run bindE_run deleteMany_run ret_run dest!: chapterOf_ok ownCourse_ok
      split: prod.splits sum.splits)

lemma remaining_chapters:
  assumes "distinct (map ch_id xs)" "x \<in> set xs" "ch_courseId x = c"
  shows "Suc (count_rows (\<lambda>y. ch_courseId y = c) (filter (\<lambda>y. ch_id y \<noteq> ch_id x) xs)) =
    count_rows (\<lambda>y. ch_courseId y = c) xs"
  using assms
proof (induction xs)
  case Nil
  then show ?case by simp
next
  case (Cons y xs)
  show ?case
  proof (cases "x = y")
    case True
    with Cons.prems have "filter (\<lambda>z. ch_id z \<noteq> ch_id x) xs = xs" by (intro filter_True ballI) (force simp: image_iff)
    with True Cons.prems show ?thesis by simp
  next
    case False
    with Cons.prems have "ch_id y \<noteq> ch_id x" by auto
    with False Cons show ?thesis by simp
  qed
qed

text \<open>
  C30. The position of a new chapter is the number of chapters of its course plus one. When the
  chapters of a course are numbered from 1 to \<open>n\<close> in their order, as successive creations leave
  them, and one other than the last is deleted, that position is taken: every attempt of the
  teacher to create a chapter then fails on the unique key and leaves the chapters as they are.
\<close>

theorem chapter_creation_blocked:
  assumes del: "deleteChapter u c k s = (Inr x, t)" and inner: "ch_position x < n"
    and pos: "map ch_position (filter (\<lambda>y. ch_courseId y = c) (chapters s)) = [1..<Suc n]" and ids: "workIds s"
  shows "\<exists>v. createChapter uuid u c title description t = (Inl (Failure ''P2002''), v) \<and> chapters v = chapters t"
proof -
  from deleteChapter_run [OF del] obtain y where
    f: "find (\<lambda>x. ch_id x = k \<and> ch_courseId x = c) (chapters s) = Some x" and
    t: "t = s\<lparr>resources := filter (\<lambda>r. re_chapterId r \<noteq> k) (resources s), chapters := filter (\<lambda>x. ch_id x \<noteq> k) (chapters s)\<rparr>" and
    own: "ownCourse u c s = (Inr y, s)" by blast
  have x: "x \<in> set (chapters s)" "ch_id x = k" "ch_courseId x = c" using find_Some_in [OF f] by auto
  have "length (filter (\<lambda>y. ch_courseId y = c) (chapters s)) = n"
    using arg_cong [OF pos, of length] by simp
  then have "count_rows (\<lambda>y. ch_courseId y = c) (chapters s) = n" by (simp add: count_rows_def)
  with remaining_chapters [OF workIds_simps(1) [OF ids] x(1,3)] x(2)
  have cnt: "Suc (count_rows (\<lambda>y. ch_courseId y = c) (chapters t)) = n" by (simp add: t)
  have "n \<in> set (map ch_position (filter (\<lambda>y. ch_courseId y = c) (chapters s)))"
    unfolding pos using inner by simp
  then obtain z where z: "z \<in> set (chapters s)" "ch_courseId z = c" "ch_position z = n" by auto
  have "ch_id z \<noteq> k"
  proof
    assume "ch_id z = k"
    then have "z = x" using distinct_key_eq [OF workIds_simps(1) [OF ids] z(1) x(1)] x(2) by simp
    with z(3) inner show False by simp
  qed
  then have "z \<in> set (chapters t)" using z(1) by (simp add: t)
  moreover have "ownCourse u c t = (Inr y, t)" using ownCourse_cong [of t s u c] own by (simp add: t)
  ultimately show ?thesis using z cnt
    by (auto simp: createChapter_def thenE_run bindE_run countRows_run newId_run insertRow_run chapterClash_def)
qed

section \<open>Grades\<close>

text \<open>A grade is given to a student of the evaluation's course, and only that entry changes.\<close>

lemma saved_grade:
  assumes "saveGrade u e dto s = (Inr g, t)"
  shows "\<exists>ev. find (\<lambda>x. el_id x = e) (evaluations s) = Some ev \<and> teachesCourse s u (el_courseId ev) \<and>
    (\<exists>x \<in> set (courseEnrollments s). ce_courseId x = el_courseId ev \<and> ce_studentId x = gd_studentId dto) \<and>
    g \<in> set (grades t) \<and> sameGrade e (gd_studentId dto) g \<and> g_value g = gd_value dto \<and>
    filter (\<lambda>x. \<not> sameGrade e (gd_studentId dto) x) (grades t) = filter (\<lambda>x. \<not> sameGrade e (gd_studentId dto) x) (grades s)"
proof -
  obtain ev where ev: "ownEvaluation u e s = (Inr ev, s)" "find (\<lambda>x. el_id x = e) (evaluations s) = Some ev"
      "teachesCourse s u (el_courseId ev)"
    using assms by (auto simp: saveGrade_def bindE_run dest!: ownEvaluation_ok split: prod.splits sum.splits)
  from assms ev(1) obtain x where
    x: "find (\<lambda>x. ce_courseId x = el_courseId ev \<and> ce_studentId x = gd_studentId dto) (courseEnrollments s) = Some x"
    by (auto simp: saveGrade_def bindE_run thenE_run findOr_run split: option.splits)
  define xs where "xs = grades t"
  have g: "find (sameGrade e (gd_studentId dto)) xs = Some g" and
    xs: "xs = (if \<exists>x \<in> set (grades s). sameGrade e (gd_studentId dto) x
       then update_rows (sameGrade e (gd_studentId dto))
         (\<lambda>g. g\<lparr>g_value := gd_value dto, g_comment := overwrite (gd_comment dto) (g_comment g)\<rparr>) (grades s)
       else grades s @ [\<lparr>g_evaluationId = e, g_studentId = gd_studentId dto, g_value = gd_value dto,
                         g_comment = gd_comment dto\<rparr>])"
    using assms ev(1) x
    by (auto simp: saveGrade_def bindE_run thenE_run findOr_run upsertRow_run xs_def split: option.splits if_splits)
  have mem: "g \<in> set xs" "sameGrade e (gd_studentId dto) g" using find_Some_in [OF g] by auto
  have "g_value g = gd_value dto"
    using mem unfolding xs by (auto simp: set_update_rows split: if_splits)
  moreover have "filter (\<lambda>x. \<not> sameGrade e (gd_studentId dto) x) xs = filter (\<lambda>x. \<not> sameGrade e (gd_studentId dto) x) (grades s)"
    unfolding xs by (auto simp: sameGrade_def intro!: filter_update_rows_outside)
  ultimately show ?thesis using ev x mem by (auto simp: xs_def dest!: find_Some_in)
qed

section \<open>Examples\<close>

definition sample_portal :: portal_env where
  "sample_portal =
     \<lparr>pe_store = sample_store, pe_auth = sample_auth, pe_cipher = sample_cipher, pe_key = ''k'',
      pe_collation = (\<lambda>x. x), pe_uuid = sample_uuid\<rparr>"

definition sample_teacher :: "id \<Rightarrow> id \<Rightarrow> teacher_row" where
  "sample_teacher i u =
     \<lparr>th_id = i, th_userId = u, th_firstName = None, th_lastName = None, th_createdAt = 0, th_phone = None,
      th_avatarUrl = None\<rparr>"

definition sample_class :: "id \<Rightarrow> id \<Rightarrow> course_row" where
  "sample_class i t = (sample_course i ''p1'' True)\<lparr>c_schoolId := ''sc1'', c_teacherId := t\<rparr>"

definition sample_chapter :: "id \<Rightarrow> id \<Rightarrow> nat \<Rightarrow> chapter_row" where
  "sample_chapter i c n =
     \<lparr>ch_id = i, ch_courseId = c, ch_title = ''T'', ch_description = None, ch_position = n,
      ch_isPublished = False, ch_publishedAt = None\<rparr>"

definition sample_post :: "id \<Rightarrow> teacher_school_row" where
  "sample_post t =
     \<lparr>ts_id = t, ts_teacherId = t, ts_schoolId = ''sc1'', ts_isActive = True, ts_department = None,
      ts_specialty = None, ts_createdAt = 0\<rparr>"

text \<open>Two teachers of one school, each with a course; the first course has two chapters.\<close>

definition sample_work :: db where
  "sample_work = empty_db
     \<lparr>teachers := [sample_teacher ''th1'' ''u1'', sample_teacher ''th2'' ''u2''],
      teacherSchools := [sample_post ''th1'', sample_post ''th2''],
      courses := [sample_class ''c1'' ''th1'', sample_class ''c2'' ''th2''],
      chapters := [sample_chapter ''k1'' ''c1'' 1, sample_chapter ''k2'' ''c1'' 2, sample_chapter ''k3'' ''c2'' 1]\<rparr>"

lemmas sample_work_simps =
  sample_work_def empty_db_def sample_teacher_def sample_post_def sample_class_def sample_chapter_def sample_course_def

theorem coursework_needs_teacher_witness:
  "courseWork (serveTeaching sample_portal 0
     [(''u1'', DeleteChapter ''c2'' ''k3''), (''u1'', DeleteChapter ''c1'' ''k1'')] sample_work) ''c2'' =
   courseWork sample_work ''c2''"
proof (rule coursework_needs_teacher)
  show "workIds sample_work" by (simp add: workIds_def sample_work_simps)
  show "list_all (\<lambda>(u, r). \<not> teachesCourse sample_work u ''c2'')
      [(''u1'', DeleteChapter ''c2'' ''k3''), (''u1'', DeleteChapter ''c1'' ''k1'')]"
    by (simp add: teachesCourse_def courseWhere_def taughtBy_def assignedAt_def sample_work_simps)
qed

lemma sample_own: "ownCourse ''u1'' ''c1'' sample_work = (Inr (sample_class ''c1'' ''th1''), sample_work)"
  by (simp add: ownCourse_def teacherOf_def bindE_run asks_run findOr_run ret_run throw_run taughtBy_def
      assignedAt_def sample_work_simps)

theorem chapter_creation_blocked_witness:
  "fst (createChapter sample_uuid ''u1'' ''c1'' ''New'' None (snd (deleteChapter ''u1'' ''c1'' ''k1'' sample_work))) =
   Inl (Failure ''P2002'')"
proof -
  let ?t = "sample_work\<lparr>resources := [], chapters := [sample_chapter ''k2'' ''c1'' 2, sample_chapter ''k3'' ''c2'' 1]\<rparr>"
  have del: "deleteChapter ''u1'' ''c1'' ''k1'' sample_work = (Inr (sample_chapter ''k1'' ''c1'' 1), ?t)"
    by (simp add: deleteChapter_def sample_own thenE_run bindE_run chapterOf_def findOr_run deleteMany_run ret_run)
      (simp add: sample_work_simps thenE_run deleteMany_run ret_run)
  have "\<exists>v. createChapter sample_uuid ''u1'' ''c1'' ''New'' None ?t = (Inl (Failure ''P2002''), v) \<and>
      chapters v = chapters ?t"
    by (rule chapter_creation_blocked [OF del, where n = 2]) (simp_all add: sample_work_simps workIds_def upt_rec)
  then show ?thesis unfolding del snd_conv by auto
qed

end
