(* ===== verification/Protected_Uploads.thy ===== *)
theory Protected_Uploads
  imports Storage Authentication
begin

text \<open>
  The router of protected files (\<open>common/middleware/protected-uploads.middleware.ts\<close>), which runs
  outside the guards of the API: it reads the access token itself, checks who may see a student's
  document, a course material or an attachment of a message, and redirects to a signed address of
  the private bucket. The main facts: a redirection is only ever given to a person entitled to the
  file, with a current session, and only for a file that exists; a document that was deleted is
  not served.
\<close>

section \<open>The caller\<close>

record file_request =
  rq_authorization :: "string option"
  rq_cookie :: "string option"

datatype http_response =
    Redirect string
  | Reply nat string

definition startsWith :: "string \<Rightarrow> string \<Rightarrow> bool" where
  "startsWith x p \<longleftrightarrow> take (length p) x = p"

definition endsWith :: "string \<Rightarrow> string \<Rightarrow> bool" where
  "endsWith x p \<longleftrightarrow> length p \<le> length x \<and> drop (length x - length p) x = p"

text \<open>\<open>split(separator)\<close> for the two separators of a cookie header.\<close>

fun splitOn2 :: "char \<Rightarrow> char \<Rightarrow> string \<Rightarrow> string \<Rightarrow> string list" where
  "splitOn2 a b w (c # d # cs) =
     (if c = a \<and> d = b then w # splitOn2 a b [] cs else splitOn2 a b (w @ [c]) (d # cs))"
| "splitOn2 a b w cs = [w @ cs]"

definition afterEquals :: "string \<Rightarrow> string" where
  "afterEquals x = takeWhile (\<lambda>c. c \<noteq> CHR ''='') (drop 1 (dropWhile (\<lambda>c. c \<noteq> CHR ''='') x))"

definition bearerToken :: "file_request \<Rightarrow> string option" where
  "bearerToken req =
     (case rq_authorization req of
        Some h \<Rightarrow> if startsWith h ''Bearer '' then Some (drop 7 h) else None
      | None \<Rightarrow> None)"

definition cookieToken :: "file_request \<Rightarrow> string option" where
  "cookieToken req =
     (case rq_cookie req of
        None \<Rightarrow> None
      | Some h \<Rightarrow>
          (if h = [] then None
           else map_option afterEquals
             (find (\<lambda>c. startsWith c ''access_token='') (splitOn2 (CHR '';'') (CHR '' '') [] h))))"

definition extractToken :: "file_request \<Rightarrow> string option" where
  "extractToken req =
     (case bearerToken req of Some t \<Rightarrow> Some t | None \<Rightarrow> cookieToken req)"

text \<open>The user with the joined rows the router selects.\<close>

record file_user =
  fu_id :: id
  fu_role :: string
  fu_student :: "id option"
  fu_teacher :: "id option"
  fu_adminSchool :: "id option"

definition fileUser :: "db \<Rightarrow> user_row \<Rightarrow> file_user" where
  "fileUser s u =
     \<lparr>fu_id = u_id u, fu_role = requestRole u,
      fu_student = map_option st_id (find (\<lambda>x. st_userId x = u_id u) (students s)),
      fu_teacher = map_option th_id (find (\<lambda>x. th_userId x = u_id u) (teachers s)),
      fu_adminSchool = map_option sa_schoolId (find (\<lambda>x. sa_userId x = u_id u) (schoolAdmins s))\<rparr>"

definition requireUser :: "auth_env \<Rightarrow> time \<Rightarrow> file_request \<Rightarrow> (db, http_response + file_user) exec" where
  "requireUser E now req =
     (case extractToken req of
        None \<Rightarrow> ret (Inl (Reply 401 ''Authentification requise''))
      | Some token \<Rightarrow>
          if token = [] then ret (Inl (Reply 401 ''Authentification requise''))
          else
            (case verifyToken E AccessKey now token of
               None \<Rightarrow> ret (Inl (Reply 401 ''Jeton invalide ou expire''))
             | Some payload \<Rightarrow>
                 bindE (findFirst users (\<lambda>u. u_id u = jc_sub payload)) (\<lambda>found.
                 case found of
                   None \<Rightarrow> ret (Inl (Reply 401 ''Utilisateur invalide''))
                 | Some user \<Rightarrow>
                     if \<not> u_isActive user then ret (Inl (Reply 401 ''Utilisateur invalide''))
                     else if jc_sessionVersion payload \<noteq> Some (u_sessionVersion user)
                     then ret (Inl (Reply 401 ''Session revoquee''))
                     else asks (\<lambda>s. Inr (fileUser s user)))))"

definition withUser ::
  "auth_env \<Rightarrow> time \<Rightarrow> file_request \<Rightarrow> (file_user \<Rightarrow> (db, http_response) exec) \<Rightarrow> (db, http_response) exec" where
  "withUser E now req k =
     bindE (requireUser E now req) (\<lambda>r.
     case r of
       Inl response \<Rightarrow> ret response
     | Inr user \<Rightarrow>
         if fu_role user = ''MINISTRY'' then ret (Reply 403 ''Acces refuse'') else k user)"

definition redirectToFile :: "store_env \<Rightarrow> string list \<Rightarrow> (db, http_response) exec" where
  "redirectToFile S segments =
     bindE (createPresignedDownloadUrl S segments) (\<lambda>url.
     ret (case url of
            None \<Rightarrow> Reply 404 ''Fichier introuvable''
          | Some u \<Rightarrow> if u = [] then Reply 404 ''Fichier introuvable'' else Redirect u))"

section \<open>The three routes\<close>

definition liveApplicationAt :: "db \<Rightarrow> id \<Rightarrow> id \<Rightarrow> application_row \<Rightarrow> bool" where
  "liveApplicationAt s studentId schoolId a \<longleftrightarrow>
     a_studentId a = studentId \<and> a_status a \<notin> {REJECTED, CANCELLED} \<and>
     list_ex (\<lambda>offer. o_id offer = a_offerId a \<and> o_schoolId offer = schoolId) (offers s)"

definition documentReviewer :: "db \<Rightarrow> file_user \<Rightarrow> id \<Rightarrow> bool" where
  "documentReviewer s user studentId =
     (if fu_role user = ''ADMIN_GET'' then True
      else if fu_role user = ''SCHOOL_ADMIN'' then
        (case fu_adminSchool user of
           None \<Rightarrow> False
         | Some schoolId \<Rightarrow> list_ex (liveApplicationAt s studentId schoolId) (applications s))
      else False)"

definition getDocumentFile ::
  "auth_env \<Rightarrow> store_env \<Rightarrow> time \<Rightarrow> file_request \<Rightarrow> id \<Rightarrow> string \<Rightarrow> (db, http_response) exec" where
  "getDocumentFile E S now req studentId fileName =
     withUser E now req (\<lambda>user.
     bindE (asks (\<lambda>s. documentReviewer s user studentId)) (\<lambda>isAuthorizedReviewer.
     if fu_student user \<noteq> Some studentId \<and> \<not> isAuthorizedReviewer then ret (Reply 403 ''Acces refuse'')
     else
       bindE (findFirst documents (\<lambda>d. d_studentId d = studentId \<and>
                 endsWith (d_fileUrl d) (''documents/'' @ studentId @ ''/'' @ fileName) \<and>
                 d_deletedAt d = None)) (\<lambda>document.
       if document = None then ret (Reply 404 ''Fichier introuvable'')
       else redirectToFile S [''documents'', studentId, fileName])))"

definition enrolledInCourse :: "db \<Rightarrow> file_user \<Rightarrow> course_row \<Rightarrow> bool" where
  "enrolledInCourse s user course =
     (case fu_student user of
        None \<Rightarrow> False
      | Some studentId \<Rightarrow>
          list_ex (\<lambda>ce. ce_courseId ce = c_id course \<and> ce_studentId ce = studentId) (courseEnrollments s) \<and>
          (case find (\<lambda>e. e_studentId e = studentId \<and> e_schoolId e = c_schoolId course) (enrollments s) of
             None \<Rightarrow> False
           | Some e \<Rightarrow> e_status e = ACTIVE))"

definition materialReader :: "db \<Rightarrow> file_user \<Rightarrow> course_row option \<Rightarrow> bool" where
  "materialReader s user course \<longleftrightarrow>
     (case course of None \<Rightarrow> False | Some c \<Rightarrow> fu_teacher user = Some (c_teacherId c)) \<or>
     (case course of None \<Rightarrow> False | Some c \<Rightarrow> enrolledInCourse s user c) \<or>
     fu_role user = ''ADMIN_GET'' \<or>
     (fu_role user = ''SCHOOL_ADMIN'' \<and> fu_adminSchool user \<noteq> None \<and>
        map_option c_schoolId course = fu_adminSchool user)"

definition getMaterialFile ::
  "auth_env \<Rightarrow> store_env \<Rightarrow> time \<Rightarrow> file_request \<Rightarrow> id \<Rightarrow> string \<Rightarrow> (db, http_response) exec" where
  "getMaterialFile E S now req courseId fileName =
     withUser E now req (\<lambda>user.
     bindE (findFirst courses (\<lambda>c. c_id c = courseId)) (\<lambda>course.
     bindE (asks (\<lambda>s. materialReader s user course)) (\<lambda>allowed.
     if \<not> allowed then ret (Reply 403 ''Acces refuse'')
     else redirectToFile S [''course-materials'', courseId, fileName])))"

definition getMessageFile ::
  "auth_env \<Rightarrow> store_env \<Rightarrow> time \<Rightarrow> file_request \<Rightarrow> id \<Rightarrow> string \<Rightarrow> (db, http_response) exec" where
  "getMessageFile E S now req messageId fileName =
     withUser E now req (\<lambda>user.
     bindE (findFirst messages (\<lambda>m. m_id m = messageId)) (\<lambda>message.
     if \<not> (case message of None \<Rightarrow> False
            | Some m \<Rightarrow> m_senderId m = fu_id user \<or> m_recipientId m = fu_id user) \<and>
        fu_role user \<noteq> ''ADMIN_GET''
     then ret (Reply 403 ''Acces refuse'')
     else redirectToFile S [''messages'', messageId, fileName]))"

datatype file_route = DocumentFile id | MaterialFile id | MessageFile id

fun serveFile ::
  "auth_env \<Rightarrow> store_env \<Rightarrow> time \<Rightarrow> file_request \<Rightarrow> file_route \<Rightarrow> string \<Rightarrow> (db, http_response) exec" where
  "serveFile E S now req (DocumentFile i) name = getDocumentFile E S now req i name"
| "serveFile E S now req (MaterialFile i) name = getMaterialFile E S now req i name"
| "serveFile E S now req (MessageFile i) name = getMessageFile E S now req i name"

section \<open>Who is served\<close>

text \<open>
  The rules of access, over the rows of the database: what a user has to be to the student, the
  course or the message.
\<close>

fun entitled :: "db \<Rightarrow> user_row \<Rightarrow> file_route \<Rightarrow> string \<Rightarrow> bool" where
  "entitled s u (DocumentFile i) name \<longleftrightarrow>
     ((\<exists>x \<in> set (students s). st_userId x = u_id u \<and> st_id x = i) \<or>
      u_role u = Some ''ADMIN_GET'' \<or>
      (u_role u = Some ''SCHOOL_ADMIN'' \<and>
         (\<exists>ad \<in> set (schoolAdmins s). sa_userId ad = u_id u \<and>
            (\<exists>a \<in> set (applications s). \<exists>offer \<in> set (offers s).
               a_studentId a = i \<and> a_status a \<noteq> REJECTED \<and> a_status a \<noteq> CANCELLED \<and>
               a_offerId a = o_id offer \<and> o_schoolId offer = sa_schoolId ad)))) \<and>
     (\<exists>d \<in> set (documents s). d_studentId d = i \<and> d_deletedAt d = None \<and>
        (\<exists>base. d_fileUrl d = base @ ''documents/'' @ i @ ''/'' @ name))"
| "entitled s u (MaterialFile i) name \<longleftrightarrow>
     u_role u = Some ''ADMIN_GET'' \<or>
     (\<exists>c \<in> set (courses s). c_id c = i \<and>
        ((\<exists>t \<in> set (teachers s). th_userId t = u_id u \<and> th_id t = c_teacherId c) \<or>
         (\<exists>x \<in> set (students s). st_userId x = u_id u \<and>
            (\<exists>ce \<in> set (courseEnrollments s). ce_courseId ce = i \<and> ce_studentId ce = st_id x) \<and>
            (\<exists>e \<in> set (enrollments s). e_studentId e = st_id x \<and> e_schoolId e = c_schoolId c \<and> e_status e = ACTIVE)) \<or>
         (u_role u = Some ''SCHOOL_ADMIN'' \<and>
            (\<exists>ad \<in> set (schoolAdmins s). sa_userId ad = u_id u \<and> sa_schoolId ad = c_schoolId c))))"
| "entitled s u (MessageFile i) name \<longleftrightarrow>
     u_role u = Some ''ADMIN_GET'' \<or>
     (\<exists>m \<in> set (messages s). m_id m = i \<and> (m_senderId m = u_id u \<or> m_recipientId m = u_id u))"

fun routeKey :: "file_route \<Rightarrow> string \<Rightarrow> string" where
  "routeKey (DocumentFile i) name = ''documents/'' @ i @ ''/'' @ name"
| "routeKey (MaterialFile i) name = ''course-materials/'' @ i @ ''/'' @ name"
| "routeKey (MessageFile i) name = ''messages/'' @ i @ ''/'' @ name"

lemma redirectToFile_run:
  "redirectToFile S xs s = (Inr (Redirect url), t) \<Longrightarrow>
     t = s \<and> url = s3_sign S (privateBucket S) (joinWith ''/'' xs) 60 \<and>
     (\<exists>b \<in> set (objects s). ob_bucket b = privateBucket S \<and> ob_key b = joinWith ''/'' xs) \<and>
     \<not> list_ex unsafeSegment xs"
  by (auto simp: redirectToFile_def createPresignedDownloadUrl_def bindE_run buildKey_run headObject_def asks_run
      ret_run PRESIGNED_URL_TTL_SECONDS_def list_ex_iff sameObject_def split: if_splits)

lemma requireUser_run:
  "requireUser E now req s = (Inr (Inr user), t) \<Longrightarrow>
     t = s \<and>
     (\<exists>token payload u. extractToken req = Some token \<and> verifyToken E AccessKey now token = Some payload \<and>
        u \<in> set (users s) \<and> u_id u = jc_sub payload \<and> u_isActive u \<and>
        jc_sessionVersion payload = Some (u_sessionVersion u) \<and> user = fileUser s u)"
  by (auto simp: requireUser_def ret_run bindE_run findFirst_run asks_run split: option.splits if_splits
      dest!: find_Some_in)

text \<open>The caller of a request: the active account of a valid token of the current session.\<close>

definition caller :: "auth_env \<Rightarrow> time \<Rightarrow> file_request \<Rightarrow> db \<Rightarrow> user_row \<Rightarrow> bool" where
  "caller E now req s u \<longleftrightarrow>
     (\<exists>token payload. extractToken req = Some token \<and> verifyToken E AccessKey now token = Some payload \<and>
        u \<in> set (users s) \<and> u_id u = jc_sub payload \<and> u_isActive u \<and>
        jc_sessionVersion payload = Some (u_sessionVersion u) \<and> u_role u \<noteq> Some ''MINISTRY'')"

lemma withUser_run:
  assumes "withUser E now req k s = (Inr (Redirect url), t)"
  shows "\<exists>u. caller E now req s u \<and> k (fileUser s u) s = (Inr (Redirect url), t)"
proof -
  obtain user where user: "requireUser E now req s = (Inr (Inr user), s)" "fu_role user \<noteq> ''MINISTRY''"
    "k user s = (Inr (Redirect url), t)"
  proof -
    obtain r s1 where r: "requireUser E now req s = (r, s1)" by fastforce
    have "s1 = s" using r by (auto simp: requireUser_def ret_run bindE_run findFirst_run asks_run
        split: option.splits if_splits)
    with r assms that show ?thesis
      by (auto simp: withUser_def bindE_run ret_run requireUser_def findFirst_run asks_run
          split: sum.splits if_splits option.splits)
  qed
  from requireUser_run [OF user(1)] obtain token payload u where
    "extractToken req = Some token" "verifyToken E AccessKey now token = Some payload"
    "u \<in> set (users s)" "u_id u = jc_sub payload" "u_isActive u"
    "jc_sessionVersion payload = Some (u_sessionVersion u)" "user = fileUser s u" by blast
  moreover from this user(2) have "u_role u \<noteq> Some ''MINISTRY''" by (auto simp: fileUser_def requestRole_def)
  ultimately show ?thesis using user(3) by (auto simp: caller_def)
qed

lemma requestRole_admin: "requestRole u = ''ADMIN_GET'' \<longleftrightarrow> u_role u = Some ''ADMIN_GET''"
  "requestRole u = ''SCHOOL_ADMIN'' \<longleftrightarrow> u_role u = Some ''SCHOOL_ADMIN''"
  by (auto simp: requestRole_def truthy_def)

lemma fileUser_owner: "fu_student (fileUser s u) = Some i \<Longrightarrow> \<exists>x \<in> set (students s). st_userId x = u_id u \<and> st_id x = i"
  by (auto simp: fileUser_def dest!: find_Some_in)

lemma fileUser_teacher: "fu_teacher (fileUser s u) = Some i \<Longrightarrow> \<exists>x \<in> set (teachers s). th_userId x = u_id u \<and> th_id x = i"
  by (auto simp: fileUser_def dest!: find_Some_in)

lemma fileUser_admin:
  "fu_adminSchool (fileUser s u) = Some i \<Longrightarrow> \<exists>x \<in> set (schoolAdmins s). sa_userId x = u_id u \<and> sa_schoolId x = i"
  by (auto simp: fileUser_def dest!: find_Some_in)

lemma fileUser_role: "fu_role (fileUser s u) = requestRole u" "fu_id (fileUser s u) = u_id u"
  by (simp_all add: fileUser_def)

lemma endsWith_append: "endsWith x p \<Longrightarrow> \<exists>base. x = base @ p"
  unfolding endsWith_def by (metis append_take_drop_id)

lemma document_reviewed:
  assumes "documentReviewer s (fileUser s u) i"
  shows "u_role u = Some ''ADMIN_GET'' \<or>
      (u_role u = Some ''SCHOOL_ADMIN'' \<and>
         (\<exists>ad \<in> set (schoolAdmins s). sa_userId ad = u_id u \<and>
            (\<exists>a \<in> set (applications s). \<exists>offer \<in> set (offers s).
               a_studentId a = i \<and> a_status a \<noteq> REJECTED \<and> a_status a \<noteq> CANCELLED \<and>
               a_offerId a = o_id offer \<and> o_schoolId offer = sa_schoolId ad)))"
proof (cases "u_role u = Some ''ADMIN_GET''")
  case False
  then obtain school where school: "u_role u = Some ''SCHOOL_ADMIN''" "fu_adminSchool (fileUser s u) = Some school"
    "list_ex (liveApplicationAt s i school) (applications s)"
    using assms by (auto simp: documentReviewer_def fileUser_role requestRole_admin split: if_splits option.splits)
  obtain ad where ad: "ad \<in> set (schoolAdmins s)" "sa_userId ad = u_id u" "sa_schoolId ad = school"
    using fileUser_admin [OF school(2)] by blast
  obtain a offer where "a \<in> set (applications s)" "a_studentId a = i" "a_status a \<noteq> REJECTED" "a_status a \<noteq> CANCELLED"
    "offer \<in> set (offers s)" "a_offerId a = o_id offer" "o_schoolId offer = school"
    using school(3) by (auto simp: list_ex_iff liveApplicationAt_def)
  with school(1) ad show ?thesis by blast
qed simp

lemma document_entitled:
  assumes "fu_student (fileUser s u) = Some i \<or> documentReviewer s (fileUser s u) i"
    and "find (\<lambda>d. d_studentId d = i \<and> endsWith (d_fileUrl d) (''documents/'' @ i @ ''/'' @ name) \<and>
                 d_deletedAt d = None) (documents s) = Some d"
  shows "entitled s u (DocumentFile i) name"
proof -
  have d: "d \<in> set (documents s)" "d_studentId d = i" "d_deletedAt d = None"
    "endsWith (d_fileUrl d) (''documents/'' @ i @ ''/'' @ name)"
    using find_Some_in [OF assms(2)] by auto
  moreover obtain base where "d_fileUrl d = base @ ''documents/'' @ i @ ''/'' @ name"
    using endsWith_append [OF d(4)] by blast
  moreover have "(\<exists>x \<in> set (students s). st_userId x = u_id u \<and> st_id x = i) \<or> documentReviewer s (fileUser s u) i"
    using assms(1) fileUser_owner by blast
  ultimately show ?thesis unfolding entitled.simps using document_reviewed by blast
qed

lemma material_reader:
  assumes reader: "materialReader s (fileUser s u) (find (\<lambda>c. c_id c = i) (courses s))"
  shows "entitled s u (MaterialFile i) name"
proof (cases "u_role u = Some ''ADMIN_GET''")
  case False
  then obtain c where c: "find (\<lambda>c. c_id c = i) (courses s) = Some c"
    using reader by (auto simp: materialReader_def fileUser_role requestRole_admin split: option.splits)
  then have course: "c \<in> set (courses s)" "c_id c = i" by (auto dest: find_Some_in)
  consider (teacher) "fu_teacher (fileUser s u) = Some (c_teacherId c)" | (student) "enrolledInCourse s (fileUser s u) c"
    | (admin) "u_role u = Some ''SCHOOL_ADMIN''" "fu_adminSchool (fileUser s u) = Some (c_schoolId c)"
    using reader False c by (auto simp: materialReader_def fileUser_role requestRole_admin)
  then show ?thesis
  proof cases
    case teacher
    from fileUser_teacher [OF this] course show ?thesis by auto
  next
    case student
    then obtain sid e where sid: "fu_student (fileUser s u) = Some sid"
      "\<exists>ce \<in> set (courseEnrollments s). ce_courseId ce = i \<and> ce_studentId ce = sid"
      "find (\<lambda>e. e_studentId e = sid \<and> e_schoolId e = c_schoolId c) (enrollments s) = Some e" "e_status e = ACTIVE"
      using course(2) by (auto simp: enrolledInCourse_def list_ex_iff split: option.splits)
    obtain x where x: "x \<in> set (students s)" "st_userId x = u_id u" "st_id x = sid"
      using fileUser_owner [OF sid(1)] by blast
    have e: "e \<in> set (enrollments s)" "e_studentId e = sid" "e_schoolId e = c_schoolId c"
      using find_Some_in [OF sid(3)] by auto
    have "\<exists>x \<in> set (students s). st_userId x = u_id u \<and>
            (\<exists>ce \<in> set (courseEnrollments s). ce_courseId ce = i \<and> ce_studentId ce = st_id x) \<and>
            (\<exists>e \<in> set (enrollments s). e_studentId e = st_id x \<and> e_schoolId e = c_schoolId c \<and> e_status e = ACTIVE)"
      using x sid(2,4) e by blast
    with course show ?thesis unfolding entitled.simps by blast
  next
    case admin
    from fileUser_admin [OF admin(2)] admin(1) course show ?thesis by auto
  qed
qed simp

text \<open>
  C24. A protected file is only served, by a redirection to the address signed for its key in the
  private bucket, when the object exists and the caller has a valid token of the current session
  of an active account that is not the ministry's, and is entitled to the file: for a document the
  student, the platform, or an administrator of a school where the student has an application that
  is neither rejected nor cancelled, and only while the document is not deleted; for a material the
  teacher, a student of the course still active in the school, the school's administrator or the
  platform; for an attachment the sender, the recipient or the platform. Serving changes nothing.
\<close>

theorem file_served_to_entitled:
  assumes "serveFile E S now req route name s = (Inr (Redirect url), t)"
  shows "t = s \<and> url = s3_sign S (privateBucket S) (routeKey route name) 60 \<and>
    (\<exists>b \<in> set (objects s). ob_bucket b = privateBucket S \<and> ob_key b = routeKey route name) \<and>
    (\<exists>u. caller E now req s u \<and> entitled s u route name)"
proof (cases route)
  case (DocumentFile i)
  obtain u where u: "caller E now req s u" and
    k: "fu_student (fileUser s u) = Some i \<or> documentReviewer s (fileUser s u) i"
      "\<exists>d. find (\<lambda>d. d_studentId d = i \<and> endsWith (d_fileUrl d) (''documents/'' @ i @ ''/'' @ name) \<and>
                 d_deletedAt d = None) (documents s) = Some d"
      "redirectToFile S [''documents'', i, name] s = (Inr (Redirect url), t)"
    using withUser_run [OF assms [unfolded DocumentFile serveFile.simps getDocumentFile_def]]
    by (auto simp: bindE_run asks_run findFirst_run ret_run split: if_splits)
  obtain d where "find (\<lambda>d. d_studentId d = i \<and> endsWith (d_fileUrl d) (''documents/'' @ i @ ''/'' @ name) \<and>
                 d_deletedAt d = None) (documents s) = Some d" using k(2) by blast
  from u document_entitled [OF k(1) this] redirectToFile_run [OF k(3)] DocumentFile show ?thesis
    by (auto simp del: entitled.simps)
next
  case (MaterialFile i)
  obtain u where u: "caller E now req s u" and
    k: "materialReader s (fileUser s u) (find (\<lambda>c. c_id c = i) (courses s))"
      "redirectToFile S [''course-materials'', i, name] s = (Inr (Redirect url), t)"
    using withUser_run [OF assms [unfolded MaterialFile serveFile.simps getMaterialFile_def]]
    by (auto simp: bindE_run asks_run findFirst_run ret_run split: if_splits)
  from u material_reader [OF k(1), of name] redirectToFile_run [OF k(2)] MaterialFile show ?thesis
    by (auto simp del: entitled.simps)
next
  case (MessageFile i)
  obtain u where u: "caller E now req s u" and
    k: "(\<exists>m. find (\<lambda>m. m_id m = i) (messages s) = Some m \<and> (m_senderId m = u_id u \<or> m_recipientId m = u_id u)) \<or>
        u_role u = Some ''ADMIN_GET''"
      "redirectToFile S [''messages'', i, name] s = (Inr (Redirect url), t)"
    using withUser_run [OF assms [unfolded MessageFile serveFile.simps getMessageFile_def]]
    by (auto simp: bindE_run findFirst_run ret_run fileUser_role requestRole_admin split: if_splits option.splits)
  have "entitled s u (MessageFile i) name" using k(1) by (auto dest: find_Some_in)
  with u redirectToFile_run [OF k(2)] MessageFile show ?thesis by (auto simp del: entitled.simps)
qed

text \<open>
  The router does not make the check of \<open>MfaEnforcedGuard\<close>: an administrator without a second
  factor, whom the guard refuses, is served.
\<close>

definition sample_reader :: auth_env where
  "sample_reader =
     sample_auth\<lparr>verifyToken := (\<lambda>k now t.
       if k = AccessKey \<and> t = ''t'' then Some ((noClaims ''ad'')\<lparr>jc_sessionVersion := Some 0\<rparr>) else None)\<rparr>"

definition sample_request :: file_request where
  "sample_request = \<lparr>rq_authorization = None, rq_cookie = Some ''a=b; access_token=t''\<rparr>"

definition sample_files :: db where
  "sample_files =
     empty_db\<lparr>users := [sample_user ''ad'' ''ADMIN_GET''],
       documents := [\<lparr>d_id = ''d1'', d_studentId = ''st1'', d_type = ''CV'', d_name = ''CV'',
         d_fileUrl = ''http://localhost:3001/uploads/documents/st1/a.pdf'', d_fileSize = 5, d_mimeType = PDF,
         d_uploadedAt = 0, d_deletedAt = None\<rparr>],
       objects := [\<lparr>ob_bucket = ''get-poc-uploads'', ob_key = ''documents/st1/a.pdf'', ob_contentType = PDF,
         ob_body = ''%PDF-''\<rparr>]\<rparr>"

lemma sample_token: "extractToken sample_request = Some ''t''"
  unfolding sample_request_def by code_simp

lemma sample_served:
  "serveFile sample_reader sample_store 0 sample_request (DocumentFile ''st1'') ''a.pdf'' sample_files =
     (Inr (Redirect ''get-poc-uploadsdocuments/st1/a.pdf''), sample_files)"
proof -
  have safe: "\<not> unsafeSegment ''documents''" "\<not> unsafeSegment ''st1''" "\<not> unsafeSegment ''a.pdf''" by code_simp+
  show ?thesis
    by (simp add: getDocumentFile_def withUser_def requireUser_def sample_token sample_reader_def noClaims_def
        bindE_run asks_run findFirst_run ret_run sample_files_def sample_user_def fileUser_def requestRole_def
        documentReviewer_def endsWith_def redirectToFile_def createPresignedDownloadUrl_def buildKey_run headObject_def
        safe sample_store_def privateBucket_def orText_def sameObject_def PRESIGNED_URL_TTL_SECONDS_def)
qed

lemma files_without_second_factor:
  "mfaEnforcedGuard False False (find (\<lambda>u. u_id u = ''ad'') (users sample_files)) =
     Inl (Forbidden ''L'authentification a deux facteurs (MFA) est obligatoire pour ce role.'') \<and>
   serveFile sample_reader sample_store 0 sample_request (DocumentFile ''st1'') ''a.pdf'' sample_files =
     (Inr (Redirect ''get-poc-uploadsdocuments/st1/a.pdf''), sample_files)"
  using sample_served by (simp add: mfaEnforcedGuard_def MFA_REQUIRED_ROLES_def requestRole_def sample_files_def sample_user_def)

theorem file_served_to_entitled_witness:
  "\<exists>u. u_id u = ''ad'' \<and> entitled sample_files u (DocumentFile ''st1'') ''a.pdf''"
proof -
  from file_served_to_entitled [OF sample_served] obtain u where
    "caller sample_reader 0 sample_request sample_files u" "entitled sample_files u (DocumentFile ''st1'') ''a.pdf''"
    by blast
  then show ?thesis by (auto simp: caller_def sample_token sample_reader_def noClaims_def simp del: entitled.simps)
qed

end
