(* ===== verification/Student_Space.thy ===== *)
theory Student_Space
  imports Coursework Protected_Uploads
begin

text \<open>
  \<open>StudentService\<close> (\<open>student/student.service.ts\<close>), the student's side: courses and homework,
  profile with its encrypted columns, documents, orientation, grades, attendance, timetable,
  events, password. An optional property of a request body is absent, present and undefined, or
  present with a value, since the object spread copies a property that is present and undefined.
  The main facts: a document that the student uploads can be opened by the student and, once
  deleted, by nobody; a homework is never replaced after it was graded, and its file can be opened
  by nobody; what is encrypted in the profile is shown to the student; the suggestions of
  orientation are at most five, best first, of offers that are open.
\<close>

section \<open>The student\<close>

definition enrolledStudent :: "id \<Rightarrow> (db, student_row) exec" where
  "enrolledStudent userId = findOr students (\<lambda>x. st_userId x = userId) (NotFound ''Student not found'')"

text \<open>\<open>courseEnrollment\<close>: enrolled in the course, and still active in its school.\<close>

definition courseAccess :: "id \<Rightarrow> id \<Rightarrow> (db, course_enrollment_row) exec" where
  "courseAccess studentId courseId =
     bindE (findOr courseEnrollments (\<lambda>e. ce_courseId e = courseId \<and> ce_studentId e = studentId)
              (NotFound ''Cours introuvable'')) (\<lambda>enrollment.
     bindE (asks (\<lambda>s. map_option c_schoolId (find (\<lambda>c. c_id c = ce_courseId enrollment) (courses s)))) (\<lambda>schoolId.
     bindE (findFirst enrollments (\<lambda>e. e_studentId e = studentId \<and> Some (e_schoolId e) = schoolId)) (\<lambda>found.
     thenE (require (map_option e_status found = Some ACTIVE) (NotFound ''Cours introuvable''))
       (ret enrollment))))"

definition activeSchools :: "db \<Rightarrow> id \<Rightarrow> id list" where
  "activeSchools s studentId =
     map e_schoolId (filter (\<lambda>e. e_studentId e = studentId \<and> e_status e = ACTIVE) (enrollments s))"

record my_course =
  mc_course :: course_row
  mc_school :: "school_row option"
  mc_teacher :: "(string option \<times> string option) option"

definition myCourse :: "db \<Rightarrow> course_row \<Rightarrow> my_course" where
  "myCourse s c =
     \<lparr>mc_course = c, mc_school = find (\<lambda>x. sc_id x = c_schoolId c) (schools s),
      mc_teacher = map_option (\<lambda>x. (th_firstName x, th_lastName x)) (find (\<lambda>x. th_id x = c_teacherId c) (teachers s))\<rparr>"

definition coursesOf :: "db \<Rightarrow> id \<Rightarrow> course_row list" where
  "coursesOf s studentId =
     List.map_filter (\<lambda>e. find (\<lambda>c. c_id c = ce_courseId e) (courses s))
       (filter (\<lambda>e. ce_studentId e = studentId) (courseEnrollments s))"

definition getStudentCourses :: "id \<Rightarrow> (db, my_course list) exec" where
  "getStudentCourses userId =
     bindE (enrolledStudent userId) (\<lambda>student.
     asks (\<lambda>s. map (myCourse s)
       (filter (\<lambda>c. c_schoolId c \<in> set (activeSchools s (st_id student))) (coursesOf s (st_id student)))))"

section \<open>Homework\<close>

record my_submission =
  ms_id :: id
  ms_submittedAt :: time
  ms_grade :: "rat option"

definition mySubmission :: "db \<Rightarrow> id \<Rightarrow> id \<Rightarrow> my_submission option" where
  "mySubmission s studentId assignmentId =
     map_option (\<lambda>x. \<lparr>ms_id = su_id x, ms_submittedAt = su_submittedAt x, ms_grade = su_grade x\<rparr>)
       (find (\<lambda>x. su_assignmentId x = assignmentId \<and> su_studentId x = studentId) (submissions s))"

definition getCourseAssignments :: "id \<Rightarrow> id \<Rightarrow> (db, (homework_row \<times> my_submission option) list) exec" where
  "getCourseAssignments userId courseId =
     bindE (enrolledStudent userId) (\<lambda>student.
     thenE (courseAccess (st_id student) courseId)
     (asks (\<lambda>s. map (\<lambda>h. (h, mySubmission s (st_id student) (h_id h)))
        (orderNullsLast h_dueAt (orderDesc h_createdAt
           (filter (\<lambda>h. h_courseId h = courseId \<and> h_publishedAt h \<noteq> None) (homeworks s)))))))"

definition sameSubmission :: "id \<Rightarrow> id \<Rightarrow> submission_row \<Rightarrow> bool" where
  "sameSubmission assignmentId studentId x \<longleftrightarrow> su_assignmentId x = assignmentId \<and> su_studentId x = studentId"

definition publishedHomework :: "id \<Rightarrow> (db, homework_row) exec" where
  "publishedHomework assignmentId =
     bindE (findOr homeworks (\<lambda>h. h_id h = assignmentId) (NotFound ''Devoir introuvable'')) (\<lambda>h.
     thenE (require (h_publishedAt h \<noteq> None) (NotFound ''Devoir introuvable'')) (ret h))"

definition submitAssignment ::
  "portal_env \<Rightarrow> time \<Rightarrow> id \<Rightarrow> id \<Rightarrow> upload \<Rightarrow> (db, submission_row) exec" where
  "submitAssignment E now userId assignmentId upl =
     bindE (enrolledStudent userId) (\<lambda>student.
     bindE (publishedHomework assignmentId) (\<lambda>assignment.
     thenE (courseAccess (st_id student) (h_courseId assignment))
     (bindE (findFirst submissions (sameSubmission assignmentId (st_id student))) (\<lambda>existing.
      thenE (require (Option.bind existing su_grade = None)
               (Conflict ''Cette soumission a deja ete notee et ne peut plus etre remplacee''))
      (bindE (uploadDocument (pe_store E) upl (st_id student)) (\<lambda>contentUrl.
       bindE (newId (pe_uuid E)) (\<lambda>i.
       thenE (upsertRow submissions submissions_update (sameSubmission assignmentId (st_id student))
                (\<lambda>x. x\<lparr>su_contentUrl := Some contentUrl, su_submittedAt := now\<rparr>)
                \<lparr>su_id = i, su_assignmentId = assignmentId, su_studentId = st_id student,
                 su_contentUrl = Some contentUrl, su_submittedAt = now, su_grade = None, su_feedback = None\<rparr>)
       (findOr submissions (sameSubmission assignmentId (st_id student)) (Failure ''P2025'')))))))))"

section \<open>Profile\<close>

text \<open>A property of a request body: absent, present and undefined, or present with a value.\<close>

type_synonym 'a optional = "'a option option"

definition propValue :: "'a optional \<Rightarrow> 'a option" where
  "propValue p = (case p of None \<Rightarrow> None | Some x \<Rightarrow> x)"

text \<open>The property in \<open>{ ...old, ...dto }\<close>.\<close>

definition spread :: "'a optional \<Rightarrow> 'a option \<Rightarrow> 'a option" where
  "spread p old = (case p of None \<Rightarrow> old | Some x \<Rightarrow> x)"

record student_profile_dto =
  up_firstName :: "string optional"
  up_lastName :: "string optional"
  up_phone :: "string optional"
  up_birthDate :: "time optional"
  up_cin :: "string optional"
  up_bacYear :: "int optional"
  up_bacType :: "string optional"
  up_city :: "string optional"
  up_address :: "string optional"
  up_region :: "string optional"
  up_bio :: "string optional"
  up_interests :: "string list optional"
  up_skills :: "string list optional"
  up_aspirations :: "string list optional"

text \<open>The eight fields that count towards a complete profile.\<close>

record profile_fields =
  pf_firstName :: "string option"
  pf_lastName :: "string option"
  pf_phone :: "string option"
  pf_birthDate :: "time option"
  pf_cin :: "string option"
  pf_bacYear :: "int option"
  pf_city :: "string option"
  pf_bio :: "string option"

definition profileFields :: "student_row \<Rightarrow> profile_fields" where
  "profileFields x =
     \<lparr>pf_firstName = Some (st_firstName x), pf_lastName = Some (st_lastName x), pf_phone = st_phone x,
      pf_birthDate = st_birthDate x, pf_cin = st_cin x, pf_bacYear = st_bacYear x, pf_city = st_city x,
      pf_bio = st_bio x\<rparr>"

definition mergedFields :: "student_row \<Rightarrow> student_profile_dto \<Rightarrow> profile_fields" where
  "mergedFields x dto =
     \<lparr>pf_firstName = spread (up_firstName dto) (Some (st_firstName x)),
      pf_lastName = spread (up_lastName dto) (Some (st_lastName x)),
      pf_phone = spread (up_phone dto) (st_phone x), pf_birthDate = spread (up_birthDate dto) (st_birthDate x),
      pf_cin = spread (up_cin dto) (st_cin x), pf_bacYear = spread (up_bacYear dto) (st_bacYear x),
      pf_city = spread (up_city dto) (st_city x), pf_bio = spread (up_bio dto) (st_bio x)\<rparr>"

definition calculateProfileCompletion :: "profile_fields \<Rightarrow> bool" where
  "calculateProfileCompletion f =
     (let fields = [truthy (pf_firstName f), truthy (pf_lastName f), truthy (pf_phone f), pf_birthDate f \<noteq> None,
                    truthy (pf_cin f), pf_bacYear f \<noteq> None, truthy (pf_city f), truthy (pf_bio f)];
          filled = length (filter (\<lambda>b. b) fields) in
      (7 / 10 :: rat) \<le> rat_of_nat filled / rat_of_nat (length fields))"

definition revealText :: "portal_env \<Rightarrow> string option \<Rightarrow> string option" where
  "revealText E stored = (if truthy stored then openText E stored else None)"

record student_profile =
  sp_student :: student_row
  sp_user :: "user_row option"
  sp_documents :: "document_row list"
  sp_applications :: "(application_row \<times> offer_row option \<times> school_row option) list"
  sp_enrollments :: "(enrollment_row \<times> school_row option \<times> program_row option \<times> school_year_row option) list"
  sp_phone :: "string option"
  sp_cin :: "string option"
  sp_address :: "string option"
  sp_completed :: bool

definition recentApplications ::
  "db \<Rightarrow> id \<Rightarrow> (application_row \<times> offer_row option \<times> school_row option) list" where
  "recentApplications s i =
     map (\<lambda>a. let f = find (\<lambda>x. o_id x = a_offerId a) (offers s) in
              (a, f, Option.bind f (\<lambda>x. find (\<lambda>y. sc_id y = o_schoolId x) (schools s))))
       (take 10 (orderDesc a_submittedAt (filter (\<lambda>a. a_studentId a = i) (applications s))))"

definition liveDocuments :: "db \<Rightarrow> id \<Rightarrow> document_row list" where
  "liveDocuments s i = orderDesc d_uploadedAt (filter (\<lambda>d. d_studentId d = i \<and> d_deletedAt d = None) (documents s))"

definition getProfile :: "portal_env \<Rightarrow> id \<Rightarrow> (db, student_profile) exec" where
  "getProfile E userId =
     bindE (enrolledStudent userId) (\<lambda>student.
     asks (\<lambda>s.
       \<lparr>sp_student = student, sp_user = find (\<lambda>u. u_id u = st_userId student) (users s),
        sp_documents = liveDocuments s (st_id student),
        sp_applications = recentApplications s (st_id student),
        sp_enrollments =
          map (\<lambda>e. (e, find (\<lambda>x. sc_id x = e_schoolId e) (schools s), find (\<lambda>x. pr_id x = e_programId e) (programs s),
                    find (\<lambda>x. y_id x = e_academicYearId e) (schoolYears s)))
            (filter (\<lambda>e. e_studentId e = st_id student \<and> e_status e = ACTIVE) (enrollments s)),
        sp_phone = revealText E (st_phone student), sp_cin = revealText E (st_cin student),
        sp_address = revealText E (st_address student),
        sp_completed = calculateProfileCompletion (profileFields student)\<rparr>))"

text \<open>\<open>if (dto.phone) data.phone = encrypt(dto.phone)\<close>: what the column becomes.\<close>

definition sealProp :: "portal_env \<Rightarrow> string optional \<Rightarrow> (db, string option) exec" where
  "sealProp E p =
     (if truthy (propValue p) then bindE (sealText E (nullish (propValue p) [])) (\<lambda>x. ret (Some x)) else ret None)"

definition profileUpdate ::
  "student_profile_dto \<Rightarrow> bool \<Rightarrow> string option \<Rightarrow> string option \<Rightarrow> string option \<Rightarrow> student_row \<Rightarrow> student_row" where
  "profileUpdate dto completed phone cin address x =
     x\<lparr>st_firstName := nullish (propValue (up_firstName dto)) (st_firstName x),
       st_lastName := nullish (propValue (up_lastName dto)) (st_lastName x),
       st_birthDate := overwrite (propValue (up_birthDate dto)) (st_birthDate x),
       st_bacYear := overwrite (propValue (up_bacYear dto)) (st_bacYear x),
       st_bacType := overwrite (propValue (up_bacType dto)) (st_bacType x),
       st_city := overwrite (propValue (up_city dto)) (st_city x),
       st_region := overwrite (propValue (up_region dto)) (st_region x),
       st_bio := overwrite (propValue (up_bio dto)) (st_bio x),
       st_interests := nullish (propValue (up_interests dto)) (st_interests x),
       st_skills := nullish (propValue (up_skills dto)) (st_skills x),
       st_aspirations := nullish (propValue (up_aspirations dto)) (st_aspirations x),
       st_profileCompleted := completed,
       st_phone := overwrite phone (st_phone x), st_cin := overwrite cin (st_cin x),
       st_address := overwrite address (st_address x)\<rparr>"

definition updateStudentProfile :: "portal_env \<Rightarrow> id \<Rightarrow> student_profile_dto \<Rightarrow> (db, student_row) exec" where
  "updateStudentProfile E userId dto =
     bindE (enrolledStudent userId) (\<lambda>student.
     let profileCompleted = calculateProfileCompletion (mergedFields student dto) in
     bindE (sealProp E (up_phone dto)) (\<lambda>phone.
     bindE (sealProp E (up_cin dto)) (\<lambda>cin.
     bindE (sealProp E (up_address dto)) (\<lambda>address.
     updateOne students students_update (\<lambda>x. st_userId x = userId)
       (profileUpdate dto profileCompleted phone cin address)))))"

section \<open>Documents\<close>

definition getDocuments :: "id \<Rightarrow> (db, document_row list) exec" where
  "getDocuments userId = bindE (enrolledStudent userId) (\<lambda>student. asks (\<lambda>s. liveDocuments s (st_id student)))"

definition uploadStudentDocument ::
  "portal_env \<Rightarrow> time \<Rightarrow> id \<Rightarrow> upload \<Rightarrow> string \<Rightarrow> string \<Rightarrow> (db, document_row) exec" where
  "uploadStudentDocument E now userId upl type name =
     bindE (enrolledStudent userId) (\<lambda>student.
     bindE (uploadDocument (pe_store E) upl (st_id student)) (\<lambda>fileUrl.
     bindE (newId (pe_uuid E)) (\<lambda>i.
     insertRow documents documents_update (\<lambda>a b. d_id a = d_id b)
       \<lparr>d_id = i, d_studentId = st_id student, d_type = type,
        d_name = (if name = [] then f_originalname upl else name), d_fileUrl = fileUrl,
        d_fileSize = f_size upl, d_mimeType = f_mimetype upl, d_uploadedAt = now, d_deletedAt = None\<rparr>)))"

text \<open>\<open>fileUrl.split('/').pop()\<close>\<close>

definition lastPart :: "string \<Rightarrow> string" where
  "lastPart x = last (splitOn (CHR ''/'') [] x)"

definition deleteDocument :: "portal_env \<Rightarrow> time \<Rightarrow> id \<Rightarrow> id \<Rightarrow> (db, unit) exec" where
  "deleteDocument E now userId documentId =
     bindE (enrolledStudent userId) (\<lambda>student.
     bindE (findOr documents (\<lambda>d. d_id d = documentId \<and> d_studentId d = st_id student \<and> d_deletedAt d = None)
              (NotFound ''Document not found'')) (\<lambda>document.
     thenE (updateOne documents documents_update (\<lambda>d. d_id d = documentId) (\<lambda>d. d\<lparr>d_deletedAt := Some now\<rparr>))
     (let fileName = lastPart (d_fileUrl document) in
      whenE (fileName \<noteq> []) (deleteObject (pe_store E) [''documents'', st_id student, fileName]))))"

section \<open>Orientation\<close>

record questionnaire_dto =
  oq_interests :: "string list"
  oq_skills :: "string list"
  oq_careerGoals :: "string list"
  oq_preferredDiplomas :: "string list option"
  oq_preferredDomain :: "string option"
  oq_interestedInInternational :: "bool option"

definition titleHas :: "offer_row \<Rightarrow> string \<Rightarrow> bool" where
  "titleHas f x = containsText (map lowerChar (o_title f)) (map lowerChar x)"

definition interestMatch :: "questionnaire_dto \<Rightarrow> offer_row \<Rightarrow> bool" where
  "interestMatch dto f = list_ex (titleHas f) (oq_interests dto)"

definition diplomaMatch :: "questionnaire_dto \<Rightarrow> offer_row \<Rightarrow> bool" where
  "diplomaMatch dto f = list_ex (containsText (o_diploma f)) (nullish (oq_preferredDiplomas dto) [])"

definition domainMatch :: "questionnaire_dto \<Rightarrow> offer_row \<Rightarrow> bool" where
  "domainMatch dto f \<longleftrightarrow> truthy (oq_preferredDomain dto) \<and> titleHas f (nullish (oq_preferredDomain dto) [])"

definition matchScore :: "questionnaire_dto \<Rightarrow> offer_row \<Rightarrow> int" where
  "matchScore dto f =
     (if interestMatch dto f then 30 else 0) + (if diplomaMatch dto f then 20 else 0) +
     (if domainMatch dto f then 30 else 0) +
     (if oq_interestedInInternational dto = Some True \<and> titleHas f ''international'' then 20 else 0)"

definition generateMatchReasons :: "offer_row \<Rightarrow> questionnaire_dto \<Rightarrow> string list" where
  "generateMatchReasons f dto =
     (let reasons =
        (if interestMatch dto f then [''Matches your interests''] else []) @
        (if diplomaMatch dto f then [''Matching diploma: '' @ o_diploma f] else []) @
        (if domainMatch dto f
         then [''Matches your preferred domain: '' @ nullish (oq_preferredDomain dto) []] else []) in
      if reasons = [] then [''Recommended complementary training''] else reasons)"

record suggestion =
  sg_schoolId :: id
  sg_schoolName :: "string option"
  sg_offerId :: id
  sg_offerTitle :: string
  sg_matchScore :: int
  sg_reasons :: "string list"

definition suggestionOf :: "questionnaire_dto \<Rightarrow> db \<Rightarrow> offer_row \<Rightarrow> suggestion" where
  "suggestionOf dto s f =
     \<lparr>sg_schoolId = o_schoolId f, sg_schoolName = map_option sc_name (find (\<lambda>x. sc_id x = o_schoolId f) (schools s)),
      sg_offerId = o_id f, sg_offerTitle = o_title f, sg_matchScore = matchScore dto f,
      sg_reasons = generateMatchReasons f dto\<rparr>"

definition generateOrientationSuggestions :: "questionnaire_dto \<Rightarrow> (db, suggestion list) exec" where
  "generateOrientationSuggestions dto =
     bindE (findMany offers (\<lambda>f. o_isOpen f \<and> o_deletedAt f = None)) (\<lambda>open.
     asks (\<lambda>s. take 5 (orderDesc sg_matchScore
       (filter (\<lambda>x. 0 < sg_matchScore x) (map (suggestionOf dto s) (take 10 open))))))"

definition submitOrientationQuestionnaire :: "id \<Rightarrow> questionnaire_dto \<Rightarrow> (db, suggestion list) exec" where
  "submitOrientationQuestionnaire userId dto =
     thenE (enrolledStudent userId)
     (thenE (updateOne students students_update (\<lambda>x. st_userId x = userId)
               (\<lambda>x. x\<lparr>st_interests := oq_interests dto, st_skills := oq_skills dto,
                     st_aspirations := oq_careerGoals dto\<rparr>))
     (generateOrientationSuggestions dto))"

definition getOrientationSuggestions :: "id \<Rightarrow> (db, suggestion list) exec" where
  "getOrientationSuggestions userId =
     bindE (enrolledStudent userId) (\<lambda>student.
     thenE (require (st_interests student \<noteq> []) (BadRequest ''Please complete the orientation questionnaire first''))
     (generateOrientationSuggestions
        \<lparr>oq_interests = st_interests student, oq_skills = st_skills student,
         oq_careerGoals = st_aspirations student, oq_preferredDiplomas = None, oq_preferredDomain = None,
         oq_interestedInInternational = None\<rparr>))"

section \<open>Statistics, grades, attendance, timetable, events\<close>

record student_stats =
  sx_totalApplications :: nat
  sx_pendingApplications :: nat
  sx_acceptedApplications :: nat
  sx_rejectedApplications :: nat
  sx_documentsUploaded :: nat
  sx_profileCompletion :: bool

definition getStudentStats :: "id \<Rightarrow> (db, student_stats) exec" where
  "getStudentStats userId =
     bindE (enrolledStudent userId) (\<lambda>student.
     bindE (findMany applications (\<lambda>a. a_studentId a = st_id student)) (\<lambda>mine.
     bindE (findMany documents (\<lambda>d. d_studentId d = st_id student \<and> d_deletedAt d = None)) (\<lambda>docs.
     ret \<lparr>sx_totalApplications = length mine,
          sx_pendingApplications = count_rows (\<lambda>a. a_status a = PENDING) mine,
          sx_acceptedApplications = count_rows (\<lambda>a. a_status a = ACCEPTED) mine,
          sx_rejectedApplications = count_rows (\<lambda>a. a_status a = REJECTED) mine,
          sx_documentsUploaded = length docs,
          sx_profileCompletion = calculateProfileCompletion (profileFields student)\<rparr>)))"

definition updateStudentAvatar :: "id \<Rightarrow> string \<Rightarrow> (db, student_row) exec" where
  "updateStudentAvatar userId avatarUrl =
     thenE (enrolledStudent userId)
     (updateOne students students_update (\<lambda>x. st_userId x = userId) (\<lambda>x. x\<lparr>st_avatarUrl := Some avatarUrl\<rparr>))"

record course_grades =
  cg_courseId :: id
  cg_code :: string
  cg_title :: string
  cg_evaluations :: "(evaluation_row \<times> rat option) list"
  cg_assignments :: "(id \<times> string \<times> rat option) list"

definition courseGradesOf :: "db \<Rightarrow> id \<Rightarrow> course_row \<Rightarrow> course_grades" where
  "courseGradesOf s i c =
     \<lparr>cg_courseId = c_id c, cg_code = c_code c, cg_title = c_title c,
      cg_evaluations =
        map (\<lambda>e. (e, map_option g_value (find (sameGrade (el_id e) i) (grades s))))
          (filter (\<lambda>e. el_courseId e = c_id c) (evaluations s)),
      cg_assignments =
        map (\<lambda>h. (h_id h, h_title h, Option.bind (find (sameSubmission (h_id h) i) (submissions s)) su_grade))
          (filter (\<lambda>h. h_courseId h = c_id c \<and> h_publishedAt h \<noteq> None) (homeworks s))\<rparr>"

definition getGrades :: "id \<Rightarrow> (db, course_grades list) exec" where
  "getGrades userId =
     bindE (enrolledStudent userId) (\<lambda>student.
     asks (\<lambda>s. map (courseGradesOf s (st_id student)) (coursesOf s (st_id student))))"

record attendance_stats =
  ax_PRESENT :: nat
  ax_ABSENT :: nat
  ax_LATE :: nat
  ax_total :: nat

definition getAttendanceStats :: "id \<Rightarrow> (db, attendance_stats) exec" where
  "getAttendanceStats userId =
     bindE (enrolledStudent userId) (\<lambda>student.
     bindE (asks (\<lambda>s. groupCount at_status (filter (\<lambda>r. at_studentId r = st_id student) (attendances s)))) (\<lambda>records.
     let counts = (\<lambda>k. case map_of records k of None \<Rightarrow> 0 | Some n \<Rightarrow> n);
         p = counts ''PRESENT''; a = counts ''ABSENT''; l = counts ''LATE'' in
     ret \<lparr>ax_PRESENT = p, ax_ABSENT = a, ax_LATE = l, ax_total = p + a + l\<rparr>))"

definition getStudentSchedule :: "id \<Rightarrow> (db, (course_slot_row \<times> course_row option) list) exec" where
  "getStudentSchedule userId =
     bindE (enrolledStudent userId) (\<lambda>student.
     bindE (asks (\<lambda>s. map ce_courseId (filter (\<lambda>e. ce_studentId e = st_id student) (courseEnrollments s)))) (\<lambda>courseIds.
     if courseIds = [] then ret []
     else asks (\<lambda>s. map (\<lambda>e. (e, find (\<lambda>c. c_id c = s_courseId e) (courses s)))
            (sort_key s_dayOfWeek (sort_key s_startTime
               (filter (\<lambda>e. s_courseId e \<in> set courseIds) (courseSlots s)))))))"

definition getUpcomingEvents :: "time \<Rightarrow> id \<Rightarrow> (db, (school_event_row \<times> string option) list) exec" where
  "getUpcomingEvents now userId =
     bindE (enrolledStudent userId) (\<lambda>student.
     bindE (asks (\<lambda>s. activeSchools s (st_id student))) (\<lambda>schoolIds.
     if schoolIds = [] then ret []
     else asks (\<lambda>s. map (\<lambda>e. (e, map_option sc_name (find (\<lambda>x. sc_id x = ev_schoolId e) (schools s))))
            (take 10 (sort_key ev_startAt
               (filter (\<lambda>e. ev_schoolId e \<in> set schoolIds \<and> now \<le> ev_startAt e) (schoolEvents s)))))))"

definition changeStudentPassword :: "portal_env \<Rightarrow> id \<Rightarrow> string \<Rightarrow> string \<Rightarrow> (db, unit) exec" where
  "changeStudentPassword E userId currentPassword newPassword =
     bindE (findOr users (\<lambda>u. u_id u = userId) (NotFound ''Utilisateur introuvable'')) (\<lambda>user.
     thenE (require (comparePassword (pe_auth E) currentPassword (u_password user))
              (BadRequest ''Le mot de passe actuel est incorrect''))
     (bindE (newId (\<lambda>n. hashPassword (pe_auth E) n newPassword)) (\<lambda>hashedPassword.
      thenE (updateOne users users_update (\<lambda>u. u_id u = userId)
               (\<lambda>u. u\<lparr>u_password := hashedPassword, u_sessionVersion := Suc (u_sessionVersion u)\<rparr>))
        (ret ()))))"

definition updateStudentTheme :: "id \<Rightarrow> string \<Rightarrow> (db, string) exec" where
  "updateStudentTheme userId theme =
     bindE (updateOne users users_update (\<lambda>u. u_id u = userId) (\<lambda>u. u\<lparr>u_theme := theme\<rparr>)) (\<lambda>u.
     ret (u_theme u))"

section \<open>Files of a student\<close>

lemma storePrivate_ok:
  assumes "storePrivate S folder i f s = (Inr url, t)"
  shows "\<exists>name. name = randomHex S (seqNo s) @ map lowerChar (extname (f_originalname f)) \<and>
    \<not> list_ex unsafeSegment [folder, i, name] \<and> url = protectedObjectUrl S [folder, i, name] \<and>
    t = s\<lparr>seqNo := Suc (seqNo s), objects := withObject (privateBucket S) (folder @ ''/'' @ i @ ''/'' @ name) f (objects s)\<rparr>"
  using assms
  by (auto simp: storePrivate_def bindE_run thenE_run generateFileName_run buildKey_run putObject_run ret_run
      split: if_splits)

lemma uploadDocument_ok:
  assumes "uploadDocument S f i s = (Inr url, t)"
  shows "\<exists>name. name = randomHex S (seqNo s) @ map lowerChar (extname (f_originalname f)) \<and>
    \<not> list_ex unsafeSegment [''documents'', i, name] \<and> url = protectedObjectUrl S [''documents'', i, name] \<and>
    t = s\<lparr>seqNo := Suc (seqNo s), objects := withObject (privateBucket S) (''documents'' @ ''/'' @ i @ ''/'' @ name) f (objects s)\<rparr>"
proof -
  have "snd (assertSafeDocument f False s) = s"
    by (auto simp: assertSafeDocument_def assertSafeImage_def Let_def thenE_run require_run split: if_splits)
  with assms have "storePrivate S ''documents'' i f s = (Inr url, t)"
    by (auto simp: uploadDocument_def thenE_run assertSafeEntityId_def require_run
        split: prod.splits sum.splits if_splits)
  from storePrivate_ok [OF this] show ?thesis .
qed

text \<open>The signed-in user of a request: what the router finds behind its token.\<close>

definition signedIn :: "auth_env \<Rightarrow> time \<Rightarrow> file_request \<Rightarrow> db \<Rightarrow> user_row \<Rightarrow> bool" where
  "signedIn A now req s u \<longleftrightarrow>
     (\<exists>token payload. extractToken req = Some token \<and> token \<noteq> [] \<and> verifyToken A AccessKey now token = Some payload \<and>
        find (\<lambda>u. u_id u = jc_sub payload) (users s) = Some u \<and> u_isActive u \<and>
        jc_sessionVersion payload = Some (u_sessionVersion u) \<and> requestRole u \<noteq> ''MINISTRY'')"

lemma withUser_signedIn: "signedIn A now req s u \<Longrightarrow> withUser A now req k s = k (fileUser s u) s"
  by (auto simp: signedIn_def withUser_def requireUser_def bindE_run findFirst_run asks_run ret_run fileUser_role)

definition documentKey :: "id \<Rightarrow> string \<Rightarrow> string" where
  "documentKey i name = ''documents/'' @ i @ ''/'' @ name"

lemma documentUrl: "protectedObjectUrl S [''documents'', i, name] = orText (APP_URL S) ''http://localhost:3001'' @ ''/uploads/'' @ documentKey i name"
  by (simp add: protectedObjectUrl_def documentKey_def)

lemma endsWith_suffix: "endsWith (x @ p) p"
  by (simp add: endsWith_def)

lemma enrolledStudent_run: "enrolledStudent u s = (case find (\<lambda>x. st_userId x = u) (students s) of None \<Rightarrow> (Inl (NotFound ''Student not found''), s) | Some x \<Rightarrow> (Inr x, s))"
  by (simp add: enrolledStudent_def findOr_run)

lemma uploadStudentDocument_ok:
  assumes "uploadStudentDocument E now userId f type label s = (Inr d, t)"
  shows "\<exists>x name. find (\<lambda>x. st_userId x = userId) (students s) = Some x \<and>
    name = randomHex (pe_store E) (seqNo s) @ map lowerChar (extname (f_originalname f)) \<and>
    \<not> list_ex unsafeSegment [''documents'', st_id x, name] \<and>
    d_studentId d = st_id x \<and> d_deletedAt d = None \<and>
    d_fileUrl d = protectedObjectUrl (pe_store E) [''documents'', st_id x, name] \<and>
    t = s\<lparr>seqNo := Suc (Suc (seqNo s)),
          objects := withObject (privateBucket (pe_store E)) (documentKey (st_id x) name) f (objects s),
          documents := documents s @ [d]\<rparr>"
proof -
  obtain x url u where x: "find (\<lambda>x. st_userId x = userId) (students s) = Some x" and
    up: "uploadDocument (pe_store E) f (st_id x) s = (Inr url, u)"
    using assms by (auto simp: uploadStudentDocument_def bindE_run enrolledStudent_run split: option.splits prod.splits sum.splits)
  from uploadDocument_ok [OF up] assms x up show ?thesis
    by (auto simp: uploadStudentDocument_def bindE_run enrolledStudent_run newId_run insertRow_run documentKey_def split: if_splits)
qed

text \<open>
  C32. A document that a student uploads can be opened by that student: the address recorded is the
  one of the file route, and the request of the signed-in owner for it is answered with the signed
  address of exactly the object just stored, whose content is the file's.
\<close>

theorem uploaded_document_opens:
  assumes up: "uploadStudentDocument E now userId f type label s = (Inr d, t)"
    and user: "signedIn (pe_auth E) now' req t u" "u_id u = userId"
    and store: "\<And>key. s3_head (pe_store E) (privateBucket (pe_store E)) key"
      "\<And>key. s3_sign (pe_store E) (privateBucket (pe_store E)) key 60 \<noteq> []"
  shows "\<exists>base name. d_fileUrl d = base @ documentKey (d_studentId d) name \<and>
    serveFile (pe_auth E) (pe_store E) now' req (DocumentFile (d_studentId d)) name t =
      (Inr (Redirect (s3_sign (pe_store E) (privateBucket (pe_store E)) (documentKey (d_studentId d) name) 60)), t) \<and>
    (\<exists>b \<in> set (objects t). ob_key b = documentKey (d_studentId d) name \<and> ob_body b = f_buffer f)"
proof -
  let ?S = "pe_store E"
  obtain x name where x: "find (\<lambda>x. st_userId x = userId) (students s) = Some x" and
    safe: "\<not> list_ex unsafeSegment [''documents'', st_id x, name]" and
    d: "d_studentId d = st_id x" "d_deletedAt d = None" "d_fileUrl d = protectedObjectUrl ?S [''documents'', st_id x, name]" and
    t: "t = s\<lparr>seqNo := Suc (Suc (seqNo s)),
          objects := withObject (privateBucket ?S) (documentKey (st_id x) name) f (objects s),
          documents := documents s @ [d]\<rparr>"
    using uploadStudentDocument_ok [OF up] by blast
  obtain b where b: "b \<in> set (objects t)" "ob_bucket b = privateBucket ?S" "ob_key b = documentKey (st_id x) name"
      "ob_body b = f_buffer f"
    using withObject_stored [where bucket = "privateBucket ?S" and key = "documentKey (st_id x) name" and f = f and bs = "objects s"]
    by (auto simp: t)
  have key: "joinWith ''/'' [''documents'', st_id x, name] = documentKey (st_id x) name" by (simp add: documentKey_def)
  have stored: "list_ex (sameObject (privateBucket ?S) (documentKey (st_id x) name)) (objects t)"
    using b by (auto simp: list_ex_iff sameObject_def)
  have build: "buildKey [''documents'', st_id x, name] t = (Inr (documentKey (st_id x) name), t)"
    unfolding buildKey_run key using safe by simp
  have redirect: "redirectToFile ?S [''documents'', st_id x, name] t =
      (Inr (Redirect (s3_sign ?S (privateBucket ?S) (documentKey (st_id x) name) 60)), t)"
    using stored store(1,2)
    by (simp add: redirectToFile_def createPresignedDownloadUrl_def bindE_run build headObject_def asks_run ret_run
        PRESIGNED_URL_TTL_SECONDS_def)
  have ends: "endsWith (d_fileUrl d) (documentKey (st_id x) name)"
    unfolding d(3) documentUrl append_assoc [symmetric] by (rule endsWith_suffix)
  have "find (\<lambda>d. d_studentId d = st_id x \<and> endsWith (d_fileUrl d) (documentKey (st_id x) name) \<and> d_deletedAt d = None)
      (documents t) \<noteq> None"
    using d(1,2) ends by (auto simp: t find_None)
  then obtain y where live: "find (\<lambda>d. d_studentId d = st_id x \<and> endsWith (d_fileUrl d) (documentKey (st_id x) name) \<and>
      d_deletedAt d = None) (documents t) = Some y" by blast
  have me: "fu_student (fileUser t u) = Some (st_id x)" using x user(2) by (simp add: t fileUser_def)
  have "serveFile (pe_auth E) ?S now' req (DocumentFile (st_id x)) name t =
      (Inr (Redirect (s3_sign ?S (privateBucket ?S) (documentKey (st_id x) name) 60)), t)"
    using live redirect me unfolding serveFile.simps getDocumentFile_def withUser_signedIn [OF user(1)]
    by (simp add: bindE_run asks_run findFirst_run documentKey_def)
  moreover have "d_fileUrl d = (orText (APP_URL ?S) ''http://localhost:3001'' @ ''/uploads/'') @ documentKey (st_id x) name"
    unfolding d(3) documentUrl by simp
  ultimately show ?thesis unfolding d(1) using b(1,3,4) by blast
qed

lemma splitOn_not_Nil: "splitOn c w x \<noteq> []"
  by (induction x arbitrary: w) auto

lemma splitOn_last:
  "CHR ''/'' \<notin> set y \<Longrightarrow> last (splitOn (CHR ''/'') w (x @ CHR ''/'' # y)) = y"
  by (induction x arbitrary: w) (auto simp: splitOn_none splitOn_not_Nil)

lemma lastPart_key: "CHR ''/'' \<notin> set name \<Longrightarrow> lastPart (base @ documentKey i name) = name"
  using splitOn_last [of name "[]" "base @ ''documents/'' @ i"] by (simp add: lastPart_def documentKey_def)

lemma deleteDocument_ok:
  assumes "deleteDocument E now userId i s = (Inr (), t)"
  shows "\<exists>x d. find (\<lambda>x. st_userId x = userId) (students s) = Some x \<and>
    find (\<lambda>d. d_id d = i \<and> d_studentId d = st_id x \<and> d_deletedAt d = None) (documents s) = Some d \<and>
    documents t = update_rows (\<lambda>d. d_id d = i) (\<lambda>d. d\<lparr>d_deletedAt := Some now\<rparr>) (documents s) \<and>
    (lastPart (d_fileUrl d) \<noteq> [] \<and> s3_delete (pe_store E) (privateBucket (pe_store E)) (documentKey (st_id x) (lastPart (d_fileUrl d))) \<longrightarrow>
       objects t = filter (\<lambda>b. \<not> sameObject (privateBucket (pe_store E)) (documentKey (st_id x) (lastPart (d_fileUrl d))) b) (objects s))"
  using assms
  by (auto simp: deleteDocument_def bindE_run thenE_run enrolledStudent_run findOr_run updateOne_run Let_def whenE_run
      deleteObject_def buildKey_run dropObject_def deleteMany_run documentKey_def split: option.splits if_splits)

text \<open>
  C31. A document that its student deleted is served to nobody any more, with whatever request:
  either the store accepted the deletion of the object, or no other document of the student that
  is not deleted has the same file (names are random, so none has).
\<close>

theorem deleted_document_gone:
  assumes del: "deleteDocument E now userId (d_id d) s = (Inr (), t)"
    and d: "find (\<lambda>x. d_id x = d_id d \<and> d_studentId x = i \<and> d_deletedAt x = None) (documents s) = Some d"
    and owner: "map_option st_id (find (\<lambda>x. st_userId x = userId) (students s)) = Some i"
    and url: "d_fileUrl d = base @ documentKey i name" "CHR ''/'' \<notin> set name" "name \<noteq> []"
    and alone: "s3_delete (pe_store E) (privateBucket (pe_store E)) (documentKey i name) \<or>
      list_all (\<lambda>x. d_id x = d_id d \<or> d_deletedAt x \<noteq> None \<or> \<not> endsWith (d_fileUrl x) (documentKey i name)) (documents s)"
  shows "fst (serveFile A (pe_store E) now' req (DocumentFile i) name t) \<noteq> Inr (Redirect u)"
proof
  assume "fst (serveFile A (pe_store E) now' req (DocumentFile i) name t) = Inr (Redirect u)"
  then obtain v where "serveFile A (pe_store E) now' req (DocumentFile i) name t = (Inr (Redirect u), v)"
    by (metis prod.collapse)
  from withUser_run [OF this [unfolded serveFile.simps getDocumentFile_def]]
  have found: "find (\<lambda>x. d_studentId x = i \<and> endsWith (d_fileUrl x) (documentKey i name) \<and> d_deletedAt x = None) (documents t) \<noteq> None"
    and "\<exists>v. redirectToFile (pe_store E) [''documents'', i, name] t = (Inr (Redirect u), v)"
    by (auto simp: bindE_run asks_run findFirst_run ret_run documentKey_def split: if_splits)
  then have stored: "\<exists>b \<in> set (objects t). ob_bucket b = privateBucket (pe_store E) \<and> ob_key b = documentKey i name"
    using redirectToFile_run by (fastforce simp: documentKey_def)
  obtain x d' where x: "find (\<lambda>x. st_userId x = userId) (students s) = Some x"
    "find (\<lambda>y. d_id y = d_id d \<and> d_studentId y = st_id x \<and> d_deletedAt y = None) (documents s) = Some d'"
    and t: "documents t = update_rows (\<lambda>y. d_id y = d_id d) (\<lambda>d. d\<lparr>d_deletedAt := Some now\<rparr>) (documents s)"
    and objs: "lastPart (d_fileUrl d') \<noteq> [] \<and>
        s3_delete (pe_store E) (privateBucket (pe_store E)) (documentKey (st_id x) (lastPart (d_fileUrl d'))) \<longrightarrow>
       objects t = filter (\<lambda>b. \<not> sameObject (privateBucket (pe_store E)) (documentKey (st_id x) (lastPart (d_fileUrl d'))) b) (objects s)"
    using deleteDocument_ok [OF del] by blast
  have "st_id x = i" "d' = d" using owner x d by auto
  then have objs: "s3_delete (pe_store E) (privateBucket (pe_store E)) (documentKey i name) \<Longrightarrow>
      objects t = filter (\<lambda>b. \<not> sameObject (privateBucket (pe_store E)) (documentKey i name) b) (objects s)"
    using objs lastPart_key [OF url(2)] url(1,3) by simp
  from alone show False
  proof
    assume "s3_delete (pe_store E) (privateBucket (pe_store E)) (documentKey i name)"
    from objs [OF this] stored show False by (auto simp: sameObject_def)
  next
    assume "list_all (\<lambda>x. d_id x = d_id d \<or> d_deletedAt x \<noteq> None \<or> \<not> endsWith (d_fileUrl x) (documentKey i name)) (documents s)"
    with found show False by (auto simp: t find_None list_all_iff set_update_rows split: if_splits)
  qed
qed

section \<open>Submissions\<close>

lemma courseAccess_ok: "courseAccess i c s = (Inr e, t) \<Longrightarrow> t = s \<and>
   (\<exists>e \<in> set (courseEnrollments s). ce_courseId e = c \<and> ce_studentId e = i) \<and>
   (\<exists>e \<in> set (enrollments s). e_studentId e = i \<and> e_status e = ACTIVE)"
  by (auto simp: courseAccess_def bindE_run thenE_run findOr_run asks_run findFirst_run require_run ret_run
      dest!: find_Some_in split: option.splits if_splits)

lemma publishedHomework_ok: "publishedHomework i s = (Inr h, t) \<Longrightarrow> t = s \<and> h \<in> set (homeworks s) \<and> h_id h = i \<and> h_publishedAt h \<noteq> None"
  by (auto simp: publishedHomework_def bindE_run thenE_run findOr_run require_run ret_run
      dest!: find_Some_in split: option.splits if_splits)

lemma courseAccess_readonly: "snd (courseAccess i c s) = s"
  by (auto simp: courseAccess_def bindE_run thenE_run findOr_run asks_run findFirst_run require_run ret_run
      split: option.splits)

lemma publishedHomework_readonly: "snd (publishedHomework i s) = s"
  by (auto simp: publishedHomework_def bindE_run thenE_run findOr_run require_run ret_run split: option.splits)

text \<open>What a successful submission does; one that fails writes no table.\<close>

definition submittedFile :: "portal_env \<Rightarrow> db \<Rightarrow> upload \<Rightarrow> string" where
  "submittedFile E s f = randomHex (pe_store E) (seqNo s) @ map lowerChar (extname (f_originalname f))"

definition submitted ::
  "portal_env \<Rightarrow> time \<Rightarrow> id \<Rightarrow> db \<Rightarrow> db \<Rightarrow> id \<Rightarrow> string \<Rightarrow> submission_row \<Rightarrow> bool" where
  "submitted E now i s t st url x \<longleftrightarrow>
     (\<exists>h \<in> set (homeworks s). h_id h = i \<and> h_publishedAt h \<noteq> None \<and>
        (\<exists>e \<in> set (courseEnrollments s). ce_courseId e = h_courseId h \<and> ce_studentId e = st)) \<and>
     (\<forall>y. find (sameSubmission i st) (submissions s) = Some y \<longrightarrow> su_grade y = None) \<and>
     su_contentUrl x = Some url \<and> su_studentId x = st \<and> documents t = documents s \<and>
     submissions t =
       (if \<exists>y \<in> set (submissions s). sameSubmission i st y
        then update_rows (sameSubmission i st) (\<lambda>y. y\<lparr>su_contentUrl := Some url, su_submittedAt := now\<rparr>) (submissions s)
        else submissions s @ [\<lparr>su_id = pe_uuid E (Suc (seqNo s)), su_assignmentId = i, su_studentId = st,
                 su_contentUrl = Some url, su_submittedAt = now, su_grade = None, su_feedback = None\<rparr>])"

lemma submitAssignment_ok:
  assumes "submitAssignment E now userId i f s = (Inr x, t)"
  shows "\<exists>st. find (\<lambda>x. st_userId x = userId) (students s) = Some st \<and>
    submitted E now i s t (st_id st) (protectedObjectUrl (pe_store E) [''documents'', st_id st, submittedFile E s f]) x"
proof -
  obtain st h where st: "find (\<lambda>x. st_userId x = userId) (students s) = Some st" and
    h: "publishedHomework i s = (Inr h, s)"
    using assms publishedHomework_readonly [of i s]
    by (auto simp: submitAssignment_def bindE_run enrolledStudent_run split: option.splits prod.splits sum.splits)
  obtain e where e: "courseAccess (st_id st) (h_courseId h) s = (Inr e, s)"
    using assms courseAccess_readonly [of "st_id st" "h_courseId h" s]
    by (auto simp: submitAssignment_def bindE_run thenE_run enrolledStudent_run st h split: prod.splits sum.splits)
  have none: "Option.bind (find (sameSubmission i (st_id st)) (submissions s)) su_grade = None"
    using assms by (auto simp: submitAssignment_def bindE_run thenE_run enrolledStudent_run st h e findFirst_run require_run split: if_splits)
  obtain url u where up: "uploadDocument (pe_store E) f (st_id st) s = (Inr url, u)"
    using assms by (auto simp: submitAssignment_def bindE_run thenE_run enrolledStudent_run st h e findFirst_run require_run none
        split: prod.splits sum.splits)
  have name: "url = protectedObjectUrl (pe_store E) [''documents'', st_id st, submittedFile E s f]"
    "\<exists>os. u = s\<lparr>seqNo := Suc (seqNo s), objects := os\<rparr>"
    using uploadDocument_ok [OF up] by (auto simp: submittedFile_def)
  then obtain os where u: "u = s\<lparr>seqNo := Suc (seqNo s), objects := os\<rparr>" by blast
  define ys where "ys = submissions t"
  have run: "find (sameSubmission i (st_id st)) ys = Some x" "documents t = documents s"
    "ys = (if \<exists>y \<in> set (submissions s). sameSubmission i (st_id st) y
        then update_rows (sameSubmission i (st_id st)) (\<lambda>y. y\<lparr>su_contentUrl := Some url, su_submittedAt := now\<rparr>) (submissions s)
        else submissions s @ [\<lparr>su_id = pe_uuid E (Suc (seqNo s)), su_assignmentId = i, su_studentId = st_id st,
                 su_contentUrl = Some url, su_submittedAt = now, su_grade = None, su_feedback = None\<rparr>])"
    using assms
    by (auto simp: submitAssignment_def bindE_run thenE_run enrolledStudent_run st h e findFirst_run require_run none up
        newId_run upsertRow_run findOr_run u ys_def split: option.splits if_splits)
  have x: "x \<in> set ys" "sameSubmission i (st_id st) x" using find_Some_in [OF run(1)] by auto
  have "su_contentUrl x = Some url"
    using x unfolding run(3) by (auto simp: set_update_rows split: if_splits)
  moreover have "su_studentId x = st_id st" using x(2) by (simp add: sameSubmission_def)
  moreover have "find (sameSubmission i (st_id st)) (submissions s) = Some y \<Longrightarrow> su_grade y = None" for y
    using none by simp
  moreover have "\<exists>h \<in> set (homeworks s). h_id h = i \<and> h_publishedAt h \<noteq> None \<and>
      (\<exists>e \<in> set (courseEnrollments s). ce_courseId e = h_courseId h \<and> ce_studentId e = st_id st)"
    using publishedHomework_ok [OF h] courseAccess_ok [OF e] by blast
  ultimately have "submitted E now i s t (st_id st) url x"
    unfolding submitted_def using run(2,3) by (simp add: ys_def)
  with st name(1) show ?thesis by blast
qed

text \<open>
  C33. The file of a homework can be opened by nobody: a submission puts it in the folder of the
  student's documents and records the address of the document route, but that route only serves
  files that have a row in the table of documents, and a submission adds none. Whoever asks, the
  teacher with the link included, is refused.
\<close>

theorem submission_cannot_be_opened:
  assumes run: "submitAssignment E now userId i f s = (Inr x, t)"
    and fresh: "\<And>ext. list_all (\<lambda>d. \<not> endsWith (d_fileUrl d)
      (documentKey (su_studentId x) (randomHex (pe_store E) (seqNo s) @ ext))) (documents s)"
  shows "\<exists>base name. su_contentUrl x = Some (base @ documentKey (su_studentId x) name) \<and>
    fst (serveFile A (pe_store E) now' req (DocumentFile (su_studentId x)) name t) \<noteq> Inr (Redirect u)"
proof -
  define name where "name = submittedFile E s f"
  have x: "su_contentUrl x = Some (protectedObjectUrl (pe_store E) [''documents'', su_studentId x, name])"
    "documents t = documents s"
    using submitAssignment_ok [OF run] by (auto simp: submitted_def name_def)
  have none: "find (\<lambda>d. d_studentId d = su_studentId x \<and> endsWith (d_fileUrl d) (documentKey (su_studentId x) name) \<and>
      d_deletedAt d = None) (documents t) = None"
    using fresh [of "map lowerChar (extname (f_originalname f))"] by (auto simp: find_None list_all_iff x(2) name_def submittedFile_def)
  have "fst (serveFile A (pe_store E) now' req (DocumentFile (su_studentId x)) name t) \<noteq> Inr (Redirect u)"
  proof
    assume "fst (serveFile A (pe_store E) now' req (DocumentFile (su_studentId x)) name t) = Inr (Redirect u)"
    then obtain v where "serveFile A (pe_store E) now' req (DocumentFile (su_studentId x)) name t = (Inr (Redirect u), v)"
      by (metis prod.collapse)
    from withUser_run [OF this [unfolded serveFile.simps getDocumentFile_def]] none show False
      by (auto simp: bindE_run asks_run findFirst_run ret_run documentKey_def split: if_splits)
  qed
  moreover have "protectedObjectUrl (pe_store E) [''documents'', su_studentId x, name] =
      (orText (APP_URL (pe_store E)) ''http://localhost:3001'' @ ''/uploads/'') @ documentKey (su_studentId x) name"
    unfolding documentUrl by simp
  ultimately show ?thesis using x(1) by metis
qed

lemma uploadDocument_tables: "uploadDocument S f i s = (r, t) \<Longrightarrow> tables t = tables s"
proof -
  assume run: "uploadDocument S f i s = (r, t)"
  have "snd (assertSafeDocument f False s) = s"
    by (auto simp: assertSafeDocument_def assertSafeImage_def Let_def thenE_run require_run split: if_splits)
  with run show ?thesis
    by (auto simp: uploadDocument_def thenE_run assertSafeEntityId_def require_run
        split: prod.splits sum.splits if_splits dest: storePrivate_tables)
qed

lemma tables_submissions: "tables t = tables s \<Longrightarrow> submissions t = submissions s"
  by (drule tables_eqD) auto

lemma upsert_found:
  assumes "\<And>y. P (f y) = P y" "P r"
  shows "\<exists>x t. thenE (upsertRow submissions submissions_update P f r) (findOr submissions P e) s = (Inr x, t)"
proof (cases "\<exists>y \<in> set (submissions s). P y")
  case True
  then have "find P (submissions s) \<noteq> None" by (auto simp: find_None)
  then have "find P (update_rows P f (submissions s)) \<noteq> None" using assms(1) by (simp add: find_update_rows)
  with True show ?thesis by (auto simp: thenE_run upsertRow_run findOr_run)
next
  case False
  then have "find P (submissions s) = None" by (auto simp: find_None)
  then have "find P (submissions s @ [r]) = Some r" using assms(2) by (simp add: find_append)
  with False show ?thesis by (auto simp: thenE_run upsertRow_run findOr_run)
qed

lemma submitAssignment_failed:
  assumes "submitAssignment E now userId i f s = (Inl e, t)"
  shows "submissions t = submissions s"
proof (cases "find (\<lambda>x. st_userId x = userId) (students s)")
  case None
  with assms show ?thesis by (simp add: submitAssignment_def bindE_run enrolledStudent_run)
next
  case (Some st)
  obtain p where p: "publishedHomework i s = (p, s)" using publishedHomework_readonly [of i s] by (metis prod.collapse)
  show ?thesis
  proof (cases p)
    case (Inl e)
    with assms p Some show ?thesis by (simp add: submitAssignment_def bindE_run enrolledStudent_run)
  next
    case (Inr h)
    obtain q where q: "courseAccess (st_id st) (h_courseId h) s = (q, s)"
      using courseAccess_readonly [of "st_id st" "h_courseId h" s] by (metis prod.collapse)
    obtain up u where u: "uploadDocument (pe_store E) f (st_id st) s = (up, u)" by fastforce
    have keep: "submissions u = submissions s" using uploadDocument_tables [OF u] by (rule tables_submissions)
    show ?thesis
    proof (cases q)
      case (Inl e)
      with assms p Some Inr q show ?thesis by (simp add: submitAssignment_def bindE_run thenE_run enrolledStudent_run)
    next
      case (Inr e)
      note steps = submitAssignment_def bindE_run thenE_run enrolledStudent_run Some p \<open>p = Inr h\<close> q Inr findFirst_run require_run
      show ?thesis
      proof (cases "Option.bind (find (sameSubmission i (st_id st)) (submissions s)) su_grade = None")
        case False
        with assms show ?thesis by (simp add: steps)
      next
        case True
        show ?thesis
        proof (cases up)
          case (Inl e)
          with assms True keep show ?thesis by (simp add: steps u)
        next
          case (Inr url)
          obtain y v where "thenE (upsertRow submissions submissions_update (sameSubmission i (st_id st))
                (\<lambda>x. x\<lparr>su_contentUrl := Some url, su_submittedAt := now\<rparr>)
                \<lparr>su_id = pe_uuid E (seqNo u), su_assignmentId = i, su_studentId = st_id st,
                 su_contentUrl = Some url, su_submittedAt = now, su_grade = None, su_feedback = None\<rparr>)
              (findOr submissions (sameSubmission i (st_id st)) (Failure ''P2025'')) (u\<lparr>seqNo := Suc (seqNo u)\<rparr>) = (Inr y, v)"
            using upsert_found [where P = "sameSubmission i (st_id st)" and e = "Failure ''P2025''" and s = "u\<lparr>seqNo := Suc (seqNo u)\<rparr>"
                and f = "\<lambda>x. x\<lparr>su_contentUrl := Some url, su_submittedAt := now\<rparr>"
                and r = "\<lparr>su_id = pe_uuid E (seqNo u), su_assignmentId = i, su_studentId = st_id st,
                 su_contentUrl = Some url, su_submittedAt = now, su_grade = None, su_feedback = None\<rparr>"]
            by (auto simp: sameSubmission_def [abs_def])
          with assms True Inr show ?thesis by (simp add: steps u newId_run)
        qed
      qed
    qed
  qed
qed

text \<open>
  A grade locks a homework: whatever a student submits, succeeding or failing, a submission
  that has a grade stays exactly as it is, file and date included (a student has one submission for
  a homework, which the unique key ensures).
\<close>

theorem graded_submission_kept:
  assumes "submitAssignment E now userId i f s = (r, t)"
    and "x \<in> set (submissions s)" "su_grade x = Some g"
    and "distinct (map (\<lambda>x. (su_assignmentId x, su_studentId x)) (submissions s))"
  shows "x \<in> set (submissions t)"
proof (cases r)
  case (Inl e)
  with submitAssignment_failed assms(1,2) show ?thesis by simp
next
  case (Inr y)
  from submitAssignment_ok [OF assms(1) [unfolded Inr]] obtain st url where
    sub: "submitted E now i s t st url y" by blast
  have "\<not> sameSubmission i st x"
  proof
    assume same: "sameSubmission i st x"
    have "find (sameSubmission i st) (submissions s) \<noteq> None" using same assms(2) by (auto simp: find_None)
    then obtain y where y: "find (sameSubmission i st) (submissions s) = Some y" by blast
    have in_y: "y \<in> set (submissions s)" "sameSubmission i st y" using find_Some_in [OF y] by auto
    have "y = x"
      by (rule distinct_key_eq [OF assms(4) in_y(1) assms(2)]) (use same in_y(2) in \<open>simp add: sameSubmission_def\<close>)
    with sub y assms(3) show False by (simp add: submitted_def)
  qed
  then have "x \<in> set (update_rows (sameSubmission i st) g (submissions s))" for g
    by (intro in_update_rowsI [OF assms(2)]) simp
  with sub assms(2) show ?thesis by (simp add: submitted_def)
qed

section \<open>The encrypted columns\<close>

lemma toHex_Nil: "toHex x = [] \<longleftrightarrow> x = []"
  by (cases x) (auto simp: toHex_def)

text \<open>The number that a column stores, read back.\<close>

lemma seal_opens:
  assumes "\<And>key iv text. (case gcmEncrypt (pe_cipher E) key iv text of (c, tag) \<Rightarrow> gcmDecrypt (pe_cipher E) key iv tag c) = Some text"
  shows "openText E (Some (encrypt (pe_cipher E) (pe_key E) n text)) = Some text"
proof -
  obtain c tag where enc: "gcmEncrypt (pe_cipher E) (pe_key E) (randomIv (pe_cipher E) n) text = (c, tag)" by fastforce
  have "splitOn (CHR '':'') [] (encrypt (pe_cipher E) (pe_key E) n text) =
      [toHex (randomIv (pe_cipher E) n), toHex tag, toHex c]"
    by (simp add: encrypt_def enc Let_def splitOn_sep splitOn_none toHex_no_colon)
  moreover have "encrypt (pe_cipher E) (pe_key E) n text \<noteq> []" by (simp add: encrypt_def enc Let_def)
  ultimately show ?thesis
    using assms [of "pe_key E" "randomIv (pe_cipher E) n" "text"] enc by (simp add: openText_def decrypt_def)
qed

definition sealed :: "portal_env \<Rightarrow> string optional \<Rightarrow> nat \<Rightarrow> string option" where
  "sealed E p n =
     (if truthy (propValue p) then Some (encrypt (pe_cipher E) (pe_key E) n (nullish (propValue p) [])) else None)"

lemma sealProp_ok: "\<exists>m. sealProp E p s = (Inr (sealed E p (seqNo s)), s\<lparr>seqNo := m\<rparr>)"
proof (cases "truthy (propValue p)")
  case True
  then show ?thesis by (auto simp: sealProp_def sealText_def bindE_run newId_run ret_run sealed_def)
next
  case False
  then show ?thesis by (auto simp: sealProp_def ret_run sealed_def intro!: exI [of _ "seqNo s"])
qed

lemma reveal_sealed:
  assumes "\<And>key iv text. (case gcmEncrypt (pe_cipher E) key iv text of (c, tag) \<Rightarrow> gcmDecrypt (pe_cipher E) key iv tag c) = Some text"
  shows "revealText E (overwrite (sealed E p n) old) =
     (if truthy (propValue p) then propValue p else revealText E old)"
proof (cases "truthy (propValue p)")
  case True
  then obtain v where v: "propValue p = Some v" by (auto simp: truthy_def)
  obtain c tag where enc: "gcmEncrypt (pe_cipher E) (pe_key E) (randomIv (pe_cipher E) n) v = (c, tag)" by fastforce
  then have "encrypt (pe_cipher E) (pe_key E) n v \<noteq> []" by (simp add: encrypt_def Let_def)
  with True v seal_opens [OF assms] show ?thesis by (simp add: overwrite_def revealText_def sealed_def)
qed (simp add: overwrite_def sealed_def)

text \<open>
  C34. What a student enters comes back: after an update of the profile, the profile shows the
  telephone number, identity number and address just entered, or the ones it showed before when
  they were left out, although the columns hold their encrypted forms.
\<close>

theorem profile_roundtrip:
  assumes cipher: "\<And>key iv text. (case gcmEncrypt (pe_cipher E) key iv text of (c, tag) \<Rightarrow> gcmDecrypt (pe_cipher E) key iv tag c) = Some text"
    and before: "getProfile E userId s = (Inr old, s)"
    and run: "updateStudentProfile E userId dto s = (Inr x, t)"
  shows "\<exists>p. getProfile E userId t = (Inr p, t) \<and> sp_student p = x \<and>
    sp_phone p = (if truthy (propValue (up_phone dto)) then propValue (up_phone dto) else sp_phone old) \<and>
    sp_cin p = (if truthy (propValue (up_cin dto)) then propValue (up_cin dto) else sp_cin old) \<and>
    sp_address p = (if truthy (propValue (up_address dto)) then propValue (up_address dto) else sp_address old)"
proof -
  obtain st where st: "find (\<lambda>x. st_userId x = userId) (students s) = Some st"
    using before by (auto simp: getProfile_def bindE_run enrolledStudent_run split: option.splits)
  have old: "sp_phone old = revealText E (st_phone st)" "sp_cin old = revealText E (st_cin st)"
    "sp_address old = revealText E (st_address st)"
    using before by (auto simp: getProfile_def bindE_run enrolledStudent_run st asks_run)
  have u: "st_userId st = userId" using find_Some_in [OF st] by simp
  obtain m1 where m1: "sealProp E (up_phone dto) s = (Inr (sealed E (up_phone dto) (seqNo s)), s\<lparr>seqNo := m1\<rparr>)"
    using sealProp_ok by blast
  obtain m2 where m2: "sealProp E (up_cin dto) (s\<lparr>seqNo := m1\<rparr>) = (Inr (sealed E (up_cin dto) m1), s\<lparr>seqNo := m2\<rparr>)"
    using sealProp_ok [of E "up_cin dto" "s\<lparr>seqNo := m1\<rparr>"] by auto
  obtain m3 where m3: "sealProp E (up_address dto) (s\<lparr>seqNo := m2\<rparr>) = (Inr (sealed E (up_address dto) m2), s\<lparr>seqNo := m3\<rparr>)"
    using sealProp_ok [of E "up_address dto" "s\<lparr>seqNo := m2\<rparr>"] by auto
  define f where "f = profileUpdate dto (calculateProfileCompletion (mergedFields st dto))
    (sealed E (up_phone dto) (seqNo s)) (sealed E (up_cin dto) m1) (sealed E (up_address dto) m2)"
  have f: "f st = x" "t = s\<lparr>seqNo := m3, students := update_rows (\<lambda>y. st_userId y = userId) f (students s)\<rparr>"
    using run by (simp_all add: updateStudentProfile_def Let_def bindE_run enrolledStudent_run st m1 m2 m3 updateOne_run f_def)
  have keep: "st_userId (f y) = st_userId y" for y by (simp add: f_def profileUpdate_def)
  have sealed: "st_phone x = overwrite (sealed E (up_phone dto) (seqNo s)) (st_phone st)"
    "st_cin x = overwrite (sealed E (up_cin dto) m1) (st_cin st)"
    "st_address x = overwrite (sealed E (up_address dto) m2) (st_address st)"
    by (simp_all add: f(1) [symmetric] f_def profileUpdate_def)
  have "find (\<lambda>x. st_userId x = userId) (students t) = Some x"
    unfolding f(2) by (simp add: find_update_rows keep st u f(1))
  then show ?thesis by (simp add: getProfile_def bindE_run enrolledStudent_run asks_run sealed old reveal_sealed [OF cipher])
qed

section \<open>The flag of a complete profile\<close>

text \<open>
  A body read by the validation pipe is an instance of its class, whose fields are all present: the
  flag is then computed from the body alone. Changing only the city of a complete profile marks it
  as incomplete, although every field is still there.
\<close>

definition onlyCity :: "string \<Rightarrow> student_profile_dto" where
  "onlyCity city =
     \<lparr>up_firstName = Some None, up_lastName = Some None, up_phone = Some None, up_birthDate = Some None,
      up_cin = Some None, up_bacYear = Some None, up_bacType = Some None, up_city = Some (Some city),
      up_address = Some None, up_region = Some None, up_bio = Some None, up_interests = Some None,
      up_skills = Some None, up_aspirations = Some None\<rparr>"

lemma profile_flag_lost:
  assumes "updateStudentProfile E userId (onlyCity city) s = (Inr x, t)"
  shows "\<not> st_profileCompleted x"
proof -
  have "\<not> calculateProfileCompletion (mergedFields st (onlyCity city))" for st :: student_row
    by (simp add: calculateProfileCompletion_def mergedFields_def onlyCity_def spread_def)
  moreover have "sealProp E (Some None) s = (Inr None, s)" by (simp add: sealProp_def propValue_def ret_run)
  ultimately show ?thesis using assms
    by (auto simp: updateStudentProfile_def onlyCity_def bindE_run enrolledStudent_run updateOne_run profileUpdate_def Let_def
        split: option.splits)
qed

section \<open>Suggestions\<close>

lemma matchScore_range: "0 \<le> matchScore dto f \<and> matchScore dto f \<le> 100 \<and> (0 < matchScore dto f \<longrightarrow> 20 \<le> matchScore dto f)"
  by (simp add: matchScore_def)

lemma sorted_orderDesc: "sorted_wrt (\<lambda>a b. k b \<le> (k a :: int)) (orderDesc k xs)"
proof -
  have "sorted (map (\<lambda>x. - k x) (orderDesc k xs))" unfolding orderDesc_def by (rule sorted_sort_key)
  then show ?thesis by (simp add: sorted_wrt_map)
qed

lemma sorted_wrt_take: "sorted_wrt R xs \<Longrightarrow> sorted_wrt R (take n xs)"
  by (metis append_take_drop_id sorted_wrt_append)

definition goodSuggestion :: "db \<Rightarrow> questionnaire_dto \<Rightarrow> suggestion \<Rightarrow> bool" where
  "goodSuggestion s dto x \<longleftrightarrow>
     20 \<le> sg_matchScore x \<and> sg_matchScore x \<le> 100 \<and> sg_reasons x \<noteq> [] \<and>
     (\<exists>f \<in> set (offers s). o_id f = sg_offerId x \<and> o_isOpen f \<and> o_deletedAt f = None \<and>
        sg_matchScore x = matchScore dto f)"

text \<open>
  The suggestions of orientation are at most five, in decreasing order of their score, each
  for an offer that is open and not deleted, with a score from 20 to 100 and at least one reason.
  Computing them changes nothing.
\<close>

theorem suggestions_bounded:
  "\<exists>xs. generateOrientationSuggestions dto s = (Inr xs, s) \<and> length xs \<le> 5 \<and>
     sorted_wrt (\<lambda>a b. sg_matchScore b \<le> sg_matchScore a) xs \<and> list_all (goodSuggestion s dto) xs"
proof -
  define avail where "avail = filter (\<lambda>f. o_isOpen f \<and> o_deletedAt f = None) (offers s)"
  define xs where "xs = take 5 (orderDesc sg_matchScore
       (filter (\<lambda>x. 0 < sg_matchScore x) (map (suggestionOf dto s) (take 10 avail))))"
  have run: "generateOrientationSuggestions dto s = (Inr xs, s)"
    by (simp add: generateOrientationSuggestions_def bindE_run findMany_run asks_run xs_def avail_def)
  have "goodSuggestion s dto x" if "x \<in> set xs" for x
  proof -
    have "x \<in> set (orderDesc sg_matchScore (filter (\<lambda>x. 0 < sg_matchScore x) (map (suggestionOf dto s) (take 10 avail))))"
      using that unfolding xs_def by (rule in_set_takeD)
    then obtain f where f: "f \<in> set (take 10 avail)" "x = suggestionOf dto s f" "0 < sg_matchScore x" by auto
    have "f \<in> set avail" by (rule in_set_takeD [OF f(1)])
    then have "f \<in> set (offers s)" "o_isOpen f" "o_deletedAt f = None" by (simp_all add: avail_def)
    moreover have "generateMatchReasons f dto \<noteq> []" by (simp add: generateMatchReasons_def Let_def)
    ultimately show ?thesis using f(2,3) matchScore_range [of dto f]
      by (auto simp: goodSuggestion_def suggestionOf_def)
  qed
  moreover have "sorted_wrt (\<lambda>a b. sg_matchScore b \<le> sg_matchScore a) xs"
    unfolding xs_def by (rule sorted_wrt_take) (rule sorted_orderDesc)
  moreover have "length xs \<le> 5" by (simp add: xs_def)
  ultimately show ?thesis using run by (auto simp: list_all_iff)
qed

section \<open>Examples\<close>

definition sample_student_row :: student_row where
  "sample_student_row = sample_pupil sample_owner ''me''"

definition sample_owner_reader :: auth_env where
  "sample_owner_reader =
     sample_auth\<lparr>verifyToken := (\<lambda>k now t.
       if k = AccessKey \<and> t = ''t'' then Some ((noClaims ''me'')\<lparr>jc_sessionVersion := Some 0\<rparr>) else None)\<rparr>"

definition sample_student_portal :: portal_env where
  "sample_student_portal = sample_portal\<lparr>pe_auth := sample_owner_reader\<rparr>"

text \<open>A student with a published homework of a course, active in its school.\<close>

definition sample_desk :: db where
  "sample_desk =
     empty_db\<lparr>users := [sample_user ''me'' ''STUDENT''], students := [sample_student_row],
       courses := [sample_class ''c1'' ''th1''],
       enrollments := [sample_registration sample_owner ''sc1'' ''L''],
       courseEnrollments := [\<lparr>ce_courseId = ''c1'', ce_studentId = sample_owner\<rparr>],
       homeworks := [\<lparr>h_id = ''h1'', h_courseId = ''c1'', h_title = ''T'', h_instructions = None, h_dueAt = None,
         h_publishedAt = Some 0, h_createdAt = 0\<rparr>]\<rparr>"

lemmas sample_desk_simps =
  sample_desk_def empty_db_def sample_student_row_def sample_pupil_def sample_class_def sample_course_def
  sample_registration_def sample_user_def

lemma sample_safe:
  "\<not> unsafeSegment ''documents''" "\<not> unsafeSegment sample_owner" "\<not> unsafeSegment ''a.pdf''"
  "isUuid sample_owner"
proof -
  show uuid: "isUuid sample_owner" unfolding sample_owner_def by code_simp
  then show "\<not> unsafeSegment sample_owner" using uuid_safe by blast
  show "\<not> unsafeSegment ''documents''" "\<not> unsafeSegment ''a.pdf''" by code_simp+
qed

lemma sample_uploaded:
  "\<exists>url os. uploadDocument sample_store sample_pdf sample_owner s =
     (Inr url, s\<lparr>seqNo := Suc (seqNo s), objects := os\<rparr>)"
proof -
  have put: "s3_put sample_store (privateBucket sample_store) key" for key by (simp add: sample_store_def)
  have content: "assertSafeDocument sample_pdf False s = (Inr (), s)"
    using mime_clash(1) by (simp add: assertSafeDocument_def sample_pdf_def thenE_run require_run allowedMimes_def
        isPdf_def Let_def)
  have folder: "\<not> unsafeSegment ''documents''" by (rule sample_safe)
  obtain name where "storePrivate sample_store ''documents'' sample_owner sample_pdf s =
      (Inr (protectedObjectUrl sample_store [''documents'', sample_owner, name]),
       s\<lparr>seqNo := Suc (seqNo s),
         objects := withObject (privateBucket sample_store) (''documents'' @ ''/'' @ sample_owner @ ''/'' @ name) sample_pdf (objects s)\<rparr>)"
    using storePrivate_lands [OF sample_store_hex put sample_safe(4) folder] by blast
  then show ?thesis
    by (auto simp: uploadDocument_def thenE_run content assertSafeEntityId_def require_run sample_safe(4))
qed

lemma sample_me: "find (\<lambda>x. st_userId x = ''me'') (students sample_desk) = Some sample_student_row"
  "st_id sample_student_row = sample_owner"
  by (simp_all add: sample_desk_simps)

lemma sample_store_portal: "pe_store sample_student_portal = sample_store" "pe_auth sample_student_portal = sample_owner_reader"
  "pe_cipher sample_student_portal = sample_cipher"
  by (simp_all add: sample_student_portal_def sample_portal_def)

lemma sample_signed_in:
  "users t = users sample_desk \<Longrightarrow> signedIn (pe_auth sample_student_portal) 0 sample_request t (sample_user ''me'' ''STUDENT'')"
  by (simp add: signedIn_def sample_token sample_store_portal sample_owner_reader_def noClaims_def sample_desk_simps
      requestRole_def)

theorem uploaded_document_opens_witness:
  "\<exists>d t name. uploadStudentDocument sample_student_portal 0 ''me'' sample_pdf ''CV'' [] sample_desk = (Inr d, t) \<and>
     fst (serveFile (pe_auth sample_student_portal) (pe_store sample_student_portal) 0 sample_request
            (DocumentFile (d_studentId d)) name t) =
       Inr (Redirect (''get-poc-uploads'' @ documentKey (d_studentId d) name))"
proof -
  obtain url os where up: "uploadDocument sample_store sample_pdf sample_owner sample_desk =
      (Inr url, sample_desk\<lparr>seqNo := Suc (seqNo sample_desk), objects := os\<rparr>)"
    using sample_uploaded by blast
  have fresh: "\<forall>x \<in> set (documents sample_desk). d_id x \<noteq> pe_uuid sample_student_portal n" for n
    by (simp add: sample_desk_def empty_db_def)
  obtain d t where run: "uploadStudentDocument sample_student_portal 0 ''me'' sample_pdf ''CV'' [] sample_desk = (Inr d, t)"
    "users t = users sample_desk"
    using fresh
    by (auto simp: uploadStudentDocument_def bindE_run enrolledStudent_run sample_me sample_store_portal up newId_run insertRow_run)
  have sign: "s3_sign (pe_store sample_student_portal) (privateBucket (pe_store sample_student_portal)) k 60 = ''get-poc-uploads'' @ k" for k
    by (simp add: sample_store_portal sample_store_def privateBucket_def orText_def)
  have head: "s3_head (pe_store sample_student_portal) b k" for b k by (simp add: sample_store_portal sample_store_def)
  have me: "u_id (sample_user ''me'' ''STUDENT'') = ''me''" by (simp add: sample_user_def)
  obtain name where "serveFile (pe_auth sample_student_portal) (pe_store sample_student_portal) 0 sample_request
      (DocumentFile (d_studentId d)) name t = (Inr (Redirect (''get-poc-uploads'' @ documentKey (d_studentId d) name)), t)"
    using uploaded_document_opens [OF run(1) sample_signed_in [OF run(2)] me head] unfolding sign by auto
  then show ?thesis using run(1) by (intro exI [of _ d] exI [of _ t] exI [of _ name]) (simp only: fst_conv simp_thms)
qed

definition sample_drawer :: db where
  "sample_drawer =
     sample_desk\<lparr>documents := [\<lparr>d_id = ''d1'', d_studentId = sample_owner, d_type = ''CV'', d_name = ''CV'',
         d_fileUrl = ''http://localhost:3001/uploads/'' @ documentKey sample_owner ''a.pdf'', d_fileSize = 5,
         d_mimeType = PDF, d_uploadedAt = 0, d_deletedAt = None\<rparr>]\<rparr>"

theorem deleted_document_gone_witness:
  "\<exists>t. deleteDocument sample_student_portal 7 ''me'' ''d1'' sample_drawer = (Inr (), t) \<and>
     fst (serveFile sample_reader (pe_store sample_student_portal) 0 sample_request (DocumentFile sample_owner) ''a.pdf'' t) \<noteq>
       Inr (Redirect ''get-poc-uploads'')"
proof -
  let ?d = "\<lparr>d_id = ''d1'', d_studentId = sample_owner, d_type = ''CV'', d_name = ''CV'',
         d_fileUrl = ''http://localhost:3001/uploads/'' @ documentKey sample_owner ''a.pdf'', d_fileSize = 5,
         d_mimeType = PDF, d_uploadedAt = 0, d_deletedAt = None\<rparr>"
  have docs: "documents sample_drawer = [?d]" by (simp add: sample_drawer_def)
  have me: "find (\<lambda>x. st_userId x = ''me'') (students sample_drawer) = Some sample_student_row"
    using sample_me by (simp add: sample_drawer_def)
  have part: "lastPart (''http://localhost:3001/uploads/'' @ documentKey sample_owner ''a.pdf'') = ''a.pdf''"
    by (rule lastPart_key) simp
  have gone: "s3_delete (pe_store sample_student_portal) b k" for b k by (simp add: sample_store_portal sample_store_def)
  obtain t where run: "deleteDocument sample_student_portal 7 ''me'' (d_id ?d) sample_drawer = (Inr (), t)"
    using part sample_safe(1-3) gone
    by (simp add: deleteDocument_def bindE_run thenE_run enrolledStudent_run me sample_me(2) findOr_run docs updateOne_run Let_def
        whenE_run deleteObject_def buildKey_run dropObject_def deleteMany_run del: append.simps)
  have "fst (serveFile sample_reader (pe_store sample_student_portal) 0 sample_request (DocumentFile sample_owner) ''a.pdf'' t) \<noteq>
       Inr (Redirect ''get-poc-uploads'')"
  proof (rule deleted_document_gone [OF run])
    show "find (\<lambda>x. d_id x = d_id ?d \<and> d_studentId x = sample_owner \<and> d_deletedAt x = None) (documents sample_drawer) = Some ?d"
      by (simp add: docs)
    show "d_fileUrl ?d = ''http://localhost:3001/uploads/'' @ documentKey sample_owner ''a.pdf''" by simp
    show "s3_delete (pe_store sample_student_portal) (privateBucket (pe_store sample_student_portal)) (documentKey sample_owner ''a.pdf'') \<or>
      list_all (\<lambda>x. d_id x = d_id ?d \<or> d_deletedAt x \<noteq> None \<or> \<not> endsWith (d_fileUrl x) (documentKey sample_owner ''a.pdf''))
        (documents sample_drawer)" by (simp add: docs)
  qed (simp_all add: me sample_me(2))
  with run show ?thesis by auto
qed

theorem submission_cannot_be_opened_witness:
  "\<exists>x t name. submitAssignment sample_student_portal 0 ''me'' ''h1'' sample_pdf sample_desk = (Inr x, t) \<and>
     fst (serveFile sample_reader (pe_store sample_student_portal) 0 sample_request (DocumentFile (su_studentId x)) name t) \<noteq>
       Inr (Redirect ''x'')"
proof -
  obtain url os where up: "uploadDocument sample_store sample_pdf sample_owner sample_desk =
      (Inr url, sample_desk\<lparr>seqNo := Suc (seqNo sample_desk), objects := os\<rparr>)"
    using sample_uploaded by blast
  have access: "courseAccess sample_owner ''c1'' sample_desk = (Inr \<lparr>ce_courseId = ''c1'', ce_studentId = sample_owner\<rparr>, sample_desk)"
    by (simp add: courseAccess_def bindE_run thenE_run findOr_run asks_run findFirst_run require_run ret_run sample_desk_simps)
  have pub: "\<exists>h. publishedHomework ''h1'' sample_desk = (Inr h, sample_desk) \<and> h_courseId h = ''c1''"
    by (simp add: publishedHomework_def bindE_run thenE_run findOr_run require_run ret_run sample_desk_simps)
  then obtain h where pub: "publishedHomework ''h1'' sample_desk = (Inr h, sample_desk)" "h_courseId h = ''c1''" by blast
  have none: "submissions sample_desk = []" by (simp add: sample_desk_simps)
  obtain x t where run: "submitAssignment sample_student_portal 0 ''me'' ''h1'' sample_pdf sample_desk = (Inr x, t)"
      "su_studentId x = sample_owner"
    by (auto simp: submitAssignment_def bindE_run thenE_run enrolledStudent_run sample_me pub access findFirst_run require_run
        none sample_store_portal up newId_run upsertRow_run findOr_run sameSubmission_def)
  have "list_all (\<lambda>d. \<not> endsWith (d_fileUrl d) (documentKey (su_studentId x)
      (randomHex (pe_store sample_student_portal) (seqNo sample_desk) @ ext))) (documents sample_desk)" for ext
    by (simp add: sample_desk_def empty_db_def)
  from submission_cannot_be_opened [OF run(1) this] run(1) show ?thesis by blast
qed

theorem graded_submission_kept_witness:
  "\<lparr>su_id = ''x'', su_assignmentId = ''h1'', su_studentId = sample_owner, su_contentUrl = None, su_submittedAt = 0,
     su_grade = Some 15, su_feedback = None\<rparr> \<in>
   set (submissions (snd (submitAssignment sample_student_portal 1 ''me'' ''h1'' sample_pdf (sample_desk\<lparr>submissions :=
     [\<lparr>su_id = ''x'', su_assignmentId = ''h1'', su_studentId = sample_owner, su_contentUrl = None, su_submittedAt = 0,
       su_grade = Some 15, su_feedback = None\<rparr>]\<rparr>))))"
  by (rule graded_submission_kept [OF prod.collapse [symmetric]]) simp_all

theorem profile_roundtrip_witness:
  "\<exists>x t p. updateStudentProfile sample_student_portal ''me'' ((onlyCity ''Tana'')\<lparr>up_phone := Some (Some ''034'')\<rparr>) sample_desk =
       (Inr x, t) \<and> getProfile sample_student_portal ''me'' t = (Inr p, t) \<and> sp_phone p = Some ''034''"
proof -
  let ?dto = "(onlyCity ''Tana'')\<lparr>up_phone := Some (Some ''034'')\<rparr>"
  have cipher: "(case gcmEncrypt (pe_cipher sample_student_portal) key iv x of
      (c, tag) \<Rightarrow> gcmDecrypt (pe_cipher sample_student_portal) key iv tag c) = Some x" for key iv x
    by (simp add: sample_store_portal sample_cipher_def)
  obtain old where old: "getProfile sample_student_portal ''me'' sample_desk = (Inr old, sample_desk)"
    by (simp add: getProfile_def bindE_run enrolledStudent_run sample_me asks_run)
  obtain x t where run: "updateStudentProfile sample_student_portal ''me'' ?dto sample_desk = (Inr x, t)"
    using sample_me(1)
    by (auto simp: updateStudentProfile_def Let_def bindE_run enrolledStudent_run sample_me sealProp_def sealText_def newId_run
        ret_run onlyCity_def propValue_def updateOne_run)
  from profile_roundtrip [OF cipher old run] run show ?thesis by (auto simp: propValue_def onlyCity_def)
qed

end
