(* ===== verification/Reference_Data.thy ===== *)
theory Reference_Data
  imports Pagination Text Enrollment
begin

text \<open>
  The reference data of the platform and its administration: training offers (\<open>offer/\<close>), fee
  brackets, academic years, cities, financial partners, competitions, user accounts, settings and
  the dashboard of the platform's administrators. Prisma ignores a property that is undefined; a
  property of \<open>maxFees\<close> may also be null, which clears the column. The accounts have no creation
  date in the model: rows are appended, so that the newest first is the reverse of the table. The
  main facts: brackets always have an upper bound above the lower one and a label of their own;
  requests served one after the other leave at most one current academic year, two concurrent ones
  may leave two; the slug of an offer is taken for ever, even by a deleted offer of another school.
\<close>

section \<open>Offers\<close>

definition ensureCanManageSchool :: "id \<Rightarrow> id \<Rightarrow> (db, unit) exec" where
  "ensureCanManageSchool userId schoolId =
     bindE (findFirst users (\<lambda>u. u_id u = userId)) (\<lambda>user.
     bindE (findFirst schoolAdmins (\<lambda>a. sa_userId a = userId)) (\<lambda>admin.
     require (Option.bind user u_role = Some ''ADMIN_GET'' \<or>
              Option.bind user u_role = Some ''SCHOOL_ADMIN'' \<and> map_option sa_schoolId admin = Some schoolId)
       (Forbidden ''Vous n'etes pas autorise a gerer les offres de cet etablissement'')))"

record create_offer_dto =
  co_schoolId :: id
  co_programId :: id
  co_title :: string
  co_description :: "string option"
  co_diploma :: string
  co_duration :: int
  co_tuitionFees :: rat
  co_prerequisites :: "string list option"
  co_requirementIds :: "id list option"
  co_capacity :: "int option"
  co_applicationDeadline :: "time option"
  co_academicYear :: string
  co_isOpen :: "bool option"

text \<open>Unique keys of the offers: identifier and slug, deleted rows included.\<close>

definition offerClash :: "offer_row \<Rightarrow> offer_row \<Rightarrow> bool" where
  "offerClash a b \<longleftrightarrow> o_id a = o_id b \<or> o_slug a = o_slug b"

definition programFor :: "id \<Rightarrow> id \<Rightarrow> (db, program_row) exec" where
  "programFor schoolId programId =
     findOr programs (\<lambda>p. pr_id p = programId \<and> pr_schoolId p = schoolId \<and> pr_isActive p)
       (Forbidden ''Selectionnez la filiere correspondante'')"

definition checkRequirements :: "id \<Rightarrow> id list \<Rightarrow> (db, unit) exec" where
  "checkRequirements schoolId requirementIds =
     whenE (requirementIds \<noteq> [])
       (bindE (countRows schoolRequirements (\<lambda>r. sr_id r \<in> set requirementIds \<and> sr_schoolId r = schoolId \<and> sr_isActive r))
          (\<lambda>n. require (n = length requirementIds) (Forbidden ''Un ou plusieurs prerequis sont invalides'')))"

definition createOffer ::
  "(string \<Rightarrow> string) \<Rightarrow> (nat \<Rightarrow> id) \<Rightarrow> time \<Rightarrow> create_offer_dto \<Rightarrow> id \<Rightarrow> (db, offer_row) exec" where
  "createOffer slugify uuid now dto userId =
     thenE (findOr schools (\<lambda>x. sc_id x = co_schoolId dto \<and> sc_deletedAt x = None) (NotFound ''School not found''))
     (thenE (ensureCanManageSchool userId (co_schoolId dto))
     (thenE (programFor (co_schoolId dto) (co_programId dto))
     (thenE (checkRequirements (co_schoolId dto) (nullish (co_requirementIds dto) []))
     (transact (bindE (newId uuid) (\<lambda>i.
        bindE (insertRow offers offers_update offerClash
          \<lparr>o_id = i, o_schoolId = co_schoolId dto, o_programId = Some (co_programId dto),
           o_tuitionFees = co_tuitionFees dto, o_capacity = co_capacity dto,
           o_applicationDeadline = co_applicationDeadline dto, o_isOpen = nullish (co_isOpen dto) True,
           o_deletedAt = None, o_title = co_title dto, o_slug = slugify (co_title dto), o_diploma = co_diploma dto,
           o_description = co_description dto, o_duration = co_duration dto,
           o_prerequisites = nullish (co_prerequisites dto) [], o_academicYear = co_academicYear dto,
           o_createdAt = now\<rparr>) (\<lambda>f.
        thenE (forEach (nullish (co_requirementIds dto) [])
                 (\<lambda>r. addRow offerRequirements offerRequirements_update \<lparr>or_offerId = i, or_requirementId = r\<rparr>))
          (ret f))))))))"

record offer_filters =
  of_schoolId :: "string option"
  of_diploma :: "string option"
  of_minFees :: "rat option"
  of_maxFees :: "rat option"
  of_search :: "string option"
  of_isOpen :: "bool option"
  of_city :: "string option"

definition offerWhere :: "db \<Rightarrow> offer_filters \<Rightarrow> offer_row \<Rightarrow> bool" where
  "offerWhere s q f \<longleftrightarrow>
     o_deletedAt f = None \<and>
     (truthy (of_schoolId q) \<longrightarrow> Some (o_schoolId f) = of_schoolId q) \<and>
     (truthy (of_diploma q) \<longrightarrow> containsInsensitive (o_diploma f) (nullish (of_diploma q) [])) \<and>
     (case of_minFees q of None \<Rightarrow> True | Some m \<Rightarrow> m \<le> o_tuitionFees f) \<and>
     (case of_maxFees q of None \<Rightarrow> True | Some m \<Rightarrow> o_tuitionFees f \<le> m) \<and>
     (truthy (of_search q) \<longrightarrow>
        containsInsensitive (o_title f) (nullish (of_search q) []) \<or>
        (case o_description f of None \<Rightarrow> False | Some d \<Rightarrow> containsInsensitive d (nullish (of_search q) []))) \<and>
     (case of_isOpen q of None \<Rightarrow> True | Some b \<Rightarrow> o_isOpen f = b) \<and>
     (truthy (of_city q) \<longrightarrow> list_ex (\<lambda>x. sc_id x = o_schoolId f \<and> Some (sc_city x) = of_city q) (schools s))"

definition offerView :: "db \<Rightarrow> offer_row \<Rightarrow> offer_row \<times> school_row option" where
  "offerView s f = (f, find (\<lambda>x. sc_id x = o_schoolId f) (schools s))"

definition findAllOffers ::
  "int option \<Rightarrow> int option \<Rightarrow> offer_filters \<Rightarrow> (db, (offer_row \<times> school_row option) page) exec" where
  "findAllOffers page limit q =
     bindE (asks (\<lambda>s. map (offerView s) (orderDesc o_createdAt (filter (offerWhere s q) (offers s))))) (\<lambda>rows.
     paginate (numberOr 1 page) (numberOr 20 limit) rows)"

definition findDistinctDiplomas :: "(string \<Rightarrow> string) \<Rightarrow> (db, string list) exec" where
  "findDistinctDiplomas collation =
     bindE (findMany offers (\<lambda>f. o_deletedAt f = None \<and> o_isOpen f)) (\<lambda>rows.
     ret (uniq (map o_diploma (sort_key (collation \<circ> o_diploma) rows))))"

definition findOffer :: "id \<Rightarrow> (db, offer_row) exec" where
  "findOffer i = findOr offers (\<lambda>f. o_id f = i \<and> o_deletedAt f = None) (NotFound ''Offer not found'')"

record update_offer_dto =
  uo_programId :: "id option"
  uo_title :: "string option"
  uo_description :: "string option"
  uo_diploma :: "string option"
  uo_duration :: "int option"
  uo_tuitionFees :: "rat option"
  uo_prerequisites :: "string list option"
  uo_requirementIds :: "id list option"
  uo_capacity :: "int option"
  uo_applicationDeadline :: "time option"
  uo_academicYear :: "string option"
  uo_isOpen :: "bool option"

text \<open>
  The update spreads the body into the data: Prisma knows no column \<open>requirementIds\<close> and refuses
  the request when it is given.
\<close>

definition offerUpdate :: "(string \<Rightarrow> string) \<Rightarrow> update_offer_dto \<Rightarrow> offer_row \<Rightarrow> offer_row" where
  "offerUpdate slugify dto f =
     f\<lparr>o_programId := overwrite (uo_programId dto) (o_programId f), o_title := nullish (uo_title dto) (o_title f),
       o_description := overwrite (uo_description dto) (o_description f),
       o_diploma := nullish (uo_diploma dto) (o_diploma f), o_duration := nullish (uo_duration dto) (o_duration f),
       o_tuitionFees := nullish (uo_tuitionFees dto) (o_tuitionFees f),
       o_prerequisites := nullish (uo_prerequisites dto) (o_prerequisites f),
       o_capacity := overwrite (uo_capacity dto) (o_capacity f),
       o_academicYear := nullish (uo_academicYear dto) (o_academicYear f),
       o_isOpen := nullish (uo_isOpen dto) (o_isOpen f),
       o_slug := (if truthy (uo_title dto) then slugify (nullish (uo_title dto) []) else o_slug f),
       o_applicationDeadline := overwrite (uo_applicationDeadline dto) (o_applicationDeadline f)\<rparr>"

definition updateOffer ::
  "(string \<Rightarrow> string) \<Rightarrow> id \<Rightarrow> update_offer_dto \<Rightarrow> id \<Rightarrow> (db, offer_row) exec" where
  "updateOffer slugify i dto userId =
     bindE (findOffer i) (\<lambda>f.
     thenE (ensureCanManageSchool userId (o_schoolId f))
     (thenE (whenE (truthy (uo_programId dto))
               (thenE (programFor (o_schoolId f) (nullish (uo_programId dto) [])) (ret ())))
     (thenE (require (uo_requirementIds dto = None) (Failure ''Unknown argument requirementIds''))
     (thenE (updateUnique offers offers_update offerClash (\<lambda>x. o_id x = i) (offerUpdate slugify dto))
     (findOr offers (\<lambda>x. o_id x = i) (Failure ''P2025''))))))"

definition deleteOffer :: "time \<Rightarrow> id \<Rightarrow> id \<Rightarrow> (db, offer_row) exec" where
  "deleteOffer now i userId =
     bindE (findOffer i) (\<lambda>f.
     thenE (ensureCanManageSchool userId (o_schoolId f))
     (updateOne offers offers_update (\<lambda>x. o_id x = i) (\<lambda>x. x\<lparr>o_deletedAt := Some now\<rparr>)))"

definition toggleStatus :: "id \<Rightarrow> bool \<Rightarrow> id \<Rightarrow> (db, offer_row) exec" where
  "toggleStatus i isOpen userId =
     bindE (findOffer i) (\<lambda>f.
     thenE (ensureCanManageSchool userId (o_schoolId f))
     (updateOne offers offers_update (\<lambda>x. o_id x = i) (\<lambda>x. x\<lparr>o_isOpen := isOpen\<rparr>)))"

definition getOffersBySchool :: "id \<Rightarrow> bool option \<Rightarrow> (db, (offer_row \<times> school_row option) list) exec" where
  "getOffersBySchool schoolId isOpen =
     thenE (findOr schools (\<lambda>x. sc_id x = schoolId \<and> sc_deletedAt x = None) (NotFound ''School not found''))
     (asks (\<lambda>s. map (offerView s) (orderDesc o_createdAt
        (filter (\<lambda>f. o_schoolId f = schoolId \<and> o_deletedAt f = None \<and>
                     (case isOpen of None \<Rightarrow> True | Some b \<Rightarrow> o_isOpen f = b)) (offers s)))))"

section \<open>Fee brackets\<close>

definition bracketClash :: "fee_bracket_row \<Rightarrow> fee_bracket_row \<Rightarrow> bool" where
  "bracketClash a b \<longleftrightarrow> fb_id a = fb_id b \<or> fb_label a = fb_label b"

text \<open>Actives first, then the given order, then the lower bound.\<close>

definition findAllBrackets :: "(db, fee_bracket_row list) exec" where
  "findAllBrackets = asks (\<lambda>s.
     sort_key (\<lambda>b. if fb_isActive b then 0 else 1 :: nat)
       (sort_key fb_sortOrder (sort_key fb_minFees (feeBrackets s))))"

definition findBracket :: "id \<Rightarrow> (db, fee_bracket_row) exec" where
  "findBracket i = findOr feeBrackets (\<lambda>b. fb_id b = i) (NotFound ''Tranche de frais introuvable'')"

definition rangeOk :: "rat \<Rightarrow> rat option \<Rightarrow> bool" where
  "rangeOk minFees maxFees = (case maxFees of None \<Rightarrow> True | Some m \<Rightarrow> minFees < m)"

definition assertRange :: "rat \<Rightarrow> rat option \<Rightarrow> (db, unit) exec" where
  "assertRange minFees maxFees =
     require (rangeOk minFees maxFees) (BadRequest ''Le montant maximum doit etre superieur au minimum'')"

definition assertLabelAvailable :: "string \<Rightarrow> (db, unit) exec" where
  "assertLabelAvailable label =
     bindE (findFirst feeBrackets (\<lambda>b. fb_label b = trim label)) (\<lambda>existing.
     require (existing = None) (BadRequest ''Une tranche de frais porte deja ce nom''))"

record create_bracket_dto =
  cb_label :: string
  cb_minFees :: rat
  cb_maxFees :: "rat option"
  cb_sortOrder :: "int option"
  cb_isActive :: "bool option"

definition createBracket :: "(nat \<Rightarrow> id) \<Rightarrow> create_bracket_dto \<Rightarrow> (db, fee_bracket_row) exec" where
  "createBracket uuid dto =
     thenE (assertRange (cb_minFees dto) (cb_maxFees dto))
     (thenE (assertLabelAvailable (cb_label dto))
     (bindE (newId uuid) (\<lambda>i.
      insertRow feeBrackets feeBrackets_update bracketClash
        \<lparr>fb_id = i, fb_label = trim (cb_label dto), fb_minFees = cb_minFees dto, fb_maxFees = cb_maxFees dto,
         fb_sortOrder = nullish (cb_sortOrder dto) 0, fb_isActive = nullish (cb_isActive dto) True\<rparr>)))"

text \<open>\<open>ub_maxFees\<close>: \<open>None\<close> is undefined, \<open>Some None\<close> is null.\<close>

record update_bracket_dto =
  ub_label :: "string option"
  ub_minFees :: "rat option"
  ub_maxFees :: "rat option option"
  ub_sortOrder :: "int option"
  ub_isActive :: "bool option"

definition bracketUpdate :: "update_bracket_dto \<Rightarrow> fee_bracket_row \<Rightarrow> fee_bracket_row" where
  "bracketUpdate dto b =
     b\<lparr>fb_label := (case ub_label dto of None \<Rightarrow> fb_label b | Some l \<Rightarrow> trim l),
       fb_minFees := nullish (ub_minFees dto) (fb_minFees b),
       fb_maxFees := nullish (ub_maxFees dto) (fb_maxFees b),
       fb_sortOrder := nullish (ub_sortOrder dto) (fb_sortOrder b),
       fb_isActive := nullish (ub_isActive dto) (fb_isActive b)\<rparr>"

text \<open>\<open>if (dto.label && dto.label.trim() !== row.label)\<close>\<close>

definition renames :: "string option \<Rightarrow> string \<Rightarrow> bool" where
  "renames new old \<longleftrightarrow> truthy new \<and> trim (nullish new []) \<noteq> old"

definition updateBracket :: "id \<Rightarrow> update_bracket_dto \<Rightarrow> (db, fee_bracket_row) exec" where
  "updateBracket i dto =
     bindE (findBracket i) (\<lambda>b.
     thenE (assertRange (nullish (ub_minFees dto) (fb_minFees b)) (nullish (ub_maxFees dto) (fb_maxFees b)))
     (thenE (whenE (renames (ub_label dto) (fb_label b)) (assertLabelAvailable (nullish (ub_label dto) [])))
     (thenE (updateUnique feeBrackets feeBrackets_update bracketClash (\<lambda>x. fb_id x = i) (bracketUpdate dto))
     (findOr feeBrackets (\<lambda>x. fb_id x = i) (Failure ''P2025'')))))"

definition deleteBracket :: "id \<Rightarrow> (db, id) exec" where
  "deleteBracket i =
     thenE (findBracket i)
     (thenE (deleteMany feeBrackets feeBrackets_update (\<lambda>b. fb_id b = i)) (ret i))"

section \<open>Academic years\<close>

definition academicYearClash :: "academic_year_row \<Rightarrow> academic_year_row \<Rightarrow> bool" where
  "academicYearClash a b \<longleftrightarrow> ay_id a = ay_id b \<or> ay_label a = ay_label b"

definition findAllYears :: "(db, academic_year_row list) exec" where
  "findAllYears = asks (\<lambda>s. orderDesc ay_startDate (academicYears s))"

definition findYear :: "id \<Rightarrow> (db, academic_year_row) exec" where
  "findYear i = findOr academicYears (\<lambda>y. ay_id y = i) (NotFound ''Annee scolaire introuvable'')"

definition assertDateOrder :: "time \<Rightarrow> time \<Rightarrow> (db, unit) exec" where
  "assertDateOrder startDate endDate =
     require (startDate < endDate) (BadRequest ''La date de fin doit etre posterieure a la date de debut'')"

definition assertYearLabelAvailable :: "string \<Rightarrow> (db, unit) exec" where
  "assertYearLabelAvailable label =
     bindE (findFirst academicYears (\<lambda>y. ay_label y = trim label)) (\<lambda>existing.
     require (existing = None) (BadRequest ''Une annee scolaire porte deja ce nom''))"

record create_year_dto =
  cy_label :: string
  cy_startDate :: time
  cy_endDate :: time
  cy_isCurrent :: "bool option"

text \<open>The two writes of a creation, which no transaction joins.\<close>

definition clearCurrentYear :: "(db, nat) exec" where
  "clearCurrentYear = updateMany academicYears academicYears_update ay_isCurrent (\<lambda>y. y\<lparr>ay_isCurrent := False\<rparr>)"

definition insertYear :: "(nat \<Rightarrow> id) \<Rightarrow> create_year_dto \<Rightarrow> (db, academic_year_row) exec" where
  "insertYear uuid dto =
     bindE (newId uuid) (\<lambda>i.
      insertRow academicYears academicYears_update academicYearClash
        \<lparr>ay_id = i, ay_label = trim (cy_label dto), ay_startDate = cy_startDate dto,
         ay_endDate = cy_endDate dto, ay_isCurrent = nullish (cy_isCurrent dto) False\<rparr>)"

definition createYear :: "(nat \<Rightarrow> id) \<Rightarrow> create_year_dto \<Rightarrow> (db, academic_year_row) exec" where
  "createYear uuid dto =
     thenE (assertDateOrder (cy_startDate dto) (cy_endDate dto))
     (thenE (assertYearLabelAvailable (cy_label dto))
     (thenE (whenE (nullish (cy_isCurrent dto) False) (thenE clearCurrentYear (ret ())))
     (insertYear uuid dto)))"

record update_year_dto =
  uy_label :: "string option"
  uy_startDate :: "time option"
  uy_endDate :: "time option"
  uy_isCurrent :: "bool option"

definition yearUpdate :: "update_year_dto \<Rightarrow> academic_year_row \<Rightarrow> academic_year_row" where
  "yearUpdate dto y =
     y\<lparr>ay_label := (case uy_label dto of None \<Rightarrow> ay_label y | Some l \<Rightarrow> trim l),
       ay_startDate := nullish (uy_startDate dto) (ay_startDate y),
       ay_endDate := nullish (uy_endDate dto) (ay_endDate y),
       ay_isCurrent := nullish (uy_isCurrent dto) (ay_isCurrent y)\<rparr>"

definition clearOthers :: "id \<Rightarrow> (db, nat) exec" where
  "clearOthers i =
     updateMany academicYears academicYears_update (\<lambda>y. ay_isCurrent y \<and> ay_id y \<noteq> i)
       (\<lambda>y. y\<lparr>ay_isCurrent := False\<rparr>)"

definition updateYear :: "id \<Rightarrow> update_year_dto \<Rightarrow> (db, academic_year_row) exec" where
  "updateYear i dto =
     bindE (findYear i) (\<lambda>y.
     thenE (assertDateOrder (nullish (uy_startDate dto) (ay_startDate y)) (nullish (uy_endDate dto) (ay_endDate y)))
     (thenE (whenE (renames (uy_label dto) (ay_label y)) (assertYearLabelAvailable (nullish (uy_label dto) [])))
     (thenE (whenE (nullish (uy_isCurrent dto) False) (thenE (clearOthers i) (ret ())))
     (thenE (updateUnique academicYears academicYears_update academicYearClash (\<lambda>x. ay_id x = i) (yearUpdate dto))
     (findOr academicYears (\<lambda>x. ay_id x = i) (Failure ''P2025''))))))"

text \<open>The class rows are counted; the requirements refer to the year too (foreign key).\<close>

definition deleteYear :: "id \<Rightarrow> (db, id) exec" where
  "deleteYear i =
     thenE (findYear i)
     (bindE (countRows classes (\<lambda>c. cl_academicYearId c = i)) (\<lambda>dependents.
     thenE (require (dependents = 0)
              (BadRequest ''Impossible de supprimer une annee scolaire deja utilisee par des classes''))
     (bindE (countRows requirements (\<lambda>r. rq_academicYearId r = i)) (\<lambda>references.
     thenE (require (references = 0) (Failure ''P2003''))
     (thenE (deleteMany academicYears academicYears_update (\<lambda>y. ay_id y = i)) (ret i))))))"

section \<open>Cities\<close>

definition cityClash :: "platform_city_row \<Rightarrow> platform_city_row \<Rightarrow> bool" where
  "cityClash a b \<longleftrightarrow> pc_id a = pc_id b \<or> pc_name a = pc_name b"

definition findAllCities :: "(string \<Rightarrow> string) \<Rightarrow> (db, platform_city_row list) exec" where
  "findAllCities collation = asks (\<lambda>s.
     sort_key (\<lambda>c. if pc_isActive c then 0 else 1 :: nat)
       (sort_key (collation \<circ> pc_name) (platformCities s)))"

definition findCity :: "id \<Rightarrow> (db, platform_city_row) exec" where
  "findCity i = findOr platformCities (\<lambda>c. pc_id c = i) (NotFound ''Ville introuvable'')"

definition assertNameAvailable :: "string \<Rightarrow> (db, unit) exec" where
  "assertNameAvailable name =
     bindE (findFirst platformCities (\<lambda>c. pc_name c = trim name)) (\<lambda>existing.
     require (existing = None) (BadRequest ''Cette ville existe deja''))"

definition createCity :: "(nat \<Rightarrow> id) \<Rightarrow> string \<Rightarrow> bool option \<Rightarrow> (db, platform_city_row) exec" where
  "createCity uuid name isActive =
     thenE (assertNameAvailable name)
     (bindE (newId uuid) (\<lambda>i.
      insertRow platformCities platformCities_update cityClash
        \<lparr>pc_id = i, pc_name = trim name, pc_isActive = nullish isActive True\<rparr>))"

definition updateCity :: "id \<Rightarrow> string option \<Rightarrow> bool option \<Rightarrow> (db, platform_city_row) exec" where
  "updateCity i name isActive =
     bindE (findCity i) (\<lambda>c.
     thenE (whenE (renames name (pc_name c)) (assertNameAvailable (nullish name [])))
     (thenE (updateUnique platformCities platformCities_update cityClash (\<lambda>x. pc_id x = i)
              (\<lambda>x. x\<lparr>pc_name := (case name of None \<Rightarrow> pc_name x | Some n \<Rightarrow> trim n),
                     pc_isActive := nullish isActive (pc_isActive x)\<rparr>))
     (findOr platformCities (\<lambda>x. pc_id x = i) (Failure ''P2025''))))"

definition deleteCity :: "id \<Rightarrow> (db, id) exec" where
  "deleteCity i =
     thenE (findCity i)
     (thenE (deleteMany platformCities platformCities_update (\<lambda>c. pc_id c = i)) (ret i))"

section \<open>Financial partners\<close>

definition findAllPartners ::
  "int option \<Rightarrow> int option \<Rightarrow> string option \<Rightarrow> string option \<Rightarrow> (db, partner_row page) exec" where
  "findAllPartners page limit ptype search =
     bindE (asks (\<lambda>s. orderDesc fp_createdAt (filter (\<lambda>p.
        fp_deletedAt p = None \<and>
        (truthy ptype \<longrightarrow> Some (fp_type p) = ptype) \<and>
        (truthy search \<longrightarrow> containsInsensitive (fp_name p) (nullish search []))) (financialPartners s)))) (\<lambda>rows.
     paginate (clampPage page) (clampLimit 20 limit) rows)"

record partner_dto =
  pt_name :: "string option"
  pt_description :: "string option"
  pt_type :: "string option"
  pt_contactEmail :: "string option"
  pt_contactPhone :: "string option"
  pt_website :: "string option"

text \<open>The creation has the same body, with a name.\<close>

definition createPartner :: "(nat \<Rightarrow> id) \<Rightarrow> time \<Rightarrow> string \<Rightarrow> partner_dto \<Rightarrow> (db, partner_row) exec" where
  "createPartner uuid now name dto =
     bindE (newId uuid) (\<lambda>i.
     insertRow financialPartners financialPartners_update (\<lambda>a b. fp_id a = fp_id b)
       \<lparr>fp_id = i, fp_name = trim name, fp_description = map_option trim (pt_description dto),
        fp_type = nullish (pt_type dto) ''OTHER'', fp_contactEmail = pt_contactEmail dto,
        fp_contactPhone = pt_contactPhone dto, fp_website = pt_website dto, fp_logo = None,
        fp_isActive = True, fp_createdAt = now, fp_deletedAt = None\<rparr>)"

definition partnerExists :: "id \<Rightarrow> (db, partner_row) exec" where
  "partnerExists i =
     findOr financialPartners (\<lambda>p. fp_id p = i \<and> fp_deletedAt p = None) (NotFound ''Financial partner not found'')"

definition writePartner :: "id \<Rightarrow> (partner_row \<Rightarrow> partner_row) \<Rightarrow> (db, partner_row) exec" where
  "writePartner i f = updateOne financialPartners financialPartners_update (\<lambda>p. fp_id p = i) f"

definition updatePartner :: "id \<Rightarrow> partner_dto \<Rightarrow> (db, partner_row) exec" where
  "updatePartner i dto =
     thenE (partnerExists i)
     (writePartner i (\<lambda>p. p\<lparr>fp_name := (case pt_name dto of None \<Rightarrow> fp_name p | Some n \<Rightarrow> trim n),
        fp_description := overwrite (map_option trim (pt_description dto)) (fp_description p),
        fp_type := nullish (pt_type dto) (fp_type p),
        fp_contactEmail := overwrite (pt_contactEmail dto) (fp_contactEmail p),
        fp_contactPhone := overwrite (pt_contactPhone dto) (fp_contactPhone p),
        fp_website := overwrite (pt_website dto) (fp_website p)\<rparr>))"

definition deletePartner :: "time \<Rightarrow> id \<Rightarrow> (db, partner_row) exec" where
  "deletePartner now i =
     thenE (partnerExists i) (writePartner i (\<lambda>p. p\<lparr>fp_deletedAt := Some now, fp_isActive := False\<rparr>))"

definition updatePartnerLogo :: "id \<Rightarrow> string \<Rightarrow> (db, partner_row) exec" where
  "updatePartnerLogo i logoUrl =
     thenE (partnerExists i) (writePartner i (\<lambda>p. p\<lparr>fp_logo := Some logoUrl\<rparr>))"

section \<open>Competitions\<close>

text \<open>A competition is shown with the identifiers and names of its school and its programme.\<close>

record competition_view =
  cpv_row :: competition_row
  cpv_school :: "(id \<times> string) option"
  cpv_program :: "(id \<times> string) option"

definition competitionView :: "db \<Rightarrow> competition_row \<Rightarrow> competition_view" where
  "competitionView s c =
     \<lparr>cpv_row = c,
      cpv_school = map_option (\<lambda>x. (sc_id x, sc_name x)) (find (\<lambda>x. sc_id x = cp_schoolId c) (schools s)),
      cpv_program = Option.bind (cp_programId c)
        (\<lambda>p. map_option (\<lambda>x. (pr_id x, pr_name x)) (find (\<lambda>x. pr_id x = p) (programs s)))\<rparr>"

definition findAllCompetitions ::
  "int option \<Rightarrow> int option \<Rightarrow> string option \<Rightarrow> string option \<Rightarrow> string option
    \<Rightarrow> (db, competition_view page) exec" where
  "findAllCompetitions page limit schoolId cstatus search =
     bindE (asks (\<lambda>s. map (competitionView s) (orderDesc cp_createdAt (filter (\<lambda>c.
        cp_deletedAt c = None \<and>
        (truthy schoolId \<longrightarrow> Some (cp_schoolId c) = schoolId) \<and>
        (truthy cstatus \<longrightarrow> Some (cp_status c) = cstatus) \<and>
        (truthy search \<longrightarrow> containsInsensitive (cp_name c) (nullish search []))) (competitions s))))) (\<lambda>rows.
     paginate (clampPage page) (clampLimit 20 limit) rows)"

record competition_dto =
  cd_schoolId :: "id option"
  cd_programId :: "id option"
  cd_name :: "string option"
  cd_description :: "string option"
  cd_examDate :: "time option"
  cd_registrationDeadline :: "time option"
  cd_capacity :: "int option"
  cd_status :: "string option"

text \<open>The foreign keys of a row: its school and, when given, its programme exist.\<close>

definition competitionRefs :: "db \<Rightarrow> competition_row \<Rightarrow> bool" where
  "competitionRefs s c \<longleftrightarrow>
     list_ex (\<lambda>x. sc_id x = cp_schoolId c) (schools s) \<and>
     (case cp_programId c of None \<Rightarrow> True | Some p \<Rightarrow> list_ex (\<lambda>x. pr_id x = p) (programs s))"

definition createCompetition ::
  "(nat \<Rightarrow> id) \<Rightarrow> time \<Rightarrow> id \<Rightarrow> string \<Rightarrow> competition_dto \<Rightarrow> (db, competition_view) exec" where
  "createCompetition uuid now schoolId name dto =
     bindE (newId uuid) (\<lambda>i.
     (let c = \<lparr>cp_id = i, cp_schoolId = schoolId, cp_programId = cd_programId dto, cp_name = trim name,
               cp_description = map_option trim (cd_description dto), cp_examDate = cd_examDate dto,
               cp_registrationDeadline = cd_registrationDeadline dto, cp_capacity = cd_capacity dto,
               cp_status = nullish (cd_status dto) ''PLANNED'', cp_isActive = True, cp_createdAt = now,
               cp_deletedAt = None\<rparr> in
      bindE (asks (\<lambda>s. competitionRefs s c)) (\<lambda>known.
      thenE (require known (Failure ''P2003''))
      (thenE (insertRow competitions competitions_update (\<lambda>a b. cp_id a = cp_id b) c)
      (asks (\<lambda>s. competitionView s c))))))"

definition competitionExists :: "id \<Rightarrow> (db, competition_row) exec" where
  "competitionExists i =
     findOr competitions (\<lambda>c. cp_id c = i \<and> cp_deletedAt c = None) (NotFound ''Competition not found'')"

definition competitionUpdate :: "competition_dto \<Rightarrow> competition_row \<Rightarrow> competition_row" where
  "competitionUpdate dto c =
     c\<lparr>cp_schoolId := nullish (cd_schoolId dto) (cp_schoolId c),
       cp_programId := overwrite (cd_programId dto) (cp_programId c),
       cp_name := (case cd_name dto of None \<Rightarrow> cp_name c | Some n \<Rightarrow> trim n),
       cp_description := overwrite (map_option trim (cd_description dto)) (cp_description c),
       cp_examDate := overwrite (cd_examDate dto) (cp_examDate c),
       cp_registrationDeadline := overwrite (cd_registrationDeadline dto) (cp_registrationDeadline c),
       cp_capacity := overwrite (cd_capacity dto) (cp_capacity c),
       cp_status := nullish (cd_status dto) (cp_status c)\<rparr>"

definition updateCompetition :: "id \<Rightarrow> competition_dto \<Rightarrow> (db, competition_view) exec" where
  "updateCompetition i dto =
     bindE (competitionExists i) (\<lambda>c.
     bindE (asks (\<lambda>s. competitionRefs s (competitionUpdate dto c))) (\<lambda>known.
     thenE (require known (Failure ''P2003''))
     (bindE (updateOne competitions competitions_update (\<lambda>x. cp_id x = i) (competitionUpdate dto)) (\<lambda>x.
      asks (\<lambda>s. competitionView s x)))))"

definition deleteCompetition :: "time \<Rightarrow> id \<Rightarrow> (db, competition_row) exec" where
  "deleteCompetition now i =
     thenE (competitionExists i)
     (updateOne competitions competitions_update (\<lambda>x. cp_id x = i)
        (\<lambda>x. x\<lparr>cp_deletedAt := Some now, cp_isActive := False\<rparr>))"

section \<open>Accounts\<close>

record user_filters =
  uf_search :: "string option"
  uf_roleName :: "string option"
  uf_isActive :: "string option"

definition userWhere :: "user_filters \<Rightarrow> user_row \<Rightarrow> bool" where
  "userWhere q u \<longleftrightarrow>
     u_deletedAt u = None \<and>
     (truthy (uf_search q) \<longrightarrow> containsInsensitive (u_email u) (nullish (uf_search q) [])) \<and>
     (truthy (uf_roleName q) \<longrightarrow> u_role u = uf_roleName q) \<and>
     (truthy (uf_isActive q) \<longrightarrow> u_isActive u = (uf_isActive q = Some ''true''))"

record user_view =
  uv_id :: id
  uv_email :: string
  uv_isActive :: bool
  uv_lastLogin :: "time option"
  uv_role :: "string option"
  uv_displayName :: "string option"
  uv_school :: "string option"

text \<open>\<open>[first, last].filter(Boolean).join(' ')\<close>, and null for the empty string.\<close>

definition fullName :: "string option list \<Rightarrow> string option" where
  "fullName parts =
     (let n = joinWith '' '' (map the (filter truthy parts)) in if n = [] then None else Some n)"

definition userView :: "db \<Rightarrow> user_row \<Rightarrow> user_view" where
  "userView s u =
     (let student = find (\<lambda>x. st_userId x = u_id u) (students s);
          teacher = find (\<lambda>x. th_userId x = u_id u) (teachers s);
          admin = find (\<lambda>x. sa_userId x = u_id u) (schoolAdmins s) in
      \<lparr>uv_id = u_id u, uv_email = u_email u, uv_isActive = u_isActive u, uv_lastLogin = u_lastLogin u,
       uv_role = (if truthy (u_role u) then u_role u else None),
       uv_displayName =
         (case fullName [map_option st_firstName student, map_option st_lastName student] of
            Some n \<Rightarrow> Some n
          | None \<Rightarrow> fullName [Option.bind teacher th_firstName, Option.bind teacher th_lastName]),
       uv_school = Option.bind admin (\<lambda>a.
         Option.bind (find (\<lambda>x. sc_id x = sa_schoolId a) (schools s)) (\<lambda>x.
         if sc_name x = [] then None else Some (sc_name x)))\<rparr>)"

definition findAllUsers ::
  "int option \<Rightarrow> int option \<Rightarrow> user_filters \<Rightarrow> (db, user_view page) exec" where
  "findAllUsers page limit q =
     bindE (asks (\<lambda>s. map (userView s) (rev (filter (userWhere q) (users s))))) (\<lambda>rows.
     paginate (clampPage page) (clampLimit 20 limit) rows)"

definition setActive :: "id \<Rightarrow> bool \<Rightarrow> id \<Rightarrow> (db, user_row) exec" where
  "setActive i isActive currentUserId =
     thenE (require (\<not> (i = currentUserId \<and> \<not> isActive))
              (BadRequest ''Vous ne pouvez pas desactiver votre propre compte''))
     (bindE (findFirst users (\<lambda>u. u_id u = i)) (\<lambda>user.
     thenE (require (case user of None \<Rightarrow> False | Some u \<Rightarrow> u_deletedAt u = None)
              (NotFound ''Utilisateur introuvable''))
     (updateOne users users_update (\<lambda>u. u_id u = i) (\<lambda>u. u\<lparr>u_isActive := isActive\<rparr>))))"

section \<open>Settings and dashboard\<close>

text \<open>The settings are a JSON object of texts; \<open>{ ...DEFAULTS, ...value }\<close>.\<close>

definition settingsDefaults :: "string \<Rightarrow> string option" where
  "settingsDefaults =
     [''platformName'' \<mapsto> ''GET - Grandes Ecoles de Tananarive et de Madagascar'',
      ''contactEmail'' \<mapsto> ''contact@get.mg'',
      ''contactPhone'' \<mapsto> ''+261 34 12 345 67'',
      ''address'' \<mapsto> ''Lot II 4B, Antananarivo, Madagascar'']"

definition getSettings :: "(db, string \<Rightarrow> string option) exec" where
  "getSettings =
     bindE (findFirst systemConfigs (\<lambda>c. cf_key c = ''platform.settings'')) (\<lambda>row.
     ret (case row of None \<Rightarrow> settingsDefaults | Some c \<Rightarrow> settingsDefaults ++ cf_value c))"

record settings_dto =
  sd_platformName :: string
  sd_contactEmail :: "string option"
  sd_contactPhone :: "string option"
  sd_address :: "string option"

definition settingsValue :: "settings_dto \<Rightarrow> string \<Rightarrow> string option" where
  "settingsValue dto =
     (\<lambda>k. if k = ''platformName'' then Some (sd_platformName dto)
          else if k = ''contactEmail'' then sd_contactEmail dto
          else if k = ''contactPhone'' then sd_contactPhone dto
          else if k = ''address'' then sd_address dto else None)"

definition updateSettings :: "settings_dto \<Rightarrow> (db, string \<Rightarrow> string option) exec" where
  "updateSettings dto =
     thenE (upsertRow systemConfigs systemConfigs_update (\<lambda>c. cf_key c = ''platform.settings'')
              (\<lambda>c. c\<lparr>cf_value := settingsValue dto\<rparr>)
              \<lparr>cf_key = ''platform.settings'', cf_value = settingsValue dto\<rparr>)
     getSettings"

record summary =
  sm_activeSchools :: nat
  sm_enrolledStudents :: nat
  sm_distinctEnrolledStudents :: nat
  sm_totalApplications :: nat
  sm_pendingApplications :: nat
  sm_acceptanceRate :: rat
  sm_totalRevenue :: rat

text \<open>\<open>Number(x.toFixed(1))\<close> of a quotient that is not negative, computed exactly.\<close>

definition toFixed1 :: "rat \<Rightarrow> rat" where
  "toFixed1 x = of_int \<lfloor>x * 10 + 1 / 2\<rfloor> / 10"

definition acceptanceRate :: "nat \<Rightarrow> nat \<Rightarrow> rat" where
  "acceptanceRate accepted n = (if n \<noteq> 0 then toFixed1 (of_nat accepted / of_nat n * 100) else 0)"

definition getSummary :: "(db, summary) exec" where
  "getSummary = asks (\<lambda>s.
     (let live = filter (\<lambda>a. a_deletedAt a = None) (applications s) in
      \<lparr>sm_activeSchools = count_rows (\<lambda>x. sc_isActive x \<and> sc_deletedAt x = None) (schools s),
       sm_enrolledStudents = count_rows (\<lambda>e. e_status e = ACTIVE \<and>
         list_ex (\<lambda>x. st_id x = e_studentId e \<and> st_deletedAt x = None) (students s)) (enrollments s),
       sm_distinctEnrolledStudents = count_rows (\<lambda>x. st_deletedAt x = None \<and>
         list_ex (\<lambda>e. e_studentId e = st_id x \<and> e_status e = ACTIVE) (enrollments s)) (students s),
       sm_totalApplications = length live,
       sm_pendingApplications = count_rows (\<lambda>a. a_status a = PENDING) live,
       sm_acceptanceRate = acceptanceRate (count_rows (\<lambda>a. a_status a = ACCEPTED) live) (length live),
       sm_totalRevenue = sum_list (map p_amount (filter (\<lambda>p. p_status p = PayCOMPLETED) (payments s)))\<rparr>))"

section \<open>Who manages the offers\<close>

definition canManageOffers :: "db \<Rightarrow> id \<Rightarrow> id \<Rightarrow> bool" where
  "canManageOffers s userId schoolId \<longleftrightarrow>
     (let role = Option.bind (find (\<lambda>u. u_id u = userId) (users s)) u_role in
      role = Some ''ADMIN_GET'' \<or>
      role = Some ''SCHOOL_ADMIN'' \<and>
      map_option sa_schoolId (find (\<lambda>a. sa_userId a = userId) (schoolAdmins s)) = Some schoolId)"

lemma ensureCanManageSchool_run:
  "ensureCanManageSchool userId schoolId s =
     (if canManageOffers s userId schoolId then (Inr (), s)
      else (Inl (Forbidden ''Vous n'etes pas autorise a gerer les offres de cet etablissement''), s))"
  by (simp add: ensureCanManageSchool_def canManageOffers_def exec_simps Let_def)

lemma findOr_ok: "findOr rows P e s = (Inr x, t) \<Longrightarrow> find P (rows s) = Some x \<and> t = s"
  by (auto simp: findOr_run split: option.splits)

lemma checkRequirements_same: "steps (=) (checkRequirements schoolId rs) s"
  unfolding checkRequirements_def by (intro step_rules)

lemma checkRequirements_state: "checkRequirements schoolId rs s = (r, t) \<Longrightarrow> t = s"
  using stepsD [OF checkRequirements_same] by metis

lemma programFor_state: "programFor schoolId p s = (r, t) \<Longrightarrow> t = s"
  by (auto simp: programFor_def findOr_run split: option.splits)

text \<open>The offers of a school, by which the operations of others must leave it alone.\<close>

definition offersOf :: "db \<Rightarrow> id \<Rightarrow> offer_row list" where
  "offersOf s schoolId = filter (\<lambda>f. o_schoolId f = schoolId) (offers s)"

text \<open>A write keeps the offers of a school when it touches no row of it.\<close>

lemma offersOf_update:
  assumes "\<And>f. f \<in> set xs \<Longrightarrow> P f \<Longrightarrow> o_schoolId f \<noteq> schoolId \<and> o_schoolId (g f) \<noteq> schoolId"
  shows "filter (\<lambda>f. o_schoolId f = schoolId) (update_rows P g xs) = filter (\<lambda>f. o_schoolId f = schoolId) xs"
  using assms by (induction xs) auto

lemma frames_forEach_add: "steps (frames offers) (forEach xs (\<lambda>r. addRow offerRequirements offerRequirements_update (g r))) s"
  by (intro step_rules) (simp add: steps_def frames_def addRow_run)

lemma createOffer_effect:
  assumes "createOffer slugify uuid now dto userId s = (r, t)" "\<not> canManageOffers s userId schoolId"
  shows "offersOf t schoolId = offersOf s schoolId"
proof (cases r)
  case (Inl e)
  then have "t = s" using assms(1)
    by (auto simp: createOffer_def thenE_run findOr_run ensureCanManageSchool_run transact_run
        split: option.splits prod.splits sum.splits if_splits dest: programFor_state checkRequirements_state)
  then show ?thesis by simp
next
  case (Inr f)
  let ?m = "\<lambda>i. forEach (nullish (co_requirementIds dto) [])
              (\<lambda>r. addRow offerRequirements offerRequirements_update \<lparr>or_offerId = i, or_requirementId = r\<rparr>)"
  note runs = createOffer_def thenE_run bindE_run findOr_run ensureCanManageSchool_run transact_run
    newId_run insertRow_run ret_run
  from Inr assms(1) have m: "canManageOffers s userId (co_schoolId dto)"
    by (auto simp: runs split: option.splits prod.splits sum.splits if_splits
        dest!: programFor_state checkRequirements_state)
  from Inr assms(1) have "\<exists>i u f'. ?m i u = (Inr (), t) \<and> offers u = offers s @ [f'] \<and> o_schoolId f' = co_schoolId dto"
    by (auto simp: runs split: option.splits prod.splits sum.splits if_splits
        dest!: programFor_state checkRequirements_state)
      (intro exI conjI, assumption, simp, simp)
  then obtain f' i u where u: "?m i u = (Inr (), t)" "offers u = offers s @ [f']" "o_schoolId f' = co_schoolId dto"
    by blast
  have "offers t = offers u" by (rule steps_framesD [OF frames_forEach_add u(1)])
  moreover have "co_schoolId dto \<noteq> schoolId" using m assms(2) by metis
  ultimately show ?thesis using u by (simp add: offersOf_def)
qed

lemma offer_rows:
  assumes "find (\<lambda>f. o_id f = i \<and> o_deletedAt f = None) (offers s) = Some f"
    "distinct (map o_id (offers s))" "x \<in> set (offers s)" "o_id x = i"
  shows "x = f"
  using find_Some_in [OF assms(1)] assms(2-4) distinct_map inj_on_def by (metis (mono_tags, lifting))

lemma updateOffer_effect:
  assumes "updateOffer slugify i dto userId s = (r, t)" "\<not> canManageOffers s userId schoolId"
    "distinct (map o_id (offers s))"
  shows "offersOf t schoolId = offersOf s schoolId"
proof (cases "t = s")
  case False
  with assms(1) obtain f where f: "find (\<lambda>f. o_id f = i \<and> o_deletedAt f = None) (offers s) = Some f"
      and m: "canManageOffers s userId (o_schoolId f)"
      and t: "offers t = update_rows (\<lambda>x. o_id x = i) (offerUpdate slugify dto) (offers s)"
    by (auto simp: updateOffer_def findOffer_def thenE_run bindE_run findOr_run ensureCanManageSchool_run
        whenE_run require_run updateUnique_run ret_run
        split: option.splits prod.splits sum.splits if_splits dest!: programFor_state)
  have "o_schoolId f \<noteq> schoolId" using m assms(2) by metis
  then show ?thesis
    unfolding offersOf_def t
    by (intro offersOf_update) (auto dest: offer_rows [OF f assms(3)] simp: offerUpdate_def)
qed simp

lemma deleteOffer_effect:
  assumes "deleteOffer now i userId s = (r, t)" "\<not> canManageOffers s userId schoolId"
    "distinct (map o_id (offers s))"
  shows "offersOf t schoolId = offersOf s schoolId"
proof (cases "t = s")
  case False
  with assms(1) obtain f where f: "find (\<lambda>f. o_id f = i \<and> o_deletedAt f = None) (offers s) = Some f"
      and m: "canManageOffers s userId (o_schoolId f)"
      and t: "offers t = update_rows (\<lambda>x. o_id x = i) (\<lambda>x. x\<lparr>o_deletedAt := Some now\<rparr>) (offers s)"
    by (auto simp: deleteOffer_def findOffer_def thenE_run bindE_run findOr_run ensureCanManageSchool_run
        updateOne_run split: option.splits prod.splits sum.splits if_splits)
  have "o_schoolId f \<noteq> schoolId" using m assms(2) by metis
  then show ?thesis
    unfolding offersOf_def t by (intro offersOf_update) (auto dest: offer_rows [OF f assms(3)])
qed simp

lemma toggleStatus_effect:
  assumes "toggleStatus i isOpen userId s = (r, t)" "\<not> canManageOffers s userId schoolId"
    "distinct (map o_id (offers s))"
  shows "offersOf t schoolId = offersOf s schoolId"
proof (cases "t = s")
  case False
  with assms(1) obtain f where f: "find (\<lambda>f. o_id f = i \<and> o_deletedAt f = None) (offers s) = Some f"
      and m: "canManageOffers s userId (o_schoolId f)"
      and t: "offers t = update_rows (\<lambda>x. o_id x = i) (\<lambda>x. x\<lparr>o_isOpen := isOpen\<rparr>) (offers s)"
    by (auto simp: toggleStatus_def findOffer_def thenE_run bindE_run findOr_run ensureCanManageSchool_run
        updateOne_run split: option.splits prod.splits sum.splits if_splits)
  have "o_schoolId f \<noteq> schoolId" using m assms(2) by metis
  then show ?thesis
    unfolding offersOf_def t by (intro offersOf_update) (auto dest: offer_rows [OF f assms(3)])
qed simp

datatype offer_request =
    CreateOffer create_offer_dto
  | UpdateOffer id update_offer_dto
  | DeleteOffer id
  | ToggleOffer id bool

primrec serveOffer :: "(string \<Rightarrow> string) \<Rightarrow> (nat \<Rightarrow> id) \<Rightarrow> time \<Rightarrow> id \<Rightarrow> offer_request \<Rightarrow> (db, offer_row) exec" where
  "serveOffer slugify uuid now userId (CreateOffer dto) = createOffer slugify uuid now dto userId"
| "serveOffer slugify uuid now userId (UpdateOffer i dto) = updateOffer slugify i dto userId"
| "serveOffer slugify uuid now userId (DeleteOffer i) = deleteOffer now i userId"
| "serveOffer slugify uuid now userId (ToggleOffer i b) = toggleStatus i b userId"

text \<open>
  C36. Nobody changes the offers of a school he does not manage: creation, update, deletion and the
  opening of offers leave them as they are.
\<close>

theorem offers_of_others_untouched:
  assumes "distinct (map o_id (offers s))" "\<not> canManageOffers s userId schoolId"
  shows "offersOf (snd (serveOffer slugify uuid now userId q s)) schoolId = offersOf s schoolId"
proof (cases q)
  case (CreateOffer dto)
  then show ?thesis using createOffer_effect [OF prod.collapse [symmetric] assms(2)] by simp
next
  case (UpdateOffer i dto)
  then show ?thesis using updateOffer_effect [OF prod.collapse [symmetric] assms(2,1)] by simp
next
  case (DeleteOffer i)
  then show ?thesis using deleteOffer_effect [OF prod.collapse [symmetric] assms(2,1)] by simp
next
  case (ToggleOffer i b)
  then show ?thesis using toggleStatus_effect [OF prod.collapse [symmetric] assms(2,1)] by simp
qed

definition sample_offer :: "id \<Rightarrow> id \<Rightarrow> offer_row" where
  "sample_offer i schoolId =
     \<lparr>o_id = i, o_schoolId = schoolId, o_programId = None, o_tuitionFees = 100, o_capacity = None,
      o_applicationDeadline = None, o_isOpen = True, o_deletedAt = None, o_title = ''Droit'', o_slug = ''droit'',
      o_diploma = ''Licence'', o_description = None, o_duration = 3, o_prerequisites = [],
      o_academicYear = ''2026'', o_createdAt = 0\<rparr>"

definition sample_offers :: db where
  "sample_offers = empty_db\<lparr>users := [sample_user ''u'' ''SCHOOL_ADMIN''],
     schoolAdmins := [\<lparr>sa_userId = ''u'', sa_schoolId = ''b''\<rparr>],
     offers := [sample_offer ''f'' ''a'', (sample_offer ''g'' ''b'')\<lparr>o_slug := ''lettres''\<rparr>]\<rparr>"

theorem offers_of_others_untouched_witness:
  "offersOf (snd (serveOffer id sample_uuid 7 ''u'' (DeleteOffer ''g'') sample_offers)) ''a'' = [sample_offer ''f'' ''a'']"
  using offers_of_others_untouched [of sample_offers "''u''" "''a''" id sample_uuid 7 "DeleteOffer ''g''"]
  by (simp add: sample_offers_def empty_db_def sample_offer_def canManageOffers_def sample_user_def offersOf_def)

text \<open>
  C37. The slug is unique over all schools and is not freed by a deletion: as long as a row has it,
  an offer of that title is refused, whichever the school, and nothing is written.
\<close>

theorem slug_taken_forever:
  assumes "f \<in> set (offers s)" "o_slug f = slugify (co_title dto)"
  shows "\<exists>e. createOffer slugify uuid now dto userId s = (Inl e, s)"
proof -
  have taken: "insertRow offers offers_update offerClash g u = (Inl (Failure ''P2002''), u)"
    if "o_slug g = slugify (co_title dto)" "offers u = offers s" for g u
    using assms that by (auto simp: offerClash_def insertRow_run)
  show ?thesis
    by (auto simp: createOffer_def thenE_run bindE_run findOr_run ensureCanManageSchool_run transact_run
        newId_run taken
        split: option.splits prod.splits sum.splits if_splits dest!: programFor_state checkRequirements_state)
qed

definition sample_offer_dto :: create_offer_dto where
  "sample_offer_dto =
     \<lparr>co_schoolId = ''b'', co_programId = ''p'', co_title = ''droit'', co_description = None, co_diploma = ''Licence'',
      co_duration = 3, co_tuitionFees = 1, co_prerequisites = None, co_requirementIds = None, co_capacity = None,
      co_applicationDeadline = None, co_academicYear = ''2026'', co_isOpen = None\<rparr>"

text \<open>The administrator of school b cannot create an offer because school a once had one of that title.\<close>

theorem slug_taken_forever_witness:
  "\<exists>e. createOffer id sample_uuid 7 sample_offer_dto ''u''
     (sample_offers\<lparr>offers := [(sample_offer ''f'' ''a'')\<lparr>o_deletedAt := Some 1\<rparr>]\<rparr>) =
     (Inl e, sample_offers\<lparr>offers := [(sample_offer ''f'' ''a'')\<lparr>o_deletedAt := Some 1\<rparr>]\<rparr>)"
  by (rule slug_taken_forever [of "(sample_offer ''f'' ''a'')\<lparr>o_deletedAt := Some 1\<rparr>"])
    (simp_all add: sample_offer_def sample_offer_dto_def)

section \<open>Brackets, years and cities stay well formed\<close>

lemma keyed_unique:
  "sorted_wrt (\<lambda>a b. \<not> (k a = k b \<or> l a = l b)) xs \<longleftrightarrow> distinct (map k xs) \<and> distinct (map l xs)"
  by (induction xs) (auto simp: image_iff)

lemma bracketClash_unique:
  "sorted_wrt (\<lambda>a b. \<not> bracketClash a b) xs \<longleftrightarrow> distinct (map fb_id xs) \<and> distinct (map fb_label xs)"
  by (simp only: bracketClash_def keyed_unique)

lemma academicYearClash_unique:
  "sorted_wrt (\<lambda>a b. \<not> academicYearClash a b) xs \<longleftrightarrow> distinct (map ay_id xs) \<and> distinct (map ay_label xs)"
  by (simp only: academicYearClash_def keyed_unique)

lemma cityClash_unique:
  "sorted_wrt (\<lambda>a b. \<not> cityClash a b) xs \<longleftrightarrow> distinct (map pc_id xs) \<and> distinct (map pc_name xs)"
  by (simp only: cityClash_def keyed_unique)

definition bracketsOk :: "fee_bracket_row list \<Rightarrow> bool" where
  "bracketsOk xs \<longleftrightarrow> distinct (map fb_id xs) \<and> distinct (map fb_label xs) \<and>
     list_all (\<lambda>b. rangeOk (fb_minFees b) (fb_maxFees b)) xs"

definition yearsOk :: "academic_year_row list \<Rightarrow> bool" where
  "yearsOk xs \<longleftrightarrow> distinct (map ay_id xs) \<and> distinct (map ay_label xs) \<and>
     list_all (\<lambda>y. ay_startDate y < ay_endDate y) xs \<and> count_rows ay_isCurrent xs \<le> 1"

definition citiesOk :: "platform_city_row list \<Rightarrow> bool" where
  "citiesOk xs \<longleftrightarrow> distinct (map pc_id xs) \<and> distinct (map pc_name xs)"

definition referenceOk :: "db \<Rightarrow> bool" where
  "referenceOk s \<longleftrightarrow> bracketsOk (feeBrackets s) \<and> yearsOk (academicYears s) \<and> citiesOk (platformCities s)"

lemma distinct_map_filter_rows: "distinct (map k xs) \<Longrightarrow> distinct (map k (filter P xs))"
  by (induction xs) auto

lemma key_row: "distinct (map k xs) \<Longrightarrow> find (\<lambda>x. k x = i) xs = Some r \<Longrightarrow> x \<in> set xs \<Longrightarrow> k x = i \<Longrightarrow> x = r"
  using find_Some_in [of "\<lambda>x. k x = i" xs r] by (metis (mono_tags) find_key option.inject)

lemma createBracket_ok:
  assumes "referenceOk s" "createBracket uuid dto s = (r, t)"
  shows "referenceOk t"
  using assms
  by (auto simp: createBracket_def assertRange_def assertLabelAvailable_def exec_simps referenceOk_def
      bracketsOk_def bracketClash_def image_iff eq_commute split: if_splits)

lemma updateBracket_ok:
  assumes "referenceOk s" "updateBracket i dto s = (r, t)"
  shows "referenceOk t"
proof (cases "t = s")
  case False
  with assms(2) obtain b where b: "find (\<lambda>b. fb_id b = i) (feeBrackets s) = Some b"
      and range: "rangeOk (nullish (ub_minFees dto) (fb_minFees b)) (nullish (ub_maxFees dto) (fb_maxFees b))"
      and unique: "sorted_wrt (\<lambda>a b. \<not> bracketClash a b)
            (update_rows (\<lambda>x. fb_id x = i) (bracketUpdate dto) (feeBrackets s))"
      and t: "t = s\<lparr>feeBrackets := update_rows (\<lambda>x. fb_id x = i) (bracketUpdate dto) (feeBrackets s)\<rparr>"
    by (auto simp: updateBracket_def findBracket_def assertRange_def assertLabelAvailable_def exec_simps
        split: option.splits if_splits)
  have "list_all (\<lambda>b. rangeOk (fb_minFees b) (fb_maxFees b))
      (update_rows (\<lambda>x. fb_id x = i) (bracketUpdate dto) (feeBrackets s))"
    using assms(1) range key_row [OF _ b]
    by (auto simp: list_all_iff set_update_rows referenceOk_def bracketsOk_def bracketUpdate_def)
  then show ?thesis using assms(1) unique by (simp add: t referenceOk_def bracketsOk_def bracketClash_unique)
qed (use assms(1) in simp)

lemma deleteBracket_ok:
  assumes "referenceOk s" "deleteBracket i s = (r, t)"
  shows "referenceOk t"
  using assms
  by (auto simp: deleteBracket_def findBracket_def exec_simps referenceOk_def bracketsOk_def list_all_iff
      distinct_map_filter_rows split: option.splits)

lemma clearCurrent_rows:
  "count_rows ay_isCurrent (update_rows ay_isCurrent (\<lambda>y. y\<lparr>ay_isCurrent := False\<rparr>) xs) = 0"
  by (induction xs) auto

text \<open>The years after a creation that makes the new one current has cleared the others.\<close>

definition clearedYears :: "bool option \<Rightarrow> academic_year_row list \<Rightarrow> academic_year_row list" where
  "clearedYears cur xs =
     (if nullish cur False then update_rows ay_isCurrent (\<lambda>y. y\<lparr>ay_isCurrent := False\<rparr>) xs else xs)"

lemma createYear_run:
  "createYear uuid dto s =
     (if \<not> cy_startDate dto < cy_endDate dto
      then (Inl (BadRequest ''La date de fin doit etre posterieure a la date de debut''), s)
      else if find (\<lambda>y. ay_label y = trim (cy_label dto)) (academicYears s) \<noteq> None
      then (Inl (BadRequest ''Une annee scolaire porte deja ce nom''), s)
      else insertYear uuid dto (s\<lparr>academicYears := clearedYears (cy_isCurrent dto) (academicYears s)\<rparr>))"
  by (simp add: createYear_def assertDateOrder_def assertYearLabelAvailable_def clearCurrentYear_def exec_simps
      clearedYears_def)

lemma insertYear_effect:
  assumes "insertYear uuid dto s = (r, t)"
  shows "feeBrackets t = feeBrackets s \<and> platformCities t = platformCities s \<and>
    (academicYears t = academicYears s \<or>
     (\<exists>y. academicYears t = academicYears s @ [y] \<and> (\<forall>x \<in> set (academicYears s). \<not> academicYearClash x y) \<and>
          ay_startDate y = cy_startDate dto \<and> ay_endDate y = cy_endDate dto \<and>
          ay_isCurrent y = nullish (cy_isCurrent dto) False))"
  using assms by (auto simp: insertYear_def exec_simps split: if_splits)

lemma yearsOk_append:
  assumes "yearsOk xs" "\<forall>x \<in> set xs. \<not> academicYearClash x y" "ay_startDate y < ay_endDate y"
    "ay_isCurrent y \<Longrightarrow> count_rows ay_isCurrent xs = 0"
  shows "yearsOk (xs @ [y])"
proof -
  have "ay_id y \<notin> ay_id ` set xs" "ay_label y \<notin> ay_label ` set xs"
    using assms(2) by (metis imageE academicYearClash_def)+
  then show ?thesis using assms by (simp add: yearsOk_def)
qed

lemma clearedYears_ok: "yearsOk xs \<Longrightarrow> yearsOk (clearedYears cur xs)"
  by (auto simp: yearsOk_def clearedYears_def clearCurrent_rows list_all_iff set_update_rows)

lemma clearedYears_none: "nullish cur False \<Longrightarrow> count_rows ay_isCurrent (clearedYears cur xs) = 0"
  by (simp add: clearedYears_def clearCurrent_rows)

lemma createYear_ok:
  assumes "referenceOk s" "createYear uuid dto s = (r, t)"
  shows "referenceOk t"
proof (cases "t = s")
  case False
  let ?u = "s\<lparr>academicYears := clearedYears (cy_isCurrent dto) (academicYears s)\<rparr>"
  have order: "cy_startDate dto < cy_endDate dto" and ins: "insertYear uuid dto ?u = (r, t)"
    using False assms(2) by (auto simp: createYear_run split: if_splits)
  have ok: "yearsOk (academicYears ?u)" using assms(1) by (simp add: referenceOk_def clearedYears_ok)
  note e = insertYear_effect [OF ins]
  have "yearsOk (academicYears t)"
  proof (cases "academicYears t = academicYears ?u")
    case True
    then show ?thesis using ok by simp
  next
    case False
    with e obtain y where y: "academicYears t = academicYears ?u @ [y]"
        "\<forall>x \<in> set (academicYears ?u). \<not> academicYearClash x y" "ay_startDate y = cy_startDate dto"
        "ay_endDate y = cy_endDate dto" "ay_isCurrent y = nullish (cy_isCurrent dto) False"
      by blast
    show ?thesis unfolding y(1)
      by (rule yearsOk_append [OF ok y(2)]) (simp_all add: order y clearedYears_none)
  qed
  with e show ?thesis using assms(1) by (simp add: referenceOk_def)
qed (use assms(1) in simp)

lemma clearOthers_rows:
  "distinct (map ay_id xs) \<Longrightarrow>
   count_rows ay_isCurrent
     (update_rows (\<lambda>x. ay_id x = i) f (update_rows (\<lambda>y. ay_isCurrent y \<and> ay_id y \<noteq> i) (\<lambda>y. y\<lparr>ay_isCurrent := False\<rparr>) xs)) \<le> 1"
proof (induction xs)
  case (Cons x xs)
  have none: "count_rows ay_isCurrent
     (update_rows (\<lambda>x. ay_id x = i) f (update_rows (\<lambda>y. ay_isCurrent y \<and> ay_id y \<noteq> i) (\<lambda>y. y\<lparr>ay_isCurrent := False\<rparr>) ys)) = 0"
    if "i \<notin> ay_id ` set ys" for ys
    using that by (induction ys) auto
  show ?case
  proof (cases "ay_id x = i")
    case True
    with Cons.prems show ?thesis by (simp add: none)
  next
    case False
    with Cons show ?thesis by simp
  qed
qed simp

definition clearedOthers :: "id \<Rightarrow> bool option \<Rightarrow> academic_year_row list \<Rightarrow> academic_year_row list" where
  "clearedOthers i cur xs =
     (if nullish cur False
      then update_rows (\<lambda>y. ay_isCurrent y \<and> ay_id y \<noteq> i) (\<lambda>y. y\<lparr>ay_isCurrent := False\<rparr>) xs else xs)"

definition writeAcademicYear :: "id \<Rightarrow> update_year_dto \<Rightarrow> (db, academic_year_row) exec" where
  "writeAcademicYear i dto =
     thenE (updateUnique academicYears academicYears_update academicYearClash (\<lambda>x. ay_id x = i) (yearUpdate dto))
     (findOr academicYears (\<lambda>x. ay_id x = i) (Failure ''P2025''))"

lemma updateYear_run:
  "updateYear i dto s =
     (case find (\<lambda>y. ay_id y = i) (academicYears s) of
        None \<Rightarrow> (Inl (NotFound ''Annee scolaire introuvable''), s)
      | Some y \<Rightarrow>
         if \<not> nullish (uy_startDate dto) (ay_startDate y) < nullish (uy_endDate dto) (ay_endDate y)
         then (Inl (BadRequest ''La date de fin doit etre posterieure a la date de debut''), s)
         else if renames (uy_label dto) (ay_label y) \<and>
                 find (\<lambda>y. ay_label y = trim (nullish (uy_label dto) [])) (academicYears s) \<noteq> None
         then (Inl (BadRequest ''Une annee scolaire porte deja ce nom''), s)
         else writeAcademicYear i dto (s\<lparr>academicYears := clearedOthers i (uy_isCurrent dto) (academicYears s)\<rparr>))"
  unfolding writeAcademicYear_def [symmetric] updateYear_def findYear_def
  by (simp add: assertDateOrder_def assertYearLabelAvailable_def clearOthers_def exec_simps
      clearedOthers_def split: option.split)

lemma writeAcademicYear_effect:
  assumes "writeAcademicYear i dto s = (r, t)"
  shows "feeBrackets t = feeBrackets s \<and> platformCities t = platformCities s \<and>
    (academicYears t = academicYears s \<or>
     sorted_wrt (\<lambda>a b. \<not> academicYearClash a b) (academicYears t) \<and>
     academicYears t = update_rows (\<lambda>x. ay_id x = i) (yearUpdate dto) (academicYears s))"
  using assms by (auto simp: writeAcademicYear_def exec_simps split: if_splits option.splits)

lemma count_cleared:
  "count_rows ay_isCurrent (update_rows Q (\<lambda>y. y\<lparr>ay_isCurrent := False\<rparr>) xs) \<le> count_rows ay_isCurrent xs"
  by (induction xs) auto

lemma clearedOthers_ok: "yearsOk xs \<Longrightarrow> yearsOk (clearedOthers i cur xs)"
  using count_cleared [of "\<lambda>y. ay_isCurrent y \<and> ay_id y \<noteq> i" xs]
  by (auto simp: yearsOk_def clearedOthers_def list_all_iff set_update_rows)

lemma count_not_raised:
  assumes "\<And>x. P (f x) \<Longrightarrow> P x"
  shows "count_rows P (update_rows Q f xs) \<le> count_rows P xs"
  by (induction xs) (auto intro: le_SucI dest: assms)

lemma updateYear_one:
  assumes "yearsOk xs"
  shows "count_rows ay_isCurrent
    (update_rows (\<lambda>x. ay_id x = i) (yearUpdate dto) (clearedOthers i (uy_isCurrent dto) xs)) \<le> 1"
proof (cases "nullish (uy_isCurrent dto) False")
  case True
  moreover have "distinct (map ay_id xs)" using assms by (simp add: yearsOk_def)
  ultimately show ?thesis using clearOthers_rows by (simp add: clearedOthers_def)
next
  case False
  then have "ay_isCurrent (yearUpdate dto y) \<Longrightarrow> ay_isCurrent y" for y
    by (cases "uy_isCurrent dto") (auto simp: yearUpdate_def)
  then have "count_rows ay_isCurrent (update_rows (\<lambda>x. ay_id x = i) (yearUpdate dto) xs) \<le> count_rows ay_isCurrent xs"
    by (rule count_not_raised)
  then show ?thesis using False assms by (simp add: clearedOthers_def yearsOk_def)
qed

lemma updateYear_order:
  assumes "yearsOk xs" "find (\<lambda>y. ay_id y = i) xs = Some y"
    "nullish (uy_startDate dto) (ay_startDate y) < nullish (uy_endDate dto) (ay_endDate y)"
  shows "list_all (\<lambda>y. ay_startDate y < ay_endDate y)
    (update_rows (\<lambda>x. ay_id x = i) (yearUpdate dto) (clearedOthers i cur xs))"
proof -
  have "ay_startDate x = ay_startDate y \<and> ay_endDate x = ay_endDate y"
    if "x \<in> set (clearedOthers i cur xs)" "ay_id x = i" for x
    using that key_row [OF _ assms(2)] assms(1)
    by (auto simp: clearedOthers_def set_update_rows yearsOk_def split: if_splits)
  moreover have "list_all (\<lambda>y. ay_startDate y < ay_endDate y) (clearedOthers i cur xs)"
    using clearedOthers_ok [OF assms(1)] by (simp add: yearsOk_def)
  ultimately show ?thesis using assms(3) by (auto simp: list_all_iff set_update_rows yearUpdate_def)
qed

lemma updateYear_ok:
  assumes "referenceOk s" "updateYear i dto s = (r, t)"
  shows "referenceOk t"
proof (cases "t = s")
  case False
  let ?xs = "clearedOthers i (uy_isCurrent dto) (academicYears s)"
  have ok: "yearsOk (academicYears s)" using assms(1) by (simp add: referenceOk_def)
  from False assms(2) obtain y where y: "find (\<lambda>y. ay_id y = i) (academicYears s) = Some y"
      "nullish (uy_startDate dto) (ay_startDate y) < nullish (uy_endDate dto) (ay_endDate y)"
      and w: "writeAcademicYear i dto (s\<lparr>academicYears := ?xs\<rparr>) = (r, t)"
    by (auto simp: updateYear_run split: option.splits if_splits)
  note e = writeAcademicYear_effect [OF w]
  have "yearsOk (academicYears t)"
  proof (cases "academicYears t = ?xs")
    case True
    then show ?thesis using clearedOthers_ok [OF ok] by simp
  next
    case False
    then have t: "academicYears t = update_rows (\<lambda>x. ay_id x = i) (yearUpdate dto) ?xs"
      using e by simp
    have u: "sorted_wrt (\<lambda>a b. \<not> academicYearClash a b) (academicYears t)"
      using False e by fastforce
    have "count_rows ay_isCurrent (academicYears t) \<le> 1" unfolding t by (rule updateYear_one [OF ok])
    moreover have "list_all (\<lambda>y. ay_startDate y < ay_endDate y) (academicYears t)"
      unfolding t by (rule updateYear_order [OF ok y])
    ultimately show ?thesis using u by (simp add: yearsOk_def academicYearClash_unique)
  qed
  with e show ?thesis using assms(1) by (simp add: referenceOk_def)
qed (use assms(1) in simp)

lemma count_filter_le: "count_rows P (filter Q xs) \<le> count_rows P xs"
  by (induction xs) auto

lemma deleteYear_ok:
  assumes "referenceOk s" "deleteYear i s = (r, t)"
  shows "referenceOk t"
  using assms count_filter_le [of ay_isCurrent "\<lambda>y. ay_id y \<noteq> i" "academicYears s"]
  by (auto simp: deleteYear_def findYear_def exec_simps referenceOk_def yearsOk_def list_all_iff
      distinct_map_filter_rows split: option.splits if_splits)

lemma createCity_ok:
  assumes "referenceOk s" "createCity uuid name b s = (r, t)"
  shows "referenceOk t"
  using assms
  by (auto simp: createCity_def assertNameAvailable_def exec_simps referenceOk_def
      citiesOk_def cityClash_def image_iff eq_commute split: if_splits)

lemma updateCity_ok:
  assumes "referenceOk s" "updateCity i name b s = (r, t)"
  shows "referenceOk t"
  using assms
  by (auto simp: updateCity_def findCity_def assertNameAvailable_def exec_simps referenceOk_def
      citiesOk_def cityClash_unique split: option.splits if_splits)

lemma deleteCity_ok:
  assumes "referenceOk s" "deleteCity i s = (r, t)"
  shows "referenceOk t"
  using assms
  by (auto simp: deleteCity_def findCity_def exec_simps referenceOk_def citiesOk_def
      distinct_map_filter_rows split: option.splits)

text \<open>Requests on the reference data, served one after the other; a failed one answers its caller.\<close>

datatype reference_request =
    CreateBracket create_bracket_dto
  | UpdateBracket id update_bracket_dto
  | DeleteBracket id
  | CreateYear create_year_dto
  | UpdateYear id update_year_dto
  | DeleteYear id
  | CreateCity string "bool option"
  | UpdateCity id "string option" "bool option"
  | DeleteCity id

primrec serveReference :: "(nat \<Rightarrow> id) \<Rightarrow> reference_request \<Rightarrow> (db, unit) exec" where
  "serveReference uuid (CreateBracket dto) = bestEffort (createBracket uuid dto)"
| "serveReference uuid (UpdateBracket i dto) = bestEffort (updateBracket i dto)"
| "serveReference uuid (DeleteBracket i) = bestEffort (deleteBracket i)"
| "serveReference uuid (CreateYear dto) = bestEffort (createYear uuid dto)"
| "serveReference uuid (UpdateYear i dto) = bestEffort (updateYear i dto)"
| "serveReference uuid (DeleteYear i) = bestEffort (deleteYear i)"
| "serveReference uuid (CreateCity n b) = bestEffort (createCity uuid n b)"
| "serveReference uuid (UpdateCity i n b) = bestEffort (updateCity i n b)"
| "serveReference uuid (DeleteCity i) = bestEffort (deleteCity i)"

lemmas reference_ops_ok =
  createBracket_ok updateBracket_ok deleteBracket_ok createYear_ok updateYear_ok deleteYear_ok
  createCity_ok updateCity_ok deleteCity_ok

lemma serveReference_ok: "steps (keeps referenceOk) (serveReference uuid q) s"
proof -
  have ok: "steps (keeps referenceOk) (bestEffort m) s"
    if "\<And>r t. referenceOk s \<Longrightarrow> m s = (r, t) \<Longrightarrow> referenceOk t" for m :: "(db, 'a) exec"
    using that by (intro inv.steps_bestEffort stepsI) (simp add: keeps_def)
  show ?thesis by (cases q) (simp_all, (rule ok, erule reference_ops_ok, assumption)+)
qed

text \<open>
  C35. Whatever requests are made, one after the other, the labels of the brackets and of the years
  and the names of the cities are unique, a bracket's upper bound is above its lower one, a year
  ends after it starts, and at most one year is current.
\<close>

theorem reference_data_ok:
  assumes "referenceOk s"
  shows "referenceOk (snd (forEach qs (serveReference uuid) s))"
  using steps_keepsD [OF inv.steps_forEach [OF serveReference_ok] assms prod.collapse [symmetric]] .

definition sample_year :: "string \<Rightarrow> create_year_dto" where
  "sample_year l = \<lparr>cy_label = l, cy_startDate = 1, cy_endDate = 2, cy_isCurrent = Some True\<rparr>"

theorem reference_data_ok_witness:
  "referenceOk (snd (forEach [CreateYear (sample_year ''2025''), CreateYear (sample_year ''2026''),
     CreateCity ''Antsirabe '' None, DeleteYear ''id-''] (serveReference sample_uuid) empty_db))"
  by (rule reference_data_ok) (simp add: referenceOk_def bracketsOk_def yearsOk_def citiesOk_def empty_db_def)

text \<open>
  Two concurrent creations of a current year: each clears the flag before the other inserts, and
  both years are current.
\<close>

lemma insertYear_run:
  assumes "\<forall>x \<in> set (academicYears s). ay_id x \<noteq> uuid (seqNo s) \<and> ay_label x \<noteq> trim (cy_label dto)"
  shows "insertYear uuid dto s =
    (let y = \<lparr>ay_id = uuid (seqNo s), ay_label = trim (cy_label dto), ay_startDate = cy_startDate dto,
              ay_endDate = cy_endDate dto, ay_isCurrent = nullish (cy_isCurrent dto) False\<rparr> in
     (Inr y, s\<lparr>seqNo := Suc (seqNo s), academicYears := academicYears s @ [y]\<rparr>))"
  using assms by (auto simp: insertYear_def exec_simps academicYearClash_def Let_def)

theorem concurrent_current_years:
  assumes "\<forall>x \<in> set (academicYears s). ay_id x \<noteq> uuid (seqNo s) \<and> ay_id x \<noteq> uuid (Suc (seqNo s)) \<and>
             ay_label x \<noteq> trim (cy_label a) \<and> ay_label x \<noteq> trim (cy_label b)"
    and "uuid (seqNo s) \<noteq> uuid (Suc (seqNo s))" "trim (cy_label a) \<noteq> trim (cy_label b)"
    and "cy_isCurrent a = Some True" "cy_isCurrent b = Some True"
  shows "count_rows ay_isCurrent (academicYears (snd
    (thenE clearCurrentYear (thenE clearCurrentYear (thenE (insertYear uuid a) (insertYear uuid b))) s))) = 2"
proof -
  let ?u = "s\<lparr>academicYears := update_rows ay_isCurrent (\<lambda>y. y\<lparr>ay_isCurrent := False\<rparr>)
                (update_rows ay_isCurrent (\<lambda>y. y\<lparr>ay_isCurrent := False\<rparr>) (academicYears s))\<rparr>"
  have u: "\<forall>x \<in> set (academicYears ?u). ay_id x \<noteq> uuid (seqNo s) \<and> ay_id x \<noteq> uuid (Suc (seqNo s)) \<and>
             ay_label x \<noteq> trim (cy_label a) \<and> ay_label x \<noteq> trim (cy_label b)"
    using assms(1) by (auto simp: set_update_rows)
  show ?thesis
    using u assms(2-5)
    by (auto simp: thenE_run clearCurrentYear_def updateMany_run insertYear_run Let_def clearCurrent_rows)
qed

section \<open>Settings, accounts, dashboard\<close>

text \<open>An update replaces the whole value: what it leaves out goes back to the default.\<close>

lemma updateSettings_result:
  "fst (updateSettings dto s) = Inr (settingsDefaults ++ settingsValue dto)"
proof -
  have "find (\<lambda>c. cf_key c = ''platform.settings'') (update_rows (\<lambda>c. cf_key c = ''platform.settings'') (\<lambda>c. c\<lparr>cf_value := v\<rparr>) xs) =
      map_option (\<lambda>c. c\<lparr>cf_value := v\<rparr>) (find (\<lambda>c. cf_key c = ''platform.settings'') xs)" for v and xs :: "config_row list"
    by (induction xs) auto
  moreover have "find (\<lambda>c. cf_key c = k) (xs @ [y]) = Some y"
    if "\<forall>c \<in> set xs. cf_key c \<noteq> k" "cf_key y = k" for k y and xs :: "config_row list"
    using that by (induction xs) auto
  ultimately show ?thesis
    by (auto simp: updateSettings_def getSettings_def exec_simps find_None split: option.split)
qed

text \<open>Nobody switches his own account off.\<close>

lemma own_account_stays_active:
  assumes "setActive i b me s = (r, t)" "u \<in> set (users s)" "u_id u = me" "u_isActive u"
  shows "\<exists>v \<in> set (users t). u_id v = me \<and> u_isActive v"
proof (cases "t = s")
  case False
  with assms(1) have "users t = update_rows (\<lambda>u. u_id u = i) (\<lambda>u. u\<lparr>u_isActive := b\<rparr>) (users s)"
      and "i = me \<longrightarrow> b"
    by (auto simp: setActive_def exec_simps split: if_splits option.splits)
  then show ?thesis using assms(2-4)
    by (auto intro!: bexI [of _ "if u_id u = i then u\<lparr>u_isActive := b\<rparr> else u"] in_update_rowsI)
qed (use assms in blast)

lemma toFixed1_mono: "x \<le> y \<Longrightarrow> toFixed1 x \<le> toFixed1 y"
  by (simp add: toFixed1_def divide_right_mono floor_mono)

lemma acceptanceRate_range:
  assumes "a \<le> n"
  shows "0 \<le> acceptanceRate a n \<and> acceptanceRate a n \<le> 100"
proof (cases "n = 0")
  case False
  have "0 \<le> (of_nat a / of_nat n * 100 :: rat)" "(of_nat a / of_nat n * 100 :: rat) \<le> 100"
    using assms False by (simp_all add: divide_le_eq)
  then have "toFixed1 0 \<le> acceptanceRate a n" "acceptanceRate a n \<le> toFixed1 100"
    using False by (auto simp: acceptanceRate_def intro!: toFixed1_mono)
  moreover have "toFixed1 0 = 0" "toFixed1 100 = 100" by (simp_all add: toFixed1_def floor_eq_iff)
  ultimately show ?thesis by simp
qed (simp add: acceptanceRate_def)

text \<open>Students counted once are at most the registrations counted.\<close>

lemma count_students_le:
  assumes "distinct (map st_id xs)"
  shows "count_rows (\<lambda>x. st_deletedAt x = None \<and> list_ex (\<lambda>e. e_studentId e = st_id x \<and> e_status e = ACTIVE) es) xs
    \<le> count_rows (\<lambda>e. e_status e = ACTIVE \<and> list_ex (\<lambda>x. st_id x = e_studentId e \<and> st_deletedAt x = None) xs) es"
    (is "count_rows ?P xs \<le> count_rows ?Q es")
proof -
  have "distinct (map st_id (filter ?P xs))" using assms by (rule distinct_map_filter_rows)
  then have "card (set (map st_id (filter ?P xs))) = length (map st_id (filter ?P xs))" by (rule distinct_card)
  then have "count_rows ?P xs = card (st_id ` set (filter ?P xs))"
    by (simp only: count_rows_def length_map set_map)
  also have "\<dots> \<le> card (e_studentId ` set (filter ?Q es))"
  proof (rule card_mono, simp, rule subsetI)
    fix i assume "i \<in> st_id ` set (filter ?P xs)"
    then obtain x e where "x \<in> set xs" "st_deletedAt x = None" "e \<in> set es" "e_studentId e = st_id x"
        "e_status e = ACTIVE" "i = st_id x"
      by (auto simp: list_ex_iff)
    then have "e \<in> set (filter ?Q es)" "i = e_studentId e" by (auto simp: list_ex_iff)
    then show "i \<in> e_studentId ` set (filter ?Q es)" by blast
  qed
  also have "\<dots> \<le> length (filter ?Q es)"
    using card_length [of "map e_studentId (filter ?Q es)"] by (simp only: length_map set_map)
  finally show ?thesis by (simp add: count_rows_def)
qed

theorem summary_consistent:
  assumes "distinct (map st_id (students s))"
  shows "\<exists>m. getSummary s = (Inr m, s) \<and> sm_distinctEnrolledStudents m \<le> sm_enrolledStudents m \<and>
    sm_pendingApplications m \<le> sm_totalApplications m \<and>
    0 \<le> sm_acceptanceRate m \<and> sm_acceptanceRate m \<le> 100"
proof -
  have "count_rows P xs \<le> length xs" for P and xs :: "application_row list"
    by (simp add: count_rows_def)
  then show ?thesis
    using acceptanceRate_range count_students_le [OF assms]
    by (simp add: getSummary_def asks_run Let_def)
qed

end
