(* ===== verification/Csv.thy ===== *)
theory Csv
  imports Text
begin

text \<open>
  The CSV exports: \<open>toCsv\<close> of \<open>school/school.service.ts\<close> (separator \<open>,\<close>, quotes only where
  needed) and of \<open>ministry/report-exporter.ts\<close> (separator \<open>;\<close>, quotes everywhere). A text is
  the list of its UTF-8 bytes: the characters the code looks for are ASCII, so escaping the
  bytes is escaping the text. The specification is a reader of CSV files (RFC 4180, line ends
  LF or CRLF): it must give back every cell, and no cell may start with a character that makes a
  spreadsheet take it for a formula.
\<close>

section \<open>Writing\<close>

text \<open>\<open>/^[=+\-@]/.test(raw) ? `'${raw}` : raw\<close>\<close>

definition formulaStart :: "char \<Rightarrow> bool" where
  "formulaStart c \<longleftrightarrow> c \<in> set ''=+-@''"

definition apostrophe :: char where
  "apostrophe = CHR 0x27"

definition doubleQuote :: char where
  "doubleQuote = CHR 0x22"

definition neutralise :: "string \<Rightarrow> string" where
  "neutralise raw = (case raw of [] \<Rightarrow> [] | c # cs \<Rightarrow> if formulaStart c then apostrophe # raw else raw)"

definition doubled :: "string \<Rightarrow> string" where
  "doubled s = replaceChar doubleQuote [doubleQuote, doubleQuote] s"

definition quoted :: "string \<Rightarrow> string" where
  "quoted s = [doubleQuote] @ doubled s @ [doubleQuote]"

text \<open>The \<open>escapeCsv\<close> of the reports, and the inner function \<open>escape\<close> of the schools' exports.\<close>

definition escapeCsv :: "string \<Rightarrow> string" where
  "escapeCsv v = quoted (neutralise v)"

definition csvSpecial :: "char \<Rightarrow> bool" where
  "csvSpecial c \<longleftrightarrow> c = doubleQuote \<or> c = CHR '','' \<or> c = CHR 0x0D \<or> c = CHR 0x0A"

definition escapeCell :: "string option \<Rightarrow> string" where
  "escapeCell v =
     (let normalized = doubled (neutralise (nullish v []))
      in if list_ex csvSpecial normalized then [doubleQuote] @ normalized @ [doubleQuote] else normalized)"

definition byteOrderMark :: string where
  "byteOrderMark = [CHR 0xEF, CHR 0xBB, CHR 0xBF]"

definition crlf :: string where
  "crlf = [CHR 0x0D, CHR 0x0A]"

definition schoolCsv :: "string list \<Rightarrow> string option list list \<Rightarrow> string" where
  "schoolCsv headers rows =
     byteOrderMark @
     joinWith crlf (map (\<lambda>row. joinWith '','' (map escapeCell row)) (map Some headers # rows)) @ crlf"

definition reportCsv :: "string list list \<Rightarrow> string" where
  "reportCsv rows =
     byteOrderMark @
     joinWith newline
       (map (\<lambda>row. joinWith '';'' (map escapeCsv row))
          ([''Section'', ''Indicateur'', ''Dimension'', ''Valeur''] # rows)) @ newline"

section \<open>Reading\<close>

datatype csv_mode = AtStart | InPlain | InQuotes

fun readCsv :: "char \<Rightarrow> csv_mode \<Rightarrow> string \<Rightarrow> string list \<Rightarrow> string \<Rightarrow> string list list" where
  "readCsv sep m f row [] = (if m = AtStart \<and> row = [] then [] else [row @ [f]])"
| "readCsv sep InQuotes f row (c # cs) =
     (if c \<noteq> doubleQuote then readCsv sep InQuotes (f @ [c]) row cs
      else case cs of
             [] \<Rightarrow> [row @ [f]]
           | d # ds \<Rightarrow> if d = doubleQuote then readCsv sep InQuotes (f @ [d]) row ds
                      else readCsv sep InPlain f row cs)"
| "readCsv sep m f row (c # cs) =
     (if c = doubleQuote \<and> m = AtStart then readCsv sep InQuotes [] row cs
      else if c = sep then readCsv sep AtStart [] (row @ [f]) cs
      else if c = CHR 0x0A then (row @ [f]) # readCsv sep AtStart [] [] cs
      else if c = CHR 0x0D \<and> (case cs of [] \<Rightarrow> False | d # ds \<Rightarrow> d = CHR 0x0A) then
        (row @ [f]) # readCsv sep AtStart [] [] (tl cs)
      else readCsv sep InPlain (f @ [c]) row cs)"

definition readCsvFile :: "char \<Rightarrow> string \<Rightarrow> string list list" where
  "readCsvFile sep file = readCsv sep AtStart [] [] (drop (length byteOrderMark) file)"

section \<open>Every cell comes back\<close>

lemmas csv_chars = doubleQuote_def csvSpecial_def apostrophe_def

text \<open>What may follow a cell: a separator or the end of its line.\<close>

definition cellEnd :: "char \<Rightarrow> string \<Rightarrow> bool" where
  "cellEnd sep rest \<longleftrightarrow> (\<exists>cs. rest = sep # cs \<or> rest = newline @ cs \<or> rest = crlf @ cs)"

lemma cellEnd_cases:
  assumes "cellEnd sep rest"
  obtains cs where "rest = sep # cs" | cs where "rest = CHR 0x0A # cs" | cs where "rest = CHR 0x0D # CHR 0x0A # cs"
  using assms by (auto simp: cellEnd_def crlf_def)

lemma cellEnd_simps [simp]:
  "cellEnd sep (sep # cs)" "cellEnd sep (CHR 0x0A # cs)" "cellEnd sep (crlf @ cs)"
  by (auto simp: cellEnd_def)

lemma doubled_simps [simp]:
  "doubled [] = []"
  "doubled (c # cs) = (if c = doubleQuote then [c, c] else [c]) @ doubled cs"
  by (auto simp: doubled_def)

lemma doubled_specials: "c \<noteq> doubleQuote \<Longrightarrow> c \<in> set (doubled s) \<longleftrightarrow> c \<in> set s"
  by (induction s) auto

lemma doubled_quote: "doubleQuote \<in> set (doubled s) \<longleftrightarrow> doubleQuote \<in> set s"
  by (induction s) auto

lemma doubled_plain: "doubleQuote \<notin> set s \<Longrightarrow> doubled s = s"
  by (induction s) auto

text \<open>Inside quotes the reader takes everything, doubled quotes as one, until the closing quote.\<close>

lemma read_quoted:
  assumes "cellEnd sep rest" "sep \<noteq> doubleQuote"
  shows "readCsv sep InQuotes f row (doubled v @ doubleQuote # rest) = readCsv sep InPlain (f @ v) row rest"
proof (induction v arbitrary: f)
  case Nil
  from assms show ?case by (cases rule: cellEnd_cases) (simp_all add: csv_chars)
next
  case (Cons c v)
  then show ?case by (cases "c = doubleQuote") simp_all
qed

lemma read_plain:
  assumes "list_all (\<lambda>c. \<not> csvSpecial c) v" "sep \<notin> set v" "m \<noteq> InQuotes"
  shows "readCsv sep m f row (v @ rest) = readCsv sep (if v = [] then m else InPlain) (f @ v) row rest"
  using assms
proof (induction v arbitrary: m f)
  case (Cons c v)
  have "readCsv sep m f row ((c # v) @ rest) = readCsv sep InPlain (f @ [c]) row (v @ rest)"
    using Cons.prems by (cases m) (auto simp: csv_chars)
  also have "\<dots> = readCsv sep InPlain (f @ [c] @ v) row rest"
    using Cons.IH [of InPlain "f @ [c]"] Cons.prems by simp
  finally show ?case by simp
qed simp

text \<open>An encoder of cells is readable when the reader takes its output for the cell.\<close>

definition readable :: "char \<Rightarrow> ('a \<Rightarrow> string) \<Rightarrow> ('a \<Rightarrow> string) \<Rightarrow> bool" where
  "readable sep enc cell \<longleftrightarrow>
     (\<forall>v row rest. cellEnd sep rest \<longrightarrow>
        (\<exists>m. m \<noteq> InQuotes \<and>
             readCsv sep AtStart [] row (enc v @ rest) = readCsv sep m (cell v) row rest))"

lemma readable_escapeCsv: "readable (CHR '';'') escapeCsv neutralise"
  unfolding readable_def
proof (intro allI impI exI conjI)
  fix v row rest
  assume "cellEnd (CHR '';'') rest"
  then show "readCsv (CHR '';'') AtStart [] row (escapeCsv v @ rest) =
      readCsv (CHR '';'') InPlain (neutralise v) row rest"
    using read_quoted [of "CHR '';''" rest "[]" row "neutralise v"]
    by (simp add: escapeCsv_def quoted_def csv_chars)
qed simp

lemma readable_escapeCell: "readable (CHR '','') escapeCell (\<lambda>v. neutralise (nullish v []))"
  unfolding readable_def
proof (intro allI impI)
  fix v row rest
  let ?s = "neutralise (nullish v [])" and ?sep = "CHR '',''"
  assume r: "cellEnd ?sep rest"
  show "\<exists>m. m \<noteq> InQuotes \<and> readCsv ?sep AtStart [] row (escapeCell v @ rest) = readCsv ?sep m ?s row rest"
  proof (cases "list_ex csvSpecial (doubled ?s)")
    case True
    then show ?thesis
      using read_quoted [OF r, of "[]" row ?s]
      by (intro exI [of _ InPlain]) (simp add: escapeCell_def Let_def csv_chars)
  next
    case False
    then have plain: "list_all (\<lambda>c. \<not> csvSpecial c) (doubled ?s)" by (simp add: list_all_iff list_ex_iff)
    then have "doubleQuote \<notin> set (doubled ?s)" "?sep \<notin> set (doubled ?s)"
      by (auto simp: list_all_iff csvSpecial_def)
    then have "doubleQuote \<notin> set ?s" "?sep \<notin> set (doubled ?s)" by (simp_all add: doubled_quote)
    moreover from this have "doubled ?s = ?s" by (simp add: doubled_plain)
    ultimately show ?thesis
      using read_plain [OF plain, of ?sep AtStart "[]" row rest] False
      by (intro exI [of _ "if ?s = [] then AtStart else InPlain"]) (simp add: escapeCell_def Let_def)
  qed
qed

lemma read_end:
  assumes "eol = newline \<or> eol = crlf" "sep \<noteq> CHR 0x0A" "sep \<noteq> CHR 0x0D" "m \<noteq> InQuotes"
  shows "readCsv sep m f row (eol @ rest) = (row @ [f]) # readCsv sep AtStart [] [] rest"
  using assms(1)
proof
  assume "eol = newline"
  then show ?thesis using assms(2-4) by (cases m) (simp_all add: doubleQuote_def)
next
  assume "eol = crlf"
  then show ?thesis using assms(2-4) by (cases m) (simp_all add: doubleQuote_def crlf_def)
qed

text \<open>A line of readable cells is read as the row of its cells.\<close>

lemma read_line:
  assumes enc: "readable sep enc cell" and sep: "sep \<noteq> doubleQuote" "sep \<noteq> CHR 0x0A" "sep \<noteq> CHR 0x0D"
    and "vs \<noteq> []" "eol = newline \<or> eol = crlf"
  shows "readCsv sep AtStart [] row (joinWith [sep] (map enc vs) @ eol @ rest) =
    (row @ map cell vs) # readCsv sep AtStart [] [] rest"
  using \<open>vs \<noteq> []\<close>
proof (induction vs arbitrary: row rule: induct_list012)
  case (2 v)
  have "cellEnd sep (eol @ rest)" using assms(6) by (auto simp: cellEnd_def)
  with enc obtain m where "m \<noteq> InQuotes"
      "readCsv sep AtStart [] row (enc v @ eol @ rest) = readCsv sep m (cell v) row (eol @ rest)"
    unfolding readable_def by blast
  with read_end [OF assms(6) sep(2,3) this(1)] show ?case by simp
next
  case (3 v w vs)
  let ?rest = "joinWith [sep] (map enc (w # vs)) @ eol @ rest"
  have "cellEnd sep (sep # ?rest)" by simp
  with enc obtain m where m: "m \<noteq> InQuotes"
      "readCsv sep AtStart [] row (enc v @ sep # ?rest) = readCsv sep m (cell v) row (sep # ?rest)"
    unfolding readable_def by blast
  then have "readCsv sep AtStart [] row (enc v @ sep # ?rest) = readCsv sep AtStart [] (row @ [cell v]) ?rest"
    using sep by (cases m) simp_all
  with 3 show ?case by simp
qed simp

lemma read_lines:
  assumes "readable sep enc cell" "sep \<noteq> doubleQuote" "sep \<noteq> CHR 0x0A" "sep \<noteq> CHR 0x0D"
    and "eol = newline \<or> eol = crlf" "rows \<noteq> []" "list_all (\<lambda>row. row \<noteq> []) rows"
  shows "readCsv sep AtStart [] [] (joinWith eol (map (\<lambda>row. joinWith [sep] (map enc row)) rows) @ eol) =
    map (map cell) rows"
  using assms(6,7)
proof (induction rows rule: induct_list012)
  case (2 row)
  then show ?case using read_line [OF assms(1-4) _ assms(5), of row "[]" "[]"] by simp
next
  case (3 row row' rows)
  then show ?case using read_line [OF assms(1-4) _ assms(5), of row "[]"] by simp
qed simp

section \<open>The exports\<close>

lemma neutral_start: "neutralise v = c # cs \<Longrightarrow> \<not> formulaStart c"
  by (auto simp: neutralise_def apostrophe_def formulaStart_def split: list.splits if_splits)

text \<open>
  C19. The schools' CSV export is read back cell by cell, a missing value as the empty cell,
  whatever the cells contain; a cell differs from its value only by the apostrophe in front of
  a value that would start a formula, so that no cell of the file does.
\<close>

theorem school_csv_roundtrip:
  assumes "headers \<noteq> []" "list_all (\<lambda>row. row \<noteq> []) rows"
  shows "readCsvFile (CHR '','') (schoolCsv headers rows) =
      map (map (\<lambda>v. neutralise (nullish v []))) (map Some headers # rows) \<and>
    list_all (list_all (\<lambda>cell. cell = [] \<or> \<not> formulaStart (hd cell)))
      (readCsvFile (CHR '','') (schoolCsv headers rows))"
proof -
  have "readCsvFile (CHR '','') (schoolCsv headers rows) =
      map (map (\<lambda>v. neutralise (nullish v []))) (map Some headers # rows)"
    using read_lines [OF readable_escapeCell, of crlf "map Some headers # rows"] assms
    by (simp add: readCsvFile_def schoolCsv_def csv_chars)
  moreover have "neutralise v = [] \<or> \<not> formulaStart (hd (neutralise v))" for v
    using neutral_start [of v] by (cases "neutralise v") auto
  ultimately show ?thesis by (simp add: list_all_iff del: list.map)
qed

text \<open>
  The ministry's CSV export is read back row by row after its header, each cell up to the
  apostrophe put in front of a formula.
\<close>

theorem report_csv_roundtrip:
  assumes "list_all (\<lambda>row. row \<noteq> []) rows"
  shows "readCsvFile (CHR '';'') (reportCsv rows) =
    [''Section'', ''Indicateur'', ''Dimension'', ''Valeur''] # map (map neutralise) rows"
proof -
  have "map neutralise [''Section'', ''Indicateur'', ''Dimension'', ''Valeur''] =
      [''Section'', ''Indicateur'', ''Dimension'', ''Valeur'']"
    by (simp add: neutralise_def formulaStart_def)
  then show ?thesis
    using read_lines [OF readable_escapeCsv, of newline
        "[''Section'', ''Indicateur'', ''Dimension'', ''Valeur''] # rows"] assms
    by (simp add: readCsvFile_def reportCsv_def csv_chars)
qed

section \<open>Examples\<close>

theorem school_csv_roundtrip_witness:
  "readCsvFile (CHR '','') (schoolCsv [''Nom'', ''Ville''] [[Some ''=1+1'', None], [Some ''a,b'', Some ''c'']]) =
    [[''Nom'', ''Ville''], [apostrophe # ''=1+1'', []], [''a,b'', ''c'']]"
  using school_csv_roundtrip [of "[''Nom'', ''Ville'']" "[[Some ''=1+1'', None], [Some ''a,b'', Some ''c'']]"]
  by (simp add: neutralise_def formulaStart_def)

theorem report_csv_roundtrip_witness:
  "readCsvFile (CHR '';'') (reportCsv [[''Rapport'', ''Nom'', [], ''@bilan'']]) =
    [[''Section'', ''Indicateur'', ''Dimension'', ''Valeur''], [''Rapport'', ''Nom'', [], apostrophe # ''@bilan'']]"
  using report_csv_roundtrip [of "[[''Rapport'', ''Nom'', [], ''@bilan'']]"]
  by (simp add: neutralise_def formulaStart_def)

end
