(* ===== verification/Pdf.thy ===== *)
theory Pdf
  imports Text
begin

text \<open>
  The PDF files the platform writes without a library: \<open>createPdf\<close> of
  \<open>ministry/report-exporter.ts\<close> and \<open>buildReceiptPdf\<close> of \<open>payment/payment.service.ts\<close>, which differ
  in the font size, the starting point and the leading only. A file is the list of its bytes:
  the code writes it as Latin-1, one byte per character. Unicode decomposition with the removal
  of the combining marks (\<open>value.normalize('NFD').replace(...)\<close>) is a parameter, it returns one
  character per code unit. The specification is a reader of the file: the cross-reference table
  must lead to the objects, and the strings of the page must be the lines that were given.
\<close>

section \<open>Text of a page\<close>

definition isPrintable :: "char \<Rightarrow> bool" where
  "isPrintable c \<longleftrightarrow> CHR 0x20 \<le> c \<and> c \<le> CHR 0x7E"

definition toAscii :: "(string \<Rightarrow> string) \<Rightarrow> string \<Rightarrow> string" where
  "toAscii nfd value = map (\<lambda>c. if isPrintable c then c else CHR 0x20) (nfd value)"

definition backslash :: char where
  "backslash = CHR 0x5C"

definition escapePdfText :: "(string \<Rightarrow> string) \<Rightarrow> string \<Rightarrow> string" where
  "escapePdfText nfd value =
     replaceChar (CHR '')'') [backslash, CHR '')'']
       (replaceChar (CHR ''('') [backslash, CHR ''('']
         (replaceChar backslash [backslash, backslash] (toAscii nfd value)))"

definition showText :: "(string \<Rightarrow> string) \<Rightarrow> string \<Rightarrow> string" where
  "showText nfd line = ''('' @ escapePdfText nfd line @ '') Tj''"

fun drawLines :: "(string \<Rightarrow> string) \<Rightarrow> string \<Rightarrow> string list \<Rightarrow> string list" where
  "drawLines nfd move [] = []"
| "drawLines nfd move [line] = [showText nfd line]"
| "drawLines nfd move (line # l # ls) = showText nfd line # move # drawLines nfd move (l # ls)"

definition pageCommands :: "(string \<Rightarrow> string) \<Rightarrow> string \<Rightarrow> string \<Rightarrow> string \<Rightarrow> string list \<Rightarrow> string" where
  "pageCommands nfd font start move lines =
     joinWith newline ([''BT'', font, start] @ drawLines nfd move lines @ [''ET''])"

definition receiptCommands :: "(string \<Rightarrow> string) \<Rightarrow> string list \<Rightarrow> string" where
  "receiptCommands nfd lines = pageCommands nfd ''/F1 12 Tf'' ''50 780 Td'' ''0 -20 Td'' lines"

definition reportCommands :: "(string \<Rightarrow> string) \<Rightarrow> string list \<Rightarrow> string" where
  "reportCommands nfd lines = pageCommands nfd ''/F1 10 Tf'' ''42 800 Td'' ''0 -15 Td'' lines"

section \<open>The file\<close>

definition pdfObjects :: "string \<Rightarrow> string list" where
  "pdfObjects commands =
     [''<< /Type /Catalog /Pages 2 0 R >>'',
      ''<< /Type /Pages /Kids [3 0 R] /Count 1 >>'',
      ''<< /Type /Page /Parent 2 0 R /MediaBox [0 0 595 842] /Resources << /Font << /F1 5 0 R >> >> /Contents 4 0 R >>'',
      ''<< /Length '' @ show_nat (length commands) @ '' >>'' @ newline @ ''stream'' @ newline @ commands @
        newline @ ''endstream'',
      ''<< /Type /Font /Subtype /Type1 /BaseFont /Helvetica >>'']"

definition pdfHeader :: string where
  "pdfHeader = ''%PDF-1.4'' @ newline @ ''%'' @ [CHR 0xE2, CHR 0xE3, CHR 0xCF, CHR 0xD3] @ newline"

definition objectText :: "nat \<Rightarrow> string \<Rightarrow> string" where
  "objectText n obj = show_nat n @ '' 0 obj'' @ newline @ obj @ newline @ ''endobj'' @ newline"

text \<open>The loop over the objects: the output so far, and the offset at which each object starts.\<close>

fun writeObjects :: "nat \<Rightarrow> string \<Rightarrow> string list \<Rightarrow> string \<times> nat list" where
  "writeObjects n output [] = (output, [])"
| "writeObjects n output (obj # objs) =
     (let (written, offsets) = writeObjects (Suc n) (output @ objectText n obj) objs
      in (written, length output # offsets))"

definition xrefEntry :: "nat \<Rightarrow> string" where
  "xrefEntry offset = padStart 10 (CHR ''0'') (show_nat offset) @ '' 00000 n '' @ newline"

definition xrefHead :: "nat \<Rightarrow> string" where
  "xrefHead n = ''xref'' @ newline @ ''0 '' @ show_nat (Suc n) @ newline @ ''0000000000 65535 f '' @ newline"

definition trailerText :: "nat \<Rightarrow> nat \<Rightarrow> string" where
  "trailerText n xrefOffset =
     ''trailer'' @ newline @ ''<< /Size '' @ show_nat (Suc n) @ '' /Root 1 0 R >>'' @ newline @
     ''startxref'' @ newline @ show_nat xrefOffset @ newline @ ''%%EOF'' @ newline"

definition writePdf :: "string list \<Rightarrow> string" where
  "writePdf objects =
     (let (output, offsets) = writeObjects 1 pdfHeader objects
      in output @ xrefHead (length objects) @ concat (map xrefEntry offsets) @
         trailerText (length objects) (length output))"

definition buildReceiptPdf :: "(string \<Rightarrow> string) \<Rightarrow> string list \<Rightarrow> string" where
  "buildReceiptPdf nfd lines = writePdf (pdfObjects (receiptCommands nfd lines))"

section \<open>Reading the file\<close>

text \<open>A reader starts from the end: the number before \<open>%%EOF\<close> is the place of the table.\<close>

definition startXref :: "string \<Rightarrow> nat" where
  "startXref file = read_nat (rev (takeWhile (\<lambda>c. c \<noteq> CHR 0x0A) (drop 7 (rev file))))"

text \<open>Entry \<open>k\<close> of the table has twenty bytes, the first ten are the offset of object \<open>k\<close>.\<close>

definition objectOffset :: "string \<Rightarrow> nat \<Rightarrow> nat" where
  "objectOffset file k =
     read_nat (take 10 (drop (startXref file + length (xrefHead 5) + 20 * (k - 1)) file))"

definition textAt :: "string \<Rightarrow> nat \<Rightarrow> string \<Rightarrow> bool" where
  "textAt file offset t \<longleftrightarrow> take (length t) (drop offset file) = t"

text \<open>The literal strings of a content stream: parentheses nest, a backslash escapes one character.\<close>

fun pdfStrings :: "(nat \<times> string) option \<Rightarrow> string \<Rightarrow> string list" where
  "pdfStrings st [] = []"
| "pdfStrings None (c # cs) = (if c = CHR ''('' then pdfStrings (Some (0, [])) cs else pdfStrings None cs)"
| "pdfStrings (Some (d, acc)) (c # cs) =
     (if c = backslash then (case cs of [] \<Rightarrow> [] | e # es \<Rightarrow> pdfStrings (Some (d, acc @ [e])) es)
      else if c = CHR ''('' then pdfStrings (Some (Suc d, acc @ [c])) cs
      else if c = CHR '')'' then
        (if d = 0 then acc # pdfStrings None cs else pdfStrings (Some (d - 1, acc @ [c])) cs)
      else pdfStrings (Some (d, acc @ [c])) cs)"

section \<open>The offsets lead to the objects\<close>

lemma textAt_append: "textAt (pre @ t @ post) (length pre) t"
  by (simp add: textAt_def)

lemma writeObjects_spec:
  "writeObjects n out objs =
     (out @ concat (map (\<lambda>(k, obj). objectText k obj) (enumerate n objs)),
      map (\<lambda>i. length (out @ concat (map (\<lambda>(k, obj). objectText k obj) (enumerate n (take i objs)))))
        [0..<length objs])"
proof (induction objs arbitrary: n out)
  case (Cons obj objs)
  have "map f [0..<Suc (length objs)] = f 0 # map (\<lambda>i. f (Suc i)) [0..<length objs]" for f :: "nat \<Rightarrow> nat"
    by (simp add: upt_conv_Cons map_Suc_upt [symmetric] comp_def del: upt_Suc)
  then show ?case by (simp add: Cons.IH Let_def del: upt_Suc)
qed simp

lemma object_at:
  assumes "writeObjects n out objs = (written, offsets)" "i < length objs"
  shows "textAt (written @ rest) (offsets ! i) (objectText (n + i) (objs ! i)) \<and> offsets ! i \<le> length written"
proof -
  let ?text = "\<lambda>xs m. concat (map (\<lambda>(k, obj). objectText k obj) (enumerate m xs))"
  have "objs = take i objs @ objs ! i # drop (Suc i) objs" using assms(2) by (simp add: id_take_nth_drop)
  then have "?text objs n = ?text (take i objs) n @ objectText (n + i) (objs ! i) @ ?text (drop (Suc i) objs) (Suc (n + i))"
    using assms(2) by (metis (no_types, lifting) add_Suc_right append.assoc case_prod_conv concat.simps(2) concat_append
        enumerate_append_eq enumerate_simps(2) length_take list.simps(9) map_append min.absorb4)
  moreover have "written = out @ ?text objs n" "offsets ! i = length (out @ ?text (take i objs) n)"
    using assms by (auto simp: writeObjects_spec)
  ultimately show ?thesis
    using textAt_append [of "out @ ?text (take i objs) n" "objectText (n + i) (objs ! i)"] by simp
qed

lemma length_xrefEntry: "offset < 10 ^ 10 \<Longrightarrow> length (xrefEntry offset) = 20"
  using length_show_nat [of 10 offset] by (simp add: xrefEntry_def length_padStart)

lemma read_xrefEntry:
  assumes "offset < 10 ^ 10"
  shows "read_nat (take 10 (xrefEntry offset @ rest)) = offset"
  using length_show_nat [of 10 offset] assms by (simp add: xrefEntry_def length_padStart)

lemma drop_entries:
  assumes "\<And>x. x \<in> set offsets \<Longrightarrow> x < 10 ^ 10" "i < length offsets"
  shows "\<exists>post. drop (20 * i) (concat (map xrefEntry offsets) @ rest) = xrefEntry (offsets ! i) @ post"
  using assms
proof (induction offsets arbitrary: i)
  case (Cons x xs)
  show ?case
  proof (cases i)
    case (Suc j)
    have "length (xrefEntry x) = 20" using Cons.prems(1) by (simp add: length_xrefEntry)
    then have "drop (20 * i) (concat (map xrefEntry (x # xs)) @ rest) = drop (20 * j) (concat (map xrefEntry xs) @ rest)"
      using Suc by simp
    with Cons.IH [of j] Cons.prems Suc show ?thesis by simp
  qed simp
qed simp

lemma digits_no_newline: "CHR 0x0A \<notin> set (show_nat n)"
proof
  assume "CHR 0x0A \<in> set (show_nat n)"
  then obtain d where "d < 10" "CHR 0x0A = digit d" using show_nat_digits by blast
  then have "of_char (CHR 0x0A) = (48 + d :: nat)" using of_char_digit by metis
  then show False by simp
qed

lemma startXref_trailer: "startXref (file @ trailerText n k) = k"
proof -
  have "takeWhile (\<lambda>c. c \<noteq> CHR 0x0A) (rev (show_nat k) @ CHR 0x0A # cs) = rev (show_nat k)" for cs
    using digits_no_newline [of k] by (subst takeWhile_append2) auto
  then show ?thesis by (simp add: startXref_def trailerText_def)
qed

lemma writePdf_readable:
  assumes "length objs = 5" "length (writePdf objs) < 10 ^ 10" "1 \<le> k" "k \<le> 5"
  shows "textAt (writePdf objs) (startXref (writePdf objs)) (xrefHead 5) \<and>
    textAt (writePdf objs) (objectOffset (writePdf objs) k) (objectText k (objs ! (k - 1)))"
proof -
  obtain out offsets where w: "writeObjects 1 pdfHeader objs = (out, offsets)" by (cases "writeObjects 1 pdfHeader objs")
  let ?tail = "concat (map xrefEntry offsets) @ trailerText 5 (length out)"
  have pdf: "writePdf objs = out @ xrefHead 5 @ ?tail" unfolding writePdf_def w using assms(1) by simp
  have start: "startXref (writePdf objs) = length out"
    using startXref_trailer [of "out @ xrefHead 5 @ concat (map xrefEntry offsets)"] by (simp add: pdf)
  have len: "length offsets = 5" using w assms(1) by (auto simp: writeObjects_spec)
  have small: "offsets ! i < 10 ^ 10" if "i < 5" for i
  proof -
    have "length out \<le> length (writePdf objs)" by (simp add: pdf)
    with object_at [OF w, of i "[]"] that assms(1,2) show ?thesis by simp
  qed
  then have "\<And>x. x \<in> set offsets \<Longrightarrow> x < 10 ^ 10" using len by (auto simp: in_set_conv_nth)
  from drop_entries [of offsets "k - 1" "trailerText 5 (length out)", OF this] assms(3,4) len
  obtain post where "drop (20 * (k - 1)) ?tail = xrefEntry (offsets ! (k - 1)) @ post" by fastforce
  moreover have "drop (length out + length (xrefHead 5) + m) (writePdf objs) = drop m ?tail" for m
    unfolding pdf by simp
  ultimately have "drop (length out + length (xrefHead 5) + 20 * (k - 1)) (writePdf objs) =
      xrefEntry (offsets ! (k - 1)) @ post" by metis
  then have "objectOffset (writePdf objs) k = offsets ! (k - 1)"
    using read_xrefEntry [OF small, of "k - 1"] assms(3,4) by (simp add: objectOffset_def start)
  moreover have "textAt (writePdf objs) (offsets ! (k - 1)) (objectText k (objs ! (k - 1)))"
    using object_at [OF w, of "k - 1"] assms by (simp add: pdf)
  moreover have "textAt (writePdf objs) (length out) (xrefHead 5)"
    using textAt_append [of out] by (simp add: pdf)
  ultimately show ?thesis by (simp add: start)
qed

text \<open>
  C20. A receipt is a PDF file a reader can open: the last lines lead to the cross-reference
  table, and its entries lead to the five objects, among them the page's content with the
  length it really has (files of less than ten gigabytes, the width of an entry).
\<close>

theorem receipt_readable:
  assumes "length (buildReceiptPdf nfd lines) < 10 ^ 10"
  shows "let file = buildReceiptPdf nfd lines; objs = pdfObjects (receiptCommands nfd lines) in
    textAt file (startXref file) (xrefHead 5) \<and>
    list_all (\<lambda>k. textAt file (objectOffset file k) (objectText k (objs ! (k - 1)))) [1, 2, 3, 4, 5] \<and>
    objs ! 3 = ''<< /Length '' @ show_nat (length (receiptCommands nfd lines)) @ '' >>'' @ newline @
      ''stream'' @ newline @ receiptCommands nfd lines @ newline @ ''endstream''"
proof -
  define objs where "objs = pdfObjects (receiptCommands nfd lines)"
  have five: "length objs = 5" by (simp add: objs_def pdfObjects_def)
  have pdf: "buildReceiptPdf nfd lines = writePdf objs" by (simp add: buildReceiptPdf_def objs_def)
  have "objs ! 3 = ''<< /Length '' @ show_nat (length (receiptCommands nfd lines)) @ '' >>'' @ newline @
      ''stream'' @ newline @ receiptCommands nfd lines @ newline @ ''endstream''"
    by (simp add: objs_def pdfObjects_def)
  with writePdf_readable [OF five, of 1] writePdf_readable [OF five, of 2] writePdf_readable [OF five, of 3]
    writePdf_readable [OF five, of 4] writePdf_readable [OF five, of 5] assms
  show ?thesis by (simp add: pdf Let_def flip: objs_def)
qed

section \<open>The page shows the lines\<close>

definition escapeChar :: "char \<Rightarrow> string" where
  "escapeChar c = (if c \<in> {backslash, CHR ''('', CHR '')''} then [backslash, c] else [c])"

lemma escapePdfText_map: "escapePdfText nfd v = concat (map escapeChar (toAscii nfd v))"
proof -
  have "replaceChar (CHR '')'') [backslash, CHR '')'']
       (replaceChar (CHR ''('') [backslash, CHR ''('']
         (replaceChar backslash [backslash, backslash] s)) = concat (map escapeChar s)" for s
    by (induction s) (simp_all add: escapeChar_def backslash_def)
  then show ?thesis by (simp add: escapePdfText_def)
qed

lemma strings_literal:
  "pdfStrings (Some (0, acc)) (concat (map escapeChar s) @ CHR '')'' # rest) = (acc @ s) # pdfStrings None rest"
proof (induction s arbitrary: acc)
  case Nil
  then show ?case by (simp add: backslash_def)
next
  case (Cons c s)
  then show ?case by (simp add: escapeChar_def)
qed

lemma strings_operators: "CHR ''('' \<notin> set ops \<Longrightarrow> pdfStrings None (ops @ rest) = pdfStrings None rest"
  by (induction ops) auto

lemma strings_showText: "pdfStrings None (showText nfd line @ rest) = toAscii nfd line # pdfStrings None rest"
  using strings_literal [of "[]" "toAscii nfd line" "'' Tj'' @ rest"]
  by (simp add: showText_def escapePdfText_map)

lemma joinWith_Cons: "xs \<noteq> [] \<Longrightarrow> joinWith sep (x # xs) = x @ sep @ joinWith sep xs"
  by (cases xs) simp_all

lemma drawLines_Nil: "drawLines nfd move ls = [] \<longleftrightarrow> ls = []"
  by (cases "(nfd, move, ls)" rule: drawLines.cases) simp_all

lemma strings_drawLines:
  assumes "CHR ''('' \<notin> set move"
  shows "pdfStrings None (joinWith newline (drawLines nfd move lines @ [''ET''])) = map (toAscii nfd) lines"
proof (induction lines rule: induct_list012)
  case (2 line)
  then show ?case using strings_showText [of nfd line "newline @ ''ET''"] by simp
next
  case (3 line l ls)
  have "pdfStrings None (showText nfd line @ newline @ move @ newline @ rest) =
      toAscii nfd line # pdfStrings None rest" for rest
    using strings_operators [OF assms] strings_showText by simp
  with 3 show ?case by (simp add: joinWith_Cons)
qed simp

lemma page_strings:
  assumes "CHR ''('' \<notin> set font" "CHR ''('' \<notin> set start" "CHR ''('' \<notin> set move"
  shows "pdfStrings None (pageCommands nfd font start move lines) = map (toAscii nfd) lines"
proof -
  let ?rest = "joinWith newline (drawLines nfd move lines @ [''ET''])"
  have "pageCommands nfd font start move lines = (''BT'' @ newline @ font @ newline @ start @ newline) @ ?rest"
    by (simp add: pageCommands_def joinWith_Cons)
  moreover have "CHR ''('' \<notin> set (''BT'' @ newline @ font @ newline @ start @ newline)" using assms by simp
  ultimately show ?thesis using strings_operators strings_drawLines [OF assms(3)] by metis
qed

text \<open>
  The page of a receipt shows exactly its lines, transliterated: no text, however it mixes
  parentheses and backslashes, ends its string early or adds commands to the page.
\<close>

theorem receipt_shows_lines:
  "pdfStrings None (receiptCommands nfd lines) = map (toAscii nfd) lines"
  unfolding receiptCommands_def by (rule page_strings) simp_all

section \<open>Example\<close>

theorem receipt_readable_witness:
  "let file = buildReceiptPdf id [''GET'', ''(1)'']
   in textAt file (startXref file) (xrefHead 5) \<and>
      textAt file (objectOffset file 3) (objectText 3 (pdfObjects (receiptCommands id [''GET'', ''(1)'']) ! 2))"
proof -
  have "length (buildReceiptPdf id [''GET'', ''(1)'']) < 10 ^ 10"
    by (simp add: buildReceiptPdf_def writePdf_def pdfObjects_def pdfHeader_def objectText_def xrefEntry_def
        xrefHead_def trailerText_def receiptCommands_def pageCommands_def showText_def escapePdfText_def
        toAscii_def isPrintable_def backslash_def padStart_def show_nat.simps)
  from receipt_readable [OF this] show ?thesis by (simp add: Let_def)
qed

end
