(* ===== verification/Report_Export.thy ===== *)
theory Report_Export
  imports Csv Pdf Schema
begin

text \<open>
  \<open>ministry/report-exporter.ts\<close>: a report, a nested JSON snapshot with its metadata, becomes flat
  rows (section, indicator, dimension, value) and then a CSV file, a spreadsheet in XML, a PDF
  page or JSON. The formatting of numbers and dates (\<open>Intl\<close>), the Unicode decomposition and
  \<open>JSON.stringify\<close> are parameters. Text is UTF-8 bytes, as in theory Csv. The specifications are
  readers of the formats: what the spreadsheet shows is the rows, and wrapping a line for the PDF
  loses no word.
\<close>

section \<open>The report\<close>

record report_row =
  rp_name :: string
  rp_description :: "string option"
  rp_type :: string
  rp_period :: string
  rp_periodStart :: time
  rp_periodEnd :: time
  rp_generatedAt :: time
  rp_data :: json

record export_env =
  nfdForm :: "string \<Rightarrow> string"
  dateText :: "time \<Rightarrow> string"
  isoText :: "time \<Rightarrow> string"
  numberText :: "rat \<Rightarrow> string"
  stringify :: "json \<Rightarrow> string"

type_synonym table_row = "string \<times> string \<times> string \<times> string"

datatype export_format = ExportPDF | ExportEXCEL | ExportCSV | ExportJSON

text \<open>The typographic characters of the labels, in UTF-8: em dash, angle, middle dot.\<close>

definition emDash :: string where
  "emDash = [CHR 0x20, CHR 0xE2, CHR 0x80, CHR 0x94, CHR 0x20]"

definition angle :: string where
  "angle = [CHR 0x20, CHR 0xE2, CHR 0x80, CHR 0xBA, CHR 0x20]"

definition middleDot :: string where
  "middleDot = [CHR 0x20, CHR 0xC2, CHR 0xB7, CHR 0x20]"

definition eAcute :: string where
  "eAcute = [CHR 0xC3, CHR 0xA9]"

definition defaultSection :: string where
  "defaultSection = ''Synth'' @ [CHR 0xC3, CHR 0xA8] @ ''se''"

section \<open>Rows\<close>

definition isLower :: "char \<Rightarrow> bool" where
  "isLower c \<longleftrightarrow> CHR ''a'' \<le> c \<and> c \<le> CHR ''z''"

definition isUpper :: "char \<Rightarrow> bool" where
  "isUpper c \<longleftrightarrow> CHR ''A'' \<le> c \<and> c \<le> CHR ''Z''"

definition toUpperChar :: "char \<Rightarrow> char" where
  "toUpperChar c = (if isLower c then char_of (of_char c - 32 :: nat) else c)"

text \<open>\<open>replace(/([a-z])([A-Z])/g, '$1 $2')\<close>, then \<open>_\<close> to a space, then the first letter in capitals.\<close>

fun spaceWords :: "string \<Rightarrow> string" where
  "spaceWords (a # b # cs) =
     (if isLower a \<and> isUpper b then a # CHR '' '' # spaceWords (b # cs) else a # spaceWords (b # cs))"
| "spaceWords cs = cs"

definition humanize :: "string \<Rightarrow> string" where
  "humanize key =
     (case map (\<lambda>c. if c = CHR ''_'' then CHR '' '' else c) (spaceWords key) of
        [] \<Rightarrow> []
      | c # cs \<Rightarrow> toUpperChar c # cs)"

definition boolText :: "bool \<Rightarrow> string" where
  "boolText b = (if b then ''true'' else ''false'')"

text \<open>\<open>const [section = 'Synth\`ese', ...indicatorPath] = path\<close>\<close>

definition sectionOf :: "string list \<Rightarrow> string" where
  "sectionOf path = (case path of [] \<Rightarrow> defaultSection | x # _ \<Rightarrow> x)"

definition indicatorOf :: "string list \<Rightarrow> string" where
  "indicatorOf path =
     (let i = joinWith angle (tl path) in if i = [] then sectionOf path else i)"

definition scalarRow :: "string list \<Rightarrow> string \<Rightarrow> table_row" where
  "scalarRow path value = (sectionOf path, indicatorOf path, [], value)"

definition dimensionsOf :: "(string \<times> json) list \<Rightarrow> string list" where
  "dimensionsOf row =
     concat (map (\<lambda>(key, value).
       case value of
         JStr x \<Rightarrow> [humanize key @ '': '' @ x]
       | JBool b \<Rightarrow> [humanize key @ '': '' @ boolText b]
       | _ \<Rightarrow> []) row)"

definition measurementsOf :: "export_env \<Rightarrow> (string \<times> json) list \<Rightarrow> (string \<times> string) list" where
  "measurementsOf E row =
     concat (map (\<lambda>(key, value). case value of JNum n \<Rightarrow> [(humanize key, numberText E n)] | _ \<Rightarrow> []) row)"

definition appendAggregateRow :: "export_env \<Rightarrow> (string \<times> json) list \<Rightarrow> string list \<Rightarrow> table_row list" where
  "appendAggregateRow E row path =
     (let dimension = joinWith middleDot (dimensionsOf row); measurements = measurementsOf E row
      in if measurements = [] then [(sectionOf path, indicatorOf path, dimension, [])]
         else map (\<lambda>(name, value). (sectionOf path, indicatorOf path @ angle @ name, dimension, value))
                measurements)"

fun flatten :: "export_env \<Rightarrow> json \<Rightarrow> string list \<Rightarrow> table_row list" where
  "flatten E JNull path = []"
| "flatten E (JArr items) path =
     concat (map (\<lambda>item. case item of JObj row \<Rightarrow> appendAggregateRow E row path | _ \<Rightarrow> flatten E item path) items)"
| "flatten E (JObj entries) path =
     concat (map (\<lambda>(key, child). flatten E child (path @ [humanize key])) entries)"
| "flatten E (JStr x) path = [scalarRow path x]"
| "flatten E (JBool b) path = [scalarRow path (boolText b)]"
| "flatten E (JNum n) path = [scalarRow path (numberText E n)]"

definition metadataRows :: "export_env \<Rightarrow> report_row \<Rightarrow> table_row list" where
  "metadataRows E report =
     [(''Rapport'', ''Nom'', [], rp_name report),
      (''Rapport'', ''Type'', [], rp_type report),
      (''Rapport'', ''P'' @ eAcute @ ''riode'', [],
        dateText E (rp_periodStart report) @ emDash @ dateText E (rp_periodEnd report)),
      (''Rapport'', ''G'' @ eAcute @ ''n'' @ eAcute @ ''r'' @ eAcute @ '' le'', [], dateText E (rp_generatedAt report))] @
     (if truthy (rp_description report) then [(''Rapport'', ''Description'', [], the (rp_description report))] else [])"

definition toReportRows :: "export_env \<Rightarrow> report_row \<Rightarrow> table_row list" where
  "toReportRows E report = metadataRows E report @ flatten E (rp_data report) []"

definition cells :: "table_row \<Rightarrow> string list" where
  "cells row = (case row of (a, b, c, d) \<Rightarrow> [a, b, c, d])"

section \<open>Spreadsheet\<close>

definition escapeXml :: "string \<Rightarrow> string" where
  "escapeXml value =
     replaceChar apostrophe ''&apos;''
       (replaceChar doubleQuote ''&quot;''
         (replaceChar (CHR ''>'') ''&gt;''
           (replaceChar (CHR ''<'') ''&lt;''
             (replaceChar (CHR ''&'') ''&amp;'' value))))"

definition dataTag :: string where
  "dataTag = ''Data ss:Type='' @ [doubleQuote] @ ''String'' @ [doubleQuote]"

definition cellXml :: "string \<Rightarrow> string" where
  "cellXml value = ''<Cell><'' @ dataTag @ ''>'' @ escapeXml value @ ''</Data></Cell>''"

definition rowXml :: "string list \<Rightarrow> string" where
  "rowXml row = ''<Row>'' @ concat (map cellXml row) @ ''</Row>''"

definition attribute :: "string \<Rightarrow> string \<Rightarrow> string" where
  "attribute name value = name @ ''='' @ [doubleQuote] @ value @ [doubleQuote]"

definition workbookHead :: string where
  "workbookHead =
     ''<?xml '' @ attribute ''version'' ''1.0'' @ '' '' @ attribute ''encoding'' ''UTF-8'' @ ''?>'' @ newline @
     ''<Workbook '' @ attribute ''xmlns'' ''urn:schemas-microsoft-com:office:spreadsheet'' @ newline @
     '' '' @ attribute ''xmlns:o'' ''urn:schemas-microsoft-com:office:office'' @ newline @
     '' '' @ attribute ''xmlns:x'' ''urn:schemas-microsoft-com:office:excel'' @ newline @
     '' '' @ attribute ''xmlns:ss'' ''urn:schemas-microsoft-com:office:spreadsheet'' @ ''>'' @ newline @
     '' <Worksheet '' @ attribute ''ss:Name'' ''Rapport'' @ ''><Table>''"

definition toSpreadsheetMl :: "table_row list \<Rightarrow> string" where
  "toSpreadsheetMl rows =
     workbookHead @
     concat (map rowXml ([''Section'', ''Indicateur'', ''Dimension'', ''Valeur''] # map cells rows)) @
     ''</Table></Worksheet>'' @ newline @ ''</Workbook>''"

section \<open>PDF\<close>

text \<open>\<open>toAscii(line).split(/\s+/).filter(Boolean)\<close>: only the space is left of the white space.\<close>

fun splitWords :: "string \<Rightarrow> string \<Rightarrow> string list" where
  "splitWords acc [] = (if acc = [] then [] else [acc])"
| "splitWords acc (c # cs) =
     (if c = CHR '' '' then (if acc = [] then [] else [acc]) @ splitWords [] cs else splitWords (acc @ [c]) cs)"

definition wordsOf :: "string \<Rightarrow> string list" where
  "wordsOf s = splitWords [] s"

primrec wrapWords :: "nat \<Rightarrow> string \<Rightarrow> string list \<Rightarrow> string list" where
  "wrapWords width current [] = (if current \<noteq> [] then [current] else [])"
| "wrapWords width current (word # words) =
     (let next = (if current \<noteq> [] then current @ '' '' @ word else word)
      in if width < length next \<and> current \<noteq> [] then current # wrapWords width word words
         else wrapWords width next words)"

definition wrapPdfLine :: "(string \<Rightarrow> string) \<Rightarrow> nat \<Rightarrow> string \<Rightarrow> string list" where
  "wrapPdfLine nfd width line =
     (let words = wordsOf (toAscii nfd line) in if words = [] then [[]] else wrapWords width [] words)"

definition rowLine :: "table_row \<Rightarrow> string" where
  "rowLine row =
     (case row of (section_, indicator, dimension, value) \<Rightarrow>
        section_ @ emDash @ indicator @ (if dimension \<noteq> [] then '' ('' @ dimension @ '')'' else []) @ '': '' @ value)"

definition pdfLines :: "export_env \<Rightarrow> report_row \<Rightarrow> table_row list \<Rightarrow> string list" where
  "pdfLines E report rows =
     concat (map (wrapPdfLine (nfdForm E) 92)
       ([rp_name report,
         rp_type report @ middleDot @ dateText E (rp_periodStart report) @ emDash @ dateText E (rp_periodEnd report),
         []] @ map rowLine (take 31 (drop 4 rows))))"

definition createPdf :: "export_env \<Rightarrow> report_row \<Rightarrow> table_row list \<Rightarrow> string" where
  "createPdf E report rows = writePdf (pdfObjects (reportCommands (nfdForm E) (pdfLines E report rows)))"

section \<open>The export\<close>

definition reportMetadata :: "export_env \<Rightarrow> report_row \<Rightarrow> json" where
  "reportMetadata E report =
     JObj [(''name'', JStr (rp_name report)),
           (''description'', case rp_description report of None \<Rightarrow> JNull | Some d \<Rightarrow> JStr d),
           (''type'', JStr (rp_type report)), (''period'', JStr (rp_period report)),
           (''periodStart'', JStr (isoText E (rp_periodStart report))),
           (''periodEnd'', JStr (isoText E (rp_periodEnd report))),
           (''generatedAt'', JStr (isoText E (rp_generatedAt report)))]"

text \<open>Buffer, content type and extension.\<close>

definition createReportExport ::
  "export_env \<Rightarrow> report_row \<Rightarrow> export_format \<Rightarrow> string \<times> string \<times> string" where
  "createReportExport E report format =
     (let rows = toReportRows E report in
      case format of
        ExportJSON \<Rightarrow>
          (stringify E (JObj [(''report'', reportMetadata E report), (''data'', rp_data report)]),
           ''application/json; charset=utf-8'', ''json'')
      | ExportCSV \<Rightarrow> (reportCsv (map cells rows), ''text/csv; charset=utf-8'', ''csv'')
      | ExportEXCEL \<Rightarrow> (toSpreadsheetMl rows, ''application/vnd.ms-excel; charset=utf-8'', ''xls'')
      | ExportPDF \<Rightarrow> (createPdf E report rows, ''application/pdf'', ''pdf''))"

section \<open>Wrapping keeps every word\<close>

definition isWord :: "string \<Rightarrow> bool" where
  "isWord w \<longleftrightarrow> w \<noteq> [] \<and> CHR '' '' \<notin> set w"

lemma splitWords_append:
  "CHR '' '' \<notin> set w \<Longrightarrow> splitWords acc (w @ cs) = splitWords (acc @ w) cs"
  by (induction w arbitrary: acc) auto

lemma wordsOf_join: "list_all isWord ws \<Longrightarrow> wordsOf (joinWith '' '' ws) = ws"
proof (induction ws rule: induct_list012)
  case (2 w)
  then show ?case using splitWords_append [of w "[]" "[]"] by (simp add: wordsOf_def isWord_def)
next
  case (3 w x ws)
  then show ?case
    using splitWords_append [of w "[]" "CHR '' '' # joinWith '' '' (x # ws)"] by (simp add: wordsOf_def isWord_def)
qed (simp add: wordsOf_def)

lemma words_isWord: "CHR '' '' \<notin> set acc \<Longrightarrow> list_all isWord (splitWords acc s)"
  by (induction acc s rule: splitWords.induct) (auto simp: isWord_def)

lemma joinWith_snoc: "joinWith sep (xs @ [x]) = (if xs = [] then x else joinWith sep xs @ sep @ x)"
  by (induction xs rule: induct_list012) simp_all

lemma joinWith_empty: "list_all isWord ws \<Longrightarrow> joinWith '' '' ws = [] \<longleftrightarrow> ws = []"
  by (induction ws rule: induct_list012) (simp_all add: isWord_def)

lemma wrapWords_words:
  "list_all isWord cws \<Longrightarrow> list_all isWord ws \<Longrightarrow>
   concat (map wordsOf (wrapWords width (joinWith '' '' cws) ws)) = cws @ ws"
proof (induction ws arbitrary: cws)
  case Nil
  then show ?case by (simp add: wordsOf_join joinWith_empty)
next
  case (Cons w ws)
  let ?current = "joinWith '' '' cws"
  have nxt: "(if ?current \<noteq> [] then ?current @ '' '' @ w else w) = joinWith '' '' (cws @ [w])"
    using Cons.prems by (simp add: joinWith_snoc joinWith_empty)
  have one: "w = joinWith '' '' [w]" by simp
  show ?case
  proof (cases "width < length (joinWith '' '' (cws @ [w])) \<and> ?current \<noteq> []")
    case True
    then have "wrapWords width ?current (w # ws) = ?current # wrapWords width w ws"
      unfolding wrapWords.simps Let_def nxt by simp
    with Cons.IH [of "[w]"] Cons.prems show ?thesis by (simp add: wordsOf_join)
  next
    case False
    then have "wrapWords width ?current (w # ws) = wrapWords width (joinWith '' '' (cws @ [w])) ws"
      unfolding wrapWords.simps Let_def nxt by (rule if_not_P)
    with Cons.IH [of "cws @ [w]"] Cons.prems show ?thesis by simp
  qed
qed

lemma wrapWords_length:
  "list_all isWord ws \<Longrightarrow> length current \<le> width \<or> isWord current \<Longrightarrow>
   list_all (\<lambda>l. length l \<le> width \<or> isWord l) (wrapWords width current ws)"
proof (induction ws arbitrary: current)
  case (Cons w ws)
  then show ?case
    using Cons.IH [of w] Cons.IH [of "current @ '' '' @ w"] by (auto simp: Let_def not_less)
qed simp

text \<open>
  Wrapping a line of the report for the page loses, repeats and reorders no word; a line of
  the page is at most as wide as asked, unless it is one word too long for any line; an empty
  line stays a line.
\<close>

theorem wrap_keeps_words:
  "concat (map wordsOf (wrapPdfLine nfd width line)) = wordsOf (toAscii nfd line) \<and>
   list_all (\<lambda>l. length l \<le> width \<or> wordsOf l = [l]) (wrapPdfLine nfd width line) \<and>
   wrapPdfLine nfd width line \<noteq> []"
proof (cases "wordsOf (toAscii nfd line) = []")
  case True
  then show ?thesis by (simp add: wrapPdfLine_def wordsOf_def)
next
  case False
  let ?ws = "wordsOf (toAscii nfd line)"
  have words: "list_all isWord ?ws" using words_isWord by (simp add: wordsOf_def)
  have all: "concat (map wordsOf (wrapWords width [] ?ws)) = ?ws"
    using wrapWords_words [of "[]" ?ws width] words by simp
  moreover have "list_all (\<lambda>l. length l \<le> width \<or> wordsOf l = [l]) (wrapWords width [] ?ws)"
    using wrapWords_length [OF words, of "[]" width] wordsOf_join [of "[_]"]
    by (auto simp: list_all_iff)
  moreover have "wrapWords width [] ?ws \<noteq> []" using all False by auto
  ultimately show ?thesis using False by (simp add: wrapPdfLine_def Let_def)
qed

section \<open>The spreadsheet shows the rows\<close>

text \<open>A reader of XML: tags and the text between them, entities decoded.\<close>

datatype xml_token = XmlTag string | XmlText string

definition entities :: "(string \<times> char) list" where
  "entities =
     [(''amp;'', CHR ''&''), (''lt;'', CHR ''<''), (''gt;'', CHR ''>''), (''quot;'', doubleQuote),
      (''apos;'', apostrophe)]"

function decodeXml :: "string \<Rightarrow> string" where
  "decodeXml [] = []"
| "decodeXml (c # cs) =
     (if c \<noteq> CHR ''&'' then c # decodeXml cs
      else case find (\<lambda>(name, _). take (length name) cs = name) entities of
             None \<Rightarrow> c # decodeXml cs
           | Some (name, x) \<Rightarrow> x # decodeXml (drop (length name) cs))"
  by pat_completeness auto
termination by (relation "measure length") auto

fun xmlTokens :: "bool \<Rightarrow> string \<Rightarrow> string \<Rightarrow> xml_token list" where
  "xmlTokens inTag acc [] = (if acc = [] then [] else [XmlText (decodeXml acc)])"
| "xmlTokens inTag acc (c # cs) =
     (if inTag then
        (if c = CHR ''>'' then XmlTag acc # xmlTokens False [] cs else xmlTokens True (acc @ [c]) cs)
      else if c = CHR ''<'' then
        (if acc = [] then [] else [XmlText (decodeXml acc)]) @ xmlTokens True [] cs
      else xmlTokens False (acc @ [c]) cs)"

text \<open>The rows of the table: the text of each \<open>Data\<close> element, a row at each \<open>/Row\<close>.\<close>

fun sheetRows :: "string list \<Rightarrow> xml_token list \<Rightarrow> string list list" where
  "sheetRows row [] = []"
| "sheetRows row (XmlText x # ts) = sheetRows row ts"
| "sheetRows row (XmlTag t # ts) =
     (if t = ''/Row'' then row # sheetRows [] ts
      else if t = dataTag then
        (case ts of XmlText x # us \<Rightarrow> sheetRows (row @ [x]) us | _ \<Rightarrow> sheetRows (row @ [[]]) ts)
      else sheetRows row ts)"

definition xmlChar :: "char \<Rightarrow> string" where
  "xmlChar c =
     (if c = CHR ''&'' then ''&amp;'' else if c = CHR ''<'' then ''&lt;'' else if c = CHR ''>'' then ''&gt;''
      else if c = doubleQuote then ''&quot;'' else if c = apostrophe then ''&apos;'' else [c])"

lemma escapeXml_map: "escapeXml v = concat (map xmlChar v)"
  unfolding escapeXml_def by (induction v) (simp_all add: xmlChar_def doubleQuote_def apostrophe_def)

lemma decode_escape: "decodeXml (concat (map xmlChar v)) = v"
proof (induction v)
  case (Cons c v)
  then show ?case by (simp add: xmlChar_def entities_def doubleQuote_def apostrophe_def)
qed simp

lemma escape_no_tag: "CHR ''<'' \<notin> set (concat (map xmlChar v))"
  by (induction v) (auto simp: xmlChar_def doubleQuote_def apostrophe_def)

lemma tokens_text: "CHR ''<'' \<notin> set t \<Longrightarrow> xmlTokens False acc (t @ cs) = xmlTokens False (acc @ t) cs"
  by (induction t arbitrary: acc) auto

lemma tokens_tag:
  "CHR ''>'' \<notin> set t \<Longrightarrow> xmlTokens True acc (t @ CHR ''>'' # cs) = XmlTag (acc @ t) # xmlTokens False [] cs"
  by (induction t arbitrary: acc) auto

lemma tokens_element:
  assumes "CHR ''>'' \<notin> set t"
  shows "xmlTokens False [] (CHR ''<'' # t @ CHR ''>'' # cs) = XmlTag t # xmlTokens False [] cs"
  using tokens_tag [OF assms, of "[]"] by simp

lemma tokens_value:
  "xmlTokens False [] (escapeXml v @ CHR ''<'' # cs) =
   (if v = [] then [] else [XmlText v]) @ xmlTokens False [] (CHR ''<'' # cs)"
proof -
  have "xmlChar c \<noteq> []" for c by (simp add: xmlChar_def)
  then have "concat (map xmlChar v) = [] \<longleftrightarrow> v = []" by (cases v) simp_all
  then show ?thesis
    using tokens_text [OF escape_no_tag, of "[]" v "CHR ''<'' # cs"] by (simp add: escapeXml_map decode_escape)
qed

lemma tokens_cell:
  "xmlTokens False [] (cellXml v @ cs) =
   [XmlTag ''Cell'', XmlTag dataTag] @ (if v = [] then [] else [XmlText v]) @
   [XmlTag ''/Data'', XmlTag ''/Cell''] @ xmlTokens False [] cs"
  using tokens_element [of dataTag] tokens_element [of "''Cell''"] tokens_element [of "''/Data''"]
    tokens_element [of "''/Cell''"] tokens_value
  by (simp add: cellXml_def dataTag_def doubleQuote_def)

lemma rows_cells:
  "sheetRows row (xmlTokens False [] (concat (map cellXml vs) @ cs)) =
   sheetRows (row @ vs) (xmlTokens False [] cs)"
proof (induction vs arbitrary: row)
  case (Cons v vs)
  then show ?case by (simp add: tokens_cell dataTag_def)
qed simp

lemma rows_table:
  "sheetRows [] (xmlTokens False [] (concat (map rowXml rows) @ cs)) =
   rows @ sheetRows [] (xmlTokens False [] cs)"
proof (induction rows)
  case (Cons r rows)
  have "sheetRows [] (xmlTokens False [] (rowXml r @ rest)) = r # sheetRows [] (xmlTokens False [] rest)" for rest
    using tokens_element [of "''Row''"] tokens_element [of "''/Row''" rest]
      rows_cells [of "[]" r "''</Row>'' @ rest"] by (simp add: rowXml_def dataTag_def)
  with Cons show ?case by simp
qed simp

text \<open>
  The spreadsheet shows the rows: a reader of the XML gets back the header and every row of
  the report, cell by cell, whatever the names in it contain.
\<close>

theorem spreadsheet_roundtrip:
  "sheetRows [] (xmlTokens False [] (toSpreadsheetMl rows)) =
   [''Section'', ''Indicateur'', ''Dimension'', ''Valeur''] # map cells rows"
proof -
  have "sheetRows [] (xmlTokens False [] (workbookHead @ cs)) = sheetRows [] (xmlTokens False [] cs)" for cs
    by (simp add: workbookHead_def attribute_def doubleQuote_def dataTag_def)
  moreover have "sheetRows [] (xmlTokens False [] (''</Table></Worksheet>'' @ newline @ ''</Workbook>'')) = []"
    by (simp add: dataTag_def)
  ultimately show ?thesis
    unfolding toSpreadsheetMl_def by (simp only: rows_table append_Nil2)
qed

end
