(* ===== verification/Ministry.thy ===== *)
theory Ministry
  imports Report_Export Pagination
begin

text \<open>
  \<open>ministry/ministry.service.ts\<close>: the national view of the ministry. Statistics on applications and
  registrations, grouped by status, region, programme, school and month; statistics on schools and
  on the places students live; the compliance checks of schools; reports, which freeze a snapshot
  of the statistics and are exported by theory Report_Export.

  The two tables of the ministry and the creation dates that only it reads extend the database
  record. A group of the source is an entry of a \<open>Map\<close> whose key is the JSON text of the group's
  columns; the text determines the columns, so that the key is the tuple of columns here. The order
  of \<open>localeCompare\<close> on JSON texts is a parameter (a collation key). The main facts: the groups are
  exactly the classes of the counted rows, with their cardinalities; no statistic depends on who
  the students are; a stored report never changes.
\<close>

section \<open>State\<close>

record compliance_row =
  cc_id :: id
  cc_schoolId :: id
  cc_checkType :: string
  cc_status :: string
  cc_score :: "rat option"
  cc_remarks :: "string option"
  cc_checkedBy :: "id option"
  cc_checkedAt :: time
  cc_createdAt :: time

record stored_report =
  mr_id :: id
  mr_report :: report_row
  mr_generatedBy :: "id option"

text \<open>A registration is identified by its student and its school.\<close>

record ministry_db = db +
  complianceChecks :: "compliance_row list"
  ministryReports :: "stored_report list"
  studentCreatedAt :: "id \<Rightarrow> time"
  enrollmentCreatedAt :: "id \<times> id \<Rightarrow> time"

text \<open>\<open>toISOString\<close>, the parser of dates, the collation key of a JSON text, identifiers.\<close>

record ministry_env =
  me_iso :: "time \<Rightarrow> string"
  me_parseDate :: "string \<Rightarrow> time option"
  me_rank :: "json \<Rightarrow> string"
  me_uuid :: "nat \<Rightarrow> id"

definition unknownPlace :: string where
  "unknownPlace = ''Non renseign'' @ eAcute @ ''e''"

definition orUnknown :: "string option \<Rightarrow> string" where
  "orUnknown x = (if truthy x then nullish x [] else unknownPlace)"

definition MAX_BREAKDOWN_LIMIT :: int where "MAX_BREAKDOWN_LIMIT = 100"
definition DEFAULT_BREAKDOWN_LIMIT :: int where "DEFAULT_BREAKDOWN_LIMIT = 20"

definition ACCEPTED_APPLICATION_STATUSES :: "app_status list" where
  "ACCEPTED_APPLICATION_STATUSES = [ACCEPTED, ENROLLED]"

definition PENDING_APPLICATION_STATUSES :: "app_status list" where
  "PENDING_APPLICATION_STATUSES =
     [PENDING, UNDER_REVIEW, TEST_SCHEDULED, INTERVIEW_SCHEDULED, PRESELECTED, WAITLISTED]"

primrec statusName :: "app_status \<Rightarrow> string" where
  "statusName PENDING = ''PENDING''"
| "statusName UNDER_REVIEW = ''UNDER_REVIEW''"
| "statusName PRESELECTED = ''PRESELECTED''"
| "statusName TEST_SCHEDULED = ''TEST_SCHEDULED''"
| "statusName TEST_COMPLETED = ''TEST_COMPLETED''"
| "statusName INTERVIEW_SCHEDULED = ''INTERVIEW_SCHEDULED''"
| "statusName INTERVIEW_COMPLETED = ''INTERVIEW_COMPLETED''"
| "statusName ACCEPTED = ''ACCEPTED''"
| "statusName REJECTED = ''REJECTED''"
| "statusName WAITLISTED = ''WAITLISTED''"
| "statusName ENROLLED = ''ENROLLED''"
| "statusName CANCELLED = ''CANCELLED''"

section \<open>Filters\<close>

record analytics_filters =
  af_from :: "time option"
  af_to :: "time option"
  af_region :: "string option"
  af_filiere :: "string option"
  af_schoolId :: "string option"
  af_limit :: int

definition breakdownLimit :: "rat option \<Rightarrow> int" where
  "breakdownLimit requested =
     (case requested of None \<Rightarrow> DEFAULT_BREAKDOWN_LIMIT | Some r \<Rightarrow> min (max \<lfloor>r\<rfloor> 1) MAX_BREAKDOWN_LIMIT)"

definition rangeFilters :: "time option \<Rightarrow> time option \<Rightarrow> int \<Rightarrow> analytics_filters" where
  "rangeFilters since until limit =
     \<lparr>af_from = since, af_to = until, af_region = None, af_filiere = None, af_schoolId = None, af_limit = limit\<rparr>"

definition inPeriod :: "analytics_filters \<Rightarrow> time \<Rightarrow> bool" where
  "inPeriod q d \<longleftrightarrow>
     (case af_from q of None \<Rightarrow> True | Some a \<Rightarrow> a \<le> d) \<and> (case af_to q of None \<Rightarrow> True | Some b \<Rightarrow> d \<le> b)"

text \<open>\<open>Math.floor\<close> and the bounds of a page number and a limit; \<open>None\<close> is not a number.\<close>

definition resolvePage :: "rat option \<Rightarrow> int" where
  "resolvePage p = (case p of None \<Rightarrow> 1 | Some r \<Rightarrow> max \<lfloor>r\<rfloor> 1)"

record page_meta =
  pm_page :: int
  pm_limit :: int
  pm_total :: nat
  pm_totalPages :: int

definition paginationMeta :: "int \<Rightarrow> int \<Rightarrow> nat \<Rightarrow> page_meta" where
  "paginationMeta page limit n =
     \<lparr>pm_page = page, pm_limit = limit, pm_total = n, pm_totalPages = max (totalPages n limit) 1\<rparr>"

section \<open>Calendar months\<close>

text \<open>\<open>getUTCFullYear\<close> and \<open>getUTCMonth\<close> of an instant: eras of 400 years that start on 1 March.\<close>

definition civilMonth :: "time \<Rightarrow> int \<times> int" where
  "civilMonth t =
     (let z = t div 86400000 + 719468;
          era = z div 146097;
          doe = z - era * 146097;
          yoe = (doe - doe div 1460 + doe div 36524 - doe div 146096) div 365;
          doy = doe - (365 * yoe + yoe div 4 - yoe div 100);
          mp = (5 * doy + 2) div 153;
          m = (if mp < 10 then mp + 3 else mp - 9)
      in (yoe + era * 400 + (if m \<le> 2 then 1 else 0), m))"

definition toMonthKey :: "time \<Rightarrow> string" where
  "toMonthKey t =
     (let (y, m) = civilMonth t in show_int y @ ''-'' @ padStart 2 (CHR ''0'') (show_nat (nat m)))"

section \<open>Grouping\<close>

record 'k aggregate =
  ag_key :: 'k
  ag_count :: nat
  ag_accepted :: nat
  ag_pending :: nat

text \<open>A \<open>Map\<close> keeps its keys in the order of their insertion.\<close>

fun incrementAggregate :: "'k aggregate list \<Rightarrow> 'k \<Rightarrow> bool \<Rightarrow> bool \<Rightarrow> 'k aggregate list" where
  "incrementAggregate [] key accepted pending =
     [\<lparr>ag_key = key, ag_count = 1, ag_accepted = (if accepted then 1 else 0), ag_pending = (if pending then 1 else 0)\<rparr>]"
| "incrementAggregate (g # gs) key accepted pending =
     (if ag_key g = key
      then g\<lparr>ag_count := ag_count g + 1, ag_accepted := ag_accepted g + (if accepted then 1 else 0),
             ag_pending := ag_pending g + (if pending then 1 else 0)\<rparr> # gs
      else g # incrementAggregate gs key accepted pending)"

text \<open>\<open>map.set(key, (map.get(key) || 0) + 1)\<close>\<close>

fun incrementCount :: "('k \<times> nat) list \<Rightarrow> 'k \<Rightarrow> ('k \<times> nat) list" where
  "incrementCount [] key = [(key, 1)]"
| "incrementCount ((k, n) # gs) key =
     (if k = key then (k, n + 1) # gs else (k, n) # incrementCount gs key)"

definition countBy :: "('r \<Rightarrow> 'k) \<Rightarrow> 'r list \<Rightarrow> ('k \<times> nat) list" where
  "countBy k rs = foldl (\<lambda>m r. incrementCount m (k r)) [] rs"

text \<open>Largest first; equal counts by the JSON text.\<close>

definition sortByCount :: "('j \<Rightarrow> string) \<Rightarrow> ('a \<Rightarrow> 'j) \<Rightarrow> ('a \<Rightarrow> nat) \<Rightarrow> 'a list \<Rightarrow> 'a list" where
  "sortByCount rank toJson count_of items = sort_key (\<lambda>x. - int (count_of x)) (sort_key (rank \<circ> toJson) items)"

definition sliceTo :: "int \<Rightarrow> 'a list \<Rightarrow> 'a list" where
  "sliceTo limit xs = take (nat limit) xs"

text \<open>The JSON forms of the groups, with the fields in the order of the source.\<close>

definition jCount :: "nat \<Rightarrow> json" where
  "jCount n = JNum (of_nat n)"

definition jText :: "string option \<Rightarrow> json" where
  "jText x = (case x of None \<Rightarrow> JNull | Some v \<Rightarrow> JStr v)"

definition jAggregate :: "('k \<Rightarrow> (string \<times> json) list) \<Rightarrow> 'k aggregate \<Rightarrow> json" where
  "jAggregate f g = JObj (f (ag_key g) @
     [(''count'', jCount (ag_count g)), (''acceptedCount'', jCount (ag_accepted g)),
      (''pendingCount'', jCount (ag_pending g))])"

definition jCounted :: "string \<Rightarrow> string \<times> nat \<Rightarrow> json" where
  "jCounted name g = JObj [(name, JStr (fst g)), (''count'', jCount (snd g))]"

type_synonym filiere_key = "string \<times> string option"
type_synonym school_key = "string \<times> string \<times> string"
type_synonym school_programme_key = "school_key \<times> filiere_key"

definition filiereFields :: "filiere_key \<Rightarrow> (string \<times> json) list" where
  "filiereFields k = (case k of (f, p) \<Rightarrow> [(''filiere'', JStr f), (''programme'', jText p)])"

definition schoolFields :: "school_key \<Rightarrow> (string \<times> json) list" where
  "schoolFields k = (case k of (x, r, c) \<Rightarrow> [(''school'', JStr x), (''region'', JStr r), (''city'', JStr c)])"

definition schoolProgrammeFields :: "school_programme_key \<Rightarrow> (string \<times> json) list" where
  "schoolProgrammeFields k = schoolFields (fst k) @ filiereFields (snd k)"

section \<open>Applications\<close>

text \<open>The offer and the school of an application, the dimensions that the query joins.\<close>

definition offerAt :: "'z db_scheme \<Rightarrow> application_row \<Rightarrow> offer_row option" where
  "offerAt s a = find (\<lambda>f. o_id f = a_offerId a) (offers s)"

definition schoolAt :: "'z db_scheme \<Rightarrow> id \<Rightarrow> school_row option" where
  "schoolAt s i = find (\<lambda>x. sc_id x = i) (schools s)"

definition programAt :: "'z db_scheme \<Rightarrow> id option \<Rightarrow> program_row option" where
  "programAt s i = Option.bind i (\<lambda>p. find (\<lambda>x. pr_id x = p) (programs s))"

definition equalsInsensitive :: "string option \<Rightarrow> string \<Rightarrow> bool" where
  "equalsInsensitive x v \<longleftrightarrow> (case x of None \<Rightarrow> False | Some y \<Rightarrow> map lowerChar y = map lowerChar v)"

definition offerMatches :: "'z db_scheme \<Rightarrow> analytics_filters \<Rightarrow> offer_row \<Rightarrow> bool" where
  "offerMatches s q f \<longleftrightarrow>
     o_deletedAt f = None \<and>
     (case schoolAt s (o_schoolId f) of
        None \<Rightarrow> False
      | Some x \<Rightarrow> sc_deletedAt x = None \<and>
          (truthy (af_region q) \<longrightarrow> equalsInsensitive (sc_region x) (nullish (af_region q) []))) \<and>
     (truthy (af_schoolId q) \<longrightarrow> Some (o_schoolId f) = af_schoolId q) \<and>
     (truthy (af_filiere q) \<longrightarrow>
        containsInsensitive (o_title f) (nullish (af_filiere q) []) \<or>
        (case programAt s (o_programId f) of
           None \<Rightarrow> False | Some p \<Rightarrow> containsInsensitive (pr_name p) (nullish (af_filiere q) [])))"

definition applicationWhere :: "'z db_scheme \<Rightarrow> analytics_filters \<Rightarrow> application_row \<Rightarrow> bool" where
  "applicationWhere s q a \<longleftrightarrow>
     a_deletedAt a = None \<and>
     (case offerAt s a of None \<Rightarrow> False | Some f \<Rightarrow> offerMatches s q f) \<and> inPeriod q (a_submittedAt a)"

record app_record =
  rd_status :: app_status
  rd_submittedAt :: time
  rd_filiere :: filiere_key
  rd_school :: school_key

text \<open>What the query selects of an application that matches.\<close>

definition recordOf :: "'z db_scheme \<Rightarrow> application_row \<Rightarrow> app_record" where
  "recordOf s a =
     (let f = the (offerAt s a); x = the (schoolAt s (o_schoolId f)) in
      \<lparr>rd_status = a_status a, rd_submittedAt = a_submittedAt a,
       rd_filiere = (orUnknown (Some (o_title f)),
         (let p = map_option pr_name (programAt s (o_programId f)) in if truthy p then p else None)),
       rd_school = (sc_name x, orUnknown (sc_region x), orUnknown (Some (sc_city x)))\<rparr>)"

definition applicationRecords :: "analytics_filters \<Rightarrow> 'z db_scheme \<Rightarrow> app_record list" where
  "applicationRecords q s = map (recordOf s) (filter (applicationWhere s q) (applications s))"

definition isAccepted :: "app_record \<Rightarrow> bool" where
  "isAccepted r \<longleftrightarrow> rd_status r \<in> set ACCEPTED_APPLICATION_STATUSES"

definition isPending :: "app_record \<Rightarrow> bool" where
  "isPending r \<longleftrightarrow> rd_status r \<in> set PENDING_APPLICATION_STATUSES"

definition aggregateBy :: "(app_record \<Rightarrow> 'k) \<Rightarrow> app_record list \<Rightarrow> 'k aggregate list" where
  "aggregateBy k rs = foldl (\<lambda>m r. incrementAggregate m (k r) (isAccepted r) (isPending r)) [] rs"

record application_analytics =
  aa_period :: "time option \<times> time option"
  aa_total :: nat
  aa_accepted :: nat
  aa_pending :: nat
  aa_byStatus :: "(string \<times> nat) list"
  aa_byRegion :: "(string \<times> nat) list"
  aa_byFiliere :: "filiere_key aggregate list"
  aa_bySchool :: "school_key aggregate list"
  aa_bySchoolProgramme :: "school_programme_key aggregate list"
  aa_byPeriod :: "string aggregate list"

definition applicationAnalytics :: "(json \<Rightarrow> string) \<Rightarrow> analytics_filters \<Rightarrow> app_record list \<Rightarrow> application_analytics" where
  "applicationAnalytics rank q rs =
     \<lparr>aa_period = (af_from q, af_to q),
      aa_total = length rs,
      aa_accepted = count_rows isAccepted rs,
      aa_pending = count_rows isPending rs,
      aa_byStatus = sortByCount rank (jCounted ''status'') snd (countBy (statusName \<circ> rd_status) rs),
      aa_byRegion = sliceTo (af_limit q) (sortByCount rank (jCounted ''region'') snd (countBy (fst \<circ> snd \<circ> rd_school) rs)),
      aa_byFiliere = sliceTo (af_limit q) (sortByCount rank (jAggregate filiereFields) ag_count (aggregateBy rd_filiere rs)),
      aa_bySchool = sliceTo (af_limit q) (sortByCount rank (jAggregate schoolFields) ag_count (aggregateBy rd_school rs)),
      aa_bySchoolProgramme = sliceTo (af_limit q) (sortByCount rank (jAggregate schoolProgrammeFields) ag_count
        (aggregateBy (\<lambda>r. (rd_school r, rd_filiere r)) rs)),
      aa_byPeriod = sort_key ag_key (aggregateBy (toMonthKey \<circ> rd_submittedAt) rs)\<rparr>"

definition collectApplicationAnalytics ::
  "ministry_env \<Rightarrow> analytics_filters \<Rightarrow> (ministry_db, application_analytics) exec" where
  "collectApplicationAnalytics E q = asks (\<lambda>s. applicationAnalytics (me_rank E) q (applicationRecords q s))"

definition getApplicationStats ::
  "ministry_env \<Rightarrow> analytics_filters \<Rightarrow> rat option \<Rightarrow> (ministry_db, application_analytics) exec" where
  "getApplicationStats E q limit = collectApplicationAnalytics E (q\<lparr>af_limit := breakdownLimit limit\<rparr>)"

section \<open>Registrations, schools, places\<close>

definition enrollmentWhere :: "ministry_db \<Rightarrow> analytics_filters \<Rightarrow> enrollment_row \<Rightarrow> bool" where
  "enrollmentWhere s q e \<longleftrightarrow>
     e_status e = ACTIVE \<and>
     (case schoolAt s (e_schoolId e) of None \<Rightarrow> False | Some x \<Rightarrow> sc_deletedAt x = None) \<and>
     list_ex (\<lambda>x. st_id x = e_studentId e \<and> st_deletedAt x = None) (students s) \<and>
     inPeriod q (enrollmentCreatedAt s (e_studentId e, e_schoolId e))"

record enrollment_analytics =
  ea_total :: nat
  ea_totalDistinctStudents :: nat
  ea_bySchoolProgramme :: "((school_key \<times> string \<times> string) \<times> nat) list"

definition enrollmentGroup :: "'z db_scheme \<Rightarrow> enrollment_row \<Rightarrow> school_key \<times> string \<times> string" where
  "enrollmentGroup s e =
     (let x = the (schoolAt s (e_schoolId e)); p = the (programAt s (Some (e_programId e))) in
      ((sc_name x, orUnknown (sc_region x), orUnknown (Some (sc_city x))), pr_name p, pr_diploma p))"

definition jEnrollments :: "(school_key \<times> string \<times> string) \<times> nat \<Rightarrow> json" where
  "jEnrollments g = (case g of ((k, f, p), n) \<Rightarrow>
     JObj (schoolFields k @ [(''filiere'', JStr f), (''programme'', JStr p), (''enrolledCount'', jCount n)]))"

definition collectEnrollmentAnalytics ::
  "ministry_env \<Rightarrow> analytics_filters \<Rightarrow> (ministry_db, enrollment_analytics) exec" where
  "collectEnrollmentAnalytics E q = asks (\<lambda>s.
     (let es = filter (enrollmentWhere s q) (enrollments s) in
      \<lparr>ea_total = length es, ea_totalDistinctStudents = length (uniq (map e_studentId es)),
       ea_bySchoolProgramme =
         sliceTo (af_limit q) (sortByCount (me_rank E) jEnrollments snd (countBy (enrollmentGroup s) es))\<rparr>))"

text \<open>\<open>Number(x.toFixed(2))\<close> and \<open>Math.round\<close> of an exact quotient that is not negative.\<close>

definition toFixed2 :: "rat \<Rightarrow> rat" where
  "toFixed2 x = of_int \<lfloor>x * 100 + 1 / 2\<rfloor> / 100"

definition percentage :: "nat \<Rightarrow> nat \<Rightarrow> int" where
  "percentage a n = (if n = 0 then 0 else \<lfloor>of_nat a / of_nat n * 100 + 1 / (2 :: rat)\<rfloor>)"

record school_stats =
  ss_totalSchools :: nat
  ss_publicSchools :: nat
  ss_privateSchools :: nat
  ss_totalOffers :: nat
  ss_schoolsByRegion :: "(string \<times> nat) list"
  ss_averageOffers :: rat
  ss_averageApplications :: rat

definition average2 :: "nat \<Rightarrow> nat \<Rightarrow> rat" where
  "average2 a n = (if n = 0 then 0 else toFixed2 (of_nat a / of_nat n))"

definition getSchoolStats :: "ministry_env \<Rightarrow> (ministry_db, school_stats) exec" where
  "getSchoolStats E = asks (\<lambda>s.
     (let live = filter (\<lambda>x. sc_deletedAt x = None) (schools s);
          nOffers = count_rows (\<lambda>f. o_deletedAt f = None \<and>
            (case schoolAt s (o_schoolId f) of None \<Rightarrow> False | Some x \<Rightarrow> sc_deletedAt x = None)) (offers s);
          nApplications = count_rows (applicationWhere s (rangeFilters None None (breakdownLimit (Some 20)))) (applications s) in
      \<lparr>ss_totalSchools = length live,
       ss_publicSchools = count_rows (\<lambda>x. sc_type x = ''PUBLIC'') live,
       ss_privateSchools = count_rows (\<lambda>x. sc_type x = ''PRIVATE'') live,
       ss_totalOffers = nOffers,
       ss_schoolsByRegion =
         sortByCount (me_rank E) (jCounted ''region'') snd (countBy (orUnknown \<circ> sc_region) live),
       ss_averageOffers = average2 nOffers (length live),
       ss_averageApplications = average2 nApplications (length live)\<rparr>))"

record geographic_stats =
  gs_byRegion :: "(string \<times> nat) list"
  gs_byCity :: "(string \<times> nat) list"

text \<open>\<open>groupBy\<close> of a column that is not null; the groups are then renamed by \<open>|| UNKNOWN\<close>.\<close>

definition groupPlaces :: "('a \<Rightarrow> string option) \<Rightarrow> 'a list \<Rightarrow> (string \<times> nat) list" where
  "groupPlaces place xs =
     map (\<lambda>(p, n). (orUnknown p, n)) (groupCount place (filter (\<lambda>x. place x \<noteq> None) xs))"

definition getGeographicStats :: "ministry_env \<Rightarrow> (ministry_db, geographic_stats) exec" where
  "getGeographicStats E = asks (\<lambda>s.
     (let live = filter (\<lambda>x. st_deletedAt x = None) (students s) in
      \<lparr>gs_byRegion = sortByCount (me_rank E) (jCounted ''region'') snd (groupPlaces st_region live),
       gs_byCity = sliceTo MAX_BREAKDOWN_LIMIT
         (sortByCount (me_rank E) (jCounted ''city'') snd (groupPlaces st_city live))\<rparr>))"

section \<open>Dashboard\<close>

record dashboard =
  db_applications :: application_analytics
  db_enrollments :: enrollment_analytics
  db_totalStudents :: nat
  db_totalSchools :: nat
  db_totalOffers :: nat
  db_acceptanceRate :: int
  db_pendingOver48h :: nat

definition getDashboard ::
  "ministry_env \<Rightarrow> time \<Rightarrow> time option \<Rightarrow> time option \<Rightarrow> (ministry_db, dashboard) exec" where
  "getDashboard E now since until =
     (let q = rangeFilters since until (breakdownLimit (Some (of_int DEFAULT_BREAKDOWN_LIMIT))) in
      bindE (collectApplicationAnalytics E q) (\<lambda>aa.
      bindE (collectEnrollmentAnalytics E q) (\<lambda>ea.
      bindE (asks (\<lambda>s. count_rows (\<lambda>x. st_deletedAt x = None \<and> inPeriod q (studentCreatedAt s (st_id x))) (students s))) (\<lambda>nStudents.
      bindE (countRows schools (\<lambda>x. sc_deletedAt x = None \<and> sc_isActive x)) (\<lambda>nSchools.
      bindE (asks (\<lambda>s. count_rows (\<lambda>f. o_deletedAt f = None \<and> o_isOpen f \<and>
               (case schoolAt s (o_schoolId f) of None \<Rightarrow> False | Some x \<Rightarrow> sc_deletedAt x = None \<and> sc_isActive x)) (offers s))) (\<lambda>nOffers.
      bindE (countRows applications (\<lambda>a. a_deletedAt a = None \<and> a_status a = PENDING \<and>
               a_submittedAt a \<le> now - 48 * 60 * 60 * 1000)) (\<lambda>late.
      ret \<lparr>db_applications = aa, db_enrollments = ea, db_totalStudents = nStudents, db_totalSchools = nSchools,
           db_totalOffers = nOffers, db_acceptanceRate = percentage (aa_accepted aa) (aa_total aa),
           db_pendingOver48h = late\<rparr>)))))))"

section \<open>Compliance\<close>

definition liveSchool :: "'z db_scheme \<Rightarrow> id \<Rightarrow> bool" where
  "liveSchool s i \<longleftrightarrow> (case schoolAt s i of None \<Rightarrow> False | Some x \<Rightarrow> sc_deletedAt x = None)"

text \<open>\<open>orderBy: [{ checkedAt: 'desc' }, { createdAt: 'desc' }]\<close>\<close>

definition newestChecks :: "compliance_row list \<Rightarrow> compliance_row list" where
  "newestChecks xs = orderDesc cc_checkedAt (orderDesc cc_createdAt xs)"

text \<open>The first check of each school in that order.\<close>

fun firstPerSchool :: "compliance_row list \<Rightarrow> compliance_row list" where
  "firstPerSchool [] = []"
| "firstPerSchool (c # cs) = c # firstPerSchool (filter (\<lambda>d. cc_schoolId d \<noteq> cc_schoolId c) cs)"

definition checksOf :: "ministry_db \<Rightarrow> compliance_row list" where
  "checksOf s = newestChecks (filter (\<lambda>c. liveSchool s (cc_schoolId c)) (complianceChecks s))"

definition complianceView :: "ministry_db \<Rightarrow> compliance_row \<Rightarrow> compliance_row \<times> school_row" where
  "complianceView s c = (c, the (schoolAt s (cc_schoolId c)))"

definition getCompliance ::
  "string option \<Rightarrow> rat option \<Rightarrow> rat option \<Rightarrow> bool option
    \<Rightarrow> (ministry_db, (compliance_row \<times> school_row) list \<times> page_meta) exec" where
  "getCompliance wanted p l latestOnly = asks (\<lambda>s.
     (let page = resolvePage p; limit = breakdownLimit l;
          checks = (if latestOnly \<noteq> Some False then firstPerSchool (checksOf s) else checksOf s);
          current = filter (\<lambda>c. truthy wanted \<longrightarrow> Some (cc_status c) = wanted) checks in
      (map (complianceView s) (take (nat limit) (drop (nat ((page - 1) * limit)) current)),
       paginationMeta page limit (length current))))"

record compliance_dto =
  cu_status :: string
  cu_score :: "rat option"
  cu_remarks :: "string option"

text \<open>\<open>newId\<close> on the extended database.\<close>

definition freshId :: "(nat \<Rightarrow> id) \<Rightarrow> (ministry_db, id) exec" where
  "freshId uuid = (\<lambda>s. (Inr (uuid (seqNo s)), s\<lparr>seqNo := Suc (seqNo s)\<rparr>))"

definition updateCompliance ::
  "ministry_env \<Rightarrow> time \<Rightarrow> id \<Rightarrow> compliance_dto \<Rightarrow> id option \<Rightarrow> (ministry_db, compliance_row \<times> school_row) exec" where
  "updateCompliance E now schoolId dto userId =
     bindE (findOr schools (\<lambda>x. sc_id x = schoolId \<and> sc_deletedAt x = None) (NotFound ''Etablissement introuvable'')) (\<lambda>_.
     bindE (freshId (me_uuid E)) (\<lambda>i.
     bindE (insertRow complianceChecks complianceChecks_update (\<lambda>a b. cc_id a = cc_id b)
       \<lparr>cc_id = i, cc_schoolId = schoolId, cc_checkType = ''REGULAR'', cc_status = cu_status dto,
        cc_score = cu_score dto, cc_remarks = cu_remarks dto, cc_checkedBy = userId, cc_checkedAt = now,
        cc_createdAt = now\<rparr>) (\<lambda>c.
     asks (\<lambda>s. complianceView s c))))"

definition getComplianceSummary :: "ministry_env \<Rightarrow> (ministry_db, nat \<times> (string \<times> nat) list) exec" where
  "getComplianceSummary E = asks (\<lambda>s.
     (let latest = firstPerSchool (checksOf s) in
      (length latest, sortByCount (me_rank E) (jCounted ''status'') snd (countBy cc_status latest))))"

section \<open>Reports\<close>

datatype report_section = SUMMARY | APPLICATIONS | SCHOOLS | GEOGRAPHY | COMPLIANCE

definition jPeriod :: "ministry_env \<Rightarrow> time option \<times> time option \<Rightarrow> json" where
  "jPeriod E p = JObj
     [(''from'', jText (map_option (me_iso E) (fst p))), (''to'', jText (map_option (me_iso E) (snd p)))]"

definition jSummary :: "dashboard \<Rightarrow> json" where
  "jSummary d = JObj
     [(''totalApplications'', jCount (aa_total (db_applications d))),
      (''totalEnrolledStudents'', jCount (ea_total (db_enrollments d))),
      (''totalSchools'', jCount (db_totalSchools d)), (''totalOffers'', jCount (db_totalOffers d)),
      (''acceptanceRate'', JNum (of_int (db_acceptanceRate d)))]"

definition jPeriodKey :: "string \<Rightarrow> (string \<times> json) list" where
  "jPeriodKey k = [(''period'', JStr k)]"

definition jApplications :: "application_analytics \<Rightarrow> dashboard \<Rightarrow> json" where
  "jApplications aa d = JObj
     [(''byStatus'', JArr (map (jCounted ''status'') (aa_byStatus aa))),
      (''byFiliere'', JArr (map (jAggregate filiereFields) (aa_byFiliere aa))),
      (''bySchool'', JArr (map (jAggregate schoolFields) (aa_bySchool aa))),
      (''bySchoolProgramme'', JArr (map (jAggregate schoolProgrammeFields) (aa_bySchoolProgramme aa))),
      (''byPeriod'', JArr (map (jAggregate jPeriodKey) (aa_byPeriod aa))),
      (''enrollmentsBySchoolProgramme'', JArr (map jEnrollments (ea_bySchoolProgramme (db_enrollments d))))]"

definition jSchools :: "school_stats \<Rightarrow> json" where
  "jSchools x = JObj
     [(''totalSchools'', jCount (ss_totalSchools x)), (''publicSchools'', jCount (ss_publicSchools x)),
      (''privateSchools'', jCount (ss_privateSchools x)), (''totalOffers'', jCount (ss_totalOffers x)),
      (''schoolsByRegion'', JArr (map (jCounted ''region'') (ss_schoolsByRegion x))),
      (''averageOffersPerSchool'', JNum (ss_averageOffers x)),
      (''averageApplicationsPerSchool'', JNum (ss_averageApplications x))]"

definition jGeography :: "geographic_stats \<Rightarrow> json" where
  "jGeography x = JObj
     [(''byRegion'', JArr (map (jCounted ''region'') (gs_byRegion x))),
      (''byCity'', JArr (map (jCounted ''city'') (gs_byCity x)))]"

definition jCompliance :: "nat \<times> (string \<times> nat) list \<Rightarrow> json" where
  "jCompliance x = JObj
     [(''totalSchoolsChecked'', jCount (fst x)), (''byStatus'', JArr (map (jCounted ''status'') (snd x)))]"

definition schemaVersion :: string where "schemaVersion = ''ministry-aggregate-v1''"

definition createAggregateReportSnapshot ::
  "ministry_env \<Rightarrow> time \<Rightarrow> time option \<Rightarrow> time option \<Rightarrow> report_section list option \<Rightarrow> (ministry_db, json) exec" where
  "createAggregateReportSnapshot E now since until requested =
     (let sections = (if nullish requested [] \<noteq> [] then nullish requested []
                      else [SUMMARY, APPLICATIONS, SCHOOLS, GEOGRAPHY, COMPLIANCE]) in
      bindE (getDashboard E now since until) (\<lambda>d.
      bindE (getApplicationStats E (rangeFilters since until 0) (Some (of_int MAX_BREAKDOWN_LIMIT))) (\<lambda>aa.
      bindE (getSchoolStats E) (\<lambda>ss.
      bindE (getGeographicStats E) (\<lambda>gs.
      bindE (getComplianceSummary E) (\<lambda>cs.
      ret (JObj ([(''schemaVersion'', JStr schemaVersion), (''period'', jPeriod E (aa_period (db_applications d)))] @
        (if SUMMARY \<in> set sections then [(''summary'', jSummary d)] else []) @
        (if APPLICATIONS \<in> set sections then [(''applications'', jApplications aa d)] else []) @
        (if SCHOOLS \<in> set sections then [(''schools'', jSchools ss)] else []) @
        (if GEOGRAPHY \<in> set sections then [(''geography'', jGeography gs)] else []) @
        (if COMPLIANCE \<in> set sections then [(''compliance'', jCompliance cs)] else [])))))))))"

text \<open>\<open>setUTCHours\<close> on a text that is a date without a time.\<close>

definition isDigit :: "char \<Rightarrow> bool" where
  "isDigit c \<longleftrightarrow> CHR ''0'' \<le> c \<and> c \<le> CHR ''9''"

definition isDateOnly :: "string \<Rightarrow> bool" where
  "isDateOnly v \<longleftrightarrow> length v = 10 \<and>
     list_all (\<lambda>i. if i = 4 \<or> i = 7 then v ! i = CHR ''-'' else isDigit (v ! i)) [0..<10]"

definition toReportBoundary :: "ministry_env \<Rightarrow> string \<Rightarrow> bool \<Rightarrow> ('s, time) exec" where
  "toReportBoundary E v endOfDay =
     (case me_parseDate E v of
        None \<Rightarrow> throw (BadRequest ''Date de rapport invalide'')
      | Some t \<Rightarrow> ret (if isDateOnly v then t - t mod 86400000 + (if endOfDay then 86399999 else 0) else t))"

record report_dto =
  rq_name :: string
  rq_description :: "string option"
  rq_type :: string
  rq_period :: string
  rq_periodStart :: string
  rq_periodEnd :: string
  rq_sections :: "report_section list option"

text \<open>The answer: the identifier and the time of the report; its status is always \<open>READY\<close>.\<close>

definition generateReport ::
  "ministry_env \<Rightarrow> time \<Rightarrow> report_dto \<Rightarrow> id option \<Rightarrow> (ministry_db, id \<times> time) exec" where
  "generateReport E now dto userId =
     bindE (toReportBoundary E (rq_periodStart dto) False) (\<lambda>periodStart.
     bindE (toReportBoundary E (rq_periodEnd dto) True) (\<lambda>periodEnd.
     thenE (require (periodStart \<le> periodEnd) (BadRequest ''La date de debut du rapport doit preceder sa date de fin''))
     (bindE (createAggregateReportSnapshot E now (Some periodStart) (Some periodEnd) (rq_sections dto)) (\<lambda>snapshot.
      bindE (freshId (me_uuid E)) (\<lambda>i.
      thenE (insertRow ministryReports ministryReports_update (\<lambda>a b. mr_id a = mr_id b)
        \<lparr>mr_id = i, mr_report = \<lparr>rp_name = rq_name dto, rp_description = rq_description dto, rp_type = rq_type dto,
           rp_period = rq_period dto, rp_periodStart = periodStart, rp_periodEnd = periodEnd, rp_generatedAt = now,
           rp_data = snapshot\<rparr>, mr_generatedBy = userId\<rparr>)
      (ret (i, now)))))))"

definition getReports ::
  "string option \<Rightarrow> rat option \<Rightarrow> rat option \<Rightarrow> (ministry_db, stored_report list \<times> page_meta) exec" where
  "getReports rtype p l = asks (\<lambda>s.
     (let page = resolvePage p; limit = breakdownLimit l;
          rows = filter (\<lambda>r. truthy rtype \<longrightarrow> Some (rp_type (mr_report r)) = rtype) (ministryReports s) in
      (take (nat limit) (drop (nat ((page - 1) * limit)) (orderDesc (rp_generatedAt \<circ> mr_report) rows)),
       paginationMeta page limit (length rows))))"

definition historicalMessage :: string where
  "historicalMessage = ''Rapport historique : seul le p'' @ eAcute @ ''rim'' @ [CHR 0xC3, CHR 0xA8] @ ''tre agr'' @ eAcute @
     ''g'' @ eAcute @ '' est disponible apr'' @ [CHR 0xC3, CHR 0xA8] @ ''s la mise '' @ [CHR 0xC3, CHR 0xA0] @ '' niveau de confidentialit'' @ eAcute @ ''.''"

definition safeReportSnapshot :: "json \<Rightarrow> json" where
  "safeReportSnapshot d =
     (if (case d of JObj fs \<Rightarrow> map_of fs ''schemaVersion'' = Some (JStr schemaVersion) | _ \<Rightarrow> False) then d
      else JObj [(''schemaVersion'', JStr schemaVersion), (''summary'', JObj [(''message'', JStr historicalMessage)])])"

definition getReport :: "id \<Rightarrow> (ministry_db, report_row) exec" where
  "getReport i =
     bindE (findOr ministryReports (\<lambda>r. mr_id r = i) (NotFound ''Rapport introuvable'')) (\<lambda>r.
     ret ((mr_report r)\<lparr>rp_data := safeReportSnapshot (rp_data (mr_report r))\<rparr>))"

definition exportReport :: "export_env \<Rightarrow> id \<Rightarrow> export_format \<Rightarrow> (ministry_db, string \<times> string \<times> string) exec" where
  "exportReport X i format = bindE (getReport i) (\<lambda>report. ret (createReportExport X report format))"

section \<open>Groups are the classes of the rows\<close>

lemma uniq_snoc: "uniq (xs @ [x]) = (if x \<in> set xs then uniq xs else uniq xs @ [x])"
  by (induction xs rule: uniq.induct) auto

lemma incrementCount_classes:
  "distinct vs \<Longrightarrow> incrementCount (map (\<lambda>v. (v, f v)) vs) x =
     (if x \<in> set vs then map (\<lambda>v. (v, if v = x then f v + 1 else f v)) vs
      else map (\<lambda>v. (v, f v)) vs @ [(x, 1)])"
  by (induction vs) auto

lemma countBy_groupCount: "countBy k rs = groupCount k rs"
proof (induction rs rule: rev_induct)
  case Nil
  then show ?case by (simp add: countBy_def groupCount_def)
next
  case (snoc r rs)
  have "countBy k (rs @ [r]) = incrementCount (groupCount k rs) (k r)"
    using snoc by (simp add: countBy_def)
  then show ?case
    by (auto simp: groupCount_def incrementCount_classes uniq_snoc count_rows_0 image_iff)
qed

text \<open>The reference definition: one group per value, with the cardinalities of its class.\<close>

definition classOf :: "(app_record \<Rightarrow> 'k) \<Rightarrow> app_record list \<Rightarrow> 'k \<Rightarrow> 'k aggregate" where
  "classOf k rs v =
     \<lparr>ag_key = v, ag_count = count_rows (\<lambda>r. k r = v) rs,
      ag_accepted = count_rows (\<lambda>r. k r = v \<and> isAccepted r) rs,
      ag_pending = count_rows (\<lambda>r. k r = v \<and> isPending r) rs\<rparr>"

lemma incrementAggregate_classes:
  assumes "\<And>v. ag_key (f v) = v" "distinct vs"
  shows "incrementAggregate (map f vs) x a p =
     (if x \<in> set vs
      then map (\<lambda>v. if v = x
                then (f v)\<lparr>ag_count := ag_count (f v) + 1, ag_accepted := ag_accepted (f v) + (if a then 1 else 0),
                           ag_pending := ag_pending (f v) + (if p then 1 else 0)\<rparr> else f v) vs
      else map f vs @ [\<lparr>ag_key = x, ag_count = 1, ag_accepted = (if a then 1 else 0), ag_pending = (if p then 1 else 0)\<rparr>])"
  using assms(2) by (induction vs) (auto simp: assms(1))

lemma ag_key_classOf [simp]: "ag_key (classOf k rs v) = v"
  by (simp add: classOf_def)

text \<open>
  The incremental grouping of the applications is the grouping by classes: for each value of the
  key that occurs there is one entry, in the order of first occurrence, with the number of
  applications, of accepted and of pending ones that have this value.
\<close>

lemma grouping_by_classes: "aggregateBy k rs = map (classOf k rs) (uniq (map k rs))"
proof (induction rs rule: rev_induct)
  case Nil
  then show ?case by (simp add: aggregateBy_def)
next
  case (snoc r rs)
  have old: "classOf k (rs @ [r]) v =
      (if v = k r then (classOf k rs v)\<lparr>ag_count := ag_count (classOf k rs v) + 1,
         ag_accepted := ag_accepted (classOf k rs v) + (if isAccepted r then 1 else 0),
         ag_pending := ag_pending (classOf k rs v) + (if isPending r then 1 else 0)\<rparr> else classOf k rs v)" for v
    by (auto simp: classOf_def)
  have new: "classOf k rs v = \<lparr>ag_key = v, ag_count = 0, ag_accepted = 0, ag_pending = 0\<rparr>" if "v \<notin> set (map k rs)" for v
    using that by (auto simp: classOf_def count_rows_0)
  have "aggregateBy k (rs @ [r]) = incrementAggregate (map (classOf k rs) (uniq (map k rs))) (k r) (isAccepted r) (isPending r)"
    using snoc by (simp add: aggregateBy_def)
  also have "\<dots> = map (classOf k (rs @ [r])) (uniq (map k (rs @ [r])))"
  proof (cases "k r \<in> set (map k rs)")
    case True
    have "incrementAggregate (map (classOf k rs) (uniq (map k rs))) (k r) (isAccepted r) (isPending r) =
        map (classOf k (rs @ [r])) (uniq (map k rs))"
      using True by (simp add: incrementAggregate_classes old del: set_map cong: if_cong)
    then show ?thesis using True by (simp add: uniq_snoc del: set_map)
  next
    case False
    then have "map (classOf k (rs @ [r])) (uniq (map k rs)) = map (classOf k rs) (uniq (map k rs))"
      by (intro map_cong refl) (simp add: old, metis image_eqI)
    moreover have "classOf k (rs @ [r]) (k r) =
        \<lparr>ag_key = k r, ag_count = 1, ag_accepted = (if isAccepted r then 1 else 0),
         ag_pending = (if isPending r then 1 else 0)\<rparr>"
      using new [OF False] by (simp add: old)
    ultimately show ?thesis using False by (simp add: incrementAggregate_classes uniq_snoc del: set_map)
  qed
  finally show ?case .
qed

lemma sum_classes: "sum_list (map (\<lambda>v. count_rows (\<lambda>r. k r = v \<and> P r) rs) (uniq (map k rs))) = count_rows P rs"
proof -
  have "sum_list (map (\<lambda>v. count_rows (\<lambda>r. k r = v \<and> P r) rs) (uniq (map k rs))) =
      (\<Sum>v \<in> set (map k rs). count_rows (\<lambda>r. k r = v \<and> P r) rs)"
    by (simp add: sum_list_distinct_conv_sum_set)
  also have "\<dots> = count_rows P rs"
  proof -
    have "(\<Sum>v \<in> A. count_rows (\<lambda>r. k r = v \<and> P r) rs) = count_rows P rs" if "finite A" "k ` set rs \<subseteq> A" for A
      using that(2)
    proof (induction rs)
      case (Cons x xs)
      have "(\<Sum>v \<in> A. count_rows (\<lambda>r. k r = v \<and> P r) (x # xs)) =
          (\<Sum>v \<in> A. (if k x = v \<and> P x then 1 else 0)) + (\<Sum>v \<in> A. count_rows (\<lambda>r. k r = v \<and> P r) xs)"
        by (simp add: sum.distrib)
      also have "(\<Sum>v \<in> A. (if k x = v \<and> P x then 1 else 0 :: nat)) = (if P x then 1 else 0)"
        using Cons.prems that(1) by (cases "P x") (simp_all add: sum.delta)
      finally show ?case using Cons by simp
    qed simp
    from this [of "set (map k rs)"] show ?thesis by simp
  qed
  finally show ?thesis .
qed

lemma sum_sort: "sum_list (map f (sort_key k xs)) = (sum_list (map f xs) :: nat)"
  by (metis mset_map mset_sort sum_mset_sum_list)

lemma sum_take_le: "sum_list (map f (take n xs)) \<le> (sum_list (map f xs) :: nat)"
  by (metis append_take_drop_id le_add1 map_append sum_list_append)

lemma sum_sortByCount: "sum_list (map f (sortByCount rank j c xs)) = (sum_list (map f xs) :: nat)"
  by (simp add: sortByCount_def sum_sort)

lemma sum_slice_le: "sum_list (map f (sliceTo l (sortByCount rank j c xs))) \<le> (sum_list (map f xs) :: nat)"
  using sum_take_le [of f "nat l" "sortByCount rank j c xs"] by (simp add: sliceTo_def sum_sortByCount)

lemma sum_aggregate_count: "sum_list (map ag_count (aggregateBy k rs)) = length rs"
  using sum_classes [where k = k and rs = rs and P = "\<lambda>_. True"] by (simp add: grouping_by_classes classOf_def comp_def count_rows_def)

lemma sum_aggregate_accepted: "sum_list (map ag_accepted (aggregateBy k rs)) = count_rows isAccepted rs"
  using sum_classes [where k = k and rs = rs and P = isAccepted] by (simp add: grouping_by_classes classOf_def comp_def)

lemma sum_aggregate_pending: "sum_list (map ag_pending (aggregateBy k rs)) = count_rows isPending rs"
  using sum_classes [where k = k and rs = rs and P = isPending] by (simp add: grouping_by_classes classOf_def comp_def)

lemma sorted_sortByCount:
  "sorted_wrt (\<lambda>a b. c b \<le> c a) (sliceTo l (sortByCount rank j c xs))"
proof -
  have "sorted (map (\<lambda>x. - int (c x)) (sortByCount rank j c xs))" by (simp add: sortByCount_def)
  then have "sorted_wrt (\<lambda>a b. c b \<le> c a) (sortByCount rank j c xs)" by (simp add: sorted_map)
  then show ?thesis by (simp add: sliceTo_def sorted_wrt_take)
qed

section \<open>What the statistics say\<close>

lemma breakdownLimit_range: "1 \<le> breakdownLimit l \<and> breakdownLimit l \<le> 100"
  by (auto simp: breakdownLimit_def DEFAULT_BREAKDOWN_LIMIT_def MAX_BREAKDOWN_LIMIT_def split: option.split)

text \<open>One group per value of \<open>k\<close>, with the cardinalities of its class.\<close>

definition classesOf :: "(app_record \<Rightarrow> 'k) \<Rightarrow> app_record list \<Rightarrow> 'k aggregate list" where
  "classesOf k rs = map (classOf k rs) (uniq (map k rs))"

text \<open>The first \<open>n\<close> of the groups in some order from the largest to the smallest.\<close>

definition largest :: "('a \<Rightarrow> nat) \<Rightarrow> 'a list \<Rightarrow> int \<Rightarrow> 'a list \<Rightarrow> bool" where
  "largest c gs n xs \<longleftrightarrow>
     (\<exists>ys. mset ys = mset gs \<and> sorted_wrt (\<lambda>a b. c b \<le> c a) ys \<and> xs = take (nat n) ys)"

lemma sorted_byCount: "sorted_wrt (\<lambda>a b. c b \<le> c a) (sortByCount rank j c xs)"
  using sorted_sortByCount [of c "int (length (sortByCount rank j c xs))" rank j xs] by (simp add: sliceTo_def)

lemma mset_sortByCount: "mset (sortByCount rank j c xs) = mset xs"
  by (simp add: sortByCount_def)

lemma largest_slice: "largest c gs n (sliceTo n (sortByCount rank j c gs))"
  using sorted_byCount [of c rank j gs] mset_sortByCount [of rank j c gs]
  unfolding largest_def sliceTo_def by blast

text \<open>
  C38. Each breakdown of the applications lists exactly the classes of the applications that match
  the filters, with their cardinalities. The months and the statuses are complete, the months in
  their order and adding up to the total, the accepted and the pending applications, the statuses
  from the most to the least frequent and adding up to the total. Regions, programmes, schools and
  programmes of schools are the largest classes, in decreasing order, as many as the limit says,
  which is between 1 and 100.
\<close>

theorem application_statistics:
  "\<exists>m rs. getApplicationStats E q l s = (Inr m, s) \<and>
     rs = applicationRecords (q\<lparr>af_limit := breakdownLimit l\<rparr>) s \<and>
     aa_total m = length rs \<and> aa_accepted m = count_rows isAccepted rs \<and> aa_pending m = count_rows isPending rs \<and>
     mset (aa_byPeriod m) = mset (classesOf (toMonthKey \<circ> rd_submittedAt) rs) \<and>
     sorted (map ag_key (aa_byPeriod m)) \<and>
     sum_list (map ag_count (aa_byPeriod m)) = aa_total m \<and>
     sum_list (map ag_accepted (aa_byPeriod m)) = aa_accepted m \<and>
     sum_list (map ag_pending (aa_byPeriod m)) = aa_pending m \<and>
     mset (aa_byStatus m) = mset (groupCount (statusName \<circ> rd_status) rs) \<and>
     sorted_wrt (\<lambda>a b. snd b \<le> snd a) (aa_byStatus m) \<and>
     sum_list (map snd (aa_byStatus m)) = aa_total m \<and>
     largest snd (groupCount (\<lambda>r. fst (snd (rd_school r))) rs) (breakdownLimit l) (aa_byRegion m) \<and>
     largest ag_count (classesOf rd_filiere rs) (breakdownLimit l) (aa_byFiliere m) \<and>
     largest ag_count (classesOf rd_school rs) (breakdownLimit l) (aa_bySchool m) \<and>
     largest ag_count (classesOf (\<lambda>r. (rd_school r, rd_filiere r)) rs) (breakdownLimit l) (aa_bySchoolProgramme m) \<and>
     1 \<le> breakdownLimit l \<and> breakdownLimit l \<le> 100 \<and>
     length (aa_bySchool m) \<le> 100 \<and> sum_list (map ag_count (aa_bySchool m)) \<le> aa_total m"
proof -
  let ?q = "q\<lparr>af_limit := breakdownLimit l\<rparr>"
  let ?rs = "applicationRecords ?q s"
  let ?m = "applicationAnalytics (me_rank E) ?q ?rs"
  have run: "getApplicationStats E q l s = (Inr ?m, s)"
    by (simp add: getApplicationStats_def collectApplicationAnalytics_def asks_run)
  have months: "mset (aa_byPeriod ?m) = mset (classesOf (toMonthKey \<circ> rd_submittedAt) ?rs)"
    "sorted (map ag_key (aa_byPeriod ?m))"
    "sum_list (map ag_count (aa_byPeriod ?m)) = length ?rs"
    "sum_list (map ag_accepted (aa_byPeriod ?m)) = count_rows isAccepted ?rs"
    "sum_list (map ag_pending (aa_byPeriod ?m)) = count_rows isPending ?rs"
    using sum_aggregate_count [of "toMonthKey \<circ> rd_submittedAt" ?rs]
      sum_aggregate_accepted [of "toMonthKey \<circ> rd_submittedAt" ?rs]
      sum_aggregate_pending [of "toMonthKey \<circ> rd_submittedAt" ?rs]
    by (simp_all add: applicationAnalytics_def sum_sort grouping_by_classes classesOf_def)
  have status: "mset (aa_byStatus ?m) = mset (groupCount (statusName \<circ> rd_status) ?rs)"
    "sorted_wrt (\<lambda>a b. snd b \<le> snd a) (aa_byStatus ?m)"
    "sum_list (map snd (aa_byStatus ?m)) = length ?rs"
    by (simp_all add: applicationAnalytics_def sorted_byCount mset_sortByCount sum_sortByCount countBy_groupCount
        sum_groupCount)
  have region: "largest snd (groupCount (\<lambda>r. fst (snd (rd_school r))) ?rs) (breakdownLimit l) (aa_byRegion ?m)"
    using largest_slice [of snd "groupCount (fst \<circ> snd \<circ> rd_school) ?rs" "breakdownLimit l" "me_rank E" "jCounted ''region''"]
    by (simp add: applicationAnalytics_def countBy_groupCount comp_def)
  have groups: "largest ag_count (classesOf rd_filiere ?rs) (breakdownLimit l) (aa_byFiliere ?m)"
    "largest ag_count (classesOf rd_school ?rs) (breakdownLimit l) (aa_bySchool ?m)"
    "largest ag_count (classesOf (\<lambda>r. (rd_school r, rd_filiere r)) ?rs) (breakdownLimit l) (aa_bySchoolProgramme ?m)"
    by (simp_all add: applicationAnalytics_def grouping_by_classes largest_slice flip: classesOf_def)
  have limit: "1 \<le> breakdownLimit l" "breakdownLimit l \<le> 100" using breakdownLimit_range [of l] by simp_all
  have "length (aa_bySchool ?m) \<le> 100" using limit(2) by (simp add: applicationAnalytics_def sliceTo_def)
  moreover have "sum_list (map ag_count (aa_bySchool ?m)) \<le> length ?rs"
    using sum_slice_le [where f = ag_count and l = "breakdownLimit l" and rank = "me_rank E" and
        j = "jAggregate schoolFields" and c = ag_count and xs = "aggregateBy rd_school ?rs"]
    by (simp add: applicationAnalytics_def sum_aggregate_count)
  moreover have "aa_total ?m = length ?rs" "aa_accepted ?m = count_rows isAccepted ?rs" "aa_pending ?m = count_rows isPending ?rs"
    by (simp_all add: applicationAnalytics_def)
  ultimately show ?thesis
    by (intro exI [of _ ?m] exI [of _ ?rs]) (simp add: run months status region groups limit)
qed

text \<open>
  A database from which the persons were removed: no users, no contacts, no marks, no interviews,
  and applications without their student.
\<close>

definition blankStudent :: "student_row \<Rightarrow> student_row" where
  "blankStudent x = x\<lparr>st_userId := [], st_firstName := [], st_lastName := [], st_phone := None, st_birthDate := None,
     st_cin := None, st_bacYear := None, st_bacType := None, st_address := None, st_bio := None, st_interests := [],
     st_skills := [], st_aspirations := [], st_avatarUrl := None\<rparr>"

definition blankApplication :: "application_row \<Rightarrow> application_row" where
  "blankApplication a = a\<lparr>a_studentId := [], a_score := None, a_testResults := None, a_interviewDate := None,
     a_interviewLink := None, a_decisionDate := None, a_decisionReason := None\<rparr>"

definition anonymous :: "ministry_db \<Rightarrow> ministry_db" where
  "anonymous s = s\<lparr>users := [], pendings := [], students := map blankStudent (students s),
     applications := map blankApplication (applications s), documents := [], grades := [], messages := [],
     payments := [], notifications := [], mails := []\<rparr>"

lemma anonymous_joins:
  "offerAt (anonymous s) (blankApplication a) = offerAt s a" "schoolAt (anonymous s) i = schoolAt s i"
  "programAt (anonymous s) p = programAt s p"
  by (simp_all add: offerAt_def schoolAt_def programAt_def anonymous_def blankApplication_def)

lemma anonymous_tables:
  "applications (anonymous s) = map blankApplication (applications s)" "students (anonymous s) = map blankStudent (students s)"
  "schools (anonymous s) = schools s" "offers (anonymous s) = offers s" "enrollments (anonymous s) = enrollments s"
  "complianceChecks (anonymous s) = complianceChecks s" "studentCreatedAt (anonymous s) = studentCreatedAt s"
  "enrollmentCreatedAt (anonymous s) = enrollmentCreatedAt s"
  by (simp_all add: anonymous_def)

lemma anonymous_offers: "offerMatches (anonymous s) = offerMatches s"
  by (simp add: fun_eq_iff offerMatches_def anonymous_joins)

lemma anonymous_where: "applicationWhere (anonymous s) q (blankApplication a) = applicationWhere s q a"
  by (simp add: applicationWhere_def anonymous_joins anonymous_offers cong: option.case_cong) (simp add: blankApplication_def)

lemma anonymous_record: "recordOf (anonymous s) (blankApplication a) = recordOf s a"
  by (simp add: recordOf_def anonymous_joins) (simp add: blankApplication_def)

lemma anonymous_records: "applicationRecords q (anonymous s) = applicationRecords q s"
proof -
  have "filter (applicationWhere (anonymous s) q) (applications (anonymous s)) =
      map blankApplication (filter (applicationWhere s q) (applications s))"
    by (simp add: anonymous_tables filter_map comp_def anonymous_where)
  then show ?thesis by (simp add: applicationRecords_def anonymous_record comp_def)
qed

lemma count_rows_map: "count_rows P (map f xs) = count_rows (P \<circ> f) xs"
  by (induction xs) auto

lemma anonymous_enrollments: "enrollmentWhere (anonymous s) q = enrollmentWhere s q"
  by (simp add: fun_eq_iff enrollmentWhere_def anonymous_joins anonymous_tables blankStudent_def list_ex_iff)

lemma anonymous_collect:
  "fst (collectApplicationAnalytics E q (anonymous s)) = fst (collectApplicationAnalytics E q s)"
  by (simp add: collectApplicationAnalytics_def asks_run anonymous_records)

lemma anonymous_enrollmentGroup: "enrollmentGroup (anonymous s) = enrollmentGroup s"
  by (simp add: fun_eq_iff enrollmentGroup_def anonymous_joins)

lemma anonymous_collectEnrollments:
  "fst (collectEnrollmentAnalytics E q (anonymous s)) = fst (collectEnrollmentAnalytics E q s)"
  by (simp add: collectEnrollmentAnalytics_def asks_run Let_def anonymous_enrollments anonymous_tables
      anonymous_enrollmentGroup)

text \<open>Sequencing calls that read: their results are functions of the database.\<close>

lemma fst_bind_reads:
  assumes "steps (=) m s" "steps (=) m t" "fst (m s) = fst (m t)" "\<And>x. fst (f x s) = fst (f x t)"
  shows "fst (bindE m f s) = fst (bindE m f t)"
  using assms by (simp add: readonly_bind split: sum.split)

lemma readonly_collect:
  "steps (=) (collectApplicationAnalytics E q) s" "steps (=) (collectEnrollmentAnalytics E q) s"
  unfolding collectApplicationAnalytics_def collectEnrollmentAnalytics_def by (intro step_rules)+

lemma readonly_getDashboard: "steps (=) (getDashboard E now a b) s"
  unfolding getDashboard_def collectApplicationAnalytics_def collectEnrollmentAnalytics_def Let_def
  by (intro step_rules)

lemma readonly_snapshot: "steps (=) (createAggregateReportSnapshot E now a b secs) s"
  unfolding createAggregateReportSnapshot_def getApplicationStats_def getSchoolStats_def getGeographicStats_def
    getComplianceSummary_def collectApplicationAnalytics_def Let_def
  by (intro step_rules readonly_getDashboard)

lemma anonymous_counts:
  "count_rows (\<lambda>x. a_deletedAt x = None \<and> a_status x = PENDING \<and> a_submittedAt x \<le> d) (applications (anonymous s)) =
   count_rows (\<lambda>x. a_deletedAt x = None \<and> a_status x = PENDING \<and> a_submittedAt x \<le> d) (applications s)"
  "count_rows (\<lambda>x. st_deletedAt x = None \<and> inPeriod q (studentCreatedAt u (st_id x))) (students (anonymous s)) =
   count_rows (\<lambda>x. st_deletedAt x = None \<and> inPeriod q (studentCreatedAt u (st_id x))) (students s)"
  by (simp_all add: anonymous_tables count_rows_map comp_def blankApplication_def blankStudent_def)

lemma anonymous_getDashboard: "fst (getDashboard E now a b (anonymous s)) = fst (getDashboard E now a b s)"
  unfolding getDashboard_def Let_def
  by (intro fst_bind_reads readonly_collect anonymous_collect anonymous_collectEnrollments)
    (simp_all add: asks_run countRows_run ret_run steps_def anonymous_joins anonymous_tables(3,4,7) anonymous_counts)

lemma anonymous_getSchoolStats: "fst (getSchoolStats E (anonymous s)) = fst (getSchoolStats E s)"
  by (simp add: getSchoolStats_def asks_run Let_def anonymous_tables anonymous_joins count_rows_map comp_def anonymous_where)

lemma groupPlaces_blank:
  assumes "\<And>x. place (f x) = place x"
  shows "groupPlaces place (map f xs) = groupPlaces place xs"
proof -
  have "filter (\<lambda>x. place x \<noteq> None) (map f xs) = map f (filter (\<lambda>x. place x \<noteq> None) xs)"
    by (simp add: filter_map comp_def assms)
  then show ?thesis by (simp add: groupPlaces_def groupCount_def comp_def assms count_rows_map)
qed

lemma anonymous_getGeographicStats: "fst (getGeographicStats E (anonymous s)) = fst (getGeographicStats E s)"
proof -
  have live: "filter (\<lambda>x. st_deletedAt x = None) (students (anonymous s)) =
      map blankStudent (filter (\<lambda>x. st_deletedAt x = None) (students s))"
    by (simp add: anonymous_tables filter_map comp_def) (simp add: blankStudent_def)
  have "st_region (blankStudent x) = st_region x" "st_city (blankStudent x) = st_city x" for x
    by (simp_all add: blankStudent_def)
  then show ?thesis by (simp add: getGeographicStats_def asks_run Let_def live groupPlaces_blank)
qed

lemma anonymous_getComplianceSummary: "fst (getComplianceSummary E (anonymous s)) = fst (getComplianceSummary E s)"
  by (simp add: getComplianceSummary_def asks_run Let_def checksOf_def liveSchool_def anonymous_joins anonymous_tables)

lemma anonymous_getApplicationStats:
  "fst (getApplicationStats E q l (anonymous s)) = fst (getApplicationStats E q l s)"
  by (simp add: getApplicationStats_def anonymous_collect)

lemma readonly_stats:
  "steps (=) (getApplicationStats E q l) s" "steps (=) (getSchoolStats E) s" "steps (=) (getGeographicStats E) s"
  "steps (=) (getComplianceSummary E) s"
  unfolding getApplicationStats_def getSchoolStats_def getGeographicStats_def getComplianceSummary_def
    collectApplicationAnalytics_def
  by (intro step_rules)+

text \<open>
  C39. No statistic and no report of the ministry depends on who the students are: on a database
  without users, names, contacts, marks, interviews, documents and authors of applications they are
  the same.
\<close>

theorem statistics_need_no_person:
  "fst (getDashboard E now a b (anonymous s)) = fst (getDashboard E now a b s) \<and>
   fst (getApplicationStats E q l (anonymous s)) = fst (getApplicationStats E q l s) \<and>
   fst (createAggregateReportSnapshot E now a b secs (anonymous s)) = fst (createAggregateReportSnapshot E now a b secs s)"
proof (intro conjI)
  show "fst (createAggregateReportSnapshot E now a b secs (anonymous s)) = fst (createAggregateReportSnapshot E now a b secs s)"
    unfolding createAggregateReportSnapshot_def Let_def
    by (intro fst_bind_reads readonly_getDashboard readonly_stats anonymous_getDashboard anonymous_getApplicationStats
        anonymous_getSchoolStats anonymous_getGeographicStats anonymous_getComplianceSummary)
      (simp add: ret_run)
qed (rule anonymous_getDashboard anonymous_getApplicationStats)+

section \<open>Reports and checks\<close>

lemma snapshot_state:
  "createAggregateReportSnapshot E now a b secs s = (r, t) \<Longrightarrow>
   t = s \<and> fst (createAggregateReportSnapshot E now a b secs s) = r"
  using stepsD [OF readonly_snapshot] by (metis fst_conv)

lemma snapshot_safe:
  assumes "createAggregateReportSnapshot E now a b secs s = (Inr j, t)"
  shows "t = s \<and> safeReportSnapshot j = j"
proof -
  have "t = s" using stepsD [OF readonly_snapshot assms] by simp
  moreover have "\<exists>fs. j = JObj ((''schemaVersion'', JStr schemaVersion) # fs)"
    using assms by (auto simp: createAggregateReportSnapshot_def Let_def bindE_run ret_run split: prod.splits sum.splits)
  ultimately show ?thesis by (auto simp: safeReportSnapshot_def)
qed

lemma boundary_reads: "steps (=) (toReportBoundary E v d) s"
  unfolding toReportBoundary_def by (intro step_rules)

lemma find_snoc_new: "\<forall>x \<in> set xs. \<not> P x \<Longrightarrow> P r \<Longrightarrow> find P (xs @ [r]) = Some r"
  by (induction xs) auto

text \<open>
  C40. A report is frozen: what was stored is the snapshot of the statistics at the time of the
  request, and that is what every later reading returns, whatever happened to the other tables.
\<close>

theorem report_frozen:
  assumes "generateReport E now dto userId s = (Inr (i, d), t)" "ministryReports u = ministryReports t"
  shows "\<exists>a b j. createAggregateReportSnapshot E now (Some a) (Some b) (rq_sections dto) s = (Inr j, s) \<and> a \<le> b \<and>
    getReport i u = (Inr \<lparr>rp_name = rq_name dto, rp_description = rq_description dto, rp_type = rq_type dto,
      rp_period = rq_period dto, rp_periodStart = a, rp_periodEnd = b, rp_generatedAt = now, rp_data = j\<rparr>, u)"
proof -
  have same: "\<And>v d r u'. toReportBoundary E v d s = (r, u') \<Longrightarrow> u' = s"
    using stepsD [OF boundary_reads] by metis
  from assms(1) obtain a b j where f: "fst (createAggregateReportSnapshot E now (Some a) (Some b) (rq_sections dto) s) = Inr j"
      and le: "a \<le> b"
      and i: "i = me_uuid E (seqNo s)" and new: "\<forall>x \<in> set (ministryReports s). mr_id x \<noteq> i"
      and t: "ministryReports t = ministryReports s @ [\<lparr>mr_id = i, mr_report = \<lparr>rp_name = rq_name dto,
        rp_description = rq_description dto, rp_type = rq_type dto, rp_period = rq_period dto, rp_periodStart = a,
        rp_periodEnd = b, rp_generatedAt = now, rp_data = j\<rparr>, mr_generatedBy = userId\<rparr>]"
    by (auto simp: generateReport_def bindE_run thenE_run require_run freshId_def insertRow_run ret_run
        split: prod.splits sum.splits if_splits dest!: same snapshot_state)
  have j: "createAggregateReportSnapshot E now (Some a) (Some b) (rq_sections dto) s = (Inr j, s)"
    using f snapshot_state [OF prod.collapse [symmetric]] by (metis prod.collapse)
  have "find (\<lambda>r. mr_id r = i) (ministryReports u) = Some \<lparr>mr_id = i, mr_report = \<lparr>rp_name = rq_name dto,
        rp_description = rq_description dto, rp_type = rq_type dto, rp_period = rq_period dto, rp_periodStart = a,
        rp_periodEnd = b, rp_generatedAt = now, rp_data = j\<rparr>, mr_generatedBy = userId\<rparr>"
    unfolding assms(2) t by (rule find_snoc_new) (use new in simp_all)
  then have "getReport i u = (Inr \<lparr>rp_name = rq_name dto, rp_description = rq_description dto, rp_type = rq_type dto,
      rp_period = rq_period dto, rp_periodStart = a, rp_periodEnd = b, rp_generatedAt = now, rp_data = j\<rparr>, u)"
    using snapshot_safe [OF j] by (simp add: getReport_def bindE_run findOr_run ret_run)
  with j le show ?thesis by blast
qed

text \<open>The current state of compliance: one check per school, the latest.\<close>

lemma firstPerSchool_set: "set (firstPerSchool cs) \<subseteq> set cs"
  by (induction cs rule: firstPerSchool.induct) auto

lemma firstPerSchool_distinct: "distinct (map cc_schoolId (firstPerSchool cs))"
proof (induction cs rule: firstPerSchool.induct)
  case (2 c cs)
  then show ?case using firstPerSchool_set [of "filter (\<lambda>d. cc_schoolId d \<noteq> cc_schoolId c) cs"] by auto
qed simp

lemma firstPerSchool_latest:
  assumes "sorted_wrt (\<lambda>a b. cc_checkedAt b \<le> cc_checkedAt a) cs" "d \<in> set cs"
  shows "\<exists>c \<in> set (firstPerSchool cs). cc_schoolId c = cc_schoolId d \<and> cc_checkedAt d \<le> cc_checkedAt c"
  using assms
proof (induction cs rule: firstPerSchool.induct)
  case (2 c cs)
  show ?case
  proof (cases "cc_schoolId d = cc_schoolId c")
    case True
    with "2.prems" have "cc_checkedAt d \<le> cc_checkedAt c" by auto
    with True show ?thesis by simp
  next
    case False
    with "2.prems" have "d \<in> set (filter (\<lambda>d. cc_schoolId d \<noteq> cc_schoolId c) cs)"
      "sorted_wrt (\<lambda>a b. cc_checkedAt b \<le> cc_checkedAt a) (filter (\<lambda>d. cc_schoolId d \<noteq> cc_schoolId c) cs)"
      by (auto simp: sorted_wrt_filter)
    then show ?thesis using "2.IH" by auto
  qed
qed simp

lemma newestChecks_sorted: "sorted_wrt (\<lambda>a b. cc_checkedAt b \<le> cc_checkedAt a) (newestChecks xs)"
proof -
  have "sorted (map (\<lambda>x. - cc_checkedAt x) (newestChecks xs))" by (simp add: newestChecks_def orderDesc_def)
  then show ?thesis by (simp add: sorted_map)
qed

theorem compliance_is_current:
  "distinct (map cc_schoolId (firstPerSchool (checksOf s))) \<and>
   (\<exists>xs. xs = firstPerSchool (checksOf s) \<and>
      list_all (\<lambda>d. liveSchool s (cc_schoolId d) =
        list_ex (\<lambda>c. cc_schoolId c = cc_schoolId d \<and> cc_checkedAt d \<le> cc_checkedAt c) xs) (complianceChecks s))"
proof -
  have shown: "list_ex (\<lambda>c. cc_schoolId c = cc_schoolId d \<and> cc_checkedAt d \<le> cc_checkedAt c) (firstPerSchool (checksOf s))"
    if "d \<in> set (complianceChecks s)" "liveSchool s (cc_schoolId d)" for d
    using that firstPerSchool_latest [of "checksOf s" d] newestChecks_sorted
    by (auto simp: checksOf_def newestChecks_def list_ex_iff)
  have "liveSchool s (cc_schoolId c)" if "c \<in> set (firstPerSchool (checksOf s))" for c
    using that firstPerSchool_set [of "checksOf s"] by (auto simp: checksOf_def newestChecks_def)
  note live = this
  have "liveSchool s (cc_schoolId d) =
      list_ex (\<lambda>c. cc_schoolId c = cc_schoolId d \<and> cc_checkedAt d \<le> cc_checkedAt c) (firstPerSchool (checksOf s))"
    if "d \<in> set (complianceChecks s)" for d
  proof
    assume "liveSchool s (cc_schoolId d)"
    then show "list_ex (\<lambda>c. cc_schoolId c = cc_schoolId d \<and> cc_checkedAt d \<le> cc_checkedAt c) (firstPerSchool (checksOf s))"
      by (rule shown [OF that])
  next
    assume "list_ex (\<lambda>c. cc_schoolId c = cc_schoolId d \<and> cc_checkedAt d \<le> cc_checkedAt c) (firstPerSchool (checksOf s))"
    then obtain c where c: "c \<in> set (firstPerSchool (checksOf s))" "cc_schoolId c = cc_schoolId d"
      by (auto simp: list_ex_iff)
    from live [OF c(1)] c(2) show "liveSchool s (cc_schoolId d)" by simp
  qed
  then show ?thesis by (simp add: firstPerSchool_distinct list_all_iff)
qed

lemma snapshot_total: "\<exists>j. createAggregateReportSnapshot E now a b secs s = (Inr j, s)"
  by (simp add: createAggregateReportSnapshot_def getDashboard_def getApplicationStats_def getSchoolStats_def
      getGeographicStats_def getComplianceSummary_def collectApplicationAnalytics_def collectEnrollmentAnalytics_def
      Let_def bindE_run asks_run countRows_run ret_run)

definition sample_ministry_env :: ministry_env where
  "sample_ministry_env = \<lparr>me_iso = (\<lambda>_. ''1970''), me_parseDate = (\<lambda>v. if v = [] then None else Some 100),
     me_rank = (\<lambda>_. []), me_uuid = sample_uuid\<rparr>"

definition sample_ministry_db :: ministry_db where
  "sample_ministry_db = db.extend empty_db
     \<lparr>complianceChecks = [], ministryReports = [], studentCreatedAt = (\<lambda>_. 0), enrollmentCreatedAt = (\<lambda>_. 0)\<rparr>"

definition sample_report_dto :: report_dto where
  "sample_report_dto = \<lparr>rq_name = ''Bilan'', rq_description = None, rq_type = ''NATIONAL'', rq_period = ''DAILY'',
     rq_periodStart = ''1970-01-01'', rq_periodEnd = ''1970-01-01T00:00Z'', rq_sections = Some [SUMMARY]\<rparr>"

lemma sample_report_made:
  "\<exists>t. generateReport sample_ministry_env 5 sample_report_dto None sample_ministry_db = (Inr (sample_uuid 0, 5), t)"
proof -
  obtain j where "createAggregateReportSnapshot sample_ministry_env 5 (Some 0) (Some 100) (Some [SUMMARY]) sample_ministry_db =
      (Inr j, sample_ministry_db)"
    using snapshot_total by blast
  moreover have "ministryReports sample_ministry_db = []" "seqNo sample_ministry_db = 0"
    by (simp_all add: sample_ministry_db_def db.defs empty_db_def)
  ultimately show ?thesis
    by (simp add: generateReport_def toReportBoundary_def isDateOnly_def isDigit_def upt_rec sample_ministry_env_def
        sample_report_dto_def bindE_run thenE_run require_run freshId_def insertRow_run ret_run)
qed

theorem report_frozen_witness:
  "\<exists>t a b j. generateReport sample_ministry_env 5 sample_report_dto None sample_ministry_db = (Inr (sample_uuid 0, 5), t) \<and>
     createAggregateReportSnapshot sample_ministry_env 5 (Some a) (Some b) (rq_sections sample_report_dto) sample_ministry_db =
       (Inr j, sample_ministry_db) \<and>
     map_sum id rp_data (fst (getReport (sample_uuid 0) (t\<lparr>schools := [], users := [sample_user ''u'' ''STUDENT'']\<rparr>))) = Inr j"
proof -
  obtain t where t: "generateReport sample_ministry_env 5 sample_report_dto None sample_ministry_db = (Inr (sample_uuid 0, 5), t)"
    using sample_report_made by blast
  have "ministryReports (t\<lparr>schools := [], users := [sample_user ''u'' ''STUDENT'']\<rparr>) = ministryReports t" by simp
  from report_frozen [OF t this] t show ?thesis by fastforce
qed

lemma month_examples: "civilMonth 951782400000 = (2000, 2)" "civilMonth (- 1) = (1969, 12)"
  by code_simp+

end
