(* ===== verification/Messages.thy ===== *)
theory Messages
  imports Storage
begin

text \<open>
  \<open>MessageService\<close> (\<open>message/message.service.ts\<close>): direct messages between two users. The statements
  written in SQL are the list operations they denote: \<open>INSERT ... ON CONFLICT\<close> updates or inserts, a
  \<open>LEFT JOIN LATERAL ... LIMIT 1\<close> takes the first row of an ordered selection. The display columns of
  the joined users are their names and addresses; avatars are not kept. The main facts: two users
  share one conversation whoever writes first, a message is sent with all its attachments or not at
  all, only participants read a thread, and the counts of unread messages agree.
\<close>

section \<open>Sending\<close>

definition MAX_ATTACHMENTS_PER_MESSAGE :: nat where
  "MAX_ATTACHMENTS_PER_MESSAGE = 5"

record message_dto =
  md_recipientEmail :: string
  md_subject :: "string option"
  md_body :: string

definition getDirectKey :: "id \<Rightarrow> id \<Rightarrow> string" where
  "getDirectKey firstUserId secondUserId = joinWith '':'' (sort [firstUserId, secondUserId])"

text \<open>The statements of the transaction, one definition each.\<close>

definition openConversation :: "id \<Rightarrow> string \<Rightarrow> time \<Rightarrow> (db, unit) exec" where
  "openConversation conversationId directKey now =
     bindE (updateMany conversations conversations_update (\<lambda>c. cv_directKey c = directKey)
              (\<lambda>c. c\<lparr>cv_lastMessageAt := now\<rparr>)) (\<lambda>changed.
     whenE (changed = 0)
       (thenE (insertRow conversations conversations_update (\<lambda>a b. cv_id a = cv_id b \<or> cv_directKey a = cv_directKey b)
                 \<lparr>cv_id = conversationId, cv_directKey = directKey, cv_lastMessageAt = now, cv_createdAt = now\<rparr>)
          (ret ())))"

definition joinConversation :: "id \<Rightarrow> id \<Rightarrow> (db, unit) exec" where
  "joinConversation conversationId userId =
     upsertRow participants participants_update
       (\<lambda>p. cq_conversationId p = conversationId \<and> cq_userId p = userId) (\<lambda>p. p)
       \<lparr>cq_conversationId = conversationId, cq_userId = userId, cq_lastReadAt = None\<rparr>"

definition attachFile :: "store_env \<Rightarrow> (nat \<Rightarrow> id) \<Rightarrow> time \<Rightarrow> id \<Rightarrow> upload \<Rightarrow> (db, attachment_row) exec" where
  "attachFile S uuid now messageId f =
     bindE (saveMessageAttachment S f messageId) (\<lambda>saved.
     bindE (newId uuid) (\<lambda>i.
     insertRow attachments attachments_update (\<lambda>a b. mt_id a = mt_id b)
       \<lparr>mt_id = i, mt_messageId = messageId, mt_url = sv_url saved, mt_fileName = sv_fileName saved,
        mt_mimeType = sv_mimeType saved, mt_size = sv_size saved, mt_kind = sv_kind saved,
        mt_createdAt = now\<rparr>))"

record sent_message =
  sm_message :: message_row
  sm_attachments :: "attachment_row list"

definition addMessage ::
  "store_env \<Rightarrow> (nat \<Rightarrow> id) \<Rightarrow> time \<Rightarrow> id \<Rightarrow> id \<Rightarrow> id \<Rightarrow> message_dto \<Rightarrow> upload list \<Rightarrow> (db, sent_message) exec" where
  "addMessage S uuid now conversationId senderId recipientId dto files =
     bindE (newId uuid) (\<lambda>messageId.
     bindE (insertRow messages messages_update (\<lambda>a b. m_id a = m_id b)
              \<lparr>m_id = messageId, m_conversationId = conversationId, m_senderId = senderId,
               m_recipientId = recipientId,
               m_subject = (case md_subject dto of
                              Some x \<Rightarrow> if trim x = [] then None else Some (trim x) | None \<Rightarrow> None),
               m_body = trim (md_body dto), m_isRead = False, m_readAt = None, m_createdAt = now\<rparr>)
       (\<lambda>message.
     bindE (promiseAll (map (attachFile S uuid now messageId) files)) (\<lambda>rows.
     ret \<lparr>sm_message = message, sm_attachments = rows\<rparr>)))"

definition writeMessage ::
  "store_env \<Rightarrow> (nat \<Rightarrow> id) \<Rightarrow> time \<Rightarrow> id \<Rightarrow> id \<Rightarrow> message_dto \<Rightarrow> upload list \<Rightarrow> (db, sent_message) exec" where
  "writeMessage S uuid now senderId recipientId dto files =
     bindE (newId uuid) (\<lambda>conversationId.
     thenE (openConversation conversationId (getDirectKey senderId recipientId) now)
     (bindE (findOr conversations (\<lambda>c. cv_directKey c = getDirectKey senderId recipientId) (Failure ''TypeError''))
        (\<lambda>persisted.
      thenE (joinConversation (cv_id persisted) senderId)
      (thenE (joinConversation (cv_id persisted) recipientId)
      (addMessage S uuid now (cv_id persisted) senderId recipientId dto files)))))"

definition sendMessage ::
  "store_env \<Rightarrow> (nat \<Rightarrow> id) \<Rightarrow> time \<Rightarrow> id \<Rightarrow> message_dto \<Rightarrow> upload list \<Rightarrow> (db, sent_message) exec" where
  "sendMessage S uuid now senderId dto files =
     thenE (require (\<not> MAX_ATTACHMENTS_PER_MESSAGE < length files)
              (BadRequest ''Vous ne pouvez pas joindre plus de 5 fichiers''))
     (bindE (findOr users (\<lambda>u. u_email u = trim (map lowerChar (md_recipientEmail dto)))
               (NotFound ''Destinataire introuvable'')) (\<lambda>recipient.
      thenE (require (u_id recipient \<noteq> senderId) (BadRequest ''Vous ne pouvez pas vous envoyer un message''))
      (transactDb (writeMessage S uuid now senderId (u_id recipient) dto files))))"

section \<open>Reading\<close>

definition ensureParticipant :: "id \<Rightarrow> id \<Rightarrow> (db, unit) exec" where
  "ensureParticipant conversationId userId =
     bindE (findFirst participants (\<lambda>p. cq_conversationId p = conversationId \<and> cq_userId p = userId)) (\<lambda>found.
     require (found \<noteq> None) (NotFound ''Conversation introuvable''))"

record person =
  ps_id :: id
  ps_email :: string
  ps_name :: "(string \<times> string) option"

definition personOf :: "db \<Rightarrow> id \<Rightarrow> person option" where
  "personOf s i =
     map_option (\<lambda>u. \<lparr>ps_id = u_id u, ps_email = u_email u,
         ps_name = (case find (\<lambda>x. st_userId x = u_id u) (students s) of
                      Some x \<Rightarrow> if st_firstName x = [] then None else Some (st_firstName x, st_lastName x)
                    | None \<Rightarrow> None)\<rparr>)
       (find (\<lambda>u. u_id u = i) (users s))"

record conversation_view =
  vw_conversation :: conversation_row
  vw_participant :: "person option"
  vw_lastMessage :: "(message_row \<times> bool) option"
  vw_unreadCount :: nat

definition lastMessage :: "db \<Rightarrow> id \<Rightarrow> message_row option" where
  "lastMessage s conversationId =
     (case orderDesc m_createdAt (filter (\<lambda>m. m_conversationId m = conversationId) (messages s)) of
        [] \<Rightarrow> None | m # _ \<Rightarrow> Some m)"

definition unreadIn :: "db \<Rightarrow> id \<Rightarrow> id \<Rightarrow> nat" where
  "unreadIn s userId conversationId =
     count_rows (\<lambda>m. m_conversationId m = conversationId \<and> m_recipientId m = userId \<and> \<not> m_isRead m) (messages s)"

definition hasAttachments :: "db \<Rightarrow> id \<Rightarrow> bool" where
  "hasAttachments s messageId = list_ex (\<lambda>a. mt_messageId a = messageId) (attachments s)"

text \<open>The other participants of a conversation; the join keeps a row without one.\<close>

definition otherParticipants :: "db \<Rightarrow> id \<Rightarrow> id \<Rightarrow> id option list" where
  "otherParticipants s userId conversationId =
     (case filter (\<lambda>p. cq_conversationId p = conversationId \<and> cq_userId p \<noteq> userId) (participants s) of
        [] \<Rightarrow> [None] | ps \<Rightarrow> map (Some \<circ> cq_userId) ps)"

definition conversationViews :: "db \<Rightarrow> id \<Rightarrow> participant_row \<Rightarrow> conversation_view list" where
  "conversationViews s userId p =
     (case find (\<lambda>c. cv_id c = cq_conversationId p) (conversations s) of
        None \<Rightarrow> []
      | Some c \<Rightarrow>
          map (\<lambda>other. \<lparr>vw_conversation = c, vw_participant = Option.bind other (personOf s),
                 vw_lastMessage = map_option (\<lambda>m. (m, hasAttachments s (m_id m))) (lastMessage s (cv_id c)),
                 vw_unreadCount = unreadIn s userId (cv_id c)\<rparr>)
            (otherParticipants s userId (cv_id c)))"

definition getConversations :: "id \<Rightarrow> int option \<Rightarrow> int option \<Rightarrow> (db, conversation_view page) exec" where
  "getConversations userId page limit =
     bindE (findMany participants (\<lambda>p. cq_userId p = userId)) (\<lambda>mine.
     bindE (asks (\<lambda>s. orderDesc (cv_lastMessageAt \<circ> vw_conversation)
              (concat (map (conversationViews s userId) mine)))) (\<lambda>views.
     bindE (pageWindow ((clampPage page - 1) * clampLimit 30 limit) (clampLimit 30 limit) views) (\<lambda>items.
     ret \<lparr>pg_items = items, pg_page = clampPage page, pg_limit = clampLimit 30 limit, pg_total = length mine,
          pg_totalPages = totalPages (length mine) (clampLimit 30 limit)\<rparr>)))"

record thread_item =
  ti_message :: message_row
  ti_attachments :: "attachment_row list"
  ti_sender :: person
  ti_recipient :: person

definition threadItem :: "db \<Rightarrow> message_row \<Rightarrow> thread_item option" where
  "threadItem s m =
     (case (personOf s (m_senderId m), personOf s (m_recipientId m)) of
        (Some a, Some b) \<Rightarrow>
          Some \<lparr>ti_message = m,
                ti_attachments = sort_key mt_createdAt (filter (\<lambda>x. mt_messageId x = m_id m) (attachments s)),
                ti_sender = a, ti_recipient = b\<rparr>
      | _ \<Rightarrow> None)"

definition getThread :: "id \<Rightarrow> id \<Rightarrow> int option \<Rightarrow> int option \<Rightarrow> (db, thread_item page) exec" where
  "getThread conversationId userId page limit =
     thenE (ensureParticipant conversationId userId)
     (bindE (findMany messages (\<lambda>m. m_conversationId m = conversationId)) (\<lambda>rows.
      bindE (asks (\<lambda>s. List.map_filter (threadItem s) (sort_key m_createdAt rows))) (\<lambda>joined.
      bindE (pageWindow ((clampPage page - 1) * clampLimit 30 (Some (nullish limit 50))) (clampLimit 30 (Some (nullish limit 50))) joined) (\<lambda>items.
      ret \<lparr>pg_items = items, pg_page = clampPage page, pg_limit = clampLimit 30 (Some (nullish limit 50)), pg_total = length rows,
           pg_totalPages = totalPages (length rows) (clampLimit 30 (Some (nullish limit 50)))\<rparr>))))"

definition markThreadAsRead :: "time \<Rightarrow> id \<Rightarrow> id \<Rightarrow> (db, unit) exec" where
  "markThreadAsRead now conversationId userId =
     thenE (ensureParticipant conversationId userId)
     (transact
       (thenE (updateMany messages messages_update
                 (\<lambda>m. m_conversationId m = conversationId \<and> m_recipientId m = userId \<and> \<not> m_isRead m)
                 (\<lambda>m. m\<lparr>m_isRead := True, m_readAt := Some now\<rparr>))
       (thenE (updateMany participants participants_update
                 (\<lambda>p. cq_conversationId p = conversationId \<and> cq_userId p = userId)
                 (\<lambda>p. p\<lparr>cq_lastReadAt := Some now\<rparr>))
        (ret ()))))"

definition findMessages :: "(message_row \<Rightarrow> bool) \<Rightarrow> int option \<Rightarrow> int option \<Rightarrow> (db, message_row page) exec" where
  "findMessages where page limit =
     bindE (findMany messages where) (\<lambda>rows.
     paginate (clampPage page) (clampLimit 30 limit) (orderDesc m_createdAt rows))"

definition getInbox :: "id \<Rightarrow> int option \<Rightarrow> int option \<Rightarrow> (db, message_row page) exec" where
  "getInbox userId = findMessages (\<lambda>m. m_recipientId m = userId)"

definition getSent :: "id \<Rightarrow> int option \<Rightarrow> int option \<Rightarrow> (db, message_row page) exec" where
  "getSent userId = findMessages (\<lambda>m. m_senderId m = userId)"

definition markMessageAsRead :: "time \<Rightarrow> id \<Rightarrow> id \<Rightarrow> (db, id) exec" where
  "markMessageAsRead now messageId userId =
     bindE (findOr messages (\<lambda>m. m_id m = messageId \<and> m_recipientId m = userId) (NotFound ''Message introuvable''))
       (\<lambda>message.
     if m_isRead message then ret (m_id message)
     else bindE (updateOne messages messages_update (\<lambda>m. m_id m = messageId)
                   (\<lambda>m. m\<lparr>m_isRead := True, m_readAt := Some now\<rparr>)) (\<lambda>updated. ret (m_id updated)))"

definition unreadCount :: "id \<Rightarrow> (db, nat) exec" where
  "unreadCount userId = countRows messages (\<lambda>m. m_recipientId m = userId \<and> \<not> m_isRead m)"

section \<open>The key of a pair\<close>

lemma directKey_sym: "getDirectKey a b = getDirectKey b a"
proof -
  have "sort [a, b] = sort [b, a]" by (rule properties_for_sort) auto
  then show ?thesis by (simp add: getDirectKey_def)
qed

lemma directKey_set: "{a, b} = {c, d} \<Longrightarrow> getDirectKey a b = getDirectKey c d"
proof -
  assume "{a, b} = {c, d}"
  then consider "a = c" "b = d" | "a = d" "b = c" unfolding doubleton_eq_iff by blast
  then show ?thesis
  proof cases
    case 2
    show ?thesis unfolding 2 by (rule directKey_sym)
  qed simp
qed

lemma colon_split:
  "\<lbrakk>x @ c # y = x' @ c # y'; c \<notin> set x; c \<notin> set x'\<rbrakk> \<Longrightarrow> x = x' \<and> y = y'"
proof (induction x arbitrary: x')
  case Nil
  then show ?case by (cases x') auto
next
  case (Cons a x)
  then show ?case by (cases x') auto
qed

text \<open>Identifiers have no colon, so that the key determines the pair.\<close>

definition plain :: "id \<Rightarrow> bool" where
  "plain i \<longleftrightarrow> CHR '':'' \<notin> set i"

lemma directKey_pair:
  assumes "getDirectKey a b = getDirectKey c d" "plain a" "plain b" "plain c" "plain d"
  shows "{a, b} = {c, d}"
proof -
  have two: "\<exists>x y. sort [a, b] = [x, y] \<and> {x, y} = {a, b}" for a b :: id by (auto simp: insort_key.simps)
  obtain x y where xy: "sort [a, b] = [x, y]" "{x, y} = {a, b}" using two by blast
  obtain z w where zw: "sort [c, d] = [z, w]" "{z, w} = {c, d}" using two by blast
  have "CHR '':'' \<notin> set x" "CHR '':'' \<notin> set z"
    using xy(2) zw(2) assms(2-5) by (auto simp: plain_def doubleton_eq_iff)
  with assms(1) xy(1) zw(1) have "x = z \<and> y = w"
    using colon_split [of x "CHR '':''" y z w] by (simp add: getDirectKey_def)
  with xy(2) zw(2) show ?thesis by simp
qed

section \<open>What sending writes\<close>

lemma attachFile_run:
  assumes "attachFile S uuid now mid f s = (Inr a, t)"
  shows "mt_messageId a = mid \<and> (\<exists>os n. t = s\<lparr>objects := os, seqNo := n, attachments := attachments s @ [a]\<rparr>)"
proof -
  obtain r u where save: "saveMessageAttachment S f mid s = (r, u)" by fastforce
  obtain os n where u: "u = s\<lparr>objects := os, seqNo := n\<rparr>"
    using tables_eqD [OF saveMessageAttachment_tables [OF save]] by blast
  show ?thesis
    using assms save
    by (cases r) (auto simp: attachFile_def bindE_run newId_run insertRow_run u split: if_splits)
qed

lemma attach_all:
  assumes "promiseAll (map (attachFile S uuid now mid) files) s = (Inr rows, t)"
  shows "length rows = length files \<and> (\<forall>a \<in> set rows. mt_messageId a = mid) \<and>
    (\<exists>os n. t = s\<lparr>objects := os, seqNo := n, attachments := attachments s @ rows\<rparr>)"
  using assms
proof (induction files arbitrary: s rows)
  case Nil
  then have "rows = []" "t = s" by (simp_all add: ret_run)
  then show ?case by (auto intro!: exI [of _ "objects s"] exI [of _ "seqNo s"])
next
  case (Cons f files)
  obtain r s1 where r: "attachFile S uuid now mid f s = (r, s1)" by fastforce
  obtain q s2 where q: "promiseAll (map (attachFile S uuid now mid) files) s1 = (q, s2)" by fastforce
  obtain a rs where ok: "r = Inr a" "q = Inr rs" "rows = a # rs" "t = s2"
    using Cons.prems by (auto simp: r q split: sum.splits)
  obtain os n where s1: "mt_messageId a = mid" "s1 = s\<lparr>objects := os, seqNo := n, attachments := attachments s @ [a]\<rparr>"
    using attachFile_run [of S uuid now mid f s a s1] r ok(1) by blast
  have "length rs = length files \<and> (\<forall>a \<in> set rs. mt_messageId a = mid) \<and>
    (\<exists>os n. s2 = s1\<lparr>objects := os, seqNo := n, attachments := attachments s1 @ rs\<rparr>)"
    using Cons.IH [of s1 rs] q ok by simp
  then show ?case using s1 ok by auto
qed

definition joined :: "id \<Rightarrow> id \<Rightarrow> participant_row list \<Rightarrow> participant_row list" where
  "joined c u ps =
     (if \<exists>p \<in> set ps. cq_conversationId p = c \<and> cq_userId p = u then ps
      else ps @ [\<lparr>cq_conversationId = c, cq_userId = u, cq_lastReadAt = None\<rparr>])"

lemma joinConversation_run: "joinConversation c u s = (Inr (), s\<lparr>participants := joined c u (participants s)\<rparr>)"
proof -
  have "update_rows P (\<lambda>p. p) ps = ps" for P and ps :: "participant_row list" by (induction ps) auto
  then show ?thesis by (simp add: joinConversation_def upsertRow_run joined_def)
qed

definition openedBy :: "string \<Rightarrow> time \<Rightarrow> id \<Rightarrow> conversation_row list \<Rightarrow> conversation_row list \<Rightarrow> bool" where
  "openedBy k now i cs ds \<longleftrightarrow>
     (if \<exists>c \<in> set cs. cv_directKey c = k
      then ds = update_rows (\<lambda>c. cv_directKey c = k) (\<lambda>c. c\<lparr>cv_lastMessageAt := now\<rparr>) cs
      else i \<notin> cv_id ` set cs \<and>
           ds = cs @ [\<lparr>cv_id = i, cv_directKey = k, cv_lastMessageAt = now, cv_createdAt = now\<rparr>])"

lemma openConversation_run:
  assumes "openConversation i k now s = (Inr (), t)"
  shows "openedBy k now i (conversations s) (conversations t) \<and> t = s\<lparr>conversations := conversations t\<rparr>"
proof (cases "\<exists>c \<in> set (conversations s). cv_directKey c = k")
  case True
  then have "count_rows (\<lambda>c. cv_directKey c = k) (conversations s) \<noteq> 0" by (simp add: count_rows_0)
  with assms True show ?thesis
    by (auto simp: openConversation_def bindE_run updateMany_run whenE_run openedBy_def)
next
  case False
  then have "count_rows (\<lambda>c. cv_directKey c = k) (conversations s) = 0"
    "update_rows (\<lambda>c. cv_directKey c = k) (\<lambda>c. c\<lparr>cv_lastMessageAt := now\<rparr>) (conversations s) = conversations s"
    by (auto simp: count_rows_0 intro: update_rows_id)
  with assms False show ?thesis
    by (auto simp: openConversation_def bindE_run thenE_run ret_run updateMany_run whenE_run insertRow_run openedBy_def
        split: if_splits)
qed

definition written :: "id \<Rightarrow> id \<Rightarrow> time \<Rightarrow> nat \<Rightarrow> sent_message \<Rightarrow> db \<Rightarrow> db \<Rightarrow> bool" where
  "written senderId recipientId now files r s t \<longleftrightarrow>
     (let m = sm_message r; k = getDirectKey senderId recipientId in
      m_senderId m = senderId \<and> m_recipientId m = recipientId \<and> \<not> m_isRead m \<and>
      m_id m \<notin> m_id ` set (messages s) \<and> messages t = messages s @ [m] \<and>
      (\<exists>i. openedBy k now i (conversations s) (conversations t)) \<and>
      (\<exists>c \<in> set (conversations t). cv_directKey c = k \<and> m_conversationId m = cv_id c) \<and>
      participants t = joined (m_conversationId m) recipientId (joined (m_conversationId m) senderId (participants s)) \<and>
      attachments t = attachments s @ sm_attachments r \<and> length (sm_attachments r) = files \<and>
      (\<forall>a \<in> set (sm_attachments r). mt_messageId a = m_id m) \<and> users t = users s)"

lemma writeMessage_run:
  assumes "writeMessage S uuid now senderId recipientId dto files s = (Inr r, t)"
  shows "written senderId recipientId now (length files) r s t"
proof -
  define k where "k = getDirectKey senderId recipientId"
  define s0 where "s0 = s\<lparr>seqNo := Suc (seqNo s)\<rparr>"
  obtain q s1 where q: "openConversation (uuid (seqNo s)) k now s0 = (q, s1)" by fastforce
  have "q = Inr ()"
    using assms q by (cases q) (auto simp: writeMessage_def bindE_run thenE_run newId_run k_def [symmetric] s0_def)
  note opened = openConversation_run [OF q [unfolded this]]
  obtain c where c: "find (\<lambda>c. cv_directKey c = k) (conversations s1) = Some c"
    using assms q \<open>q = Inr ()\<close>
    by (auto simp: writeMessage_def bindE_run thenE_run newId_run findOr_run k_def [symmetric] s0_def split: option.splits)
  define s2 where "s2 = s1\<lparr>participants := joined (cv_id c) recipientId (joined (cv_id c) senderId (participants s1))\<rparr>"
  have run: "writeMessage S uuid now senderId recipientId dto files s =
      addMessage S uuid now (cv_id c) senderId recipientId dto files s2"
    using q \<open>q = Inr ()\<close> c
    by (simp add: writeMessage_def bindE_run thenE_run newId_run findOr_run joinConversation_run
        k_def [symmetric] s0_def s2_def)
  define m where "m = \<lparr>m_id = uuid (seqNo s1), m_conversationId = cv_id c, m_senderId = senderId,
                 m_recipientId = recipientId,
                 m_subject = (case md_subject dto of
                                Some x \<Rightarrow> if trim x = [] then None else Some (trim x) | None \<Rightarrow> None),
                 m_body = trim (md_body dto), m_isRead = False, m_readAt = None, m_createdAt = now\<rparr>"
  obtain rows where rows: "\<forall>x \<in> set (messages s1). m_id x \<noteq> m_id m"
    "promiseAll (map (attachFile S uuid now (uuid (seqNo s1))) files)
       (s2\<lparr>seqNo := Suc (seqNo s1), messages := messages s2 @ [m]\<rparr>) = (Inr rows, t)"
    "r = \<lparr>sm_message = m, sm_attachments = rows\<rparr>"
    using assms unfolding run addMessage_def
    by (auto simp: bindE_run newId_run insertRow_run ret_run s2_def m_def [symmetric] split: if_splits prod.splits sum.splits)
  obtain os n where t: "length rows = length files" "\<forall>a \<in> set rows. mt_messageId a = uuid (seqNo s1)"
    "t = s2\<lparr>seqNo := Suc (seqNo s1), messages := messages s2 @ [m], objects := os, seqNo := n, attachments := attachments s2 @ rows\<rparr>"
    using attach_all [OF rows(2)] by auto
  have s1: "s1 = s0\<lparr>conversations := conversations s1\<rparr>" "openedBy k now (uuid (seqNo s)) (conversations s) (conversations s1)"
    using opened by (simp_all add: s0_def)
  have same: "messages s1 = messages s" "participants s1 = participants s" "attachments s1 = attachments s" "users s1 = users s"
    by (subst s1(1), simp add: s0_def)+
  have "c \<in> set (conversations s1)" "cv_directKey c = k" using find_Some_in [OF c] by auto
  with s1(2) same rows(1,3) t show ?thesis
    by (auto simp: written_def Let_def s2_def m_def k_def)
qed

lemma message_send_fails: "sendMessage S uuid now a dto files s = (Inl e, t) \<Longrightarrow> tables t = tables s"
  by (auto simp: sendMessage_def thenE_run require_run bindE_run findOr_run transactDb_run tables_def
      split: option.splits prod.splits sum.splits if_splits)

lemma message_sent:
  assumes "sendMessage S uuid now a dto files s = (Inr r, t)"
  shows "\<exists>b \<in> set (users s). written a (u_id b) now (length files) r s t \<and> u_id b \<noteq> a \<and> length files \<le> 5"
proof -
  obtain b where b: "find (\<lambda>u. u_email u = trim (map lowerChar (md_recipientEmail dto))) (users s) = Some b"
    "writeMessage S uuid now a (u_id b) dto files s = (Inr r, t)" "u_id b \<noteq> a" "length files \<le> 5"
    using assms by (auto simp: sendMessage_def thenE_run require_run bindE_run findOr_run transactDb_run
        MAX_ATTACHMENTS_PER_MESSAGE_def split: option.splits prod.splits sum.splits if_splits)
  show ?thesis using find_Some_in [OF b(1)] writeMessage_run [OF b(2)] b(3,4) by blast
qed

text \<open>
  C25. Sending either fails and leaves every table as it was, even when a file was already put in
  the store, or it adds one unread message with exactly its attachments, at most five, in a
  conversation of which sender and recipient are participants.
\<close>

theorem message_all_or_nothing:
  "case sendMessage S uuid now senderId dto files s of
     (Inl e, t) \<Rightarrow> tables t = tables s
   | (Inr r, t) \<Rightarrow>
       messages t = messages s @ [sm_message r] \<and> m_senderId (sm_message r) = senderId \<and>
       \<not> m_isRead (sm_message r) \<and>
       attachments t = attachments s @ sm_attachments r \<and> length (sm_attachments r) = length files \<and>
       length files \<le> 5 \<and>
       list_all (\<lambda>a. mt_messageId a = m_id (sm_message r)) (sm_attachments r) \<and>
       (\<exists>p \<in> set (participants t). cq_conversationId p = m_conversationId (sm_message r) \<and> cq_userId p = senderId) \<and>
       (\<exists>p \<in> set (participants t). cq_conversationId p = m_conversationId (sm_message r) \<and>
          cq_userId p = m_recipientId (sm_message r))"
proof -
  have member: "\<exists>p \<in> set (joined c u ps). cq_conversationId p = c \<and> cq_userId p = u" for c u ps
    by (auto simp: joined_def)
  have kept: "p \<in> set ps \<Longrightarrow> p \<in> set (joined c u ps)" for p c u ps by (auto simp: joined_def)
  obtain x t where run: "sendMessage S uuid now senderId dto files s = (x, t)" by fastforce
  show ?thesis
  proof (cases x)
    case (Inl e)
    with run message_send_fails show ?thesis by fastforce
  next
    case (Inr r)
    with run message_sent obtain i where w: "written senderId i now (length files) r s t" "length files \<le> 5" by blast
    let ?c = "m_conversationId (sm_message r)"
    have parts: "participants t = joined ?c i (joined ?c senderId (participants s))" "m_recipientId (sm_message r) = i"
      using w(1) by (simp_all add: written_def Let_def)
    have "\<exists>p \<in> set (participants t). cq_conversationId p = ?c \<and> cq_userId p = senderId"
      using member [of ?c senderId "participants s"] kept unfolding parts(1) by blast
    moreover have "\<exists>p \<in> set (participants t). cq_conversationId p = ?c \<and> cq_userId p = m_recipientId (sm_message r)"
      using member unfolding parts by blast
    ultimately show ?thesis using run Inr w by (simp add: written_def Let_def list_all_iff)
  qed
qed

section \<open>The invariant of the conversations\<close>

definition convPairs :: "conversation_row list \<Rightarrow> (id \<times> string) list" where
  "convPairs cs = map (\<lambda>c. (cv_id c, cv_directKey c)) cs"

definition inConversation :: "db \<Rightarrow> id \<Rightarrow> id \<Rightarrow> bool" where
  "inConversation s c u \<longleftrightarrow> (c, u) \<in> (\<lambda>p. (cq_conversationId p, cq_userId p)) ` set (participants s)"

definition messageOk :: "db \<Rightarrow> message_row \<Rightarrow> bool" where
  "messageOk s m \<longleftrightarrow>
     plain (m_senderId m) \<and> plain (m_recipientId m) \<and>
     (m_conversationId m, getDirectKey (m_senderId m) (m_recipientId m)) \<in> set (convPairs (conversations s)) \<and>
     inConversation s (m_conversationId m) (m_senderId m) \<and> inConversation s (m_conversationId m) (m_recipientId m)"

definition participantOk :: "db \<Rightarrow> id \<times> id \<Rightarrow> bool" where
  "participantOk s p \<longleftrightarrow> plain (snd p) \<and>
     (\<exists>other. plain other \<and> (fst p, getDirectKey (snd p) other) \<in> set (convPairs (conversations s)))"

definition chatOk :: "db \<Rightarrow> bool" where
  "chatOk s \<longleftrightarrow>
     distinct (map fst (convPairs (conversations s))) \<and> distinct (map snd (convPairs (conversations s))) \<and>
     distinct (map (\<lambda>p. (cq_conversationId p, cq_userId p)) (participants s)) \<and>
     (\<forall>u \<in> set (users s). plain (u_id u)) \<and>
     (\<forall>m \<in> set (messages s). messageOk s m) \<and>
     (\<forall>p \<in> (\<lambda>p. (cq_conversationId p, cq_userId p)) ` set (participants s). participantOk s p)"

lemma openedBy_pairs:
  assumes "openedBy k now i cs ds"
  shows "convPairs ds = convPairs cs \<and> k \<in> snd ` set (convPairs cs) \<or>
    i \<notin> fst ` set (convPairs cs) \<and> k \<notin> snd ` set (convPairs cs) \<and> convPairs ds = convPairs cs @ [(i, k)]"
  using assms by (auto simp: openedBy_def convPairs_def image_iff split: if_splits)

lemma joined_pairs:
  "map (\<lambda>p. (cq_conversationId p, cq_userId p)) (joined c u ps) =
     (let pairs = map (\<lambda>p. (cq_conversationId p, cq_userId p)) ps in
      if (c, u) \<in> set pairs then pairs else pairs @ [(c, u)])"
  by (auto simp: joined_def Let_def image_iff)

lemma written_keeps:
  assumes inv: "chatOk s" and w: "written a b now files r s t" and plain: "plain a" "plain b"
  shows "chatOk t"
proof -
  define P where "P = map (\<lambda>p. (cq_conversationId p, cq_userId p)) (participants s)"
  define Q where "Q = map (\<lambda>p. (cq_conversationId p, cq_userId p)) (participants t)"
  define k where "k = getDirectKey a b"
  define c where "c = m_conversationId (sm_message r)"
  obtain i where opened: "openedBy k now i (conversations s) (conversations t)"
    using w by (auto simp: written_def Let_def k_def)
  have ck: "(c, k) \<in> set (convPairs (conversations t))"
    using w by (auto simp: written_def Let_def k_def c_def convPairs_def)
  have more: "set (convPairs (conversations s)) \<subseteq> set (convPairs (conversations t))"
    using openedBy_pairs [OF opened] by auto
  have keys: "distinct (map fst (convPairs (conversations t)))" "distinct (map snd (convPairs (conversations t)))"
    using openedBy_pairs [OF opened] inv by (auto simp: chatOk_def)
  have Q: "distinct Q" "set Q = set P \<union> {(c, a), (c, b)}"
    using w inv unfolding Q_def P_def
    by (auto simp: written_def Let_def c_def joined_pairs chatOk_def simp del: set_map)
  have old: "messageOk t m" if "m \<in> set (messages s)" for m
  proof -
    have ok: "messageOk s m" using inv that by (simp add: chatOk_def)
    have "inConversation t x y" if "inConversation s x y" for x y
      using that Q(2) by (auto simp: inConversation_def P_def Q_def)
    with ok more show ?thesis by (auto simp: messageOk_def)
  qed
  have new: "messageOk t (sm_message r)"
    using w ck Q(2) plain by (auto simp: messageOk_def written_def Let_def inConversation_def Q_def k_def c_def)
  have "participantOk t p" if p: "p \<in> set Q" for p
  proof -
    consider "p \<in> set P" | "p = (c, a)" | "p = (c, b)" using p Q(2) by blast
    then show ?thesis
    proof cases
      case 1
      then have "participantOk s p" using inv by (auto simp: chatOk_def P_def)
      with more show ?thesis by (auto simp: participantOk_def)
    next
      case 2
      with ck plain show ?thesis unfolding participantOk_def k_def by auto
    next
      case 3
      with ck plain show ?thesis unfolding participantOk_def k_def using directKey_sym [of a b] by auto
    qed
  qed
  moreover have "users t = users s" "messages t = messages s @ [sm_message r]"
    using w by (simp_all add: written_def Let_def)
  ultimately show ?thesis
    using keys Q(1) old new inv by (auto simp: chatOk_def Q_def)
qed

text \<open>An update that keeps the keys of the rows keeps the invariant.\<close>

lemma chatOk_updates:
  assumes inv: "chatOk s"
    and m: "\<And>m. m_senderId (f m) = m_senderId m \<and> m_recipientId (f m) = m_recipientId m \<and>
        m_conversationId (f m) = m_conversationId m"
    and p: "\<And>p. cq_conversationId (g p) = cq_conversationId p \<and> cq_userId (g p) = cq_userId p"
  shows "chatOk (s\<lparr>messages := update_rows P f (messages s), participants := update_rows R g (participants s)\<rparr>)"
proof -
  have pairs: "map (\<lambda>p. (cq_conversationId p, cq_userId p)) (update_rows R g (participants s)) =
      map (\<lambda>p. (cq_conversationId p, cq_userId p)) (participants s)"
    using p by simp
  have ok: "messageOk (s\<lparr>messages := ms, participants := update_rows R g (participants s)\<rparr>) x = messageOk s x" for x ms
    unfolding messageOk_def inConversation_def using arg_cong [OF pairs, of set] by (simp add: set_update_rows)
  have "messageOk s (f x) = messageOk s x" for x using m by (simp add: messageOk_def)
  then have "\<forall>x \<in> set (update_rows P f (messages s)). messageOk s x"
    using inv by (auto simp: chatOk_def set_update_rows)
  moreover have "participantOk (s\<lparr>messages := ms, participants := ps\<rparr>) x = participantOk s x" for x ms ps
    by (simp add: participantOk_def)
  ultimately show ?thesis
    using inv pairs by (auto simp: chatOk_def ok set_update_rows p)
qed

datatype chat_request =
    SendMessage id message_dto "upload list"
  | MarkThread id id
  | MarkMessage id id

fun serveChat :: "store_env \<Rightarrow> (nat \<Rightarrow> id) \<Rightarrow> time \<Rightarrow> chat_request \<Rightarrow> (db, unit) exec" where
  "serveChat S uuid now (SendMessage senderId dto files) =
     thenE (sendMessage S uuid now senderId dto files) (ret ())"
| "serveChat S uuid now (MarkThread conversationId userId) = markThreadAsRead now conversationId userId"
| "serveChat S uuid now (MarkMessage messageId userId) = thenE (markMessageAsRead now messageId userId) (ret ())"

primrec serveChats :: "store_env \<Rightarrow> (nat \<Rightarrow> id) \<Rightarrow> (time \<times> chat_request) list \<Rightarrow> db \<Rightarrow> db" where
  "serveChats S uuid [] s = s"
| "serveChats S uuid (q # qs) s = serveChats S uuid qs (snd (serveChat S uuid (fst q) (snd q) s))"

fun plainSender :: "chat_request \<Rightarrow> bool" where
  "plainSender (SendMessage senderId dto files) = plain senderId"
| "plainSender _ = True"

lemma chatOk_tables: "tables t = tables s \<Longrightarrow> chatOk s \<Longrightarrow> chatOk t"
  by (drule tables_eqD) (auto simp: chatOk_def messageOk_def participantOk_def inConversation_def)

lemma ensureParticipant_run:
  "ensureParticipant c u s =
     (if list_ex (\<lambda>p. cq_conversationId p = c \<and> cq_userId p = u) (participants s) then (Inr (), s)
      else (Inl (NotFound ''Conversation introuvable''), s))"
proof -
  have "find P xs \<noteq> None \<longleftrightarrow> list_ex P xs" for P and xs :: "participant_row list"
    by (induction xs) auto
  then show ?thesis by (simp add: ensureParticipant_def bindE_run findFirst_run require_run del: not_None_eq)
qed

lemma markThreadAsRead_run:
  "markThreadAsRead now c u s =
     (if list_ex (\<lambda>p. cq_conversationId p = c \<and> cq_userId p = u) (participants s)
      then (Inr (), s\<lparr>messages := update_rows
                (\<lambda>m. m_conversationId m = c \<and> m_recipientId m = u \<and> \<not> m_isRead m)
                (\<lambda>m. m\<lparr>m_isRead := True, m_readAt := Some now\<rparr>) (messages s),
              participants := update_rows (\<lambda>p. cq_conversationId p = c \<and> cq_userId p = u)
                (\<lambda>p. p\<lparr>cq_lastReadAt := Some now\<rparr>) (participants s)\<rparr>)
      else (Inl (NotFound ''Conversation introuvable''), s))"
  by (simp add: markThreadAsRead_def thenE_run ensureParticipant_run transact_run updateMany_run ret_run)

lemma serveChat_keeps:
  assumes inv: "chatOk s" and p: "plainSender q" and run: "serveChat S uuid now q s = (r, t)"
  shows "chatOk t"
proof (cases q)
  case (SendMessage a dto files)
  obtain x u where x: "sendMessage S uuid now a dto files s = (x, u)" by fastforce
  have t: "t = u" using run x SendMessage by (cases x) (auto simp: thenE_run ret_run)
  show ?thesis
  proof (cases x)
    case (Inl e)
    then have "tables u = tables s" using x message_send_fails by blast
    then show ?thesis using chatOk_tables inv t by blast
  next
    case (Inr y)
    then obtain b where "b \<in> set (users s)" "written a (u_id b) now (length files) y s u"
      using x message_sent by blast
    then show ?thesis using written_keeps [OF inv] p inv SendMessage t by (auto simp: chatOk_def)
  qed
next
  case (MarkThread c u)
  with run inv show ?thesis by (auto simp: markThreadAsRead_run intro!: chatOk_updates split: if_splits)
next
  case (MarkMessage i u)
  have chat: "chatOk (s\<lparr>messages := update_rows (\<lambda>m. m_id m = i)
      (\<lambda>m. m\<lparr>m_isRead := True, m_readAt := Some now\<rparr>) (messages s), participants := participants s\<rparr>)"
    using chatOk_updates [OF inv, where R = "\<lambda>_. False" and g = "\<lambda>p. p" and P = "\<lambda>m. m_id m = i"
        and f = "\<lambda>m. m\<lparr>m_isRead := True, m_readAt := Some now\<rparr>"] by (simp add: update_rows_id)
  from run inv MarkMessage chat show ?thesis
    by (auto simp: markMessageAsRead_def thenE_run bindE_run findOr_run updateOne_run ret_run
        split: option.splits if_splits prod.splits sum.splits)
qed

lemma serveChats_keeps:
  "chatOk s \<Longrightarrow> list_all (plainSender \<circ> snd) qs \<Longrightarrow> chatOk (serveChats S uuid qs s)"
proof (induction qs arbitrary: s)
  case (Cons q qs)
  have "chatOk (snd (serveChat S uuid (fst q) (snd q) s))"
    using serveChat_keeps [OF Cons.prems(1), of "snd q" S uuid "fst q"] Cons.prems(2)
    by (metis comp_apply list.pred_inject(2) prod.collapse)
  with Cons show ?case by simp
qed simp

section \<open>Conversations belong to pairs\<close>

lemma pair_key:
  assumes inv: "chatOk s" and m: "m \<in> set (messages s)" and m': "m' \<in> set (messages s)"
  shows "m_conversationId m = m_conversationId m' \<longleftrightarrow>
    {m_senderId m, m_recipientId m} = {m_senderId m', m_recipientId m'}"
proof -
  let ?k = "\<lambda>m. getDirectKey (m_senderId m) (m_recipientId m)" and ?C = "set (convPairs (conversations s))"
  have ok: "messageOk s m" "messageOk s m'" using inv m m' by (auto simp: chatOk_def)
  then have key: "(m_conversationId m, ?k m) \<in> ?C" "(m_conversationId m', ?k m') \<in> ?C" by (auto simp: messageOk_def)
  have "m_conversationId m = m_conversationId m' \<longleftrightarrow> ?k m = ?k m'"
  proof
    assume eq: "m_conversationId m = m_conversationId m'"
    have "distinct (map fst (convPairs (conversations s)))" using inv by (simp add: chatOk_def)
    from distinct_key_eq [OF this key] eq show "?k m = ?k m'" by simp
  next
    assume eq: "?k m = ?k m'"
    have "distinct (map snd (convPairs (conversations s)))" using inv by (simp add: chatOk_def)
    from distinct_key_eq [OF this key] eq show "m_conversationId m = m_conversationId m'" by simp
  qed
  also have "\<dots> \<longleftrightarrow> {m_senderId m, m_recipientId m} = {m_senderId m', m_recipientId m'}"
  proof
    assume "?k m = ?k m'"
    then show "{m_senderId m, m_recipientId m} = {m_senderId m', m_recipientId m'}"
      by (rule directKey_pair) (use ok in \<open>auto simp: messageOk_def\<close>)
  next
    assume "{m_senderId m, m_recipientId m} = {m_senderId m', m_recipientId m'}"
    then show "?k m = ?k m'" by (rule directKey_set)
  qed
  finally show ?thesis .
qed

text \<open>
  C26. After any sequence of messages and reading marks, two messages are in the same conversation
  exactly when they are between the same two users, whoever wrote first.
\<close>

theorem one_conversation_per_pair:
  assumes "chatOk s" and "list_all (plainSender \<circ> snd) requests" and "t = serveChats S uuid requests s"
    and "m \<in> set (messages t)" and "m' \<in> set (messages t)"
  shows "m_conversationId m = m_conversationId m' \<longleftrightarrow>
    {m_senderId m, m_recipientId m} = {m_senderId m', m_recipientId m'}"
  using pair_key [OF serveChats_keeps [OF assms(1,2)]] assms(3-5) by blast

lemma participant_pair:
  assumes inv: "chatOk s" and p: "inConversation s c u" and m: "m \<in> set (messages s)" "m_conversationId m = c"
  shows "u = m_senderId m \<or> u = m_recipientId m"
proof -
  have "participantOk s (c, u)" using inv p by (auto simp: chatOk_def inConversation_def)
  then obtain v where v: "plain u" "plain v" "(c, getDirectKey u v) \<in> set (convPairs (conversations s))"
    by (auto simp: participantOk_def)
  have ok: "messageOk s m" using inv m(1) by (simp add: chatOk_def)
  then have key: "(c, getDirectKey (m_senderId m) (m_recipientId m)) \<in> set (convPairs (conversations s))"
    using m(2) by (simp add: messageOk_def)
  have "distinct (map fst (convPairs (conversations s)))" using inv by (simp add: chatOk_def)
  from distinct_key_eq [OF this v(3) key] have "getDirectKey u v = getDirectKey (m_senderId m) (m_recipientId m)" by simp
  then have "{u, v} = {m_senderId m, m_recipientId m}"
    by (rule directKey_pair) (use v(1,2) ok in \<open>auto simp: messageOk_def\<close>)
  then show ?thesis by blast
qed

lemma pageWindow_items: "pageWindow a b xs s = (Inr items, t) \<Longrightarrow> set items \<subseteq> set xs \<and> t = s"
  using set_take_subset [of "nat b" "drop (nat a) xs"] set_drop_subset [of "nat a" xs]
    set_take_subset [of "nat (- b)" "drop (nat a) (rev xs)"] set_drop_subset [of "nat a" "rev xs"]
  by (auto simp: pageWindow_def throw_run ret_run split: if_splits)

text \<open>
  C27. A thread is only shown to its two parties: whatever was sent before, every message that the
  operation returns was sent by or to the user who asked.
\<close>

theorem threads_private:
  assumes inv: "chatOk s" and reqs: "list_all (plainSender \<circ> snd) requests" and t: "t = serveChats S uuid requests s"
    and run: "getThread conversationId userId page limit t = (Inr result, u)"
  shows "list_all (\<lambda>i. m_conversationId (ti_message i) = conversationId \<and>
      (m_senderId (ti_message i) = userId \<or> m_recipientId (ti_message i) = userId)) (pg_items result) \<and> u = t"
proof -
  have ok: "chatOk t" using serveChats_keeps [OF inv reqs] t by simp
  define rows where "rows = filter (\<lambda>m. m_conversationId m = conversationId) (messages t)"
  let ?l = "clampLimit 30 (Some (nullish limit 50))"
  have page: "inConversation t conversationId userId"
    "pageWindow ((clampPage page - 1) * ?l) ?l (List.map_filter (threadItem t) (sort_key m_createdAt rows)) t = (Inr (pg_items result), u)"
    using run by (auto simp: getThread_def thenE_run bindE_run ensureParticipant_run list_ex_iff
        findMany_run asks_run ret_run rows_def inConversation_def image_iff split: if_splits prod.splits sum.splits)
  note items = pageWindow_items [OF page(2)]
  have "m_conversationId (ti_message i) = conversationId \<and>
      (m_senderId (ti_message i) = userId \<or> m_recipientId (ti_message i) = userId)" if i: "i \<in> set (pg_items result)" for i
  proof -
    obtain m where m: "m \<in> set rows" "threadItem t m = Some i"
      using items i by (auto simp: List.map_filter_def)
    then have "ti_message i = m" by (auto simp: threadItem_def split: option.splits)
    with m participant_pair [OF ok page(1), of m] show ?thesis by (auto simp: rows_def)
  qed
  then show ?thesis using items by (simp add: list_all_iff)
qed

section \<open>Unread messages\<close>

lemma count_by_key:
  "distinct ks \<Longrightarrow> (\<And>m. m \<in> set ms \<Longrightarrow> P m \<Longrightarrow> f m \<in> set ks) \<Longrightarrow>
   sum_list (map (\<lambda>k. count_rows (\<lambda>m. f m = k \<and> P m) ms) ks) = count_rows P ms"
proof (induction ms)
  case (Cons m ms)
  have one: "sum_list (map (\<lambda>k. if f m = k \<and> P m then 1 else 0) ks) = (if P m then 1 else 0 :: nat)"
  proof (cases "P m")
    case True
    then have "f m \<in> set ks" using Cons.prems(2) by simp
    with True Cons.prems(1) show ?thesis
      by (simp add: sum_list_distinct_conv_sum_set)
  qed simp
  have "sum_list (map (\<lambda>k. count_rows (\<lambda>m. f m = k \<and> P m) (m # ms)) ks) =
      sum_list (map (\<lambda>k. if f m = k \<and> P m then 1 else 0) ks) +
      sum_list (map (\<lambda>k. count_rows (\<lambda>m. f m = k \<and> P m) ms) ks)"
    by (simp add: sum_list_addf)
  with one Cons show ?case by simp
qed (simp add: sum_list_0)

lemma views_one:
  assumes inv: "chatOk s" and p: "p \<in> set (participants s)" "cq_userId p = u"
  shows "\<exists>v. conversationViews s u p = [v] \<and> vw_unreadCount v = unreadIn s u (cq_conversationId p)"
proof -
  let ?c = "cq_conversationId p" and ?D = "distinct (map fst (convPairs (conversations s)))"
  have D: ?D using inv by (simp add: chatOk_def)
  have "participantOk s (?c, u)" using inv p by (auto simp: chatOk_def)
  then obtain w where w: "plain u" "plain w" "(?c, getDirectKey u w) \<in> set (convPairs (conversations s))"
    by (auto simp: participantOk_def)
  then obtain c where c: "find (\<lambda>c. cv_id c = ?c) (conversations s) = Some c"
    by (cases "find (\<lambda>c. cv_id c = ?c) (conversations s)") (auto simp: convPairs_def find_None)
  then have id: "cv_id c = ?c" by (auto dest: find_Some_in)
  define others where "others = filter (\<lambda>q. cq_conversationId q = ?c \<and> cq_userId q \<noteq> u) (participants s)"
  have same: "cq_userId q = w" if "q \<in> set others" for q
  proof -
    have q: "q \<in> set (participants s)" "cq_conversationId q = ?c" "cq_userId q \<noteq> u" using that by (auto simp: others_def)
    then have "participantOk s (?c, cq_userId q)" using inv by (auto simp: chatOk_def)
    then obtain x where x: "plain (cq_userId q)" "plain x"
      "(?c, getDirectKey (cq_userId q) x) \<in> set (convPairs (conversations s))" by (auto simp: participantOk_def)
    from distinct_key_eq [OF D w(3) x(3)] have "getDirectKey u w = getDirectKey (cq_userId q) x" by simp
    from directKey_pair [OF this w(1,2) x(1,2)] q(3) show ?thesis by blast
  qed
  have "distinct (map (\<lambda>p. (cq_conversationId p, cq_userId p)) others)"
    using inv unfolding others_def chatOk_def by (simp add: distinct_map inj_on_def)
  moreover have "map (\<lambda>p. (cq_conversationId p, cq_userId p)) others = map (\<lambda>p. (?c, w)) others"
    using same by (auto simp: others_def)
  moreover have "distinct (map (\<lambda>p. (?c, w)) xs) \<Longrightarrow> xs = [] \<or> (\<exists>q. xs = [q])" for xs :: "participant_row list"
    by (cases xs; cases "tl xs") auto
  ultimately have "others = [] \<or> (\<exists>q. others = [q])" by metis
  then show ?thesis
    unfolding conversationViews_def c option.case otherParticipants_def id others_def [symmetric] by auto
qed

text \<open>
  The list of conversations of a user has one entry per conversation, and the unread counts of
  the entries add up to the number that the unread counter gives.
\<close>

theorem unread_counts_agree:
  assumes inv: "chatOk s" and reqs: "list_all (plainSender \<circ> snd) requests" and t: "t = serveChats S uuid requests s"
    and mine: "mine = filter (\<lambda>p. cq_userId p = userId) (participants t)"
    and views: "views = concat (map (conversationViews t userId) mine)"
  shows "length views = length mine \<and>
    unreadCount userId t = (Inr (sum_list (map vw_unreadCount views)), t)"
proof -
  have ok: "chatOk t" using serveChats_keeps [OF inv reqs] t by simp
  have one: "\<exists>v. conversationViews t userId p = [v] \<and> vw_unreadCount v = unreadIn t userId (cq_conversationId p)"
    if "p \<in> set mine" for p using views_one [OF ok, of p userId] that mine by simp
  have cv: "length (concat (map (conversationViews t userId) ps)) = length ps \<and>
      map vw_unreadCount (concat (map (conversationViews t userId) ps)) =
      map (\<lambda>p. unreadIn t userId (cq_conversationId p)) ps" if "set ps \<subseteq> set mine" for ps
    using that by (induction ps) (auto dest!: one)
  have "distinct (map cq_conversationId mine)"
    using ok unfolding mine chatOk_def by (auto simp: distinct_map inj_on_def)
  moreover have "m_conversationId m \<in> set (map cq_conversationId mine)"
    if mem: "m \<in> set (messages t)" and unread: "m_recipientId m = userId \<and> \<not> m_isRead m" for m
  proof -
    have "messageOk t m" using ok mem by (simp add: chatOk_def)
    then obtain p where "p \<in> set (participants t)" "cq_conversationId p = m_conversationId m" "cq_userId p = userId"
      using unread by (auto simp: messageOk_def inConversation_def)
    then show ?thesis unfolding mine by (auto simp: image_iff)
  qed
  ultimately have "sum_list (map (\<lambda>k. count_rows (\<lambda>m. m_conversationId m = k \<and> m_recipientId m = userId \<and> \<not> m_isRead m)
      (messages t)) (map cq_conversationId mine)) = count_rows (\<lambda>m. m_recipientId m = userId \<and> \<not> m_isRead m) (messages t)"
    by (rule count_by_key)
  then show ?thesis
    using cv [OF subset_refl] by (simp add: views unreadCount_def countRows_run unreadIn_def comp_def)
qed

section \<open>Examples\<close>

definition sample_chat :: db where
  "sample_chat = empty_db\<lparr>users := [sample_user ''u1'' ''STUDENT'', sample_user ''u2'' ''TEACHER'']\<rparr>"

definition sample_note :: "string \<Rightarrow> message_dto" where
  "sample_note i = \<lparr>md_recipientEmail = i @ ''@get.mg'', md_subject = None, md_body = ''Bonjour''\<rparr>"

definition sample_exchange :: "(time \<times> chat_request) list" where
  "sample_exchange = [(5, SendMessage ''u1'' (sample_note ''u2'') []), (6, SendMessage ''u2'' (sample_note ''u1'') [])]"

definition sample_after :: db where
  "sample_after = serveChats sample_store sample_uuid sample_exchange sample_chat"

lemma sample_chat_ok: "chatOk sample_chat"
  by (simp add: chatOk_def sample_chat_def empty_db_def convPairs_def plain_def sample_user_def)

lemma sample_plain: "list_all (plainSender \<circ> snd) sample_exchange"
  by (simp add: sample_exchange_def plain_def)

lemma sample_recipient: "trim (map lowerChar (md_recipientEmail (sample_note ''u1''))) = ''u1@get.mg''"
    "trim (map lowerChar (md_recipientEmail (sample_note ''u2''))) = ''u2@get.mg''"
    "trim (md_body (sample_note i)) = ''Bonjour''" "md_subject (sample_note i) = None"
  unfolding sample_note_def message_dto.simps by code_simp+

definition sample_row :: "id \<Rightarrow> id \<Rightarrow> id \<Rightarrow> time \<Rightarrow> message_row" where
  "sample_row i a b d =
     \<lparr>m_id = i, m_conversationId = ''id-'', m_senderId = a, m_recipientId = b, m_subject = None,
      m_body = ''Bonjour'', m_isRead = False, m_readAt = None, m_createdAt = d\<rparr>"

lemma sample_chat_keys: "getDirectKey ''u1'' ''u2'' = ''u1:u2''" "getDirectKey ''u2'' ''u1'' = ''u1:u2''"
  by code_simp+

lemma sample_after_run:
  "sample_after = sample_chat\<lparr>
     conversations := [\<lparr>cv_id = ''id-'', cv_directKey = ''u1:u2'', cv_lastMessageAt = 6, cv_createdAt = 5\<rparr>],
     participants := [\<lparr>cq_conversationId = ''id-'', cq_userId = ''u1'', cq_lastReadAt = None\<rparr>,
                      \<lparr>cq_conversationId = ''id-'', cq_userId = ''u2'', cq_lastReadAt = None\<rparr>],
     messages := [sample_row ''id-x'' ''u1'' ''u2'' 5, sample_row ''id-xxx'' ''u2'' ''u1'' 6], seqNo := 4\<rparr>"
  by (simp add: sample_after_def sample_exchange_def sendMessage_def writeMessage_def addMessage_def
      openConversation_def joinConversation_run joined_def thenE_run bindE_run require_run findOr_run newId_run
      updateMany_run whenE_run insertRow_run transactDb_run ret_run MAX_ATTACHMENTS_PER_MESSAGE_def
      sample_recipient sample_chat_keys sample_chat_def empty_db_def sample_user_def sample_uuid_def sample_row_def)

theorem one_conversation_per_pair_witness:
  "\<exists>m \<in> set (messages sample_after). \<exists>m' \<in> set (messages sample_after).
     m_senderId m = ''u1'' \<and> m_senderId m' = ''u2'' \<and> m_conversationId m = m_conversationId m'"
proof -
  let ?m = "sample_row ''id-x'' ''u1'' ''u2'' 5" and ?n = "sample_row ''id-xxx'' ''u2'' ''u1'' 6"
  have "?m \<in> set (messages sample_after)" "?n \<in> set (messages sample_after)" by (simp_all add: sample_after_run)
  moreover from one_conversation_per_pair [OF sample_chat_ok sample_plain sample_after_def this]
  have "m_conversationId ?m = m_conversationId ?n" by (simp add: sample_row_def insert_commute)
  ultimately show ?thesis by (intro bexI [of _ ?m] bexI [of _ ?n]) (simp_all add: sample_row_def)
qed

definition sample_thread :: "thread_item list" where
  "sample_thread =
     (let a = \<lparr>ps_id = ''u1'', ps_email = ''u1@get.mg'', ps_name = None\<rparr>;
          b = \<lparr>ps_id = ''u2'', ps_email = ''u2@get.mg'', ps_name = None\<rparr> in
      [\<lparr>ti_message = sample_row ''id-x'' ''u1'' ''u2'' 5, ti_attachments = [], ti_sender = a, ti_recipient = b\<rparr>,
       \<lparr>ti_message = sample_row ''id-xxx'' ''u2'' ''u1'' 6, ti_attachments = [], ti_sender = b, ti_recipient = a\<rparr>])"

lemma sample_person:
  "personOf sample_after ''u1'' = Some \<lparr>ps_id = ''u1'', ps_email = ''u1@get.mg'', ps_name = None\<rparr>"
  "personOf sample_after ''u2'' = Some \<lparr>ps_id = ''u2'', ps_email = ''u2@get.mg'', ps_name = None\<rparr>"
  by (simp_all add: personOf_def sample_after_run sample_chat_def sample_user_def empty_db_def)

lemma sample_items:
  "List.map_filter (threadItem sample_after)
     (sort_key m_createdAt (filter (\<lambda>m. m_conversationId m = ''id-'') (messages sample_after))) = sample_thread"
proof -
  have "sort_key m_createdAt (filter (\<lambda>m. m_conversationId m = ''id-'') (messages sample_after)) =
      [sample_row ''id-x'' ''u1'' ''u2'' 5, sample_row ''id-xxx'' ''u2'' ''u1'' 6]"
    by (simp add: sample_after_run sample_row_def)
  moreover have "attachments sample_after = []" by (simp add: sample_after_run sample_chat_def empty_db_def)
  ultimately show ?thesis
    by (simp add: List.map_filter_def threadItem_def sample_row_def sample_person sample_thread_def Let_def)
qed

lemma sample_getThread:
  "getThread ''id-'' ''u2'' None None sample_after =
     (Inr \<lparr>pg_items = sample_thread, pg_page = 1, pg_limit = 50, pg_total = 2, pg_totalPages = 1\<rparr>, sample_after)"
proof -
  have member: "list_ex (\<lambda>p. cq_conversationId p = ''id-'' \<and> cq_userId p = ''u2'') (participants sample_after)"
    "length (filter (\<lambda>m. m_conversationId m = ''id-'') (messages sample_after)) = 2"
    by (simp_all add: sample_after_run sample_row_def)
  have "take 50 sample_thread = sample_thread" by (simp add: sample_thread_def Let_def)
  then show ?thesis
    by (simp add: getThread_def thenE_run bindE_run ensureParticipant_run member findMany_run asks_run sample_items
        pageWindow_def clampPage_def clampLimit_def numberOr_def ret_run totalPages_def)
qed

theorem threads_private_witness:
  "getThread ''id-'' ''u2'' None None sample_after =
     (Inr \<lparr>pg_items = sample_thread, pg_page = 1, pg_limit = 50, pg_total = 2, pg_totalPages = 1\<rparr>, sample_after) \<and>
   list_all (\<lambda>i. m_conversationId (ti_message i) = ''id-'' \<and>
      (m_senderId (ti_message i) = ''u2'' \<or> m_recipientId (ti_message i) = ''u2'')) sample_thread"
  using threads_private [OF sample_chat_ok sample_plain sample_after_def sample_getThread] sample_getThread by simp

theorem unread_counts_agree_witness:
  "unreadCount ''u1'' sample_after =
     (Inr (sum_list (map vw_unreadCount (concat (map (conversationViews sample_after ''u1'')
        (filter (\<lambda>p. cq_userId p = ''u1'') (participants sample_after)))))), sample_after)"
  using unread_counts_agree [OF sample_chat_ok sample_plain sample_after_def refl refl] by blast

end
