(* ===== verification/Receipts.thy ===== *)
theory Receipts
  imports Payments Pdf
begin

text \<open>
  \<open>generateReceipt\<close> and \<open>openBankAccount\<close> of \<open>payment/payment.service.ts\<close>: the receipt of a payment
  is a PDF page of six lines, given to its payer and to the platform's administrators only. The
  formatting of the date and of the amount are parameters, as the Unicode decomposition is in
  theory Pdf; accented letters are written in UTF-8.
\<close>

fun payStatusName :: "pay_status \<Rightarrow> string" where
  "payStatusName PayPENDING = ''PENDING''"
| "payStatusName PayPROCESSING = ''PROCESSING''"
| "payStatusName PayCOMPLETED = ''COMPLETED''"
| "payStatusName PayFAILED = ''FAILED''"
| "payStatusName PayEXPIRED = ''EXPIRED''"

record receipt_env =
  rc_nfd :: "string \<Rightarrow> string"
  rc_dateTime :: "time \<Rightarrow> string"
  rc_number :: "rat \<Rightarrow> string"

text \<open>\<open>payment.paidAt || payment.createdAt\<close>\<close>

definition receiptLines :: "receipt_env \<Rightarrow> payment_row \<Rightarrow> string list" where
  "receiptLines E payment =
     [''RE'' @ [CHR 0xC3, CHR 0x87] @ ''U DE PAIEMENT'',
      [],
      ''R'' @ [CHR 0xC3, CHR 0xA9] @ ''f'' @ [CHR 0xC3, CHR 0xA9] @ ''rence : '' @ p_reference payment,
      ''Montant : '' @ rc_number E (p_amount payment) @ '' '' @ p_currency payment,
      ''Statut : '' @ payStatusName (p_status payment),
      ''Date : '' @ rc_dateTime E (nullish (p_paidAt payment) (p_createdAt payment))]"

definition generateReceipt :: "receipt_env \<Rightarrow> id \<Rightarrow> id \<Rightarrow> string \<Rightarrow> (db, string) exec" where
  "generateReceipt E paymentId userId role =
     bindE (getPayment paymentId userId role) (\<lambda>details.
     ret (buildReceiptPdf (rc_nfd E) (receiptLines E (pt_payment details))))"

text \<open>The simulated bank account: five random bytes in hexadecimal.\<close>

record bank_account =
  ba_accountNumber :: string
  ba_bankName :: string
  ba_status :: string

definition openBankAccount :: "time \<Rightarrow> string \<Rightarrow> bank_account" where
  "openBankAccount now randomBytes =
     \<lparr>ba_accountNumber = ''MG-'' @ show_int now @ ''-'' @ toHex randomBytes,
      ba_bankName = ''Banque Partenaire'', ba_status = ''ACTIVE''\<rparr>"

text \<open>
  A receipt is private and faithful: it is given to the payer of the payment or to an
  administrator of the platform, its six lines are those of that payment, and asking for it
  changes nothing.
\<close>

theorem receipt_private:
  assumes "generateReceipt E paymentId userId role s = (Inr file, t)"
  shows "t = s \<and> (\<exists>p \<in> set (payments s). \<exists>x \<in> set (students s).
    p_id p = paymentId \<and> st_id x = p_studentId p \<and> (st_userId x = userId \<or> role = ''ADMIN_GET'') \<and>
    file = writePdf (pdfObjects (receiptCommands (rc_nfd E) (receiptLines E p))))"
proof -
  obtain details where d: "getPayment paymentId userId role s = (Inr details, t)"
    and f: "file = buildReceiptPdf (rc_nfd E) (receiptLines E (pt_payment details))"
    using assms by (auto simp: generateReceipt_def bindE_run ret_run split: prod.splits sum.splits)
  obtain p where p: "find (\<lambda>p. p_id p = paymentId) (payments s) = Some p"
    using d by (cases "find (\<lambda>p. p_id p = paymentId) (payments s)") (simp_all add: getPayment_def bindE_run findOr_run)
  obtain x where x: "find (\<lambda>x. st_id x = p_studentId p) (students s) = Some x"
    using d by (cases "find (\<lambda>x. st_id x = p_studentId p) (students s)")
      (simp_all add: getPayment_def bindE_run findOr_run p)
  have run: "getPayment paymentId userId role s =
      (if st_userId x \<noteq> userId \<and> role \<noteq> ''ADMIN_GET'' then
         (Inl (Forbidden ''Vous n'etes pas autorise a consulter ce paiement''), s)
       else (Inr \<lparr>pt_payment = p, pt_student = x,
                  pt_transaction = find (\<lambda>x. x_paymentId x = paymentId) (transactions s),
                  pt_refund = find (\<lambda>r. r_paymentId r = paymentId) (refunds s)\<rparr>, s))"
    by (simp add: getPayment_def bindE_run findOr_run p x findFirst_run thenE_run require_run ret_run)
  have allowed: "\<not> (st_userId x \<noteq> userId \<and> role \<noteq> ''ADMIN_GET'')" using d unfolding run by (metis Inl_Inr_False Pair_inject)
  then have rest: "t = s" "pt_payment details = p" using d unfolding run if_not_P [OF allowed] by auto
  show ?thesis
    using find_Some_in [OF p] find_Some_in [OF x] rest allowed
    by (intro conjI bexI [of _ p] bexI [of _ x]) (simp_all add: f buildReceiptPdf_def)
qed

definition sample_receipts :: receipt_env where
  "sample_receipts = \<lparr>rc_nfd = id, rc_dateTime = (\<lambda>_. ''01/09/2025''), rc_number = (\<lambda>_. ''1000'')\<rparr>"

lemma sample_payer [simp]:
  "students (sample_paid_db ast pst) =
     [sample_student ''st1'' ''u1'', sample_student ''st2'' ''u2'', sample_student ''st3'' ''u3'']"
  "p_studentId (sample_payment pst) = ''st1''" "st_id (sample_student i u) = i" "st_userId (sample_student i u) = u"
  by (simp_all add: sample_paid_db_def sample_school_db_def sample_payment_def newPayment_def sample_student_def)

theorem receipt_private_witness:
  "\<exists>p \<in> set (payments (sample_paid_db ACCEPTED PayCOMPLETED)). p_id p = ''pay1'' \<and>
     fst (generateReceipt sample_receipts ''pay1'' ''u1'' ''STUDENT'' (sample_paid_db ACCEPTED PayCOMPLETED)) =
       Inr (writePdf (pdfObjects (receiptCommands id (receiptLines sample_receipts p))))"
proof -
  let ?s = "sample_paid_db ACCEPTED PayCOMPLETED"
  have "getPayment ''pay1'' ''u1'' ''STUDENT'' ?s =
      (Inr \<lparr>pt_payment = sample_payment PayCOMPLETED, pt_student = sample_student ''st1'' ''u1'',
            pt_transaction = None, pt_refund = None\<rparr>, ?s)"
    by (simp add: getPayment_def exec_simps)
  then obtain out where "generateReceipt sample_receipts ''pay1'' ''u1'' ''STUDENT'' ?s = (Inr out, ?s)"
    by (simp add: generateReceipt_def bindE_run ret_run)
  with receipt_private [OF this] show ?thesis by (auto simp: sample_receipts_def)
qed

end
