(* ===== verification/School_Enrollment.thy ===== *)
theory School_Enrollment
  imports Announcements Csv Course_Slots
begin

text \<open>
  The programmes, academic years and student registrations of a school
  (\<open>school/school.service.ts\<close>): their operations with the unique keys of the tables, the
  bulk import, the lists and the CSV export of the students. Dates of the request bodies are
  instants, as their validation guarantees. The main facts: over any sequence of requests the
  computed label of every registration follows its programme, level and year, its level stays
  within the programme, and a school has at most one current year; an import answers every row
  once.
\<close>

section \<open>Programmes\<close>

record program_dto =
  gd_name :: string
  gd_diploma :: string
  gd_durationYears :: int

record program_patch =
  gp_name :: "string option"
  gp_diploma :: "string option"
  gp_durationYears :: "int option"
  gp_isActive :: "bool option"

definition programClash :: "program_row \<Rightarrow> program_row \<Rightarrow> bool" where
  "programClash a b \<longleftrightarrow>
     pr_id a = pr_id b \<or> (pr_schoolId a = pr_schoolId b \<and> pr_name a = pr_name b)"

definition yearClash :: "school_year_row \<Rightarrow> school_year_row \<Rightarrow> bool" where
  "yearClash a b \<longleftrightarrow> y_id a = y_id b \<or> (y_schoolId a = y_schoolId b \<and> y_label a = y_label b)"

definition active_then_name :: "program_row \<Rightarrow> program_row \<Rightarrow> bool" where
  "active_then_name a b \<longleftrightarrow>
     (pr_isActive a \<and> \<not> pr_isActive b) \<or> (pr_isActive a = pr_isActive b \<and> pr_name a \<le> pr_name b)"

definition getPrograms :: "id \<Rightarrow> (db, program_row list) exec" where
  "getPrograms schoolId =
     bindE (findMany programs (\<lambda>p. pr_schoolId p = schoolId)) (\<lambda>rows.
     ret (sort_by active_then_name rows))"

definition getAllPrograms :: "int option \<Rightarrow> int option \<Rightarrow> string option \<Rightarrow> (db, program_row page) exec" where
  "getAllPrograms page limit schoolId =
     bindE (findMany programs (\<lambda>p. truthy schoolId \<longrightarrow> Some (pr_schoolId p) = schoolId)) (\<lambda>rows.
     paginate (clampPage page) (clampLimit 20 limit) (sort_by active_then_name rows))"

definition createProgram :: "(nat \<Rightarrow> id) \<Rightarrow> id \<Rightarrow> program_dto \<Rightarrow> (db, program_row) exec" where
  "createProgram uuid schoolId dto =
     bindE (newId uuid) (\<lambda>i.
     insertRow programs programs_update programClash
       \<lparr>pr_id = i, pr_schoolId = schoolId, pr_name = trim (gd_name dto),
        pr_durationYears = gd_durationYears dto, pr_isActive = True, pr_diploma = trim (gd_diploma dto)\<rparr>)"

section \<open>The label of a registration\<close>

definition enrollmentLabel :: "string \<Rightarrow> int \<Rightarrow> string \<Rightarrow> string" where
  "enrollmentLabel programName level academicYearLabel =
     ''Annee '' @ show_int level @ '' - '' @ programName @ '' - '' @ academicYearLabel"

text \<open>The row of a registration is identified by its student and school, the table's unique key.\<close>

definition sameEnrollment :: "enrollment_row \<Rightarrow> enrollment_row \<Rightarrow> bool" where
  "sameEnrollment a b \<longleftrightarrow> e_studentId a = e_studentId b \<and> e_schoolId a = e_schoolId b"

definition living :: "db \<Rightarrow> id \<Rightarrow> bool" where
  "living s studentId \<longleftrightarrow> (\<exists>x \<in> set (students s). st_id x = studentId \<and> st_deletedAt x = None)"

definition relabel :: "(enrollment_row \<times> string) list \<Rightarrow> (db, unit) exec" where
  "relabel labels =
     transact (forEach labels (\<lambda>(e, l).
       thenE (updateOne enrollments enrollments_update (sameEnrollment e) (\<lambda>x. x\<lparr>e_enrolledYear := l\<rparr>))
         (ret ())))"

text \<open>The joined year and programme of a registration, there by foreign keys.\<close>

definition yearOf :: "db \<Rightarrow> enrollment_row \<Rightarrow> school_year_row option" where
  "yearOf s e = find (\<lambda>y. y_id y = e_academicYearId e) (schoolYears s)"

definition programOf :: "db \<Rightarrow> enrollment_row \<Rightarrow> program_row option" where
  "programOf s e = find (\<lambda>p. pr_id p = e_programId e) (programs s)"

definition refreshProgramEnrollmentLabels :: "id \<Rightarrow> string \<Rightarrow> (db, unit) exec" where
  "refreshProgramEnrollmentLabels programId programName =
     bindE (findMany enrollments (\<lambda>e. e_programId e = programId)) (\<lambda>rows.
     bindE (asks (\<lambda>s. List.map_filter
              (\<lambda>e. map_option (\<lambda>y. (e, enrollmentLabel programName (e_programLevel e) (y_label y))) (yearOf s e))
              (filter (\<lambda>e. living s (e_studentId e)) rows))) relabel)"

definition refreshAcademicYearEnrollmentLabels :: "id \<Rightarrow> string \<Rightarrow> (db, unit) exec" where
  "refreshAcademicYearEnrollmentLabels academicYearId academicYearLabel =
     bindE (findMany enrollments (\<lambda>e. e_academicYearId e = academicYearId)) (\<lambda>rows.
     bindE (asks (\<lambda>s. List.map_filter
              (\<lambda>e. map_option (\<lambda>p. (e, enrollmentLabel (pr_name p) (e_programLevel e) academicYearLabel))
                     (programOf s e))
              (filter (\<lambda>e. living s (e_studentId e)) rows))) relabel)"

definition patchProgram :: "program_patch \<Rightarrow> program_row \<Rightarrow> program_row" where
  "patchProgram dto p =
     p\<lparr>pr_name := nullish (map_option trim (gp_name dto)) (pr_name p),
       pr_diploma := nullish (map_option trim (gp_diploma dto)) (pr_diploma p),
       pr_durationYears := nullish (gp_durationYears dto) (pr_durationYears p),
       pr_isActive := nullish (gp_isActive dto) (pr_isActive p)\<rparr>"

definition tooHigh :: "db \<Rightarrow> id \<Rightarrow> int \<Rightarrow> enrollment_row \<Rightarrow> bool" where
  "tooHigh s programId duration e \<longleftrightarrow>
     e_programId e = programId \<and> duration < e_programLevel e \<and> e_status e = ACTIVE \<and>
     living s (e_studentId e)"

definition assertDuration :: "program_row \<Rightarrow> int option \<Rightarrow> (db, unit) exec" where
  "assertDuration program durationYears =
     (case durationYears of
        None \<Rightarrow> ret ()
      | Some d \<Rightarrow>
          whenE (d \<noteq> 0 \<and> d < pr_durationYears program)
            (bindE (asks (\<lambda>s. list_ex (tooHigh s (pr_id program) d) (enrollments s))) (\<lambda>found.
             require (\<not> found)
               (BadRequest ''La duree ne peut pas etre inferieure au niveau d'un etudiant inscrit''))))"

definition updateProgram :: "id \<Rightarrow> id \<Rightarrow> program_patch \<Rightarrow> (db, program_row) exec" where
  "updateProgram schoolId i dto =
     bindE (findOr programs (\<lambda>p. pr_id p = i \<and> pr_schoolId p = schoolId)
              (NotFound ''Filiere introuvable'')) (\<lambda>program.
     thenE (assertDuration program (gp_durationYears dto))
     (thenE (updateUnique programs programs_update programClash (\<lambda>p. pr_id p = i) (patchProgram dto))
     (let updated = patchProgram dto program in
      thenE (whenE (gp_name dto \<noteq> None) (refreshProgramEnrollmentLabels i (pr_name updated)))
      (ret updated))))"

section \<open>Academic years\<close>

record year_dto =
  yd_label :: string
  yd_enrollmentOpensAt :: time
  yd_enrollmentClosesAt :: time
  yd_isCurrent :: "bool option"

record year_patch =
  yp_label :: "string option"
  yp_enrollmentOpensAt :: "time option"
  yp_enrollmentClosesAt :: "time option"
  yp_isCurrent :: "bool option"

definition current_then_latest :: "school_year_row \<Rightarrow> school_year_row \<Rightarrow> bool" where
  "current_then_latest a b \<longleftrightarrow>
     (y_isCurrent a \<and> \<not> y_isCurrent b) \<or>
     (y_isCurrent a = y_isCurrent b \<and> y_enrollmentOpensAt b \<le> y_enrollmentOpensAt a)"

definition getAcademicYears :: "id \<Rightarrow> (db, school_year_row list) exec" where
  "getAcademicYears schoolId =
     bindE (findMany schoolYears (\<lambda>y. y_schoolId y = schoolId)) (\<lambda>rows.
     ret (sort_by current_then_latest rows))"

definition assertEnrollmentPeriod :: "time \<Rightarrow> time \<Rightarrow> (db, unit) exec" where
  "assertEnrollmentPeriod opensAt closesAt =
     require (\<not> closesAt < opensAt)
       (BadRequest ''La date de fermeture doit etre posterieure a la date d'ouverture'')"

definition clearCurrent :: "(school_year_row \<Rightarrow> bool) \<Rightarrow> (db, unit) exec" where
  "clearCurrent P =
     thenE (updateMany schoolYears schoolYears_update (\<lambda>y. y_isCurrent y \<and> P y)
              (\<lambda>y. y\<lparr>y_isCurrent := False\<rparr>)) (ret ())"

definition createAcademicYear :: "(nat \<Rightarrow> id) \<Rightarrow> id \<Rightarrow> year_dto \<Rightarrow> (db, school_year_row) exec" where
  "createAcademicYear uuid schoolId dto =
     thenE (assertEnrollmentPeriod (yd_enrollmentOpensAt dto) (yd_enrollmentClosesAt dto))
     (transact
       (thenE (whenE (yd_isCurrent dto = Some True) (clearCurrent (\<lambda>y. y_schoolId y = schoolId)))
       (bindE (newId uuid) (\<lambda>i.
        insertRow schoolYears schoolYears_update yearClash
          \<lparr>y_id = i, y_schoolId = schoolId, y_label = trim (yd_label dto),
           y_isCurrent = nullish (yd_isCurrent dto) False,
           y_enrollmentOpensAt = yd_enrollmentOpensAt dto,
           y_enrollmentClosesAt = yd_enrollmentClosesAt dto\<rparr>))))"

definition patchYear :: "year_patch \<Rightarrow> school_year_row \<Rightarrow> school_year_row" where
  "patchYear dto y =
     y\<lparr>y_label := nullish (map_option trim (yp_label dto)) (y_label y),
       y_enrollmentOpensAt := nullish (yp_enrollmentOpensAt dto) (y_enrollmentOpensAt y),
       y_enrollmentClosesAt := nullish (yp_enrollmentClosesAt dto) (y_enrollmentClosesAt y),
       y_isCurrent := nullish (yp_isCurrent dto) (y_isCurrent y)\<rparr>"

definition writeYear :: "id \<Rightarrow> id \<Rightarrow> year_patch \<Rightarrow> (db, unit) exec" where
  "writeYear schoolId i dto =
     transact
       (thenE (whenE (yp_isCurrent dto = Some True)
                 (clearCurrent (\<lambda>y. y_schoolId y = schoolId \<and> y_id y \<noteq> i)))
       (updateUnique schoolYears schoolYears_update yearClash (\<lambda>y. y_id y = i) (patchYear dto)))"

definition updateAcademicYear :: "id \<Rightarrow> id \<Rightarrow> year_patch \<Rightarrow> (db, school_year_row) exec" where
  "updateAcademicYear schoolId i dto =
     bindE (findOr schoolYears (\<lambda>y. y_id y = i \<and> y_schoolId y = schoolId)
              (NotFound ''Annee academique introuvable'')) (\<lambda>academicYear.
     thenE (assertEnrollmentPeriod
              (nullish (yp_enrollmentOpensAt dto) (y_enrollmentOpensAt academicYear))
              (nullish (yp_enrollmentClosesAt dto) (y_enrollmentClosesAt academicYear)))
     (thenE (writeYear schoolId i dto)
     (let updated = patchYear dto academicYear in
      thenE (whenE (yp_label dto \<noteq> None) (refreshAcademicYearEnrollmentLabels i (y_label updated)))
      (ret updated))))"

section \<open>Registrations\<close>

record enroll_dto =
  ed_email :: string
  ed_programId :: id
  ed_level :: int
  ed_academicYearId :: id

text \<open>
  What the validation of the body adds (\<open>@Min(1)\<close> on the level of \<open>EnrollStudentDto\<close>). The import
  of a file calls \<open>enrollStudent\<close> without it.
\<close>

definition validEnrollDto :: "enroll_dto \<Rightarrow> bool" where
  "validEnrollDto dto \<longleftrightarrow> 1 \<le> ed_level dto"

definition normalText :: "string \<Rightarrow> string" where
  "normalText email = map lowerChar (trim email)"

text \<open>The student account of an e-mail: the role, the student row and its deletion are checked.\<close>

definition studentAccount :: "string \<Rightarrow> db \<Rightarrow> student_row option" where
  "studentAccount email s =
     (case find (\<lambda>u. u_email u = normalText email) (users s) of
        None \<Rightarrow> None
      | Some user \<Rightarrow>
          (case find (\<lambda>x. st_userId x = u_id user) (students s) of
             None \<Rightarrow> None
           | Some student \<Rightarrow>
               if u_role user = Some ''STUDENT'' \<and> st_deletedAt student = None then Some student else None))"

definition orThrow :: "'a option \<Rightarrow> error \<Rightarrow> (db, 'a) exec" where
  "orThrow x e = (case x of None \<Rightarrow> throw e | Some v \<Rightarrow> ret v)"

lemma orThrow_run [exec_simps]:
  "orThrow x e s = (case x of None \<Rightarrow> (Inl e, s) | Some v \<Rightarrow> (Inr v, s))"
  by (simp add: orThrow_def exec_simps split: option.split)

definition registerIn ::
  "id \<Rightarrow> id \<Rightarrow> program_row \<Rightarrow> int \<Rightarrow> school_year_row \<Rightarrow> (db, unit) exec" where
  "registerIn studentId schoolId program level academicYear =
     upsertRow enrollments enrollments_update
       (\<lambda>e. e_studentId e = studentId \<and> e_schoolId e = schoolId)
       (\<lambda>e. e\<lparr>e_programId := pr_id program, e_programLevel := level, e_academicYearId := y_id academicYear,
             e_enrolledYear := enrollmentLabel (pr_name program) level (y_label academicYear),
             e_status := ACTIVE\<rparr>)
       \<lparr>e_studentId = studentId, e_schoolId = schoolId, e_programId = pr_id program,
        e_programLevel = level, e_academicYearId = y_id academicYear,
        e_enrolledYear = enrollmentLabel (pr_name program) level (y_label academicYear),
        e_status = ACTIVE\<rparr>"

definition enrollStudent ::
  "(time \<Rightarrow> string) \<Rightarrow> time \<Rightarrow> id \<Rightarrow> enroll_dto \<Rightarrow> (db, student_row) exec" where
  "enrollStudent localeDate now schoolId dto =
     bindE (asks (studentAccount (ed_email dto))) (\<lambda>account.
     bindE (orThrow account (NotFound ''Aucun compte etudiant trouve pour cet e-mail'')) (\<lambda>student.
     bindE (findOr schoolYears (\<lambda>y. y_id y = ed_academicYearId dto \<and> y_schoolId y = schoolId)
              (NotFound ''Annee academique introuvable'')) (\<lambda>academicYear.
     thenE (require (\<not> (now < y_enrollmentOpensAt academicYear \<or> y_enrollmentClosesAt academicYear < now))
              (Forbidden (''Les inscriptions pour cette annee academique ne sont pas ouvertes actuellement (periode : '' @
                 localeDate (y_enrollmentOpensAt academicYear) @ '' - '' @
                 localeDate (y_enrollmentClosesAt academicYear) @ '').'')))
     (bindE (findOr programs (\<lambda>p. pr_id p = ed_programId dto \<and> pr_schoolId p = schoolId \<and> pr_isActive p)
              (NotFound ''Filiere introuvable ou archivee'')) (\<lambda>program.
      thenE (require (\<not> pr_durationYears program < ed_level dto)
               (BadRequest (''Ce programme ne compte que '' @ show_int (pr_durationYears program) @ '' annee(s)'')))
      (thenE (registerIn (st_id student) schoolId program (ed_level dto) academicYear)
      (thenE (syncCourseEnrollments (st_id student) schoolId (pr_id program) (ed_level dto) False)
      (ret student))))))))"

record enrollment_patch =
  ep_programId :: "id option"
  ep_level :: "int option"
  ep_academicYearId :: "id option"
  ep_status :: enrollment_status

definition reactivate :: "program_row \<Rightarrow> int \<Rightarrow> school_year_row \<Rightarrow> enrollment_row \<Rightarrow> enrollment_row" where
  "reactivate program level academicYear e =
     e\<lparr>e_programId := pr_id program, e_programLevel := level, e_academicYearId := y_id academicYear,
       e_enrolledYear := enrollmentLabel (pr_name program) level (y_label academicYear), e_status := ACTIVE\<rparr>"

definition updateEnrollment :: "id \<Rightarrow> id \<Rightarrow> enrollment_patch \<Rightarrow> (db, enrollment_row) exec" where
  "updateEnrollment schoolId studentId data =
     bindE (findFirst enrollments (\<lambda>e. e_studentId e = studentId \<and> e_schoolId e = schoolId)) (\<lambda>found.
     bindE (asks (\<lambda>s. if living s studentId then found else None)) (\<lambda>present.
     bindE (orThrow present (NotFound ''Etudiant inscrit introuvable'')) (\<lambda>enrollment.
     if ep_status data \<noteq> ACTIVE then
       updateOne enrollments enrollments_update (sameEnrollment enrollment) (\<lambda>e. e\<lparr>e_status := ep_status data\<rparr>)
     else
       (let programId = nullish (ep_programId data) (e_programId enrollment);
            academicYearId = nullish (ep_academicYearId data) (e_academicYearId enrollment);
            level = nullish (ep_level data) (e_programLevel enrollment) in
        bindE (findFirst programs (\<lambda>p. pr_id p = programId \<and> pr_schoolId p = schoolId)) (\<lambda>program.
        bindE (findFirst schoolYears (\<lambda>y. y_id y = academicYearId \<and> y_schoolId y = schoolId)) (\<lambda>academicYear.
        case (program, academicYear) of
          (Some p, Some y) \<Rightarrow>
            thenE (require (level \<noteq> 0 \<and> \<not> pr_durationYears p < level)
                     (BadRequest ''Filiere, niveau ou annee academique invalide''))
            (bindE (updateOne enrollments enrollments_update (sameEnrollment enrollment) (reactivate p level y))
               (\<lambda>updatedEnrollment.
             thenE (syncCourseEnrollments studentId schoolId (pr_id p) level False)
             (ret updatedEnrollment)))
        | _ \<Rightarrow> throw (BadRequest ''Filiere, niveau ou annee academique invalide'')))))))"

section \<open>Import\<close>

record import_line =
  ir_email :: string
  ir_programName :: string
  ir_level :: int
  ir_academicYearLabel :: string

text \<open>\<open>new Map(rows.map(r => [key(r), r]))\<close>: of several rows with a key, the last.\<close>

definition byKey :: "('r \<Rightarrow> string) \<Rightarrow> 'r list \<Rightarrow> string \<Rightarrow> 'r option" where
  "byKey key rows k = find (\<lambda>r. key r = k) (rev rows)"

definition importRow ::
  "(time \<Rightarrow> string) \<Rightarrow> time \<Rightarrow> id \<Rightarrow> program_row list \<Rightarrow> school_year_row list \<Rightarrow> import_line
    \<Rightarrow> (db, unit) exec" where
  "importRow localeDate now schoolId ps ys row =
     bindE (orThrow (byKey (normalText \<circ> pr_name) ps (normalText (ir_programName row)))
              (NotFound ''Filiere introuvable'')) (\<lambda>program.
     bindE (orThrow (byKey (normalText \<circ> y_label) ys (normalText (ir_academicYearLabel row)))
              (NotFound ''Annee academique introuvable'')) (\<lambda>academicYear.
     thenE (enrollStudent localeDate now schoolId
              \<lparr>ed_email = ir_email row, ed_programId = pr_id program, ed_level = ir_level row,
               ed_academicYearId = y_id academicYear\<rparr>)
     (ret ())))"

definition importStep ::
  "(time \<Rightarrow> string) \<Rightarrow> time \<Rightarrow> id \<Rightarrow> program_row list \<Rightarrow> school_year_row list
    \<Rightarrow> string list \<times> (import_line \<times> string) list \<Rightarrow> import_line
    \<Rightarrow> (db, string list \<times> (import_line \<times> string) list) exec" where
  "importStep localeDate now schoolId ps ys acc row =
     catchE
       (thenE (importRow localeDate now schoolId ps ys row) (ret (fst acc @ [ir_email row], snd acc)))
       (\<lambda>e. ret (fst acc, snd acc @ [(row, error_message e)]))"

definition bulkEnrollStudents ::
  "(time \<Rightarrow> string) \<Rightarrow> time \<Rightarrow> id \<Rightarrow> import_line list
    \<Rightarrow> (db, string list \<times> (import_line \<times> string) list) exec" where
  "bulkEnrollStudents localeDate now schoolId rows =
     bindE (findMany programs (\<lambda>p. pr_schoolId p = schoolId \<and> pr_isActive p)) (\<lambda>ps.
     bindE (findMany schoolYears (\<lambda>y. y_schoolId y = schoolId)) (\<lambda>ys.
     foldE (importStep localeDate now schoolId ps ys) ([], []) rows))"

section \<open>Relabelling\<close>

definition enrollmentKey :: "enrollment_row \<Rightarrow> id \<times> id" where
  "enrollmentKey e = (e_studentId e, e_schoolId e)"

lemma sameEnrollment_key: "sameEnrollment a b \<longleftrightarrow> enrollmentKey a = enrollmentKey b"
  by (simp add: sameEnrollment_def enrollmentKey_def)

lemma enrollmentKey_label [simp]: "enrollmentKey (e\<lparr>e_enrolledYear := l\<rparr>) = enrollmentKey e"
  by (simp add: enrollmentKey_def)

definition labelled :: "(enrollment_row \<Rightarrow> bool) \<Rightarrow> (enrollment_row \<Rightarrow> string) \<Rightarrow> enrollment_row \<Rightarrow> enrollment_row" where
  "labelled Q L e = (if Q e then e\<lparr>e_enrolledYear := L e\<rparr> else e)"

lemma enrollmentKey_labelled [simp]: "enrollmentKey (labelled Q L e) = enrollmentKey e"
  by (simp add: labelled_def)

lemma relabel_loop:
  assumes "distinct (map enrollmentKey (pre @ xs))"
  shows "forEach (map (\<lambda>e. (e, L e)) (filter Q xs)) (\<lambda>(e, l).
       thenE (updateOne enrollments enrollments_update (sameEnrollment e) (\<lambda>x. x\<lparr>e_enrolledYear := l\<rparr>))
         (ret ())) (s\<lparr>enrollments := pre @ xs\<rparr>) =
     (Inr (), s\<lparr>enrollments := pre @ map (labelled Q L) xs\<rparr>)"
  using assms
proof (induction xs arbitrary: pre)
  case Nil
  then show ?case by (simp add: ret_run)
next
  case (Cons x xs)
  have key: "distinct (map enrollmentKey ((pre @ [labelled Q L x]) @ xs))" using Cons.prems by simp
  note IH = Cons.IH [OF key]
  show ?case
  proof (cases "Q x")
    case False
    with IH show ?thesis by (simp add: labelled_def)
  next
    case True
    have others: "\<not> sameEnrollment x y" if "y \<in> set pre \<union> set xs" for y
      using Cons.prems that by (auto simp: sameEnrollment_key image_iff)
    have self: "sameEnrollment x x" by (simp add: sameEnrollment_key)
    have "find (sameEnrollment x) (pre @ x # xs) = Some x"
      using others self by (simp add: find_append find_None split: option.split)
        (metis (no_types, lifting) UnI1 find_None find_Some_in option.distinct(1))
    moreover have "update_rows (sameEnrollment x) f (pre @ x # xs) = pre @ f x # xs" for f
      using others self by (simp add: update_rows_id)
    ultimately have "thenE (updateOne enrollments enrollments_update (sameEnrollment x)
          (\<lambda>y. y\<lparr>e_enrolledYear := L x\<rparr>)) (ret ()) (s\<lparr>enrollments := pre @ x # xs\<rparr>) =
        (Inr (), s\<lparr>enrollments := pre @ labelled Q L x # xs\<rparr>)"
      using True by (simp add: thenE_run updateOne_run ret_run labelled_def)
    with True IH show ?thesis by (simp add: thenE_run)
  qed
qed

lemma relabel_run:
  assumes "distinct (map enrollmentKey (enrollments s))"
  shows "relabel (map (\<lambda>e. (e, L e)) (filter Q (enrollments s))) s =
    (Inr (), s\<lparr>enrollments := map (labelled Q L) (enrollments s)\<rparr>)"
  using relabel_loop [of "[]" "enrollments s" L Q s] assms by (simp add: relabel_def transact_run)

section \<open>The registrations are consistent\<close>

definition enrolmentOk :: "db \<Rightarrow> enrollment_row \<Rightarrow> bool" where
  "enrolmentOk s e \<longleftrightarrow>
     (case (programOf s e, yearOf s e) of
        (Some p, Some y) \<Rightarrow>
          pr_schoolId p = e_schoolId e \<and> y_schoolId y = e_schoolId e \<and>
          (living s (e_studentId e) \<longrightarrow>
             e_enrolledYear e = enrollmentLabel (pr_name p) (e_programLevel e) (y_label y) \<and>
             (e_status e = ACTIVE \<longrightarrow> e_programLevel e \<le> pr_durationYears p))
      | _ \<Rightarrow> False)"

definition oneCurrent :: "db \<Rightarrow> bool" where
  "oneCurrent s \<longleftrightarrow>
     (\<forall>school. count_rows (\<lambda>y. y_schoolId y = school \<and> y_isCurrent y) (schoolYears s) \<le> 1)"

definition keysOk :: "db \<Rightarrow> bool" where
  "keysOk s \<longleftrightarrow> distinct (map pr_id (programs s)) \<and> distinct (map y_id (schoolYears s)) \<and>
     distinct (map enrollmentKey (enrollments s))"

definition enrolmentInv :: "db \<Rightarrow> bool" where
  "enrolmentInv s \<longleftrightarrow> keysOk s \<and> oneCurrent s \<and> (\<forall>e \<in> set (enrollments s). enrolmentOk s e)"

lemma enrolmentOkE:
  assumes "enrolmentOk s e"
  obtains p y where "programOf s e = Some p" "yearOf s e = Some y"
    "pr_schoolId p = e_schoolId e" "y_schoolId y = e_schoolId e"
    "living s (e_studentId e) \<Longrightarrow> e_enrolledYear e = enrollmentLabel (pr_name p) (e_programLevel e) (y_label y)"
    "living s (e_studentId e) \<Longrightarrow> e_status e = ACTIVE \<Longrightarrow> e_programLevel e \<le> pr_durationYears p"
  using assms by (auto simp: enrolmentOk_def split: option.splits)

lemma enrolmentOkI:
  assumes "programOf s e = Some p" "yearOf s e = Some y"
    "pr_schoolId p = e_schoolId e" "y_schoolId y = e_schoolId e"
    "living s (e_studentId e) \<Longrightarrow> e_enrolledYear e = enrollmentLabel (pr_name p) (e_programLevel e) (y_label y)"
    "living s (e_studentId e) \<Longrightarrow> e_status e = ACTIVE \<Longrightarrow> e_programLevel e \<le> pr_durationYears p"
  shows "enrolmentOk s e"
  using assms by (simp add: enrolmentOk_def)

lemma programOf_append:
  "programOf s e = Some p \<Longrightarrow> programOf (s\<lparr>programs := programs s @ ps\<rparr>) e = Some p"
  by (simp add: programOf_def find_append)

lemma yearOf_append:
  "yearOf s e = Some y \<Longrightarrow> yearOf (s\<lparr>schoolYears := schoolYears s @ ys, seqNo := n\<rparr>) e = Some y"
  by (simp add: yearOf_def find_append)

lemma programOf_update:
  assumes "\<And>p. pr_id (f p) = pr_id p"
  shows "programOf (s\<lparr>programs := update_rows (\<lambda>p. pr_id p = i) f (programs s)\<rparr>) e =
    map_option (\<lambda>p. if pr_id p = i then f p else p) (programOf s e)"
  unfolding programOf_def using assms by (simp add: find_update_rows)

lemma yearOf_update:
  assumes "\<And>y. y_id (f y) = y_id y"
  shows "yearOf (s\<lparr>schoolYears := update_rows P f (schoolYears s)\<rparr>) e =
    map_option (\<lambda>y. if P y then f y else y) (yearOf s e)"
  unfolding yearOf_def using assms by (simp add: find_update_rows)

lemma count_update_le:
  "(\<And>x. x \<in> set xs \<Longrightarrow> Q (if P x then f x else x) \<Longrightarrow> R x) \<Longrightarrow>
   count_rows Q (update_rows P f xs) \<le> count_rows R xs"
proof (induction xs)
  case (Cons x xs)
  have "count_rows Q (update_rows P f xs) \<le> count_rows R xs" using Cons by simp
  moreover have "Q (if P x then f x else x) \<Longrightarrow> R x" using Cons.prems by simp
  ultimately show ?case by (cases "P x") auto
qed simp

lemma count_key_le_1: "distinct (map k xs) \<Longrightarrow> count_rows (\<lambda>x. k x = i) xs \<le> 1"
proof (induction xs)
  case (Cons x xs)
  show ?case
  proof (cases "k x = i")
    case True
    with Cons.prems have "count_rows (\<lambda>x. k x = i) xs = 0" by (auto simp: count_rows_0 image_iff)
    with True show ?thesis by simp
  qed (use Cons in simp)
qed simp

text \<open>Registrations keep their programme and year when these tables do not change.\<close>

lemma enrolmentOk_cong:
  assumes "programs t = programs s" "schoolYears t = schoolYears s" "students t = students s"
  shows "enrolmentOk t e = enrolmentOk s e"
proof -
  have same: "living t = living s" by (simp add: living_def fun_eq_iff assms)
  show ?thesis unfolding enrolmentOk_def programOf_def yearOf_def assms same ..
qed

lemma enrolmentInv_cong:
  assumes "programs t = programs s" "schoolYears t = schoolYears s" "students t = students s"
    "enrollments t = enrollments s"
  shows "enrolmentInv t = enrolmentInv s"
  by (simp add: enrolmentInv_def keysOk_def oneCurrent_def enrolmentOk_cong [OF assms(1-3)] assms)

subsection \<open>Programmes and years\<close>

lemma programClash_id: "programClash a b \<Longrightarrow> pr_id a = pr_id b \<or> pr_schoolId a = pr_schoolId b"
  by (auto simp: programClash_def)

lemma createProgram_inv: "steps (keeps enrolmentInv) (createProgram uuid schoolId dto) s"
proof (rule stepsI)
  fix r t assume run: "createProgram uuid schoolId dto s = (r, t)"
  show "keeps enrolmentInv s t"
    unfolding keeps_def
  proof
    assume inv: "enrolmentInv s"
    define p where "p = \<lparr>pr_id = uuid (seqNo s), pr_schoolId = schoolId, pr_name = trim (gd_name dto),
        pr_durationYears = gd_durationYears dto, pr_isActive = True, pr_diploma = trim (gd_diploma dto)\<rparr>"
    show "enrolmentInv t"
    proof (cases "\<exists>x \<in> set (programs s). programClash x p")
      case True
      with run have "t = s\<lparr>seqNo := Suc (seqNo s)\<rparr>"
        by (auto simp: createProgram_def bindE_run newId_run insertRow_run p_def split: if_splits)
      with inv show ?thesis by (simp add: enrolmentInv_cong [of "s\<lparr>seqNo := Suc (seqNo s)\<rparr>" s])
    next
      case False
      with run have t: "t = s\<lparr>seqNo := Suc (seqNo s), programs := programs s @ [p]\<rparr>"
        by (auto simp: createProgram_def bindE_run newId_run insertRow_run p_def split: if_splits)
      have "pr_id p \<notin> pr_id ` set (programs s)" using False by (auto simp: programClash_def)
      then have "keysOk t" using inv by (simp add: t enrolmentInv_def keysOk_def)
      moreover have "oneCurrent t" using inv by (simp add: t enrolmentInv_def oneCurrent_def)
      moreover have "enrolmentOk t e" if "e \<in> set (enrollments t)" for e
      proof -
        have "enrolmentOk s e" using inv that by (simp add: t enrolmentInv_def)
        then show ?thesis
          by (auto simp: enrolmentOk_def t programOf_def yearOf_def living_def find_append split: option.splits)
      qed
      ultimately show ?thesis by (simp add: enrolmentInv_def)
    qed
  qed
qed

text \<open>The rows that a refresh reads, when every registration has its year and programme.\<close>

lemma labels_of_program:
  assumes "\<forall>e \<in> set es. yearOf s e \<noteq> None"
  shows "List.map_filter (\<lambda>e. map_option (\<lambda>y. (e, f e y)) (yearOf s e)) (filter (\<lambda>e. R e \<and> P e) es) =
    map (\<lambda>e. (e, f e (the (yearOf s e)))) (filter (\<lambda>e. R e \<and> P e) es)"
  using assms by (induction es) (auto simp: List.map_filter_def)

lemma labels_of_year:
  assumes "\<forall>e \<in> set es. programOf s e \<noteq> None"
  shows "List.map_filter (\<lambda>e. map_option (\<lambda>p. (e, f e p)) (programOf s e)) (filter (\<lambda>e. R e \<and> P e) es) =
    map (\<lambda>e. (e, f e (the (programOf s e)))) (filter (\<lambda>e. R e \<and> P e) es)"
  using assms by (induction es) (auto simp: List.map_filter_def)

lemma refreshProgram_run:
  assumes "distinct (map enrollmentKey (enrollments s))" "\<forall>e \<in> set (enrollments s). yearOf s e \<noteq> None"
  shows "refreshProgramEnrollmentLabels i name s =
    (Inr (), s\<lparr>enrollments := map (labelled (\<lambda>e. e_programId e = i \<and> living s (e_studentId e))
       (\<lambda>e. enrollmentLabel name (e_programLevel e) (y_label (the (yearOf s e))))) (enrollments s)\<rparr>)"
  using relabel_run [OF assms(1), of "\<lambda>e. enrollmentLabel name (e_programLevel e) (y_label (the (yearOf s e)))"
      "\<lambda>e. e_programId e = i \<and> living s (e_studentId e)"]
  by (simp add: refreshProgramEnrollmentLabels_def bindE_run findMany_run asks_run
      labels_of_program [OF assms(2), of "\<lambda>e y. enrollmentLabel name (e_programLevel e) (y_label y)"])

lemma refreshYear_run:
  assumes "distinct (map enrollmentKey (enrollments s))" "\<forall>e \<in> set (enrollments s). programOf s e \<noteq> None"
  shows "refreshAcademicYearEnrollmentLabels i name s =
    (Inr (), s\<lparr>enrollments := map (labelled (\<lambda>e. e_academicYearId e = i \<and> living s (e_studentId e))
       (\<lambda>e. enrollmentLabel (pr_name (the (programOf s e))) (e_programLevel e) name)) (enrollments s)\<rparr>)"
  using relabel_run [OF assms(1), of "\<lambda>e. enrollmentLabel (pr_name (the (programOf s e))) (e_programLevel e) name"
      "\<lambda>e. e_academicYearId e = i \<and> living s (e_studentId e)"]
  by (simp add: refreshAcademicYearEnrollmentLabels_def bindE_run findMany_run asks_run
      labels_of_year [OF assms(2), of "\<lambda>e p. enrollmentLabel (pr_name p) (e_programLevel e) name"])

lemma assertDuration_run:
  "assertDuration p d s =
     (if case d of None \<Rightarrow> False | Some n \<Rightarrow> n \<noteq> 0 \<and> n < pr_durationYears p \<and>
           (\<exists>e \<in> set (enrollments s). tooHigh s (pr_id p) n e)
      then (Inl (BadRequest ''La duree ne peut pas etre inferieure au niveau d'un etudiant inscrit''), s)
      else (Inr (), s))"
  by (auto simp: assertDuration_def exec_simps list_ex_iff split: option.split)

lemma patchProgram_simps [simp]:
  "pr_id (patchProgram dto p) = pr_id p" "pr_schoolId (patchProgram dto p) = pr_schoolId p"
  by (simp_all add: patchProgram_def)

text \<open>The programme patched, before and after the labels are refreshed.\<close>

lemma patched_program_inv:
  assumes inv: "enrolmentInv s" and p: "find (\<lambda>p. pr_id p = i \<and> pr_schoolId p = schoolId) (programs s) = Some p"
    and dur: "gp_durationYears dto \<noteq> Some 0"
    and fits: "fst (assertDuration p (gp_durationYears dto) s) = Inr ()"
    and t: "t = s\<lparr>programs := update_rows (\<lambda>p. pr_id p = i) (patchProgram dto) (programs s),
                  enrollments := es\<rparr>"
    and es: "es = (if gp_name dto = None then enrollments s
      else map (labelled (\<lambda>e. e_programId e = i \<and> living s (e_studentId e))
             (\<lambda>e. enrollmentLabel (pr_name (patchProgram dto p)) (e_programLevel e) (y_label (the (yearOf s e)))))
             (enrollments s))"
  shows "enrolmentInv t"
proof -
  have pin: "p \<in> set (programs s)" "pr_id p = i" using find_Some_in [OF p] by auto
  have "map pr_id (programs t) = map pr_id (programs s)" "schoolYears t = schoolYears s" by (simp_all add: t)
  moreover have "map enrollmentKey (enrollments t) = map enrollmentKey (enrollments s)"
    by (simp add: t es comp_def)
  ultimately have "keysOk t" "oneCurrent t"
    using inv by (simp_all add: enrolmentInv_def keysOk_def oneCurrent_def)
  moreover have "enrolmentOk t e" if e: "e \<in> set (enrollments t)" for e
  proof -
    define Q where "Q e \<longleftrightarrow> gp_name dto \<noteq> None \<and> e_programId e = i \<and> living s (e_studentId e)" for e :: enrollment_row
    define L where "L e = enrollmentLabel (pr_name (patchProgram dto p)) (e_programLevel e) (y_label (the (yearOf s e)))" for e
    obtain e0 where e0: "e0 \<in> set (enrollments s)" "e = labelled Q L e0"
      using e by (auto simp: t es Q_def L_def labelled_def split: if_splits)
    then have ok: "enrolmentOk s e0" using inv by (simp add: enrolmentInv_def)
    obtain q y where q: "programOf s e0 = Some q" and y: "yearOf s e0 = Some y"
      and same: "pr_schoolId q = e_schoolId e0" "y_schoolId y = e_schoolId e0"
      and lab: "living s (e_studentId e0) \<Longrightarrow> e_enrolledYear e0 = enrollmentLabel (pr_name q) (e_programLevel e0) (y_label y)"
      and lev: "living s (e_studentId e0) \<Longrightarrow> e_status e0 = ACTIVE \<Longrightarrow> e_programLevel e0 \<le> pr_durationYears q"
      using enrolmentOkE [OF ok] by metis
    have fields: "e_programId e = e_programId e0" "e_academicYearId e = e_academicYearId e0"
      "e_studentId e = e_studentId e0" "e_schoolId e = e_schoolId e0" "e_status e = e_status e0"
      "e_programLevel e = e_programLevel e0" by (simp_all add: e0(2) labelled_def)
    have liv: "living t x = living s x" for x by (simp add: living_def t)
    have qid: "pr_id q = e_programId e0" "q \<in> set (programs s)" using find_Some_in [OF q [unfolded programOf_def]] by auto
    have "programOf t e = map_option (\<lambda>q. if pr_id q = i then patchProgram dto q else q) (programOf s e0)"
      unfolding programOf_def fields t by (simp add: find_update_rows)
    then have prog: "programOf t e = Some (if pr_id q = i then patchProgram dto q else q)" by (simp add: q)
    have year: "yearOf t e = Some y" using y by (simp add: yearOf_def t fields)
    have qp: "q = p" if "pr_id q = i"
      using inv pin qid(2) that by (auto simp: enrolmentInv_def keysOk_def intro: distinct_key_eq)
    show ?thesis
    proof (rule enrolmentOkI [OF prog year])
      assume "living t (e_studentId e)"
      then have l: "living s (e_studentId e0)" by (simp add: liv fields)
      show "e_enrolledYear e =
          enrollmentLabel (pr_name (if pr_id q = i then patchProgram dto q else q)) (e_programLevel e) (y_label y)"
      proof (cases "Q e0")
        case True
        then have "pr_id q = i" using qid by (simp add: Q_def)
        with True show ?thesis using qp by (simp add: e0(2) labelled_def L_def y)
      next
        case False
        then have "gp_name dto = None \<or> pr_id q \<noteq> i" using l qid by (auto simp: Q_def)
        with False show ?thesis using lab [OF l] by (auto simp: e0(2) labelled_def patchProgram_def)
      qed
      assume act: "e_status e = ACTIVE"
      then have le: "e_programLevel e0 \<le> pr_durationYears q" using lev l by (simp add: fields)
      show "e_programLevel e \<le> pr_durationYears (if pr_id q = i then patchProgram dto q else q)"
      proof (cases "pr_id q = i \<and> gp_durationYears dto \<noteq> None")
        case False
        then show ?thesis using le by (auto simp: fields patchProgram_def)
      next
        case True
        then obtain d where d: "gp_durationYears dto = Some d" "d \<noteq> 0" using dur by auto
        have "\<not> (d < pr_durationYears p \<and> tooHigh s (pr_id p) d e0)"
          using fits d e0(1) by (auto simp: assertDuration_run split: if_splits)
        moreover have "e_programId e0 = pr_id p" "e_status e0 = ACTIVE" using True qid pin act fields by simp_all
        ultimately have "e_programLevel e0 \<le> d" using l le qp True by (auto simp: tooHigh_def)
        with True d show ?thesis by (simp add: fields patchProgram_def)
      qed
    qed (use same fields in auto)
  qed
  ultimately show ?thesis by (simp add: enrolmentInv_def)
qed

lemma updateUnique_cases:
  "snd (updateUnique rows upd K P f s) = s \<or>
   snd (updateUnique rows upd K P f s) = upd (\<lambda>_. update_rows P f (rows s)) s"
  by (simp add: updateUnique_run)

lemma rows_joined:
  assumes "enrolmentInv s"
  shows "distinct (map enrollmentKey (enrollments s))" "\<forall>e \<in> set (enrollments s). yearOf s e \<noteq> None"
    "\<forall>e \<in> set (enrollments s). programOf s e \<noteq> None"
  using assms by (auto simp: enrolmentInv_def keysOk_def elim!: enrolmentOkE)

lemma updateProgram_inv:
  assumes "gp_durationYears dto \<noteq> Some 0"
  shows "steps (keeps enrolmentInv) (updateProgram schoolId i dto) s"
proof (rule stepsI)
  fix r t assume run: "updateProgram schoolId i dto s = (r, t)"
  show "keeps enrolmentInv s t"
    unfolding keeps_def
  proof
    assume inv: "enrolmentInv s"
    show "enrolmentInv t"
    proof (cases "find (\<lambda>p. pr_id p = i \<and> pr_schoolId p = schoolId) (programs s)")
      case None
      with run inv show ?thesis by (simp add: updateProgram_def bindE_run findOr_run)
    next
      case (Some p)
      show ?thesis
      proof (cases "fst (assertDuration p (gp_durationYears dto) s)")
        case (Inl e)
        moreover have "snd (assertDuration p (gp_durationYears dto) s) = s" by (simp add: assertDuration_run)
        ultimately have "assertDuration p (gp_durationYears dto) s = (Inl e, s)" by (metis prod.collapse)
        with run Some inv show ?thesis by (simp add: updateProgram_def bindE_run findOr_run thenE_run)
      next
        case (Inr u)
        moreover have "snd (assertDuration p (gp_durationYears dto) s) = s" by (simp add: assertDuration_run)
        ultimately have fits: "assertDuration p (gp_durationYears dto) s = (Inr (), s)" by (metis old.unit.exhaust prod.collapse)
        define ps where "ps = update_rows (\<lambda>p. pr_id p = i) (patchProgram dto) (programs s)"
        define s1 where "s1 = s\<lparr>programs := ps\<rparr>"
        have first: "thenE (assertDuration p (gp_durationYears dto)) k s = k s" for k :: "(db, program_row) exec"
          by (simp add: thenE_run fits)
        have rest: "updateProgram schoolId i dto s =
            thenE (updateUnique programs programs_update programClash (\<lambda>p. pr_id p = i) (patchProgram dto))
              (thenE (whenE (gp_name dto \<noteq> None) (refreshProgramEnrollmentLabels i (pr_name (patchProgram dto p))))
                 (ret (patchProgram dto p))) s"
          unfolding updateProgram_def bindE_run findOr_run Some option.case prod.case sum.case first Let_def ..
        show ?thesis
        proof (cases "sorted_wrt (\<lambda>a b. \<not> programClash a b) ps")
          case False
          with run inv show ?thesis unfolding rest by (simp add: thenE_run updateUnique_run ps_def)
        next
          case True
          have t: "t = s\<lparr>programs := ps, enrollments := (if gp_name dto = None then enrollments s
             else map (labelled (\<lambda>e. e_programId e = i \<and> living s (e_studentId e))
                    (\<lambda>e. enrollmentLabel (pr_name (patchProgram dto p)) (e_programLevel e) (y_label (the (yearOf s e)))))
                    (enrollments s))\<rparr>"
          proof (cases "gp_name dto")
            case None
            with run True show ?thesis unfolding rest
              by (auto simp: thenE_run updateUnique_run ps_def whenE_run ret_run)
          next
            case (Some n)
            have same: "living s1 = living s" "yearOf s1 = yearOf s" "enrollments s1 = enrollments s"
              by (simp_all add: s1_def living_def yearOf_def fun_eq_iff)
            have "refreshProgramEnrollmentLabels i (pr_name (patchProgram dto p)) s1 =
              (Inr (), s1\<lparr>enrollments := map (labelled (\<lambda>e. e_programId e = i \<and> living s (e_studentId e))
                (\<lambda>e. enrollmentLabel (pr_name (patchProgram dto p)) (e_programLevel e) (y_label (the (yearOf s e)))))
                (enrollments s)\<rparr>)"
              using refreshProgram_run [of s1] rows_joined [OF inv] by (simp add: same)
            with run True Some show ?thesis unfolding rest
              by (simp add: thenE_run updateUnique_run whenE_run ret_run s1_def flip: ps_def)
          qed
          show ?thesis
            by (rule patched_program_inv [OF inv Some assms _ t [unfolded ps_def] refl]) (simp add: fits)
        qed
      qed
    qed
  qed
qed

subsection \<open>Years\<close>

lemma patchYear_simps [simp]:
  "y_id (patchYear dto y) = y_id y" "y_schoolId (patchYear dto y) = y_schoolId y"
  by (simp_all add: patchYear_def)

lemma clearCurrent_run:
  "clearCurrent P s =
     (Inr (), s\<lparr>schoolYears := update_rows (\<lambda>y. y_isCurrent y \<and> P y) (\<lambda>y. y\<lparr>y_isCurrent := False\<rparr>) (schoolYears s)\<rparr>)"
  by (simp add: clearCurrent_def exec_simps)

text \<open>A change of the years that keeps identifiers, schools and labels keeps the registrations.\<close>

lemma years_changed:
  assumes inv: "enrolmentInv s" and t: "t = s\<lparr>schoolYears := ys, seqNo := n\<rparr>"
    and one: "oneCurrent t" and keys: "distinct (map y_id ys)"
    and same: "\<And>i y. find (\<lambda>y. y_id y = i) (schoolYears s) = Some y \<Longrightarrow>
      \<exists>y'. find (\<lambda>y. y_id y = i) ys = Some y' \<and> y_schoolId y' = y_schoolId y \<and> y_label y' = y_label y"
  shows "enrolmentInv t"
proof -
  have "keysOk t" using inv keys by (simp add: t enrolmentInv_def keysOk_def)
  moreover have "enrolmentOk t e" if "e \<in> set (enrollments t)" for e
  proof -
    have "enrolmentOk s e" using inv that by (simp add: t enrolmentInv_def)
    then obtain p y where p: "programOf s e = Some p" "yearOf s e = Some y"
      "pr_schoolId p = e_schoolId e" "y_schoolId y = e_schoolId e"
      "living s (e_studentId e) \<Longrightarrow> e_enrolledYear e = enrollmentLabel (pr_name p) (e_programLevel e) (y_label y)"
      "living s (e_studentId e) \<Longrightarrow> e_status e = ACTIVE \<Longrightarrow> e_programLevel e \<le> pr_durationYears p"
      using enrolmentOkE by metis
    obtain y' where y': "yearOf t e = Some y'" "y_schoolId y' = y_schoolId y" "y_label y' = y_label y"
      using same p(2) by (auto simp: yearOf_def t)
    have "living t = living s" "programOf t e = programOf s e"
      by (simp_all add: living_def programOf_def t fun_eq_iff)
    with p y' show ?thesis by (intro enrolmentOkI [of t e p y']) simp_all
  qed
  ultimately show ?thesis using one by (simp add: enrolmentInv_def)
qed

lemma createAcademicYear_inv: "steps (keeps enrolmentInv) (createAcademicYear uuid schoolId dto) s"
proof (rule stepsI)
  fix r t assume run: "createAcademicYear uuid schoolId dto s = (r, t)"
  show "keeps enrolmentInv s t"
    unfolding keeps_def
  proof
    assume inv: "enrolmentInv s"
    define y where "y = \<lparr>y_id = uuid (seqNo s), y_schoolId = schoolId, y_label = trim (yd_label dto),
           y_isCurrent = nullish (yd_isCurrent dto) False,
           y_enrollmentOpensAt = yd_enrollmentOpensAt dto, y_enrollmentClosesAt = yd_enrollmentClosesAt dto\<rparr>"
    define ys where "ys = (if yd_isCurrent dto = Some True
        then update_rows (\<lambda>y. y_isCurrent y \<and> y_schoolId y = schoolId) (\<lambda>y. y\<lparr>y_isCurrent := False\<rparr>) (schoolYears s)
        else schoolYears s)"
    show "enrolmentInv t"
    proof (cases "r")
      case (Inl e)
      with run have "t = s" by (auto simp: createAcademicYear_def thenE_run assertEnrollmentPeriod_def require_run
          transact_run split: prod.splits sum.splits if_splits)
      with inv show ?thesis by simp
    next
      case (Inr x)
      with run have t: "t = s\<lparr>schoolYears := ys @ [y], seqNo := Suc (seqNo s)\<rparr>"
        and fresh: "\<not> (\<exists>x \<in> set ys. yearClash x y)"
        by (auto simp: createAcademicYear_def thenE_run assertEnrollmentPeriod_def require_run transact_run
          whenE_run clearCurrent_run bindE_run newId_run insertRow_run ys_def y_def split: if_splits)
      have ids: "map y_id ys = map y_id (schoolYears s)" by (simp add: ys_def)
      have "count_rows (\<lambda>y. y_schoolId y = sc \<and> y_isCurrent y) (ys @ [y]) \<le> 1" for sc
      proof (cases "yd_isCurrent dto = Some True \<and> sc = schoolId")
        case True
        have "\<not> (y_schoolId z = sc \<and> y_isCurrent z)" if "z \<in> set ys" for z
          using that True by (auto simp: ys_def elim!: in_update_rowsE split: if_splits)
        then have "count_rows (\<lambda>y. y_schoolId y = sc \<and> y_isCurrent y) ys = 0" by (simp add: count_rows_0)
        then show ?thesis by simp
      next
        case False
        have "count_rows (\<lambda>y. y_schoolId y = sc \<and> y_isCurrent y) ys \<le>
            count_rows (\<lambda>y. y_schoolId y = sc \<and> y_isCurrent y) (schoolYears s)"
          unfolding ys_def by (auto intro: count_update_le split: if_splits)
        moreover have "\<not> (y_schoolId y = sc \<and> y_isCurrent y)"
          using False by (cases "yd_isCurrent dto") (auto simp: y_def)
        ultimately show ?thesis using inv by (simp add: enrolmentInv_def oneCurrent_def) (meson le_trans)
      qed
      then have "oneCurrent t" by (simp add: oneCurrent_def t)
      moreover have "distinct (map y_id (ys @ [y]))"
      proof -
        have "y_id y \<notin> set (map y_id ys)" using fresh by (auto simp: yearClash_def)
        then show ?thesis using inv ids by (simp add: enrolmentInv_def keysOk_def)
      qed
      moreover have "\<exists>y'. find (\<lambda>y. y_id y = i) (ys @ [y]) = Some y' \<and> y_schoolId y' = y_schoolId z \<and> y_label y' = y_label z"
        if "find (\<lambda>y. y_id y = i) (schoolYears s) = Some z" for i z
        using that by (auto simp: ys_def find_append find_update_rows)
      ultimately show ?thesis by (rule years_changed [OF inv t])
    qed
  qed
qed

lemma patched_year_inv:
  assumes inv: "enrolmentInv s" and y: "find (\<lambda>y. y_id y = i \<and> y_schoolId y = schoolId) (schoolYears s) = Some y"
    and ys1: "ys1 = (if yp_isCurrent dto = Some True
        then update_rows (\<lambda>y. y_isCurrent y \<and> y_schoolId y = schoolId \<and> y_id y \<noteq> i)
               (\<lambda>y. y\<lparr>y_isCurrent := False\<rparr>) (schoolYears s)
        else schoolYears s)"
    and t: "t = s\<lparr>schoolYears := update_rows (\<lambda>y. y_id y = i) (patchYear dto) ys1, enrollments := es\<rparr>"
    and es: "es = (if yp_label dto = None then enrollments s
      else map (labelled (\<lambda>e. e_academicYearId e = i \<and> living s (e_studentId e))
             (\<lambda>e. enrollmentLabel (pr_name (the (programOf s e))) (e_programLevel e) (y_label (patchYear dto y))))
             (enrollments s))"
  shows "enrolmentInv t"
proof -
  define ys where "ys = update_rows (\<lambda>y. y_id y = i) (patchYear dto) ys1"
  have yin: "y \<in> set (schoolYears s)" "y_id y = i" "y_schoolId y = schoolId" using find_Some_in [OF y] by auto
  have dis: "distinct (map y_id (schoolYears s))" using inv by (simp add: enrolmentInv_def keysOk_def)
  have unique: "z = y" if "z \<in> set (schoolYears s)" "y_id z = i" for z
    using distinct_key_eq [OF dis that(1) yin(1)] that yin by simp
  have ids1: "map y_id ys1 = map y_id (schoolYears s)" by (simp add: ys1)
  have ids: "map y_id ys = map y_id (schoolYears s)" by (simp add: ys_def ids1)
  have school1: "y_schoolId z = schoolId" if "z \<in> set ys1" "y_id z = i" for z
  proof -
    have "(y_id z, y_schoolId z) \<in> set (map (\<lambda>y. (y_id y, y_schoolId y)) ys1)" using that(1) by simp
    also have "map (\<lambda>y. (y_id y, y_schoolId y)) ys1 = map (\<lambda>y. (y_id y, y_schoolId y)) (schoolYears s)"
      by (simp add: ys1)
    finally obtain z0 where "z0 \<in> set (schoolYears s)" "y_id z0 = y_id z" "y_schoolId z0 = y_schoolId z"
      by auto
    with unique [of z0] that(2) yin(3) show ?thesis by simp
  qed
  have cleared: "\<not> (y_schoolId z = schoolId \<and> y_id z \<noteq> i \<and> y_isCurrent z)"
    if "z \<in> set ys1" "yp_isCurrent dto = Some True" for z
    using that by (auto simp: ys1 elim!: in_update_rowsE split: if_splits)
  have "count_rows (\<lambda>y. y_schoolId y = sc \<and> y_isCurrent y) ys \<le> 1" for sc
  proof (cases "sc = schoolId \<and> yp_isCurrent dto = Some True")
    case True
    have "count_rows (\<lambda>y. y_schoolId y = sc \<and> y_isCurrent y) ys \<le> count_rows (\<lambda>y. y_id y = i) ys1"
      unfolding ys_def
    proof (rule count_update_le)
      fix x assume "x \<in> set ys1" and
        q: "y_schoolId (if y_id x = i then patchYear dto x else x) = sc \<and> y_isCurrent (if y_id x = i then patchYear dto x else x)"
      show "y_id x = i"
      proof (rule ccontr)
        assume "y_id x \<noteq> i"
        with q True have "y_schoolId x = schoolId \<and> y_id x \<noteq> i \<and> y_isCurrent x" by simp
        with cleared [OF \<open>x \<in> set ys1\<close>] True show False by simp
      qed
    qed
    also have "\<dots> \<le> 1" using dis ids1 by (intro count_key_le_1) simp
    finally show ?thesis .
  next
    case False
    have "count_rows (\<lambda>y. y_schoolId y = sc \<and> y_isCurrent y) ys \<le> count_rows (\<lambda>y. y_schoolId y = sc \<and> y_isCurrent y) ys1"
      unfolding ys_def
    proof (rule count_update_le)
      fix x assume x: "x \<in> set ys1" and
        q: "y_schoolId (if y_id x = i then patchYear dto x else x) = sc \<and> y_isCurrent (if y_id x = i then patchYear dto x else x)"
      show "y_schoolId x = sc \<and> y_isCurrent x"
      proof (cases "y_id x = i")
        case True
        then have "sc = schoolId" using q school1 [OF x True] by simp
        then have "yp_isCurrent dto \<noteq> Some True" using False by simp
        then show ?thesis using q True by (cases "yp_isCurrent dto") (auto simp: patchYear_def)
      qed (use q in auto)
    qed
    also have "\<dots> \<le> count_rows (\<lambda>y. y_schoolId y = sc \<and> y_isCurrent y) (schoolYears s)"
      unfolding ys1 by (auto intro: count_update_le split: if_splits)
    finally show ?thesis using inv by (simp add: enrolmentInv_def oneCurrent_def) (meson le_trans)
  qed
  then have "oneCurrent t" by (simp add: oneCurrent_def t ys_def)
  moreover have "keysOk t"
  proof -
    have "map enrollmentKey es = map enrollmentKey (enrollments s)" by (simp add: es comp_def)
    then show ?thesis using inv ids by (simp add: t enrolmentInv_def keysOk_def flip: ys_def)
  qed
  moreover have "enrolmentOk t e" if e: "e \<in> set (enrollments t)" for e
  proof -
    define Q where "Q e \<longleftrightarrow> yp_label dto \<noteq> None \<and> e_academicYearId e = i \<and> living s (e_studentId e)" for e :: enrollment_row
    define L where "L e = enrollmentLabel (pr_name (the (programOf s e))) (e_programLevel e) (y_label (patchYear dto y))" for e
    obtain e0 where e0: "e0 \<in> set (enrollments s)" "e = labelled Q L e0"
      using e by (auto simp: t es Q_def L_def labelled_def split: if_splits)
    then have ok: "enrolmentOk s e0" using inv by (simp add: enrolmentInv_def)
    obtain p z where p: "programOf s e0 = Some p" and z: "yearOf s e0 = Some z"
      and same: "pr_schoolId p = e_schoolId e0" "y_schoolId z = e_schoolId e0"
      and lab: "living s (e_studentId e0) \<Longrightarrow> e_enrolledYear e0 = enrollmentLabel (pr_name p) (e_programLevel e0) (y_label z)"
      and lev: "living s (e_studentId e0) \<Longrightarrow> e_status e0 = ACTIVE \<Longrightarrow> e_programLevel e0 \<le> pr_durationYears p"
      using enrolmentOkE [OF ok] by metis
    have fields: "e_programId e = e_programId e0" "e_academicYearId e = e_academicYearId e0"
      "e_studentId e = e_studentId e0" "e_schoolId e = e_schoolId e0" "e_status e = e_status e0"
      "e_programLevel e = e_programLevel e0" by (simp_all add: e0(2) labelled_def)
    have liv: "living t x = living s x" for x by (simp add: living_def t)
    have zid: "y_id z = e_academicYearId e0" "z \<in> set (schoolYears s)"
      using find_Some_in [OF z [unfolded yearOf_def]] by auto
    have prog: "programOf t e = Some p" using p by (simp add: programOf_def t fields)
    have "\<exists>z1. find (\<lambda>y. y_id y = e_academicYearId e0) ys1 = Some z1 \<and> y_id z1 = y_id z \<and>
        y_schoolId z1 = y_schoolId z \<and> y_label z1 = y_label z"
      using z by (auto simp: ys1 yearOf_def find_update_rows)
    then obtain z1 where z1: "find (\<lambda>y. y_id y = e_academicYearId e0) ys1 = Some z1" "y_id z1 = y_id z"
      "y_schoolId z1 = y_schoolId z" "y_label z1 = y_label z" by blast
    have year: "yearOf t e = Some (if y_id z = i then patchYear dto z1 else z1)"
      using z1 by (simp add: yearOf_def fields t find_update_rows)
    have zy: "z = y" if "y_id z = i" using unique [OF zid(2) that] .
    show ?thesis
    proof (rule enrolmentOkI [OF prog year])
      assume "living t (e_studentId e)"
      then have l: "living s (e_studentId e0)" by (simp add: liv fields)
      show "e_enrolledYear e =
          enrollmentLabel (pr_name p) (e_programLevel e) (y_label (if y_id z = i then patchYear dto z1 else z1))"
      proof (cases "Q e0")
        case True
        then have "y_id z = i" using zid by (simp add: Q_def)
        with True zy z1 show ?thesis by (simp add: e0(2) labelled_def L_def p patchYear_def Q_def)
      next
        case False
        then have "yp_label dto = None \<or> y_id z \<noteq> i" using l zid by (auto simp: Q_def)
        with False show ?thesis using lab [OF l] z1 by (auto simp: e0(2) labelled_def patchYear_def)
      qed
      assume "e_status e = ACTIVE"
      then show "e_programLevel e \<le> pr_durationYears p" using lev l by (simp add: fields)
    qed (use same z1 fields in auto)
  qed
  ultimately show ?thesis by (simp add: enrolmentInv_def)
qed

lemma updateAcademicYear_inv: "steps (keeps enrolmentInv) (updateAcademicYear schoolId i dto) s"
proof (rule stepsI)
  fix r t assume run: "updateAcademicYear schoolId i dto s = (r, t)"
  show "keeps enrolmentInv s t"
    unfolding keeps_def
  proof
    assume inv: "enrolmentInv s"
    show "enrolmentInv t"
    proof (cases "find (\<lambda>y. y_id y = i \<and> y_schoolId y = schoolId) (schoolYears s)")
      case None
      with run inv show ?thesis by (simp add: updateAcademicYear_def bindE_run findOr_run)
    next
      case (Some y)
      define period where "period = assertEnrollmentPeriod
              (nullish (yp_enrollmentOpensAt dto) (y_enrollmentOpensAt y))
              (nullish (yp_enrollmentClosesAt dto) (y_enrollmentClosesAt y))"
      define ys1 where "ys1 = (if yp_isCurrent dto = Some True
        then update_rows (\<lambda>y. y_isCurrent y \<and> y_schoolId y = schoolId \<and> y_id y \<noteq> i)
               (\<lambda>y. y\<lparr>y_isCurrent := False\<rparr>) (schoolYears s)
        else schoolYears s)"
      define ys where "ys = update_rows (\<lambda>y. y_id y = i) (patchYear dto) ys1"
      have wr: "writeYear schoolId i dto s = (if sorted_wrt (\<lambda>a b. \<not> yearClash a b) ys
          then (Inr (), s\<lparr>schoolYears := ys\<rparr>) else (Inl (Failure ''P2002''), s))"
        by (simp add: writeYear_def transact_run thenE_run whenE_run clearCurrent_run updateUnique_run ys_def ys1_def)
      have rest: "updateAcademicYear schoolId i dto s =
          thenE period (thenE (writeYear schoolId i dto)
            (thenE (whenE (yp_label dto \<noteq> None) (refreshAcademicYearEnrollmentLabels i (y_label (patchYear dto y))))
               (ret (patchYear dto y)))) s"
        unfolding updateAcademicYear_def bindE_run findOr_run Some option.case prod.case sum.case Let_def period_def ..
      have "period s = (Inr (), s) \<or> (\<exists>e. period s = (Inl e, s))"
        by (simp add: period_def assertEnrollmentPeriod_def require_run)
      then consider "period s = (Inr (), s)" | e where "period s = (Inl e, s)" by blast
      then show ?thesis
      proof cases
        case (2 e)
        with run inv show ?thesis unfolding rest by (simp add: thenE_run)
      next
        case 1
        show ?thesis
        proof (cases "sorted_wrt (\<lambda>a b. \<not> yearClash a b) ys")
          case False
          with run inv 1 show ?thesis unfolding rest by (simp add: thenE_run wr)
        next
          case True
          define s1 where "s1 = s\<lparr>schoolYears := ys\<rparr>"
          have "t = s\<lparr>schoolYears := ys, enrollments := (if yp_label dto = None then enrollments s
             else map (labelled (\<lambda>e. e_academicYearId e = i \<and> living s (e_studentId e))
               (\<lambda>e. enrollmentLabel (pr_name (the (programOf s e))) (e_programLevel e) (y_label (patchYear dto y))))
               (enrollments s))\<rparr>"
          proof (cases "yp_label dto")
            case None
            with run True 1 show ?thesis unfolding rest by (auto simp: thenE_run wr whenE_run ret_run)
          next
            case (Some n)
            have same: "living s1 = living s" "programOf s1 = programOf s" "enrollments s1 = enrollments s"
              by (simp_all add: s1_def living_def programOf_def fun_eq_iff)
            have "refreshAcademicYearEnrollmentLabels i (y_label (patchYear dto y)) s1 =
              (Inr (), s1\<lparr>enrollments := map (labelled (\<lambda>e. e_academicYearId e = i \<and> living s (e_studentId e))
                (\<lambda>e. enrollmentLabel (pr_name (the (programOf s e))) (e_programLevel e) (y_label (patchYear dto y))))
                (enrollments s)\<rparr>)"
              using refreshYear_run [of s1] rows_joined [OF inv] by (simp add: same)
            with run True 1 Some show ?thesis unfolding rest
              by (simp add: thenE_run wr whenE_run ret_run s1_def)
          qed
          then show ?thesis unfolding ys_def by (rule patched_year_inv [OF inv Some ys1_def]) simp
        qed
      qed
    qed
  qed
qed

subsection \<open>Registrations\<close>

lemma enrollments_changed:
  assumes inv: "enrolmentInv s" and t: "programs t = programs s" "schoolYears t = schoolYears s" "students t = students s"
    and keys: "distinct (map enrollmentKey (enrollments t))"
    and ok: "\<And>e. e \<in> set (enrollments t) \<Longrightarrow> e \<in> set (enrollments s) \<or> enrolmentOk s e"
  shows "enrolmentInv t"
  using inv keys ok
  by (auto simp: enrolmentInv_def keysOk_def oneCurrent_def t enrolmentOk_cong [OF t])

lemma registration_ok:
  assumes "enrolmentInv s" "p \<in> set (programs s)" "y \<in> set (schoolYears s)"
    "pr_schoolId p = e_schoolId e" "y_schoolId y = e_schoolId e"
    "e_programId e = pr_id p" "e_academicYearId e = y_id y" "e_programLevel e \<le> pr_durationYears p"
    "e_enrolledYear e = enrollmentLabel (pr_name p) (e_programLevel e) (y_label y)"
  shows "enrolmentOk s e"
proof (rule enrolmentOkI)
  show "programOf s e = Some p"
    using assms find_key [of pr_id "programs s" p] by (simp add: programOf_def enrolmentInv_def keysOk_def)
  show "yearOf s e = Some y"
    using assms find_key [of y_id "schoolYears s" y] by (simp add: yearOf_def enrolmentInv_def keysOk_def)
qed (use assms in auto)

lemma register_inv:
  assumes inv: "enrolmentInv s" and p: "p \<in> set (programs s)" "y \<in> set (schoolYears s)"
    "pr_schoolId p = school" "y_schoolId y = school" "level \<le> pr_durationYears p"
  shows "registerIn sid school p level y s = (Inr (), t) \<Longrightarrow> enrolmentInv t"
proof -
  define f :: "enrollment_row \<Rightarrow> enrollment_row" where "f = reactivate p level y"
  define e1 where "e1 = \<lparr>e_studentId = sid, e_schoolId = school, e_programId = pr_id p,
        e_programLevel = level, e_academicYearId = y_id y,
        e_enrolledYear = enrollmentLabel (pr_name p) level (y_label y), e_status = ACTIVE\<rparr>"
  define P where "P = (\<lambda>e :: enrollment_row. e_studentId e = sid \<and> e_schoolId e = school)"
  assume run: "registerIn sid school p level y s = (Inr (), t)"
  have key: "enrollmentKey (f e) = enrollmentKey e" for e by (simp add: f_def reactivate_def enrollmentKey_def)
  have new: "enrolmentOk s e1" using p by (intro registration_ok [OF inv p(1,2)]) (simp_all add: e1_def)
  have upd: "enrolmentOk s (f e)" if "P e" for e
    using p that by (intro registration_ok [OF inv p(1,2)]) (simp_all add: f_def reactivate_def P_def)
  have "t = s\<lparr>enrollments := update_rows P f (enrollments s)\<rparr> \<or>
      (t = s\<lparr>enrollments := enrollments s @ [e1]\<rparr> \<and> (\<forall>e \<in> set (enrollments s). \<not> P e))"
  proof -
    have "registerIn sid school p level y = upsertRow enrollments enrollments_update P f e1"
      unfolding registerIn_def P_def f_def e1_def reactivate_def [abs_def] ..
    with run show ?thesis by (auto simp: upsertRow_run split: if_splits)
  qed
  then show "enrolmentInv t"
  proof
    assume t: "t = s\<lparr>enrollments := update_rows P f (enrollments s)\<rparr>"
    show ?thesis
    proof (rule enrollments_changed [OF inv])
      show "distinct (map enrollmentKey (enrollments t))"
        using inv by (simp add: t key enrolmentInv_def keysOk_def)
    qed (auto simp: t upd elim!: in_update_rowsE)
  next
    assume t: "t = s\<lparr>enrollments := enrollments s @ [e1]\<rparr> \<and> (\<forall>e \<in> set (enrollments s). \<not> P e)"
    then have "enrollmentKey e1 \<notin> set (map enrollmentKey (enrollments s))"
      by (auto simp: e1_def P_def enrollmentKey_def)
    with t new show ?thesis
      using inv by (intro enrollments_changed [OF inv]) (auto simp: enrolmentInv_def keysOk_def)
  qed
qed

lemma register_ok: "fst (registerIn sid school p level y s) = Inr ()"
  by (simp add: registerIn_def upsertRow_run)

lemma sync_inv: "enrolmentInv t \<Longrightarrow> enrolmentInv (snd (syncCourseEnrollments sid school p l tx t))"
  using enrolmentInv_cong [of "t\<lparr>courseEnrollments := synced t sid school p l\<rparr>" t]
  by (simp add: syncCourseEnrollments_run)

lemma enrollStudent_cases:
  obtains "\<exists>e. enrollStudent localeDate now schoolId dto s = (Inl e, s)"
  | student y p where "studentAccount (ed_email dto) s = Some student"
    "find (\<lambda>y. y_id y = ed_academicYearId dto \<and> y_schoolId y = schoolId) (schoolYears s) = Some y"
    "find (\<lambda>p. pr_id p = ed_programId dto \<and> pr_schoolId p = schoolId \<and> pr_isActive p) (programs s) = Some p"
    "y_enrollmentOpensAt y \<le> now" "now \<le> y_enrollmentClosesAt y" "ed_level dto \<le> pr_durationYears p"
    "enrollStudent localeDate now schoolId dto s =
       (Inr student, snd (syncCourseEnrollments (st_id student) schoolId (pr_id p) (ed_level dto) False
                            (snd (registerIn (st_id student) schoolId p (ed_level dto) y s))))"
proof (cases "studentAccount (ed_email dto) s")
  case None
  show thesis by (rule that(1)) (simp add: enrollStudent_def bindE_run asks_run orThrow_run None)
next
  case (Some student)
  note account = this
  show thesis
  proof (cases "find (\<lambda>y. y_id y = ed_academicYearId dto \<and> y_schoolId y = schoolId) (schoolYears s)")
    case None
    show thesis
      by (rule that(1)) (simp add: enrollStudent_def bindE_run asks_run orThrow_run account findOr_run None)
  next
    case (Some y)
    note year = this
    show thesis
    proof (cases "now < y_enrollmentOpensAt y \<or> y_enrollmentClosesAt y < now")
      case True
      show thesis by (rule that(1))
        (simp only: enrollStudent_def bindE_run asks_run orThrow_run account findOr_run year thenE_run require_run
           True option.case prod.case sum.case if_False simp_thms prod.inject sum.inject)
    next
      case False
      note opened = this
      show thesis
      proof (cases "find (\<lambda>p. pr_id p = ed_programId dto \<and> pr_schoolId p = schoolId \<and> pr_isActive p) (programs s)")
        case None
        show thesis by (rule that(1))
          (simp add: enrollStudent_def bindE_run asks_run orThrow_run account findOr_run year thenE_run require_run
             opened None)
      next
        case (Some p)
        note prog = this
        show thesis
        proof (cases "pr_durationYears p < ed_level dto")
          case True
          show thesis by (rule that(1))
            (simp add: enrollStudent_def bindE_run asks_run orThrow_run account findOr_run year thenE_run require_run
               opened prog True)
        next
          case False
          obtain s1 where reg: "registerIn (st_id student) schoolId p (ed_level dto) y s = (Inr (), s1)"
            using register_ok by (metis prod.collapse)
          have run: "enrollStudent localeDate now schoolId dto s =
              (Inr student, snd (syncCourseEnrollments (st_id student) schoolId (pr_id p) (ed_level dto) False s1))"
            by (simp add: enrollStudent_def bindE_run asks_run orThrow_run account findOr_run year thenE_run
                require_run opened prog False reg syncCourseEnrollments_run ret_run)
          show thesis
            by (rule that(2) [OF account year prog]) (use opened False run in \<open>simp_all add: reg\<close>)
        qed
      qed
    qed
  qed
qed

lemma enrollStudent_inv: "steps (keeps enrolmentInv) (enrollStudent localeDate now schoolId dto) s"
  unfolding steps_def keeps_def
proof
  assume inv: "enrolmentInv s"
  show "enrolmentInv (snd (enrollStudent localeDate now schoolId dto s))"
  proof (cases rule: enrollStudent_cases [of localeDate now schoolId dto s])
    case 1
    with inv show ?thesis by auto
  next
    case (2 student y p)
    obtain s1 where reg: "registerIn (st_id student) schoolId p (ed_level dto) y s = (Inr (), s1)"
      using register_ok by (metis prod.collapse)
    have "enrolmentInv s1"
      using find_Some_in [OF 2(2)] find_Some_in [OF 2(3)] 2(6) by (intro register_inv [OF inv _ _ _ _ _ reg]) auto
    with 2(7) show ?thesis by (simp add: reg sync_inv)
  qed
qed

lemma updateEnrollment_inv: "steps (keeps enrolmentInv) (updateEnrollment schoolId studentId data) s"
  unfolding steps_def keeps_def
proof
  assume inv: "enrolmentInv s"
  have change: "enrolmentInv (s\<lparr>enrollments := update_rows (sameEnrollment e0) f (enrollments s)\<rparr>)"
    if "\<And>e. e \<in> set (enrollments s) \<Longrightarrow> sameEnrollment e0 e \<Longrightarrow> enrollmentKey (f e) = enrollmentKey e \<and> enrolmentOk s (f e)"
    for e0 and f :: "enrollment_row \<Rightarrow> enrollment_row"
  proof (rule enrollments_changed [OF inv])
    have "map enrollmentKey (update_rows (sameEnrollment e0) f (enrollments s)) = map enrollmentKey (enrollments s)"
      using that by (simp add: update_rows_def)
    then show "distinct (map enrollmentKey (enrollments (s\<lparr>enrollments := update_rows (sameEnrollment e0) f (enrollments s)\<rparr>)))"
      using inv by (simp add: enrolmentInv_def keysOk_def)
  qed (auto simp: that elim!: in_update_rowsE)
  define found where "found = find (\<lambda>e. e_studentId e = studentId \<and> e_schoolId e = schoolId) (enrollments s)"
  show "enrolmentInv (snd (updateEnrollment schoolId studentId data s))"
  proof (cases "if living s studentId then found else None")
    case None
    then show ?thesis using inv
      by (simp add: updateEnrollment_def bindE_run findFirst_run asks_run orThrow_run flip: found_def)
  next
    case (Some e0)
    then have e0: "e0 \<in> set (enrollments s)" "e_studentId e0 = studentId" "e_schoolId e0 = schoolId"
      using find_Some_in [of _ "enrollments s" e0] by (auto simp: found_def split: if_splits)
    have only: "e = e0" if "e \<in> set (enrollments s)" "sameEnrollment e0 e" for e
      using inv that e0 by (auto simp: enrolmentInv_def keysOk_def sameEnrollment_key intro: distinct_key_eq)
    have row: "find (sameEnrollment e0) (enrollments s) = Some e0"
      using inv e0(1) find_key [of enrollmentKey "enrollments s" e0]
      by (simp add: enrolmentInv_def keysOk_def sameEnrollment_key [abs_def] eq_commute)
    have ok: "enrolmentOk s e0" using inv e0(1) by (simp add: enrolmentInv_def)
    define programId where "programId = nullish (ep_programId data) (e_programId e0)"
    define academicYearId where "academicYearId = nullish (ep_academicYearId data) (e_academicYearId e0)"
    define level where "level = nullish (ep_level data) (e_programLevel e0)"
    show ?thesis
    proof (cases "ep_status data = ACTIVE")
      case False
      have "updateEnrollment schoolId studentId data s = (Inr (e0\<lparr>e_status := ep_status data\<rparr>),
          s\<lparr>enrollments := update_rows (sameEnrollment e0) (\<lambda>e. e\<lparr>e_status := ep_status data\<rparr>) (enrollments s)\<rparr>)"
        using Some False
        by (simp add: updateEnrollment_def bindE_run findFirst_run asks_run orThrow_run updateOne_run row flip: found_def)
      moreover have "enrolmentOk s (e0\<lparr>e_status := ep_status data\<rparr>)"
        using ok False by (auto simp: enrolmentOk_def programOf_def yearOf_def split: option.splits)
      ultimately show ?thesis using change [of e0 "\<lambda>e. e\<lparr>e_status := ep_status data\<rparr>"] only
        by (auto simp: enrollmentKey_def)
    next
      case True
      define prog where "prog = find (\<lambda>p. pr_id p = programId \<and> pr_schoolId p = schoolId) (programs s)"
      define year where "year = find (\<lambda>y. y_id y = academicYearId \<and> y_schoolId y = schoolId) (schoolYears s)"
      have rest: "updateEnrollment schoolId studentId data s =
         (case (prog, year) of
          (Some p, Some y) \<Rightarrow>
            thenE (require (level \<noteq> 0 \<and> \<not> pr_durationYears p < level)
                     (BadRequest ''Filiere, niveau ou annee academique invalide''))
            (bindE (updateOne enrollments enrollments_update (sameEnrollment e0) (reactivate p level y))
               (\<lambda>updatedEnrollment.
             thenE (syncCourseEnrollments studentId schoolId (pr_id p) level False)
             (ret updatedEnrollment))) s
        | _ \<Rightarrow> (Inl (BadRequest ''Filiere, niveau ou annee academique invalide''), s))"
        using Some True
        by (simp add: updateEnrollment_def bindE_run [where s = s] findFirst_run asks_run orThrow_run throw_run Let_def
            split: option.split
            flip: found_def programId_def academicYearId_def level_def prog_def year_def)
      show ?thesis
      proof (cases "prog = None \<or> year = None")
        case True
        with inv show ?thesis unfolding rest by (auto split: option.split)
      next
        case False
        then obtain p y where py: "prog = Some p" "year = Some y" by auto
        have p: "p \<in> set (programs s)" "pr_schoolId p = schoolId" using find_Some_in [OF py(1) [unfolded prog_def]] by auto
        have y: "y \<in> set (schoolYears s)" "y_schoolId y = schoolId" using find_Some_in [OF py(2) [unfolded year_def]] by auto
        show ?thesis
        proof (cases "level \<noteq> 0 \<and> \<not> pr_durationYears p < level")
          case False
          with inv show ?thesis unfolding rest py by (auto simp: thenE_run require_run)
        next
          case True
          have "enrolmentOk s (reactivate p level y e0)"
            using p y True e0 by (intro registration_ok [OF inv p(1) y(1)]) (simp_all add: reactivate_def)
          then have inv1: "enrolmentInv (s\<lparr>enrollments := update_rows (sameEnrollment e0) (reactivate p level y) (enrollments s)\<rparr>)"
            using only by (intro change) (auto simp: enrollmentKey_def reactivate_def)
          have "snd (updateEnrollment schoolId studentId data s) = snd (syncCourseEnrollments studentId schoolId (pr_id p) level False
              (s\<lparr>enrollments := update_rows (sameEnrollment e0) (reactivate p level y) (enrollments s)\<rparr>))"
            unfolding rest py using True
            by (simp add: thenE_run require_run bindE_run updateOne_run row syncCourseEnrollments_run ret_run)
          then show ?thesis using sync_inv [OF inv1] by simp
        qed
      qed
    qed
  qed
qed

subsection \<open>Import\<close>

lemma importRow_inv: "steps (keeps enrolmentInv) (importRow localeDate now schoolId ps ys row) s"
  unfolding importRow_def orThrow_def by (intro step_rules inv.steps_case_option enrollStudent_inv)

lemma bulkEnrollStudents_inv: "steps (keeps enrolmentInv) (bulkEnrollStudents localeDate now schoolId rows) s"
  unfolding bulkEnrollStudents_def importStep_def by (intro step_rules importRow_inv)

section \<open>Sequences of requests\<close>

datatype enrolment_request =
    AddProgram program_dto | ChangeProgram id program_patch
  | AddYear year_dto | ChangeYear id year_patch
  | Enroll enroll_dto | ChangeEnrolment id enrollment_patch | ImportStudents "import_line list"

fun serveEnrolment ::
  "(nat \<Rightarrow> id) \<Rightarrow> (time \<Rightarrow> string) \<Rightarrow> time \<Rightarrow> id \<Rightarrow> enrolment_request \<Rightarrow> (db, unit) exec" where
  "serveEnrolment uuid localeDate now schoolId (AddProgram dto) = thenE (createProgram uuid schoolId dto) (ret ())"
| "serveEnrolment uuid localeDate now schoolId (ChangeProgram i dto) = thenE (updateProgram schoolId i dto) (ret ())"
| "serveEnrolment uuid localeDate now schoolId (AddYear dto) = thenE (createAcademicYear uuid schoolId dto) (ret ())"
| "serveEnrolment uuid localeDate now schoolId (ChangeYear i dto) = thenE (updateAcademicYear schoolId i dto) (ret ())"
| "serveEnrolment uuid localeDate now schoolId (Enroll dto) = thenE (enrollStudent localeDate now schoolId dto) (ret ())"
| "serveEnrolment uuid localeDate now schoolId (ChangeEnrolment i dto) = thenE (updateEnrollment schoolId i dto) (ret ())"
| "serveEnrolment uuid localeDate now schoolId (ImportStudents rows) =
     thenE (bulkEnrollStudents localeDate now schoolId rows) (ret ())"

primrec serveEnrolments ::
  "(nat \<Rightarrow> id) \<Rightarrow> (time \<Rightarrow> string) \<Rightarrow> (time \<times> id \<times> enrolment_request) list \<Rightarrow> db \<Rightarrow> db" where
  "serveEnrolments uuid localeDate [] s = s"
| "serveEnrolments uuid localeDate (q # qs) s =
     serveEnrolments uuid localeDate qs
       (snd (serveEnrolment uuid localeDate (fst q) (fst (snd q)) (snd (snd q)) s))"

text \<open>The validation of the bodies excludes a duration of zero years.\<close>

fun validEnrolment :: "enrolment_request \<Rightarrow> bool" where
  "validEnrolment (ChangeProgram i dto) \<longleftrightarrow> gp_durationYears dto \<noteq> Some 0"
| "validEnrolment _ \<longleftrightarrow> True"

lemma serveEnrolment_inv:
  "validEnrolment q \<Longrightarrow> steps (keeps enrolmentInv) (serveEnrolment uuid localeDate now schoolId q) s"
  by (cases q)
    (auto intro!: step_rules createProgram_inv updateProgram_inv createAcademicYear_inv updateAcademicYear_inv
       enrollStudent_inv updateEnrollment_inv bulkEnrollStudents_inv)

text \<open>
  C22. The registrations of the schools stay consistent over any sequence of requests of their
  administrators: the programme and the year of every registration exist and are of its school;
  the label of a registration of a living student is the one of its programme, level and year,
  also after these are renamed; the level of an ACTIVE registration of a living student never
  exceeds the duration of the programme, also after it is shortened; a school has at most one
  current year, and a student one registration per school.
\<close>

theorem registrations_consistent:
  assumes "enrolmentInv s" "list_all (\<lambda>q. validEnrolment (snd (snd q))) qs"
  shows "enrolmentInv (serveEnrolments uuid localeDate qs s)"
  using assms
proof (induction qs arbitrary: s)
  case (Cons q qs)
  have "enrolmentInv (snd (serveEnrolment uuid localeDate (fst q) (fst (snd q)) (snd (snd q)) s))"
    using serveEnrolment_inv [of "snd (snd q)" uuid localeDate "fst q" "fst (snd q)" s] Cons.prems
    by (simp add: steps_def keeps_def)
  with Cons show ?case by simp
qed simp

section \<open>What a registration does\<close>

lemma studentAccount_sound:
  assumes "studentAccount email s = Some x"
  shows "\<exists>u \<in> set (users s). u_email u = normalText email \<and> u_role u = Some ''STUDENT'' \<and>
    x \<in> set (students s) \<and> st_userId x = u_id u \<and> st_deletedAt x = None"
proof (cases "find (\<lambda>u. u_email u = normalText email) (users s)")
  case (Some u)
  then obtain y where y: "find (\<lambda>x. st_userId x = u_id u) (students s) = Some y"
    using assms by (cases "find (\<lambda>x. st_userId x = u_id u) (students s)") (simp_all add: studentAccount_def)
  with assms Some have "x = y" "u_role u = Some ''STUDENT''" "st_deletedAt y = None"
    by (auto simp: studentAccount_def split: if_splits)
  then show ?thesis using find_Some_in [OF Some] find_Some_in [OF y] by (intro bexI [of _ u]) auto
qed (use assms in \<open>simp add: studentAccount_def\<close>)

lemma filter_key:
  "distinct (map k xs) \<Longrightarrow> x \<in> set xs \<Longrightarrow> k x = i \<Longrightarrow> filter (\<lambda>x. k x = i) xs = [x]"
proof (induction xs)
  case (Cons y ys)
  show ?case
  proof (cases "k y = i")
    case True
    with Cons.prems have "y = x" by (auto simp: image_iff)
    moreover have "filter (\<lambda>x. k x = i) ys = []" using True Cons.prems(1) by (auto simp: filter_empty_conv image_iff)
    ultimately show ?thesis using True by simp
  qed (use Cons in auto)
qed simp

lemma filter_updated:
  "(\<And>x. P x \<Longrightarrow> P (f x)) \<Longrightarrow> filter P (update_rows P f xs) = map f (filter P xs)"
  "(\<And>x. P x \<Longrightarrow> P (f x)) \<Longrightarrow> filter (\<lambda>x. \<not> P x) (update_rows P f xs) = filter (\<lambda>x. \<not> P x) xs"
  by (induction xs) auto

text \<open>The registration is the one row of the student in the school; the others are untouched.\<close>

lemma register_rows:
  assumes "distinct (map enrollmentKey (enrollments s))"
  shows "filter (\<lambda>e. e_studentId e = sid \<and> e_schoolId e = school)
      (enrollments (snd (registerIn sid school p level y s))) =
    [\<lparr>e_studentId = sid, e_schoolId = school, e_programId = pr_id p, e_programLevel = level,
      e_academicYearId = y_id y, e_enrolledYear = enrollmentLabel (pr_name p) level (y_label y),
      e_status = ACTIVE\<rparr>]" (is "filter ?P _ = [?row]")
    and "filter (\<lambda>e. \<not> (e_studentId e = sid \<and> e_schoolId e = school))
      (enrollments (snd (registerIn sid school p level y s))) =
      filter (\<lambda>e. \<not> (e_studentId e = sid \<and> e_schoolId e = school)) (enrollments s)"
proof -
  let ?f = "reactivate p level y"
  have run: "enrollments (snd (registerIn sid school p level y s)) =
      (if \<exists>e \<in> set (enrollments s). ?P e then update_rows ?P ?f (enrollments s) else enrollments s @ [?row])"
    by (simp only: registerIn_def upsertRow_run reactivate_def [abs_def] snd_conv split: if_split) auto
  have P: "?P e \<Longrightarrow> ?P (?f e)" for e by (simp add: reactivate_def)
  show "filter ?P (enrollments (snd (registerIn sid school p level y s))) = [?row]"
  proof (cases "\<exists>e \<in> set (enrollments s). ?P e")
    case True
    then obtain e where e: "e \<in> set (enrollments s)" "e_studentId e = sid" "e_schoolId e = school" by blast
    then have "filter (\<lambda>e. enrollmentKey e = (sid, school)) (enrollments s) = [e]"
      by (intro filter_key [OF assms]) (simp_all add: enrollmentKey_def)
    then have "filter ?P (enrollments s) = [e]" by (simp add: enrollmentKey_def)
    moreover have "?f e = ?row" using e(2,3) by (cases e) (simp add: reactivate_def)
    ultimately show ?thesis using True filter_updated(1) [of ?P ?f "enrollments s"] P by (simp add: run)
  next
    case False
    then have "filter ?P (enrollments s) = []" by (auto simp: filter_empty_conv)
    moreover have "enrollments (snd (registerIn sid school p level y s)) = enrollments s @ [?row]"
      unfolding run using False by (rule if_not_P)
    ultimately show ?thesis by simp
  qed
  show "filter (\<lambda>e. \<not> ?P e) (enrollments (snd (registerIn sid school p level y s))) =
      filter (\<lambda>e. \<not> ?P e) (enrollments s)"
    using filter_updated(2) [of ?P ?f "enrollments s"] P unfolding run by simp
qed

lemma register_courses: "courses (snd (registerIn sid school p level y s)) = courses s"
  by (simp add: registerIn_def upsertRow_run)

text \<open>
  C23. Registering a student succeeds only within the registration period of the year, for an
  existing account with the role STUDENT and a student who is not deleted, in an active programme
  of the school and at a level that does not exceed its duration and, when the body was
  validated, is at least 1. The student then has exactly one registration in the school, ACTIVE,
  for that programme, level and year and with its label; the registrations of other students and
  schools are untouched; and his courses in the school are exactly the published courses of the
  programme at that level.
\<close>

theorem registration_admits:
  assumes "enrollStudent localeDate now schoolId dto s = (Inr x, t)"
    and "distinct (map enrollmentKey (enrollments s))"
  shows "x \<in> set (students s) \<and> st_deletedAt x = None \<and>
    (\<exists>u \<in> set (users s). u_email u = normalText (ed_email dto) \<and> u_role u = Some ''STUDENT'' \<and>
       st_userId x = u_id u) \<and>
    (\<exists>p \<in> set (programs s). \<exists>y \<in> set (schoolYears s).
      pr_id p = ed_programId dto \<and> pr_schoolId p = schoolId \<and> pr_isActive p \<and>
      ed_level dto \<le> pr_durationYears p \<and> (validEnrollDto dto \<longrightarrow> 1 \<le> ed_level dto) \<and>
      y_id y = ed_academicYearId dto \<and> y_schoolId y = schoolId \<and>
      y_enrollmentOpensAt y \<le> now \<and> now \<le> y_enrollmentClosesAt y \<and>
      filter (\<lambda>e. e_studentId e = st_id x \<and> e_schoolId e = schoolId) (enrollments t) =
        [\<lparr>e_studentId = st_id x, e_schoolId = schoolId, e_programId = pr_id p, e_programLevel = ed_level dto,
          e_academicYearId = y_id y, e_enrolledYear = enrollmentLabel (pr_name p) (ed_level dto) (y_label y),
          e_status = ACTIVE\<rparr>] \<and>
      filter (\<lambda>e. \<not> (e_studentId e = st_id x \<and> e_schoolId e = schoolId)) (enrollments t) =
        filter (\<lambda>e. \<not> (e_studentId e = st_id x \<and> e_schoolId e = schoolId)) (enrollments s) \<and>
      {i. \<lparr>ce_courseId = i, ce_studentId = st_id x\<rparr> \<in> set (courseEnrollments t) \<and> courseInSchool s schoolId i} =
      {c_id c |c. c \<in> set (courses s) \<and> matchingCourse schoolId (pr_id p) (ed_level dto) c})"
proof (cases rule: enrollStudent_cases [of localeDate now schoolId dto s])
  case 1
  with assms(1) show ?thesis by simp
next
  case (2 student y p)
  define s1 where "s1 = snd (registerIn (st_id student) schoolId p (ed_level dto) y s)"
  have x: "x = student" and t: "t = s1\<lparr>courseEnrollments := synced s1 (st_id x) schoolId (pr_id p) (ed_level dto)\<rparr>"
    using assms(1) 2(7) by (auto simp: s1_def syncCourseEnrollments_run)
  have py: "p \<in> set (programs s)" "pr_id p = ed_programId dto" "pr_schoolId p = schoolId" "pr_isActive p"
    "y \<in> set (schoolYears s)" "y_id y = ed_academicYearId dto" "y_schoolId y = schoolId"
    using find_Some_in [OF 2(3)] find_Some_in [OF 2(2)] by auto
  have cs: "courses s1 = courses s" by (simp add: s1_def register_courses)
  have inS: "courseInSchool s1 = courseInSchool s" by (simp add: courseInSchool_def fun_eq_iff cs)
  have es: "enrollments t = enrollments (snd (registerIn (st_id student) schoolId p (ed_level dto) y s))"
    by (simp add: t s1_def)
  note rows = register_rows [OF assms(2), of "st_id student" schoolId p "ed_level dto" y, folded es]
  have courses: "{i. \<lparr>ce_courseId = i, ce_studentId = st_id student\<rparr> \<in> set (courseEnrollments t) \<and> courseInSchool s schoolId i} =
      {c_id c |c. c \<in> set (courses s) \<and> matchingCourse schoolId (pr_id p) (ed_level dto) c}"
    by (auto simp: t x in_synced cs inS dest: matching_in_school)
  have level: "ed_level dto \<le> pr_durationYears p \<and> (validEnrollDto dto \<longrightarrow> 1 \<le> ed_level dto)"
    using 2(6) by (simp add: validEnrollDto_def)
  from studentAccount_sound [OF 2(1)] obtain u where u: "u \<in> set (users s)"
    "u_email u = normalText (ed_email dto)" "u_role u = Some ''STUDENT''" "student \<in> set (students s)"
    "st_userId student = u_id u" "st_deletedAt student = None" by blast
  show ?thesis
    unfolding x
    by (intro conjI bexI [OF _ u(1)] bexI [OF _ py(1)] bexI [OF _ py(5)])
      (rule u py level [THEN conjunct1] level [THEN conjunct2] 2(4) 2(5) rows courses)+
qed

section \<open>What an import does\<close>

lemma enrollStudent_frame:
  "steps (frames (\<lambda>s. (programs s, schoolYears s))) (enrollStudent localeDate now schoolId dto) s"
  unfolding steps_def frames_def
proof (cases rule: enrollStudent_cases [of localeDate now schoolId dto s])
  case 1
  then show "(programs (snd (enrollStudent localeDate now schoolId dto s)),
      schoolYears (snd (enrollStudent localeDate now schoolId dto s))) = (programs s, schoolYears s)" by auto
next
  case (2 student y p)
  have "programs (snd (registerIn sid sc p l y s)) = programs s \<and> schoolYears (snd (registerIn sid sc p l y s)) = schoolYears s"
    for sid sc p l y by (simp add: registerIn_def upsertRow_run)
  then show "(programs (snd (enrollStudent localeDate now schoolId dto s)),
      schoolYears (snd (enrollStudent localeDate now schoolId dto s))) = (programs s, schoolYears s)"
    by (simp add: 2(7) syncCourseEnrollments_run)
qed

lemma importRow_frame:
  "steps (frames (\<lambda>s. (programs s, schoolYears s))) (importRow localeDate now schoolId ps ys row) s"
  unfolding importRow_def orThrow_def by (intro step_rules frm.steps_case_option enrollStudent_frame)

lemma importStep_run:
  "importStep localeDate now schoolId ps ys acc row s =
     (case importRow localeDate now schoolId ps ys row s of
        (Inl e, t) \<Rightarrow> (Inr (fst acc, snd acc @ [(row, error_message e)]), t)
      | (Inr _, t) \<Rightarrow> (Inr (fst acc @ [ir_email row], snd acc), t))"
  by (simp add: importStep_def catchE_run thenE_run ret_run split: prod.split sum.split)

definition schoolPrograms :: "db \<Rightarrow> id \<Rightarrow> program_row list" where
  "schoolPrograms s schoolId = filter (\<lambda>p. pr_schoolId p = schoolId \<and> pr_isActive p) (programs s)"

definition yearsOfSchool :: "db \<Rightarrow> id \<Rightarrow> school_year_row list" where
  "yearsOfSchool s schoolId = filter (\<lambda>y. y_schoolId y = schoolId) (schoolYears s)"

lemma bulk_run:
  "bulkEnrollStudents localeDate now schoolId rows s =
     foldE (importStep localeDate now schoolId (schoolPrograms s schoolId) (yearsOfSchool s schoolId)) ([], []) rows s"
  by (simp add: bulkEnrollStudents_def bindE_run findMany_run schoolPrograms_def yearsOfSchool_def)

lemma bulk_one:
  "snd (bulkEnrollStudents localeDate now schoolId [row] s) =
     snd (importRow localeDate now schoolId (schoolPrograms s schoolId) (yearsOfSchool s schoolId) row s)"
  by (simp add: bulk_run bindE_run ret_run importStep_run split: prod.split sum.split)

lemma import_fold:
  assumes "schoolPrograms s schoolId = ps" "yearsOfSchool s schoolId = ys"
  shows "\<exists>ok failed. foldE (importStep localeDate now schoolId ps ys) acc rows s =
      (Inr (fst acc @ ok, snd acc @ failed),
       foldl (\<lambda>u row. snd (bulkEnrollStudents localeDate now schoolId [row] u)) s rows) \<and>
    mset ok + mset (map (\<lambda>f. ir_email (fst f)) failed) = mset (map ir_email rows)"
  using assms
proof (induction rows arbitrary: acc s)
  case Nil
  then show ?case by (simp add: ret_run)
next
  case (Cons row rows)
  obtain r s1 where one: "importRow localeDate now schoolId ps ys row s = (r, s1)" by fastforce
  have s1: "snd (bulkEnrollStudents localeDate now schoolId [row] s) = s1" using one by (simp add: bulk_one Cons.prems)
  have same: "schoolPrograms s1 schoolId = ps" "yearsOfSchool s1 schoolId = ys"
    using steps_framesD [OF importRow_frame one] Cons.prems by (simp_all add: schoolPrograms_def yearsOfSchool_def)
  define acc1 where "acc1 = (case r of Inl e \<Rightarrow> (fst acc, snd acc @ [(row, error_message e)])
      | Inr _ \<Rightarrow> (fst acc @ [ir_email row], snd acc))"
  have step: "importStep localeDate now schoolId ps ys acc row s = (Inr acc1, s1)"
    by (cases r) (simp_all add: importStep_run one acc1_def)
  obtain ok failed where IH: "foldE (importStep localeDate now schoolId ps ys) acc1 rows s1 =
      (Inr (fst acc1 @ ok, snd acc1 @ failed),
       foldl (\<lambda>u row. snd (bulkEnrollStudents localeDate now schoolId [row] u)) s1 rows)"
    "mset ok + mset (map (\<lambda>f. ir_email (fst f)) failed) = mset (map ir_email rows)"
    using Cons.IH [OF same, of acc1] by blast
  show ?case
  proof (cases r)
    case (Inl e)
    with IH step s1 show ?thesis
      by (intro exI [of _ ok] exI [of _ "(row, error_message e) # failed"]) (simp add: bindE_run acc1_def)
  next
    case (Inr u)
    with IH step s1 show ?thesis
      by (intro exI [of _ "ir_email row # ok"] exI [of _ failed]) (simp add: bindE_run acc1_def)
  qed
qed

text \<open>
  Importing a file is importing its rows one after the other, each on its own: the database
  is left as by the separate imports, a row that fails stops none of the others, and the answer
  has every row exactly once, among the successes or among the failures with a reason. Reading
  the programmes and years once, before the first row, makes no difference.
\<close>

theorem import_is_rowwise:
  "\<exists>ok failed. bulkEnrollStudents localeDate now schoolId rows s =
      (Inr (ok, failed), foldl (\<lambda>u row. snd (bulkEnrollStudents localeDate now schoolId [row] u)) s rows) \<and>
    mset ok + mset (map (\<lambda>f. ir_email (fst f)) failed) = mset (map ir_email rows)"
  using import_fold [where s = s and schoolId = schoolId and acc = "([], [])" and rows = rows, OF refl refl] by (simp add: bulk_run)

section \<open>Lists of students\<close>

text \<open>\<open>search?.trim().split(/\s+/).filter(Boolean)\<close>\<close>

fun splitSpaces :: "string \<Rightarrow> string \<Rightarrow> string list" where
  "splitSpaces w [] = [w]"
| "splitSpaces w (c # cs) = (if isSpace c then w # splitSpaces [] cs else splitSpaces (w @ [c]) cs)"

definition searchTerms :: "string option \<Rightarrow> string list" where
  "searchTerms search = (case search of None \<Rightarrow> [] | Some q \<Rightarrow> filter (\<lambda>w. w \<noteq> []) (splitSpaces [] (trim q)))"

definition emailOf :: "db \<Rightarrow> student_row \<Rightarrow> string" where
  "emailOf s x = (case find (\<lambda>u. u_id u = st_userId x) (users s) of None \<Rightarrow> [] | Some u \<Rightarrow> u_email u)"

definition matchesSearch :: "db \<Rightarrow> string list \<Rightarrow> student_row \<Rightarrow> bool" where
  "matchesSearch s terms x =
     list_all (\<lambda>w. containsInsensitive (st_firstName x) w \<or> containsInsensitive (st_lastName x) w \<or>
                    containsInsensitive (emailOf s x) w) terms"

definition name_order :: "student_row \<Rightarrow> student_row \<Rightarrow> bool" where
  "name_order a b \<longleftrightarrow>
     st_lastName a < st_lastName b \<or> (st_lastName a = st_lastName b \<and> st_firstName a \<le> st_firstName b)"

definition studentOf :: "db \<Rightarrow> enrollment_row \<Rightarrow> student_row option" where
  "studentOf s e = find (\<lambda>x. st_id x = e_studentId e) (students s)"

text \<open>The active registrations that match, with their students, ordered by name.\<close>

definition enrolledRows ::
  "db \<Rightarrow> (enrollment_row \<Rightarrow> bool) \<Rightarrow> string list \<Rightarrow> (enrollment_row \<times> student_row) list" where
  "enrolledRows s P terms =
     sort_by (\<lambda>a b. name_order (snd a) (snd b))
       (filter (\<lambda>(e, x). st_deletedAt x = None \<and> matchesSearch s terms x)
         (List.map_filter (\<lambda>e. map_option (Pair e) (studentOf s e))
           (filter (\<lambda>e. e_status e = ACTIVE \<and> P e) (enrollments s))))"

definition getAllEnrolledStudents ::
  "int option \<Rightarrow> int option \<Rightarrow> string option \<Rightarrow> id option \<Rightarrow> (db, (enrollment_row \<times> student_row) page) exec" where
  "getAllEnrolledStudents page limit search schoolId =
     bindE (asks (\<lambda>s. enrolledRows s (\<lambda>e. truthy schoolId \<longrightarrow> Some (e_schoolId e) = schoolId) (searchTerms search)))
       (paginate (clampPage page) (clampLimit 20 limit))"

definition getEnrolledStudents ::
  "id \<Rightarrow> int option \<Rightarrow> int option \<Rightarrow> string option \<Rightarrow> (db, (enrollment_row \<times> student_row) page) exec" where
  "getEnrolledStudents schoolId page limit search =
     bindE (asks (\<lambda>s. enrolledRows s (\<lambda>e. e_schoolId e = schoolId) (searchTerms search)))
       (paginate (clampPage page) (clampLimit 20 limit))"

record student_detail =
  sd_student :: student_row
  sd_program :: "program_row option"
  sd_academicYear :: "school_year_row option"
  sd_enrollment :: enrollment_row

definition getStudentDetail :: "id \<Rightarrow> id \<Rightarrow> (db, student_detail) exec" where
  "getStudentDetail schoolId studentId =
     bindE (findOr enrollments (\<lambda>e. e_studentId e = studentId \<and> e_schoolId e = schoolId)
              (NotFound ''Etudiant inscrit introuvable'')) (\<lambda>e.
     bindE (asks (\<lambda>s. studentOf s e)) (\<lambda>found.
     bindE (orThrow found (NotFound ''Etudiant inscrit introuvable'')) (\<lambda>x.
     thenE (require (st_deletedAt x = None) (NotFound ''Etudiant inscrit introuvable''))
     (asks (\<lambda>s. \<lparr>sd_student = x, sd_program = programOf s e, sd_academicYear = yearOf s e, sd_enrollment = e\<rparr>)))))"

definition getStudentClasses :: "id \<Rightarrow> (db, string list) exec" where
  "getStudentClasses schoolId =
     bindE (findMany enrollments (\<lambda>e. e_schoolId e = schoolId \<and> e_status e = ACTIVE)) (\<lambda>rows.
     ret (sort (uniq (map e_enrolledYear rows))))"

definition getReportByClass :: "id \<Rightarrow> (db, (string \<times> nat) list) exec" where
  "getReportByClass schoolId =
     bindE (findMany enrollments (\<lambda>e. e_schoolId e = schoolId \<and> e_status e = ACTIVE)) (\<lambda>rows.
     ret (sort_key fst (groupCount e_enrolledYear rows)))"

text \<open>
  The report by class counts every active registration of the school once, under the label that
  the list of classes shows for it.
\<close>

lemma report_by_class:
  "getReportByClass schoolId s = (Inr report, t) \<Longrightarrow>
     t = s \<and>
     sum_list (map snd report) = count_rows (\<lambda>e. e_schoolId e = schoolId \<and> e_status e = ACTIVE) (enrollments s)"
proof -
  assume run: "getReportByClass schoolId s = (Inr report, t)"
  define rows where "rows = filter (\<lambda>e. e_schoolId e = schoolId \<and> e_status e = ACTIVE) (enrollments s)"
  have rep: "report = sort_key fst (groupCount e_enrolledYear rows)" "t = s"
    using run by (auto simp: getReportByClass_def bindE_run findMany_run ret_run rows_def)
  have "sum_mset (mset (map snd report)) = sum_mset (mset (map snd (groupCount e_enrolledYear rows)))"
    by (simp add: rep)
  then have "sum_list (map snd report) = sum_list (map snd (groupCount e_enrolledYear rows))"
    by (metis sum_mset_sum_list)
  with rep(2) show ?thesis by (simp add: sum_groupCount rows_def count_rows_def)
qed

section \<open>Documents and export\<close>

definition documentMatches :: "db \<Rightarrow> id \<Rightarrow> string option \<Rightarrow> string option \<Rightarrow> string list \<Rightarrow> document_row \<Rightarrow> bool" where
  "documentMatches s schoolId classLabel type terms d \<longleftrightarrow>
     d_deletedAt d = None \<and> (truthy type \<longrightarrow> Some (d_type d) = type) \<and>
     list_ex (\<lambda>x. st_id x = d_studentId d \<and> st_deletedAt x = None \<and>
        activeIn s schoolId (\<lambda>e. truthy classLabel \<longrightarrow> Some (e_enrolledYear e) = classLabel) x \<and>
        list_all (\<lambda>w. containsInsensitive (st_firstName x) w \<or> containsInsensitive (st_lastName x) w) terms)
       (students s)"

definition documentView :: "db \<Rightarrow> id \<Rightarrow> document_row \<Rightarrow> document_row \<times> student_row option \<times> string option" where
  "documentView s schoolId d =
     (d, find (\<lambda>x. st_id x = d_studentId d) (students s),
      map_option e_enrolledYear
        (find (\<lambda>e. e_studentId e = d_studentId d \<and> e_schoolId e = schoolId) (enrollments s)))"

definition getStudentDocuments ::
  "id \<Rightarrow> int option \<Rightarrow> int option \<Rightarrow> string option \<Rightarrow> string option \<Rightarrow> string option
    \<Rightarrow> (db, (document_row \<times> student_row option \<times> string option) page) exec" where
  "getStudentDocuments schoolId page limit classLabel type search =
     thenE (require (truthy type \<longrightarrow>
                       list_ex (\<lambda>k. type = Some k) [''CV'', ''LETTER'', ''ID'', ''DIPLOMA'', ''PHOTO'', ''OTHER''])
              (BadRequest ''Type de document invalide''))
     (bindE (asks (\<lambda>s. map (documentView s schoolId)
               (orderDesc d_uploadedAt
                 (filter (documentMatches s schoolId classLabel type (searchTerms search)) (documents s)))))
        (paginate (clampPage page) (clampLimit 20 limit)))"

definition studentsCsv :: "id \<Rightarrow> (db, string) exec" where
  "studentsCsv schoolId =
     asks (\<lambda>s. schoolCsv
       [''Prenom'', ''Nom'', ''E-mail'', ''Telephone'', ''Ville'', ''Annee d'inscription'']
       (map (\<lambda>(e, x). [Some (st_firstName x), Some (st_lastName x), Some (emailOf s x), st_phone x, st_city x,
                       Some (e_enrolledYear e)])
          (enrolledRows s (\<lambda>e. e_schoolId e = schoolId) [])))"

section \<open>Examples\<close>

definition sample_registry :: db where
  "sample_registry =
     empty_db\<lparr>users := [sample_user ''u1'' ''STUDENT''], students := [sample_pupil ''st1'' ''u1''],
       programs := [\<lparr>pr_id = ''p1'', pr_schoolId = ''sc1'', pr_name = ''Info'', pr_durationYears = 3,
                     pr_isActive = True, pr_diploma = ''Licence''\<rparr>],
       schoolYears := [\<lparr>y_id = ''y1'', y_schoolId = ''sc1'', y_label = ''2026'', y_isCurrent = True,
                        y_enrollmentOpensAt = 0, y_enrollmentClosesAt = 100\<rparr>],
       courses := [sample_course ''c1'' ''sc1'' True]\<rparr>"

definition sample_enroll :: enroll_dto where
  "sample_enroll =
     \<lparr>ed_email = '' U1@get.mg'', ed_programId = ''p1'', ed_level = 1, ed_academicYearId = ''y1''\<rparr>"

definition sample_rename :: program_patch where
  "sample_rename =
     \<lparr>gp_name = Some ''Maths'', gp_diploma = None, gp_durationYears = Some 2, gp_isActive = None\<rparr>"

lemma sample_email: "normalText '' U1@get.mg'' = ''u1@get.mg''"
  by code_simp

lemma sample_enrolled:
  "\<exists>t. enrollStudent (\<lambda>_. []) 5 ''sc1'' sample_enroll sample_registry = (Inr (sample_pupil ''st1'' ''u1''), t)"
  by (simp add: enrollStudent_def bindE_run asks_run orThrow_run findOr_run thenE_run require_run studentAccount_def
      sample_email sample_enroll_def sample_registry_def empty_db_def sample_user_def sample_pupil_def
      registerIn_def upsertRow_run syncCourseEnrollments_run ret_run)

theorem registrations_consistent_witness:
  "enrolmentInv (serveEnrolments sample_uuid (\<lambda>_. [])
     [(5, ''sc1'', Enroll sample_enroll), (6, ''sc1'', ChangeProgram ''p1'' sample_rename)] sample_registry)"
proof -
  have "enrolmentInv sample_registry"
    by (simp add: enrolmentInv_def keysOk_def oneCurrent_def sample_registry_def empty_db_def)
  then show ?thesis by (rule registrations_consistent) (simp add: sample_rename_def)
qed

theorem registration_admits_witness:
  "\<exists>t. enrollStudent (\<lambda>_. []) 5 ''sc1'' sample_enroll sample_registry = (Inr (sample_pupil ''st1'' ''u1''), t) \<and>
     map e_status (filter (\<lambda>e. e_studentId e = ''st1'' \<and> e_schoolId e = ''sc1'') (enrollments t)) = [ACTIVE]"
proof -
  obtain t where t: "enrollStudent (\<lambda>_. []) 5 ''sc1'' sample_enroll sample_registry = (Inr (sample_pupil ''st1'' ''u1''), t)"
    using sample_enrolled by blast
  have "distinct (map enrollmentKey (enrollments sample_registry))"
    by (simp add: sample_registry_def empty_db_def)
  from registration_admits [OF t this] t show ?thesis by (auto simp: sample_pupil_def)
qed

end
