(* ===== verification/Spec2Isabelle.thy ===== *)
theory Spec2Isabelle
  imports Platform Schedule_Generation Student_Space Reference_Data Ministry Messages Encryption Receipts School_Enrollment
begin

text \<open>
  Verification of the backend services of the GET platform (\<open>src/backend/src/modules\<close>): a
  national portal where students apply to the offers of schools, schools decide, students pay and
  are registered, and schools run their year (programmes, registrations, courses, timetables,
  announcements). The backend is a NestJS application: controllers check the request bodies and
  the caller's role, services hold the logic, and every service works on one PostgreSQL database
  through Prisma. The development models the services, operation by operation.

  \<^bold>\<open>How the code is modelled.\<close> A service method is a function of type \<open>(db, 'a) exec\<close> (theory
  Prelude): from a database to an exception or a result, and the database it leaves; writes made
  before an exception stay, \<open>transact\<close> undoes them. The database is the record \<open>db\<close> of theory
  Schema, one list of rows per table of \<open>schema.prisma\<close>; the Prisma calls are the operations of
  theory Queries, with the unique keys, exclusion constraints and cascades of the tables written
  out where a method relies on them. Every table satisfies the locale \<open>prisma_table\<close>. A request
  runs alone, except where concurrency is the point: theory Platform interleaves the two phases of
  payment confirmations with all other requests, and lemma \<open>concurrent_cancellations_overbook\<close> of
  theory Applications runs two decisions against each other. Message texts are the source's with
  accents and typographic symbols in ASCII; instants are milliseconds, \<open>now\<close> is one reading of the
  clock per request; an amount or a mark is a rational number.

  \<^bold>\<open>Parts.\<close>

  \<^item> \<open>Prelude\<close>, \<open>Queries\<close>, \<open>Schema\<close>, \<open>Two_State\<close>, \<open>Text\<close>, \<open>Pagination\<close>, \<open>Clock\<close>: the monad, the
    database operations, the tables, two-state reasoning (locale \<open>two_state\<close>, whose rules
    \<open>step_rules\<close> carry invariants and frames through whole handlers), the text functions of
    JavaScript, the page windows, and times of day.
  \<^item> \<open>Application_Status\<close>, \<open>Applications\<close>: \<open>application/\<close>. The status machine and all operations of
    \<open>ApplicationService\<close>. Shown: histories follow the machine, capacity is never exceeded (one
    request at a time), the waiting list is served in order, decisions are atomic, acceptance
    registers or records that it could not, only the school's administrators decide.
  \<^item> \<open>Enrollment\<close>: \<open>SchoolService.syncCourseEnrollments\<close> and the registration shared by
    applications and payments. Shown: the courses of a registered student are exactly those of
    the programme and level.
  \<^item> \<open>Payments\<close>, \<open>Platform\<close>, \<open>Receipts\<close>, \<open>Pdf\<close>: \<open>payment/\<close>. Initiation, webhooks, reconciliation,
    refunds, and the receipt down to the bytes of its PDF file. Shown: under any interleaving money
    is booked once, completed payments stay completed, the ledger and the refunds only grow, and
    payments only move accepted applications to enrolled; the file is well formed and shows its lines.
  \<^item> \<open>Notifications\<close>, \<open>Audit_Log\<close>: \<open>notification/\<close>, \<open>audit/\<close>. Shown: production mail is never faked;
    what is recorded and counted.
  \<^item> \<open>Announcements\<close>: \<open>announcement/\<close> and the announcement operations of \<open>school.service.ts\<close>. Shown:
    all or nothing, only the school's own people, broadcasts come back as one entry.
  \<^item> \<open>School_Enrollment\<close>: programmes, academic years, registrations, import, student lists of
    \<open>school.service.ts\<close>. Shown: registrations stay consistent over any requests; who is admitted;
    an import is its rows.
  \<^item> \<open>Teacher_Availability\<close>, \<open>Course_Slots\<close>, \<open>Scheduling\<close>, \<open>Schedule_Generation\<close>:
    \<open>teacher-availability/\<close>, the courses and lessons of \<open>school.service.ts\<close>, \<open>scheduling.service.ts\<close>,
    \<open>schedule-generation.service.ts\<close>. Shown: the availability check is the intended test on
    intervals; the timetable and the grid never have conflicts; needs, their teachers and the courses
    generated for them refer to rows of their school; generation creates no conflict,
    never more lessons than asked and reports what it could not place.
  \<^item> \<open>Authentication\<close>: \<open>auth/\<close>. Registration, login, second factor, refresh sessions, password reset.
    Shown: lockout, single-use tokens, the second factor cannot be skipped.
  \<^item> \<open>Storage\<close>, \<open>Protected_Uploads\<close>, \<open>Encryption\<close>: \<open>common/services/storage.service.ts\<close> and
    \<open>encryption.service.ts\<close>, \<open>common/middleware/protected-uploads.middleware.ts\<close>. The S3 store is a
    table of objects beside the database tables; \<open>transactDb\<close> undoes the tables and not the store.
    Shown: which files are accepted, where they land, that a deleted image leaves nothing, and that
    private files are only served to those entitled to them.
  \<^item> \<open>Messages\<close>: \<open>message/\<close>. Shown: one conversation per pair of users, threads are private, a
    message and its attachments are written together, the counters of unread messages agree.
  \<^item> \<open>Coursework\<close>: \<open>teaching/\<close>. Chapters, resources, attendance, evaluations, grades, homework.
    Shown: teachers change nothing in the courses of others, the attendance register refines a map,
    and the positions of chapters can block a course.
  \<^item> \<open>Student_Space\<close>: \<open>student/\<close>. Profile, documents, homework, orientation. Shown, over the theories
    of storage and files: an uploaded document opens and a deleted one is gone, a grade locks a
    homework, encrypted columns come back, and the file of a homework opens for nobody.
  \<^item> \<open>Reference_Data\<close>: \<open>offer/\<close>, \<open>fee-bracket/\<close>, \<open>academic-year/\<close>, \<open>platform-city/\<close>,
    \<open>financial-partner/\<close>, \<open>competition/\<close>, \<open>user/\<close>, \<open>system-settings/\<close>, \<open>admin-dashboard/\<close>. Shown: the
    reference data stays well formed over any requests, a school's offers are changed by its
    managers only, and a slug is never free again.
  \<^item> \<open>Ministry\<close>: \<open>ministry/ministry.service.ts\<close>. Shown: the incremental breakdowns are the classes of
    the counted rows, no statistic depends on who the students are, and a stored report is frozen.
  \<^item> \<open>Csv\<close>, \<open>Report_Export\<close>: the CSV of \<open>school.service.ts\<close> and \<open>ministry/report-exporter.ts\<close>. Shown:
    what is exported is what a reader of the format gets back, and no cell is a formula.

  \<^bold>\<open>Parameters.\<close> Code outside the repository is an argument of the definitions: the payment
  provider and its signatures (\<open>pay_env\<close>), the mail provider (\<open>mail_config\<close>), bcrypt, SHA-256, JWT,
  TOTP and random values (\<open>auth_env\<close>), identifiers (\<open>uuid\<close>), the S3
  service (\<open>store_env\<close>: its refusals, its random names and signed addresses), AES-256-GCM
  (\<open>cipher_env\<close>), local formatting of dates and amounts,
  collation of names, Unicode decomposition, the serialisation failures of PostgreSQL
  (\<open>conflict\<close>). A statement that relies on their behaviour has it as a hypothesis, and its witness
  instantiates the parameter.

  \<^bold>\<open>Fuel.\<close> No definition uses fuel: loops of the source run over lists and are structural
  recursions or folds.

  \<^bold>\<open>Not modelled.\<close> Controllers, decorators, filters and modules (HTTP glue: the validation of
  request bodies appears as hypotheses where a property needs it), the user interface, the seed
  data, the n8n workflows, and of the tables the columns that no modelled operation reads or writes. Foreign keys are checked in
  the definitions where a method depends on the refusal; elsewhere the rows referred to are
  assumed to exist, which the statement says.
\<close>

end
